(* ===== verification/Prelude.thy ===== *)
theory Prelude
  imports Complex_Main "HOL-Library.Multiset" "HOL-Library.Sublist" "HOL-Library.Char_ord"
    "HOL-Library.List_Lexorder" "HOL-Library.Word"
begin

text \<open>
  Shared vocabulary of the development: Go's 64-bit signed integers with their wrap-around, times
  and durations as nanosecond counts, the string functions of Go's standard library that the
  sources call, string lists without repetition, and stable sorting. A Go \<open>string\<close> is a byte
  sequence, and so is HOL's \<^typ>\<open>string\<close> (a list of 8-bit characters); the lexicographic order of
  \<open>List_Lexorder\<close> over \<open>Char_ord\<close> is Go's byte-wise string order.

  Stable sorting is specified by the locale \<open>strict_weak\<close>: under its laws any stable sort
  returns the same list (\<open>sort_stable_unique\<close>), so the insertion sort used in the model computes
  what \<open>sort.SliceStable\<close> and \<open>slices.SortStableFunc\<close> compute for the comparison functions that
  are shown to be strict weak orders.
\<close>

named_theorems go_simps \<open>facts that evaluate the Go primitives of the model\<close>

section \<open>Integers, times and durations\<close>

text \<open>
  An \<open>int64\<close> (and the 64-bit \<open>int\<close>) is an integer; every addition, subtraction or multiplication
  that the source performs on it goes through \<open>wrap64\<close>, the two's complement reading of the low
  64 bits.
\<close>

type_synonym int64 = int
type_synonym time = int
type_synonym duration = int

definition wrap64 :: "int \<Rightarrow> int64" where
  "wrap64 x = (x + 2 ^ 63) mod 2 ^ 64 - 2 ^ 63"

definition in64 :: "int \<Rightarrow> bool" where
  "in64 x \<longleftrightarrow> - (2 ^ 63) \<le> x \<and> x < 2 ^ 63"

definition add64 :: "int64 \<Rightarrow> int64 \<Rightarrow> int64" where
  "add64 a b = wrap64 (a + b)"

definition sub64 :: "int64 \<Rightarrow> int64 \<Rightarrow> int64" where
  "sub64 a b = wrap64 (a - b)"

definition mul64 :: "int64 \<Rightarrow> int64 \<Rightarrow> int64" where
  "mul64 a b = wrap64 (a * b)"

text \<open>Go's integer division truncates towards zero.\<close>

definition quot64 :: "int64 \<Rightarrow> int64 \<Rightarrow> int64" where
  "quot64 a b = wrap64 (sgn a * sgn b * (\<bar>a\<bar> div \<bar>b\<bar>))"

lemma wrap64_in64: "in64 (wrap64 x)"
proof -
  have "0 \<le> (x + 2 ^ 63) mod 2 ^ 64" "(x + 2 ^ 63) mod 2 ^ 64 < (2 ^ 64 :: int)"
    by simp_all
  then show ?thesis by (simp add: in64_def wrap64_def)
qed

lemma wrap64_id: "in64 x \<Longrightarrow> wrap64 x = x"
  by (simp add: in64_def wrap64_def)

lemma wrap64_mod: "wrap64 x mod 2 ^ 64 = x mod 2 ^ 64"
  by (simp add: wrap64_def mod_diff_left_eq)

lemma wrap64_cong: "x mod 2 ^ 64 = y mod 2 ^ 64 \<Longrightarrow> wrap64 x = wrap64 y"
  unfolding wrap64_def by (metis mod_add_left_eq)

lemma wrap64_add_left: "wrap64 (wrap64 a + b) = wrap64 (a + b)"
  by (rule wrap64_cong) (metis mod_add_left_eq wrap64_mod)

lemma wrap64_add_right: "wrap64 (a + wrap64 b) = wrap64 (a + b)"
  by (rule wrap64_cong) (metis mod_add_right_eq wrap64_mod)

lemma wrap64_idem: "wrap64 (wrap64 a) = wrap64 a"
  by (simp add: wrap64_id wrap64_in64)

lemma wrap64_diff_left: "wrap64 (wrap64 a - b) = wrap64 (a - b)"
  by (rule wrap64_cong) (metis mod_diff_left_eq wrap64_mod)

lemma wrap64_diff_right: "wrap64 (a - wrap64 b) = wrap64 (a - b)"
  by (rule wrap64_cong) (metis mod_diff_right_eq wrap64_mod)

lemmas wrap64_pull = wrap64_add_left wrap64_add_right wrap64_diff_left wrap64_diff_right wrap64_idem

lemma wrap64_sum5:
  "wrap64 (wrap64 a + wrap64 b + wrap64 c + wrap64 d + wrap64 e) = wrap64 (a + b + c + d + e)"
proof -
  have *: "wrap64 (x + wrap64 y) = wrap64 (wrap64 x + y)" for x y
    by (simp add: wrap64_pull)
  show ?thesis by (metis * add.assoc add.commute wrap64_add_right)
qed

lemma add64_id: "in64 (a + b) \<Longrightarrow> add64 a b = a + b"
  by (simp add: add64_def wrap64_id)

lemma sub64_id: "in64 (a - b) \<Longrightarrow> sub64 a b = a - b"
  by (simp add: sub64_def wrap64_id)

text \<open>The difference of two values in the same half of the range never wraps.\<close>

lemma sub64_nonneg: "0 \<le> a \<Longrightarrow> 0 \<le> b \<Longrightarrow> in64 a \<Longrightarrow> in64 b \<Longrightarrow> sub64 a b = a - b"
  by (rule sub64_id) (auto simp: in64_def)

definition sum64 :: "int64 list \<Rightarrow> int64" where
  "sum64 xs = foldl add64 0 xs"

lemma foldl_add64: "foldl add64 a xs = (if xs = [] then a else wrap64 (a + sum_list xs))"
proof (induction xs arbitrary: a)
  case Nil
  then show ?case by simp
next
  case (Cons x xs)
  show ?case
    unfolding foldl_Cons Cons.IH by (simp add: add64_def wrap64_pull add.assoc)
qed

lemma sum64_wrap: "sum64 xs = wrap64 (sum_list xs)"
  by (simp add: sum64_def foldl_add64 wrap64_id in64_def)

text \<open>A loop that adds one summand per round to a projection of its state.\<close>

lemma fold_wrap64:
  assumes step: "\<And>st x. p (f st x) = wrap64 (p st + g x) \<or> p (f st x) = p st \<and> g x = 0" and "in64 (p st)"
  shows "p (foldl f st xs) = wrap64 (p st + sum_list (map g xs))"
  using assms(2)
proof (induction xs arbitrary: st)
  case (Cons x xs)
  have "in64 (p (f st x))" using step [of st x] Cons.prems wrap64_in64 by metis
  then have "p (foldl f (f st x) xs) = wrap64 (p (f st x) + sum_list (map g xs))" by (rule Cons.IH)
  then show ?case using step [of st x] by (auto simp: wrap64_pull add.assoc)
qed (simp add: wrap64_id)

lemma fold_wrap64_zero:
  assumes "p st = 0" "\<And>st x. p (f st x) = wrap64 (p st + g x) \<or> p (f st x) = p st \<and> g x = 0"
  shows "p (foldl f st xs) = wrap64 (sum_list (map g xs))"
  using fold_wrap64 [of p f g st xs] assms by (simp add: in64_def)

section \<open>Option and list basics\<close>

text \<open>The first error of a sequence of checks, in the order the source performs them.\<close>

fun first_some :: "'e option list \<Rightarrow> 'e option" where
  "first_some [] = None"
| "first_some (None # xs) = first_some xs"
| "first_some (Some e # xs) = Some e"

definition check :: "bool \<Rightarrow> 'e \<Rightarrow> 'e option" where
  "check b e = (if b then Some e else None)"

lemma check_None [simp]: "check b e = None \<longleftrightarrow> \<not> b"
  by (simp add: check_def)

lemma check_Some [simp]: "check b e = Some x \<longleftrightarrow> b \<and> e = x"
  by (simp add: check_def)

lemma first_some_None [simp]: "first_some xs = None \<longleftrightarrow> set xs \<subseteq> {None}"
  by (induction xs rule: first_some.induct) auto

lemma first_some_SomeD: "first_some xs = Some e \<Longrightarrow> Some e \<in> set xs"
  by (induction xs rule: first_some.induct) auto

lemma first_some_Cons: "first_some (x # xs) = (case x of None \<Rightarrow> first_some xs | Some e \<Rightarrow> Some e)"
  by (cases x) auto

section \<open>Strings\<close>

text \<open>\<open>strings.TrimSpace\<close> on ASCII input: the bytes Go's \<open>asciiSpace\<close> table names.\<close>

definition is_space :: "char \<Rightarrow> bool" where
  "is_space c \<longleftrightarrow> c \<in> {CHR '' '', CHR 0x09, CHR 0x0A, CHR 0x0B, CHR 0x0C, CHR 0x0D}"

definition trim_space :: "string \<Rightarrow> string" where
  "trim_space s = rev (dropWhile is_space (rev (dropWhile is_space s)))"

definition to_lower_char :: "char \<Rightarrow> char" where
  "to_lower_char c = (let n = of_char c :: nat in
     if 65 \<le> n \<and> n \<le> 90 then char_of (n + 32) else c)"

definition to_lower :: "string \<Rightarrow> string" where
  "to_lower s = map to_lower_char s"

text \<open>\<open>strings.Contains\<close>, \<open>strings.HasPrefix\<close>, \<open>strings.HasSuffix\<close>.\<close>

fun contains_str :: "string \<Rightarrow> string \<Rightarrow> bool" where
  "contains_str [] sub \<longleftrightarrow> sub = []"
| "contains_str (c # s) sub \<longleftrightarrow> prefix sub (c # s) \<or> contains_str s sub"

text \<open>\<open>strconv.Itoa\<close> and the \<open>%d\<close> verb.\<close>

definition digit_char :: "nat \<Rightarrow> char" where
  "digit_char d = char_of (48 + d)"

fun show_nat :: "nat \<Rightarrow> string" where
  "show_nat n = (if n < 10 then [digit_char n] else show_nat (n div 10) @ [digit_char (n mod 10)])"

declare show_nat.simps [simp del]

definition show_int :: "int \<Rightarrow> string" where
  "show_int i = (if i < 0 then CHR ''-'' # show_nat (nat (- i)) else show_nat (nat i))"

lemma digit_char_inj: "a < 10 \<Longrightarrow> b < 10 \<Longrightarrow> digit_char a = digit_char b \<Longrightarrow> a = b"
  by (auto simp: digit_char_def dest!: arg_cong [where f = "of_char :: char \<Rightarrow> nat"])

lemma show_nat_last: "last (show_nat n) = digit_char (n mod 10)"
  by (subst show_nat.simps) auto

lemma show_nat_nonempty [simp]: "show_nat n \<noteq> []"
  by (subst show_nat.simps) auto

lemma show_nat_butlast: "butlast (show_nat n) = (if n < 10 then [] else show_nat (n div 10))"
  by (subst show_nat.simps) auto

lemma show_nat_inj: "show_nat m = show_nat n \<Longrightarrow> m = n"
proof (induction m arbitrary: n rule: less_induct)
  case (less m)
  have d: "m mod 10 = n mod 10"
    using arg_cong [OF less.prems, where f = last] by (simp add: show_nat_last digit_char_inj)
  have b: "(if m < 10 then [] else show_nat (m div 10)) = (if n < 10 then [] else show_nat (n div 10))"
    using arg_cong [OF less.prems, where f = butlast] by (simp add: show_nat_butlast)
  show ?case
  proof (cases "m < 10")
    case True
    with b have "n < 10" by (metis show_nat_nonempty)
    with True d show ?thesis by simp
  next
    case False
    with b have "\<not> n < 10" "show_nat (m div 10) = show_nat (n div 10)"
      by (metis show_nat_nonempty)+
    with False less.IH [of "m div 10" "n div 10"] have "m div 10 = n div 10" by simp
    with d show ?thesis by (metis div_mult_mod_eq)
  qed
qed

section \<open>String lists without repetition\<close>

text \<open>
  \<open>unique\<close> of scoring.go and \<open>uniqueStrings\<close> of engine.go have the same body: a \<open>seen\<close> set,
  empty strings skipped, first occurrences kept in order.
\<close>

fun unique_from :: "string list \<Rightarrow> string list \<Rightarrow> string list" where
  "unique_from seen [] = []"
| "unique_from seen (v # vs) =
     (if v = [] then unique_from seen vs
      else if v \<in> set seen then unique_from seen vs
      else v # unique_from (v # seen) vs)"

lemma set_unique_from: "set (unique_from seen vs) = {v \<in> set vs. v \<noteq> [] \<and> v \<notin> set seen}"
  by (induction seen vs rule: unique_from.induct) auto

lemma distinct_unique_from: "distinct (unique_from seen vs)"
  by (induction seen vs rule: unique_from.induct) (auto simp: set_unique_from)

lemma unique_from_id: "distinct vs \<Longrightarrow> [] \<notin> set vs \<Longrightarrow> set vs \<inter> set seen = {} \<Longrightarrow> unique_from seen vs = vs"
  by (induction seen vs rule: unique_from.induct) auto

section \<open>Stable sorting\<close>

fun insert_stable :: "('a \<Rightarrow> 'a \<Rightarrow> bool) \<Rightarrow> 'a \<Rightarrow> 'a list \<Rightarrow> 'a list" where
  "insert_stable lt x [] = [x]"
| "insert_stable lt x (y # ys) = (if lt y x then y # insert_stable lt x ys else x # y # ys)"

fun sort_stable :: "('a \<Rightarrow> 'a \<Rightarrow> bool) \<Rightarrow> 'a list \<Rightarrow> 'a list" where
  "sort_stable lt [] = []"
| "sort_stable lt (x # xs) = insert_stable lt x (sort_stable lt xs)"

lemma mset_insert_stable [simp]: "mset (insert_stable lt x xs) = add_mset x (mset xs)"
  by (induction xs) auto

lemma mset_sort_stable [simp]: "mset (sort_stable lt xs) = mset xs"
  by (induction xs) auto

lemma set_sort_stable [simp]: "set (sort_stable lt xs) = set xs"
  by (metis mset_sort_stable set_mset_mset)

lemma set_insert_stable [simp]: "set (insert_stable lt x xs) = insert x (set xs)"
  by (induction xs) auto

lemma length_sort_stable [simp]: "length (sort_stable lt xs) = length xs"
  by (metis mset_sort_stable size_mset)

lemma sort_stable_Nil_iff [simp]: "sort_stable lt xs = [] \<longleftrightarrow> xs = []"
  by (metis length_0_conv length_sort_stable)

lemma distinct_map_sort_stable: "distinct (map f (sort_stable lt xs)) = distinct (map f xs)"
  by (metis mset_map mset_sort_stable mset_eq_imp_distinct_iff)

locale strict_weak =
  fixes lt :: "'a \<Rightarrow> 'a \<Rightarrow> bool"
  assumes lt_irrefl: "\<not> lt x x"
    and lt_trans: "lt x y \<Longrightarrow> lt y z \<Longrightarrow> lt x z"
    and lt_negtrans: "\<not> lt x y \<Longrightarrow> \<not> lt y z \<Longrightarrow> \<not> lt x z"
begin

lemma lt_asym: "lt x y \<Longrightarrow> \<not> lt y x"
  using lt_irrefl lt_trans by blast

lemma insert_stable_sorted:
  "sorted_wrt (\<lambda>a b. \<not> lt b a) xs \<Longrightarrow> sorted_wrt (\<lambda>a b. \<not> lt b a) (insert_stable lt x xs)"
proof (induction xs)
  case (Cons y ys)
  show ?case
  proof (cases "lt y x")
    case True
    with Cons show ?thesis by (auto dest: lt_asym)
  next
    case False
    have "\<not> lt b x" if "b \<in> set ys" for b
      using Cons.prems that False lt_negtrans by auto
    with Cons.prems False show ?thesis by simp
  qed
qed simp

lemma sort_stable_sorted: "sorted_wrt (\<lambda>a b. \<not> lt b a) (sort_stable lt xs)"
  by (induction xs) (auto simp: insert_stable_sorted)

lemma sort_stable_hd_least: "y \<in> set xs \<Longrightarrow> \<not> lt y (hd (sort_stable lt xs))"
proof -
  assume y: "y \<in> set xs"
  then obtain h t where ht: "sort_stable lt xs = h # t"
    by (metis neq_Nil_conv set_sort_stable empty_iff list.set(1))
  have "y \<in> set (h # t)" using y ht by (metis set_sort_stable)
  moreover have "\<forall>b \<in> set t. \<not> lt b h"
    using sort_stable_sorted [of xs] by (simp add: ht)
  ultimately show ?thesis by (auto simp: ht lt_irrefl)
qed

lemma filter_insert_stable:
  "filter (\<lambda>b. \<not> lt b a \<and> \<not> lt a b) (insert_stable lt x xs) =
   filter (\<lambda>b. \<not> lt b a \<and> \<not> lt a b) (x # xs)"
proof (induction xs)
  case (Cons y ys)
  have "lt y x \<Longrightarrow> \<not> lt x a \<and> \<not> lt a x \<Longrightarrow> \<not> (\<not> lt y a \<and> \<not> lt a y)"
    using lt_negtrans by blast
  with Cons show ?case by auto
qed simp

lemma sort_stable_stable:
  "filter (\<lambda>b. \<not> lt b a \<and> \<not> lt a b) (sort_stable lt xs) = filter (\<lambda>b. \<not> lt b a \<and> \<not> lt a b) xs"
  by (induction xs) (auto simp: filter_insert_stable)

lemma stable_lists_equal:
  assumes "sorted_wrt (\<lambda>a b. \<not> lt b a) xs" "sorted_wrt (\<lambda>a b. \<not> lt b a) ys"
    and "\<And>a. filter (\<lambda>b. \<not> lt b a \<and> \<not> lt a b) xs = filter (\<lambda>b. \<not> lt b a \<and> \<not> lt a b) ys"
  shows "xs = ys"
  using assms
proof (induction xs arbitrary: ys)
  case Nil
  show ?case
  proof (cases ys)
    case (Cons y t)
    with Nil.prems(3) [of y] show ?thesis by (simp add: lt_irrefl)
  qed simp
next
  case (Cons x xs)
  have fx: "filter (\<lambda>b. \<not> lt b x \<and> \<not> lt x b) (x # xs) = filter (\<lambda>b. \<not> lt b x \<and> \<not> lt x b) ys"
    by (rule Cons.prems(3))
  then have xin: "x \<in> set ys"
    by (metis (no_types, lifting) filter.simps(2) list.set_intros(1) lt_irrefl filter_is_subset subsetD)
  then obtain y t where ys: "ys = y # t" by (cases ys) auto
  have "filter (\<lambda>b. \<not> lt b y \<and> \<not> lt y b) (x # xs) = filter (\<lambda>b. \<not> lt b y \<and> \<not> lt y b) ys"
    by (rule Cons.prems(3))
  then have yin: "y \<in> set (x # xs)"
    by (metis (no_types, lifting) filter.simps(2) list.set_intros(1) lt_irrefl filter_is_subset subsetD ys)
  have "\<not> lt x y" using xin Cons.prems(2) by (auto simp: ys lt_irrefl)
  moreover have "\<not> lt y x" using yin Cons.prems(1) by (auto simp: lt_irrefl)
  ultimately have xy: "x = y" using fx by (simp add: ys lt_irrefl)
  have "filter (\<lambda>b. \<not> lt b a \<and> \<not> lt a b) xs = filter (\<lambda>b. \<not> lt b a \<and> \<not> lt a b) t" for a
    using Cons.prems(3) [of a] by (auto simp: ys xy split: if_splits)
  then have "xs = t"
    using Cons.IH Cons.prems(1,2) by (simp add: ys)
  then show ?case by (simp add: ys xy)
qed

lemma sort_stable_unique:
  assumes "sorted_wrt (\<lambda>a b. \<not> lt b a) ys"
    and "\<And>a. filter (\<lambda>b. \<not> lt b a \<and> \<not> lt a b) ys = filter (\<lambda>b. \<not> lt b a \<and> \<not> lt a b) xs"
  shows "ys = sort_stable lt xs"
  by (rule stable_lists_equal) (simp_all add: assms sort_stable_sorted sort_stable_stable)

text \<open>When only equal elements tie, the sorted list depends on the elements only.\<close>

lemma sort_stable_perm:
  assumes m: "mset xs = mset ys"
    and eq: "\<And>x y. x \<in> set xs \<Longrightarrow> y \<in> set xs \<Longrightarrow> \<not> lt x y \<Longrightarrow> \<not> lt y x \<Longrightarrow> x = y"
  shows "sort_stable lt xs = sort_stable lt ys"
proof (rule stable_lists_equal)
  fix a
  let ?P = "\<lambda>b. \<not> lt b a \<and> \<not> lt a b"
  have one: "x = y" if "x \<in> set (filter ?P xs)" "y \<in> set (filter ?P xs)" for x y
    using that eq [of x y] lt_negtrans [of x a y] lt_negtrans [of y a x] by auto
  have m': "mset (filter ?P xs) = mset (filter ?P ys)" using m by simp
  then have s': "set (filter ?P xs) = set (filter ?P ys)" by (rule mset_eq_setD)
  obtain z where z: "\<forall>x \<in> set (filter ?P xs). x = z" using one by blast
  then have "filter ?P ys = replicate (length (filter ?P ys)) z" "filter ?P xs = replicate (length (filter ?P xs)) z"
    using s' by (blast intro: replicate_eqI)+
  then have "filter ?P xs = filter ?P ys" using m' by (metis size_mset)
  then show "filter ?P (sort_stable lt xs) = filter ?P (sort_stable lt ys)"
    by (simp add: sort_stable_stable)
qed (rule sort_stable_sorted)+

lemma sort_stable_id: "sorted_wrt (\<lambda>a b. \<not> lt b a) xs \<Longrightarrow> sort_stable lt xs = xs"
  using sort_stable_unique [of xs xs] by simp

end

section \<open>Three-way comparison\<close>

text \<open>\<open>cmp.Compare\<close> on ordered types, and the laws of a comparison function: sorting with
  \<open>slices.SortStableFunc\<close> uses "negative" as "less".\<close>

definition compare_ord :: "'a::linorder \<Rightarrow> 'a \<Rightarrow> int" where
  "compare_ord x y = (if x < y then - 1 else if y < x then 1 else 0)"

locale three_way =
  fixes c :: "'a \<Rightarrow> 'a \<Rightarrow> int"
  assumes antisym: "c x y < 0 \<longleftrightarrow> 0 < c y x"
    and trans: "c x y \<le> 0 \<Longrightarrow> c y z \<le> 0 \<Longrightarrow> c x z \<le> 0"
begin

lemma le_flip: "c x y \<le> 0 \<longleftrightarrow> 0 \<le> c y x"
  using antisym [of y x] by linarith

lemma refl: "c x x = 0"
  using antisym [of x x] by linarith

lemma zero_flip: "c x y = 0 \<longleftrightarrow> c y x = 0"
  using antisym [of x y] antisym [of y x] by linarith

lemma zero_left: "c x y = 0 \<Longrightarrow> c x z \<le> 0 \<longleftrightarrow> c y z \<le> 0"
  using trans zero_flip by (metis order_refl)

lemma zero_right: "c y z = 0 \<Longrightarrow> c x y \<le> 0 \<longleftrightarrow> c x z \<le> 0"
  using trans zero_flip by (metis order_refl)

end

sublocale three_way \<subseteq> strict_weak "\<lambda>x y. c x y < 0"
proof
  show "\<not> c x x < 0" for x
    by (simp add: refl)
  show "c x y < 0 \<Longrightarrow> c y z < 0 \<Longrightarrow> c x z < 0" for x y z
    using trans [of z x y] antisym [of y z] le_flip [of z x] by linarith
  show "\<not> c x y < 0 \<Longrightarrow> \<not> c y z < 0 \<Longrightarrow> \<not> c x z < 0" for x y z
    using trans [of z y x] le_flip [of z y] le_flip [of y x] le_flip [of z x] by linarith
qed

lemma three_way_ord: "three_way (compare_ord :: 'a::linorder \<Rightarrow> 'a \<Rightarrow> int)"
  by unfold_locales (auto simp: compare_ord_def split: if_splits)

lemma three_way_key: "three_way c \<Longrightarrow> three_way (\<lambda>x y. c (f x) (f y))"
  unfolding three_way_def by blast

text \<open>Comparing by one function and, on a tie, by a second one.\<close>

lemma three_way_lex:
  assumes c: "three_way c" and d: "three_way d"
  shows "three_way (\<lambda>x y. if c x y \<noteq> 0 then c x y else d x y)"
proof
  show "((if c x y \<noteq> 0 then c x y else d x y) < 0) =
        (0 < (if c y x \<noteq> 0 then c y x else d y x))" for x y
    using three_way.antisym [OF c, of x y] three_way.zero_flip [OF c, of x y]
      three_way.antisym [OF d, of x y] by auto
next
  fix x y z
  assume xy: "(if c x y \<noteq> 0 then c x y else d x y) \<le> 0"
    and yz: "(if c y z \<noteq> 0 then c y z else d y z) \<le> 0"
  have le: "c x y \<le> 0" "c y z \<le> 0" using xy yz by (auto split: if_splits)
  then have xz: "c x z \<le> 0" by (rule three_way.trans [OF c])
  show "(if c x z \<noteq> 0 then c x z else d x z) \<le> 0"
  proof (cases "c x z = 0")
    case True
    then have "c z x \<le> 0" using three_way.zero_flip [OF c, of x z] by simp
    then have "c y x \<le> 0" "c z y \<le> 0"
      using le three_way.trans [OF c] by blast+
    then have "c x y = 0" "c y z = 0"
      using le three_way.le_flip [OF c] by (simp_all add: order_antisym)
    with xy yz have "d x z \<le> 0" using three_way.trans [OF d] by auto
    with True show ?thesis by simp
  qed (use xz in simp)
qed

end
