(* ===== verification/Float64.thy ===== *)
theory Float64
  imports Prelude "HOL-Library.Log_Nat"
begin

text \<open>
  Go's \<open>float64\<close>: IEEE 754 binary64 with round-to-nearest-even, as executable HOL functions. A value
  is not-a-number, an infinity, or a finite rational; every operation computes its exact rational
  result and rounds it with \<open>rnd\<close> (53 significant bits, smallest exponent -1074), overflowing to an
  infinity at \<open>2^1024\<close>. The two zeros are one value: no modelled operation divides by a
  zero or otherwise tells them apart. Products and sums are rounded separately, as Go does on
  platforms where the compiler fuses nothing (amd64).

  The theorems that make rounding usable: rounding never crosses a representable number
  (\<open>rnd_le_rep\<close>, \<open>rnd_ge_rep\<close>), is exact on representable numbers (\<open>rnd_rep\<close>) and
  monotone (\<open>rnd_mono\<close>). The predicate \<open>frange l h\<close> ("finite and between \<open>l\<close> and \<open>h\<close>") turns them
  into an interval calculus for the scoring code's percentages, ratios and confidence scores.
\<close>

section \<open>Rounding\<close>

datatype f64 = NaN | NegInf | PosInf | Fin rat

definition pow2 :: "int \<Rightarrow> rat" where
  "pow2 e = (if 0 \<le> e then 2 ^ nat e else 1 / 2 ^ nat (- e))"

text \<open>The floor of the binary logarithm of a positive rational.\<close>

definition ilog2 :: "rat \<Rightarrow> int" where
  "ilog2 x = (case quotient_of x of (n, d) \<Rightarrow>
     let k = bitlen n - bitlen d in if pow2 k \<le> x then k else k - 1)"

text \<open>Round to the nearest integer, ties to even.\<close>

definition rne :: "rat \<Rightarrow> int" where
  "rne y = (let f = \<lfloor>y\<rfloor>; r = y - of_int f in
     if r < 1 / 2 then f else if 1 / 2 < r then f + 1 else if even f then f else f + 1)"

definition ulp_exp :: "rat \<Rightarrow> int" where
  "ulp_exp x = max (ilog2 x - 52) (- 1074)"

definition rnd_pos :: "rat \<Rightarrow> rat" where
  "rnd_pos x = (let u = pow2 (ulp_exp x) in of_int (rne (x / u)) * u)"

definition rnd :: "rat \<Rightarrow> rat" where
  "rnd x = (if x = 0 then 0 else if 0 < x then rnd_pos x else - rnd_pos (- x))"

definition f64_limit :: rat where
  "f64_limit = 2 ^ 1024"

definition mk :: "rat \<Rightarrow> f64" where
  "mk x = (let r = rnd x in
     if f64_limit \<le> r then PosInf else if r \<le> - f64_limit then NegInf else Fin r)"

definition rep :: "rat \<Rightarrow> bool" where
  "rep z \<longleftrightarrow> (\<exists>m q. z = of_int m * pow2 q \<and> \<bar>m\<bar> \<le> 2 ^ 53 \<and> - 1074 \<le> q)"

subsection \<open>Powers of two and the binary exponent\<close>

lemma pow2_powi: "pow2 e = 2 powi e"
  by (simp add: pow2_def power_int_def power_one_over inverse_eq_divide)

lemma pow2_pos [simp]: "0 < pow2 e"
  by (simp add: pow2_powi)

lemma pow2_nonzero [simp]: "pow2 e \<noteq> 0"
  using pow2_pos [of e] by linarith

lemma pow2_add: "pow2 (a + b) = pow2 a * pow2 b"
  by (simp add: pow2_powi power_int_add)

lemma pow2_diff: "pow2 (a - b) = pow2 a / pow2 b"
  by (simp add: pow2_powi power_int_diff)

lemma pow2_mono: "a \<le> b \<Longrightarrow> pow2 a \<le> pow2 b"
  by (simp add: pow2_powi power_int_increasing)

lemma pow2_nat: "pow2 (int n) = 2 ^ n"
  by (simp add: pow2_def)

lemma pow2_integer: "0 \<le> e \<Longrightarrow> pow2 e = of_int (2 ^ nat e)"
  by (simp add: pow2_def)

lemma pow2_less_cancel: "pow2 a < pow2 b \<Longrightarrow> a < b"
  by (meson linorder_not_less pow2_mono)

lemma bitlen_pow2: "0 < n \<Longrightarrow> pow2 (bitlen n - 1) \<le> of_int n \<and> of_int n < pow2 (bitlen n)"
proof -
  assume n: "0 < n"
  have b: "1 \<le> bitlen n"
    using n bitlen_nonneg [of n] bitlen_eq_zero_iff [of n] by linarith
  have "2 ^ nat (bitlen n - 1) \<le> n \<and> n < 2 ^ nat (bitlen n)"
    using bitlen_bounds [OF n] .
  then have "of_int (2 ^ nat (bitlen n - 1)) \<le> (of_int n :: rat)"
    "of_int n < (of_int (2 ^ nat (bitlen n)) :: rat)"
    by (simp_all only: of_int_le_iff of_int_less_iff)
  with b show ?thesis by (simp add: pow2_def)
qed

lemma ilog2_bounds:
  assumes "0 < x"
  shows "pow2 (ilog2 x) \<le> x \<and> x < pow2 (ilog2 x + 1)"
proof -
  obtain n d where q: "quotient_of x = (n, d)" by fastforce
  then have d: "0 < d" and x: "x = of_int n / of_int d"
    by (auto simp: quotient_of_denom_pos quotient_of_div)
  with assms have n: "0 < n" by (simp add: zero_less_divide_iff)
  define k where "k = bitlen n - bitlen d"
  note bn = bitlen_pow2 [OF n] and bd = bitlen_pow2 [OF d]
  have up: "x < pow2 (k + 1)"
  proof -
    have "x < pow2 (bitlen n) / pow2 (bitlen d - 1)"
      unfolding x using bn bd d n by (intro frac_less) auto
    also have "\<dots> = pow2 (k + 1)"
      by (simp add: k_def pow2_diff [symmetric] algebra_simps)
    finally show ?thesis .
  qed
  have lo: "pow2 (k - 1) \<le> x"
  proof -
    have "pow2 (k - 1) = pow2 (bitlen n - 1) / pow2 (bitlen d)"
      by (simp add: k_def pow2_diff [symmetric] algebra_simps)
    also have "\<dots> \<le> x"
      unfolding x using bn bd d n by (intro frac_le) auto
    finally show ?thesis .
  qed
  show ?thesis
    using up lo by (auto simp: ilog2_def q k_def [symmetric] Let_def)
qed

lemma ilog2_mono: "0 < x \<Longrightarrow> x \<le> y \<Longrightarrow> ilog2 x \<le> ilog2 y"
  using ilog2_bounds [of x] ilog2_bounds [of y] pow2_less_cancel [of "ilog2 x" "ilog2 y + 1"]
  by fastforce

subsection \<open>Nearest integers\<close>

lemma rne_of_int [simp]: "rne (of_int n) = n"
  by (simp add: rne_def)

lemma rne_floor: "\<lfloor>y\<rfloor> \<le> rne y \<and> rne y \<le> \<lfloor>y\<rfloor> + 1"
  by (simp add: rne_def Let_def)

lemma rne_mono: "x \<le> y \<Longrightarrow> rne x \<le> rne y"
proof -
  assume xy: "x \<le> y"
  show ?thesis
  proof (cases "\<lfloor>x\<rfloor> = \<lfloor>y\<rfloor>")
    case True
    with xy show ?thesis by (auto simp: rne_def Let_def)
  next
    case False
    with floor_mono [OF xy] have "\<lfloor>x\<rfloor> + 1 \<le> \<lfloor>y\<rfloor>" by simp
    with rne_floor [of x] rne_floor [of y] show ?thesis by linarith
  qed
qed

lemma rne_le_int: "y \<le> of_int n \<Longrightarrow> rne y \<le> n"
  using rne_mono [of y "of_int n"] by simp

lemma rne_ge_int: "of_int n \<le> y \<Longrightarrow> n \<le> rne y"
  using rne_mono [of "of_int n" y] by simp

subsection \<open>Representable numbers\<close>

lemma rep_neg: "rep z \<Longrightarrow> rep (- z)"
proof -
  assume "rep z"
  then obtain m q where "z = of_int m * pow2 q" "\<bar>m\<bar> \<le> 2 ^ 53" "- 1074 \<le> q"
    unfolding rep_def by blast
  then have "- z = of_int (- m) * pow2 q \<and> \<bar>- m\<bar> \<le> 2 ^ 53 \<and> - 1074 \<le> q" by simp
  then show ?thesis unfolding rep_def by blast
qed

lemma rep_int: "\<bar>n\<bar> \<le> 2 ^ 53 \<Longrightarrow> rep (of_int n)"
  unfolding rep_def by (rule exI [of _ n], rule exI [of _ 0]) (simp add: pow2_def)

lemma rep_0 [simp]: "rep 0" and rep_1 [simp]: "rep 1"
  using rep_int [of 0] rep_int [of 1] by simp_all

lemma rep_numeral: "(numeral k :: int) \<le> 2 ^ 53 \<Longrightarrow> rep (numeral k)"
  using rep_int [of "numeral k"] by simp

text \<open>A representable number is a multiple of the rounding unit of \<open>x\<close>, or lies at or below the
  binade of \<open>x\<close>.\<close>

lemma rep_grid:
  assumes "rep z" "0 < x"
  shows "(\<exists>k. z = of_int k * pow2 (ulp_exp x)) \<or> z \<le> pow2 (ilog2 x)"
proof -
  obtain m q where z: "z = of_int m * pow2 q" and m: "\<bar>m\<bar> \<le> 2 ^ 53" and q: "- 1074 \<le> q"
    using assms(1) unfolding rep_def by blast
  show ?thesis
  proof (cases "ulp_exp x \<le> q")
    case True
    then have "pow2 q = of_int (2 ^ nat (q - ulp_exp x)) * pow2 (ulp_exp x)"
      by (simp add: pow2_integer [symmetric] pow2_add [symmetric] del: of_int_power)
    then have "z = of_int (m * 2 ^ nat (q - ulp_exp x)) * pow2 (ulp_exp x)"
      by (simp add: z)
    then show ?thesis by blast
  next
    case False
    with q have e: "ulp_exp x = ilog2 x - 52" by (simp add: ulp_exp_def)
    have "m \<le> 2 ^ 53" using m by linarith
    then have "of_int m \<le> (of_int (2 ^ 53) :: rat)" by (simp only: of_int_le_iff)
    then have "z \<le> pow2 53 * pow2 q"
      unfolding z by (intro mult_right_mono) (simp_all add: pow2_def less_imp_le)
    also have "\<dots> = pow2 (53 + q)" by (simp add: pow2_add)
    also have "\<dots> \<le> pow2 (ilog2 x)" using False e by (intro pow2_mono) linarith
    finally show ?thesis by simp
  qed
qed

lemma rnd_pos_le_grid: "0 < x \<Longrightarrow> x \<le> of_int k * pow2 (ulp_exp x) \<Longrightarrow> rnd_pos x \<le> of_int k * pow2 (ulp_exp x)"
proof -
  assume "0 < x" "x \<le> of_int k * pow2 (ulp_exp x)"
  then have "x / pow2 (ulp_exp x) \<le> of_int k" by (simp add: pos_divide_le_eq)
  then have "rne (x / pow2 (ulp_exp x)) \<le> k" by (rule rne_le_int)
  then show ?thesis by (simp add: rnd_pos_def Let_def mult_right_mono less_imp_le)
qed

lemma rnd_pos_ge_grid: "0 < x \<Longrightarrow> of_int k * pow2 (ulp_exp x) \<le> x \<Longrightarrow> of_int k * pow2 (ulp_exp x) \<le> rnd_pos x"
proof -
  assume "0 < x" "of_int k * pow2 (ulp_exp x) \<le> x"
  then have "of_int k \<le> x / pow2 (ulp_exp x)" by (simp add: pos_le_divide_eq)
  then have "k \<le> rne (x / pow2 (ulp_exp x))" by (rule rne_ge_int)
  then show ?thesis by (simp add: rnd_pos_def Let_def mult_right_mono less_imp_le)
qed

text \<open>The lower end of the binade of \<open>x\<close> is on its grid, when the binade is not subnormal.\<close>

lemma binade_grid: "ulp_exp x = ilog2 x - 52 \<Longrightarrow> pow2 (ilog2 x) = of_int (2 ^ 52) * pow2 (ulp_exp x)"
  using pow2_add [of 52 "ilog2 x - 52"] by (simp add: pow2_def [of 52])

lemma rnd_pos_nonneg: "0 < x \<Longrightarrow> 0 \<le> rnd_pos x"
  using rnd_pos_ge_grid [of x 0] by simp

lemma below_binade:
  assumes "rep z" "0 < x" "z \<le> pow2 (ilog2 x)" "\<nexists>k. z = of_int k * pow2 (ulp_exp x)"
  shows "ulp_exp x = ilog2 x - 52"
proof (rule ccontr)
  assume "ulp_exp x \<noteq> ilog2 x - 52"
  then have u: "ulp_exp x = - 1074" by (simp add: ulp_exp_def max_def split: if_splits)
  obtain m q where z: "z = of_int m * pow2 q" and q: "- 1074 \<le> q"
    using assms(1) unfolding rep_def by blast
  have "pow2 q = of_int (2 ^ nat (q + 1074)) * pow2 (- 1074)"
    using q by (simp add: pow2_integer [symmetric] pow2_add [symmetric] del: of_int_power)
  then have "z = of_int (m * 2 ^ nat (q + 1074)) * pow2 (ulp_exp x)" by (simp add: z u)
  with assms(4) show False by blast
qed

lemma rnd_pos_le_rep: "rep z \<Longrightarrow> 0 < x \<Longrightarrow> x \<le> z \<Longrightarrow> rnd_pos x \<le> z"
proof (cases "\<exists>k. z = of_int k * pow2 (ulp_exp x)")
  case True
  then show "0 < x \<Longrightarrow> x \<le> z \<Longrightarrow> rnd_pos x \<le> z" using rnd_pos_le_grid by blast
next
  case False
  assume a: "rep z" "0 < x" "x \<le> z"
  with False rep_grid have "z \<le> pow2 (ilog2 x)" by blast
  moreover from this a False below_binade have "ulp_exp x = ilog2 x - 52" by blast
  ultimately have "z \<le> of_int (2 ^ 52) * pow2 (ulp_exp x)" by (simp add: binade_grid)
  moreover have "of_int (2 ^ 52) * pow2 (ulp_exp x) \<le> x"
    using ilog2_bounds [OF a(2)] binade_grid [OF \<open>ulp_exp x = ilog2 x - 52\<close>] by simp
  ultimately have "z = of_int (2 ^ 52) * pow2 (ulp_exp x)" using a(3) by linarith
  with False show ?thesis by blast
qed

lemma rnd_pos_ge_rep: "rep z \<Longrightarrow> 0 < x \<Longrightarrow> z \<le> x \<Longrightarrow> z \<le> rnd_pos x"
proof (cases "\<exists>k. z = of_int k * pow2 (ulp_exp x)")
  case True
  then show "0 < x \<Longrightarrow> z \<le> x \<Longrightarrow> z \<le> rnd_pos x" using rnd_pos_ge_grid by blast
next
  case False
  assume a: "rep z" "0 < x" "z \<le> x"
  with False rep_grid have z: "z \<le> pow2 (ilog2 x)" by blast
  with a False below_binade have u: "ulp_exp x = ilog2 x - 52" by blast
  have "of_int (2 ^ 52) * pow2 (ulp_exp x) \<le> rnd_pos x"
    using ilog2_bounds [OF a(2)] binade_grid [OF u] rnd_pos_ge_grid [OF a(2), of "2 ^ 52"] by simp
  with z binade_grid [OF u] show ?thesis by simp
qed

lemma rnd_neg: "rnd (- x) = - rnd x"
  by (simp add: rnd_def)

lemma rnd_0 [simp]: "rnd 0 = 0"
  by (simp add: rnd_def)

lemma rnd_le_rep: "rep z \<Longrightarrow> x \<le> z \<Longrightarrow> rnd x \<le> z"
proof (cases "0 < x")
  case True
  then show "rep z \<Longrightarrow> x \<le> z \<Longrightarrow> rnd x \<le> z" by (simp add: rnd_def rnd_pos_le_rep)
next
  case False
  assume z: "rep z" "x \<le> z"
  show ?thesis
  proof (cases "x = 0")
    case False
    with \<open>\<not> 0 < x\<close> z have "- z \<le> rnd_pos (- x)" by (intro rnd_pos_ge_rep rep_neg) auto
    with False \<open>\<not> 0 < x\<close> show ?thesis by (simp add: rnd_def)
  qed (use z in \<open>simp add: rnd_def\<close>)
qed

lemma rnd_ge_rep: "rep z \<Longrightarrow> z \<le> x \<Longrightarrow> z \<le> rnd x"
  using rnd_le_rep [OF rep_neg, of z "- x"] by (simp add: rnd_neg)

lemma rnd_rep: "rep z \<Longrightarrow> rnd z = z"
  by (simp add: order_antisym rnd_ge_rep rnd_le_rep)

lemma rnd_nonneg: "0 \<le> x \<Longrightarrow> 0 \<le> rnd x"
  using rnd_ge_rep [of 0 x] by simp

lemma rep_rnd: "rep (rnd x)"
proof -
  have pos: "rep (rnd_pos y)" if "0 < y" for y
  proof -
    have "y < pow2 (ilog2 y + 1)" using ilog2_bounds [OF that] by simp
    also have "\<dots> \<le> pow2 (53 + ulp_exp y)" by (intro pow2_mono) (simp add: ulp_exp_def)
    finally have "y \<le> of_int (2 ^ 53) * pow2 (ulp_exp y)" by (simp add: pow2_add pow2_def [of 53])
    then have "y / pow2 (ulp_exp y) \<le> of_int (2 ^ 53)" by (simp add: pos_divide_le_eq)
    then have "rne (y / pow2 (ulp_exp y)) \<le> 2 ^ 53" by (rule rne_le_int)
    moreover have "0 \<le> rne (y / pow2 (ulp_exp y))"
      using that by (intro rne_ge_int) (simp add: less_imp_le)
    ultimately have "\<bar>rne (y / pow2 (ulp_exp y))\<bar> \<le> 2 ^ 53" by linarith
    moreover have "- 1074 \<le> ulp_exp y" by (simp add: ulp_exp_def)
    ultimately show ?thesis unfolding rep_def rnd_pos_def Let_def by blast
  qed
  show ?thesis
    using pos [of x] rep_neg [OF pos, of "- x"] by (auto simp: rnd_def)
qed

lemma rnd_pos_mono: "0 < x \<Longrightarrow> x \<le> y \<Longrightarrow> rnd_pos x \<le> rnd_pos y"
proof (cases "ulp_exp x = ulp_exp y")
  case True
  then show "0 < x \<Longrightarrow> x \<le> y \<Longrightarrow> rnd_pos x \<le> rnd_pos y"
    by (simp add: rnd_pos_def Let_def rne_mono divide_right_mono less_imp_le mult_right_mono)
next
  case False
  assume a: "0 < x" "x \<le> y"
  with False ilog2_mono have e: "ilog2 x < ilog2 y" "ulp_exp y = ilog2 y - 52"
    by (fastforce simp: ulp_exp_def max_def split: if_splits)+
  have r: "rep (pow2 (ilog2 y))"
    unfolding rep_def
    by (rule exI [of _ 1], rule exI [of _ "ilog2 y"]) (use e(2) in \<open>simp add: ulp_exp_def max_def split: if_splits\<close>)
  have "x < pow2 (ilog2 x + 1)" using ilog2_bounds [OF a(1)] by simp
  also have "\<dots> \<le> pow2 (ilog2 y)" using e(1) by (intro pow2_mono) simp
  finally have "rnd_pos x \<le> pow2 (ilog2 y)" using rnd_pos_le_rep [OF r a(1)] by simp
  also have "\<dots> \<le> rnd_pos y" using rnd_pos_ge_rep [OF r] ilog2_bounds [of y] a by simp
  finally show ?thesis .
qed

lemma rnd_mono: "x \<le> y \<Longrightarrow> rnd x \<le> rnd y"
proof -
  assume xy: "x \<le> y"
  consider "0 < x" | "x \<le> 0" "0 \<le> y" | "y < 0" by linarith
  then show ?thesis
  proof cases
    case 1
    with xy show ?thesis by (simp add: rnd_def rnd_pos_mono)
  next
    case 2
    have "rnd x \<le> 0" using 2 rnd_le_rep [of 0 x] by simp
    also have "0 \<le> rnd y" using 2 by (simp add: rnd_nonneg)
    finally show ?thesis .
  next
    case 3
    with xy show ?thesis by (simp add: rnd_def rnd_pos_mono)
  qed
qed

section \<open>Operations\<close>

definition flit :: "rat \<Rightarrow> f64" where
  "flit x = mk x"

definition of_i64 :: "int64 \<Rightarrow> f64" where
  "of_i64 i = mk (of_int i)"

text \<open>Conversion \<open>int64(x)\<close>: truncation; out of range the amd64 result, the least integer.\<close>

definition trunc :: "rat \<Rightarrow> int" where
  "trunc x = (if 0 \<le> x then \<lfloor>x\<rfloor> else \<lceil>x\<rceil>)"

definition to_i64 :: "f64 \<Rightarrow> int64" where
  "to_i64 a = (case a of Fin r \<Rightarrow> (if in64 (trunc r) then trunc r else - (2 ^ 63)) | _ \<Rightarrow> - (2 ^ 63))"

definition is_nan :: "f64 \<Rightarrow> bool" where
  "is_nan a \<longleftrightarrow> a = NaN"

definition is_inf :: "f64 \<Rightarrow> bool" where
  "is_inf a \<longleftrightarrow> a = PosInf \<or> a = NegInf"

fun fsgn :: "f64 \<Rightarrow> rat" where
  "fsgn NaN = 0"
| "fsgn NegInf = - 1"
| "fsgn PosInf = 1"
| "fsgn (Fin r) = sgn r"

fun fneg :: "f64 \<Rightarrow> f64" where
  "fneg NaN = NaN"
| "fneg NegInf = PosInf"
| "fneg PosInf = NegInf"
| "fneg (Fin r) = Fin (- r)"

definition finf :: "rat \<Rightarrow> f64" where
  "finf s = (if s < 0 then NegInf else if 0 < s then PosInf else NaN)"

fun fadd :: "f64 \<Rightarrow> f64 \<Rightarrow> f64" where
  "fadd (Fin a) (Fin b) = mk (a + b)"
| "fadd NaN b = NaN"
| "fadd a NaN = NaN"
| "fadd PosInf b = (if b = NegInf then NaN else PosInf)"
| "fadd NegInf b = (if b = PosInf then NaN else NegInf)"
| "fadd (Fin a) b = b"

definition fsub :: "f64 \<Rightarrow> f64 \<Rightarrow> f64" where
  "fsub a b = fadd a (fneg b)"

fun fmul :: "f64 \<Rightarrow> f64 \<Rightarrow> f64" where
  "fmul (Fin a) (Fin b) = mk (a * b)"
| "fmul NaN b = NaN"
| "fmul a NaN = NaN"
| "fmul a b = finf (fsgn a * fsgn b)"

text \<open>Division by zero gives the infinity of the dividend's sign, as for a positive zero.\<close>

fun fdiv :: "f64 \<Rightarrow> f64 \<Rightarrow> f64" where
  "fdiv (Fin a) (Fin b) = (if b = 0 then finf (sgn a) else mk (a / b))"
| "fdiv NaN b = NaN"
| "fdiv a NaN = NaN"
| "fdiv (Fin a) b = Fin 0"
| "fdiv a (Fin b) = finf (fsgn a * (if b = 0 then 1 else sgn b))"
| "fdiv a b = NaN"

fun fabs :: "f64 \<Rightarrow> f64" where
  "fabs NaN = NaN"
| "fabs NegInf = PosInf"
| "fabs PosInf = PosInf"
| "fabs (Fin r) = Fin \<bar>r\<bar>"

text \<open>Go's comparisons: every comparison with not-a-number is false.\<close>

fun fless :: "f64 \<Rightarrow> f64 \<Rightarrow> bool" where
  "fless (Fin a) (Fin b) \<longleftrightarrow> a < b"
| "fless NaN b \<longleftrightarrow> False"
| "fless a NaN \<longleftrightarrow> False"
| "fless NegInf b \<longleftrightarrow> b \<noteq> NegInf"
| "fless PosInf b \<longleftrightarrow> False"
| "fless (Fin a) b \<longleftrightarrow> b = PosInf"

definition feq :: "f64 \<Rightarrow> f64 \<Rightarrow> bool" where
  "feq a b \<longleftrightarrow> a = b \<and> a \<noteq> NaN"

instantiation f64 :: "{plus, minus, uminus, times, inverse, ord, zero, one}"
begin

definition plus_f64 :: "f64 \<Rightarrow> f64 \<Rightarrow> f64" where
  "plus_f64 = fadd"

definition minus_f64 :: "f64 \<Rightarrow> f64 \<Rightarrow> f64" where
  "minus_f64 = fsub"

definition uminus_f64 :: "f64 \<Rightarrow> f64" where
  "uminus_f64 = fneg"

definition times_f64 :: "f64 \<Rightarrow> f64 \<Rightarrow> f64" where
  "times_f64 = fmul"

definition divide_f64 :: "f64 \<Rightarrow> f64 \<Rightarrow> f64" where
  "divide_f64 = fdiv"

definition inverse_f64 :: "f64 \<Rightarrow> f64" where
  "inverse_f64 a = fdiv (Fin 1) a"

definition less_f64 :: "f64 \<Rightarrow> f64 \<Rightarrow> bool" where
  "less_f64 = fless"

definition less_eq_f64 :: "f64 \<Rightarrow> f64 \<Rightarrow> bool" where
  "less_eq_f64 a b \<longleftrightarrow> fless a b \<or> feq a b"

definition zero_f64 :: f64 where
  "zero_f64 = Fin 0"

definition one_f64 :: f64 where
  "one_f64 = Fin 1"

instance ..

end

text \<open>\<open>math.Min\<close>, \<open>math.Max\<close>, \<open>math.Round\<close> (half away from zero), \<open>math.Ceil\<close>, and
  \<open>cmp.Compare\<close> on floats, which orders not-a-number below everything and equal to itself.\<close>

definition fmin :: "f64 \<Rightarrow> f64 \<Rightarrow> f64" where
  "fmin a b = (if a = NegInf \<or> b = NegInf then NegInf else if a = NaN \<or> b = NaN then NaN
     else if a < b then a else b)"

definition fmax :: "f64 \<Rightarrow> f64 \<Rightarrow> f64" where
  "fmax a b = (if a = PosInf \<or> b = PosInf then PosInf else if a = NaN \<or> b = NaN then NaN
     else if b < a then a else b)"

definition round_away :: "rat \<Rightarrow> int" where
  "round_away r = (if 0 \<le> r then \<lfloor>r + 1 / 2\<rfloor> else - \<lfloor>- r + 1 / 2\<rfloor>)"

fun fround :: "f64 \<Rightarrow> f64" where
  "fround (Fin r) = Fin (of_int (round_away r))"
| "fround a = a"

fun fceil :: "f64 \<Rightarrow> f64" where
  "fceil (Fin r) = Fin (of_int \<lceil>r\<rceil>)"
| "fceil a = a"

definition fcompare :: "f64 \<Rightarrow> f64 \<Rightarrow> int" where
  "fcompare a b =
     (if a = NaN then (if b = NaN then 0 else - 1)
      else if b = NaN then 1
      else if a < b then - 1 else if b < a then 1 else 0)"

lemmas f64_ops [go_simps] =
  plus_f64_def minus_f64_def uminus_f64_def times_f64_def divide_f64_def less_f64_def
  less_eq_f64_def zero_f64_def one_f64_def feq_def

lemma f64_fin_ops [simp]:
  "Fin a + Fin b = mk (a + b)" "Fin a - Fin b = mk (a - b)" "Fin a * Fin b = mk (a * b)"
  "b \<noteq> 0 \<Longrightarrow> Fin a / Fin b = mk (a / b)"
  "Fin a < Fin b \<longleftrightarrow> a < b" "Fin a \<le> Fin b \<longleftrightarrow> a \<le> b"
  "- Fin a = Fin (- a)"
  by (auto simp: f64_ops fsub_def)

lemma f64_nan_cmp [simp]: "\<not> NaN < a" "\<not> a < NaN" "\<not> NaN \<le> a" "\<not> a \<le> NaN"
  by (cases a; simp add: f64_ops)+

lemma f64_inf_cmp [simp]:
  "NegInf < Fin r" "\<not> Fin r < NegInf" "Fin r < PosInf" "\<not> PosInf < Fin r" "NegInf < PosInf"
  "\<not> PosInf < NegInf" "\<not> PosInf < PosInf" "\<not> NegInf < NegInf"
  "NegInf \<le> Fin r" "\<not> Fin r \<le> NegInf" "Fin r \<le> PosInf" "\<not> PosInf \<le> Fin r" "NegInf \<le> PosInf"
  "\<not> PosInf \<le> NegInf" "PosInf \<le> PosInf" "NegInf \<le> NegInf"
  by (simp_all add: f64_ops)

lemma fless_linear: "a \<noteq> NaN \<Longrightarrow> b \<noteq> NaN \<Longrightarrow> \<not> a < b \<longleftrightarrow> b \<le> (a :: f64)"
  by (cases a; cases b) (auto simp: f64_ops)

lemma f64_less_le: "a < b \<Longrightarrow> a \<le> (b :: f64)"
  by (simp add: f64_ops)

section \<open>An interval calculus\<close>

definition frange :: "rat \<Rightarrow> rat \<Rightarrow> f64 \<Rightarrow> bool" where
  "frange l h a \<longleftrightarrow> (\<exists>r. a = Fin r \<and> l \<le> r \<and> r \<le> h)"

lemma frangeE: "frange l h a \<Longrightarrow> (\<And>r. a = Fin r \<Longrightarrow> l \<le> r \<Longrightarrow> r \<le> h \<Longrightarrow> P) \<Longrightarrow> P"
  unfolding frange_def by blast

lemma frange_Fin [simp]: "frange l h (Fin r) \<longleftrightarrow> l \<le> r \<and> r \<le> h"
  by (simp add: frange_def)

lemma frange_weaken: "frange l h a \<Longrightarrow> l' \<le> l \<Longrightarrow> h \<le> h' \<Longrightarrow> frange l' h' a"
  by (auto simp: frange_def)

lemma below_limit: "x \<le> 2 ^ 64 \<Longrightarrow> x < f64_limit"
proof -
  have "(2::rat) ^ 64 < 2 ^ 1024" by (rule power_strict_increasing) simp_all
  then show "x \<le> 2 ^ 64 \<Longrightarrow> x < f64_limit" unfolding f64_limit_def by (rule order.strict_trans1 [rotated])
qed

lemma mk_rnd: "\<bar>rnd x\<bar> \<le> 2 ^ 64 \<Longrightarrow> mk x = Fin (rnd x)"
proof -
  assume "\<bar>rnd x\<bar> \<le> 2 ^ 64"
  then have "rnd x \<le> 2 ^ 64" "- rnd x \<le> 2 ^ 64" by linarith+
  then have "rnd x < f64_limit" "- rnd x < f64_limit" by (blast intro: below_limit)+
  then show ?thesis by (simp add: mk_def Let_def)
qed

lemma mk_range:
  assumes "rep l" "rep h" "l \<le> x" "x \<le> h" "- (2 ^ 64) \<le> l" "h \<le> 2 ^ 64"
  shows "frange l h (mk x)"
proof -
  have "l \<le> rnd x" "rnd x \<le> h" using assms by (simp_all add: rnd_ge_rep rnd_le_rep)
  then show ?thesis using assms(5,6) mk_rnd [of x] by auto
qed

lemma mk_exact: "rep x \<Longrightarrow> \<bar>x\<bar> \<le> 2 ^ 64 \<Longrightarrow> mk x = Fin x"
  by (subst mk_rnd) (simp_all add: rnd_rep)

lemma mk_int: "\<bar>n\<bar> \<le> 2 ^ 53 \<Longrightarrow> mk (of_int n) = Fin (of_int n)"
proof (rule mk_exact)
  assume n: "\<bar>n\<bar> \<le> 2 ^ 53"
  then show "rep (of_int n)" by (rule rep_int)
  have "\<bar>n\<bar> \<le> 2 ^ 64" using n by simp
  then have "of_int \<bar>n\<bar> \<le> (of_int (2 ^ 64) :: rat)" by (simp only: of_int_le_iff)
  then show "\<bar>of_int n\<bar> \<le> (2 ^ 64 :: rat)" by simp
qed

text \<open>Evaluation decides overflow from the binary exponent instead of comparing with \<open>2^1024\<close>.\<close>

lemma limit_ilog2: "0 < y \<Longrightarrow> f64_limit \<le> y \<longleftrightarrow> 1024 \<le> ilog2 y"
proof -
  assume y: "0 < y"
  have l: "f64_limit = pow2 1024" by (simp add: f64_limit_def pow2_def)
  show ?thesis
    using ilog2_bounds [OF y] pow2_less_cancel [of 1024 "ilog2 y + 1"] pow2_mono [of 1024 "ilog2 y"]
    by (auto simp: l)
qed

lemma mk_code [code]:
  "mk x = (let r = rnd x in
     if r = 0 \<or> ilog2 \<bar>r\<bar> < 1024 then Fin r else if 0 < r then PosInf else NegInf)"
proof -
  have pos: "0 < f64_limit" by (simp add: f64_limit_def)
  consider "rnd x = 0" | "0 < rnd x" | "rnd x < 0" by linarith
  then show ?thesis
    using pos limit_ilog2 [of "rnd x"] limit_ilog2 [of "- rnd x"]
    by cases (auto simp: mk_def Let_def)
qed

lemma mk_0 [simp]: "mk 0 = Fin 0" and mk_1 [simp]: "mk 1 = Fin 1"
  using mk_int [of 0] mk_int [of 1] by simp_all

lemma mk_numeral: "(numeral k :: int) \<le> 2 ^ 53 \<Longrightarrow> mk (numeral k) = Fin (numeral k)"
  using mk_int [of "numeral k"] by simp

lemma mk_not_nan [simp]: "mk x \<noteq> NaN"
  by (simp add: mk_def Let_def)

text \<open>Sums, products and quotients of finite values whose exact result lies between two
  representable bounds stay between them.\<close>

lemma frange_add:
  assumes "frange a b x" "frange c d y" "rep (a + c)" "rep (b + d)"
    "- (2 ^ 64) \<le> a + c" "b + d \<le> 2 ^ 64"
  shows "frange (a + c) (b + d) (x + y)"
  using assms by (auto elim!: frangeE intro!: mk_range)

lemma frange_sub:
  assumes "frange a b x" "frange c d y" "rep (a - d)" "rep (b - c)"
    "- (2 ^ 64) \<le> a - d" "b - c \<le> 2 ^ 64"
  shows "frange (a - d) (b - c) (x - y)"
  using assms by (auto elim!: frangeE intro!: mk_range)

lemma frange_mult:
  assumes "frange 0 b x" "frange 0 d y" "rep (b * d)" "b * d \<le> 2 ^ 64"
  shows "frange 0 (b * d) (x * y)"
  using assms by (auto elim!: frangeE intro!: mk_range mult_mono)

lemma frange_div_le:
  assumes "x = Fin r" "y = Fin s" "0 \<le> r" "r \<le> h * s" "0 < s" "rep h" "h \<le> 2 ^ 64"
  shows "frange 0 h (x / y)"
  using assms by (auto intro!: mk_range simp: pos_divide_le_eq)

lemma round_away_mono: "r \<le> s \<Longrightarrow> round_away r \<le> round_away s"
  unfolding round_away_def by (auto simp: floor_mono) linarith+

lemma round_away_int [simp]: "round_away (of_int n) = n"
  by (simp add: round_away_def floor_eq_iff)

lemma frange_round:
  assumes "frange (of_int m) (of_int n) x"
  shows "frange (of_int m) (of_int n) (fround x)"
proof -
  obtain r where r: "x = Fin r" "of_int m \<le> r" "r \<le> of_int n" using assms by (rule frangeE)
  then have "m \<le> round_away r" "round_away r \<le> n"
    using round_away_mono [of "of_int m" r] round_away_mono [of r "of_int n"] by simp_all
  then show ?thesis by (simp add: r(1))
qed

lemma frange_fmin: "frange a b x \<Longrightarrow> frange c d y \<Longrightarrow> frange (min a c) (min b d) (fmin x y)"
  by (auto elim!: frangeE simp: fmin_def)

lemma frange_fmax: "frange a b x \<Longrightarrow> frange c d y \<Longrightarrow> frange (max a c) (max b d) (fmax x y)"
  by (auto elim!: frangeE simp: fmax_def)

text \<open>Conversions of 64-bit integers.\<close>

lemma of_i64_range: "in64 i \<Longrightarrow> \<exists>r. of_i64 i = Fin r \<and> \<bar>r\<bar> \<le> 2 ^ 63"
proof -
  assume i: "in64 i"
  have p: "rep (2 ^ 63)"
    unfolding rep_def by (rule exI [of _ 1], rule exI [of _ 63]) (simp add: pow2_def)
  have "i \<le> 2 ^ 63" "- (2 ^ 63) \<le> i" using i unfolding in64_def by linarith+
  then have "of_int i \<le> (of_int (2 ^ 63) :: rat)" "of_int (- (2 ^ 63)) \<le> (of_int i :: rat)"
    by (simp_all only: of_int_le_iff)
  then have "frange (- (2 ^ 63)) (2 ^ 63) (mk (of_int i))"
    by (intro mk_range p rep_neg) simp_all
  then show ?thesis by (auto simp: of_i64_def frange_def abs_le_iff)
qed

lemma of_i64_fin: "in64 i \<Longrightarrow> of_i64 i = Fin (rnd (of_int i))"
proof -
  assume "in64 i"
  then obtain r where "of_i64 i = Fin r" using of_i64_range by blast
  then show ?thesis by (auto simp: of_i64_def mk_def Let_def split: if_splits)
qed

lemma rnd_of_int_pos: "0 < i \<Longrightarrow> 1 \<le> rnd (of_int i)"
  using rnd_ge_rep [of 1 "of_int i"] by simp

lemma of_i64_exact: "\<bar>i\<bar> \<le> 2 ^ 53 \<Longrightarrow> of_i64 i = Fin (of_int i)"
  by (simp add: of_i64_def mk_int)

subsection \<open>Comparison\<close>

lemma three_way_fcompare: "three_way fcompare"
proof
  show "(fcompare x y < 0) = (0 < fcompare y x)" for x y
    by (cases x; cases y) (auto simp: fcompare_def)
  show "fcompare x y \<le> 0 \<Longrightarrow> fcompare y z \<le> 0 \<Longrightarrow> fcompare x z \<le> 0" for x y z
    by (cases x; cases y; cases z) (auto simp: fcompare_def split: if_splits)
qed

lemma fcompare_Fin [simp]: "fcompare (Fin a) (Fin b) = compare_ord a b"
  by (simp add: fcompare_def compare_ord_def)

end
