(* ===== verification/Domain.thy ===== *)
theory Domain
  imports Float64
begin

text \<open>
  The data model shared by all services (\<open>internal/domain/types.go\<close>) and its validation
  (\<open>internal/domain/validation.go\<close>). Go's string enumerations are datatypes with one extra
  constructor for the values the source does not name, because such values reach the code from
  JSON. A nil-able slice of the public result is an \<^typ>\<open>'a list option\<close> (\<^term>\<open>None\<close> is nil):
  the API contract distinguishes nil from the empty array. \<open>time.Time\<close> is a count of nanoseconds.
\<close>

section \<open>Types (types.go)\<close>

datatype RoutingMode = RoutingModeFastest | RoutingModeBalanced | RoutingModeGreenest
  | RoutingModeStrictGreen | RoutingModeOther string

fun RoutingMode_Valid :: "RoutingMode \<Rightarrow> bool" where
  "RoutingMode_Valid (RoutingModeOther _) = False"
| "RoutingMode_Valid _ = True"

datatype CongestionClass = CongestionGreen | CongestionYellow | CongestionOrange | CongestionRed
  | CongestionUnknown | CongestionOther string

datatype ConfidenceLevel = ConfidenceHigh | ConfidenceMedium | ConfidenceLow | ConfidenceOther string

datatype SearchStatus = SearchAccepted | SearchSearching | SearchCompleted | SearchDegraded
  | SearchFailed | SearchCancelled | SearchOther string

datatype EventType = EventSearchAccepted | EventProviderRequestStarted | EventInitialCandidatesReady
  | EventCandidateEvaluated | EventDetourSearchStarted | EventBetterRouteFound
  | EventSearchCompleted | EventSearchDegraded | EventSearchFailed | EventOther string

datatype TrafficDataType = TrafficDataRealtime | TrafficDataForecast | TrafficDataBaseline
  | TrafficDataSynthetic | TrafficDataUnknown | TrafficDataOther string

record GeoPoint =
  Latitude :: f64
  Longitude :: f64

record Confidence =
  Level :: ConfidenceLevel
  Score :: f64
  Reasons :: "string list"

record RouteSegment =
  seg_SegmentID :: string
  seg_Geometry :: "GeoPoint list"
  seg_DistanceMeters :: int64
  seg_LiveDurationSeconds :: int64
  seg_BaselineDurationSeconds :: int64
  seg_TrafficRatio :: f64
  seg_CongestionClass :: CongestionClass
  seg_Confidence :: Confidence
  seg_GeometrySimilarity :: f64
  seg_Source :: string

definition SegmentSourceDGISTrafficColor :: string where
  "SegmentSourceDGISTrafficColor = ''DGIS_ROUTING_API_TRAFFIC_COLOR''"

record RouteMetrics =
  GreenDistanceMeters :: int64
  YellowDistanceMeters :: int64
  OrangeDistanceMeters :: int64
  RedDistanceMeters :: int64
  UnknownDistanceMeters :: int64
  GreenDurationSeconds :: int64
  YellowDurationSeconds :: int64
  OrangeDurationSeconds :: int64
  RedDurationSeconds :: int64
  UnknownDurationSeconds :: int64
  TotalTrafficDelaySeconds :: int64
  CongestedDistancePercent :: f64
  CongestedDurationPercent :: f64
  GreenDistancePercent :: f64
  WorstContinuousCongestionMeters :: int64

definition zero_metrics :: RouteMetrics where
  "zero_metrics = \<lparr> GreenDistanceMeters = 0, YellowDistanceMeters = 0, OrangeDistanceMeters = 0,
     RedDistanceMeters = 0, UnknownDistanceMeters = 0, GreenDurationSeconds = 0,
     YellowDurationSeconds = 0, OrangeDurationSeconds = 0, RedDurationSeconds = 0,
     UnknownDurationSeconds = 0, TotalTrafficDelaySeconds = 0, CongestedDistancePercent = 0,
     CongestedDurationPercent = 0, GreenDistancePercent = 0, WorstContinuousCongestionMeters = 0 \<rparr>"

record RouteCandidate =
  rc_CandidateID :: string
  rc_Provider :: string
  rc_ProviderRouteReference :: string
  rc_TrafficDataType :: TrafficDataType
  rc_Geometry :: "GeoPoint list"
  rc_DistanceMeters :: int64
  rc_LiveDurationSeconds :: int64
  rc_BaselineDurationSeconds :: int64
  rc_TrafficDelaySeconds :: int64
  rc_Segments :: "RouteSegment list"
  rc_Blocked :: bool
  rc_Tolls :: bool
  rc_Unpaved :: bool
  rc_Confidence :: Confidence
  rc_Score :: f64
  rc_ReasonCodes :: "string list"
  rc_Explanation :: string
  rc_GeneratedBy :: string
  rc_ProviderRequestCount :: int
  rc_Metrics :: RouteMetrics

record RouteSearchRequest =
  rq_RequestID :: string
  rq_Origin :: GeoPoint
  rq_Destination :: GeoPoint
  rq_Waypoints :: "GeoPoint list"
  rq_DepartureTime :: "time option"
  rq_RoutingMode :: RoutingMode
  rq_MaxExtraDistanceMeters :: int64
  rq_MaxExtraDistancePercent :: f64
  rq_MaxExtraTimeSeconds :: int64
  rq_AvoidTolls :: bool
  rq_AvoidUnpaved :: bool
  rq_Strictness :: f64
  rq_MaxProviderRequests :: int
  rq_SearchDeadlineMS :: int

record AppliedConstraints =
  ac_MaxExtraDistanceMeters :: int64
  ac_MaxExtraDistancePercent :: f64
  ac_MaxExtraTimeSeconds :: int64
  ac_MinimumConfidenceScore :: f64
  ac_AvoidTolls :: bool
  ac_AvoidUnpaved :: bool

record ProviderUsage =
  pu_Provider :: string
  pu_RequestsUsed :: int
  pu_RequestBudget :: int
  pu_EstimatedBillableUnits :: int
  pu_EstimatedCost :: f64
  pu_BudgetExhausted :: bool

record RouteSearchResult =
  rr_SearchID :: string
  rr_RequestID :: string
  rr_Status :: SearchStatus
  rr_SelectedRoute :: "RouteCandidate option"
  rr_Alternatives :: "RouteCandidate list option"
  rr_BestEffortRoutes :: "RouteCandidate list option"
  rr_GreenTopRoutes :: "RouteCandidate list option"
  rr_FastestReferenceRoute :: "RouteCandidate option"
  rr_Constraints :: AppliedConstraints
  rr_ProviderUsage :: ProviderUsage
  rr_Warnings :: "string list"
  rr_ScoringPolicyVersion :: string
  rr_GeneratedAt :: time
  rr_ExpiresAt :: time

text \<open>The metadata map of an event is a JSON object of strings and numbers.\<close>

datatype meta_value = MetaStr string | MetaInt int

record SearchEvent =
  ev_EventID :: int64
  ev_SearchID :: string
  ev_Type :: EventType
  ev_Timestamp :: time
  ev_Message :: string
  ev_Candidate :: "RouteCandidate option"
  ev_Result :: "RouteSearchResult option"
  ev_Metadata :: "(string \<times> meta_value) list"

record GeoSuggestion =
  gs_ID :: string
  gs_Label :: string
  gs_Subtitle :: string
  gs_Point :: GeoPoint

definition zero_point :: GeoPoint where
  "zero_point = \<lparr> Latitude = 0, Longitude = 0 \<rparr>"

definition zero_confidence :: Confidence where
  "zero_confidence = \<lparr> Level = ConfidenceOther '''', Score = 0, Reasons = [] \<rparr>"

text \<open>Struct comparison \<open>==\<close> on points compares the two floats.\<close>

definition point_eq :: "GeoPoint \<Rightarrow> GeoPoint \<Rightarrow> bool" where
  "point_eq p q \<longleftrightarrow> feq (Latitude p) (Latitude q) \<and> feq (Longitude p) (Longitude q)"

section \<open>Validation (validation.go)\<close>

record ValidationLimits =
  vl_MaxWaypoints :: int
  vl_MaxExtraDistanceMeters :: int64
  vl_MaxExtraDistancePercent :: f64
  vl_MaxExtraTimeSeconds :: int64
  vl_MaxProviderRequests :: int
  vl_MinSearchDeadlineMS :: int
  vl_MaxSearchDeadlineMS :: int

definition DefaultValidationLimits :: ValidationLimits where
  "DefaultValidationLimits = \<lparr> vl_MaxWaypoints = 16, vl_MaxExtraDistanceMeters = 150000,
     vl_MaxExtraDistancePercent = flit 300, vl_MaxExtraTimeSeconds = 18000,
     vl_MaxProviderRequests = 20, vl_MinSearchDeadlineMS = 500, vl_MaxSearchDeadlineMS = 30000 \<rparr>"

datatype point_error = LatitudeRange | LongitudeRange

definition GeoPoint_Validate :: "GeoPoint \<Rightarrow> point_error option" where
  "GeoPoint_Validate p =
     (if is_nan (Latitude p) \<or> is_inf (Latitude p) \<or> Latitude p < flit (- 90) \<or> flit 90 < Latitude p
      then Some LatitudeRange
      else if is_nan (Longitude p) \<or> is_inf (Longitude p) \<or> Longitude p < flit (- 180) \<or> flit 180 < Longitude p
      then Some LongitudeRange
      else None)"

definition ApplySafeDefaults :: "RouteSearchRequest \<Rightarrow> RouteSearchRequest" where
  "ApplySafeDefaults r =
     (let r1 = (if rq_MaxProviderRequests r = 0 then r\<lparr>rq_MaxProviderRequests := 8\<rparr> else r)
      in if rq_SearchDeadlineMS r1 = 0 then r1\<lparr>rq_SearchDeadlineMS := 10000\<rparr> else r1)"

datatype request_error = OriginInvalid point_error | DestinationInvalid point_error
  | OriginEqualsDestination | UnsupportedRoutingMode RoutingMode | TooManyWaypoints int
  | WaypointInvalid nat point_error | MaxExtraDistanceMetersRange | MaxExtraDistancePercentRange
  | MaxExtraTimeSecondsRange | StrictnessRange | MaxProviderRequestsRange int
  | SearchDeadlineRange int int | DepartureInPast

text \<open>The index of the first invalid point of a list, with its error.\<close>

fun first_invalid :: "nat \<Rightarrow> GeoPoint list \<Rightarrow> (nat \<times> point_error) option" where
  "first_invalid i [] = None"
| "first_invalid i (p # ps) =
     (case GeoPoint_Validate p of Some e \<Rightarrow> Some (i, e) | None \<Rightarrow> first_invalid (Suc i) ps)"

definition minute :: duration where
  "minute = 60 * 10 ^ 9"

definition RouteSearchRequest_Validate ::
    "time \<Rightarrow> ValidationLimits \<Rightarrow> RouteSearchRequest \<Rightarrow> request_error option" where
  "RouteSearchRequest_Validate now limits r = first_some [
     map_option OriginInvalid (GeoPoint_Validate (rq_Origin r)),
     map_option DestinationInvalid (GeoPoint_Validate (rq_Destination r)),
     check (point_eq (rq_Origin r) (rq_Destination r)) OriginEqualsDestination,
     check (\<not> RoutingMode_Valid (rq_RoutingMode r)) (UnsupportedRoutingMode (rq_RoutingMode r)),
     check (int (length (rq_Waypoints r)) > vl_MaxWaypoints limits) (TooManyWaypoints (vl_MaxWaypoints limits)),
     map_option (\<lambda>(i, e). WaypointInvalid i e) (first_invalid 0 (rq_Waypoints r)),
     check (rq_MaxExtraDistanceMeters r < 0 \<or> rq_MaxExtraDistanceMeters r > vl_MaxExtraDistanceMeters limits)
       MaxExtraDistanceMetersRange,
     check (is_nan (rq_MaxExtraDistancePercent r) \<or> is_inf (rq_MaxExtraDistancePercent r)
       \<or> rq_MaxExtraDistancePercent r < 0 \<or> vl_MaxExtraDistancePercent limits < rq_MaxExtraDistancePercent r)
       MaxExtraDistancePercentRange,
     check (rq_MaxExtraTimeSeconds r < 0 \<or> rq_MaxExtraTimeSeconds r > vl_MaxExtraTimeSeconds limits)
       MaxExtraTimeSecondsRange,
     check (is_nan (rq_Strictness r) \<or> is_inf (rq_Strictness r) \<or> rq_Strictness r < 0 \<or> 1 < rq_Strictness r)
       StrictnessRange,
     check (rq_MaxProviderRequests r < 1 \<or> rq_MaxProviderRequests r > vl_MaxProviderRequests limits)
       (MaxProviderRequestsRange (vl_MaxProviderRequests limits)),
     check (rq_SearchDeadlineMS r < vl_MinSearchDeadlineMS limits
       \<or> rq_SearchDeadlineMS r > vl_MaxSearchDeadlineMS limits)
       (SearchDeadlineRange (vl_MinSearchDeadlineMS limits) (vl_MaxSearchDeadlineMS limits)),
     check (case rq_DepartureTime r of None \<Rightarrow> False | Some t \<Rightarrow> t < now - 5 * minute) DepartureInPast]"

datatype route_error = CandidateIDRequired | GeometryTooShort | GeometryPointInvalid nat point_error
  | MeasurementsRequired | ConfidenceScoreRange

definition RouteCandidate_Validate :: "RouteCandidate \<Rightarrow> route_error option" where
  "RouteCandidate_Validate r = first_some [
     check (rc_CandidateID r = []) CandidateIDRequired,
     check (length (rc_Geometry r) < 2) GeometryTooShort,
     map_option (\<lambda>(i, e). GeometryPointInvalid i e) (first_invalid 0 (rc_Geometry r)),
     check (rc_DistanceMeters r \<le> 0
       \<or> (rc_LiveDurationSeconds r \<le> 0 \<and> rc_BaselineDurationSeconds r \<le> 0)) MeasurementsRequired,
     check (is_nan (Score (rc_Confidence r)) \<or> is_inf (Score (rc_Confidence r))
       \<or> Score (rc_Confidence r) < 0 \<or> 1 < Score (rc_Confidence r)) ConfidenceScoreRange]"

subsection \<open>What validation guarantees\<close>

lemma f64_finite_cases: "\<not> is_nan a \<Longrightarrow> \<not> is_inf a \<Longrightarrow> \<exists>r. a = Fin r"
  by (cases a) (auto simp: is_nan_def is_inf_def)

lemma flit_small: "\<bar>n\<bar> \<le> 2 ^ 53 \<Longrightarrow> flit (of_int n) = Fin (of_int n)"
  by (simp add: flit_def mk_int)

lemma flit_coordinates [simp]:
  "flit 90 = Fin 90" "flit (- 90) = Fin (- 90)" "flit 180 = Fin 180" "flit (- 180) = Fin (- 180)"
  "flit 300 = Fin 300"
  using flit_small [of 90] flit_small [of "- 90"] flit_small [of 180] flit_small [of "- 180"]
    flit_small [of 300] by simp_all

definition point_ok :: "GeoPoint \<Rightarrow> bool" where
  "point_ok p \<longleftrightarrow> frange (- 90) 90 (Latitude p) \<and> frange (- 180) 180 (Longitude p)"

lemma GeoPoint_Validate_None: "GeoPoint_Validate p = None \<longleftrightarrow> point_ok p"
proof -
  have "(\<not> is_nan a \<and> \<not> is_inf a \<and> \<not> a < Fin l \<and> \<not> Fin h < a) = frange l h a" for a l h
    by (cases a) (auto simp: is_nan_def is_inf_def frange_def)
  then show ?thesis
    unfolding GeoPoint_Validate_def point_ok_def by (auto split: if_splits)
qed

lemma first_invalid_None: "first_invalid i ps = None \<longleftrightarrow> (\<forall>p \<in> set ps. point_ok p)"
  by (induction i ps rule: first_invalid.induct)
    (auto simp: GeoPoint_Validate_None [symmetric] split: option.splits)

lemma first_invalid_Some:
  "first_invalid i ps = Some (j, e) \<Longrightarrow> i \<le> j \<and> j - i < length ps \<and>
     GeoPoint_Validate (ps ! (j - i)) = Some e \<and> (\<forall>k < j - i. point_ok (ps ! k))"
proof (induction i ps rule: first_invalid.induct)
  case (2 i p ps)
  show ?case
  proof (cases "GeoPoint_Validate p")
    case None
    then have *: "Suc i \<le> j \<and> j - Suc i < length ps \<and>
      GeoPoint_Validate (ps ! (j - Suc i)) = Some e \<and> (\<forall>k < j - Suc i. point_ok (ps ! k))"
      using 2 by simp
    then have j: "j - i = Suc (j - Suc i)" by arith
    have "point_ok p" using None by (simp add: GeoPoint_Validate_None)
    with * show ?thesis by (auto simp: j less_Suc_eq_0_disj)
  qed (use 2 in simp)
qed simp

definition unit_score :: "f64 \<Rightarrow> bool" where
  "unit_score a \<longleftrightarrow> frange 0 1 a"

lemma not_unit: "(\<not> is_nan a \<and> \<not> is_inf a \<and> \<not> a < 0 \<and> \<not> 1 < a) = frange 0 1 a"
  by (cases a) (auto simp: is_nan_def is_inf_def frange_def zero_f64_def one_f64_def)

definition request_ok :: "time \<Rightarrow> RouteSearchRequest \<Rightarrow> bool" where
  "request_ok now r \<longleftrightarrow>
     point_ok (rq_Origin r) \<and> point_ok (rq_Destination r) \<and> rq_Origin r \<noteq> rq_Destination r \<and>
     RoutingMode_Valid (rq_RoutingMode r) \<and>
     length (rq_Waypoints r) \<le> 16 \<and> list_all point_ok (rq_Waypoints r) \<and>
     0 \<le> rq_MaxExtraDistanceMeters r \<and> rq_MaxExtraDistanceMeters r \<le> 150000 \<and>
     frange 0 300 (rq_MaxExtraDistancePercent r) \<and>
     0 \<le> rq_MaxExtraTimeSeconds r \<and> rq_MaxExtraTimeSeconds r \<le> 18000 \<and>
     frange 0 1 (rq_Strictness r) \<and>
     1 \<le> rq_MaxProviderRequests r \<and> rq_MaxProviderRequests r \<le> 20 \<and>
     500 \<le> rq_SearchDeadlineMS r \<and> rq_SearchDeadlineMS r \<le> 30000 \<and>
     (case rq_DepartureTime r of None \<Rightarrow> True | Some t \<Rightarrow> now - 5 * minute \<le> t)"

lemma point_eq_iff: "point_ok p \<Longrightarrow> point_eq p q \<longleftrightarrow> p = q"
  by (cases p; cases q) (auto simp: point_ok_def point_eq_def feq_def frange_def)

lemma request_validate_None:
  "RouteSearchRequest_Validate now DefaultValidationLimits r = None \<longleftrightarrow> request_ok now r"
proof -
  have pct: "(\<not> is_nan a \<and> \<not> is_inf a \<and> \<not> a < 0 \<and> \<not> Fin 300 < a) = frange 0 300 a" for a
    by (cases a) (auto simp: is_nan_def is_inf_def frange_def zero_f64_def)
  have wps: "int n > 16 \<longleftrightarrow> \<not> n \<le> 16" for n :: nat by linarith
  show ?thesis
    unfolding RouteSearchRequest_Validate_def request_ok_def DefaultValidationLimits_def
    using pct [of "rq_MaxExtraDistancePercent r"] not_unit [of "rq_Strictness r"]
      point_eq_iff [of "rq_Origin r" "rq_Destination r"]
    by (simp add: GeoPoint_Validate_None first_invalid_None wps list_all_iff not_less not_le
        split: option.split) auto
qed

lemma candidate_validate_None:
  "RouteCandidate_Validate r = None \<longleftrightarrow>
     rc_CandidateID r \<noteq> [] \<and> 2 \<le> length (rc_Geometry r) \<and> (\<forall>p \<in> set (rc_Geometry r). point_ok p) \<and>
     0 < rc_DistanceMeters r \<and> (0 < rc_LiveDurationSeconds r \<or> 0 < rc_BaselineDurationSeconds r) \<and>
     frange 0 1 (Score (rc_Confidence r))"
  unfolding RouteCandidate_Validate_def
  using not_unit [of "Score (rc_Confidence r)"]
  by (simp add: first_invalid_None not_less not_le)

end
