(* ===== verification/GoText.thy ===== *)
theory GoText
  imports Domain
begin

text \<open>
  The string functions of Go's \<open>strings\<close> and \<open>strconv\<close> packages that the provider service applies to provider text: splitting,
  reading of numbers and fixed-point printing. Strings are byte lists; white space and case folding are those of ASCII.
\<close>

section \<open>Splitting\<close>

text \<open>\<open>strings.Split\<close> with a one-byte separator: never empty.\<close>

fun Split :: "char \<Rightarrow> string \<Rightarrow> string list" where
  "Split sep [] = [[]]"
| "Split sep (c # s) = (if c = sep then [] # Split sep s else (case Split sep s of p # ps \<Rightarrow> (c # p) # ps | [] \<Rightarrow> [[c]]))"

text \<open>\<open>strings.Fields\<close>: the maximal runs of non-space bytes.\<close>

function Fields :: "string \<Rightarrow> string list" where
  "Fields s = (let s = dropWhile is_space s in
     if s = [] then [] else takeWhile (\<lambda>c. \<not> is_space c) s # Fields (dropWhile (\<lambda>c. \<not> is_space c) s))"
  by pat_completeness auto

lemma dropWhile_shorter: "dropWhile P s \<noteq> [] \<Longrightarrow> length (dropWhile (\<lambda>c. \<not> P c) (dropWhile P s)) < length s"
proof -
  assume "dropWhile P s \<noteq> []"
  then obtain c t where t: "dropWhile P s = c # t" by (cases "dropWhile P s") auto
  then have "\<not> P c" using hd_dropWhile [of P s] by simp
  moreover have "Suc (length t) \<le> length s" using length_dropWhile_le [of P s] t by simp
  moreover have "length (dropWhile (\<lambda>c. \<not> P c) t) \<le> length t" by (rule length_dropWhile_le)
  ultimately show ?thesis using t by simp
qed

termination Fields
  by (relation "measure length") (simp_all add: dropWhile_shorter)

declare Fields.simps [simp del]

text \<open>\<open>strings.EqualFold\<close> on ASCII strings.\<close>

definition EqualFold :: "string \<Rightarrow> string \<Rightarrow> bool" where
  "EqualFold s t \<longleftrightarrow> to_lower s = to_lower t"

text \<open>The number of runes of valid UTF-8: the bytes that do not continue another.\<close>

definition rune_count :: "string \<Rightarrow> nat" where
  "rune_count s = length (filter (\<lambda>c. \<not> (128 \<le> (of_char c :: nat) \<and> (of_char c :: nat) < 192)) s)"

section \<open>Numbers\<close>

definition is_digit :: "char \<Rightarrow> bool" where
  "is_digit c \<longleftrightarrow> CHR ''0'' \<le> c \<and> c \<le> CHR ''9''"

definition is_hex_letter :: "char \<Rightarrow> bool" where
  "is_hex_letter c \<longleftrightarrow> CHR ''a'' \<le> to_lower_char c \<and> to_lower_char c \<le> CHR ''f''"

definition digit_value :: "char \<Rightarrow> int" where
  "digit_value c = (if is_digit c then of_char c - 48 else of_char (to_lower_char c) - 87)"

text \<open>The bytes that pairs of hexadecimal digits stand for: how non-ASCII literals are written down here.\<close>

fun unhex :: "string \<Rightarrow> string" where
  "unhex (h # l # s) = char_of (16 * digit_value h + digit_value l) # unhex s"
| "unhex _ = []"

text \<open>\<open>strconv.ParseInt(s, 10, 64)\<close>; \<^term>\<open>None\<close> is an error.\<close>

definition ParseInt :: "string \<Rightarrow> int64 option" where
  "ParseInt s =
     (let negative = (s \<noteq> [] \<and> hd s = CHR ''-'');
          digits = (if s \<noteq> [] \<and> hd s \<in> {CHR ''-'', CHR ''+''} then tl s else s);
          n = foldl (\<lambda>n c. 10 * n + digit_value c) 0 digits;
          v = (if negative then - n else n)
      in if digits = [] \<or> \<not> list_all is_digit digits \<or> \<not> in64 v then None else Some v)"

text \<open>\<open>underscoreOK\<close>: underscores stand between digits; a base prefix counts as a digit. The state is the class of the
  last byte: beginning, digit, underscore or other.\<close>

datatype last_class = Beginning | Digit | Underscore | OtherByte

fun underscore_scan :: "bool \<Rightarrow> last_class \<Rightarrow> string \<Rightarrow> bool" where
  "underscore_scan hex saw [] = (saw \<noteq> Underscore)"
| "underscore_scan hex saw (c # s) =
     (if is_digit c \<or> hex \<and> is_hex_letter c then underscore_scan hex Digit s
      else if c = CHR ''_'' then saw = Digit \<and> underscore_scan hex Underscore s
      else saw \<noteq> Underscore \<and> underscore_scan hex OtherByte s)"

definition underscoreOK :: "string \<Rightarrow> bool" where
  "underscoreOK s =
     (let s = (if s \<noteq> [] \<and> hd s \<in> {CHR ''-'', CHR ''+''} then tl s else s) in
      if length s \<ge> 2 \<and> hd s = CHR ''0'' \<and> to_lower_char (s ! 1) \<in> {CHR ''b'', CHR ''o'', CHR ''x''}
      then underscore_scan (to_lower_char (s ! 1) = CHR ''x'') Digit (drop 2 s)
      else underscore_scan False Beginning s)"

text \<open>The digit loop of \<open>readFloat\<close>: whether a dot and a digit were seen, the digits as a number, the number of digits
  after the dot, whether an underscore was seen.\<close>

fun scan_digits :: "bool \<Rightarrow> bool \<Rightarrow> bool \<Rightarrow> int \<Rightarrow> int \<Rightarrow> bool \<Rightarrow> string \<Rightarrow> (bool \<times> int \<times> int \<times> bool) \<times> string" where
  "scan_digits hex sawdot sawdigits mant fracs us [] = ((sawdigits, mant, fracs, us), [])"
| "scan_digits hex sawdot sawdigits mant fracs us (c # s) =
     (if c = CHR ''_'' then scan_digits hex sawdot sawdigits mant fracs True s
      else if c = CHR ''.'' then
        if sawdot then ((sawdigits, mant, fracs, us), c # s) else scan_digits hex True sawdigits mant fracs us s
      else if is_digit c \<or> hex \<and> is_hex_letter c then
        scan_digits hex sawdot True ((if hex then 16 else 10) * mant + digit_value c) (if sawdot then fracs + 1 else fracs) us s
      else ((sawdigits, mant, fracs, us), c # s))"

text \<open>The exponent loop: digits beyond 10000 no longer change the value.\<close>

fun scan_exponent :: "int \<Rightarrow> bool \<Rightarrow> string \<Rightarrow> (int \<times> bool) \<times> string" where
  "scan_exponent e us [] = ((e, us), [])"
| "scan_exponent e us (c # s) =
     (if c = CHR ''_'' then scan_exponent e True s
      else if is_digit c then scan_exponent (if e < 10000 then 10 * e + digit_value c else e) us s
      else ((e, us), c # s))"

definition power_int :: "rat \<Rightarrow> int \<Rightarrow> rat" where
  "power_int b e = (if 0 \<le> e then b ^ nat e else 1 / b ^ nat (- e))"

text \<open>\<open>readFloat\<close> without the sign: the exact value of the literal and the unread rest.\<close>

definition read_float :: "string \<Rightarrow> (rat \<times> bool \<times> string) option" where
  "read_float s =
     (let hex = (length s > 2 \<and> hd s = CHR ''0'' \<and> to_lower_char (s ! 1) = CHR ''x'');
          body = (if hex then drop 2 s else s)
      in case scan_digits hex False False 0 0 False body of ((sawdigits, mant, fracs, us), rest) \<Rightarrow>
        let value = (\<lambda>e. of_int mant * (if hex then power_int 2 (e - 4 * fracs) else power_int 10 (e - fracs))) in
        if \<not> sawdigits then None
        else if rest \<noteq> [] \<and> to_lower_char (hd rest) = (if hex then CHR ''p'' else CHR ''e'') then
          let rest = tl rest;
              negative = (rest \<noteq> [] \<and> hd rest = CHR ''-'');
              rest = (if rest \<noteq> [] \<and> hd rest \<in> {CHR ''-'', CHR ''+''} then tl rest else rest)
          in if rest = [] \<or> \<not> is_digit (hd rest) then None
             else case scan_exponent 0 us rest of ((e, us), rest) \<Rightarrow>
               Some (value (if negative then - e else e), us, rest)
        else if hex then None
        else Some (value 0, us, rest))"

text \<open>\<open>strconv.ParseFloat(s, 64)\<close>: the special names, then a literal that uses the whole string, rounded to nearest even;
  an overflow is an error.\<close>

definition ParseFloat :: "string \<Rightarrow> f64 option" where
  "ParseFloat s =
     (let negative = (s \<noteq> [] \<and> hd s = CHR ''-'');
          body = (if s \<noteq> [] \<and> hd s \<in> {CHR ''-'', CHR ''+''} then tl s else s)
      in if to_lower s = ''nan'' then Some NaN
         else if to_lower body \<in> {''inf'', ''infinity''} then Some (if negative then NegInf else PosInf)
         else case read_float body of
           None \<Rightarrow> None
         | Some (v, us, rest) \<Rightarrow>
             if rest \<noteq> [] \<or> us \<and> \<not> underscoreOK s then None
             else let r = mk (if negative then - v else v) in if is_inf r then None else Some r)"

text \<open>\<open>strconv.FormatFloat(v, 'f', 7, 64)\<close> and \<open>%.7f\<close>.\<close>

definition format7 :: "f64 \<Rightarrow> string" where
  "format7 v = (case v of
     NaN \<Rightarrow> ''NaN'' | PosInf \<Rightarrow> ''+Inf'' | NegInf \<Rightarrow> ''-Inf''
   | Fin r \<Rightarrow>
       let n = rne (\<bar>r\<bar> * 10 ^ 7)
       in (if r < 0 then ''-'' else []) @ show_int (n div 10 ^ 7) @ ''.'' @ map (\<lambda>k. digit_char (nat (n div 10 ^ k mod 10))) [6, 5, 4, 3, 2, 1, 0])"

section \<open>Facts\<close>

lemma Split_nonempty [simp]: "Split sep s \<noteq> []"
  by (induction s) (auto split: list.split)

lemma ParseFloat_not_inf_literal:
  "ParseFloat s = Some v \<Longrightarrow> is_inf v \<Longrightarrow> to_lower (if s \<noteq> [] \<and> hd s \<in> {CHR ''-'', CHR ''+''} then tl s else s) \<in> {''inf'', ''infinity''}"
  by (auto simp: ParseFloat_def Let_def is_inf_def split: option.splits if_splits)

end
