(* ===== verification/Contracts.thy ===== *)
theory Contracts
  imports Domain
begin

text \<open>
  The wire contracts between the services (\<open>internal/contracts/provider.go\<close>, \<open>search.go\<close>). A Go pointer
  that may be nil is an option; \<open>Request\<close> turns a presence-aware input into a request or names the first
  missing property.
\<close>

section \<open>Provider contract (provider.go)\<close>

definition InternalContractVersion :: string where
  "InternalContractVersion = ''v1''"

record AvoidZone =
  az_Points :: "GeoPoint list"

record ProviderRouteRequest =
  pr_RequestID :: string
  pr_Origin :: GeoPoint
  pr_Destination :: GeoPoint
  pr_Waypoints :: "GeoPoint list"
  pr_Traffic :: bool
  pr_Alternatives :: int
  pr_AvoidTolls :: bool
  pr_AvoidUnpaved :: bool
  pr_DepartureUnix :: int64
  pr_AvoidZones :: "AvoidZone list"
  pr_RequestBudget :: int
  pr_DeadlineMS :: int

record ProviderRouteInput =
  pi_RequestID :: "string option"
  pi_Origin :: "GeoPoint option"
  pi_Destination :: "GeoPoint option"
  pi_Waypoints :: "GeoPoint list"
  pi_Traffic :: "bool option"
  pi_Alternatives :: "int option"
  pi_AvoidTolls :: "bool option"
  pi_AvoidUnpaved :: "bool option"
  pi_DepartureUnix :: int64
  pi_AvoidZones :: "AvoidZone list"
  pi_RequestBudget :: "int option"
  pi_DeadlineMS :: "int option"

definition ProviderRouteInput_Request :: "ProviderRouteInput \<Rightarrow> string + ProviderRouteRequest" where
  "ProviderRouteInput_Request input =
     (if pi_RequestID input = None then Inl ''requestId''
      else if pi_Origin input = None then Inl ''origin''
      else if pi_Destination input = None then Inl ''destination''
      else if pi_Traffic input = None then Inl ''traffic''
      else if pi_Alternatives input = None then Inl ''alternatives''
      else if pi_AvoidTolls input = None then Inl ''avoidTolls''
      else if pi_AvoidUnpaved input = None then Inl ''avoidUnpaved''
      else if pi_RequestBudget input = None then Inl ''requestBudget''
      else if pi_DeadlineMS input = None then Inl ''deadlineMs''
      else Inr \<lparr> pr_RequestID = the (pi_RequestID input), pr_Origin = the (pi_Origin input),
        pr_Destination = the (pi_Destination input), pr_Waypoints = pi_Waypoints input,
        pr_Traffic = the (pi_Traffic input), pr_Alternatives = the (pi_Alternatives input),
        pr_AvoidTolls = the (pi_AvoidTolls input), pr_AvoidUnpaved = the (pi_AvoidUnpaved input),
        pr_DepartureUnix = pi_DepartureUnix input, pr_AvoidZones = pi_AvoidZones input,
        pr_RequestBudget = the (pi_RequestBudget input), pr_DeadlineMS = the (pi_DeadlineMS input) \<rparr>)"

record ProviderRouteResponse =
  ps_Candidates :: "RouteCandidate list"
  ps_RequestsUsed :: int
  ps_EstimatedBillableUnits :: int
  ps_BudgetRemaining :: int
  ps_Warnings :: "string list"
  ps_Degraded :: bool

record APIIntegration =
  api_ID :: string
  api_Provider :: string
  api_Product :: string
  api_APIVersion :: string
  api_Capability :: string
  api_Role :: string
  api_State :: string

record ProviderCapabilities =
  pc_ContractVersion :: string
  pc_Provider :: string
  pc_Mode :: string
  pc_APIIntegrations :: "APIIntegration list"
  pc_MaxAlternatives :: int
  pc_MaxWaypoints :: int
  pc_RealtimeTraffic :: bool
  pc_TrafficDisabledBaseline :: bool
  pc_DepartureTime :: bool
  pc_AvoidZones :: bool
  pc_Geosuggest :: bool
  pc_Coverage :: "string list"
  pc_ExperimentalSources :: bool
  pc_DataStorageAllowed :: bool
  pc_RawResponseCacheTTLSecond :: int

section \<open>Search contract (search.go)\<close>

record RouteSearchInput =
  si_RequestID :: string
  si_Origin :: "GeoPoint option"
  si_Destination :: "GeoPoint option"
  si_Waypoints :: "GeoPoint list"
  si_DepartureTime :: "time option"
  si_RoutingMode :: "RoutingMode option"
  si_MaxExtraDistanceMeters :: "int64 option"
  si_MaxExtraDistancePercent :: "f64 option"
  si_MaxExtraTimeSeconds :: "int64 option"
  si_AvoidTolls :: bool
  si_AvoidUnpaved :: bool
  si_Strictness :: "f64 option"
  si_MaxProviderRequests :: "int option"
  si_SearchDeadlineMS :: "int option"

definition default_opt :: "'a option \<Rightarrow> 'a \<Rightarrow> 'a" where
  "default_opt v d = (case v of None \<Rightarrow> d | Some x \<Rightarrow> x)"

definition RouteSearchInput_Request :: "RouteSearchInput \<Rightarrow> string + RouteSearchRequest" where
  "RouteSearchInput_Request input =
     (if si_Origin input = None then Inl ''origin''
      else if si_Destination input = None then Inl ''destination''
      else if si_RoutingMode input = None then Inl ''routingMode''
      else if si_MaxExtraDistanceMeters input = None then Inl ''maxExtraDistanceMeters''
      else if si_MaxExtraTimeSeconds input = None then Inl ''maxExtraTimeSeconds''
      else Inr \<lparr> rq_RequestID = si_RequestID input, rq_Origin = the (si_Origin input),
        rq_Destination = the (si_Destination input), rq_Waypoints = si_Waypoints input,
        rq_DepartureTime = si_DepartureTime input, rq_RoutingMode = the (si_RoutingMode input),
        rq_MaxExtraDistanceMeters = the (si_MaxExtraDistanceMeters input),
        rq_MaxExtraDistancePercent = default_opt (si_MaxExtraDistancePercent input) 0,
        rq_MaxExtraTimeSeconds = the (si_MaxExtraTimeSeconds input),
        rq_AvoidTolls = si_AvoidTolls input, rq_AvoidUnpaved = si_AvoidUnpaved input,
        rq_Strictness = default_opt (si_Strictness input) (flit 0.7),
        rq_MaxProviderRequests = default_opt (si_MaxProviderRequests input) 8,
        rq_SearchDeadlineMS = default_opt (si_SearchDeadlineMS input) 10000 \<rparr>)"

section \<open>Facts\<close>

text \<open>The input that states every property of a request explicitly.\<close>

definition input_of_request :: "RouteSearchRequest \<Rightarrow> RouteSearchInput" where
  "input_of_request r = \<lparr> si_RequestID = rq_RequestID r, si_Origin = Some (rq_Origin r),
     si_Destination = Some (rq_Destination r), si_Waypoints = rq_Waypoints r, si_DepartureTime = rq_DepartureTime r,
     si_RoutingMode = Some (rq_RoutingMode r), si_MaxExtraDistanceMeters = Some (rq_MaxExtraDistanceMeters r),
     si_MaxExtraDistancePercent = Some (rq_MaxExtraDistancePercent r), si_MaxExtraTimeSeconds = Some (rq_MaxExtraTimeSeconds r),
     si_AvoidTolls = rq_AvoidTolls r, si_AvoidUnpaved = rq_AvoidUnpaved r, si_Strictness = Some (rq_Strictness r),
     si_MaxProviderRequests = Some (rq_MaxProviderRequests r), si_SearchDeadlineMS = Some (rq_SearchDeadlineMS r) \<rparr>"

text \<open>The presence-aware inputs lose nothing: a request written out in full, explicit zeros included, is read back unchanged;
  an input lacks a required property exactly when \<open>Request\<close> reports one, and omitted optional values become the documented defaults.\<close>

theorem search_input_roundtrip:
  "RouteSearchInput_Request (input_of_request r) = Inr r
   \<and> ((\<exists>name. RouteSearchInput_Request i = Inl name) \<longleftrightarrow>
        si_Origin i = None \<or> si_Destination i = None \<or> si_RoutingMode i = None
        \<or> si_MaxExtraDistanceMeters i = None \<or> si_MaxExtraTimeSeconds i = None)
   \<and> RouteSearchInput_Request ((input_of_request r)\<lparr>si_Strictness := None, si_MaxProviderRequests := None,
        si_SearchDeadlineMS := None, si_MaxExtraDistancePercent := None\<rparr>)
     = Inr (r\<lparr>rq_Strictness := flit 0.7, rq_MaxProviderRequests := 8, rq_SearchDeadlineMS := 10000, rq_MaxExtraDistancePercent := 0\<rparr>)"
  by (simp add: RouteSearchInput_Request_def input_of_request_def default_opt_def)

end
