(* ===== verification/Scoring.thy ===== *)
theory Scoring
  imports Domain
begin

text \<open>
  Traffic scoring (\<open>internal/scoring/scoring.go\<close>, \<open>internal/scoring/config.go\<close>): classification of
  segments, evaluation of a candidate (metrics and confidence), the hard constraints with the
  fail-closed STRICT_GREEN evidence rules, and ranking. Definitions only; the theorems are in
  \<open>Scoring_Evaluate\<close> and \<open>Scoring_Rank\<close>.
\<close>

section \<open>Configuration (config.go)\<close>

record ScoringConfig =
  PolicyVersion :: string
  GreenMaxTrafficRatio :: f64
  YellowMaxTrafficRatio :: f64
  OrangeMaxTrafficRatio :: f64
  MinimumGeometrySimilarity :: f64
  MinimumRouteConfidence :: f64
  UnknownHighConfidenceMaxPercent :: f64
  UnknownMediumConfidenceMaxPercent :: f64
  BalancedTrafficWeight :: f64
  BalancedETAWeight :: f64
  BalancedDistanceWeight :: f64
  BalancedUncertaintyWeight :: f64
  BalancedTollWeight :: f64
  GreenestExtraTimePenalty :: f64

definition DefaultConfig :: ScoringConfig where
  "DefaultConfig = \<lparr> PolicyVersion = ''greenroute-scoring-v2.0.0'',
     GreenMaxTrafficRatio = flit 1.15, YellowMaxTrafficRatio = flit 1.35,
     OrangeMaxTrafficRatio = flit 1.65, MinimumGeometrySimilarity = flit 0.72,
     MinimumRouteConfidence = flit 0.35, UnknownHighConfidenceMaxPercent = flit 5,
     UnknownMediumConfidenceMaxPercent = flit 25, BalancedTrafficWeight = flit 0.40,
     BalancedETAWeight = flit 0.25, BalancedDistanceWeight = flit 0.15,
     BalancedUncertaintyWeight = flit 0.15, BalancedTollWeight = flit 0.05,
     GreenestExtraTimePenalty = flit 0.15 \<rparr>"

definition not_finite :: "f64 \<Rightarrow> bool" where
  "not_finite a \<longleftrightarrow> is_nan a \<or> is_inf a"

text \<open>The accumulated weight sum, or \<^term>\<open>None\<close> at the first invalid weight.\<close>

fun weight_sum :: "f64 \<Rightarrow> f64 list \<Rightarrow> f64 option" where
  "weight_sum acc [] = Some acc"
| "weight_sum acc (w # ws) =
     (if is_nan w \<or> is_inf w \<or> w < 0 then None else weight_sum (acc + w) ws)"

text \<open>\<^term>\<open>True\<close> when \<open>Validate\<close> returns no error.\<close>

definition Config_Validate :: "ScoringConfig \<Rightarrow> bool" where
  "Config_Validate c =
     (if \<exists>n \<in> set [GreenMaxTrafficRatio c, YellowMaxTrafficRatio c, OrangeMaxTrafficRatio c,
            MinimumGeometrySimilarity c, MinimumRouteConfidence c,
            UnknownHighConfidenceMaxPercent c, UnknownMediumConfidenceMaxPercent c,
            BalancedTrafficWeight c, BalancedETAWeight c, BalancedDistanceWeight c,
            BalancedUncertaintyWeight c, BalancedTollWeight c, GreenestExtraTimePenalty c].
          is_nan n \<or> is_inf n
      then False
      else if PolicyVersion c = [] \<or> GreenMaxTrafficRatio c \<le> 1
        \<or> YellowMaxTrafficRatio c \<le> GreenMaxTrafficRatio c
        \<or> OrangeMaxTrafficRatio c \<le> YellowMaxTrafficRatio c
      then False
      else if MinimumGeometrySimilarity c < 0 \<or> 1 < MinimumGeometrySimilarity c
        \<or> MinimumRouteConfidence c < 0 \<or> 1 < MinimumRouteConfidence c
      then False
      else if UnknownHighConfidenceMaxPercent c < 0
        \<or> UnknownMediumConfidenceMaxPercent c < UnknownHighConfidenceMaxPercent c
        \<or> flit 100 < UnknownMediumConfidenceMaxPercent c
      then False
      else (case weight_sum 0 [BalancedTrafficWeight c, BalancedETAWeight c, BalancedDistanceWeight c,
              BalancedUncertaintyWeight c, BalancedTollWeight c] of
          None \<Rightarrow> False
        | Some weightSum \<Rightarrow>
            \<not> (flit 0.000001 < fabs (weightSum - 1) \<or> GreenestExtraTimePenalty c < 0
              \<or> is_nan (GreenestExtraTimePenalty c) \<or> is_inf (GreenestExtraTimePenalty c))))"

section \<open>Arithmetic helpers (scoring.go)\<close>

definition round_to :: "f64 \<Rightarrow> nat \<Rightarrow> f64" where
  "round_to value precision = (let factor = flit (10 ^ precision) in fround (value * factor) / factor)"

definition clamp01 :: "f64 \<Rightarrow> f64" where
  "clamp01 value = fmax 0 (fmin 1 value)"

definition max64 :: "int64 \<Rightarrow> int64 \<Rightarrow> int64" where
  "max64 a b = (if a > b then a else b)"

definition percent :: "int64 \<Rightarrow> int64 \<Rightarrow> f64" where
  "percent value tot =
     (if tot \<le> 0 \<or> value \<le> 0 then 0
      else round_to (of_i64 value / of_i64 tot * flit 100) 3)"

definition positiveRatio :: "int64 \<Rightarrow> int64 \<Rightarrow> f64" where
  "positiveRatio value tot = (if value \<le> 0 \<or> tot \<le> 0 then 0 else of_i64 value / of_i64 tot)"

definition coverageRatio :: "int64 \<Rightarrow> int64 \<Rightarrow> f64" where
  "coverageRatio value tot =
     (if value \<le> 0 \<or> tot \<le> 0 then 0 else fmin 1 (of_i64 value / of_i64 tot))"

definition unique :: "string list \<Rightarrow> string list" where
  "unique values = unique_from [] values"

definition appendUnique :: "string list \<Rightarrow> string \<Rightarrow> string list" where
  "appendUnique values value = (if value \<in> set values then values else values @ [value])"

section \<open>Classification and evaluation\<close>

record Evidence =
  TrafficDataAvailable :: bool
  evd_TrafficDataType :: TrafficDataType
  DataAgeKnown :: bool
  DataAgeSeconds :: int64
  ProviderErrors :: int
  HasAlternatives :: bool

definition ClassifyTraffic :: "f64 \<Rightarrow> f64 \<Rightarrow> ScoringConfig \<Rightarrow> CongestionClass" where
  "ClassifyTraffic ratio geometrySimilarity config =
     (if is_nan ratio \<or> is_inf ratio \<or> ratio \<le> 0 \<or> geometrySimilarity < MinimumGeometrySimilarity config
      then CongestionUnknown
      else if ratio < GreenMaxTrafficRatio config then CongestionGreen
      else if ratio < YellowMaxTrafficRatio config then CongestionYellow
      else if ratio < OrangeMaxTrafficRatio config then CongestionOrange
      else CongestionRed)"

fun validCongestionClass :: "CongestionClass \<Rightarrow> bool" where
  "validCongestionClass (CongestionOther _) = False"
| "validCongestionClass _ = True"

definition confidence :: "f64 \<Rightarrow> string list \<Rightarrow> Confidence" where
  "confidence score reasons =
     \<lparr> Level = (if flit 0.8 \<le> score then ConfidenceHigh
               else if flit 0.55 \<le> score then ConfidenceMedium else ConfidenceLow),
       Score = round_to score 4, Reasons = unique reasons \<rparr>"

definition providerClassConfidence :: "RouteSegment \<Rightarrow> Evidence \<Rightarrow> Confidence" where
  "providerClassConfidence segment evidence =
     (if seg_CongestionClass segment = CongestionUnknown \<or> \<not> TrafficDataAvailable evidence
      then confidence (flit 0.25) [''PROVIDER_TRAFFIC_CLASS_UNKNOWN'']
      else
        let (score, reasons) = (flit 0.70, [''PROVIDER_TRAFFIC_COLOR_INFERRED'']);
            (score, reasons) = (if evd_TrafficDataType evidence = TrafficDataForecast
              then (score - flit 0.08, reasons @ [''FORECAST_TRAFFIC_DATA'']) else (score, reasons));
            (score, reasons) = (if DataAgeSeconds evidence > 900
              then (score - flit 0.15, reasons @ [''STALE_TRAFFIC_DATA''])
              else if \<not> DataAgeKnown evidence
              then (score - flit 0.05, reasons @ [''TRAFFIC_FRESHNESS_UNKNOWN'']) else (score, reasons))
        in confidence (clamp01 score) reasons)"

definition segmentConfidence :: "RouteSegment \<Rightarrow> Evidence \<Rightarrow> Confidence" where
  "segmentConfidence segment evidence =
     (let (score, reasons) = (1, []);
          (score, reasons) = (if \<not> TrafficDataAvailable evidence \<or> seg_BaselineDurationSeconds segment \<le> 0
            then (score - flit 0.55, reasons @ [''MISSING_BASELINE'']) else (score, reasons));
          (score, reasons) = (if seg_GeometrySimilarity segment < flit 0.9
            then (score - (flit 0.9 - clamp01 (seg_GeometrySimilarity segment)) * flit 0.65,
                  reasons @ [''GEOMETRY_MISMATCH'']) else (score, reasons));
          (score, reasons) = (if DataAgeSeconds evidence > 900
            then (score - flit 0.15, reasons @ [''STALE_TRAFFIC_DATA''])
            else if TrafficDataAvailable evidence \<and> \<not> DataAgeKnown evidence
            then (score - flit 0.05, reasons @ [''TRAFFIC_FRESHNESS_UNKNOWN'']) else (score, reasons));
          (score, reasons) = (if evd_TrafficDataType evidence = TrafficDataForecast
            then (score - flit 0.08, reasons @ [''FORECAST_TRAFFIC_DATA'']) else (score, reasons))
      in confidence (clamp01 score) reasons)"

definition routeConfidence :: "RouteCandidate \<Rightarrow> Evidence \<Rightarrow> f64 \<Rightarrow> ScoringConfig \<Rightarrow> Confidence" where
  "routeConfidence candidate evidence weightedSimilarity config =
     (let (score, reasons) = (1, []);
          (score, reasons) = (if \<not> TrafficDataAvailable evidence
            then (score - flit 0.45, reasons @ [''TRAFFIC_DATA_UNAVAILABLE'']) else (score, reasons));
          unknownPercent = percent (UnknownDistanceMeters (rc_Metrics candidate)) (rc_DistanceMeters candidate);
          (score, reasons) = (if 0 < unknownPercent
            then (score - fmin (flit 0.5) (unknownPercent / flit 100 * flit 0.65), reasons @ [''UNKNOWN_SEGMENTS''])
            else (score, reasons));
          (score, reasons) = (if rc_DistanceMeters candidate > 0
            then (let averageSimilarity = weightedSimilarity / of_i64 (rc_DistanceMeters candidate)
                  in if averageSimilarity < MinimumGeometrySimilarity config
                     then (score - flit 0.35, reasons @ [''LOW_BASELINE_GEOMETRY_SIMILARITY''])
                     else if averageSimilarity < flit 0.9
                     then (score - (flit 0.9 - averageSimilarity) * flit 0.5, reasons)
                     else (score, reasons))
            else (score, reasons));
          (score, reasons) = (if \<not> HasAlternatives evidence
            then (score - flit 0.08, reasons @ [''NO_COMPARABLE_ALTERNATIVES'']) else (score, reasons));
          (score, reasons) = (if ProviderErrors evidence > 0
            then (score - fmin (flit 0.25) (of_i64 (ProviderErrors evidence) * flit 0.08), reasons @ [''PROVIDER_ERRORS''])
            else (score, reasons));
          (score, reasons) = (if DataAgeSeconds evidence > 300
            then (score - fmin (flit 0.2) (of_i64 (sub64 (DataAgeSeconds evidence) 300) / flit 3600 * flit 0.2),
                  reasons @ [''STALE_TRAFFIC_DATA''])
            else if TrafficDataAvailable evidence \<and> \<not> DataAgeKnown evidence
            then (score - flit 0.05, reasons @ [''TRAFFIC_FRESHNESS_UNKNOWN'']) else (score, reasons));
          (score, reasons) = (if evd_TrafficDataType evidence = TrafficDataForecast
            then (score - flit 0.08, reasons @ [''FORECAST_TRAFFIC_DATA'']) else (score, reasons));
          result = confidence (clamp01 score) (unique reasons)
      in if UnknownMediumConfidenceMaxPercent config < unknownPercent then result\<lparr>Level := ConfidenceLow\<rparr>
         else if UnknownHighConfidenceMaxPercent config < unknownPercent \<and> Level result = ConfidenceHigh
         then result\<lparr>Level := ConfidenceMedium\<rparr>
         else result)"

text \<open>The classification half of the loop body of \<open>Evaluate\<close>: what happens to one segment.\<close>

definition evaluateSegment :: "Evidence \<Rightarrow> ScoringConfig \<Rightarrow> RouteSegment \<Rightarrow> RouteSegment" where
  "evaluateSegment evidence config segment =
     (if seg_Source segment = SegmentSourceDGISTrafficColor
      then
        let segment = segment\<lparr>seg_TrafficRatio := 0, seg_GeometrySimilarity := 1\<rparr>;
            segment = (if \<not> TrafficDataAvailable evidence \<or> \<not> validCongestionClass (seg_CongestionClass segment)
              then segment\<lparr>seg_CongestionClass := CongestionUnknown\<rparr> else segment)
        in segment\<lparr>seg_Confidence := providerClassConfidence segment evidence\<rparr>
      else
        let segment = segment\<lparr>seg_TrafficRatio := 0\<rparr>;
            segment = (if seg_BaselineDurationSeconds segment > 0 \<and> seg_LiveDurationSeconds segment > 0
              then segment\<lparr>seg_TrafficRatio :=
                of_i64 (seg_LiveDurationSeconds segment) / of_i64 (seg_BaselineDurationSeconds segment)\<rparr>
              else segment);
            classificationSimilarity =
              (if \<not> TrafficDataAvailable evidence \<or> evd_TrafficDataType evidence = TrafficDataUnknown
               then 0 else seg_GeometrySimilarity segment);
            segment = segment\<lparr>seg_CongestionClass :=
              ClassifyTraffic (seg_TrafficRatio segment) classificationSimilarity config\<rparr>
        in segment\<lparr>seg_Confidence := segmentConfidence segment evidence\<rparr>)"

text \<open>The accumulation half: the running totals over the classified segments.\<close>

record EvalState =
  es_metrics :: RouteMetrics
  es_totalDuration :: int64
  es_totalDistance :: int64
  es_continuousCongestion :: int64
  es_weightedSimilarity :: f64

definition eval_init :: EvalState where
  "eval_init = \<lparr> es_metrics = zero_metrics, es_totalDuration = 0, es_totalDistance = 0,
     es_continuousCongestion = 0, es_weightedSimilarity = 0 \<rparr>"

definition congestedStep :: "int64 \<Rightarrow> RouteMetrics \<Rightarrow> int64 \<Rightarrow> int64 \<times> RouteMetrics" where
  "congestedStep distance m continuousCongestion =
     (let cc = add64 continuousCongestion distance
      in (cc, m\<lparr>WorstContinuousCongestionMeters := max64 (WorstContinuousCongestionMeters m) cc\<rparr>))"

definition accumulateSegment :: "EvalState \<Rightarrow> RouteSegment \<Rightarrow> EvalState" where
  "accumulateSegment st segment =
     (let dist = seg_DistanceMeters segment; live = seg_LiveDurationSeconds segment;
          delay = (if seg_BaselineDurationSeconds segment > 0
            then max64 0 (sub64 live (seg_BaselineDurationSeconds segment)) else 0);
          m = es_metrics st;
          m = m\<lparr>TotalTrafficDelaySeconds := add64 (TotalTrafficDelaySeconds m) delay\<rparr>;
          (cc, m) = (case seg_CongestionClass segment of
              CongestionGreen \<Rightarrow> (0, m\<lparr>GreenDistanceMeters := add64 (GreenDistanceMeters m) dist,
                GreenDurationSeconds := add64 (GreenDurationSeconds m) live\<rparr>)
            | CongestionYellow \<Rightarrow> (0, m\<lparr>YellowDistanceMeters := add64 (YellowDistanceMeters m) dist,
                YellowDurationSeconds := add64 (YellowDurationSeconds m) live\<rparr>)
            | CongestionOrange \<Rightarrow> congestedStep dist (m\<lparr>OrangeDistanceMeters := add64 (OrangeDistanceMeters m) dist,
                OrangeDurationSeconds := add64 (OrangeDurationSeconds m) live\<rparr>) (es_continuousCongestion st)
            | CongestionRed \<Rightarrow> congestedStep dist (m\<lparr>RedDistanceMeters := add64 (RedDistanceMeters m) dist,
                RedDurationSeconds := add64 (RedDurationSeconds m) live\<rparr>) (es_continuousCongestion st)
            | CongestionUnknown \<Rightarrow> (0, m\<lparr>UnknownDistanceMeters := add64 (UnknownDistanceMeters m) dist,
                UnknownDurationSeconds := add64 (UnknownDurationSeconds m) live\<rparr>)
            | CongestionOther _ \<Rightarrow> (es_continuousCongestion st, m))
      in \<lparr> es_metrics = m,
           es_totalDuration = add64 (es_totalDuration st) live,
           es_totalDistance = add64 (es_totalDistance st) dist,
           es_continuousCongestion = cc,
           es_weightedSimilarity = es_weightedSimilarity st
             + seg_GeometrySimilarity segment * of_i64 (max64 dist 1) \<rparr>)"

definition defaultSegments :: "RouteCandidate \<Rightarrow> RouteSegment list" where
  "defaultSegments candidate =
     (if rc_Segments candidate = []
      then [\<lparr> seg_SegmentID = rc_CandidateID candidate @ ''-0'', seg_Geometry = rc_Geometry candidate,
              seg_DistanceMeters = rc_DistanceMeters candidate,
              seg_LiveDurationSeconds = rc_LiveDurationSeconds candidate,
              seg_BaselineDurationSeconds = rc_BaselineDurationSeconds candidate,
              seg_TrafficRatio = 0, seg_CongestionClass = CongestionOther '''',
              seg_Confidence = zero_confidence, seg_GeometrySimilarity = 1,
              seg_Source = ''route-level-baseline'' \<rparr>]
      else rc_Segments candidate)"

text \<open>The metrics after the loop: missing coverage counts as unknown, then the percentages.\<close>

definition finishMetrics :: "RouteCandidate \<Rightarrow> EvalState \<Rightarrow> RouteMetrics" where
  "finishMetrics candidate st =
     (let m = es_metrics st;
          (m, totalDistance) = (if rc_DistanceMeters candidate > es_totalDistance st
            then (m\<lparr>UnknownDistanceMeters := add64 (UnknownDistanceMeters m)
                    (sub64 (rc_DistanceMeters candidate) (es_totalDistance st))\<rparr>, rc_DistanceMeters candidate)
            else (m, es_totalDistance st));
          (m, totalDuration) = (if rc_LiveDurationSeconds candidate > es_totalDuration st
            then (m\<lparr>UnknownDurationSeconds := add64 (UnknownDurationSeconds m)
                    (sub64 (rc_LiveDurationSeconds candidate) (es_totalDuration st))\<rparr>, rc_LiveDurationSeconds candidate)
            else (m, es_totalDuration st));
          m = (if totalDistance > 0
            then m\<lparr>CongestedDistancePercent :=
                     percent (add64 (OrangeDistanceMeters m) (RedDistanceMeters m)) totalDistance,
                   GreenDistancePercent := percent (GreenDistanceMeters m) totalDistance\<rparr> else m)
      in if totalDuration > 0
         then m\<lparr>CongestedDurationPercent :=
                percent (add64 (OrangeDurationSeconds m) (RedDurationSeconds m)) totalDuration\<rparr> else m)"

definition Evaluate :: "RouteCandidate \<Rightarrow> Evidence \<Rightarrow> ScoringConfig \<Rightarrow> RouteCandidate" where
  "Evaluate candidate evidence config =
     (let segments = map (evaluateSegment evidence config) (defaultSegments candidate);
          st = foldl accumulateSegment eval_init segments;
          metrics = finishMetrics candidate st;
          candidate = candidate\<lparr>rc_Segments := segments, rc_Metrics := metrics,
            rc_TrafficDelaySeconds := TotalTrafficDelaySeconds metrics\<rparr>;
          candidate = (if rc_BaselineDurationSeconds candidate \<le> 0
            then candidate\<lparr>rc_BaselineDurationSeconds :=
              max64 0 (sub64 (rc_LiveDurationSeconds candidate) (TotalTrafficDelaySeconds metrics))\<rparr>
            else candidate);
          candidate = candidate\<lparr>rc_Confidence :=
            routeConfidence candidate evidence (es_weightedSimilarity st) config\<rparr>;
          candidate = candidate\<lparr>rc_ReasonCodes := unique (rc_ReasonCodes candidate)\<rparr>
      in if UnknownDistanceMeters metrics > 0
         then candidate\<lparr>rc_ReasonCodes := appendUnique (rc_ReasonCodes candidate) ''PARTIAL_TRAFFIC_DATA''\<rparr>
         else candidate)"

section \<open>Hard constraints\<close>

record ConstraintViolation =
  Code :: string
  Message :: string

definition violation :: "bool \<Rightarrow> string \<Rightarrow> string \<Rightarrow> ConstraintViolation list" where
  "violation b code message = (if b then [\<lparr>Code = code, Message = message\<rparr>] else [])"

text \<open>The flags and totals of the loop over the segments.\<close>

record StrictScan =
  ss_coveredDistance :: int64
  ss_coveredDuration :: int64
  ss_meaningfulSegments :: int
  ss_nonGreen :: bool
  ss_unknown :: bool
  ss_yellow :: bool
  ss_orange :: bool
  ss_red :: bool
  ss_lowConfidence :: bool

definition strict_init :: StrictScan where
  "strict_init = \<lparr> ss_coveredDistance = 0, ss_coveredDuration = 0, ss_meaningfulSegments = 0,
     ss_nonGreen = False, ss_unknown = False, ss_yellow = False, ss_orange = False, ss_red = False,
     ss_lowConfidence = False \<rparr>"

definition strictScanStep :: "ScoringConfig \<Rightarrow> StrictScan \<Rightarrow> RouteSegment \<Rightarrow> StrictScan" where
  "strictScanStep config st segment =
     (if seg_DistanceMeters segment \<le> 0 \<and> seg_LiveDurationSeconds segment \<le> 0 then st
      else
        let st = st\<lparr>ss_meaningfulSegments := ss_meaningfulSegments st + 1,
              ss_coveredDistance := add64 (ss_coveredDistance st) (max64 (seg_DistanceMeters segment) 0),
              ss_coveredDuration := add64 (ss_coveredDuration st) (max64 (seg_LiveDurationSeconds segment) 0)\<rparr>;
            st = (case seg_CongestionClass segment of
                CongestionGreen \<Rightarrow> st
              | CongestionYellow \<Rightarrow> st\<lparr>ss_nonGreen := True, ss_yellow := True\<rparr>
              | CongestionOrange \<Rightarrow> st\<lparr>ss_nonGreen := True, ss_orange := True\<rparr>
              | CongestionRed \<Rightarrow> st\<lparr>ss_nonGreen := True, ss_red := True\<rparr>
              | _ \<Rightarrow> st\<lparr>ss_nonGreen := True, ss_unknown := True\<rparr>)
        in if Score (seg_Confidence segment) < MinimumRouteConfidence config
             \<or> (Level (seg_Confidence segment) \<noteq> ConfidenceHigh \<and> Level (seg_Confidence segment) \<noteq> ConfidenceMedium)
           then st\<lparr>ss_lowConfidence := True\<rparr> else st)"

definition strictGreenEvidenceViolations :: "RouteCandidate \<Rightarrow> ScoringConfig \<Rightarrow> ConstraintViolation list" where
  "strictGreenEvidenceViolations candidate config =
     (let st = foldl (strictScanStep config) strict_init (rc_Segments candidate) in
      violation (rc_TrafficDataType candidate \<noteq> TrafficDataRealtime \<and> rc_TrafficDataType candidate \<noteq> TrafficDataForecast)
        ''STRICT_GREEN_TRAFFIC_EVIDENCE_REQUIRED'' ''strict green requires observed or forecast traffic evidence''
      @ violation (Level (rc_Confidence candidate) \<noteq> ConfidenceHigh \<and> Level (rc_Confidence candidate) \<noteq> ConfidenceMedium)
        ''STRICT_GREEN_ROUTE_CONFIDENCE_TOO_LOW'' ''strict green requires at least medium route confidence''
      @ violation (ss_meaningfulSegments st = 0)
        ''STRICT_GREEN_SEGMENTS_REQUIRED'' ''strict green requires segment-level traffic evidence''
      @ violation (ss_nonGreen st)
        ''STRICT_GREEN_NON_GREEN_SEGMENT'' ''strict green rejects unknown, yellow, orange and red segments''
      @ violation (ss_red st) ''STRICT_GREEN_RED_SEGMENT'' ''strict green rejects red segments''
      @ violation (ss_orange st) ''STRICT_GREEN_ORANGE_SEGMENT'' ''strict green rejects orange segments''
      @ violation (ss_yellow st) ''STRICT_GREEN_YELLOW_SEGMENT'' ''strict green rejects yellow segments''
      @ violation (ss_unknown st) ''STRICT_GREEN_UNKNOWN_SEGMENT'' ''strict green rejects unknown segments''
      @ violation (ss_lowConfidence st)
        ''STRICT_GREEN_SEGMENT_CONFIDENCE_TOO_LOW'' ''strict green requires at least medium confidence for every segment''
      @ violation (ss_meaningfulSegments st > 0 \<and> (ss_coveredDistance st \<noteq> rc_DistanceMeters candidate
          \<or> ss_coveredDuration st \<noteq> rc_LiveDurationSeconds candidate))
        ''STRICT_GREEN_SEGMENT_COVERAGE_INCOMPLETE'' ''strict green requires complete segment evidence for the provider route'')"

definition HardConstraintViolations ::
    "RouteCandidate \<Rightarrow> RouteCandidate \<Rightarrow> RouteSearchRequest \<Rightarrow> ScoringConfig \<Rightarrow> ConstraintViolation list" where
  "HardConstraintViolations candidate fastest request config =
     (let extraDistance = sub64 (rc_DistanceMeters candidate) (rc_DistanceMeters fastest) in
      violation (rc_Blocked candidate) ''ROUTE_BLOCKED'' ''route contains a blocked section''
      @ violation (length (rc_Geometry candidate) < 2 \<or> rc_DistanceMeters candidate \<le> 0 \<or> rc_LiveDurationSeconds candidate \<le> 0)
        ''INVALID_GEOMETRY'' ''route geometry or measurements are invalid''
      @ violation (rq_MaxExtraDistanceMeters request \<ge> 0 \<and> extraDistance > rq_MaxExtraDistanceMeters request)
        ''EXTRA_DISTANCE_LIMIT_EXCEEDED'' ''absolute extra distance limit exceeded''
      @ violation (0 < rq_MaxExtraDistancePercent request \<and> rc_DistanceMeters fastest > 0
          \<and> rq_MaxExtraDistancePercent request < percent extraDistance (rc_DistanceMeters fastest))
        ''EXTRA_DISTANCE_PERCENT_LIMIT_EXCEEDED'' ''percentage extra distance limit exceeded''
      @ violation (rq_MaxExtraTimeSeconds request \<ge> 0
          \<and> sub64 (rc_LiveDurationSeconds candidate) (rc_LiveDurationSeconds fastest) > rq_MaxExtraTimeSeconds request)
        ''EXTRA_TIME_LIMIT_EXCEEDED'' ''extra travel time limit exceeded''
      @ violation (Score (rc_Confidence candidate) < MinimumRouteConfidence config)
        ''CONFIDENCE_BELOW_MINIMUM'' ''traffic estimate confidence is below the configured minimum''
      @ (if rq_RoutingMode request = RoutingModeStrictGreen
         then strictGreenEvidenceViolations candidate config else [])
      @ violation (rq_AvoidTolls request \<and> rc_Tolls candidate) ''TOLLS_NOT_ALLOWED'' ''route contains toll roads''
      @ violation (rq_AvoidUnpaved request \<and> rc_Unpaved candidate) ''UNPAVED_NOT_ALLOWED'' ''route contains unpaved roads'')"

definition hasStrictGreenViolation :: "ConstraintViolation list \<Rightarrow> bool" where
  "hasStrictGreenViolation violations \<longleftrightarrow> list_ex (\<lambda>v. prefix ''STRICT_GREEN_'' (Code v)) violations"

section \<open>Ranking\<close>

fun compareTuple :: "RouteCandidate \<Rightarrow> RouteCandidate \<Rightarrow> (RouteCandidate \<Rightarrow> f64) list \<Rightarrow> int" where
  "compareTuple a b [] = compare_ord (rc_CandidateID a) (rc_CandidateID b)"
| "compareTuple a b (getter # getters) =
     (let value = fcompare (getter a) (getter b) in
      if value \<noteq> 0 then value else compareTuple a b getters)"

definition unknownDurationRatio :: "RouteCandidate \<Rightarrow> f64" where
  "unknownDurationRatio candidate =
     (if UnknownDurationSeconds (rc_Metrics candidate) \<le> 0 then 0
      else if rc_LiveDurationSeconds candidate \<le> 0 then 1
      else fmin 1 (of_i64 (UnknownDurationSeconds (rc_Metrics candidate)) / of_i64 (rc_LiveDurationSeconds candidate)))"

definition unknownDistanceRatio :: "RouteCandidate \<Rightarrow> f64" where
  "unknownDistanceRatio candidate =
     (if UnknownDistanceMeters (rc_Metrics candidate) \<le> 0 then 0
      else if rc_DistanceMeters candidate \<le> 0 then 1
      else fmin 1 (of_i64 (UnknownDistanceMeters (rc_Metrics candidate)) / of_i64 (rc_DistanceMeters candidate)))"

definition strictGreenTuple :: "(RouteCandidate \<Rightarrow> f64) list" where
  "strictGreenTuple =
     [unknownDurationRatio,
      unknownDistanceRatio,
      \<lambda>c. of_i64 (RedDurationSeconds (rc_Metrics c)),
      \<lambda>c. of_i64 (RedDistanceMeters (rc_Metrics c)),
      \<lambda>c. of_i64 (OrangeDurationSeconds (rc_Metrics c)),
      \<lambda>c. 1 - Score (rc_Confidence c),
      \<lambda>c. of_i64 (TotalTrafficDelaySeconds (rc_Metrics c)),
      \<lambda>c. of_i64 (WorstContinuousCongestionMeters (rc_Metrics c)),
      \<lambda>c. of_i64 (rc_LiveDurationSeconds c),
      \<lambda>c. of_i64 (rc_DistanceMeters c)]"

definition greenestTuple ::
    "RouteCandidate \<Rightarrow> RouteSearchRequest \<Rightarrow> ScoringConfig \<Rightarrow> (RouteCandidate \<Rightarrow> f64) list" where
  "greenestTuple fastest request config =
     (let extraTimePenalty = GreenestExtraTimePenalty config * (flit 1.7 - clamp01 (rq_Strictness request)) in
      [unknownDurationRatio,
       unknownDistanceRatio,
       \<lambda>c. of_i64 (RedDurationSeconds (rc_Metrics c))
          + fmax 0 (of_i64 (sub64 (rc_LiveDurationSeconds c) (rc_LiveDurationSeconds fastest))) * extraTimePenalty,
       \<lambda>c. of_i64 (RedDistanceMeters (rc_Metrics c)),
       \<lambda>c. of_i64 (OrangeDurationSeconds (rc_Metrics c)),
       \<lambda>c. 1 - Score (rc_Confidence c),
       \<lambda>c. of_i64 (TotalTrafficDelaySeconds (rc_Metrics c)),
       \<lambda>c. of_i64 (rc_LiveDurationSeconds c),
       \<lambda>c. of_i64 (rc_DistanceMeters c)])"

definition compareRoutes ::
    "RouteCandidate \<Rightarrow> RouteCandidate \<Rightarrow> RouteCandidate \<Rightarrow> RouteSearchRequest \<Rightarrow> ScoringConfig \<Rightarrow> int" where
  "compareRoutes a b fastest request config =
     (case rq_RoutingMode request of
        RoutingModeFastest \<Rightarrow>
          compareTuple a b [\<lambda>c. of_i64 (rc_LiveDurationSeconds c), \<lambda>c. of_i64 (rc_DistanceMeters c)]
      | RoutingModeStrictGreen \<Rightarrow> compareTuple a b strictGreenTuple
      | RoutingModeGreenest \<Rightarrow> compareTuple a b (greenestTuple fastest request config)
      | _ \<Rightarrow> (let delta = fcompare (rc_Score a) (rc_Score b) in
              if delta \<noteq> 0 then delta else compare_ord (rc_CandidateID a) (rc_CandidateID b)))"

definition bestEffortTuple :: "(RouteCandidate \<Rightarrow> f64) list" where
  "bestEffortTuple =
     [\<lambda>c. 1 - coverageRatio (GreenDistanceMeters (rc_Metrics c)) (rc_DistanceMeters c),
      \<lambda>c. 1 - coverageRatio (GreenDurationSeconds (rc_Metrics c)) (rc_LiveDurationSeconds c),
      \<lambda>c. coverageRatio (RedDistanceMeters (rc_Metrics c)) (rc_DistanceMeters c),
      \<lambda>c. coverageRatio (RedDurationSeconds (rc_Metrics c)) (rc_LiveDurationSeconds c),
      \<lambda>c. coverageRatio (OrangeDistanceMeters (rc_Metrics c)) (rc_DistanceMeters c),
      \<lambda>c. coverageRatio (OrangeDurationSeconds (rc_Metrics c)) (rc_LiveDurationSeconds c),
      \<lambda>c. coverageRatio (YellowDistanceMeters (rc_Metrics c)) (rc_DistanceMeters c),
      \<lambda>c. coverageRatio (YellowDurationSeconds (rc_Metrics c)) (rc_LiveDurationSeconds c),
      \<lambda>c. coverageRatio (UnknownDistanceMeters (rc_Metrics c)) (rc_DistanceMeters c),
      \<lambda>c. coverageRatio (UnknownDurationSeconds (rc_Metrics c)) (rc_LiveDurationSeconds c),
      \<lambda>c. 1 - clamp01 (Score (rc_Confidence c)),
      \<lambda>c. of_i64 (rc_LiveDurationSeconds c),
      \<lambda>c. of_i64 (rc_DistanceMeters c)]"

definition compareBestEffortRoutes :: "RouteCandidate \<Rightarrow> RouteCandidate \<Rightarrow> int" where
  "compareBestEffortRoutes a b = compareTuple a b bestEffortTuple"

definition routeScore ::
    "RouteCandidate \<Rightarrow> RouteCandidate \<Rightarrow> RouteSearchRequest \<Rightarrow> ScoringConfig \<Rightarrow> f64" where
  "routeScore candidate fastest request config =
     (let m = rc_Metrics candidate in
      if rq_RoutingMode request \<noteq> RoutingModeBalanced
      then of_i64 (add64 (mul64 (RedDurationSeconds m) 1000000) (mul64 (OrangeDurationSeconds m) 1000))
           + of_i64 (rc_LiveDurationSeconds candidate)
      else
        let strictnessDelta = clamp01 (rq_Strictness request) - flit 0.7;
            trafficWeight = BalancedTrafficWeight config * (1 + strictnessDelta);
            etaWeight = BalancedETAWeight config * (1 - flit 0.7 * strictnessDelta);
            distanceWeight = BalancedDistanceWeight config * (1 - flit 0.7 * strictnessDelta);
            conservativeCongestedPercent = CongestedDurationPercent m
              + percent (UnknownDurationSeconds m) (rc_LiveDurationSeconds candidate);
            trafficPenalty = 1 + trafficWeight * fmin 1 (conservativeCongestedPercent / flit 100);
            etaPenalty = 1 + etaWeight * positiveRatio
              (sub64 (rc_LiveDurationSeconds candidate) (rc_LiveDurationSeconds fastest)) (rc_LiveDurationSeconds fastest);
            distancePenalty = 1 + distanceWeight * positiveRatio
              (sub64 (rc_DistanceMeters candidate) (rc_DistanceMeters fastest)) (rc_DistanceMeters fastest);
            uncertaintyPenalty = 1 + BalancedUncertaintyWeight config * (1 - Score (rc_Confidence candidate));
            tollPenalty = (if rc_Tolls candidate then 1 + BalancedTollWeight config else 1)
        in round_to (trafficPenalty * etaPenalty * distancePenalty * uncertaintyPenalty * tollPenalty) 8)"

definition appendWhen :: "bool \<Rightarrow> string \<Rightarrow> string list \<Rightarrow> string list" where
  "appendWhen b reason reasons = (if b then appendUnique reasons reason else reasons)"

definition explain :: "RouteCandidate \<Rightarrow> RouteCandidate \<Rightarrow> RouteSearchRequest \<Rightarrow> string list" where
  "explain selected fastest request =
     (let reasons = rc_ReasonCodes selected;
          m = rc_Metrics selected;
          knownTraffic = (UnknownDurationSeconds m = 0 \<and> UnknownDistanceMeters m = 0
            \<and> Level (rc_Confidence selected) \<noteq> ConfidenceLow);
          reasons = appendWhen (RedDurationSeconds m = 0 \<and> knownTraffic) ''NO_RED_SEGMENTS'' reasons;
          lowestRed = RedDurationSeconds m;
          reasons = appendWhen (knownTraffic \<and> lowestRed \<le> RedDurationSeconds (rc_Metrics fastest))
            ''LOWEST_RED_DURATION'' reasons;
          reasons = appendWhen (rc_DistanceMeters selected > rc_DistanceMeters fastest
            \<and> CongestedDurationPercent m < CongestedDurationPercent (rc_Metrics fastest))
            ''LONGER_BUT_SMOOTHER'' reasons;
          reasons = appendWhen (sub64 (rc_DistanceMeters selected) (rc_DistanceMeters fastest)
            \<le> rq_MaxExtraDistanceMeters request) ''WITHIN_EXTRA_DISTANCE_LIMIT'' reasons
      in appendWhen (Level (rc_Confidence selected) = ConfidenceLow) ''LOW_CONFIDENCE_BASELINE'' reasons)"

text \<open>\<open>fmt.Sprintf\<close> with the verb \<open>%.<p>f\<close>: the exact value rounded to \<open>p\<close> decimals, ties to even.\<close>

definition pad_left :: "nat \<Rightarrow> string \<Rightarrow> string" where
  "pad_left n s = replicate (n - length s) CHR ''0'' @ s"

fun format_fixed :: "nat \<Rightarrow> f64 \<Rightarrow> string" where
  "format_fixed p NaN = ''NaN''"
| "format_fixed p PosInf = ''+Inf''"
| "format_fixed p NegInf = ''-Inf''"
| "format_fixed p (Fin r) =
     (let n = nat (rne (\<bar>r\<bar> * 10 ^ p)); s = pad_left (Suc p) (show_nat n); k = length s - p
      in (if r < 0 then ''-'' else '''') @ take k s @ (if p = 0 then '''' else CHR ''.'' # drop k s))"

definition explanation :: "RouteCandidate \<Rightarrow> RouteCandidate \<Rightarrow> string" where
  "explanation selected fastest =
     (let extraKM = of_i64 (sub64 (rc_DistanceMeters selected) (rc_DistanceMeters fastest)) / flit 1000;
          extraMinutes = of_i64 (sub64 (rc_LiveDurationSeconds selected) (rc_LiveDurationSeconds fastest)) / flit 60;
          redSaved = of_i64 (sub64 (RedDurationSeconds (rc_Metrics fastest)) (RedDurationSeconds (rc_Metrics selected))) / flit 60
      in if 0 < redSaved \<and> (0 < extraKM \<or> 0 < extraMinutes)
         then ''Route is '' @ format_fixed 1 extraKM @ '' km longer and '' @ format_fixed 0 extraMinutes
           @ '' min slower, but reduces estimated heavy-congestion time by about '' @ format_fixed 0 redSaved @ '' min.''
         else if rc_CandidateID selected = rc_CandidateID fastest
         then ''Fastest eligible route; no smoother alternative within the selected limits was confirmed.''
         else ''Best eligible route under the selected traffic, time, distance, and confidence constraints.'')"

record RankedRoutes =
  rk_Selected :: "RouteCandidate option"
  rk_Eligible :: "RouteCandidate list"
  rk_BestEffort :: "RouteCandidate list"
  rk_Rejected :: "string \<rightharpoonup> ConstraintViolation list"

definition fasterThan :: "RouteCandidate \<Rightarrow> RouteCandidate \<Rightarrow> bool" where
  "fasterThan candidate fastest \<longleftrightarrow>
     rc_LiveDurationSeconds candidate < rc_LiveDurationSeconds fastest
     \<or> (rc_LiveDurationSeconds candidate = rc_LiveDurationSeconds fastest
        \<and> rc_CandidateID candidate < rc_CandidateID fastest)"

definition rankFastest :: "RouteCandidate \<Rightarrow> RouteCandidate list \<Rightarrow> RouteCandidate" where
  "rankFastest first rest =
     foldl (\<lambda>fastest candidate. if fasterThan candidate fastest then candidate else fastest) first rest"

definition markBestEffort :: "ConstraintViolation list \<Rightarrow> RouteCandidate \<Rightarrow> RouteCandidate" where
  "markBestEffort violations candidate =
     candidate\<lparr>rc_ReasonCodes := foldl (\<lambda>codes v. appendUnique codes (Code v))
       (appendUnique (rc_ReasonCodes candidate) ''BEST_EFFORT_NOT_STRICT_GREEN'') violations\<rparr>"

definition rankStep ::
    "RouteCandidate \<Rightarrow> RouteSearchRequest \<Rightarrow> ScoringConfig \<Rightarrow> RankedRoutes \<Rightarrow> RouteCandidate \<Rightarrow> RankedRoutes" where
  "rankStep fastest request config result candidate =
     (let violations = HardConstraintViolations candidate fastest request config in
      if violations \<noteq> [] then
        let result = result\<lparr>rk_Rejected := (rk_Rejected result)(rc_CandidateID candidate \<mapsto> violations)\<rparr> in
        if rq_RoutingMode request = RoutingModeStrictGreen \<and> hasStrictGreenViolation violations
        then result\<lparr>rk_BestEffort := rk_BestEffort result @ [markBestEffort violations candidate]\<rparr>
        else result
      else result\<lparr>rk_Eligible := rk_Eligible result
             @ [candidate\<lparr>rc_Score := routeScore candidate fastest request config\<rparr>]\<rparr>)"

definition rank_init :: RankedRoutes where
  "rank_init = \<lparr> rk_Selected = None, rk_Eligible = [], rk_BestEffort = [], rk_Rejected = Map.empty \<rparr>"

definition Rank :: "RouteCandidate list \<Rightarrow> RouteSearchRequest \<Rightarrow> ScoringConfig \<Rightarrow> RankedRoutes" where
  "Rank candidates request config =
     (case candidates of
        [] \<Rightarrow> rank_init
      | first # rest \<Rightarrow>
          let fastest = rankFastest first rest;
              result = foldl (rankStep fastest request config) rank_init candidates;
              eligible = sort_stable (\<lambda>a b. compareRoutes a b fastest request config < 0) (rk_Eligible result);
              result = (case eligible of
                  [] \<Rightarrow> result\<lparr>rk_Eligible := []\<rparr>
                | best # others \<Rightarrow>
                    let selected = best\<lparr>rc_ReasonCodes := explain best fastest request\<rparr>;
                        selected = selected\<lparr>rc_Explanation := explanation selected fastest\<rparr>
                    in result\<lparr>rk_Eligible := selected # others, rk_Selected := Some selected\<rparr>)
          in result\<lparr>rk_BestEffort :=
               take 3 (sort_stable (\<lambda>a b. compareBestEffortRoutes a b < 0) (rk_BestEffort result))\<rparr>)"

end
