(* ===== verification/Examples.thy ===== *)
theory Examples
  imports Scoring
begin

text \<open>Concrete routes, segments, requests and evidence on which the witnesses of the component
  theories evaluate the definitions.\<close>

definition ex_point :: "int \<Rightarrow> int \<Rightarrow> GeoPoint" where
  "ex_point a b = \<lparr> Latitude = Fin (of_int a), Longitude = Fin (of_int b) \<rparr>"

text \<open>A segment with distance \<open>d\<close>, live duration \<open>l\<close> and baseline duration \<open>b\<close>.\<close>

definition ex_segment :: "int \<Rightarrow> int \<Rightarrow> int \<Rightarrow> RouteSegment" where
  "ex_segment d l b = \<lparr> seg_SegmentID = ''s'', seg_Geometry = [ex_point 55 37, ex_point 56 38],
     seg_DistanceMeters = d, seg_LiveDurationSeconds = l, seg_BaselineDurationSeconds = b,
     seg_TrafficRatio = 0, seg_CongestionClass = CongestionOther '''', seg_Confidence = zero_confidence,
     seg_GeometrySimilarity = 1, seg_Source = ''provider'' \<rparr>"

definition ex_candidate :: "string \<Rightarrow> RouteSegment list \<Rightarrow> RouteCandidate" where
  "ex_candidate name segs = \<lparr> rc_CandidateID = name, rc_Provider = ''p'', rc_ProviderRouteReference = '''',
     rc_TrafficDataType = TrafficDataRealtime, rc_Geometry = [ex_point 55 37, ex_point 56 38],
     rc_DistanceMeters = sum_list (map seg_DistanceMeters segs),
     rc_LiveDurationSeconds = sum_list (map seg_LiveDurationSeconds segs),
     rc_BaselineDurationSeconds = sum_list (map seg_BaselineDurationSeconds segs),
     rc_TrafficDelaySeconds = 0, rc_Segments = segs, rc_Blocked = False, rc_Tolls = False,
     rc_Unpaved = False, rc_Confidence = zero_confidence, rc_Score = 0, rc_ReasonCodes = [],
     rc_Explanation = '''', rc_GeneratedBy = ''INITIAL'', rc_ProviderRequestCount = 1,
     rc_Metrics = zero_metrics \<rparr>"

definition ex_evidence :: Evidence where
  "ex_evidence = \<lparr> TrafficDataAvailable = True, evd_TrafficDataType = TrafficDataRealtime,
     DataAgeKnown = True, DataAgeSeconds = 30, ProviderErrors = 0, HasAlternatives = True \<rparr>"

definition ex_blind_evidence :: Evidence where
  "ex_blind_evidence = ex_evidence\<lparr>TrafficDataAvailable := False\<rparr>"

definition ex_request :: "RoutingMode \<Rightarrow> RouteSearchRequest" where
  "ex_request m = \<lparr> rq_RequestID = ''r'', rq_Origin = ex_point 55 37, rq_Destination = ex_point 56 38,
     rq_Waypoints = [], rq_DepartureTime = None, rq_RoutingMode = m, rq_MaxExtraDistanceMeters = 5000,
     rq_MaxExtraDistancePercent = Fin 50, rq_MaxExtraTimeSeconds = 900, rq_AvoidTolls = False,
     rq_AvoidUnpaved = False, rq_Strictness = 1, rq_MaxProviderRequests = 8, rq_SearchDeadlineMS = 10000 \<rparr>"

lemmas ex_defs = ex_point_def ex_segment_def ex_candidate_def ex_evidence_def ex_blind_evidence_def
  ex_request_def

text \<open>One all-green evaluated route, ranked in the mode \<open>m\<close>.\<close>

definition ex_inputs :: "(RouteCandidate \<times> Evidence) list" where
  "ex_inputs = [(ex_candidate ''a'' [ex_segment 1000 100 100], ex_evidence)]"

end
