(* ===== verification/Geometry.thy ===== *)
theory Geometry
  imports Examples
begin

text \<open>
  Geometry (\<open>internal/geometry/geometry.go\<close>): great-circle distances, polyline lengths, resampling,
  similarity of two paths, deduplication of candidates and Douglas-Peucker simplification.

  The trigonometric functions of Go's \<open>math\<close> package are a parameter \<open>libm\<close> of every function that
  calls them; \<open>libm_ok\<close> names the documented facts that some theorems use (results of sine and cosine
  lie between -1 and 1, the square root of a number in [0,1] lies in [0,1], the arc tangent of two
  such numbers lies in [0,2]). Everything else is exact.
\<close>

record libm =
  m_sin :: "f64 \<Rightarrow> f64"
  m_cos :: "f64 \<Rightarrow> f64"
  m_atan2 :: "f64 \<Rightarrow> f64 \<Rightarrow> f64"
  m_sqrt :: "f64 \<Rightarrow> f64"
  m_hypot :: "f64 \<Rightarrow> f64 \<Rightarrow> f64"

section \<open>Distances\<close>

definition earthRadiusMeters :: f64 where
  "earthRadiusMeters = flit 6371008.8"

text \<open>The binary64 value of \<open>math.Pi\<close>.\<close>

definition math_Pi :: f64 where
  "math_Pi = flit 3.14159265358979323846264338327950288419716939937510582097494459"

definition radians :: "f64 \<Rightarrow> f64" where
  "radians value = value * math_Pi / flit 180"

definition DistanceMeters :: "libm \<Rightarrow> GeoPoint \<Rightarrow> GeoPoint \<Rightarrow> f64" where
  "DistanceMeters lm a b =
     (let lat1 = radians (Latitude a); lat2 = radians (Latitude b);
          dLat = lat2 - lat1;
          dLon = radians (Longitude b - Longitude a);
          h = m_sin lm (dLat / flit 2) * m_sin lm (dLat / flit 2)
              + m_cos lm lat1 * m_cos lm lat2 * m_sin lm (dLon / flit 2) * m_sin lm (dLon / flit 2);
          h = fmax 0 (fmin 1 h)
      in earthRadiusMeters * flit 2 * m_atan2 lm (m_sqrt lm h) (m_sqrt lm (1 - h)))"

text \<open>The distances between consecutive points.\<close>

fun steps :: "libm \<Rightarrow> GeoPoint list \<Rightarrow> f64 list" where
  "steps lm (p # q # ps) = DistanceMeters lm p q # steps lm (q # ps)"
| "steps lm _ = []"

definition PolylineLength :: "libm \<Rightarrow> GeoPoint list \<Rightarrow> f64" where
  "PolylineLength lm points = foldl (+) 0 (steps lm points)"

section \<open>Resampling and comparison\<close>

definition MaxSampledPoints :: int where
  "MaxSampledPoints = 128"

definition interpolate :: "GeoPoint \<Rightarrow> GeoPoint \<Rightarrow> f64 \<Rightarrow> GeoPoint" where
  "interpolate a b t = \<lparr> Latitude = Latitude a + (Latitude b - Latitude a) * t,
     Longitude = Longitude a + (Longitude b - Longitude a) * t \<rparr>"

text \<open>The inner loop: advance to the segment that contains the target distance.\<close>

function densify_advance :: "f64 list \<Rightarrow> f64 \<Rightarrow> nat \<Rightarrow> f64 \<Rightarrow> nat \<times> f64" where
  "densify_advance lengths target segmentIndex traversed =
     (if segmentIndex < length lengths - 1 \<and> traversed + lengths ! segmentIndex < target
      then densify_advance lengths target (Suc segmentIndex) (traversed + lengths ! segmentIndex)
      else (segmentIndex, traversed))"
  by auto
termination by (relation "measure (\<lambda>(ls, t, i, tr). length ls - i)") auto

declare densify_advance.simps [simp del]

text \<open>The outer loop: one sample per round, for the samples still to produce.\<close>

fun densify_loop :: "GeoPoint list \<Rightarrow> f64 list \<Rightarrow> f64 \<Rightarrow> nat \<Rightarrow> f64 \<Rightarrow> nat list \<Rightarrow> GeoPoint list" where
  "densify_loop points lengths interval segmentIndex traversed [] = []"
| "densify_loop points lengths interval segmentIndex traversed (sample # samples) =
     (let target = of_i64 (int sample) * interval;
          (segmentIndex, traversed) = densify_advance lengths target segmentIndex traversed;
          segmentLength = lengths ! segmentIndex;
          point = (if segmentLength \<le> 0 then points ! (segmentIndex + 1)
                   else interpolate (points ! segmentIndex) (points ! (segmentIndex + 1))
                          (clamp01 ((target - traversed) / segmentLength)))
      in point # densify_loop points lengths interval segmentIndex traversed samples)"

definition sampleCount :: "f64 \<Rightarrow> f64 \<Rightarrow> int" where
  "sampleCount tot everyMeters =
     (let n = add64 (to_i64 (fceil (tot / everyMeters))) 1;
          n = (if n < 2 then 2 else n)
      in if n > MaxSampledPoints then MaxSampledPoints else n)"

definition Densify :: "libm \<Rightarrow> GeoPoint list \<Rightarrow> f64 \<Rightarrow> GeoPoint list" where
  "Densify lm points everyMeters =
     (if length points < 2 \<or> everyMeters \<le> 0 then points
      else
        let lengths = steps lm points; tot = foldl (+) 0 lengths in
        if tot \<le> 0 \<or> is_nan tot \<or> is_inf tot then [hd points, last points]
        else
          let n = sampleCount tot everyMeters; interval = tot / of_i64 (n - 1)
          in hd points # densify_loop points lengths interval 0 0 [1..<nat (n - 1)] @ [last points])"

definition directedHausdorff :: "libm \<Rightarrow> GeoPoint list \<Rightarrow> GeoPoint list \<Rightarrow> f64" where
  "directedHausdorff lm a b = foldl (\<lambda>maximum point. fmax maximum
     (foldl (\<lambda>minimum candidate. fmin minimum (DistanceMeters lm point candidate)) PosInf b)) 0 a"

definition HausdorffDistance :: "libm \<Rightarrow> GeoPoint list \<Rightarrow> GeoPoint list \<Rightarrow> f64 \<Rightarrow> f64" where
  "HausdorffDistance lm a b sampleEveryMeters =
     (if a = [] \<or> b = [] then PosInf
      else
        let sampleEveryMeters = (if sampleEveryMeters \<le> 0 then flit 100 else sampleEveryMeters);
            a = Densify lm a sampleEveryMeters; b = Densify lm b sampleEveryMeters
        in fmax (directedHausdorff lm a b) (directedHausdorff lm b a))"

definition directedOverlap :: "libm \<Rightarrow> GeoPoint list \<Rightarrow> GeoPoint list \<Rightarrow> f64 \<Rightarrow> f64" where
  "directedOverlap lm a b corridor =
     of_i64 (int (length (filter (\<lambda>point. list_ex (\<lambda>candidate. DistanceMeters lm point candidate \<le> corridor) b) a)))
     / of_i64 (int (length a))"

definition OverlapRatio :: "libm \<Rightarrow> GeoPoint list \<Rightarrow> GeoPoint list \<Rightarrow> f64 \<Rightarrow> f64 \<Rightarrow> f64" where
  "OverlapRatio lm a b corridorMeters sampleEveryMeters =
     (if a = [] \<or> b = [] then 0
      else
        let corridorMeters = (if corridorMeters \<le> 0 then flit 250 else corridorMeters);
            a = Densify lm a sampleEveryMeters; b = Densify lm b sampleEveryMeters
        in fmin (directedOverlap lm a b corridorMeters) (directedOverlap lm b a corridorMeters))"

definition Similarity :: "libm \<Rightarrow> GeoPoint list \<Rightarrow> GeoPoint list \<Rightarrow> f64 \<Rightarrow> f64" where
  "Similarity lm a b maxHausdorffMeters =
     (let maxHausdorffMeters = (if maxHausdorffMeters \<le> 0 then flit 750 else maxHausdorffMeters);
          sampledA = Densify lm a (flit 100); sampledB = Densify lm b (flit 100);
          hausdorff = fmax (directedHausdorff lm sampledA sampledB) (directedHausdorff lm sampledB sampledA);
          distanceScore = clamp01 (1 - hausdorff / maxHausdorffMeters);
          overlap = fmin (directedOverlap lm sampledA sampledB (flit 250)) (directedOverlap lm sampledB sampledA (flit 250));
          lengthA = PolylineLength lm a; lengthB = PolylineLength lm b;
          lengthScore = (if 0 < fmax lengthA lengthB then fmin lengthA lengthB / fmax lengthA lengthB else 0)
      in clamp01 (flit 0.45 * overlap + flit 0.35 * distanceScore + flit 0.20 * lengthScore))"

section \<open>Deduplication\<close>

record DedupeConfig =
  dd_MinimumOverlap :: f64
  dd_MaximumHausdorffMeters :: f64
  dd_MaximumLengthDifference :: f64
  dd_SampleEveryMeters :: f64

definition DefaultDedupeConfig :: DedupeConfig where
  "DefaultDedupeConfig = \<lparr> dd_MinimumOverlap = flit 0.82, dd_MaximumHausdorffMeters = flit 500,
     dd_MaximumLengthDifference = flit 0.08, dd_SampleEveryMeters = flit 100 \<rparr>"

text \<open>\<open>bounds\<close>: least and greatest latitude and longitude of a nonempty list.\<close>

definition bounds :: "GeoPoint list \<Rightarrow> f64 \<times> f64 \<times> f64 \<times> f64" where
  "bounds points = foldl (\<lambda>(minLat, maxLat, minLon, maxLon) point.
       (fmin minLat (Latitude point), fmax maxLat (Latitude point),
        fmin minLon (Longitude point), fmax maxLon (Longitude point)))
     (Latitude (hd points), Latitude (hd points), Longitude (hd points), Longitude (hd points)) (tl points)"

definition boundingBoxesSeparated :: "libm \<Rightarrow> GeoPoint list \<Rightarrow> GeoPoint list \<Rightarrow> f64 \<Rightarrow> bool" where
  "boundingBoxesSeparated lm a b toleranceMeters =
     (if a = [] \<or> b = [] then True
      else
        let (minLatA, maxLatA, minLonA, maxLonA) = bounds a;
            (minLatB, maxLatB, minLonB, maxLonB) = bounds b;
            latitudeSlack = toleranceMeters / flit 111320;
            meanLatitude = (minLatA + maxLatA + minLatB + maxLatB) / flit 4;
            longitudeScale = fmax (flit 0.05) (m_cos lm (radians meanLatitude));
            longitudeSlack = toleranceMeters / (flit 111320 * longitudeScale)
        in maxLatA + latitudeSlack < minLatB \<or> maxLatB + latitudeSlack < minLatA
           \<or> maxLonA + longitudeSlack < minLonB \<or> maxLonB + longitudeSlack < minLonA)"

definition IsDuplicate :: "libm \<Rightarrow> RouteCandidate \<Rightarrow> RouteCandidate \<Rightarrow> DedupeConfig \<Rightarrow> bool" where
  "IsDuplicate lm a b config =
     (let maxLength = fmax (of_i64 (rc_DistanceMeters a)) (of_i64 (rc_DistanceMeters b)) in
      if maxLength \<le> 0 \<or> dd_MaximumLengthDifference config
           < fabs (of_i64 (sub64 (rc_DistanceMeters a) (rc_DistanceMeters b))) / maxLength
      then False
      else if boundingBoxesSeparated lm (rc_Geometry a) (rc_Geometry b) (dd_MaximumHausdorffMeters config) then False
      else if OverlapRatio lm (rc_Geometry a) (rc_Geometry b) (flit 250) (dd_SampleEveryMeters config) < dd_MinimumOverlap config
      then False
      else HausdorffDistance lm (rc_Geometry a) (rc_Geometry b) (dd_SampleEveryMeters config) \<le> dd_MaximumHausdorffMeters config)"

text \<open>The order of \<open>Deduplicate\<close> and of \<open>fastestRoute\<close>: duration, then candidate id.\<close>

definition routeLess :: "RouteCandidate \<Rightarrow> RouteCandidate \<Rightarrow> bool" where
  "routeLess a b \<longleftrightarrow>
     (if rc_LiveDurationSeconds a \<noteq> rc_LiveDurationSeconds b
      then rc_LiveDurationSeconds a < rc_LiveDurationSeconds b else rc_CandidateID a < rc_CandidateID b)"

definition dedupe_step ::
    "libm \<Rightarrow> DedupeConfig \<Rightarrow> RouteCandidate list \<times> int \<Rightarrow> RouteCandidate \<Rightarrow> RouteCandidate list \<times> int" where
  "dedupe_step lm config st candidate = (case st of (result, dropped) \<Rightarrow>
     if list_ex (\<lambda>existing. IsDuplicate lm candidate existing config) result
     then (result, dropped + 1) else (result @ [candidate], dropped))"

definition Deduplicate :: "libm \<Rightarrow> RouteCandidate list \<Rightarrow> DedupeConfig \<Rightarrow> RouteCandidate list \<times> int" where
  "Deduplicate lm candidates config = foldl (dedupe_step lm config) ([], 0) (sort_stable routeLess candidates)"

section \<open>Simplification\<close>

definition maxSimplifyInputPoints :: int where
  "maxSimplifyInputPoints = 512"

definition pointToSegmentMeters :: "libm \<Rightarrow> GeoPoint \<Rightarrow> GeoPoint \<Rightarrow> GeoPoint \<Rightarrow> f64" where
  "pointToSegmentMeters lm point start end' =
     (let meanLat = radians ((Latitude start + Latitude end' + Latitude point) / flit 3);
          x1 = radians (Longitude start) * m_cos lm meanLat * earthRadiusMeters; y1 = radians (Latitude start) * earthRadiusMeters;
          x2 = radians (Longitude end') * m_cos lm meanLat * earthRadiusMeters; y2 = radians (Latitude end') * earthRadiusMeters;
          x = radians (Longitude point) * m_cos lm meanLat * earthRadiusMeters; y = radians (Latitude point) * earthRadiusMeters;
          dx = x2 - x1; dy = y2 - y1
      in if feq dx 0 \<and> feq dy 0 then m_hypot lm (x - x1) (y - y1)
         else let t = clamp01 (((x - x1) * dx + (y - y1) * dy) / (dx * dx + dy * dy))
              in m_hypot lm (x - (x1 + t * dx)) (y - (y1 + t * dy)))"

definition decimate :: "GeoPoint list \<Rightarrow> int \<Rightarrow> GeoPoint list" where
  "decimate points maximum =
     (if int (length points) \<le> maximum \<or> maximum < 2 then points
      else map (\<lambda>index. points ! nat (to_i64 (fround (of_i64 (int index) * of_i64 (int (length points) - 1) / of_i64 (maximum - 1)))))
             [0..<nat maximum])"

text \<open>The scan of one interval: the index with the greatest distance, if any is positive.\<close>

definition scan_step :: "libm \<Rightarrow> GeoPoint list \<Rightarrow> nat \<Rightarrow> nat \<Rightarrow> nat option \<times> f64 \<Rightarrow> nat \<Rightarrow> nat option \<times> f64" where
  "scan_step lm points first last' st pointIndex = (case st of (index, maximum) \<Rightarrow>
     let distance = pointToSegmentMeters lm (points ! pointIndex) (points ! first) (points ! last') in
     if maximum < distance then (Some pointIndex, distance) else (index, maximum))"

definition simplify_scan :: "libm \<Rightarrow> GeoPoint list \<Rightarrow> nat \<Rightarrow> nat \<Rightarrow> nat option \<times> f64" where
  "simplify_scan lm points first last' = foldl (scan_step lm points first last') (None, 0) [Suc first..<last']"

lemma scan_fold_index:
  "fst (foldl (scan_step lm points f l) st ks) = fst st \<or> (\<exists>k \<in> set ks. fst (foldl (scan_step lm points f l) st ks) = Some k)"
proof (induction ks arbitrary: st)
  case (Cons k ks)
  have "fst (scan_step lm points f l st k) = fst st \<or> fst (scan_step lm points f l st k) = Some k"
    by (auto simp: scan_step_def Let_def split: prod.split)
  with Cons [of "scan_step lm points f l st k"] show ?case by auto
qed simp

lemma simplify_scan_index: "simplify_scan lm points f l = (Some i, d) \<Longrightarrow> f < i \<and> i < l"
  using scan_fold_index [of lm points f l "(None, 0)" "[Suc f..<l]"] by (auto simp: simplify_scan_def)

text \<open>The work list, top of the stack first.\<close>

function simplify_loop :: "libm \<Rightarrow> GeoPoint list \<Rightarrow> f64 \<Rightarrow> (nat \<times> nat) list \<Rightarrow> bool list \<Rightarrow> bool list" where
  "simplify_loop lm points toleranceMeters [] keep = keep"
| "simplify_loop lm points toleranceMeters ((first, last') # stack) keep =
     (case simplify_scan lm points first last' of
        (Some index, maximum) \<Rightarrow>
          if toleranceMeters < maximum
          then simplify_loop lm points toleranceMeters ((index, last') # (first, index) # stack) (keep[index := True])
          else simplify_loop lm points toleranceMeters stack keep
      | (None, _) \<Rightarrow> simplify_loop lm points toleranceMeters stack keep)"
  by pat_completeness auto
termination
  by (relation "measure (\<lambda>(lm, ps, tol, stack, keep). sum_list (map (\<lambda>(f, l). 1 + 2 * (l - f - 1)) stack))")
    (auto dest!: sym [THEN simplify_scan_index])

declare simplify_loop.simps(2) [simp del]

definition Simplify :: "libm \<Rightarrow> GeoPoint list \<Rightarrow> f64 \<Rightarrow> GeoPoint list" where
  "Simplify lm points toleranceMeters =
     (if length points \<le> 2 \<or> toleranceMeters \<le> 0 then points
      else
        let points = (if int (length points) > maxSimplifyInputPoints then decimate points maxSimplifyInputPoints else points);
            n = length points;
            keep = (replicate n False)[0 := True, n - 1 := True];
            keep = simplify_loop lm points toleranceMeters [(0, n - 1)] keep
        in map fst (filter snd (zip points keep)))"

section \<open>Deduplication keeps the fastest of each cluster\<close>

lemma subseq_mset: "subseq xs ys \<Longrightarrow> mset xs \<subseteq># mset ys"
  by (induction rule: list_emb.induct) (auto intro: subset_mset.order_trans)

lemma subseq_set: "subseq xs ys \<Longrightarrow> set xs \<subseteq> set ys"
  by (auto dest: subseq_mset mset_subset_eqD simp flip: set_mset_mset)

lemma sorted_wrt_subseq: "subseq xs ys \<Longrightarrow> sorted_wrt P ys \<Longrightarrow> sorted_wrt P xs"
  by (induction rule: list_emb.induct) (auto dest: subseq_set)

interpretation route_order: strict_weak routeLess
  by unfold_locales (auto simp: routeLess_def split: if_splits)

text \<open>The loop invariant, with the routes seen so far.\<close>

definition dedupe_inv :: "libm \<Rightarrow> DedupeConfig \<Rightarrow> RouteCandidate list \<Rightarrow> RouteCandidate list \<times> int \<Rightarrow> bool" where
  "dedupe_inv lm cfg seen st \<longleftrightarrow> (case st of (result, dropped) \<Rightarrow>
     subseq result seen \<and> sorted_wrt (\<lambda>a b. \<not> IsDuplicate lm b a cfg) result
     \<and> list_all (\<lambda>c. c \<in> set result \<or> (\<exists>k \<in> set result. IsDuplicate lm c k cfg \<and> \<not> routeLess c k)) seen
     \<and> dropped = int (length seen) - int (length result))"

lemma dedupe_step_inv:
  assumes inv: "dedupe_inv lm cfg seen st" and sorted: "list_all (\<lambda>k. \<not> routeLess c k) seen"
  shows "dedupe_inv lm cfg (seen @ [c]) (dedupe_step lm cfg st c)"
proof -
  obtain result dropped where st: "st = (result, dropped)" by fastforce
  have sub: "set result \<subseteq> set seen" using inv by (auto simp: dedupe_inv_def st dest: subseq_set)
  show ?thesis
  proof (cases "list_ex (\<lambda>k. IsDuplicate lm c k cfg) result")
    case True
    then obtain k where k: "k \<in> set result" "IsDuplicate lm c k cfg" by (auto simp: list_ex_iff)
    then have "\<not> routeLess c k" using sub sorted by (auto simp: list_all_iff)
    with k True inv show ?thesis by (auto simp: dedupe_inv_def dedupe_step_def st list_all_iff)
  next
    case False
    have "sorted_wrt (\<lambda>a b. \<not> IsDuplicate lm b a cfg) (result @ [c])"
      using False inv by (simp add: sorted_wrt_append dedupe_inv_def st list_ex_iff)
    moreover have "subseq (result @ [c]) (seen @ [c])"
      using inv by (simp add: dedupe_inv_def st)
    moreover have "list_all (\<lambda>d. d \<in> set (result @ [c]) \<or> (\<exists>k \<in> set (result @ [c]). IsDuplicate lm d k cfg \<and> \<not> routeLess d k)) (seen @ [c])"
      using inv by (auto simp: dedupe_inv_def st list_all_iff)
    ultimately show ?thesis using False inv by (simp add: dedupe_inv_def dedupe_step_def st)
  qed
qed

lemma dedupe_fold_inv:
  assumes "sorted_wrt (\<lambda>a b. \<not> routeLess b a) cs"
  shows "dedupe_inv lm cfg cs (foldl (dedupe_step lm cfg) ([], 0) cs)"
  using assms
proof (induction cs rule: rev_induct)
  case Nil
  then show ?case by (simp add: dedupe_inv_def)
next
  case (snoc c cs)
  then have "dedupe_inv lm cfg cs (foldl (dedupe_step lm cfg) ([], 0) cs)" "list_all (\<lambda>k. \<not> routeLess c k) cs"
    by (auto simp: sorted_wrt_append list_all_iff)
  from dedupe_step_inv [OF this] show ?case by simp
qed

text \<open>\<open>Deduplicate\<close> returns candidates of the input ordered by duration and id, no two of which are duplicates; every candidate
  it drops is a duplicate of a kept one that is not slower, and the count of dropped candidates is exact.\<close>

theorem deduplicate_correct:
  "case Deduplicate lm cs cfg of (result, dropped) \<Rightarrow>
     mset result \<subseteq># mset cs \<and> sorted_wrt (\<lambda>a b. \<not> routeLess b a) result
     \<and> sorted_wrt (\<lambda>a b. \<not> IsDuplicate lm b a cfg) result
     \<and> list_all (\<lambda>c. c \<in> set result \<or> (\<exists>k \<in> set result. IsDuplicate lm c k cfg \<and> \<not> routeLess c k)) cs
     \<and> dropped = int (length cs) - int (length result)"
proof -
  define ordered where "ordered = sort_stable routeLess cs"
  obtain result dropped where r: "foldl (dedupe_step lm cfg) ([], 0) ordered = (result, dropped)" by fastforce
  have inv: "dedupe_inv lm cfg ordered (result, dropped)"
    using dedupe_fold_inv [of ordered lm cfg] route_order.sort_stable_sorted by (simp add: ordered_def r [unfolded ordered_def])
  have m: "mset ordered = mset cs" "set ordered = set cs" "length ordered = length cs" by (simp_all add: ordered_def)
  have sub: "subseq result ordered" using inv by (simp add: dedupe_inv_def)
  then have "mset result \<subseteq># mset cs" using subseq_mset [OF sub] m(1) by simp
  moreover have "sorted_wrt (\<lambda>a b. \<not> routeLess b a) result"
    using sub route_order.sort_stable_sorted [of cs] by (auto intro: sorted_wrt_subseq simp: ordered_def)
  ultimately show ?thesis
    using inv m(2,3) by (auto simp: Deduplicate_def r [unfolded ordered_def] dedupe_inv_def list_all_iff)
qed

section \<open>Resampling is bounded\<close>

lemma length_densify_loop: "length (densify_loop ps ls iv i t ss) = length ss"
  by (induction ss arbitrary: i t) (auto simp: Let_def split: prod.split)

lemma sampleCount_range: "2 \<le> sampleCount t e \<and> sampleCount t e \<le> 128"
  by (simp add: sampleCount_def Let_def MaxSampledPoints_def)

text \<open>Resampling a path keeps its two ends and never produces more than 128 points, whatever the length of the provider's geometry;
  this bounds the pairwise comparisons.\<close>

theorem densify_bounded:
  assumes "2 \<le> length points" "\<not> everyMeters \<le> 0"
  shows "2 \<le> length (Densify lm points everyMeters) \<and> length (Densify lm points everyMeters) \<le> 128
    \<and> hd (Densify lm points everyMeters) = hd points \<and> last (Densify lm points everyMeters) = last points"
proof -
  have "nat (sampleCount t e - 1) - 1 + 2 = nat (sampleCount t e)" for t e
    using sampleCount_range [of t e] by linarith
  then show ?thesis
    using assms sampleCount_range [of "foldl (+) 0 (steps lm points)" everyMeters]
    by (auto simp: Densify_def Let_def length_densify_loop)
qed

text \<open>A simple instance of the parameter, for witnesses.\<close>

definition ex_libm :: libm where
  "ex_libm = \<lparr> m_sin = (\<lambda>x. fmax (- 1) (fmin 1 x)), m_cos = (\<lambda>_. 1), m_atan2 = (\<lambda>x y. x), m_sqrt = (\<lambda>x. x),
     m_hypot = (\<lambda>x y. fmax (fabs x) (fabs y)) \<rparr>"

theorem densify_bounded_witness:
  "length (Densify ex_libm [ex_point 0 0, ex_point 1 0] (Fin 100)) \<le> 128
   \<and> last (Densify ex_libm [ex_point 0 0, ex_point 1 0] (Fin 100)) = ex_point 1 0"
  using densify_bounded [of "[ex_point 0 0, ex_point 1 0]" "Fin 100" ex_libm] by (simp add: zero_f64_def)

section \<open>Simplification stays within the tolerance\<close>

text \<open>\<open>a\<close> and \<open>b\<close> are neighbours among the kept indices.\<close>

definition neighbours :: "bool list \<Rightarrow> nat \<Rightarrow> nat \<Rightarrow> bool" where
  "neighbours keep a b \<longleftrightarrow> a < b \<and> b < length keep \<and> keep ! a \<and> keep ! b \<and> (\<forall>k. a < k \<and> k < b \<longrightarrow> \<not> keep ! k)"

text \<open>Every point between \<open>a\<close> and \<open>b\<close> is within the tolerance of the segment from \<open>a\<close> to \<open>b\<close>.\<close>

definition close_between :: "libm \<Rightarrow> GeoPoint list \<Rightarrow> f64 \<Rightarrow> nat \<Rightarrow> nat \<Rightarrow> bool" where
  "close_between lm points tol a b \<longleftrightarrow>
     list_all (\<lambda>k. \<not> tol < pointToSegmentMeters lm (points ! k) (points ! a) (points ! b)) [Suc a..<b]"

lemma f64_trans3: "a < b \<Longrightarrow> b < (c :: f64) \<Longrightarrow> a < c"
  by (cases a; cases b; cases c) auto

lemma scan_fold_max:
  assumes "tol < snd st \<or> (\<exists>k \<in> set ks. tol < pointToSegmentMeters lm (points ! k) (points ! f) (points ! l))" "snd st \<noteq> NaN"
  shows "tol < snd (foldl (scan_step lm points f l) st ks)"
  using assms
proof (induction ks arbitrary: st)
  case (Cons k ks)
  define d where "d = pointToSegmentMeters lm (points ! k) (points ! f) (points ! l)"
  obtain i m where st: "st = (i, m)" by fastforce
  have m: "m \<noteq> NaN" using Cons.prems(2) by (simp add: st)
  have n: "scan_step lm points f l st k = (if m < d then (Some k, d) else (i, m))"
    by (simp add: scan_step_def st d_def Let_def)
  have "tol < d \<Longrightarrow> \<not> m < d \<Longrightarrow> tol < m"
    using m by (cases tol; cases m; cases d) auto
  then have "tol < snd (scan_step lm points f l st k) \<or> (\<exists>k \<in> set ks. tol < pointToSegmentMeters lm (points ! k) (points ! f) (points ! l))"
    using Cons.prems(1) f64_trans3 [of tol m d] unfolding n by (auto simp: st d_def [symmetric])
  moreover have "snd (scan_step lm points f l st k) \<noteq> NaN" using m unfolding n by auto
  ultimately show ?case using Cons.IH by simp
qed simp

lemma scan_fold_none: "fst (foldl (scan_step lm points f l) st ks) = None \<Longrightarrow> foldl (scan_step lm points f l) st ks = st"
proof (induction ks arbitrary: st)
  case (Cons k ks)
  have s: "scan_step lm points f l st k = st \<or> fst (scan_step lm points f l st k) = Some k"
    by (auto simp: scan_step_def Let_def split: prod.split)
  from Cons.prems have "foldl (scan_step lm points f l) (scan_step lm points f l st k) ks = scan_step lm points f l st k"
    using Cons.IH by simp
  with Cons.prems s show ?case by auto
qed simp

text \<open>An interval that is not split needs no further point.\<close>

lemma scan_close:
  assumes "\<not> tol \<le> 0" "\<not> (\<exists>i m. simplify_scan lm points f l = (Some i, m) \<and> tol < m)"
  shows "close_between lm points tol f l"
proof (rule ccontr)
  assume "\<not> close_between lm points tol f l"
  then have "\<exists>k \<in> set [Suc f..<l]. tol < pointToSegmentMeters lm (points ! k) (points ! f) (points ! l)"
    by (auto simp: close_between_def list_all_iff)
  then have t: "tol < snd (simplify_scan lm points f l)"
    unfolding simplify_scan_def by (intro scan_fold_max) (auto simp: zero_f64_def)
  show False
  proof (cases "fst (simplify_scan lm points f l)")
    case None
    then have "simplify_scan lm points f l = (None, 0)" unfolding simplify_scan_def by (rule scan_fold_none)
    with t assms(1) show False by (simp add: f64_less_le)
  next
    case (Some i)
    with t assms(2) show False by (metis prod.collapse)
  qed
qed

definition simplify_inv :: "libm \<Rightarrow> GeoPoint list \<Rightarrow> f64 \<Rightarrow> (nat \<times> nat) list \<Rightarrow> bool list \<Rightarrow> bool" where
  "simplify_inv lm points tol stack keep \<longleftrightarrow> distinct stack \<and> (\<forall>(f, l) \<in> set stack. neighbours keep f l)
     \<and> (\<forall>a b. neighbours keep a b \<longrightarrow> (a, b) \<in> set stack \<or> close_between lm points tol a b)"

lemma neighbours_unique: "neighbours keep a b \<Longrightarrow> neighbours keep c d \<Longrightarrow> a < k \<Longrightarrow> k < b \<Longrightarrow> c < k \<Longrightarrow> k < d \<Longrightarrow> a = c \<and> b = d"
  unfolding neighbours_def by (metis linorder_neqE_nat order.strict_trans)

lemma simplify_inv_split:
  assumes inv: "simplify_inv lm points tol ((f, l) # stack) keep" and i: "f < i" "i < l"
  shows "simplify_inv lm points tol ((i, l) # (f, i) # stack) (keep[i := True])"
proof -
  let ?k = "keep[i := True]"
  have fl: "neighbours keep f l" using inv by (simp add: simplify_inv_def)
  then have il: "i < length keep" "\<not> keep ! i" using i by (auto simp: neighbours_def)
  have new: "neighbours ?k i l" "neighbours ?k f i"
    using fl i il by (auto simp: neighbours_def nth_list_update)
  have keep: "neighbours ?k a b" if "(a, b) \<in> set stack" for a b
  proof -
    have ab: "neighbours keep a b" "(a, b) \<noteq> (f, l)" using inv that by (auto simp: simplify_inv_def)
    then have "\<not> (a < i \<and> i < b)" using neighbours_unique [OF ab(1) fl, of i] i by auto
    then show ?thesis using ab(1) il(1) by (auto simp: neighbours_def nth_list_update)
  qed
  have old: "(a, b) = (i, l) \<or> (a, b) = (f, i) \<or> neighbours keep a b" if "neighbours ?k a b" for a b
  proof (cases "a = i \<or> b = i")
    case False
    then show ?thesis using that il by (auto simp: neighbours_def nth_list_update split: if_splits)
  next
    case True
    moreover have "b = l" if "a = i"
      using \<open>neighbours ?k a b\<close> new(1) that unfolding neighbours_def by (metis linorder_neqE_nat)
    moreover have "a = f" if "b = i"
      using \<open>neighbours ?k a b\<close> new(2) that unfolding neighbours_def by (metis linorder_neqE_nat)
    ultimately show ?thesis by auto
  qed
  have "(i, l) \<notin> set stack" "(f, i) \<notin> set stack"
    using inv il by (auto simp: simplify_inv_def neighbours_def)
  moreover have "(a, b) \<in> set ((i, l) # (f, i) # stack) \<or> close_between lm points tol a b" if n: "neighbours ?k a b" for a b
  proof -
    have "(a, b) \<noteq> (f, l)" using n i il by (auto simp: neighbours_def nth_list_update)
    then show ?thesis using old [OF n] inv by (auto simp: simplify_inv_def)
  qed
  ultimately show ?thesis
    using inv new keep i by (auto simp: simplify_inv_def)
qed

lemma simplify_loop_correct:
  assumes "\<not> tol \<le> 0" "simplify_inv lm points tol stack keep"
  shows "length (simplify_loop lm points tol stack keep) = length keep
    \<and> (\<forall>k. k < length keep \<longrightarrow> keep ! k \<longrightarrow> simplify_loop lm points tol stack keep ! k)
    \<and> simplify_inv lm points tol [] (simplify_loop lm points tol stack keep)"
  using assms
proof (induction lm points tol stack keep rule: simplify_loop.induct)
  case (1 lm points tol keep)
  then show ?case by simp
next
  case (2 lm points tol f l stack keep)
  have fl: "neighbours keep f l" using "2.prems" by (simp add: simplify_inv_def)
  show ?case
  proof (cases "\<exists>i m. simplify_scan lm points f l = (Some i, m) \<and> tol < m")
    case True
    then obtain i m where s: "simplify_scan lm points f l = (Some i, m)" "tol < m" by blast
    then have i: "f < i" "i < l" by (auto dest: simplify_scan_index)
    then have "i < length keep" using fl by (simp add: neighbours_def)
    moreover have "simplify_inv lm points tol ((i, l) # (f, i) # stack) (keep[i := True])"
      using simplify_inv_split [OF "2.prems"(2) i] .
    note IH = "2.IH"(2) [OF s(1) [symmetric] refl s(2) "2.prems"(1) this]
    ultimately show ?thesis
      using IH s by (auto simp: simplify_loop.simps(2) nth_list_update split: if_splits)
  next
    case False
    have "simplify_inv lm points tol stack keep"
      using "2.prems"(2) scan_close [OF "2.prems"(1) False] by (auto simp: simplify_inv_def)
    moreover have "simplify_loop lm points tol ((f, l) # stack) keep = simplify_loop lm points tol stack keep"
      using False by (auto simp: simplify_loop.simps(2) split: option.split prod.split)
    moreover have "simplify_scan lm points f l = (Some i, m) \<Longrightarrow> \<not> tol < m" for i m using False by auto
    ultimately show ?thesis
      using "2.IH"(1,3) "2.prems"(1) by (cases "simplify_scan lm points f l"; cases "fst (simplify_scan lm points f l)") auto
  qed
qed

lemma kept_points:
  "length keep = length points \<Longrightarrow> map fst (filter snd (zip points keep)) = map ((!) points) (filter ((!) keep) [0..<length points])"
proof -
  assume l: "length keep = length points"
  have "zip points keep = map (\<lambda>i. (points ! i, keep ! i)) [0..<length points]"
    by (rule nth_equalityI) (simp_all add: l)
  then show ?thesis by (simp add: filter_map comp_def)
qed

lemma successive_gap:
  "sorted_wrt (<) xs \<Longrightarrow> (a, b) \<in> set (zip xs (tl xs)) \<Longrightarrow> a < b \<and> a \<in> set xs \<and> b \<in> set xs \<and> (\<forall>k \<in> set xs. \<not> (a < k \<and> k < b))"
  for xs :: "nat list"
proof (induction xs)
  case (Cons x xs)
  show ?case
  proof (cases xs)
    case (Cons y t)
    consider "a = x" "b = y" | "(a, b) \<in> set (zip xs (tl xs))"
      using Cons.prems(2) by (auto simp: Cons)
    then show ?thesis
    proof cases
      case 1
      with Cons.prems(1) show ?thesis by (auto simp: Cons)
    next
      case 2
      then have *: "a < b \<and> a \<in> set xs \<and> b \<in> set xs \<and> (\<forall>k \<in> set xs. \<not> (a < k \<and> k < b))"
        using Cons.prems(1) Cons.IH by simp
      moreover have "x < a" using * Cons.prems(1) by simp
      ultimately show ?thesis by auto
    qed
  qed (use Cons.prems in simp)
qed simp

lemma hd_filter_0: "0 < n \<Longrightarrow> P 0 \<Longrightarrow> hd (filter P [0..<n]) = 0"
  by (simp add: upt_conv_Cons)

lemma last_filter_max: "0 < n \<Longrightarrow> P (n - 1) \<Longrightarrow> last (filter P [0..<n]) = n - 1"
  by (cases n) simp_all

text \<open>The loop with its initial marks, on a path of more than two points.\<close>

definition simplify_marks :: "libm \<Rightarrow> GeoPoint list \<Rightarrow> f64 \<Rightarrow> bool list" where
  "simplify_marks lm points tol =
     simplify_loop lm points tol [(0, length points - 1)] ((replicate (length points) False)[0 := True, length points - 1 := True])"

lemma initial_marks:
  "2 < n \<Longrightarrow> length ((replicate n False)[0 := True, n - 1 := True]) = n" 
  "2 < n \<Longrightarrow> (replicate n False)[0 := True, n - 1 := True] ! 0"
  "2 < n \<Longrightarrow> (replicate n False)[0 := True, n - 1 := True] ! (n - 1)"
  "2 < n \<Longrightarrow> 0 < k \<Longrightarrow> k < n - 1 \<Longrightarrow> \<not> (replicate n False)[0 := True, n - 1 := True] ! k"
  by (auto simp: nth_list_update)

lemma simplify_initial:
  assumes "2 < length points"
  shows "simplify_inv lm points tol [(0, length points - 1)] ((replicate (length points) False)[0 := True, length points - 1 := True])"
proof -
  define n where "n = length points"
  define keep0 where "keep0 = (replicate n False)[0 := True, n - 1 := True]"
  have k0: "length keep0 = n" "keep0 ! 0" "keep0 ! (n - 1)" "0 < k \<Longrightarrow> k < n - 1 \<Longrightarrow> \<not> keep0 ! k" for k
    using initial_marks assms unfolding keep0_def n_def by blast+
  have nb: "neighbours keep0 0 (n - 1)" using k0 assms by (auto simp: neighbours_def n_def)
  have only: "(a, b) = (0, n - 1)" if "neighbours keep0 a b" for a b
  proof -
    have ends: "k = 0 \<or> k = n - 1" if "k < n" "keep0 ! k" for k
      using that k0(4) [of k] by linarith
    have ab: "a < b" "b < n" "keep0 ! a" "keep0 ! b" using that k0(1) by (auto simp: neighbours_def)
    with ends [of a] ends [of b] have "a = 0" "b = n - 1" by linarith+
    then show ?thesis by simp
  qed
  have "simplify_inv lm points tol [(0, n - 1)] keep0"
    unfolding simplify_inv_def
  proof (intro conjI allI impI)
    show "(a, b) \<in> set [(0, n - 1)] \<or> close_between lm points tol a b" if "neighbours keep0 a b" for a b
      unfolding only [OF that] by simp
  qed (use nb in simp_all)
  then show ?thesis by (simp add: keep0_def n_def)
qed

lemma simplify_kept:
  fixes lm :: libm
  assumes n: "2 < length points" and tol: "\<not> tol \<le> 0"
  defines "is' \<equiv> filter ((!) (simplify_marks lm points tol)) [0..<length points]"
  shows "map fst (filter snd (zip points (simplify_marks lm points tol))) = map ((!) points) is'"
    and "sorted_wrt (<) is'" and "hd is' = 0" and "last is' = length points - 1"
    and "list_all (\<lambda>(a, b). close_between lm points tol a b) (zip is' (tl is'))" and "0 \<in> set is'"
proof -
  define keep0 where "keep0 = (replicate (length points) False)[0 := True, length points - 1 := True]"
  have k0: "length keep0 = length points" "keep0 ! 0" "keep0 ! (length points - 1)" "0 < length points"
    using initial_marks [OF n] n unfolding keep0_def by (blast, blast, blast, linarith)
  have m: "simplify_marks lm points tol = simplify_loop lm points tol [(0, length points - 1)] keep0"
    by (simp add: simplify_marks_def keep0_def)
  have loop: "length (simplify_marks lm points tol) = length points" "simplify_marks lm points tol ! 0"
      "simplify_marks lm points tol ! (length points - 1)" "simplify_inv lm points tol [] (simplify_marks lm points tol)"
    using simplify_loop_correct [OF tol simplify_initial [OF n, folded keep0_def], of lm] k0
    unfolding m by (auto simp del: One_nat_def)
  show "map fst (filter snd (zip points (simplify_marks lm points tol))) = map ((!) points) is'"
    unfolding is'_def by (rule kept_points [OF loop(1)])
  show so: "sorted_wrt (<) is'" unfolding is'_def by (intro sorted_wrt_filter) simp
  show "hd is' = 0" "last is' = length points - 1"
    using loop(2,3) n hd_filter_0 [of "length points" "(!) (simplify_marks lm points tol)"]
      last_filter_max [of "length points" "(!) (simplify_marks lm points tol)"]
    unfolding is'_def by linarith+
  show "0 \<in> set is'" using loop(2) n by (auto simp: is'_def)
  have "close_between lm points tol a b" if "(a, b) \<in> set (zip is' (tl is'))" for a b
  proof -
    have "neighbours (simplify_marks lm points tol) a b"
      using successive_gap [OF so that] loop(1) unfolding neighbours_def
      by (auto simp: is'_def dest: order.strict_trans)
    then show ?thesis using loop(4) by (simp add: simplify_inv_def)
  qed
  then show "list_all (\<lambda>(a, b). close_between lm points tol a b) (zip is' (tl is'))" by (auto simp: list_all_iff)
qed

lemma Simplify_eq:
  "Simplify lm points tol =
     (if length points \<le> 2 \<or> tol \<le> 0 then points
      else let qs = (if length points \<le> 512 then points else decimate points 512)
           in map fst (filter snd (zip qs (simplify_marks lm qs tol))))"
  by (auto simp: Simplify_def Let_def simplify_marks_def maxSimplifyInputPoints_def)

text \<open>Picking indices evenly: the computed index is in range and reaches both ends.\<close>

lemma spread_index:
  fixes i m n :: nat
  assumes "i < m" "2 \<le> m" "m \<le> 2 ^ 20" "1 \<le> n" "n \<le> 2 ^ 20"
  defines "k \<equiv> to_i64 (fround (of_i64 (int i) * of_i64 (int n - 1) / of_i64 (int m - 1)))"
  shows "0 \<le> k \<and> k \<le> int n - 1 \<and> (i = 0 \<longrightarrow> k = 0) \<and> (i = m - 1 \<longrightarrow> k = int n - 1)"
proof -
  define a b c where "a = int i" and "b = int n - 1" and "c = int m - 1"
  have r: "0 \<le> a" "a \<le> c" "1 \<le> c" "c \<le> 2 ^ 20" "0 \<le> b" "b \<le> 2 ^ 20"
    using assms(1-5) unfolding a_def b_def c_def by auto
  have "a * b \<le> 2 ^ 20 * 2 ^ 20" using r by (intro mult_mono) auto
  then have ab: "\<bar>a * b\<bar> \<le> 2 ^ 53" "0 \<le> a * b" "a * b \<le> c * b" using r by (auto intro: mult_right_mono)
  have exact: "of_i64 a = Fin (of_int a)" "of_i64 b = Fin (of_int b)" "of_i64 c = Fin (of_int c)"
    using r by (intro of_i64_exact; simp)+
  have prod: "of_i64 a * of_i64 b = Fin (of_int (a * b))" using mk_int [OF ab(1)] by (simp add: exact)
  then have quot: "of_i64 a * of_i64 b / of_i64 c = mk (of_int (a * b) / of_int c)" using r by (simp add: exact)
  have q: "0 \<le> (of_int (a * b) / of_int c :: rat)" "(of_int (a * b) / of_int c :: rat) \<le> of_int b"
    using r ab by (auto simp: field_simps simp flip: of_int_mult)
  have "frange 0 (of_int b) (of_i64 a * of_i64 b / of_i64 c)"
    unfolding quot using r q by (intro mk_range rep_0 rep_int) auto
  then have "frange (of_int 0) (of_int b) (fround (of_i64 a * of_i64 b / of_i64 c))" by (intro frange_round) simp
  moreover obtain x where x: "of_i64 a * of_i64 b / of_i64 c = Fin x" using calculation by (cases "of_i64 a * of_i64 b / of_i64 c") (auto simp: frange_def)
  ultimately have f: "fround (Fin x) = Fin (of_int (round_away x))" "0 \<le> round_away x" "round_away x \<le> b" by auto
  have k: "k = round_away x"
    using f r x unfolding k_def a_def [symmetric] b_def [symmetric] c_def [symmetric]
    by (simp add: to_i64_def trunc_def in64_def)
  have ends: "x = of_int (a * b) / of_int c" if "a = 0 \<or> a = c"
    using that x r mk_int [of b] unfolding quot by auto
  have "k = 0" if "a = 0" using ends that round_away_int [of 0] by (simp add: k)
  moreover have "k = b" if "a = c" using ends that r by (simp add: k)
  ultimately show ?thesis
    using f k assms(1,2) unfolding a_def b_def c_def by (auto simp: of_nat_diff)
qed

lemma spread_points:
  assumes "2 \<le> m" "m \<le> 2 ^ 20" "2 \<le> length points" "length points \<le> 2 ^ 20"
  defines "picked \<equiv> map (\<lambda>i. points ! nat (to_i64 (fround (of_i64 (int i) * of_i64 (int (length points) - 1) / of_i64 (int m - 1))))) [0..<m]"
  shows "hd picked = hd points \<and> last picked = last points \<and> length picked = m \<and> set picked \<subseteq> set points"
proof -
  note sp = spread_index [of _ m "length points"]
  have k: "nat (to_i64 (fround (of_i64 (int i) * of_i64 (int (length points) - 1) / of_i64 (int m - 1)))) < length points" if "i < m" for i
    using sp [OF that assms(1,2)] assms(3,4) by linarith
  have "hd picked = points ! 0" "last picked = points ! (length points - 1)"
    using sp [of 0] sp [of "m - 1"] assms(1-4) unfolding picked_def
    by (simp_all add: hd_map last_map hd_conv_nth last_conv_nth nat_diff_distrib)
  moreover have "points \<noteq> []" using assms(3) by auto
  ultimately show ?thesis
    using k by (auto simp: picked_def hd_conv_nth last_conv_nth)
qed

lemma Simplify_ends:
  assumes "2 \<le> length points" "length points \<le> 2 ^ 20"
  shows "hd (Simplify lm points tol) = hd points \<and> last (Simplify lm points tol) = last points
    \<and> 2 \<le> length (Simplify lm points tol) \<and> length (Simplify lm points tol) \<le> length points
    \<and> set (Simplify lm points tol) \<subseteq> set points"
proof (cases "length points \<le> 2 \<or> tol \<le> 0")
  case True
  then show ?thesis using assms by (simp add: Simplify_eq)
next
  case False
  define qs where "qs = (if length points \<le> 512 then points else decimate points 512)"
  have q: "hd qs = hd points" "last qs = last points" "2 < length qs" "length qs \<le> length points" "set qs \<subseteq> set points"
    using spread_points [of 512 points] assms False by (auto simp: qs_def decimate_def)
  define is' where "is' = filter ((!) (simplify_marks lm qs tol)) [0..<length qs]"
  note kept = simplify_kept [OF q(3), of tol lm, folded is'_def]
  have S: "Simplify lm points tol = map ((!) qs) is'" using False kept(1) by (simp add: Simplify_eq qs_def Let_def)
  have ends: "hd is' = 0" "last is' = length qs - 1" using False kept by simp_all
  have "length is' \<noteq> 1" using ends q(3) by (auto simp: length_Suc_conv)
  moreover have ne: "is' \<noteq> []" using False kept(6) by auto
  ultimately have "2 \<le> length is'" by (cases is') (auto simp: Suc_le_eq)
  moreover have "length is' \<le> length qs" unfolding is'_def by (metis diff_zero length_filter_le length_upt)
  moreover have "set is' \<subseteq> {..<length qs}" by (auto simp: is'_def)
  moreover have "qs ! 0 = hd qs" "qs ! (length qs - 1) = last qs" using q(3) hd_conv_nth [of qs] last_conv_nth [of qs] by fastforce+
  ultimately show ?thesis
    unfolding S using q ne ends by (auto simp: hd_map last_map dest!: subsetD [of "set is'"])
qed

text \<open>\<open>Simplify\<close> (Douglas-Peucker) terminates and, on a path of at most 512 points, returns a subsequence of the points that contains
  both ends and in which every dropped point lies within the tolerance of the segment between its two kept
  neighbours.\<close>

theorem simplify_within_tolerance:
  assumes "0 < length points" "length points \<le> 512"
  shows "\<exists>is. Simplify lm points tol = map ((!) points) is \<and> sorted_wrt (<) is \<and> hd is = 0 \<and> last is = length points - 1
    \<and> list_all (\<lambda>(a, b). close_between lm points tol a b) (zip is (tl is))"
proof (cases "length points \<le> 2 \<or> tol \<le> 0")
  case True
  have "zip [0..<n] (tl [0..<n]) = map (\<lambda>i. (i, Suc i)) [0..<n - 1]" for n
    by (rule nth_equalityI) (simp_all add: nth_tl)
  then have "list_all (\<lambda>(a, b). close_between lm points tol a b) (zip [0..<length points] (tl [0..<length points]))"
    by (simp add: list_all_iff close_between_def)
  moreover have "Simplify lm points tol = map ((!) points) [0..<length points]"
    using True by (simp add: Simplify_def map_nth)
  ultimately show ?thesis using assms(1)
    by (intro exI [of _ "[0..<length points]"]) (simp add: hd_conv_nth last_conv_nth)
next
  case False
  then have n: "2 < length points" "\<not> tol \<le> 0" by auto
  have "Simplify lm points tol = map fst (filter snd (zip points (simplify_marks lm points tol)))"
    using False assms(2) by (simp add: Simplify_eq)
  with simplify_kept [OF n, of lm] show ?thesis
    by (intro exI [of _ "filter ((!) (simplify_marks lm points tol)) [0..<length points]"]) simp
qed

theorem simplify_within_tolerance_witness:
  "\<exists>is. Simplify ex_libm [ex_point 0 0, ex_point 0 1, ex_point 0 2] (Fin 100) = map ((!) [ex_point 0 0, ex_point 0 1, ex_point 0 2]) is
     \<and> hd is = 0 \<and> last is = 2"
  using simplify_within_tolerance [of "[ex_point 0 0, ex_point 0 1, ex_point 0 2]" ex_libm "Fin 100"] by auto

end
