(* ===== verification/Ids.thy ===== *)
theory Ids
  imports Prelude
begin

text \<open>
  Resource identifiers (\<open>internal/ids/ids.go\<close>): version-4 UUIDs formatted from sixteen bytes, and the
  canonical-form check that every trust boundary applies. The random source and SHA-256 are arguments.
\<close>

unbundle bit_operations_syntax

section \<open>Formatting and checking\<close>

definition hex_digit :: "8 word \<Rightarrow> char" where
  "hex_digit n = ''0123456789abcdef'' ! unat n"

text \<open>\<open>hex.Encode\<close>: high nibble first.\<close>

definition hex_encode :: "8 word list \<Rightarrow> string" where
  "hex_encode bytes = concat (map (\<lambda>b. [hex_digit (drop_bit 4 b), hex_digit (take_bit 4 b)]) bytes)"

definition slice :: "nat \<Rightarrow> nat \<Rightarrow> 'a list \<Rightarrow> 'a list" where
  "slice i j xs = take (j - i) (drop i xs)"

definition version_bytes :: "8 word list \<Rightarrow> 8 word list" where
  "version_bytes value = value[6 := (value ! 6 AND 0x0f) OR 0x40, 8 := (value ! 8 AND 0x3f) OR 0x80]"

definition formatV4 :: "8 word list \<Rightarrow> string" where
  "formatV4 value =
     (let value = version_bytes value
      in hex_encode (slice 0 4 value) @ ''-'' @ hex_encode (slice 4 6 value) @ ''-'' @ hex_encode (slice 6 8 value)
         @ ''-'' @ hex_encode (slice 8 10 value) @ ''-'' @ hex_encode (slice 10 16 value))"

definition isLowerHex :: "char \<Rightarrow> bool" where
  "isLowerHex character \<longleftrightarrow> CHR ''0'' \<le> character \<and> character \<le> CHR ''9'' \<or> CHR ''a'' \<le> character \<and> character \<le> CHR ''f''"

definition Valid :: "string \<Rightarrow> bool" where
  "Valid value =
     (if length value \<noteq> 36 \<or> value ! 8 \<noteq> CHR ''-'' \<or> value ! 13 \<noteq> CHR ''-'' \<or> value ! 18 \<noteq> CHR ''-''
        \<or> value ! 23 \<noteq> CHR ''-'' \<or> value ! 14 \<noteq> CHR ''4'' then False
      else if value ! 19 \<noteq> CHR ''8'' \<and> value ! 19 \<noteq> CHR ''9'' \<and> value ! 19 \<noteq> CHR ''a'' \<and> value ! 19 \<noteq> CHR ''b'' then False
      else list_all (\<lambda>index. index = 8 \<or> index = 13 \<or> index = 18 \<or> index = 23 \<or> isLowerHex (value ! index)) [0..<36])"

text \<open>\<open>New\<close> takes the sixteen bytes of the random source; \<open>FromStableKey\<close> the first sixteen of a digest.\<close>

definition New :: "8 word list \<Rightarrow> string" where
  "New random = formatV4 random"

definition FromStableKey :: "(string \<Rightarrow> 8 word list) \<Rightarrow> string \<Rightarrow> string \<Rightarrow> string" where
  "FromStableKey sha256 namespace key = formatV4 (take 16 (sha256 (namespace @ [CHR 0x00] @ key)))"

section \<open>Facts\<close>

lemma nibble_less: "unat (drop_bit 4 (b :: 8 word)) < 16" "unat (take_bit 4 (b :: 8 word)) < 16"
proof -
  have "unat b < 2 ^ LENGTH(8)" by (rule unsigned_less)
  then have "unat b div 16 < 16" by simp
  then show "unat (drop_bit 4 b) < 16" by (simp only: unsigned_drop_bit_eq) (simp add: drop_bit_eq_div take_bit_eq_mod)
  show "unat (take_bit 4 b) < 16" by (simp only: unsigned_take_bit_eq) (simp add: take_bit_eq_mod)
qed

lemma digits_hex: "list_all isLowerHex ''0123456789abcdef''" "distinct ''0123456789abcdef''"
  by code_simp+

lemma hex_digit_hex: "unat n < 16 \<Longrightarrow> isLowerHex (hex_digit n)"
  using digits_hex(1) unfolding hex_digit_def list_all_length by (auto dest!: spec [of _ "unat n"])

lemma hex_digit_inj: "unat m < 16 \<Longrightarrow> unat n < 16 \<Longrightarrow> hex_digit m = hex_digit n \<Longrightarrow> m = n"
  using digits_hex(2) unfolding hex_digit_def by (simp add: nth_eq_iff_index_eq word_unat_eq_iff)

lemma nibbles_eq: "drop_bit 4 a = drop_bit 4 (b :: 8 word) \<Longrightarrow> take_bit 4 a = take_bit 4 b \<Longrightarrow> a = b"
  by (metis bits_ident)

lemma byte_eq:
  "hex_digit (drop_bit 4 a) = hex_digit (drop_bit 4 b) \<Longrightarrow> hex_digit (take_bit 4 a) = hex_digit (take_bit 4 (b :: 8 word)) \<Longrightarrow> a = b"
  using hex_digit_inj [OF nibble_less(1) nibble_less(1), of a b] hex_digit_inj [OF nibble_less(2) nibble_less(2), of a b]
    nibbles_eq [of a b] by blast

lemma version_nibble: "drop_bit 4 ((b AND 0x0f) OR 0x40 :: 8 word) = 4"
proof -
  have "drop_bit 4 (b AND 0x0f :: 8 word) = 0"
    by (rule bit_word_eqI) (auto simp: bit_simps)
  then show ?thesis by (simp add: drop_bit_or)
qed

lemma variant_nibble:
  "drop_bit 4 ((b AND 0x3f) OR 0x80 :: 8 word) \<in> {8, 9, 10, 11}"
proof -
  have "drop_bit 4 (b AND 0x3f :: 8 word) = take_bit 2 (drop_bit 4 b)"
    by (simp add: take_bit_eq_mask drop_bit_and mask_numeral)
  then have d: "drop_bit 4 ((b AND 0x3f) OR 0x80 :: 8 word) = take_bit 2 (drop_bit 4 b) OR 8" by (simp add: drop_bit_or)
  define x where "x = take_bit 2 (drop_bit 4 b)"
  have "unat x < 4" unfolding x_def by (simp only: unsigned_take_bit_eq) (simp add: take_bit_eq_mod)
  then have "unat x = 0 \<or> unat x = 1 \<or> unat x = 2 \<or> unat x = 3" by linarith
  then have "x = 0 \<or> x = 1 \<or> x = 2 \<or> x = 3" by (simp add: word_unat_eq_iff)
  then show ?thesis unfolding d x_def [symmetric] by auto
qed

lemma sixteen:
  "length v = 16 \<Longrightarrow> \<exists>a b c d e f g h i j k l m n o' p. v = [a, b, c, d, e, f, g, h, i, j, k, l, m, n, o', p]"
  by (auto simp: eval_nat_numeral length_Suc_conv)

lemma hex_pair [simp]: "isLowerHex (hex_digit (drop_bit 4 b))" "isLowerHex (hex_digit (take_bit 4 b))"
  by (intro hex_digit_hex nibble_less)+

text \<open>The rendering of the bytes once the version and variant bits are set.\<close>

definition render :: "8 word list \<Rightarrow> string" where
  "render value = hex_encode (slice 0 4 value) @ ''-'' @ hex_encode (slice 4 6 value) @ ''-'' @ hex_encode (slice 6 8 value)
     @ ''-'' @ hex_encode (slice 8 10 value) @ ''-'' @ hex_encode (slice 10 16 value)"

lemma formatV4_render: "formatV4 v = render (version_bytes v)"
  by (simp add: formatV4_def render_def Let_def)

lemma hex_four: "isLowerHex (CHR ''4'')" and hex_variants: "\<forall>x \<in> {CHR ''8'', CHR ''9'', CHR ''a'', CHR ''b''}. isLowerHex x"
  by code_simp+

lemma render_valid:
  assumes "length v = 16" "hex_digit (drop_bit 4 (v ! 6)) = CHR ''4''"
    "hex_digit (drop_bit 4 (v ! 8)) \<in> {CHR ''8'', CHR ''9'', CHR ''a'', CHR ''b''}"
  shows "Valid (render v)"
proof -
  obtain a b c d e f g h i j k l m n o' p where v: "v = [a, b, c, d, e, f, g, h, i, j, k, l, m, n, o', p]"
    using sixteen [OF assms(1)] by blast
  show ?thesis
    using assms(2,3) hex_four hex_variants
    by (auto simp: v Valid_def render_def hex_encode_def slice_def upt_rec)
qed

lemma render_inj:
  assumes "length v = 16" "length w = 16" "render v = render w"
  shows "v = w"
proof -
  obtain a b c d e f g h i j k l m n o' p where v: "v = [a, b, c, d, e, f, g, h, i, j, k, l, m, n, o', p]"
    using sixteen [OF assms(1)] by blast
  obtain a' b' c' d' e' f' g' h' i' j' k' l' m' n' o'' p' where w: "w = [a', b', c', d', e', f', g', h', i', j', k', l', m', n', o'', p']"
    using sixteen [OF assms(2)] by blast
  show ?thesis using assms(3) by (auto simp: v w render_def hex_encode_def slice_def intro: byte_eq)
qed

text \<open>Every identifier the system generates, from random bytes or from a stable key, is a canonical version-4 UUID: it passes
  the check that every service applies to identifiers it receives; and two byte strings give the same identifier only if they agree
  outside the six fixed version and variant bits.\<close>

theorem formatV4_valid:
  assumes "length v = 16"
  shows "Valid (formatV4 v) \<and> (length w = 16 \<and> formatV4 v = formatV4 w \<longrightarrow> version_bytes v = version_bytes w)"
proof -
  have l: "length (version_bytes u) = length u" for u by (simp add: version_bytes_def)
  have "drop_bit 4 (version_bytes v ! 6) = 4"
    using assms version_nibble by (simp add: version_bytes_def del: drop_bit_or drop_bit_numeral_bit0 drop_bit_numeral_bit1)
  then have "hex_digit (drop_bit 4 (version_bytes v ! 6)) = CHR ''4''" by (simp add: hex_digit_def)
  moreover have "drop_bit 4 (version_bytes v ! 8) \<in> {8, 9, 10, 11}"
    using assms variant_nibble [of "v ! 8"] by (simp add: version_bytes_def del: drop_bit_or)
  then have "hex_digit (drop_bit 4 (version_bytes v ! 8)) \<in> {CHR ''8'', CHR ''9'', CHR ''a'', CHR ''b''}"
    by (auto simp: hex_digit_def)
  ultimately have "Valid (formatV4 v)"
    unfolding formatV4_render using assms l by (intro render_valid) simp_all
  then show ?thesis using render_inj [of "version_bytes v" "version_bytes w"] assms l by (simp add: formatV4_render)
qed

theorem formatV4_valid_witness: "Valid (formatV4 (replicate 16 0xff))"
  using formatV4_valid [of "replicate 16 0xff"] by simp

end
