(* ===== verification/Resilience.thy ===== *)
theory Resilience
  imports Prelude "HOL-Library.Word"
begin

text \<open>
  The guards in front of the external provider (\<open>services/provider-yandex/resilience.go\<close>): the sliding-window quota, the shared
  cool-down after a rate limit, retry delays, the latch of credential faults, the circuit breaker and the bulkhead. Times and durations are in
  nanoseconds; a reading of the clock, of the random source or of the select is an argument.
\<close>

unbundle bit_operations_syntax

definition millisecond :: duration where
  "millisecond = 10 ^ 6"

definition maxProviderCooldown :: duration where
  "maxProviderCooldown = 5 * 60 * 10 ^ 9"

definition maxProviderCooldownJitter :: duration where
  "maxProviderCooldownJitter = 500 * 10 ^ 6"

section \<open>The sliding window\<close>

record slidingWindowGate =
  sg_limit :: int
  sg_window :: duration
  sg_attempts :: "time list"

definition newSlidingWindowGate :: "int \<Rightarrow> duration \<Rightarrow> slidingWindowGate" where
  "newSlidingWindowGate limit window = \<lparr> sg_limit = limit, sg_window = window, sg_attempts = [] \<rparr>"

text \<open>\<^term>\<open>None\<close> is the nil gate.\<close>

definition slidingWindowGate_Try :: "time \<Rightarrow> slidingWindowGate option \<Rightarrow> (bool \<times> duration) \<times> slidingWindowGate option" where
  "slidingWindowGate_Try now gate = (case gate of
     None \<Rightarrow> ((True, 0), gate)
   | Some g \<Rightarrow>
       if sg_limit g \<le> 0 \<or> sg_window g \<le> 0 then ((True, 0), gate)
       else
         let cutoff = now - sg_window g; active = dropWhile (\<lambda>t. \<not> t > cutoff) (sg_attempts g) in
         if int (length active) \<ge> sg_limit g then
           let retryAfter = hd active + sg_window g - now in
           ((False, if retryAfter < millisecond then millisecond else retryAfter), Some (g\<lparr>sg_attempts := active\<rparr>))
         else ((True, 0), Some (g\<lparr>sg_attempts := active @ [now]\<rparr>)))"

section \<open>The shared cool-down\<close>

record sharedCooldown =
  sc_until :: time

definition sharedCooldown_Extend :: "time \<Rightarrow> duration \<Rightarrow> sharedCooldown \<Rightarrow> sharedCooldown" where
  "sharedCooldown_Extend now delay c =
     (let delay = (if delay < millisecond then millisecond else delay);
          delay = (if delay > maxProviderCooldown then maxProviderCooldown else delay);
          candidate = now + delay
      in if candidate > sc_until c then c\<lparr>sc_until := candidate\<rparr> else c)"

text \<open>\<open>jitter\<close> is absent when the function is nil.\<close>

definition sharedCooldown_WaitDuration :: "time \<Rightarrow> (duration \<Rightarrow> duration) option \<Rightarrow> sharedCooldown \<Rightarrow> duration" where
  "sharedCooldown_WaitDuration now jitter c =
     (let remaining = sc_until c - now in
      if remaining \<le> 0 then 0
      else
        let remaining = (if remaining > maxProviderCooldown then maxProviderCooldown else remaining);
            spread = maxProviderCooldownJitter;
            added = (case jitter of None \<Rightarrow> 0 | Some f \<Rightarrow>
              if spread > 0 then let added = f spread; added = (if added < 0 then 0 else added) in if added > spread then spread else added
              else 0)
        in remaining + added)"

text \<open>\<open>rnd n\<close> is a value of \<open>rand.Int64N(n)\<close>.\<close>

definition defaultCooldownJitter :: "(int64 \<Rightarrow> int64) \<Rightarrow> duration \<Rightarrow> duration" where
  "defaultCooldownJitter rnd maximum = (if maximum \<le> 0 then 0 else rnd (add64 maximum 1))"

fun cooldown_loop :: "nat \<Rightarrow> duration \<Rightarrow> duration \<Rightarrow> duration" where
  "cooldown_loop 0 maximum delay = delay"
| "cooldown_loop (Suc n) maximum delay =
     (if \<not> delay < maximum then delay
      else if delay > quot64 maximum 2 then maximum
      else cooldown_loop n maximum (mul64 delay 2))"

definition providerCooldownDelay :: "int \<Rightarrow> duration \<Rightarrow> duration \<Rightarrow> duration \<Rightarrow> duration" where
  "providerCooldownDelay attempt base maximum retryAfter =
     (if retryAfter > 0 then (if retryAfter > maxProviderCooldown then maxProviderCooldown else retryAfter)
      else
        let base = (if base < millisecond then millisecond else base);
            maximum = (if maximum < base then base else maximum);
            delay = cooldown_loop (nat attempt) maximum base;
            delay = (if delay > maximum then maximum else delay)
        in if delay > maxProviderCooldown then maxProviderCooldown else delay)"

section \<open>Retry delays\<close>

fun retry_loop :: "nat \<Rightarrow> duration \<Rightarrow> duration \<Rightarrow> duration" where
  "retry_loop 0 maximum delay = delay"
| "retry_loop (Suc n) maximum delay = (if delay < quot64 maximum 2 then retry_loop n maximum (mul64 delay 2) else delay)"

definition retryDelay :: "(int64 \<Rightarrow> int64) \<Rightarrow> int \<Rightarrow> duration \<Rightarrow> duration \<Rightarrow> duration \<Rightarrow> duration" where
  "retryDelay rnd attempt base maximum retryAfter =
     (if retryAfter > 0 then retryAfter
      else
        let delay = retry_loop (nat attempt) maximum base;
            delay = (if delay > maximum then maximum else delay)
        in if delay \<le> millisecond then delay else add64 (rnd (sub64 delay millisecond)) millisecond)"

section \<open>Credential faults\<close>

type_synonym credentialScope = "8 word"

definition credentialRouter :: credentialScope where "credentialRouter = 1"
definition credentialGeocoder :: credentialScope where "credentialGeocoder = 2"

record credentialFaultLatch =
  cl_faults :: credentialScope

definition credentialFaultLatch_Fail :: "credentialScope \<Rightarrow> credentialFaultLatch \<Rightarrow> credentialFaultLatch" where
  "credentialFaultLatch_Fail scope l = l\<lparr>cl_faults := cl_faults l OR scope\<rparr>"

definition credentialFaultLatch_Success :: "credentialScope \<Rightarrow> credentialFaultLatch \<Rightarrow> credentialFaultLatch" where
  "credentialFaultLatch_Success scope l = l\<lparr>cl_faults := cl_faults l AND NOT scope\<rparr>"

definition credentialFaultLatch_Failed :: "credentialFaultLatch \<Rightarrow> bool" where
  "credentialFaultLatch_Failed l \<longleftrightarrow> cl_faults l \<noteq> 0"

section \<open>The circuit breaker\<close>

datatype breakerState = breakerClosed | breakerOpen | breakerHalfOpen

record circuitBreaker =
  cb_threshold :: int
  cb_openDuration :: duration
  cb_failures :: int64
  cb_openedAt :: time
  cb_state :: breakerState

definition newCircuitBreaker :: "int \<Rightarrow> duration \<Rightarrow> circuitBreaker" where
  "newCircuitBreaker threshold openDuration = \<lparr> cb_threshold = threshold, cb_openDuration = openDuration, cb_failures = 0,
     cb_openedAt = 0, cb_state = breakerClosed \<rparr>"

definition circuitBreaker_Allow :: "time \<Rightarrow> circuitBreaker \<Rightarrow> bool \<times> circuitBreaker" where
  "circuitBreaker_Allow now b =
     (if cb_state b = breakerOpen then
        if now - cb_openedAt b < cb_openDuration b then (False, b) else (True, b\<lparr>cb_state := breakerHalfOpen\<rparr>)
      else (cb_state b = breakerClosed, b))"

definition circuitBreaker_Success :: "circuitBreaker \<Rightarrow> circuitBreaker" where
  "circuitBreaker_Success b = b\<lparr>cb_failures := 0, cb_state := breakerClosed, cb_openedAt := 0\<rparr>"

definition circuitBreaker_open :: "time \<Rightarrow> circuitBreaker \<Rightarrow> circuitBreaker" where
  "circuitBreaker_open now b = b\<lparr>cb_state := breakerOpen, cb_openedAt := now\<rparr>"

definition circuitBreaker_Failure :: "time \<Rightarrow> circuitBreaker \<Rightarrow> circuitBreaker" where
  "circuitBreaker_Failure now b =
     (if cb_state b = breakerHalfOpen then circuitBreaker_open now b
      else let b = b\<lparr>cb_failures := add64 (cb_failures b) 1\<rparr> in
        if cb_failures b \<ge> cb_threshold b then circuitBreaker_open now b else b)"

definition circuitBreaker_State :: "time \<Rightarrow> circuitBreaker \<Rightarrow> breakerState" where
  "circuitBreaker_State now b =
     (if cb_state b = breakerOpen \<and> now - cb_openedAt b \<ge> cb_openDuration b then breakerHalfOpen else cb_state b)"

section \<open>The bulkhead\<close>

datatype bulkhead_error = BulkheadFull | BulkheadCancelled

text \<open>Which case of the blocking select fires, when a slot does not become free at once.\<close>

datatype bulkhead_event = SlotFreed | ContextDone | TimerFired

record bulkhead =
  bh_held :: int
  bh_capacity :: int
  bh_wait :: duration

definition newBulkhead :: "int \<Rightarrow> duration \<Rightarrow> bulkhead" where
  "newBulkhead maxConcurrency wait = \<lparr> bh_held = 0, bh_capacity = maxConcurrency, bh_wait = wait \<rparr>"

text \<open>\<open>SlotFreed\<close> can fire only when a slot is free.\<close>

definition bulkhead_Acquire :: "bulkhead_event \<Rightarrow> bulkhead \<Rightarrow> bulkhead_error option \<times> bulkhead" where
  "bulkhead_Acquire event b =
     (if bh_wait b = 0 then
        if bh_held b < bh_capacity b then (None, b\<lparr>bh_held := bh_held b + 1\<rparr>) else (Some BulkheadFull, b)
      else case event of
        SlotFreed \<Rightarrow> if bh_held b < bh_capacity b then (None, b\<lparr>bh_held := bh_held b + 1\<rparr>) else (Some BulkheadFull, b)
      | ContextDone \<Rightarrow> (Some BulkheadCancelled, b)
      | TimerFired \<Rightarrow> (Some BulkheadFull, b))"

definition bulkhead_Release :: "bulkhead \<Rightarrow> bulkhead" where
  "bulkhead_Release b = b\<lparr>bh_held := bh_held b - 1\<rparr>"

section \<open>The quota is never exceeded\<close>

text \<open>The admitted calls among calls at the given times, and the gate after them.\<close>

fun gate_run :: "slidingWindowGate option \<Rightarrow> time list \<Rightarrow> time list \<times> slidingWindowGate option" where
  "gate_run g [] = ([], g)"
| "gate_run g (t # ts) = (case slidingWindowGate_Try t g of ((ok, _), g) \<Rightarrow>
     (case gate_run g ts of (admitted, g) \<Rightarrow> ((if ok then t # admitted else admitted), g)))"

definition in_window :: "duration \<Rightarrow> time \<Rightarrow> time list \<Rightarrow> time list" where
  "in_window window t xs = filter (\<lambda>x. t - window < x \<and> x \<le> t) xs"

text \<open>The gate after a last call at \<open>now\<close>, with the calls admitted so far.\<close>

definition gate_inv :: "int \<Rightarrow> duration \<Rightarrow> time list \<Rightarrow> time \<Rightarrow> slidingWindowGate \<Rightarrow> bool" where
  "gate_inv limit window past now g \<longleftrightarrow> sg_limit g = limit \<and> sg_window g = window \<and> sg_attempts g = filter (\<lambda>x. now - window < x) past
     \<and> sorted past \<and> (\<forall>x \<in> set past. x \<le> now \<and> int (length (in_window window x past)) \<le> limit)"

lemma dropWhile_sorted: "sorted xs \<Longrightarrow> dropWhile (\<lambda>t. \<not> t > c) xs = filter (\<lambda>t. c < (t::int)) xs"
  by (induction xs) (auto simp: not_less intro!: filter_True [symmetric])

lemma sorted_le_last: "sorted xs \<Longrightarrow> y \<in> set xs \<Longrightarrow> y \<le> last (xs :: int list)"
  by (induction xs) (auto split: if_splits)

lemma length_filter_sub: "(\<And>x. x \<in> set xs \<Longrightarrow> P x \<Longrightarrow> Q x) \<Longrightarrow> length (filter P xs) \<le> length (filter Q xs)"
  by (induction xs) auto

lemma gate_step:
  assumes inv: "gate_inv limit window past now g" and t: "now \<le> t" and pos: "0 < limit" "0 < window"
  shows "\<exists>ok d g'. slidingWindowGate_Try t (Some g) = ((ok, d), Some g') \<and> gate_inv limit window (if ok then past @ [t] else past) t g'"
proof -
  define active where "active = filter (\<lambda>x. t - window < x) past"
  have g: "sg_limit g = limit" "sg_window g = window" "sg_attempts g = filter (\<lambda>x. now - window < x) past"
    and p: "sorted past" "\<And>x. x \<in> set past \<Longrightarrow> x \<le> now" "\<And>x. x \<in> set past \<Longrightarrow> int (length (in_window window x past)) \<le> limit"
    using inv by (auto simp: gate_inv_def)
  have old: "x \<le> t" if "x \<in> set past" for x using p(2) [OF that] t by simp
  have drop: "dropWhile (\<lambda>x. \<not> x > t - window) (sg_attempts g) = active"
    unfolding g(3) using p(1) t by (subst dropWhile_sorted) (auto simp: active_def sorted_wrt_filter intro: filter_cong)
  have here: "in_window window t past = active"
    unfolding in_window_def active_def by (rule filter_cong) (use p(2) t in force)+
  show ?thesis
  proof (cases "int (length active) \<ge> limit")
    case True
    have "gate_inv limit window past t (g\<lparr>sg_attempts := active\<rparr>)"
      using g(1,2) p(1,3) old by (simp add: gate_inv_def active_def)
    with True pos show ?thesis unfolding slidingWindowGate_Try_def option.case g(1,2) Let_def drop by auto
  next
    case False
    have "int (length (in_window window x (past @ [t]))) \<le> limit" if "x \<in> set (past @ [t])" for x
    proof (cases "x = t")
      case True
      then show ?thesis using False here pos by (simp add: in_window_def)
    next
      case False
      then have "x \<in> set past" "x < t" using that p(2) [of x] t by auto
      then show ?thesis using p(3) [of x] by (simp add: in_window_def)
    qed
    then have "gate_inv limit window (past @ [t]) t (g\<lparr>sg_attempts := active @ [t]\<rparr>)"
      using g(1,2) p(1) old pos by (simp add: gate_inv_def active_def sorted_append)
    with False pos show ?thesis unfolding slidingWindowGate_Try_def option.case g(1,2) Let_def drop by auto
  qed
qed

lemma gate_run_inv:
  assumes "gate_inv limit window past now g" "sorted (now # ts)" "0 < limit" "0 < window"
  shows "\<exists>admitted g'. gate_run (Some g) ts = (admitted, Some g') \<and> gate_inv limit window (past @ admitted) (last (now # ts)) g'"
  using assms(1,2)
proof (induction ts arbitrary: past now g)
  case (Cons t ts)
  then have "now \<le> t" by simp
  from gate_step [OF Cons.prems(1) this assms(3,4)] obtain ok d g1 where
    s: "slidingWindowGate_Try t (Some g) = ((ok, d), Some g1)" "gate_inv limit window (if ok then past @ [t] else past) t g1" by blast
  from Cons.IH [OF s(2)] Cons.prems(2) obtain admitted g2 where
    r: "gate_run (Some g1) ts = (admitted, Some g2)" "gate_inv limit window ((if ok then past @ [t] else past) @ admitted) (last (t # ts)) g2" by auto
  then show ?case using s(1) by (cases ok) simp_all
qed simp

lemma window_count:
  assumes "gate_inv limit window past now g" "0 < limit"
  shows "int (length (in_window window t past)) \<le> limit"
proof (cases "in_window window t past = []")
  case False
  define x where "x = last (in_window window t past)"
  have s: "sorted (in_window window t past)" using assms(1) by (simp add: gate_inv_def in_window_def sorted_wrt_filter)
  have x: "x \<in> set past" "x \<le> t" using last_in_set [OF False] by (auto simp: x_def in_window_def)
  have "y \<le> x" if "y \<in> set (in_window window t past)" for y
    using sorted_le_last [OF s that] by (simp add: x_def)
  then have "length (in_window window t past) \<le> length (in_window window x past)"
    using x(2) unfolding in_window_def by (intro length_filter_sub) auto
  then show ?thesis using assms(1) x(1) by (force simp: gate_inv_def)
qed (use assms(2) in simp)

text \<open>The hint of a refusal: nobody else calling, a retry after it is admitted.\<close>

lemma gate_retry:
  assumes inv: "gate_inv limit window past now g" and t: "now \<le> t" and pos: "0 < limit" "0 < window"
    and refused: "slidingWindowGate_Try t (Some g) = ((False, d), Some g')"
  shows "millisecond \<le> d \<and> fst (fst (slidingWindowGate_Try (t + d) (Some g')))"
proof -
  define active where "active = dropWhile (\<lambda>x. \<not> x > t - window) (sg_attempts g)"
  have l: "sg_limit g = limit" "sg_window g = window" using inv by (auto simp: gate_inv_def)
  have r: "int (length active) \<ge> limit" "d = max millisecond (hd active + window - t)" "g' = g\<lparr>sg_attempts := active\<rparr>"
    using refused pos unfolding slidingWindowGate_Try_def option.case l Let_def active_def [symmetric] by (auto split: if_splits)
  from gate_step [OF inv t pos] refused have inv': "gate_inv limit window past t g'" by auto
  have m: "0 < millisecond" by (simp add: millisecond_def)
  have s: "sorted active" "active = filter (\<lambda>x. t - window < x) past" using inv' r(3) by (auto simp: gate_inv_def sorted_wrt_filter)
  obtain x xs where a: "active = x # xs" using r(1) pos by (cases active) auto
  have "active = in_window window t past" using inv' by (auto simp: s(2) in_window_def gate_inv_def intro: filter_cong)
  then have "int (length active) \<le> limit" using window_count [OF inv' pos(1)] by simp
  moreover have "length (dropWhile (\<lambda>y. \<not> y > t + d - window) active) \<le> length xs"
    using r(2) by (simp add: a length_dropWhile_le)
  ultimately have "\<not> int (length (dropWhile (\<lambda>y. \<not> y > t + d - window) active)) \<ge> limit" by (simp add: a)
  then show ?thesis
    using pos m r(2) unfolding r(3) slidingWindowGate_Try_def option.case Let_def slidingWindowGate.simps l
    by (auto simp: l simp del: dropWhile.simps)
qed

text \<open>the subscription quota is kept: among calls at nondecreasing times the gate admits at most \<open>limit\<close> in any window, wherever the window lies,
  and a refused caller who waits the time the gate returned is admitted, unless others call meanwhile.\<close>

theorem gate_quota:
  assumes "sorted ts" "0 < limit" "0 < window"
  shows "case gate_run (Some (newSlidingWindowGate limit window)) ts of (admitted, g) \<Rightarrow>
    int (length (in_window window t admitted)) \<le> limit
    \<and> (\<forall>now d g'. (ts = [] \<or> last ts \<le> now) \<and> slidingWindowGate_Try now g = ((False, d), g') \<longrightarrow>
         millisecond \<le> d \<and> fst (fst (slidingWindowGate_Try (now + d) g')))"
proof -
  define t0 where "t0 = (\<lambda>now. if ts = [] then now else hd ts)"
  have new: "gate_inv limit window [] now (newSlidingWindowGate limit window)" for now
    by (simp add: gate_inv_def newSlidingWindowGate_def)
  have srt: "sorted (t0 now # ts)" for now using assms(1) by (cases ts) (auto simp: t0_def)
  have run: "\<exists>admitted g'. gate_run (Some (newSlidingWindowGate limit window)) ts = (admitted, Some g')
      \<and> gate_inv limit window admitted (last (t0 now # ts)) g'" for now
    using gate_run_inv [OF new srt assms(2,3)] by simp
  then obtain admitted g where g: "gate_run (Some (newSlidingWindowGate limit window)) ts = (admitted, Some g)" by blast
  have inv: "gate_inv limit window admitted (last (t0 now # ts)) g" for now using run [of now] g by auto
  have "millisecond \<le> d \<and> fst (fst (slidingWindowGate_Try (now + d) g'))"
    if "ts = [] \<or> last ts \<le> now" "slidingWindowGate_Try now (Some g) = ((False, d), g')" for now d g'
  proof -
    have le: "last (t0 now # ts) \<le> now" using that(1) by (auto simp: t0_def)
    with gate_step [OF inv le assms(2,3)] that(2) obtain g1 where "g' = Some g1" by auto
    then show ?thesis using gate_retry [OF inv le assms(2,3)] that(2) by simp
  qed
  then show ?thesis using window_count [OF inv assms(2)] unfolding g prod.case by blast
qed

theorem gate_quota_witness:
  "case gate_run (Some (newSlidingWindowGate 2 100)) [0, 10, 20, 30] of (admitted, g) \<Rightarrow> int (length (in_window 100 50 admitted)) \<le> 2"
  using gate_quota [of "[0, 10, 20, 30]" 2 100 50] by (auto split: prod.splits)

section \<open>The breaker protects the provider\<close>

datatype breaker_op = Ask time | Ok | Fail time

fun breaker_step :: "circuitBreaker \<Rightarrow> breaker_op \<Rightarrow> circuitBreaker" where
  "breaker_step b (Ask now) = snd (circuitBreaker_Allow now b)"
| "breaker_step b Ok = circuitBreaker_Success b"
| "breaker_step b (Fail now) = circuitBreaker_Failure now b"

definition breaker_inv :: "int \<Rightarrow> duration \<Rightarrow> circuitBreaker \<Rightarrow> bool" where
  "breaker_inv threshold wait b \<longleftrightarrow> cb_threshold b = threshold \<and> cb_openDuration b = wait
     \<and> (cb_state b = breakerClosed \<longrightarrow> 0 \<le> cb_failures b \<and> cb_failures b < threshold)"

lemma breaker_run_inv:
  assumes "1 \<le> threshold" "in64 threshold"
  shows "breaker_inv threshold wait (foldl breaker_step (newCircuitBreaker threshold wait) ops)"
proof (induction ops rule: rev_induct)
  case Nil
  then show ?case using assms(1) by (simp add: breaker_inv_def newCircuitBreaker_def)
next
  case (snoc op ops)
  define b where "b = foldl breaker_step (newCircuitBreaker threshold wait) ops"
  have i: "breaker_inv threshold wait b" using snoc by (simp add: b_def)
  have next_failure: "add64 (cb_failures b) 1 = cb_failures b + 1" if "cb_state b = breakerClosed"
    using i that assms(2) by (intro add64_id) (auto simp: breaker_inv_def in64_def)
  have "breaker_inv threshold wait (breaker_step b op)"
  proof (cases op)
    case (Fail now)
    then show ?thesis using i next_failure
      by (cases "cb_state b") (auto simp: breaker_inv_def circuitBreaker_Failure_def circuitBreaker_open_def Let_def)
  qed (use i assms(1) in \<open>auto simp: breaker_inv_def circuitBreaker_Allow_def circuitBreaker_Success_def\<close>)
  then show ?case by (simp add: b_def)
qed

text \<open>The breaker protects the provider. In every history: while it is closed fewer than \<open>threshold\<close> failures have followed the last
  success; once open it refuses every call until the open time has passed, then admits exactly one trial, and while that trial is
  undecided it refuses every further call at any time, however long the trial takes.\<close>

theorem breaker_protects:
  assumes "1 \<le> threshold" "in64 threshold" "b = foldl breaker_step (newCircuitBreaker threshold wait) ops"
  shows "case cb_state b of
      breakerClosed \<Rightarrow> cb_failures b < threshold \<and> fst (circuitBreaker_Allow now b)
    | breakerOpen \<Rightarrow> (fst (circuitBreaker_Allow now b) \<longleftrightarrow> cb_openedAt b + wait \<le> now)
        \<and> (cb_openedAt b + wait \<le> now \<longrightarrow> cb_state (snd (circuitBreaker_Allow now b)) = breakerHalfOpen)
    | breakerHalfOpen \<Rightarrow> foldl breaker_step b (map Ask asks) = b \<and> \<not> fst (circuitBreaker_Allow now b)"
proof -
  have i: "breaker_inv threshold wait b" using breaker_run_inv [OF assms(1,2)] assms(3) by simp
  have "foldl breaker_step b (map Ask asks) = b" if "cb_state b = breakerHalfOpen"
    using that by (induction asks) (simp_all add: circuitBreaker_Allow_def)
  with i show ?thesis
    by (cases "cb_state b") (auto simp: breaker_inv_def circuitBreaker_Allow_def)
qed

theorem breaker_protects_witness:
  "cb_state (foldl breaker_step (newCircuitBreaker 1 10) [Fail 0, Ask 20]) = breakerHalfOpen
   \<and> \<not> fst (circuitBreaker_Allow 1000 (foldl breaker_step (newCircuitBreaker 1 10) [Fail 0, Ask 20]))"
proof -
  have "cb_state (foldl breaker_step (newCircuitBreaker 1 10) [Fail 0, Ask 20]) = breakerHalfOpen" by code_simp
  moreover have "(1::int) \<le> 1" "in64 1" by (simp_all add: in64_def)
  ultimately show ?thesis
    using breaker_protects [of 1 "foldl breaker_step (newCircuitBreaker 1 10) [Fail 0, Ask 20]" 10 "[Fail 0, Ask 20]" 1000 "[]"] by simp
qed

section \<open>Delays\<close>

lemma cooldown_loop_bounds:
  "0 < delay \<Longrightarrow> delay \<le> maximum \<Longrightarrow> in64 maximum \<Longrightarrow> delay \<le> cooldown_loop n maximum delay \<and> cooldown_loop n maximum delay \<le> maximum"
proof (induction n arbitrary: delay)
  case (Suc n)
  have q: "quot64 maximum 2 = maximum div 2" using Suc.prems by (subst quot64_def, subst wrap64_id) (auto simp: in64_def)
  have m: "mul64 delay 2 = delay * 2" if "delay \<le> maximum div 2"
    using that Suc.prems by (subst mul64_def, subst wrap64_id) (auto simp: in64_def)
  have "delay \<le> cooldown_loop n maximum (delay * 2) \<and> cooldown_loop n maximum (delay * 2) \<le> maximum" if "delay \<le> maximum div 2"
    using Suc.IH [of "delay * 2"] Suc.prems that by linarith
  then show ?case using Suc.prems by (auto simp: q m)
qed simp

lemma providerCooldownDelay_bounds:
  assumes "in64 base" "in64 maximum"
  shows "0 < providerCooldownDelay attempt base maximum retryAfter \<and> providerCooldownDelay attempt base maximum retryAfter \<le> maxProviderCooldown"
proof -
  define b where "b = (if base < millisecond then millisecond else base)"
  define m where "m = (if maximum < b then b else maximum)"
  have "in64 m" using assms by (auto simp: m_def b_def millisecond_def in64_def)
  moreover have "0 < b" "b \<le> m" by (auto simp: b_def m_def millisecond_def)
  ultimately have "b \<le> cooldown_loop (nat attempt) m b" using cooldown_loop_bounds by blast
  then show ?thesis
    using \<open>0 < b\<close> unfolding providerCooldownDelay_def Let_def b_def [symmetric] m_def [symmetric] maxProviderCooldown_def
    by (auto simp: m_def)
qed

end
