(* ===== verification/ProviderService.thy ===== *)
theory ProviderService
  imports GoText Contracts Geometry Ids Resilience
begin

text \<open>
  The base of the provider service (\<open>services/provider-yandex\<close>): its configuration (\<open>config.go\<close>), its errors and request budget
  (\<open>provider.go\<close>), the checks on an incoming request (\<open>validation.go\<close>) and the helpers that both adapters share (\<open>yandex.go\<close>). SHA-256
  and the parser of HTTP dates are arguments.
\<close>

section \<open>Configuration (config.go)\<close>

definition providerModeYandex :: string where "providerModeYandex = ''yandex''"
definition providerModeDGIS :: string where "providerModeDGIS = ''2gis''"
definition providerModeStub :: string where "providerModeStub = ''stub''"
definition addressProviderAuto :: string where "addressProviderAuto = ''auto''"
definition addressProviderYandex :: string where "addressProviderYandex = ''yandex''"
definition addressProviderDGIS :: string where "addressProviderDGIS = ''2gis''"

lemmas mode_names = providerModeYandex_def providerModeDGIS_def providerModeStub_def
  addressProviderAuto_def addressProviderYandex_def addressProviderDGIS_def

record Config =
  cf_Environment :: string
  cf_HTTPAddr :: string
  cf_InternalAPIToken :: string
  cf_ProviderMode :: string
  cf_AddressProviderMode :: string
  cf_YandexAPIKey :: string
  cf_YandexRouterBaseURL :: string
  cf_YandexGeocoderAPIKey :: string
  cf_YandexGeocoderBaseURL :: string
  cf_YandexMaxResults :: int
  cf_DGISAPIKey :: string
  cf_DGISRoutingBaseURL :: string
  cf_DGISMaxResults :: int
  cf_DGISRateLimitPerMinute :: int
  cf_DGISMonthlyLimit :: int
  cf_DGISGeocoderRatePerMinute :: int
  cf_DGISGeocoderLocationBias :: string
  cf_ConnectTimeout :: duration
  cf_RequestTimeout :: duration
  cf_ResponseHeaderTimeout :: duration
  cf_BulkheadWaitTimeout :: duration
  cf_MaxRetries :: int
  cf_RetryBaseDelay :: duration
  cf_RetryMaxDelay :: duration
  cf_MaxConcurrency :: int
  cf_CircuitBreakerThreshold :: int
  cf_CircuitBreakerOpenDuration :: duration
  cf_ShutdownTimeout :: duration
  cf_MaxRequestBodyBytes :: int64
  cf_MaxProviderResponseBytes :: int64
  cf_ProviderCostPerBillableUnit :: f64
  cf_ProviderDataStorageAllowed :: bool
  cf_ProviderDataModificationOK :: bool
  cf_ExperimentalSourcesRequested :: bool
  cf_StubScenario :: string
  cf_StubDelay :: duration

text \<open>The checks of \<open>normalizeDGISLocationBias\<close> (\<open>dgis_geocoder.go\<close>); the canonical text it returns is used in a URL only.\<close>

datatype bias_error = BiasPairExpected | BiasLongitude | BiasLatitude

definition coordinate_ok :: "rat \<Rightarrow> f64 option \<Rightarrow> bool" where
  "coordinate_ok bound parsed = (case parsed of None \<Rightarrow> False
     | Some v \<Rightarrow> \<not> (is_nan v \<or> is_inf v \<or> v < flit (- bound) \<or> flit bound < v))"

definition normalizeDGISLocationBias :: "string \<Rightarrow> bias_error option" where
  "normalizeDGISLocationBias value =
     (let parts = Split (CHR '','') (trim_space value) in first_some [
        check (length parts \<noteq> 2) BiasPairExpected,
        check (\<not> coordinate_ok 180 (ParseFloat (trim_space (parts ! 0)))) BiasLongitude,
        check (\<not> coordinate_ok 90 (ParseFloat (trim_space (parts ! 1)))) BiasLatitude])"

datatype config_error = ProviderModeUnknown | AddressModeUnknown | YandexGeocoderKeyRequired | DGISAddressesOnlyWithDGIS
  | TokenTooShort | StubInProduction | YandexKeyRequired | DGISKeyRequired | YandexRouterURL | YandexGeocoderURL | YandexMaxResultsRange
  | DGISRoutingURL | DGISRoutingURLRequired | DGISMaxResultsRange | DGISRateLimitRange | DGISMonthlyLimitRange | DGISGeocoderRateRange
  | DGISLocationBias bias_error | TimeoutsPositive | BulkheadWaitNegative | MaxRetriesRange | RetryDelaysInvalid | MaxConcurrencyRange
  | BreakerThresholdPositive | DurationsPositive | ByteLimits | CostInvalid | StubScenarioUnknown | StubDelayNegative | ModificationNeedsStorage

definition Config_Validate :: "Config \<Rightarrow> config_error option" where
  "Config_Validate c = first_some [
     check (cf_ProviderMode c \<noteq> providerModeYandex \<and> cf_ProviderMode c \<noteq> providerModeDGIS \<and> cf_ProviderMode c \<noteq> providerModeStub) ProviderModeUnknown,
     check (cf_AddressProviderMode c \<noteq> addressProviderAuto \<and> cf_AddressProviderMode c \<noteq> addressProviderYandex
       \<and> cf_AddressProviderMode c \<noteq> addressProviderDGIS) AddressModeUnknown,
     check (cf_ProviderMode c = providerModeDGIS \<and> cf_AddressProviderMode c = addressProviderYandex \<and> cf_YandexGeocoderAPIKey c = [])
       YandexGeocoderKeyRequired,
     check (cf_ProviderMode c = providerModeYandex \<and> cf_AddressProviderMode c = addressProviderDGIS) DGISAddressesOnlyWithDGIS,
     check (cf_Environment c = ''production'' \<and> length (cf_InternalAPIToken c) < 32) TokenTooShort,
     check (cf_Environment c = ''production'' \<and> cf_ProviderMode c = providerModeStub) StubInProduction,
     check (cf_ProviderMode c = providerModeYandex \<and> cf_YandexAPIKey c = []) YandexKeyRequired,
     check (cf_ProviderMode c = providerModeDGIS \<and> cf_DGISAPIKey c = []) DGISKeyRequired,
     check (cf_YandexRouterBaseURL c \<noteq> ''https://api.routing.yandex.net'') YandexRouterURL,
     check (cf_YandexGeocoderBaseURL c \<noteq> ''https://geocode-maps.yandex.ru'') YandexGeocoderURL,
     check (cf_YandexMaxResults c < 1 \<or> cf_YandexMaxResults c > 3) YandexMaxResultsRange,
     check (cf_DGISRoutingBaseURL c \<noteq> [] \<and> cf_DGISRoutingBaseURL c \<noteq> ''https://routing.api.2gis.com'') DGISRoutingURL,
     check (cf_ProviderMode c = providerModeDGIS \<and> cf_DGISRoutingBaseURL c = []) DGISRoutingURLRequired,
     check (cf_DGISMaxResults c < 1 \<or> cf_DGISMaxResults c > 3) DGISMaxResultsRange,
     check (cf_DGISRateLimitPerMinute c < 1 \<or> cf_DGISRateLimitPerMinute c > 100000) DGISRateLimitRange,
     check (cf_DGISMonthlyLimit c < 1 \<or> cf_DGISMonthlyLimit c > 100000000) DGISMonthlyLimitRange,
     check (cf_DGISGeocoderRatePerMinute c < 1 \<or> cf_DGISGeocoderRatePerMinute c > 100000) DGISGeocoderRateRange,
     map_option DGISLocationBias (normalizeDGISLocationBias (cf_DGISGeocoderLocationBias c)),
     check (cf_ConnectTimeout c \<le> 0 \<or> cf_RequestTimeout c \<le> 0 \<or> cf_ResponseHeaderTimeout c \<le> 0) TimeoutsPositive,
     check (cf_BulkheadWaitTimeout c < 0) BulkheadWaitNegative,
     check (cf_MaxRetries c < 0 \<or> cf_MaxRetries c > 5) MaxRetriesRange,
     check (cf_RetryBaseDelay c \<le> 0 \<or> cf_RetryMaxDelay c < cf_RetryBaseDelay c) RetryDelaysInvalid,
     check (cf_MaxConcurrency c < 1 \<or> cf_MaxConcurrency c > 10000) MaxConcurrencyRange,
     check (cf_CircuitBreakerThreshold c < 1) BreakerThresholdPositive,
     check (cf_CircuitBreakerOpenDuration c \<le> 0 \<or> cf_ShutdownTimeout c \<le> 0) DurationsPositive,
     check (cf_MaxRequestBodyBytes c < 1024 \<or> cf_MaxProviderResponseBytes c < 1024) ByteLimits,
     check (is_nan (cf_ProviderCostPerBillableUnit c) \<or> is_inf (cf_ProviderCostPerBillableUnit c) \<or> cf_ProviderCostPerBillableUnit c < 0) CostInvalid,
     check (cf_StubScenario c \<notin> {''normal'', ''slow'', ''rate_limit'', ''outage''}) StubScenarioUnknown,
     check (cf_StubDelay c < 0) StubDelayNegative,
     check (cf_ProviderDataModificationOK c \<and> \<not> cf_ProviderDataStorageAllowed c) ModificationNeedsStorage]"

definition parseProviderEnvironment :: "string \<Rightarrow> string option" where
  "parseProviderEnvironment raw =
     (let value = to_lower (trim_space raw) in
      if value \<in> {[], ''development'', ''dev''} then Some ''development''
      else if value = ''local'' then Some ''local''
      else if value \<in> {''test'', ''testing''} then Some ''test''
      else if value \<in> {''stage'', ''staging''} then Some ''staging''
      else if value \<in> {''prod'', ''production''} then Some ''production''
      else None)"

section \<open>Errors and the request budget (provider.go)\<close>

text \<open>An error value of the service: a \<open>providerError\<close>, one of the named errors, or any other.\<close>

datatype go_error =
    ProviderError (pe_Code: string) (pe_Message: string) (pe_HTTPStatus: int) (pe_Retryable: bool) (pe_RetryAfter: duration)
      (pe_Cause: "go_error option")
  | errBudgetExhausted | errCircuitOpen | errBulkheadFull | errCredentialFault | errUnsupported
  | DeadlineExceeded | Canceled | OtherError string

definition serviceError :: "string \<Rightarrow> string \<Rightarrow> int \<Rightarrow> bool \<Rightarrow> go_error option \<Rightarrow> go_error" where
  "serviceError code message status retryable cause = ProviderError code message status retryable 0 cause"

record requestBudget =
  rb_remaining :: int
  rb_used :: int

definition newRequestBudget :: "int \<Rightarrow> requestBudget" where
  "newRequestBudget limit = \<lparr> rb_remaining = limit, rb_used = 0 \<rparr>"

definition requestBudget_Consume :: "requestBudget \<Rightarrow> bool \<times> requestBudget" where
  "requestBudget_Consume b =
     (if rb_remaining b \<le> 0 then (False, b) else (True, b\<lparr>rb_remaining := rb_remaining b - 1, rb_used := rb_used b + 1\<rparr>))"

text \<open>\<open>errors.As\<close> takes the error itself when it is a \<open>providerError\<close>; the other errors here wrap nothing.\<close>

definition normalizeProviderError :: "go_error \<Rightarrow> go_error" where
  "normalizeProviderError err = (case err of
     ProviderError _ _ _ _ _ _ \<Rightarrow> err
   | errBudgetExhausted \<Rightarrow> serviceError ''PROVIDER_BUDGET_EXHAUSTED'' ''provider request budget exhausted'' 429 False (Some err)
   | errCircuitOpen \<Rightarrow> serviceError ''PROVIDER_UNAVAILABLE'' ''provider is temporarily unavailable'' 503 True (Some err)
   | errBulkheadFull \<Rightarrow> serviceError ''PROVIDER_BUSY'' ''provider concurrency limit reached'' 503 True (Some err)
   | errUnsupported \<Rightarrow> serviceError ''PROVIDER_CAPABILITY_UNSUPPORTED'' ''capability is not supported by the active provider'' 501 False (Some err)
   | DeadlineExceeded \<Rightarrow> serviceError ''PROVIDER_TIMEOUT'' ''provider request timed out'' 504 True (Some err)
   | Canceled \<Rightarrow> serviceError ''REQUEST_CANCELLED'' ''request was cancelled'' 499 False (Some err)
   | _ \<Rightarrow> serviceError ''PROVIDER_ERROR'' ''provider request failed'' 502 True (Some err))"

lemma normalizeProviderError_form: "\<exists>c m h r a w. normalizeProviderError err = ProviderError c m h r a w"
  by (cases err) (auto simp: normalizeProviderError_def serviceError_def)

section \<open>The check of an incoming request (validation.go)\<close>

datatype route_request_error = RequestIDInvalid | ROriginInvalid point_error | RDestinationInvalid point_error | REndpointsEqual
  | RTooManyWaypoints | RWaypointInvalid nat point_error | RAlternativesRange | RBudgetRange | RDeadlineRange | RDepartureWithoutTraffic
  | RDepartureInPast | RTooManyZones | RZonePointCount nat | RZonePointInvalid nat nat point_error | RZoneNotDistinct nat

text \<open>The pattern of \<open>requestIDPattern\<close>.\<close>

definition is_alnum :: "char \<Rightarrow> bool" where
  "is_alnum c \<longleftrightarrow> is_digit c \<or> (let n = of_char (to_lower_char c) :: nat in 97 \<le> n \<and> n \<le> 122)"

definition requestIDPattern :: "string \<Rightarrow> bool" where
  "requestIDPattern s \<longleftrightarrow> s \<noteq> [] \<and> length s \<le> 128 \<and> is_alnum (hd s)
     \<and> list_all (\<lambda>c. is_alnum c \<or> c \<in> set ''._:-'') (tl s)"

text \<open>The number of distinct keys of a Go map filled with the points (valid points have no NaN).\<close>

definition distinct_points :: "GeoPoint list \<Rightarrow> nat" where
  "distinct_points points = length (remdups points)"

definition zone_error :: "nat \<Rightarrow> AvoidZone \<Rightarrow> route_request_error option" where
  "zone_error zoneIndex zone = first_some [
     check (length (az_Points zone) < 3 \<or> length (az_Points zone) > 32) (RZonePointCount zoneIndex),
     map_option (\<lambda>(i, e). RZonePointInvalid zoneIndex i e) (first_invalid 0 (az_Points zone)),
     check (distinct_points (az_Points zone) < 3) (RZoneNotDistinct zoneIndex)]"

definition second :: duration where
  "second = 10 ^ 9"

definition validateRouteRequest :: "ProviderRouteRequest \<Rightarrow> int \<Rightarrow> time \<Rightarrow> route_request_error option" where
  "validateRouteRequest request maxAlternatives now = first_some ([
     check (\<not> requestIDPattern (pr_RequestID request)) RequestIDInvalid,
     map_option ROriginInvalid (GeoPoint_Validate (pr_Origin request)),
     map_option RDestinationInvalid (GeoPoint_Validate (pr_Destination request)),
     check (point_eq (pr_Origin request) (pr_Destination request)) REndpointsEqual,
     check (length (pr_Waypoints request) > 48) RTooManyWaypoints,
     map_option (\<lambda>(i, e). RWaypointInvalid i e) (first_invalid 0 (pr_Waypoints request)),
     check (pr_Alternatives request < 0 \<or> pr_Alternatives request > maxAlternatives) RAlternativesRange,
     check (pr_RequestBudget request < 1 \<or> pr_RequestBudget request > 20) RBudgetRange,
     check (pr_DeadlineMS request < 100 \<or> pr_DeadlineMS request > 30000) RDeadlineRange,
     check (pr_DepartureUnix request > 0 \<and> \<not> pr_Traffic request) RDepartureWithoutTraffic,
     check (pr_DepartureUnix request > 0 \<and> pr_DepartureUnix request * second < now - minute) RDepartureInPast,
     check (length (pr_AvoidZones request) > 8) RTooManyZones]
     @ map (\<lambda>(i, zone). zone_error i zone) (enumerate 0 (pr_AvoidZones request)))"

datatype suggest_error = QueryRequired | QueryTooLong | LimitRange | LanguageUnsupported

definition validateSuggestQuery :: "string \<Rightarrow> string \<Rightarrow> int \<Rightarrow> suggest_error option" where
  "validateSuggestQuery query language limit =
     (let query = trim_space query in first_some [
        check (query = []) QueryRequired,
        check (rune_count query > 256) QueryTooLong,
        check (limit < 1 \<or> limit > 10) LimitRange,
        check (language \<notin> {''ru_RU'', ''uk_UA'', ''be_BY'', ''en_RU'', ''en_US'', ''tr_TR''}) LanguageUnsupported])"

section \<open>Helpers of the adapters (yandex.go)\<close>

definition callerContextError :: "go_error \<Rightarrow> go_error" where
  "callerContextError err =
     (if err = DeadlineExceeded then serviceError ''REQUEST_DEADLINE_EXCEEDED'' ''request deadline was exceeded'' 504 False (Some err)
      else serviceError ''REQUEST_CANCELLED'' ''request was cancelled'' 499 False (Some err))"

text \<open>\<open>parse_time\<close> is \<open>http.ParseTime\<close>.\<close>

definition parseRetryAfter :: "(string \<Rightarrow> time option) \<Rightarrow> string \<Rightarrow> time \<Rightarrow> duration" where
  "parseRetryAfter parse_time value now =
     (let value = trim_space value in
      if value = [] then 0
      else case ParseInt value of
        Some seconds \<Rightarrow>
          if seconds \<le> 0 then 0
          else if seconds \<ge> quot64 maxProviderCooldown second then maxProviderCooldown
          else mul64 seconds second
      | None \<Rightarrow> (case parse_time value of
          Some moment \<Rightarrow> if moment > now then let delay = moment - now in if delay > maxProviderCooldown then maxProviderCooldown else delay else 0
        | None \<Rightarrow> 0))"

definition rate_limited :: "string \<Rightarrow> duration \<Rightarrow> go_error" where
  "rate_limited message retryAfter = ProviderError ''PROVIDER_RATE_LIMITED'' message 429 True retryAfter None"

definition mapYandexStatus :: "(string \<Rightarrow> time option) \<Rightarrow> int \<Rightarrow> string \<Rightarrow> time \<Rightarrow> go_error" where
  "mapYandexStatus parse_time status retryAfter now =
     (if status = 400 then serviceError ''PROVIDER_REJECTED_REQUEST'' ''provider rejected the normalized request'' 502 False None
      else if status \<in> {401, 403} then
        serviceError ''PROVIDER_AUTHENTICATION_FAILED'' ''provider credentials are invalid or lack access'' 503 False None
      else if status = 429 then rate_limited ''provider rate limit reached'' (parseRetryAfter parse_time retryAfter now)
      else if status \<in> {500, 502, 503, 504} then serviceError ''PROVIDER_UNAVAILABLE'' ''provider is temporarily unavailable'' 502 True None
      else if status \<ge> 500 \<and> status \<le> 599 then serviceError ''PROVIDER_UNAVAILABLE'' ''provider is temporarily unavailable'' 502 True None
      else serviceError ''PROVIDER_UNEXPECTED_STATUS'' ''provider returned an unexpected status'' 502 False None)"

definition response_invalid :: "string \<Rightarrow> go_error" where
  "response_invalid message = serviceError ''PROVIDER_RESPONSE_INVALID'' message 502 False None"

definition no_route :: "string \<Rightarrow> go_error" where
  "no_route message = serviceError ''PROVIDER_NO_ROUTE'' message 422 False None"

definition maxProviderRoutes :: int where "maxProviderRoutes = 3"
definition maxProviderLegsPerRoute :: nat where "maxProviderLegsPerRoute = 64"
definition maxProviderStepsPerRoute :: nat where "maxProviderStepsPerRoute = 2000"
definition maxProviderPointsPerRoute :: nat where "maxProviderPointsPerRoute = 4096"

lemmas adapter_limits = maxProviderRoutes_def maxProviderLegsPerRoute_def maxProviderStepsPerRoute_def maxProviderPointsPerRoute_def

definition finitePositive :: "f64 \<Rightarrow> bool" where
  "finitePositive value \<longleftrightarrow> 0 < value \<and> \<not> is_nan value \<and> \<not> is_inf value"

text \<open>\<open>int64(math.Round(x))\<close>.\<close>

definition rounded :: "f64 \<Rightarrow> int64" where
  "rounded x = to_i64 (fround x)"

fun appendDistinct :: "GeoPoint list \<Rightarrow> GeoPoint list \<Rightarrow> GeoPoint list" where
  "appendDistinct target [] = target"
| "appendDistinct target (point # points) =
     appendDistinct (if target = [] \<or> \<not> point_eq (last target) point then target @ [point] else target) points"

text \<open>The text that \<open>candidateID\<close> hashes.\<close>

definition candidate_text :: "string \<Rightarrow> int \<Rightarrow> GeoPoint list \<Rightarrow> int64 \<Rightarrow> int64 \<Rightarrow> string" where
  "candidate_text provider index geometry distance duration =
     provider @ ''|'' @ show_int index @ ''|'' @ show_int distance @ ''|'' @ show_int duration @ ''|''
     @ concat (map (\<lambda>p. format7 (Latitude p) @ '','' @ format7 (Longitude p) @ ''|'') geometry)"

definition candidateID :: "(string \<Rightarrow> 8 word list) \<Rightarrow> string \<Rightarrow> int \<Rightarrow> GeoPoint list \<Rightarrow> int64 \<Rightarrow> int64 \<Rightarrow> string" where
  "candidateID sha256 provider index geometry distance duration =
     provider @ ''-'' @ hex_encode (take 12 (sha256 (candidate_text provider index geometry distance duration)))"

text \<open>A loop that stops at the first error, as the loops over routes of both adapters.\<close>

fun map_result :: "(nat \<Rightarrow> 'a \<Rightarrow> 'e + 'b) \<Rightarrow> nat \<Rightarrow> 'a list \<Rightarrow> 'e + 'b list" where
  "map_result f i [] = Inr []"
| "map_result f i (x # xs) = (case f i x of Inl e \<Rightarrow> Inl e
     | Inr y \<Rightarrow> (case map_result f (Suc i) xs of Inl e \<Rightarrow> Inl e | Inr ys \<Rightarrow> Inr (y # ys)))"

section \<open>Facts\<close>

lemma finitePositive_Fin: "finitePositive v \<longleftrightarrow> (\<exists>r > 0. v = Fin r)"
  by (cases v) (auto simp: finitePositive_def is_nan_def is_inf_def zero_f64_def)

lemma length_appendDistinct: "length (appendDistinct target points) \<le> length target + length points"
proof (induction target points rule: appendDistinct.induct)
  case (2 target point points)
  have "length (if target = [] \<or> \<not> point_eq (last target) point then target @ [point] else target) \<le> Suc (length target)" by simp
  with 2 show ?case by simp
qed simp

lemma length_appendDistinct_ge: "length target \<le> length (appendDistinct target points)"
proof (induction target points rule: appendDistinct.induct)
  case (2 target point points)
  then show ?case by (cases "target = [] \<or> \<not> point_eq (last target) point") auto
qed simp

lemma set_appendDistinct: "set (appendDistinct target points) \<subseteq> set target \<union> set points"
proof (induction target points rule: appendDistinct.induct)
  case (2 target point points)
  then show ?case by (cases "target = [] \<or> \<not> point_eq (last target) point") auto
qed simp

lemma appendDistinct_points:
  "list_all point_ok target \<Longrightarrow> list_all point_ok points \<Longrightarrow> list_all point_ok (appendDistinct target points)"
  using set_appendDistinct [of target points] by (auto simp: list_all_iff)

lemma hex_encode_length: "length (hex_encode bytes) = 2 * length bytes"
  by (induction bytes) (simp_all add: hex_encode_def)

lemma trim_space_Cons: "\<not> is_space c \<Longrightarrow> trim_space (c # s) \<noteq> []"
  by (simp add: trim_space_def dropWhile_eq_Nil_conv)

lemma candidateID_bounds:
  assumes "provider = p # ps" "\<not> is_space p" "length provider \<le> 10"
  shows "trim_space (candidateID sha256 provider index geometry distance duration) \<noteq> []
    \<and> length (candidateID sha256 provider index geometry distance duration) \<le> 256"
proof -
  have "length (take 12 (sha256 (candidate_text provider index geometry distance duration))) \<le> 12" by simp
  then show ?thesis using assms by (simp add: candidateID_def hex_encode_length trim_space_Cons)
qed

lemma trim_space_length: "length (trim_space s) \<le> length s"
  unfolding trim_space_def length_rev
  by (rule order.trans[OF length_dropWhile_le]) (simp add: length_dropWhile_le)

lemma map_result_Inr:
  "map_result f i xs = Inr ys \<Longrightarrow> length ys = length xs \<and> (\<forall>k < length xs. f (i + k) (xs ! k) = Inr (ys ! k))"
proof (induction xs arbitrary: i ys)
  case (Cons x xs)
  then obtain y zs where ys: "f i x = Inr y" "map_result f (Suc i) xs = Inr zs" "ys = y # zs" by (auto split: sum.splits)
  have "f (i + k) ((x # xs) ! k) = Inr (ys ! k)" if "k < length (x # xs)" for k
    using Cons.IH [OF ys(2)] ys that by (cases k) auto
  with Cons.IH [OF ys(2)] ys(3) show ?case by simp
qed simp

text \<open>Numbers in identifiers.\<close>

lemma digit_not_dash: "d < 10 \<Longrightarrow> digit_char d \<noteq> CHR ''-''"
proof
  assume d: "d < 10" "digit_char d = CHR ''-''"
  then have "(of_char (char_of (48 + d) :: char) :: nat) = of_char (CHR ''-'')" by (simp add: digit_char_def)
  then show False using d(1) by (simp add: of_char_of mod_less)
qed

lemma show_nat_no_dash: "CHR ''-'' \<notin> set (show_nat n)"
proof (induction n rule: show_nat.induct)
  case (1 n)
  have "n < 10 \<Longrightarrow> digit_char n \<noteq> CHR ''-''" "digit_char (n mod 10) \<noteq> CHR ''-''" by (simp_all add: digit_not_dash)
  with 1 show ?case by (subst show_nat.simps) auto
qed

lemma dash_inj: "CHR ''-'' \<notin> set a \<Longrightarrow> CHR ''-'' \<notin> set c \<Longrightarrow> a @ CHR ''-'' # b = c @ CHR ''-'' # d \<Longrightarrow> a = c \<and> b = d"
proof (induction a arbitrary: c)
  case Nil
  then show ?case by (cases c) auto
next
  case (Cons x a)
  then show ?case by (cases c) auto
qed

lemma show_nat_length: "n < 10 ^ k \<Longrightarrow> 0 < k \<Longrightarrow> length (show_nat n) \<le> k"
proof (induction k arbitrary: n)
  case (Suc k)
  have "length (show_nat (n div 10)) \<le> k" if "10 \<le> n"
    using Suc that by (cases k) (auto simp: less_mult_imp_div_less)
  then show ?case by (subst show_nat.simps) (cases "n < 10"; auto)
qed simp

text \<open>Rounding of moderate measurements.\<close>

lemma rounded_Fin: "0 \<le> r \<Longrightarrow> r \<le> 10 ^ 12 \<Longrightarrow> rounded (Fin r) = \<lfloor>r + 1 / 2\<rfloor>"
proof -
  assume r: "0 \<le> r" "r \<le> 10 ^ 12"
  have "0 \<le> \<lfloor>r + 1 / 2\<rfloor>" using r by (simp add: le_floor_iff)
  moreover have "\<lfloor>r + 1 / 2\<rfloor> \<le> 10 ^ 12 + 1" using r by (simp add: floor_le_iff)
  ultimately show ?thesis using r by (simp add: rounded_def round_away_def to_i64_def trunc_def in64_def)
qed

lemma rounded_pos: "0 \<le> r \<Longrightarrow> r \<le> 10 ^ 12 \<Longrightarrow> 0 < rounded (Fin r) \<longleftrightarrow> 1 / 2 \<le> r"
  by (simp add: rounded_Fin less_floor_iff) linarith

lemma rounded_nonneg: "0 \<le> r \<Longrightarrow> r \<le> 10 ^ 12 \<Longrightarrow> 0 \<le> rounded (Fin r)"
  by (simp add: rounded_Fin le_floor_iff)

lemma rep_half: "rep (1 / 2)"
  unfolding rep_def by (rule exI [of _ 1], rule exI [of _ "- 1"]) (simp add: pow2_def)

lemma sum_range:
  assumes "list_all (frange (1 / 2) (10 ^ 7)) vs" "frange l (of_nat n * 10 ^ 7) acc" "n + length vs \<le> 10 ^ 4" "l = 0 \<or> l = 1 / 2"
  shows "frange (if vs = [] then l else 1 / 2) (of_nat (n + length vs) * 10 ^ 7) (foldl (+) acc vs)"
  using assms
proof (induction vs arbitrary: acc n l)
  case (Cons v vs)
  have small: "int (Suc n) * 10 ^ 7 \<le> 10 ^ 11" using Cons.prems(3) by simp
  then have "rep (of_int (int (Suc n) * 10 ^ 7))" by (intro rep_int) simp
  then have h: "rep (of_nat (Suc n) * 10 ^ 7)" by simp
  have "(of_int (int (Suc n) * 10 ^ 7) :: rat) \<le> of_int (10 ^ 11)" using small by (simp only: of_int_le_iff)
  then have limit: "(of_nat (Suc n) * 10 ^ 7 :: rat) \<le> 2 ^ 64" by simp
  obtain a b where ab: "acc = Fin a" "v = Fin b" "0 \<le> a" "a \<le> of_nat n * 10 ^ 7" "1 / 2 \<le> b" "b \<le> 10 ^ 7"
    using Cons.prems by (auto elim!: frangeE)
  have "frange (1 / 2) (of_nat (Suc n) * 10 ^ 7) (acc + v)"
    unfolding ab(1,2) f64_fin_ops using ab h limit rep_half by (intro mk_range) (auto simp: algebra_simps)
  from Cons.IH [OF _ this] Cons.prems show ?case by (cases "vs = []") auto
qed simp

lemma substantial_sum:
  assumes "vs \<noteq> []" "length vs \<le> 2000" "list_all (frange (1 / 2) (10 ^ 7)) vs"
  shows "0 < rounded (foldl (+) 0 vs)"
proof -
  have "frange (1 / 2) (of_nat (0 + length vs) * 10 ^ 7) (foldl (+) 0 vs)"
    using sum_range [of vs 0 0 0] assms by (auto simp: zero_f64_def)
  then obtain r where r: "foldl (+) 0 vs = Fin r" "1 / 2 \<le> r" "r \<le> of_nat (length vs) * 10 ^ 7" by (auto elim: frangeE)
  have "(of_nat (length vs) :: rat) \<le> 2000" using assms(2) by (metis of_nat_le_iff of_nat_numeral)
  then show ?thesis using r rounded_pos [of r] by auto
qed

end
