(* ===== verification/GreenSearch.thy ===== *)
theory GreenSearch
  imports Geometry Contracts
begin

text \<open>
  The green-corridor search (\<open>services/routing-orchestrator/greensearch.go\<close>): congestion clusters are
  collected from all candidates, merged and kept clear of the trip's ends; the ladder of detour plans is
  built from them; the adaptive loop takes the first plan whose label it has not tried.
\<close>

section \<open>Constants and types\<close>

definition clusterMinRadiusMeters :: f64 where "clusterMinRadiusMeters = flit 180"
definition clusterMaxRadiusMeters :: f64 where "clusterMaxRadiusMeters = flit 2500"
definition clusterZoneBufferMeters :: f64 where "clusterZoneBufferMeters = flit 160"
definition clusterMergeMeters :: f64 where "clusterMergeMeters = flit 420"
definition endpointProtectionMeters :: f64 where "endpointProtectionMeters = flit 700"
definition maxZonesPerPlan :: int where "maxZonesPerPlan = 12"
definition maxLateralOffsetMeters :: f64 where "maxLateralOffsetMeters = flit 25000"
definition minLateralOffsetMeters :: f64 where "minLateralOffsetMeters = flit 400"
definition minCorridorOffsetMeters :: f64 where "minCorridorOffsetMeters = flit 3000"

record congestionCluster =
  cl_center :: GeoPoint
  cl_heading :: f64
  cl_radiusM :: f64
  cl_distanceM :: int64
  cl_lostSeconds :: int64
  cl_severity :: int
  cl_weight :: f64

record detourPlan =
  dp_label :: string
  dp_anchors :: "GeoPoint list"
  dp_zones :: "AvoidZone list"

fun congestionSeverity :: "CongestionClass \<Rightarrow> int" where
  "congestionSeverity CongestionRed = 3"
| "congestionSeverity CongestionOrange = 2"
| "congestionSeverity CongestionYellow = 1"
| "congestionSeverity _ = 0"

section \<open>Clusters\<close>

definition newCluster :: "libm \<Rightarrow> GeoPoint list \<Rightarrow> int64 \<Rightarrow> int64 \<Rightarrow> int \<Rightarrow> congestionCluster" where
  "newCluster lm points distanceMeters lostSeconds severity =
     (let center = points ! (length points div 2);
          radius = foldl (\<lambda>radius point. fmax radius (DistanceMeters lm center point)) 0 points;
          radius = fmax clusterMinRadiusMeters (fmin clusterMaxRadiusMeters radius);
          first = hd points; last' = last points
      in \<lparr> cl_center = center,
           cl_heading = m_atan2 lm (Latitude last' - Latitude first)
             ((Longitude last' - Longitude first) * m_cos lm (radians (Latitude center))),
           cl_radiusM = radius, cl_distanceM = distanceMeters, cl_lostSeconds = lostSeconds, cl_severity = severity,
           cl_weight = of_i64 severity * flit 10000 + of_i64 distanceMeters + of_i64 lostSeconds * flit 20 \<rparr>)"

record ClusterRun =
  cr_clusters :: "congestionCluster list"
  cr_run :: "GeoPoint list"
  cr_distance :: int64
  cr_lost :: int64
  cr_severity :: int

definition cluster_flush :: "libm \<Rightarrow> ClusterRun \<Rightarrow> ClusterRun" where
  "cluster_flush lm st =
     \<lparr> cr_clusters = (if length (cr_run st) \<ge> 2 \<and> cr_distance st > 0
         then cr_clusters st @ [newCluster lm (cr_run st) (cr_distance st) (cr_lost st) (cr_severity st)]
         else cr_clusters st),
       cr_run = [], cr_distance = 0, cr_lost = 0, cr_severity = 0 \<rparr>"

definition cluster_step :: "libm \<Rightarrow> int \<Rightarrow> ClusterRun \<Rightarrow> RouteSegment \<Rightarrow> ClusterRun" where
  "cluster_step lm minimumSeverity st segment =
     (let severity = congestionSeverity (seg_CongestionClass segment) in
      if severity < minimumSeverity \<or> length (seg_Geometry segment) < 2 then cluster_flush lm st
      else \<lparr> cr_clusters = cr_clusters st, cr_run = cr_run st @ seg_Geometry segment,
             cr_distance = add64 (cr_distance st) (max64 0 (seg_DistanceMeters segment)),
             cr_lost = (if seg_BaselineDurationSeconds segment > 0
               then add64 (cr_lost st) (max64 0 (sub64 (seg_LiveDurationSeconds segment) (seg_BaselineDurationSeconds segment)))
               else cr_lost st),
             cr_severity = (if severity > cr_severity st then severity else cr_severity st) \<rparr>)"

definition candidateClusters :: "libm \<Rightarrow> RouteCandidate \<Rightarrow> int \<Rightarrow> congestionCluster list" where
  "candidateClusters lm candidate minimumSeverity =
     cr_clusters (cluster_flush lm (foldl (cluster_step lm minimumSeverity)
       \<lparr> cr_clusters = [], cr_run = [], cr_distance = 0, cr_lost = 0, cr_severity = 0 \<rparr> (rc_Segments candidate)))"

definition absorb :: "congestionCluster \<Rightarrow> congestionCluster \<Rightarrow> congestionCluster" where
  "absorb m cluster =
     (let m1 = m\<lparr>cl_radiusM := fmin clusterMaxRadiusMeters (fmax (cl_radiusM m) (cl_radiusM cluster)),
            cl_distanceM := max64 (cl_distanceM m) (cl_distanceM cluster),
            cl_lostSeconds := max64 (cl_lostSeconds m) (cl_lostSeconds cluster)\<rparr>;
          m2 = (if cl_severity cluster > cl_severity m1
            then m1\<lparr>cl_severity := cl_severity cluster, cl_heading := cl_heading cluster\<rparr> else m1)
      in m2\<lparr>cl_weight := fmax (cl_weight m2) (cl_weight cluster)\<rparr>)"

text \<open>The inner loop: the first merged cluster that is near enough absorbs the new one, or it is appended.\<close>

fun merge_into :: "libm \<Rightarrow> congestionCluster list \<Rightarrow> congestionCluster \<Rightarrow> congestionCluster list" where
  "merge_into lm [] cluster = [cluster]"
| "merge_into lm (m # ms) cluster =
     (if fmax clusterMergeMeters (cl_radiusM m) < DistanceMeters lm (cl_center m) (cl_center cluster)
      then m # merge_into lm ms cluster
      else absorb m cluster # ms)"

definition mergeClusters :: "libm \<Rightarrow> congestionCluster list \<Rightarrow> congestionCluster list" where
  "mergeClusters lm clusters = foldl (merge_into lm) [] clusters"

text \<open>Clearance from both ends of the trip; \<^term>\<open>None\<close> when the cluster is dropped.\<close>

definition protect_endpoints :: "libm \<Rightarrow> RouteSearchRequest \<Rightarrow> congestionCluster \<Rightarrow> congestionCluster option" where
  "protect_endpoints lm request cluster =
     (let clearance = fmin (DistanceMeters lm (cl_center cluster) (rq_Origin request))
            (DistanceMeters lm (cl_center cluster) (rq_Destination request))
            - endpointProtectionMeters - clusterZoneBufferMeters
      in if clearance < clusterMinRadiusMeters then None
         else Some (cluster\<lparr>cl_radiusM := fmin (cl_radiusM cluster) clearance\<rparr>))"

definition congestionClusters :: "libm \<Rightarrow> RouteCandidate list \<Rightarrow> RouteSearchRequest \<Rightarrow> int \<Rightarrow> congestionCluster list" where
  "congestionClusters lm candidates request minimumSeverity =
     (let clusters = mergeClusters lm (concat (map (\<lambda>c. candidateClusters lm c minimumSeverity) candidates))
      in sort_stable (\<lambda>a b. cl_weight b < cl_weight a) (List.map_filter (protect_endpoints lm request) clusters))"

section \<open>Zones and anchors\<close>

definition metersToLatitude :: "f64 \<Rightarrow> f64" where
  "metersToLatitude meters = meters / flit 111320"

definition metersToLongitude :: "libm \<Rightarrow> f64 \<Rightarrow> f64 \<Rightarrow> f64" where
  "metersToLongitude lm meters latitude =
     (let scale = m_cos lm (radians latitude);
          scale = (if fabs scale < flit 0.01 then flit 0.01 else scale)
      in meters / (flit 111320 * scale))"

text \<open>The corners of the octagon, or \<^term>\<open>None\<close> at the first invalid point.\<close>

fun zone_corners :: "libm \<Rightarrow> GeoPoint \<Rightarrow> f64 \<Rightarrow> f64 \<Rightarrow> nat list \<Rightarrow> GeoPoint list option" where
  "zone_corners lm center latitudeRadius longitudeRadius [] = Some []"
| "zone_corners lm center latitudeRadius longitudeRadius (corner # corners) =
     (let angle = of_i64 (int corner) * math_Pi / flit 4;
          point = \<lparr> Latitude = Latitude center + latitudeRadius * m_sin lm angle,
                    Longitude = Longitude center + longitudeRadius * m_cos lm angle \<rparr>
      in if GeoPoint_Validate point \<noteq> None then None
         else map_option ((#) point) (zone_corners lm center latitudeRadius longitudeRadius corners))"

definition zoneAround :: "libm \<Rightarrow> congestionCluster \<Rightarrow> AvoidZone" where
  "zoneAround lm cluster =
     (let radius = fmin clusterMaxRadiusMeters (cl_radiusM cluster + clusterZoneBufferMeters);
          latitudeRadius = metersToLatitude radius;
          longitudeRadius = metersToLongitude lm radius (Latitude (cl_center cluster))
      in case zone_corners lm (cl_center cluster) latitudeRadius longitudeRadius [0..<8] of
           None \<Rightarrow> \<lparr> az_Points = [] \<rparr>
         | Some points \<Rightarrow> \<lparr> az_Points = points @ [hd points] \<rparr>)"

fun zones_loop :: "libm \<Rightarrow> congestionCluster list \<Rightarrow> int \<Rightarrow> AvoidZone list \<Rightarrow> AvoidZone list" where
  "zones_loop lm [] limit zones = zones"
| "zones_loop lm (cluster # clusters) limit zones =
     (if int (length zones) \<ge> limit then zones
      else let zone = zoneAround lm cluster in
           if az_Points zone = [] then zones_loop lm clusters limit zones
           else zones_loop lm clusters limit (zones @ [zone]))"

definition zonesFor :: "libm \<Rightarrow> congestionCluster list \<Rightarrow> int \<Rightarrow> AvoidZone list" where
  "zonesFor lm clusters limit = zones_loop lm clusters limit []"

definition offsetPoint :: "libm \<Rightarrow> GeoPoint \<Rightarrow> f64 \<Rightarrow> f64 \<Rightarrow> int \<Rightarrow> GeoPoint option" where
  "offsetPoint lm from heading offsetMeters side =
     (let perpendicular = heading + math_Pi / flit 2 * of_i64 side;
          anchor = \<lparr> Latitude = Latitude from + metersToLatitude (offsetMeters * m_sin lm perpendicular),
                     Longitude = Longitude from + metersToLongitude lm (offsetMeters * m_cos lm perpendicular) (Latitude from) \<rparr>
      in if GeoPoint_Validate anchor \<noteq> None then None else Some anchor)"

definition lateralAnchor :: "libm \<Rightarrow> congestionCluster \<Rightarrow> f64 \<Rightarrow> int \<Rightarrow> GeoPoint option" where
  "lateralAnchor lm cluster offsetMeters side =
     (let perpendicular = cl_heading cluster + math_Pi / flit 2 * of_i64 side;
          latitudeOffset = metersToLatitude (offsetMeters * m_sin lm perpendicular);
          longitudeOffset = metersToLongitude lm (offsetMeters * m_cos lm perpendicular) (Latitude (cl_center cluster));
          anchor = \<lparr> Latitude = Latitude (cl_center cluster) + latitudeOffset,
                     Longitude = Longitude (cl_center cluster) + longitudeOffset \<rparr>
      in if GeoPoint_Validate anchor \<noteq> None then None else Some anchor)"

section \<open>The ladder of plans\<close>

definition corridor_step :: "f64 \<Rightarrow> f64 \<Rightarrow> f64 list \<Rightarrow> f64 \<Rightarrow> f64 list" where
  "corridor_step spanMeters allowance offsets fraction =
     (let offset = fmin maxLateralOffsetMeters (fmin (spanMeters * fraction) (allowance / flit 2)) in
      if offset < minCorridorOffsetMeters then offsets
      else let offset = fround offset in
           if offsets \<noteq> [] \<and> fabs (last offsets - offset) < flit 500 then offsets
           else offsets @ [offset])"

definition corridorOffsets :: "RouteSearchRequest \<Rightarrow> f64 \<Rightarrow> f64 list" where
  "corridorOffsets request spanMeters =
     (let allowance = of_i64 (rq_MaxExtraDistanceMeters request) in
      if allowance \<le> 0 then [] else foldl (corridor_step spanMeters allowance) [] [flit 0.25, flit 0.5])"

definition lateral_step :: "f64 \<Rightarrow> f64 list \<Rightarrow> f64 \<Rightarrow> f64 list" where
  "lateral_step allowance offsets fraction =
     (let offset = fround (fmax minLateralOffsetMeters (fmin maxLateralOffsetMeters (allowance * fraction))) in
      if offsets \<noteq> [] \<and> fabs (last offsets - offset) < flit 150 then offsets else offsets @ [offset])"

definition lateralOffsets :: "RouteSearchRequest \<Rightarrow> f64 list" where
  "lateralOffsets request =
     (let allowance = of_i64 (rq_MaxExtraDistanceMeters request) / flit 3;
          allowance = (if allowance \<le> 0 then flit 3000 else allowance)
      in foldl (lateral_step allowance) [] [flit 0.12, flit 0.3, flit 0.62, flit 1])"

definition side_name :: "int \<Rightarrow> string" where
  "side_name side = (if side < 0 then ''RIGHT'' else ''LEFT'')"

definition corridorPlans :: "libm \<Rightarrow> RouteSearchRequest \<Rightarrow> int \<Rightarrow> detourPlan list" where
  "corridorPlans lm request anchorCapacity =
     (if anchorCapacity < 1 then []
      else
        let middle = \<lparr> Latitude = (Latitude (rq_Origin request) + Latitude (rq_Destination request)) / flit 2,
                       Longitude = (Longitude (rq_Origin request) + Longitude (rq_Destination request)) / flit 2 \<rparr>;
            heading = m_atan2 lm (Latitude (rq_Destination request) - Latitude (rq_Origin request))
              ((Longitude (rq_Destination request) - Longitude (rq_Origin request)) * m_cos lm (radians (Latitude middle)));
            span = DistanceMeters lm (rq_Origin request) (rq_Destination request)
        in concat (map (\<lambda>offset. List.map_filter (\<lambda>side.
             map_option (\<lambda>anchor. \<lparr> dp_label = ''CORRIDOR_'' @ side_name side @ ''_'' @ show_int (to_i64 offset) @ ''M'',
               dp_anchors = [anchor], dp_zones = [] \<rparr>) (offsetPoint lm middle heading offset side)) [1, - 1])
           (corridorOffsets request span)))"

definition filterClusters :: "congestionCluster list \<Rightarrow> int \<Rightarrow> congestionCluster list" where
  "filterClusters clusters minimumSeverity = filter (\<lambda>c. cl_severity c \<ge> minimumSeverity) clusters"

text \<open>\<open>add\<close>: an empty plan is not a plan.\<close>

definition add_plan :: "detourPlan \<Rightarrow> detourPlan list" where
  "add_plan plan = (if dp_zones plan = [] \<and> dp_anchors plan = [] then [] else [plan])"

definition zone_plan :: "string \<Rightarrow> AvoidZone list \<Rightarrow> detourPlan list" where
  "zone_plan label zones = add_plan \<lparr> dp_label = label @ show_int (int (length zones)), dp_anchors = [], dp_zones = zones \<rparr>"

definition lateral_plan :: "libm \<Rightarrow> congestionCluster \<Rightarrow> congestionCluster list \<Rightarrow> bool \<Rightarrow> nat \<Rightarrow> f64 \<Rightarrow> int \<Rightarrow> detourPlan list" where
  "lateral_plan lm worst red zonesAllowed offsetIndex offset side =
     (case lateralAnchor lm worst offset side of
        None \<Rightarrow> []
      | Some anchor \<Rightarrow>
          let label = ''LATERAL_'' @ side_name side @ ''_'' @ show_int (to_i64 offset) @ ''M'' in
          add_plan (if zonesAllowed \<and> offsetIndex \<ge> 1
            then \<lparr> dp_label = ''GUARDED_'' @ label, dp_anchors = [anchor], dp_zones = zonesFor lm red 2 \<rparr>
            else \<lparr> dp_label = label, dp_anchors = [anchor], dp_zones = [] \<rparr>))"

definition greenDetourPlans ::
    "libm \<Rightarrow> congestionCluster list \<Rightarrow> RouteSearchRequest \<Rightarrow> bool \<Rightarrow> bool \<Rightarrow> int \<Rightarrow> detourPlan list" where
  "greenDetourPlans lm clusters request zonesAllowed anchorsAllowed anchorCapacity =
     (if clusters = [] then []
      else
        let red = filterClusters clusters 3;
            redOrange = filterClusters clusters 2;
            offsets = lateralOffsets request;
            worst = hd clusters
        in (if zonesAllowed then
              (let zones = zonesFor lm red maxZonesPerPlan in
               if length zones > 0 then zone_plan ''AVOID_ALL_RED_'' zones else [])
              @ (let zones = zonesFor lm redOrange maxZonesPerPlan in
                 if length zones > length red then zone_plan ''AVOID_RED_AND_ORANGE_'' zones else [])
            else [])
           @ (if anchorsAllowed \<and> anchorCapacity \<ge> 1 then
                concat (map (\<lambda>(offsetIndex, offset). concat (map (lateral_plan lm worst red zonesAllowed offsetIndex offset) [1, - 1]))
                  (enumerate 0 offsets))
              else [])
           @ (if zonesAllowed \<and> anchorsAllowed \<and> anchorCapacity \<ge> 2 \<and> length clusters > 1 \<and> offsets \<noteq> [] then
                add_plan \<lparr> dp_label = ''MULTI_CLUSTER_BYPASS'',
                  dp_anchors = List.map_filter (\<lambda>cluster. lateralAnchor lm cluster (hd offsets) 1) (take 2 clusters),
                  dp_zones = zonesFor lm clusters maxZonesPerPlan \<rparr>
              else [])
           @ (if zonesAllowed \<and> (rq_RoutingMode request = RoutingModeStrictGreen \<or> redOrange = []) then
                (let zones = zonesFor lm clusters maxZonesPerPlan in
                 if length zones > 0 then zone_plan ''AVOID_EVERY_NON_GREEN_'' zones else [])
              else [])
           @ (if anchorsAllowed then concat (map add_plan (corridorPlans lm request anchorCapacity)) else [])
           @ (if zonesAllowed then
                concat (map (\<lambda>size. let zones = zonesFor lm clusters size in
                  if int (length zones) = size
                  then add_plan \<lparr> dp_label = ''AVOID_WORST_'' @ show_int size, dp_anchors = [], dp_zones = zones \<rparr>
                  else []) [3, 1])
              else []))"

definition connectsSameTrip :: "libm \<Rightarrow> RouteCandidate \<Rightarrow> RouteCandidate \<Rightarrow> f64 \<Rightarrow> bool" where
  "connectsSameTrip lm candidate reference toleranceMeters =
     (if length (rc_Geometry candidate) < 2 \<or> length (rc_Geometry reference) < 2 then False
      else DistanceMeters lm (hd (rc_Geometry candidate)) (hd (rc_Geometry reference)) \<le> toleranceMeters
        \<and> DistanceMeters lm (last (rc_Geometry candidate)) (last (rc_Geometry reference)) \<le> toleranceMeters)"

fun nextUntriedPlan :: "detourPlan list \<Rightarrow> string list \<Rightarrow> detourPlan option" where
  "nextUntriedPlan [] tried = None"
| "nextUntriedPlan (plan # plans) tried =
     (if dp_label plan \<notin> set tried then Some plan else nextUntriedPlan plans tried)"

text \<open>\<open>greenShare\<close>: percent of the duration and of the distance that is green.\<close>

definition greenShare :: "RouteCandidate \<Rightarrow> f64 \<times> f64" where
  "greenShare candidate =
     (let segs = rc_Segments candidate;
          green = filter (\<lambda>s. seg_CongestionClass s = CongestionGreen) segs;
          totalDuration = max64 (sum64 (map (\<lambda>s. max64 0 (seg_LiveDurationSeconds s)) segs)) (rc_LiveDurationSeconds candidate);
          totalDistance = max64 (sum64 (map (\<lambda>s. max64 0 (seg_DistanceMeters s)) segs)) (rc_DistanceMeters candidate);
          greenDuration = sum64 (map (\<lambda>s. max64 0 (seg_LiveDurationSeconds s)) green);
          greenDistance = sum64 (map (\<lambda>s. max64 0 (seg_DistanceMeters s)) green)
      in (if totalDuration > 0 then of_i64 greenDuration / of_i64 totalDuration * flit 100 else 0,
          if totalDistance > 0 then of_i64 greenDistance / of_i64 totalDistance * flit 100 else 0))"

section \<open>Plans are well-formed\<close>

definition zone_ok :: "AvoidZone \<Rightarrow> bool" where
  "zone_ok z \<longleftrightarrow> length (az_Points z) = 9 \<and> hd (az_Points z) = last (az_Points z) \<and> list_all point_ok (az_Points z)"

definition plan_ok :: "int \<Rightarrow> detourPlan \<Rightarrow> bool" where
  "plan_ok capacity p \<longleftrightarrow> (dp_zones p \<noteq> [] \<or> dp_anchors p \<noteq> []) \<and> length (dp_zones p) \<le> 12 \<and> list_all zone_ok (dp_zones p)
     \<and> int (length (dp_anchors p)) \<le> max 0 capacity \<and> list_all point_ok (dp_anchors p)"

lemma zone_corners_ok:
  "zone_corners lm c r s ks = Some ps \<Longrightarrow> length ps = length ks \<and> list_all point_ok ps"
  by (induction ks arbitrary: ps) (auto simp: Let_def GeoPoint_Validate_None split: if_splits)

lemma zoneAround_ok: "az_Points (zoneAround lm c) = [] \<or> zone_ok (zoneAround lm c)"
proof (cases "az_Points (zoneAround lm c) = []")
  case False
  then obtain ps where z: "az_Points (zoneAround lm c) = ps @ [hd ps]" and p: "length ps = 8" "list_all point_ok ps"
    by (auto simp: zoneAround_def Let_def split: option.splits dest: zone_corners_ok)
  then have "ps \<noteq> []" by auto
  with z p show ?thesis by (auto simp: zone_ok_def list_all_iff)
qed simp

lemma zones_loop_ok:
  "list_all zone_ok zs \<Longrightarrow> int (length zs) \<le> max 0 limit \<Longrightarrow>
   list_all zone_ok (zones_loop lm cs limit zs) \<and> int (length (zones_loop lm cs limit zs)) \<le> max 0 limit"
proof (induction cs arbitrary: zs)
  case (Cons c cs)
  show ?case
    using Cons.prems Cons.IH [of zs] Cons.IH [of "zs @ [zoneAround lm c]"] zoneAround_ok [of lm c] by (auto simp: Let_def)
qed simp

lemma zonesFor_ok: "list_all zone_ok (zonesFor lm cs limit)" "int (length (zonesFor lm cs limit)) \<le> max 0 limit"
  using zones_loop_ok [of "[]" limit lm cs] by (simp_all add: zonesFor_def)

lemma zonesFor_length: "0 \<le> limit \<Longrightarrow> length (zonesFor lm cs limit) \<le> nat limit"
  using zonesFor_ok(2) [of lm cs limit] by simp

lemma lateralAnchor_ok: "lateralAnchor lm c o' s = Some a \<Longrightarrow> point_ok a"
  by (auto simp: lateralAnchor_def Let_def GeoPoint_Validate_None split: if_splits)

lemma offsetPoint_ok: "offsetPoint lm p h o' s = Some a \<Longrightarrow> point_ok a"
  by (auto simp: offsetPoint_def Let_def GeoPoint_Validate_None split: if_splits)

lemma add_plan_ok: "plan_ok n p \<or> dp_zones p = [] \<and> dp_anchors p = [] \<Longrightarrow> list_all (plan_ok n) (add_plan p)"
  by (auto simp: add_plan_def plan_ok_def)

lemma zone_plan_ok: "0 \<le> limit \<Longrightarrow> limit \<le> 12 \<Longrightarrow> list_all (plan_ok n) (zone_plan l (zonesFor lm cs limit))"
  unfolding zone_plan_def using zonesFor_ok(1) [of lm cs limit] zonesFor_length [of limit lm cs]
  by (intro add_plan_ok) (auto simp: plan_ok_def)

lemma lateral_plan_ok: "1 \<le> n \<Longrightarrow> list_all (plan_ok n) (lateral_plan lm w red za i off s)"
  unfolding lateral_plan_def
  using zonesFor_ok(1) [of lm red 2] zonesFor_length [of 2 lm red] lateralAnchor_ok [of lm w off s]
  by (auto simp: Let_def plan_ok_def intro!: add_plan_ok split: option.split)

lemma set_map_filter_option: "x \<in> set (List.map_filter f xs) \<longleftrightarrow> (\<exists>y \<in> set xs. f y = Some x)"
  by (force simp: List.map_filter_def)

lemma list_all_map_filter: "(\<And>y x. y \<in> set xs \<Longrightarrow> f y = Some x \<Longrightarrow> P x) \<Longrightarrow> list_all P (List.map_filter f xs)"
  by (auto simp: list_all_iff set_map_filter_option)

lemma list_all_concat_mapI: "(\<And>x. x \<in> set xs \<Longrightarrow> list_all P (f x)) \<Longrightarrow> list_all P (concat (map f xs))"
  by (induction xs) auto

lemma corridorPlans_ok: "list_all (plan_ok n) (corridorPlans lm rq n)"
proof (cases "n < 1")
  case True
  then show ?thesis by (simp add: corridorPlans_def)
next
  case False
  then show ?thesis
    unfolding corridorPlans_def Let_def if_not_P [OF False]
    by (intro list_all_concat_mapI list_all_map_filter) (auto simp: plan_ok_def dest: offsetPoint_ok)
qed

lemma length_map_filter: "length (List.map_filter f xs) \<le> length xs"
  by (simp add: List.map_filter_def)

lemma detour_plans_ok:
  "list_all (plan_ok anchorCapacity) (greenDetourPlans lm clusters request zonesAllowed anchorsAllowed anchorCapacity)"
proof -
  let ?n = anchorCapacity
  have twelve: "maxZonesPerPlan = 12" by (simp add: maxZonesPerPlan_def)
  have bypass: "list_all (plan_ok ?n) (add_plan \<lparr> dp_label = l,
      dp_anchors = List.map_filter (\<lambda>cluster. lateralAnchor lm cluster off 1) (take 2 clusters),
      dp_zones = zonesFor lm clusters maxZonesPerPlan \<rparr>)" if "2 \<le> ?n" for l off
  proof (rule add_plan_ok)
    have "length (List.map_filter (\<lambda>cluster. lateralAnchor lm cluster off 1) (take 2 clusters)) \<le> 2"
      using length_map_filter [of "\<lambda>cluster. lateralAnchor lm cluster off 1" "take 2 clusters"] by simp
    moreover have "list_all point_ok (List.map_filter (\<lambda>cluster. lateralAnchor lm cluster off 1) (take 2 clusters))"
      by (auto simp: list_all_iff set_map_filter_option dest: lateralAnchor_ok)
    ultimately show "plan_ok ?n \<lparr> dp_label = l, dp_anchors = List.map_filter (\<lambda>cluster. lateralAnchor lm cluster off 1) (take 2 clusters),
        dp_zones = zonesFor lm clusters maxZonesPerPlan \<rparr> \<or> dp_zones \<lparr> dp_label = l, dp_anchors = List.map_filter (\<lambda>cluster. lateralAnchor lm cluster off 1) (take 2 clusters),
        dp_zones = zonesFor lm clusters maxZonesPerPlan \<rparr> = [] \<and> dp_anchors \<lparr> dp_label = l, dp_anchors = List.map_filter (\<lambda>cluster. lateralAnchor lm cluster off 1) (take 2 clusters),
        dp_zones = zonesFor lm clusters maxZonesPerPlan \<rparr> = []"
      using that zonesFor_ok(1) [of lm clusters 12] zonesFor_length [of 12 lm clusters] by (auto simp: plan_ok_def twelve)
  qed
  have worst: "list_all (plan_ok ?n) (add_plan \<lparr> dp_label = l, dp_anchors = [], dp_zones = zonesFor lm clusters k \<rparr>)"
    if "0 \<le> k" "k \<le> 12" for k l
    using that zonesFor_ok(1) [of lm clusters k] zonesFor_length [of k lm clusters]
    by (intro add_plan_ok) (auto simp: plan_ok_def)
  have corridor: "list_all (plan_ok ?n) (concat (map add_plan (corridorPlans lm request ?n)))"
    using corridorPlans_ok [of ?n lm request] by (intro list_all_concat_mapI add_plan_ok) (auto simp: list_all_iff)
  note app = list_all_append [THEN iffD2, OF conjI]
  have cond: "list_all P (if c then xs else [])" if "c \<Longrightarrow> list_all P xs" for P c and xs :: "detourPlan list"
    using that by simp
  show ?thesis
  proof (cases "clusters = []")
    case False
    show ?thesis
      unfolding greenDetourPlans_def Let_def twelve if_not_P [OF False]
      by (intro app cond zone_plan_ok bypass [unfolded twelve] corridor; (simp; fail)?)
        (auto intro!: list_all_concat_mapI lateral_plan_ok worst cond)
  qed (simp add: greenDetourPlans_def)
qed

lemma detour_plans_zones:
  assumes "p \<in> set (greenDetourPlans lm clusters request False anchorsAllowed anchorCapacity)"
  shows "dp_zones p = []"
proof -
  have "dp_zones q = []" if "q \<in> set (lateral_plan lm w red False i off s)" for q w red i off s
    using that by (auto simp: lateral_plan_def add_plan_def Let_def split: option.splits if_splits)
  moreover have "list_all (\<lambda>q. dp_zones q = []) (corridorPlans lm request anchorCapacity)"
  proof (cases "anchorCapacity < 1")
    case False
    then show ?thesis
      unfolding corridorPlans_def Let_def if_not_P [OF False] by (intro list_all_concat_mapI list_all_map_filter) auto
  qed (simp add: corridorPlans_def)
  moreover have "q \<in> set (add_plan r) \<Longrightarrow> q = r" for q r by (auto simp: add_plan_def split: if_splits)
  ultimately show ?thesis using assms
    by (fastforce simp: greenDetourPlans_def Let_def list_all_iff split: if_splits)
qed

text \<open>C40: every plan of the ladder is a request a provider can answer: it forbids something or reaches somewhere, has at most twelve
  zones, each a closed nine-point polygon of valid coordinates, and at most as many anchors, all valid, as the provider
  has free waypoints; without avoid-zone support no plan has zones.\<close>

theorem detour_plans_wellformed:
  "list_all (\<lambda>p. plan_ok anchorCapacity p \<and> (dp_zones p = [] \<or> zonesAllowed))
     (greenDetourPlans lm clusters request zonesAllowed anchorsAllowed anchorCapacity)"
proof (cases zonesAllowed)
  case True
  then show ?thesis using detour_plans_ok by simp
next
  case False
  then show ?thesis
    using detour_plans_ok [of anchorCapacity lm clusters request False anchorsAllowed] detour_plans_zones
    by (auto simp: list_all_iff)
qed

section \<open>Clusters keep clear of the trip's ends\<close>

definition clearance :: "libm \<Rightarrow> RouteSearchRequest \<Rightarrow> congestionCluster \<Rightarrow> f64" where
  "clearance lm request cluster = fmin (DistanceMeters lm (cl_center cluster) (rq_Origin request))
     (DistanceMeters lm (cl_center cluster) (rq_Destination request)) - endpointProtectionMeters - clusterZoneBufferMeters"

lemma fmin_not_above: "\<not> b < fmin a b"
  by (cases a; cases b) (auto simp: fmin_def)

lemma merge_into_severity:
  assumes "list_all (\<lambda>c. k \<le> cl_severity c) ms" "k \<le> cl_severity c"
  shows "list_all (\<lambda>c. k \<le> cl_severity c) (merge_into lm ms c)"
  using assms by (induction ms) (auto simp: absorb_def Let_def)

lemma merge_severity: "list_all (\<lambda>c. k \<le> cl_severity c) cs \<Longrightarrow> list_all (\<lambda>c. k \<le> cl_severity c) ms \<Longrightarrow>
    list_all (\<lambda>c. k \<le> cl_severity c) (foldl (merge_into lm) ms cs)"
  by (induction cs arbitrary: ms) (auto intro: merge_into_severity)

definition run_ok :: "int \<Rightarrow> ClusterRun \<Rightarrow> bool" where
  "run_ok k st \<longleftrightarrow> list_all (\<lambda>c. k \<le> cl_severity c) (cr_clusters st) \<and> (cr_run st \<noteq> [] \<longrightarrow> k \<le> cr_severity st)"

lemma cluster_flush_ok: "run_ok k st \<Longrightarrow> run_ok k (cluster_flush lm st)"
  by (auto simp: run_ok_def cluster_flush_def newCluster_def Let_def)

lemma cluster_step_ok: "run_ok k st \<Longrightarrow> run_ok k (cluster_step lm k st s)"
  using cluster_flush_ok [of k st lm] by (auto simp: cluster_step_def Let_def run_ok_def)

lemma candidateClusters_severity: "list_all (\<lambda>c. k \<le> cl_severity c) (candidateClusters lm cand k)"
proof -
  have fold: "run_ok k (foldl (cluster_step lm k) st segs)" if "run_ok k st" for st segs
    using that by (induction segs arbitrary: st) (auto intro: cluster_step_ok)
  have "run_ok k (cluster_flush lm (foldl (cluster_step lm k)
      \<lparr> cr_clusters = [], cr_run = [], cr_distance = 0, cr_lost = 0, cr_severity = 0 \<rparr> (rc_Segments cand)))"
    by (intro cluster_flush_ok fold) (simp add: run_ok_def)
  then show ?thesis by (simp add: candidateClusters_def run_ok_def)
qed

text \<open>No exclusion can swallow an end of the trip: the radius of every cluster that reaches the plans is at most its clearance (its
  distance to the nearer end, less the protected 700 m and the zone buffer), the clearance itself is not below the
  minimum radius, and the cluster has at least the severity that was asked for.\<close>

theorem clusters_keep_clear:
  "list_all (\<lambda>c. \<not> clearance lm request c < cl_radiusM c \<and> \<not> clearance lm request c < clusterMinRadiusMeters
      \<and> minimumSeverity \<le> cl_severity c) (congestionClusters lm candidates request minimumSeverity)"
proof -
  define clusters where "clusters = mergeClusters lm (concat (map (\<lambda>c. candidateClusters lm c minimumSeverity) candidates))"
  have sev: "list_all (\<lambda>c. minimumSeverity \<le> cl_severity c) clusters"
    unfolding clusters_def mergeClusters_def
    by (rule merge_severity) (auto intro!: list_all_concat_mapI candidateClusters_severity)
  have "\<not> clearance lm request c' < cl_radiusM c' \<and> \<not> clearance lm request c' < clusterMinRadiusMeters \<and> minimumSeverity \<le> cl_severity c'"
    if "c \<in> set clusters" "protect_endpoints lm request c = Some c'" for c c'
    using that sev fmin_not_above by (auto simp: protect_endpoints_def clearance_def Let_def list_all_iff split: if_splits)
  then have "list_all (\<lambda>c. \<not> clearance lm request c < cl_radiusM c \<and> \<not> clearance lm request c < clusterMinRadiusMeters
      \<and> minimumSeverity \<le> cl_severity c) (List.map_filter (protect_endpoints lm request) clusters)"
    by (rule list_all_map_filter)
  then show ?thesis by (simp add: congestionClusters_def Let_def clusters_def list_all_iff)
qed

section \<open>Offsets and shares\<close>

lemma flit_offsets [simp]: "flit 400 = Fin 400" "flit 25000 = Fin 25000" "flit 3 = Fin 3" "flit 3000 = Fin 3000" "flit 100 = Fin 100"
  using flit_small [of 400] flit_small [of 25000] flit_small [of 3] flit_small [of 3000] flit_small [of 100] by simp_all

lemma fmul_fin_not_nan: "a = Fin r \<Longrightarrow> b = Fin s \<Longrightarrow> a * b \<noteq> NaN"
  by simp

lemma lateral_offset_range:
  assumes "x \<noteq> NaN"
  shows "frange 400 25000 (fround (fmax minLateralOffsetMeters (fmin maxLateralOffsetMeters x)))"
proof -
  have "frange 400 25000 (fmax (Fin 400) (fmin (Fin 25000) x))"
    using assms by (cases x) (auto simp: fmin_def fmax_def)
  then have "frange (of_int 400) (of_int 25000) (fmax (Fin 400) (fmin (Fin 25000) x))" by simp
  from frange_round [OF this] show ?thesis by (simp add: minLateralOffsetMeters_def maxLateralOffsetMeters_def)
qed

lemma lateral_step_ok:
  assumes "a = Fin r" "f = Fin s" "list_all (frange 400 25000) os"
  shows "list_all (frange 400 25000) (lateral_step a os f) \<and> length (lateral_step a os f) \<le> Suc (length os)"
  using lateral_offset_range [of "a * f"] assms fmul_fin_not_nan [OF assms(1,2)] by (simp add: lateral_step_def Let_def)

lemma flit_unit_fin: "0 \<le> x \<Longrightarrow> x \<le> 1 \<Longrightarrow> \<exists>s. flit x = Fin s"
  using mk_range [of 0 1 x] by (auto simp: flit_def elim: frangeE)

text \<open>The sideways reach is bounded: there are at most four lateral offsets and each lies between 400 m and 25 km, whatever extra distance
  the user allows.\<close>

theorem lateral_offsets_bounded:
  assumes "in64 (rq_MaxExtraDistanceMeters request)"
  shows "length (lateralOffsets request) \<le> 4 \<and> list_all (frange 400 25000) (lateralOffsets request)"
proof -
  obtain m where m: "of_i64 (rq_MaxExtraDistanceMeters request) = Fin m" "\<bar>m\<bar> \<le> 2 ^ 63" using of_i64_range [OF assms] by blast
  have "rep (2 ^ 63)" unfolding rep_def by (rule exI [of _ 1], rule exI [of _ 63]) (simp add: pow2_def)
  then have "frange (- (2 ^ 63)) (2 ^ 63) (mk (m / 3))"
    using m(2) by (intro mk_range rep_neg) (auto simp: abs_le_iff)
  then obtain q where q: "of_i64 (rq_MaxExtraDistanceMeters request) / flit 3 = Fin q" by (auto simp: m(1) elim: frangeE)
  obtain c where c: "flit 3000 = Fin c" using flit_offsets by (auto elim: frangeE)
  obtain a where a: "(if of_i64 (rq_MaxExtraDistanceMeters request) / flit 3 \<le> 0 then flit 3000
      else of_i64 (rq_MaxExtraDistanceMeters request) / flit 3) = Fin a"
    unfolding q c by (cases "Fin q \<le> 0") auto
  obtain f1 f2 f3 f4 where f: "flit 0.12 = Fin f1" "flit 0.3 = Fin f2" "flit 0.62 = Fin f3" "flit 1 = Fin f4"
    using flit_unit_fin [of "0.12"] flit_unit_fin [of "0.3"] flit_unit_fin [of "0.62"] flit_unit_fin [of 1] by auto
  define o1 where "o1 = lateral_step (Fin a) [] (Fin f1)"
  define o2 where "o2 = lateral_step (Fin a) o1 (Fin f2)"
  define o3 where "o3 = lateral_step (Fin a) o2 (Fin f3)"
  define o4 where "o4 = lateral_step (Fin a) o3 (Fin f4)"
  have "list_all (frange 400 25000) o1 \<and> length o1 \<le> 1" using lateral_step_ok [of "Fin a" a "Fin f1" f1 "[]"] by (simp add: o1_def)
  then have "list_all (frange 400 25000) o2 \<and> length o2 \<le> 2" using lateral_step_ok [of "Fin a" a "Fin f2" f2 o1] by (simp add: o2_def)
  then have "list_all (frange 400 25000) o3 \<and> length o3 \<le> 3" using lateral_step_ok [of "Fin a" a "Fin f3" f3 o2] by (simp add: o3_def)
  then have "list_all (frange 400 25000) o4 \<and> length o4 \<le> 4" using lateral_step_ok [of "Fin a" a "Fin f4" f4 o3] by (simp add: o4_def)
  moreover have "lateralOffsets request = o4"
    unfolding lateralOffsets_def Let_def a f by (simp add: o4_def o3_def o2_def o1_def)
  ultimately show ?thesis by simp
qed

theorem lateral_offsets_bounded_witness:
  "in64 (rq_MaxExtraDistanceMeters (ex_request RoutingModeGreenest)) \<and> length (lateralOffsets (ex_request RoutingModeGreenest)) \<le> 4"
proof -
  have "in64 (rq_MaxExtraDistanceMeters (ex_request RoutingModeGreenest))" by (simp add: ex_request_def in64_def)
  then show ?thesis using lateral_offsets_bounded by blast
qed

lemma nextUntriedPlan_spec:
  "(case nextUntriedPlan plans tried of
      None \<Rightarrow> list_all (\<lambda>p. dp_label p \<in> set tried) plans
    | Some p \<Rightarrow> p \<in> set plans \<and> dp_label p \<notin> set tried)"
  by (induction plans) (auto split: option.splits)

end
