(* ===== verification/ProviderClient.thy ===== *)
theory ProviderClient
  imports Contracts
begin

text \<open>
  The orchestrator's client of the provider service
  (\<open>services/routing-orchestrator/provider_client.go\<close>). The HTTP transport and the JSON decoder are
  not modelled: their outcome is the argument \<open>http_reply\<close> of \<open>routes\<close> and \<open>capabilities\<close>, either
  a transport error or a status code with the decoded body (\<^term>\<open>None\<close> when the bounded strict decoder
  refuses it). What is modelled is every check the client makes before the orchestrator sees a
  response: provider data is untrusted until it has passed them.
\<close>

section \<open>Limits and errors\<close>

definition maxProviderRequestsPerCall :: int where "maxProviderRequestsPerCall = 20"
definition maxProviderCandidates :: nat where "maxProviderCandidates = 3"
definition maxProviderGeometryPoints :: nat where "maxProviderGeometryPoints = 4096"
definition maxProviderSegments :: nat where "maxProviderSegments = 2000"
definition maxProviderSegmentGeometryPoints :: nat where "maxProviderSegmentGeometryPoints = 8192"
definition maxProviderWarnings :: nat where "maxProviderWarnings = 64"
definition maxProviderWarningBytes :: nat where "maxProviderWarningBytes = 2048"
definition maxProviderIdentifierBytes :: nat where "maxProviderIdentifierBytes = 256"
definition maxProviderAPIIntegrations :: nat where "maxProviderAPIIntegrations = 8"
definition maxProviderAPIMetadataBytes :: nat where "maxProviderAPIMetadataBytes = 128"

lemmas provider_limits =
  maxProviderRequestsPerCall_def maxProviderCandidates_def maxProviderGeometryPoints_def maxProviderSegments_def
  maxProviderSegmentGeometryPoints_def maxProviderWarnings_def maxProviderWarningBytes_def
  maxProviderIdentifierBytes_def maxProviderAPIIntegrations_def maxProviderAPIMetadataBytes_def

datatype provider_error = ProviderTransport | errProviderUnavailable | errProviderRateLimited | errProviderContract

datatype 'a http_reply = TransportError | Reply int "'a option"

datatype segment_error = SegmentIdInvalid | SegmentGeometryCount | SegmentPointInvalid nat
  | SegmentMeasurements | SegmentRatios

datatype candidate_error = CandidateIdInvalid | ProviderNameInvalid | RouteReferenceTooLong | CandidateGeometryCount
  | CandidatePointInvalid nat | CandidateMeasurements | CandidateScores | CandidateRequestCount | TooManySegments
  | MetricsNegative | MetricsPercentages | SegmentPointsTotal | SegmentInvalid nat segment_error | DuplicateSegmentId nat

datatype response_error = RequestBudgetOutside | RequestsUsedOutside | BudgetRemainingInconsistent
  | CandidateCountOutside | BillableUnitsInconsistent | TooManyWarnings | WarningTooLong
  | CandidateInvalid nat candidate_error | DuplicateCandidateId nat

section \<open>Validation of a route response\<close>

definition finiteInRange :: "f64 \<Rightarrow> f64 \<Rightarrow> f64 \<Rightarrow> bool" where
  "finiteInRange v minimum maximum \<longleftrightarrow> \<not> is_nan v \<and> \<not> is_inf v \<and> minimum \<le> v \<and> v \<le> maximum"

definition validateProviderMetrics :: "RouteMetrics \<Rightarrow> candidate_error option" where
  "validateProviderMetrics m = first_some [
     check (GreenDistanceMeters m < 0 \<or> YellowDistanceMeters m < 0 \<or> OrangeDistanceMeters m < 0
       \<or> RedDistanceMeters m < 0 \<or> UnknownDistanceMeters m < 0 \<or> GreenDurationSeconds m < 0
       \<or> YellowDurationSeconds m < 0 \<or> OrangeDurationSeconds m < 0 \<or> RedDurationSeconds m < 0
       \<or> UnknownDurationSeconds m < 0 \<or> TotalTrafficDelaySeconds m < 0 \<or> WorstContinuousCongestionMeters m < 0)
       MetricsNegative,
     check (\<not> finiteInRange (CongestedDistancePercent m) 0 (flit 100) \<or> \<not> finiteInRange (CongestedDurationPercent m) 0 (flit 100)
       \<or> \<not> finiteInRange (GreenDistancePercent m) 0 (flit 100)) MetricsPercentages]"

definition validateProviderSegment :: "RouteSegment \<Rightarrow> segment_error option" where
  "validateProviderSegment s = first_some [
     check (trim_space (seg_SegmentID s) = [] \<or> length (seg_SegmentID s) > maxProviderIdentifierBytes) SegmentIdInvalid,
     check (length (seg_Geometry s) < 2 \<or> length (seg_Geometry s) > maxProviderGeometryPoints) SegmentGeometryCount,
     map_option (\<lambda>(i, _). SegmentPointInvalid i) (first_invalid 0 (seg_Geometry s)),
     check (seg_DistanceMeters s \<le> 0 \<or> seg_LiveDurationSeconds s < 0 \<or> seg_BaselineDurationSeconds s < 0
       \<or> (seg_LiveDurationSeconds s = 0 \<and> seg_BaselineDurationSeconds s = 0)) SegmentMeasurements,
     check (\<not> finiteInRange (seg_TrafficRatio s) 0 (flit 100) \<or> \<not> finiteInRange (seg_GeometrySimilarity s) 0 1
       \<or> \<not> finiteInRange (Score (seg_Confidence s)) 0 1) SegmentRatios]"

text \<open>The loop over the segments, with the number of points and the ids seen so far.\<close>

fun validate_segments :: "nat \<Rightarrow> nat \<Rightarrow> string list \<Rightarrow> RouteSegment list \<Rightarrow> candidate_error option" where
  "validate_segments index totalSegmentPoints seen [] = None"
| "validate_segments index totalSegmentPoints seen (segment # segments) =
     (let totalSegmentPoints = totalSegmentPoints + length (seg_Geometry segment) in
      if totalSegmentPoints > maxProviderSegmentGeometryPoints then Some SegmentPointsTotal
      else case validateProviderSegment segment of
        Some e \<Rightarrow> Some (SegmentInvalid index e)
      | None \<Rightarrow> if seg_SegmentID segment \<in> set seen then Some (DuplicateSegmentId index)
                else validate_segments (Suc index) totalSegmentPoints (seg_SegmentID segment # seen) segments)"

definition validateProviderCandidate :: "RouteCandidate \<Rightarrow> int \<Rightarrow> candidate_error option" where
  "validateProviderCandidate c requestsUsed = first_some [
     check (trim_space (rc_CandidateID c) = [] \<or> length (rc_CandidateID c) > maxProviderIdentifierBytes) CandidateIdInvalid,
     check (trim_space (rc_Provider c) = [] \<or> length (rc_Provider c) > maxProviderIdentifierBytes) ProviderNameInvalid,
     check (length (rc_ProviderRouteReference c) > maxProviderIdentifierBytes) RouteReferenceTooLong,
     check (length (rc_Geometry c) < 2 \<or> length (rc_Geometry c) > maxProviderGeometryPoints) CandidateGeometryCount,
     map_option (\<lambda>(i, _). CandidatePointInvalid i) (first_invalid 0 (rc_Geometry c)),
     check (rc_DistanceMeters c \<le> 0 \<or> rc_LiveDurationSeconds c < 0 \<or> rc_BaselineDurationSeconds c < 0
       \<or> (rc_LiveDurationSeconds c = 0 \<and> rc_BaselineDurationSeconds c = 0) \<or> rc_TrafficDelaySeconds c < 0) CandidateMeasurements,
     check (\<not> finiteInRange (Score (rc_Confidence c)) 0 1 \<or> \<not> finiteInRange (rc_Score c) 0 1) CandidateScores,
     check (rc_ProviderRequestCount c < 0 \<or> rc_ProviderRequestCount c > requestsUsed) CandidateRequestCount,
     check (length (rc_Segments c) > maxProviderSegments) TooManySegments,
     validateProviderMetrics (rc_Metrics c),
     validate_segments 0 0 [] (rc_Segments c)]"

fun validate_candidates :: "nat \<Rightarrow> int \<Rightarrow> string list \<Rightarrow> RouteCandidate list \<Rightarrow> response_error option" where
  "validate_candidates index requestsUsed seen [] = None"
| "validate_candidates index requestsUsed seen (c # cs) =
     (case validateProviderCandidate c requestsUsed of
        Some e \<Rightarrow> Some (CandidateInvalid index e)
      | None \<Rightarrow> if rc_CandidateID c \<in> set seen then Some (DuplicateCandidateId index)
                else validate_candidates (Suc index) requestsUsed (rc_CandidateID c # seen) cs)"

definition validateProviderRouteResponse :: "ProviderRouteResponse \<Rightarrow> ProviderRouteRequest \<Rightarrow> response_error option" where
  "validateProviderRouteResponse response request = first_some [
     check (pr_RequestBudget request < 1 \<or> pr_RequestBudget request > maxProviderRequestsPerCall) RequestBudgetOutside,
     check (ps_RequestsUsed response < 1 \<or> ps_RequestsUsed response > maxProviderRequestsPerCall
       \<or> ps_RequestsUsed response > pr_RequestBudget request) RequestsUsedOutside,
     check (ps_BudgetRemaining response < 0 \<or> ps_BudgetRemaining response > pr_RequestBudget request
       \<or> add64 (ps_RequestsUsed response) (ps_BudgetRemaining response) > pr_RequestBudget request) BudgetRemainingInconsistent,
     check (length (ps_Candidates response) < 1 \<or> length (ps_Candidates response) > maxProviderCandidates) CandidateCountOutside,
     check (ps_EstimatedBillableUnits response < 0
       \<or> ps_EstimatedBillableUnits response > int (length (ps_Candidates response))) BillableUnitsInconsistent,
     check (length (ps_Warnings response) > maxProviderWarnings) TooManyWarnings,
     check (list_ex (\<lambda>w. length w > maxProviderWarningBytes) (ps_Warnings response)) WarningTooLong,
     validate_candidates 0 (ps_RequestsUsed response) [] (ps_Candidates response)]"

text \<open>\<open>routes\<close>: the status code decides first, then the decoder, then the contract checks.\<close>

definition routes :: "ProviderRouteResponse http_reply \<Rightarrow> ProviderRouteRequest \<Rightarrow> provider_error + ProviderRouteResponse" where
  "routes reply request = (case reply of
     TransportError \<Rightarrow> Inl ProviderTransport
   | Reply status body \<Rightarrow>
       if status = 200 then (case body of
           None \<Rightarrow> Inl errProviderContract
         | Some result \<Rightarrow> (case validateProviderRouteResponse result request of
             Some _ \<Rightarrow> Inl errProviderContract
           | None \<Rightarrow> Inr result))
       else if status = 429 then Inl errProviderRateLimited
       else if status = 400 \<or> status = 422 then Inl errProviderContract
       else Inl errProviderUnavailable)"

section \<open>Validation of the capabilities document\<close>

record providerBillingCapability =
  pb_Unit :: string
  pb_MultipleRoutesCount :: string

record providerStorageCapability =
  pst_Standard :: string
  pst_Extended :: string

record providerLicenseCapability =
  pl_BasicName :: string
  pl_AdvancedName :: string
  pl_FreeTier :: string

record providerCapabilitiesDocument =
  pd_ProviderCapabilities :: ProviderCapabilities
  pd_VerifiedAt :: string
  pd_OfficialDocumentation :: "string list"
  pd_OfficialEndpoint :: string
  pd_AddressSearchProvider :: string
  pd_AddressSearchEndpoint :: string
  pd_MaxRoutesPerRequest :: int
  pd_RequestsPerSecond :: int
  pd_RequestsPerMinute :: int
  pd_DailyRequestLimit :: "int option"
  pd_MonthlyRequestLimit :: "int option"
  pd_DailyLimitContractDependent :: bool
  pd_AvoidTolls :: bool
  pd_AvoidUnpaved :: string
  pd_Billing :: providerBillingCapability
  pd_Storage :: providerStorageCapability
  pd_DataModificationAllowed :: bool
  pd_Licenses :: providerLicenseCapability
  pd_Limitations :: "string list"
  pd_ExperimentalRequested :: bool

datatype integration_error = TooManyIntegrations | IntegrationFieldInvalid nat string | DuplicateIntegrationId nat
  | IntegrationCapability nat | IntegrationRole nat | IntegrationState nat | PrimaryNotActive nat | FallbackNotStandby nat

definition metadata_invalid :: "string \<Rightarrow> bool" where
  "metadata_invalid v \<longleftrightarrow> trim_space v = [] \<or> trim_space v \<noteq> v \<or> length (trim_space v) > maxProviderAPIMetadataBytes"

fun validate_integrations :: "nat \<Rightarrow> string list \<Rightarrow> APIIntegration list \<Rightarrow> integration_error option" where
  "validate_integrations index seen [] = None"
| "validate_integrations index seen (i # is) = first_some [
     check (metadata_invalid (api_ID i)) (IntegrationFieldInvalid index ''id''),
     check (metadata_invalid (api_Provider i)) (IntegrationFieldInvalid index ''provider''),
     check (metadata_invalid (api_Product i)) (IntegrationFieldInvalid index ''product''),
     check (metadata_invalid (api_APIVersion i)) (IntegrationFieldInvalid index ''apiVersion''),
     check (api_ID i \<in> set seen) (DuplicateIntegrationId index),
     check (api_Capability i \<notin> {''routing'', ''address-search''}) (IntegrationCapability index),
     check (api_Role i \<notin> {''primary'', ''fallback''}) (IntegrationRole index),
     check (api_State i \<notin> {''active'', ''standby''}) (IntegrationState index),
     check (api_Role i = ''primary'' \<and> api_State i \<noteq> ''active'') (PrimaryNotActive index),
     check (api_Role i = ''fallback'' \<and> api_State i \<noteq> ''standby'') (FallbackNotStandby index),
     validate_integrations (Suc index) (api_ID i # seen) is]"

definition validateAPIIntegrations :: "APIIntegration list \<Rightarrow> integration_error option" where
  "validateAPIIntegrations is = first_some [
     check (length is > maxProviderAPIIntegrations) TooManyIntegrations,
     validate_integrations 0 [] is]"

datatype document_error = ContractVersionIncompatible string | ProviderOrModeMissing | MaxAlternativesOutside
  | MaxWaypointsOutside | RequestsPerMinuteOutside | MonthlyRequestLimitOutside | AddressSearchProviderInvalid
  | AddressSearchEndpointMissing | IntegrationsInvalid integration_error

definition validateProviderCapabilitiesDocument :: "providerCapabilitiesDocument \<Rightarrow> document_error option" where
  "validateProviderCapabilitiesDocument d = (let c = pd_ProviderCapabilities d in first_some [
     check (pc_ContractVersion c \<noteq> InternalContractVersion) (ContractVersionIncompatible (pc_ContractVersion c)),
     check (trim_space (pc_Provider c) = [] \<or> trim_space (pc_Mode c) = []) ProviderOrModeMissing,
     check (pc_MaxAlternatives c < 0 \<or> pc_MaxAlternatives c > 2) MaxAlternativesOutside,
     check (pc_MaxWaypoints c < 0 \<or> pc_MaxWaypoints c > 50) MaxWaypointsOutside,
     check (pd_RequestsPerMinute d < 0 \<or> pd_RequestsPerMinute d > 100000) RequestsPerMinuteOutside,
     check (case pd_MonthlyRequestLimit d of None \<Rightarrow> False | Some n \<Rightarrow> n < 1 \<or> n > 100000000) MonthlyRequestLimitOutside,
     check (pd_AddressSearchProvider d \<noteq> [] \<and> pd_AddressSearchProvider d \<noteq> ''yandex'' \<and> pd_AddressSearchProvider d \<noteq> ''2gis'')
       AddressSearchProviderInvalid,
     check (pd_AddressSearchProvider d \<noteq> [] \<and> trim_space (pd_AddressSearchEndpoint d) = []) AddressSearchEndpointMissing,
     map_option IntegrationsInvalid (validateAPIIntegrations (pc_APIIntegrations c))])"

definition capabilities :: "providerCapabilitiesDocument http_reply \<Rightarrow> provider_error + ProviderCapabilities" where
  "capabilities reply = (case reply of
     TransportError \<Rightarrow> Inl ProviderTransport
   | Reply status body \<Rightarrow>
       if status \<noteq> 200 then Inl errProviderUnavailable
       else (case body of
           None \<Rightarrow> Inl errProviderContract
         | Some document \<Rightarrow> (case validateProviderCapabilitiesDocument document of
             Some _ \<Rightarrow> Inl errProviderContract
           | None \<Rightarrow> Inr (pd_ProviderCapabilities document))))"

definition health :: "unit http_reply \<Rightarrow> provider_error option" where
  "health reply = (case reply of
     TransportError \<Rightarrow> Some ProviderTransport
   | Reply status _ \<Rightarrow> if status \<noteq> 200 then Some errProviderUnavailable else None)"

definition statusCategory :: "int \<Rightarrow> string" where
  "statusCategory status =
     (if status = 429 then ''rate_limited'' else if status \<ge> 500 then ''provider_5xx''
      else if status \<ge> 400 then ''provider_4xx'' else ''transport'')"

section \<open>What an accepted response guarantees\<close>

lemma finiteInRange_iff: "finiteInRange v (Fin l) (Fin h) \<longleftrightarrow> frange l h v"
  by (cases v) (auto simp: finiteInRange_def is_nan_def is_inf_def frange_def)

lemma finiteInRange_unit: "finiteInRange v 0 1 \<longleftrightarrow> frange 0 1 v"
  using finiteInRange_iff [of v 0 1] by (simp add: zero_f64_def one_f64_def)

lemma finiteInRange_percent: "finiteInRange v 0 (flit 100) \<longleftrightarrow> frange 0 100 v"
  using finiteInRange_iff [of v 0 100] flit_small [of 100] by (simp add: zero_f64_def)

text \<open>The declarative contract of a segment and of a candidate.\<close>

definition provider_segment_ok :: "RouteSegment \<Rightarrow> bool" where
  "provider_segment_ok s \<longleftrightarrow> trim_space (seg_SegmentID s) \<noteq> [] \<and> length (seg_SegmentID s) \<le> 256
     \<and> 2 \<le> length (seg_Geometry s) \<and> length (seg_Geometry s) \<le> 4096 \<and> list_all point_ok (seg_Geometry s)
     \<and> 0 < seg_DistanceMeters s \<and> 0 \<le> seg_LiveDurationSeconds s \<and> 0 \<le> seg_BaselineDurationSeconds s
     \<and> (0 < seg_LiveDurationSeconds s \<or> 0 < seg_BaselineDurationSeconds s)
     \<and> frange 0 100 (seg_TrafficRatio s) \<and> frange 0 1 (seg_GeometrySimilarity s) \<and> frange 0 1 (Score (seg_Confidence s))"

definition provider_metrics_ok :: "RouteMetrics \<Rightarrow> bool" where
  "provider_metrics_ok m \<longleftrightarrow> list_all (\<lambda>v. 0 \<le> v) [GreenDistanceMeters m, YellowDistanceMeters m, OrangeDistanceMeters m,
       RedDistanceMeters m, UnknownDistanceMeters m, GreenDurationSeconds m, YellowDurationSeconds m, OrangeDurationSeconds m,
       RedDurationSeconds m, UnknownDurationSeconds m, TotalTrafficDelaySeconds m, WorstContinuousCongestionMeters m]
     \<and> list_all (frange 0 100) [CongestedDistancePercent m, CongestedDurationPercent m, GreenDistancePercent m]"

definition provider_candidate_ok :: "int \<Rightarrow> RouteCandidate \<Rightarrow> bool" where
  "provider_candidate_ok requestsUsed c \<longleftrightarrow> trim_space (rc_CandidateID c) \<noteq> [] \<and> length (rc_CandidateID c) \<le> 256
     \<and> trim_space (rc_Provider c) \<noteq> [] \<and> length (rc_Provider c) \<le> 256 \<and> length (rc_ProviderRouteReference c) \<le> 256
     \<and> 2 \<le> length (rc_Geometry c) \<and> length (rc_Geometry c) \<le> 4096 \<and> list_all point_ok (rc_Geometry c)
     \<and> 0 < rc_DistanceMeters c \<and> 0 \<le> rc_LiveDurationSeconds c \<and> 0 \<le> rc_BaselineDurationSeconds c
     \<and> (0 < rc_LiveDurationSeconds c \<or> 0 < rc_BaselineDurationSeconds c) \<and> 0 \<le> rc_TrafficDelaySeconds c
     \<and> frange 0 1 (Score (rc_Confidence c)) \<and> frange 0 1 (rc_Score c)
     \<and> 0 \<le> rc_ProviderRequestCount c \<and> rc_ProviderRequestCount c \<le> requestsUsed
     \<and> length (rc_Segments c) \<le> 2000 \<and> provider_metrics_ok (rc_Metrics c)
     \<and> list_all provider_segment_ok (rc_Segments c) \<and> distinct (map seg_SegmentID (rc_Segments c))
     \<and> sum_list (map (length \<circ> seg_Geometry) (rc_Segments c)) \<le> 8192"

lemma validateProviderSegment_None: "validateProviderSegment s = None \<longleftrightarrow> provider_segment_ok s"
  unfolding validateProviderSegment_def provider_segment_ok_def
  by (simp add: first_invalid_None finiteInRange_unit finiteInRange_percent provider_limits list_all_iff not_less not_le) arith

lemma validateProviderMetrics_None: "validateProviderMetrics m = None \<longleftrightarrow> provider_metrics_ok m"
  unfolding validateProviderMetrics_def provider_metrics_ok_def
  by (simp add: finiteInRange_percent not_less) auto

lemma validate_segments_None:
  "n \<le> 8192 \<Longrightarrow> validate_segments i n seen ss = None \<longleftrightarrow> list_all provider_segment_ok ss \<and> distinct (map seg_SegmentID ss)
     \<and> set (map seg_SegmentID ss) \<inter> set seen = {} \<and> n + sum_list (map (length \<circ> seg_Geometry) ss) \<le> 8192"
proof (induction i n seen ss rule: validate_segments.induct)
  case (2 i n seen s ss)
  have ok: "provider_segment_ok s \<longleftrightarrow> validateProviderSegment s = None" by (simp add: validateProviderSegment_None)
  show ?case
  proof (cases "n + length (seg_Geometry s) \<le> 8192 \<and> provider_segment_ok s \<and> seg_SegmentID s \<notin> set seen")
    case True
    then have "validate_segments i n seen (s # ss) =
        validate_segments (Suc i) (n + length (seg_Geometry s)) (seg_SegmentID s # seen) ss"
      using ok by (simp add: provider_limits)
    then show ?thesis using True 2(1) [OF refl] ok by (auto simp: provider_limits add.assoc)
  next
    case False
    then show ?thesis using ok by (auto simp: provider_limits Let_def split: option.splits)
  qed
qed simp

lemma validateProviderCandidate_None: "validateProviderCandidate c used = None \<longleftrightarrow> provider_candidate_ok used c"
  unfolding validateProviderCandidate_def provider_candidate_ok_def
  by (simp add: first_invalid_None finiteInRange_unit validateProviderMetrics_None validate_segments_None provider_limits
      list_all_iff not_less not_le) arith

lemma validate_candidates_None:
  "validate_candidates i used seen cs = None \<longleftrightarrow> list_all (provider_candidate_ok used) cs \<and> distinct (map rc_CandidateID cs)
     \<and> set (map rc_CandidateID cs) \<inter> set seen = {}"
  by (induction i used seen cs rule: validate_candidates.induct)
    (auto simp: validateProviderCandidate_None [symmetric] split: option.splits)

definition response_contract :: "ProviderRouteRequest \<Rightarrow> ProviderRouteResponse \<Rightarrow> bool" where
  "response_contract request response \<longleftrightarrow> pr_RequestBudget request \<le> 20
     \<and> 1 \<le> ps_RequestsUsed response \<and> 0 \<le> ps_BudgetRemaining response
     \<and> ps_RequestsUsed response + ps_BudgetRemaining response \<le> pr_RequestBudget request
     \<and> 1 \<le> length (ps_Candidates response) \<and> length (ps_Candidates response) \<le> 3
     \<and> 0 \<le> ps_EstimatedBillableUnits response \<and> ps_EstimatedBillableUnits response \<le> int (length (ps_Candidates response))
     \<and> length (ps_Warnings response) \<le> 64 \<and> list_all (\<lambda>w. length w \<le> 2048) (ps_Warnings response)
     \<and> distinct (map rc_CandidateID (ps_Candidates response))
     \<and> list_all (provider_candidate_ok (ps_RequestsUsed response)) (ps_Candidates response)"

lemma validateProviderRouteResponse_None: "validateProviderRouteResponse response request = None \<longleftrightarrow> response_contract request response"
proof -
  have sum: "add64 u r = u + r" if "1 \<le> u" "u \<le> 20" "0 \<le> r" "r \<le> 20" for u r
    using that by (intro add64_id) (simp add: in64_def)
  show ?thesis
    using sum [of "ps_RequestsUsed response" "ps_BudgetRemaining response"]
    unfolding validateProviderRouteResponse_def response_contract_def
    by (simp add: validate_candidates_None provider_limits not_less not_le list_ex_iff list_all_iff Suc_le_eq) auto
qed

text \<open>C16: the client hands a response to the orchestrator exactly when the service answered 200 with a decodable body in
  which the requests used lie between one and the budget granted for this call, the used and remaining requests
  together stay within that budget, the billed units do not exceed the number of routes, one to three routes with
  distinct ids are present, and every route and segment keeps the declared contract (valid coordinates, positive
  measurements, bounded sizes, scores and percentages in range, distinct segment ids).\<close>

theorem provider_response_contract:
  "routes reply request = Inr response \<longleftrightarrow>
     reply = Reply 200 (Some response) \<and> pr_RequestBudget request \<le> 20
     \<and> 1 \<le> ps_RequestsUsed response \<and> 0 \<le> ps_BudgetRemaining response
     \<and> ps_RequestsUsed response + ps_BudgetRemaining response \<le> pr_RequestBudget request
     \<and> 1 \<le> length (ps_Candidates response) \<and> length (ps_Candidates response) \<le> 3
     \<and> 0 \<le> ps_EstimatedBillableUnits response \<and> ps_EstimatedBillableUnits response \<le> int (length (ps_Candidates response))
     \<and> length (ps_Warnings response) \<le> 64 \<and> list_all (\<lambda>w. length w \<le> 2048) (ps_Warnings response)
     \<and> distinct (map rc_CandidateID (ps_Candidates response))
     \<and> list_all (provider_candidate_ok (ps_RequestsUsed response)) (ps_Candidates response)"
  using validateProviderRouteResponse_None [of response request] unfolding response_contract_def
  by (auto simp: routes_def split: http_reply.splits option.splits)

text \<open>An accepted list of API integrations has at most eight entries with distinct, trimmed, bounded identifiers, and an
  integration is primary exactly when it is active (fallback exactly when it is on standby).\<close>

theorem integrations_accepted:
  assumes "validateAPIIntegrations is = None"
  shows "length is \<le> 8 \<and> distinct (map api_ID is)
    \<and> list_all (\<lambda>i. trim_space (api_ID i) = api_ID i \<and> api_ID i \<noteq> [] \<and> length (api_ID i) \<le> 128
        \<and> (api_Role i = ''primary'' \<longleftrightarrow> api_State i = ''active'')
        \<and> (api_Role i = ''fallback'' \<longleftrightarrow> api_State i = ''standby'')) is"
proof -
  have "validate_integrations k seen js = None \<Longrightarrow> distinct (map api_ID js) \<and> set (map api_ID js) \<inter> set seen = {}
    \<and> list_all (\<lambda>i. trim_space (api_ID i) = api_ID i \<and> api_ID i \<noteq> [] \<and> length (api_ID i) \<le> 128
        \<and> (api_Role i = ''primary'' \<longleftrightarrow> api_State i = ''active'')
        \<and> (api_Role i = ''fallback'' \<longleftrightarrow> api_State i = ''standby'')) js" for k seen js
    by (induction k seen js rule: validate_integrations.induct) (auto simp: metadata_invalid_def provider_limits)
  from this [of 0 "[]" "is"] show ?thesis
    using assms by (simp add: validateAPIIntegrations_def provider_limits)
qed

theorem integrations_accepted_witness:
  "let i = \<lparr> api_ID = ''a'', api_Provider = ''2gis'', api_Product = ''p'', api_APIVersion = ''1'',
      api_Capability = ''routing'', api_Role = ''primary'', api_State = ''active'' \<rparr>
   in validateAPIIntegrations [i] = None \<and> distinct (map api_ID [i])"
proof -
  let ?i = "\<lparr> api_ID = ''a'', api_Provider = ''2gis'', api_Product = ''p'', api_APIVersion = ''1'',
      api_Capability = ''routing'', api_Role = ''primary'', api_State = ''active'' \<rparr>"
  have "validateAPIIntegrations [?i] = None"
    by (simp add: validateAPIIntegrations_def metadata_invalid_def provider_limits trim_space_def is_space_def)
  with integrations_accepted [OF this] show ?thesis by simp
qed

end
