(* ===== verification/Candidates.thy ===== *)
theory Candidates
  imports GreenSearch ProviderClient
begin

text \<open>
  The functions of \<open>services/routing-orchestrator/engine.go\<close> that work on routes and results without
  touching the engine's state: the sanitizer for provider routes, the traffic evidence of a route,
  control points, the fastest route, the green ranking shown to the user, and the small string helpers.
  \<open>Engine\<close> composes them into the search.
\<close>

section \<open>Small helpers\<close>

definition minInt :: "int \<Rightarrow> int \<Rightarrow> int" where
  "minInt a b = (if a < b then a else b)"

definition maxInt :: "int \<Rightarrow> int \<Rightarrow> int" where
  "maxInt a b = (if a > b then a else b)"

definition uniqueStrings :: "string list \<Rightarrow> string list" where
  "uniqueStrings values = unique_from [] values"

definition appendUniqueString :: "string list \<Rightarrow> string \<Rightarrow> string list" where
  "appendUniqueString values value = uniqueStrings (values @ [value])"

definition defaultString :: "string \<Rightarrow> string \<Rightarrow> string" where
  "defaultString value fallback = (if value = [] then fallback else value)"

text \<open>\<open>time.Time.Unix\<close> is the number of whole seconds since the epoch.\<close>

definition departureUnix :: "RouteSearchRequest \<Rightarrow> int64" where
  "departureUnix request = (case rq_DepartureTime request of None \<Rightarrow> 0 | Some t \<Rightarrow> t div 10 ^ 9)"

definition anyTollRoute :: "RouteCandidate list \<Rightarrow> bool" where
  "anyTollRoute candidates = list_ex rc_Tolls candidates"

definition warning_code :: "string \<Rightarrow> string" where
  "warning_code warning =
     (let normalized = to_lower warning in
      if contains_str normalized ''synthetic'' then ''SYNTHETIC_PROVIDER_DATA''
      else if contains_str normalized ''billable'' \<or> contains_str normalized ''commercial contract''
      then ''PROVIDER_BILLING_UNITS_ESTIMATED''
      else if contains_str normalized ''congestion'' \<or> contains_str normalized ''traffic''
      then ''PROVIDER_SEGMENT_CONGESTION_UNAVAILABLE''
      else ''PROVIDER_WARNING'')"

definition providerWarningCodes :: "ProviderRouteResponse \<Rightarrow> string list" where
  "providerWarningCodes response =
     foldl (\<lambda>result warning. appendUniqueString result (warning_code warning))
       (if ps_Degraded response then [''PROVIDER_DEGRADED''] else []) (ps_Warnings response)"

fun terminalEvent :: "SearchStatus \<Rightarrow> EventType" where
  "terminalEvent SearchCompleted = EventSearchCompleted"
| "terminalEvent SearchDegraded = EventSearchDegraded"
| "terminalEvent _ = EventSearchFailed"

fun terminalMessage :: "SearchStatus \<Rightarrow> string" where
  "terminalMessage SearchCompleted = ''Search completed''"
| "terminalMessage SearchDegraded = ''Search completed with degraded data''"
| "terminalMessage SearchCancelled = ''Search cancelled''"
| "terminalMessage _ = ''Search failed''"

section \<open>Copies\<close>

text \<open>The clone functions copy every slice; on values they are the identity, except that
  \<open>cloneResult\<close> turns nil route lists into empty ones.\<close>

definition cloneSegment :: "RouteSegment \<Rightarrow> RouteSegment" where
  "cloneSegment s = s\<lparr>seg_Geometry := [] @ seg_Geometry s,
     seg_Confidence := (seg_Confidence s)\<lparr>Reasons := [] @ Reasons (seg_Confidence s)\<rparr>\<rparr>"

definition cloneRoute :: "RouteCandidate \<Rightarrow> RouteCandidate" where
  "cloneRoute c = c\<lparr>rc_Geometry := [] @ rc_Geometry c,
     rc_Confidence := (rc_Confidence c)\<lparr>Reasons := [] @ Reasons (rc_Confidence c)\<rparr>,
     rc_Segments := map cloneSegment (rc_Segments c), rc_ReasonCodes := [] @ rc_ReasonCodes c\<rparr>"

definition cloneCandidate :: "RouteCandidate option \<Rightarrow> RouteCandidate option" where
  "cloneCandidate = map_option cloneRoute"

definition cloneCandidates :: "RouteCandidate list \<Rightarrow> RouteCandidate list" where
  "cloneCandidates values = map cloneRoute values"

text \<open>Ranging over a nil slice does nothing.\<close>

definition slice_of :: "'a list option \<Rightarrow> 'a list" where
  "slice_of xs = (case xs of None \<Rightarrow> [] | Some ys \<Rightarrow> ys)"

definition copyResult :: "RouteSearchResult option \<Rightarrow> RouteSearchResult option" where
  "copyResult = map_option (\<lambda>r. r\<lparr>rr_SelectedRoute := cloneCandidate (rr_SelectedRoute r),
     rr_FastestReferenceRoute := cloneCandidate (rr_FastestReferenceRoute r),
     rr_Alternatives := Some (cloneCandidates (slice_of (rr_Alternatives r))),
     rr_BestEffortRoutes := Some (cloneCandidates (slice_of (rr_BestEffortRoutes r))),
     rr_GreenTopRoutes := Some (cloneCandidates (slice_of (rr_GreenTopRoutes r))),
     rr_Warnings := [] @ rr_Warnings r\<rparr>)"

lemma cloneRoute_id [simp]: "cloneRoute c = c"
proof -
  have "cloneSegment s = s" for s by (simp add: cloneSegment_def)
  then have "map cloneSegment ss = ss" for ss by (induction ss) simp_all
  then show ?thesis by (simp add: cloneRoute_def)
qed

lemma cloneCandidate_id [simp]: "cloneCandidate v = v" and cloneCandidates_id [simp]: "cloneCandidates cs = cs"
proof -
  have "cloneRoute = id" by (simp add: fun_eq_iff)
  then show "cloneCandidate v = v" "cloneCandidates cs = cs"
    by (simp_all add: cloneCandidate_def cloneCandidates_def option.map_id)
qed

section \<open>Traffic evidence of a route\<close>

definition hasCompleteBaseline :: "RouteCandidate \<Rightarrow> bool" where
  "hasCompleteBaseline c \<longleftrightarrow> \<not> (rc_BaselineDurationSeconds c \<le> 0 \<or> rc_Segments c = [])
     \<and> list_all (\<lambda>s. \<not> (seg_BaselineDurationSeconds s \<le> 0 \<or> seg_GeometrySimilarity s \<le> 0)) (rc_Segments c)"

text \<open>The loop of \<open>hasCompleteProviderTrafficClasses\<close>: \<^term>\<open>None\<close> is the early \<open>return false\<close>.\<close>

fun traffic_scan :: "nat \<Rightarrow> int64 \<Rightarrow> int64 \<Rightarrow> RouteSegment list \<Rightarrow> (nat \<times> int64 \<times> int64) option" where
  "traffic_scan meaningful coveredDistance coveredDuration [] = Some (meaningful, coveredDistance, coveredDuration)"
| "traffic_scan meaningful coveredDistance coveredDuration (s # ss) =
     (if seg_DistanceMeters s \<le> 0 \<and> seg_LiveDurationSeconds s \<le> 0
      then traffic_scan meaningful coveredDistance coveredDuration ss
      else if seg_Source s \<noteq> SegmentSourceDGISTrafficColor \<or> \<not> validCongestionClass (seg_CongestionClass s) then None
      else traffic_scan (Suc meaningful) (add64 coveredDistance (max64 0 (seg_DistanceMeters s)))
             (add64 coveredDuration (max64 0 (seg_LiveDurationSeconds s))) ss)"

definition hasCompleteProviderTrafficClasses :: "RouteCandidate \<Rightarrow> bool" where
  "hasCompleteProviderTrafficClasses c =
     (if rc_Segments c = [] then False
      else case traffic_scan 0 0 0 (rc_Segments c) of
        None \<Rightarrow> False
      | Some (meaningful, coveredDistance, coveredDuration) \<Rightarrow>
          0 < meaningful \<and> coveredDistance = rc_DistanceMeters c \<and> coveredDuration = rc_LiveDurationSeconds c)"

definition ensureSegments :: "RouteCandidate \<Rightarrow> RouteSegment list" where
  "ensureSegments c =
     (if rc_Segments c \<noteq> [] then rc_Segments c
      else [\<lparr> seg_SegmentID = rc_CandidateID c @ ''-0'', seg_Geometry = rc_Geometry c,
              seg_DistanceMeters = rc_DistanceMeters c, seg_LiveDurationSeconds = rc_LiveDurationSeconds c,
              seg_BaselineDurationSeconds = 0, seg_TrafficRatio = 0, seg_CongestionClass = CongestionOther '''',
              seg_Confidence = zero_confidence, seg_GeometrySimilarity = 0, seg_Source = ''ROUTE_LEVEL'' \<rparr>])"

definition trafficEvidence :: "RouteCandidate \<Rightarrow> bool \<Rightarrow> bool \<Rightarrow> Evidence" where
  "trafficEvidence c geometryAvailable hasAlternatives =
     (let typeOfData = (if rc_TrafficDataType c = TrafficDataOther '''' then TrafficDataSynthetic else rc_TrafficDataType c);
          available = (geometryAvailable \<and> typeOfData \<noteq> TrafficDataUnknown \<and> typeOfData \<noteq> TrafficDataBaseline)
      in \<lparr> TrafficDataAvailable = available, evd_TrafficDataType = typeOfData, DataAgeKnown = False,
           DataAgeSeconds = 0, ProviderErrors = 0, HasAlternatives = hasAlternatives \<rparr>)"

definition hasUnknownTraffic :: "RouteCandidate \<Rightarrow> bool" where
  "hasUnknownTraffic c \<longleftrightarrow> rc_TrafficDataType c = TrafficDataUnknown \<or> rc_TrafficDataType c = TrafficDataBaseline
     \<or> list_ex (\<lambda>s. seg_CongestionClass s = CongestionUnknown) (rc_Segments c)
     \<or> UnknownDurationSeconds (rc_Metrics c) > 0 \<or> UnknownDistanceMeters (rc_Metrics c) > 0"

section \<open>Control points and the fastest route\<close>

definition controlPoints :: "libm \<Rightarrow> GeoPoint list \<Rightarrow> int \<Rightarrow> GeoPoint list" where
  "controlPoints lm points maximum =
     (if length points \<le> 2 then points
      else
        let simplified = Simplify lm points (flit 100); maximum = (if maximum < 2 then 2 else maximum) in
        if int (length simplified) \<le> maximum then simplified
        else map (\<lambda>index. simplified ! nat (to_i64 (fround (of_i64 (int index) * of_i64 (int (length simplified) - 1)
               / of_i64 (maximum - 1))))) [0..<nat maximum])"

text \<open>The head of the stable order by duration and id; only called on a non-empty list.\<close>

definition fastestRoute :: "RouteCandidate list \<Rightarrow> RouteCandidate" where
  "fastestRoute candidates = hd (sort_stable routeLess candidates)"

section \<open>The green ranking\<close>

definition greenTopRouteCount :: nat where
  "greenTopRouteCount = 3"

definition detourEndpointToleranceMeters :: f64 where
  "detourEndpointToleranceMeters = flit 400"

definition greener :: "RouteCandidate \<Rightarrow> RouteCandidate \<Rightarrow> bool" where
  "greener a b = (case (greenShare a, greenShare b) of ((leftDuration, leftDistance), (rightDuration, rightDistance)) \<Rightarrow>
     if \<not> feq leftDuration rightDuration then rightDuration < leftDuration
     else if \<not> feq leftDistance rightDistance then rightDistance < leftDistance
     else if RedDurationSeconds (rc_Metrics a) \<noteq> RedDurationSeconds (rc_Metrics b)
     then RedDurationSeconds (rc_Metrics a) < RedDurationSeconds (rc_Metrics b)
     else if rc_LiveDurationSeconds a \<noteq> rc_LiveDurationSeconds b
     then rc_LiveDurationSeconds a < rc_LiveDurationSeconds b
     else rc_CandidateID a < rc_CandidateID b)"

fun comparable_routes :: "string list \<Rightarrow> RouteCandidate list \<Rightarrow> RouteCandidate list" where
  "comparable_routes seen [] = []"
| "comparable_routes seen (c # cs) =
     (if rc_TrafficDataType c = TrafficDataUnknown \<or> rc_TrafficDataType c = TrafficDataBaseline
         \<or> rc_Segments c = [] \<or> rc_CandidateID c \<in> set seen
      then comparable_routes seen cs
      else c # comparable_routes (rc_CandidateID c # seen) cs)"

definition green_ranked :: "nat \<Rightarrow> RouteCandidate \<Rightarrow> RouteCandidate" where
  "green_ranked index c = (let c = cloneRoute c in
     c\<lparr>rc_ReasonCodes := appendUniqueString (rc_ReasonCodes c) (''GREEN_RANK_'' @ show_nat (index + 1))\<rparr>)"

definition topGreenRoutes :: "RouteCandidate list \<Rightarrow> nat \<Rightarrow> RouteCandidate list" where
  "topGreenRoutes candidates limit =
     (let comparable = take limit (sort_stable greener (comparable_routes [] candidates))
      in map (\<lambda>(index, c). green_ranked index c) (enumerate 0 comparable))"

section \<open>Hysteresis of the progress events\<close>

definition progress_tuple :: "RouteCandidate \<Rightarrow> int64 list" where
  "progress_tuple c = [RedDurationSeconds (rc_Metrics c), RedDistanceMeters (rc_Metrics c),
     OrangeDurationSeconds (rc_Metrics c), TotalTrafficDelaySeconds (rc_Metrics c),
     WorstContinuousCongestionMeters (rc_Metrics c), rc_LiveDurationSeconds c, rc_DistanceMeters c]"

fun tuple_improves :: "f64 \<Rightarrow> (int64 \<times> int64) list \<Rightarrow> bool option" where
  "tuple_improves minimum [] = None"
| "tuple_improves minimum ((previous, next') # rest) =
     (if next' = previous then tuple_improves minimum rest
      else if next' > previous then Some False
      else Some (minimum \<le> of_i64 (sub64 previous next') / of_i64 (max64 1 previous)))"

definition materiallyBetter :: "RouteCandidate option \<Rightarrow> RouteCandidate option \<Rightarrow> f64 \<Rightarrow> bool" where
  "materiallyBetter previous next' minimum = (case next' of
     None \<Rightarrow> False
   | Some n \<Rightarrow> (case previous of
       None \<Rightarrow> True
     | Some p \<Rightarrow> (case tuple_improves minimum (zip (progress_tuple p) (progress_tuple n)) of
         Some b \<Rightarrow> b
       | None \<Rightarrow> rc_CandidateID n \<noteq> rc_CandidateID p \<and> rc_Score n < rc_Score p * (1 - minimum))))"

section \<open>The sanitizer\<close>

definition maxCandidateGeometryPoints :: nat where "maxCandidateGeometryPoints = 4096"
definition maxCandidateSegments :: nat where "maxCandidateSegments = 2000"
definition maxCandidateSegmentPoints :: nat where "maxCandidateSegmentPoints = 20000"
definition maxCandidateDistanceMeters :: int64 where "maxCandidateDistanceMeters = 10000000"
definition geometryDistanceSlackMeters :: rat where "geometryDistanceSlackMeters = 25000"

lemmas sanitizer_limits = maxCandidateGeometryPoints_def maxCandidateSegments_def maxCandidateSegmentPoints_def
  maxCandidateDistanceMeters_def geometryDistanceSlackMeters_def

definition plausiblePolyline :: "libm \<Rightarrow> GeoPoint list \<Rightarrow> int64 \<Rightarrow> bool" where
  "plausiblePolyline lm points reportedDistance =
     (let len = PolylineLength lm points in
      if is_nan len \<or> is_inf len \<or> flit (of_int maxCandidateDistanceMeters) < len then False
      else len \<le> of_i64 reportedDistance * flit 2 + flit geometryDistanceSlackMeters)"

fun segments_valid :: "libm \<Rightarrow> nat \<Rightarrow> RouteSegment list \<Rightarrow> bool" where
  "segments_valid lm totalSegmentPoints [] = True"
| "segments_valid lm totalSegmentPoints (s # ss) =
     (let totalSegmentPoints = totalSegmentPoints + length (seg_Geometry s); g = seg_GeometrySimilarity s in
      if seg_DistanceMeters s < 0 \<or> seg_LiveDurationSeconds s < 0 \<or> seg_BaselineDurationSeconds s < 0
         \<or> is_nan g \<or> is_inf g \<or> g < 0 \<or> 1 < g \<or> length (seg_Geometry s) > maxCandidateGeometryPoints
         \<or> totalSegmentPoints > maxCandidateSegmentPoints
         \<or> (length (seg_Geometry s) > 1 \<and> \<not> plausiblePolyline lm (seg_Geometry s) (max64 1 (seg_DistanceMeters s)))
         \<or> list_ex (\<lambda>p. GeoPoint_Validate p \<noteq> None) (seg_Geometry s)
      then False else segments_valid lm totalSegmentPoints ss)"

definition candidate_accepted :: "libm \<Rightarrow> RouteCandidate \<Rightarrow> bool" where
  "candidate_accepted lm c \<longleftrightarrow>
     \<not> (rc_Blocked c \<or> rc_LiveDurationSeconds c \<le> 0 \<or> rc_DistanceMeters c > maxCandidateDistanceMeters
        \<or> length (rc_Geometry c) > maxCandidateGeometryPoints \<or> length (rc_Segments c) > maxCandidateSegments
        \<or> RouteCandidate_Validate c \<noteq> None \<or> \<not> plausiblePolyline lm (rc_Geometry c) (rc_DistanceMeters c))
     \<and> segments_valid lm 0 (rc_Segments c)"

definition mark_generated :: "string \<Rightarrow> RouteCandidate \<Rightarrow> RouteCandidate" where
  "mark_generated generatedBy c =
     (if generatedBy = ''ENHANCED_DETOUR'' then c\<lparr>rc_GeneratedBy := generatedBy\<rparr>
      else c\<lparr>rc_GeneratedBy := defaultString (rc_GeneratedBy c) generatedBy\<rparr>)"

fun sanitize_loop :: "libm \<Rightarrow> int \<Rightarrow> string \<Rightarrow> RouteCandidate list \<Rightarrow> RouteCandidate list \<Rightarrow> RouteCandidate list" where
  "sanitize_loop lm limit generatedBy valid [] = valid"
| "sanitize_loop lm limit generatedBy valid (c # cs) =
     (if int (length valid) \<ge> limit then valid
      else if candidate_accepted lm c then sanitize_loop lm limit generatedBy (valid @ [mark_generated generatedBy c]) cs
      else sanitize_loop lm limit generatedBy valid cs)"

definition sanitizeProviderCandidates :: "libm \<Rightarrow> RouteCandidate list \<Rightarrow> int \<Rightarrow> string \<Rightarrow> RouteCandidate list \<times> int" where
  "sanitizeProviderCandidates lm candidates limit generatedBy =
     (if limit \<le> 0 then ([], int (length candidates))
      else let valid = sanitize_loop lm limit generatedBy [] candidates
           in (valid, int (length candidates) - int (length valid)))"

section \<open>The sanitizer accepts only safe routes\<close>

definition segment_safe :: "RouteSegment \<Rightarrow> bool" where
  "segment_safe s \<longleftrightarrow> 0 \<le> seg_DistanceMeters s \<and> 0 \<le> seg_LiveDurationSeconds s \<and> 0 \<le> seg_BaselineDurationSeconds s
     \<and> frange 0 1 (seg_GeometrySimilarity s) \<and> length (seg_Geometry s) \<le> 4096 \<and> list_all point_ok (seg_Geometry s)"

definition route_safe :: "RouteCandidate \<Rightarrow> bool" where
  "route_safe c \<longleftrightarrow> rc_CandidateID c \<noteq> [] \<and> \<not> rc_Blocked c \<and> 0 < rc_LiveDurationSeconds c
     \<and> 0 < rc_DistanceMeters c \<and> rc_DistanceMeters c \<le> 10000000
     \<and> 2 \<le> length (rc_Geometry c) \<and> length (rc_Geometry c) \<le> 4096 \<and> list_all point_ok (rc_Geometry c)
     \<and> frange 0 1 (Score (rc_Confidence c)) \<and> length (rc_Segments c) \<le> 2000 \<and> list_all segment_safe (rc_Segments c)
     \<and> sum_list (map (length \<circ> seg_Geometry) (rc_Segments c)) \<le> 20000"

lemma segments_valid_safe:
  "segments_valid lm n ss \<Longrightarrow> n \<le> 20000 \<Longrightarrow> list_all segment_safe ss \<and> n + sum_list (map (length \<circ> seg_Geometry) ss) \<le> 20000"
proof (induction ss arbitrary: n)
  case (Cons s ss)
  have u: "\<not> is_nan g \<and> \<not> is_inf g \<and> \<not> g < 0 \<and> \<not> 1 < g \<longleftrightarrow> frange 0 1 g" for g by (rule not_unit)
  have f: "(if P then False else Q) \<longleftrightarrow> \<not> P \<and> Q" for P Q by simp
  have v: "0 \<le> seg_DistanceMeters s" "0 \<le> seg_LiveDurationSeconds s" "0 \<le> seg_BaselineDurationSeconds s"
    "frange 0 1 (seg_GeometrySimilarity s)" "length (seg_Geometry s) \<le> 4096" "n + length (seg_Geometry s) \<le> 20000"
    "\<forall>p \<in> set (seg_Geometry s). point_ok p" "segments_valid lm (n + length (seg_Geometry s)) ss"
    using Cons.prems(1)
    by (simp_all add: Let_def sanitizer_limits not_less not_le GeoPoint_Validate_None list_ex_iff f u [symmetric])
  then have "segment_safe s" by (simp add: segment_safe_def list_all_iff)
  with v Cons.IH [OF v(8) v(6)] show ?case by (simp add: add.assoc)
qed simp

lemma candidate_accepted_safe: "candidate_accepted lm c \<Longrightarrow> route_safe c"
  using segments_valid_safe [of lm 0 "rc_Segments c"] candidate_validate_None [of c]
  by (auto simp: candidate_accepted_def route_safe_def sanitizer_limits list_all_iff)

lemma mark_generated_safe [simp]: "route_safe (mark_generated g c) = route_safe c"
  by (simp add: route_safe_def mark_generated_def)

lemma sanitize_loop_eq:
  "sanitize_loop lm limit g valid cs = valid @ map (mark_generated g) (take (nat (limit - int (length valid))) (filter (candidate_accepted lm) cs))"
proof (induction lm limit g valid cs rule: sanitize_loop.induct)
  case (2 lm limit g valid c cs)
  have "nat (limit - int (length valid)) = Suc (nat (limit - int (length valid) - 1))" if "\<not> limit \<le> int (length valid)"
    using that by linarith
  with 2 show ?case by (auto simp: diff_diff_add add.commute)
qed simp

text \<open>C15: the sanitizer returns, in order and up to the limit, exactly the provider routes that pass every check, with the number of
  the others, and each returned route is safe to process: it has an id, positive distance and duration, at least
  two and at most 4096 valid points, and only segments with non-negative measurements, a similarity in [0,1] and valid
  points, within the size limits.\<close>

theorem sanitizer_correct:
  "sanitizeProviderCandidates lm candidates limit generatedBy =
     (map (mark_generated generatedBy) (take (nat limit) (filter (candidate_accepted lm) candidates)),
      int (length candidates) - int (min (nat limit) (length (filter (candidate_accepted lm) candidates))))
   \<and> list_all route_safe (fst (sanitizeProviderCandidates lm candidates limit generatedBy))"
proof -
  have "list_all route_safe (map (mark_generated generatedBy) (take (nat limit) (filter (candidate_accepted lm) candidates)))"
    by (auto simp: list_all_iff dest!: in_set_takeD intro: candidate_accepted_safe)
  then show ?thesis
    by (auto simp: sanitizeProviderCandidates_def sanitize_loop_eq Let_def min.commute)
qed

section \<open>Control points stay on the route\<close>

lemma controlPoints_facts:
  assumes "2 \<le> length points" "length points \<le> 2 ^ 20" "maximum \<le> 2 ^ 20"
  shows "2 \<le> length (controlPoints lm points maximum) \<and> int (length (controlPoints lm points maximum)) \<le> max 2 maximum
    \<and> hd (controlPoints lm points maximum) = hd points \<and> last (controlPoints lm points maximum) = last points
    \<and> set (controlPoints lm points maximum) \<subseteq> set points"
proof (cases "length points \<le> 2")
  case True
  then show ?thesis using assms by (auto simp: controlPoints_def)
next
  case False
  define sp where "sp = Simplify lm points (flit 100)"
  define m where "m = (if maximum < 2 then 2 else maximum)"
  have cp: "controlPoints lm points maximum = (if int (length sp) \<le> m then sp
      else map (\<lambda>index. sp ! nat (to_i64 (fround (of_i64 (int index) * of_i64 (int (length sp) - 1) / of_i64 (m - 1))))) [0..<nat m])"
    using False by (simp add: controlPoints_def sp_def m_def Let_def)
  have s: "hd sp = hd points" "last sp = last points" "2 \<le> length sp" "length sp \<le> 2 ^ 20" "set sp \<subseteq> set points"
    using Simplify_ends [OF assms(1,2), of lm "flit 100"] assms(2) unfolding sp_def by auto
  have m: "2 \<le> m" "m \<le> 2 ^ 20" "m = max 2 maximum" using assms(3) by (auto simp: m_def)
  show ?thesis
  proof (cases "int (length sp) \<le> m")
    case True
    then show ?thesis using s m by (simp add: cp)
  next
    case far: False
    have "int (nat m) = m" "2 \<le> nat m" "nat m \<le> 2 ^ 20" using m by auto
    with spread_points [of "nat m" sp] s m(1,2) m(3) [symmetric] far show ?thesis by (simp add: cp) blast
  qed
qed

text \<open>The control points that pin a route in a baseline request start and end where the route does, are points of the route,
  and are at least two and at most the provider's waypoint limit, so reading the first and the last point never fails.\<close>

theorem control_points_pin_route:
  assumes "route_safe c" "2 \<le> maximum" "maximum \<le> 50"
  shows "2 \<le> length (controlPoints lm (rc_Geometry c) maximum) \<and> int (length (controlPoints lm (rc_Geometry c) maximum)) \<le> maximum
    \<and> hd (controlPoints lm (rc_Geometry c) maximum) = hd (rc_Geometry c)
    \<and> last (controlPoints lm (rc_Geometry c) maximum) = last (rc_Geometry c)
    \<and> set (controlPoints lm (rc_Geometry c) maximum) \<subseteq> set (rc_Geometry c)"
  using controlPoints_facts [of "rc_Geometry c" maximum lm] assms by (auto simp: route_safe_def)

lemma ex_route_safe: "route_safe (ex_candidate ''a'' [ex_segment 1000 100 100])"
  by (simp add: route_safe_def segment_safe_def ex_defs zero_confidence_def point_ok_def zero_f64_def one_f64_def)

theorem control_points_pin_route_witness:
  "2 \<le> length (controlPoints ex_libm (rc_Geometry (ex_candidate ''a'' [ex_segment 1000 100 100])) 10)"
  using control_points_pin_route [OF ex_route_safe, of 10 ex_libm] by simp

section \<open>The green ranking is an ordered list of distinct measured routes\<close>

definition green_compare :: "RouteCandidate \<Rightarrow> RouteCandidate \<Rightarrow> int" where
  "green_compare a b =
     (if fcompare (fst (greenShare b)) (fst (greenShare a)) \<noteq> 0 then fcompare (fst (greenShare b)) (fst (greenShare a))
      else if fcompare (snd (greenShare b)) (snd (greenShare a)) \<noteq> 0 then fcompare (snd (greenShare b)) (snd (greenShare a))
      else if compare_ord (RedDurationSeconds (rc_Metrics a)) (RedDurationSeconds (rc_Metrics b)) \<noteq> 0
      then compare_ord (RedDurationSeconds (rc_Metrics a)) (RedDurationSeconds (rc_Metrics b))
      else if compare_ord (rc_LiveDurationSeconds a) (rc_LiveDurationSeconds b) \<noteq> 0
      then compare_ord (rc_LiveDurationSeconds a) (rc_LiveDurationSeconds b)
      else compare_ord (rc_CandidateID a) (rc_CandidateID b))"

lemma insert_stable_cong: "(\<And>y. y \<in> set ys \<Longrightarrow> lt y x = lt' y x) \<Longrightarrow> insert_stable lt x ys = insert_stable lt' x ys"
  by (induction ys) auto

lemma sort_stable_cong: "(\<And>x y. x \<in> set xs \<Longrightarrow> y \<in> set xs \<Longrightarrow> lt x y = lt' x y) \<Longrightarrow> sort_stable lt xs = sort_stable lt' xs"
proof (induction xs)
  case (Cons x xs)
  then have "sort_stable lt xs = sort_stable lt' xs" by simp
  then show ?case using Cons.prems by (auto intro!: insert_stable_cong)
qed simp

lemma three_way_flip: "three_way c \<Longrightarrow> three_way (\<lambda>x y. c y x)"
  unfolding three_way_def by blast

interpretation green_order: three_way green_compare
  unfolding green_compare_def
  by (intro three_way_lex three_way_key [OF three_way_ord] three_way_flip [OF three_way_key [OF three_way_fcompare]])

definition in_range :: "RouteCandidate \<Rightarrow> bool" where
  "in_range c \<longleftrightarrow> in64 (rc_LiveDurationSeconds c) \<and> in64 (rc_DistanceMeters c)"

lemma share_not_nan: "in64 g \<Longrightarrow> in64 t \<Longrightarrow> 0 < t \<Longrightarrow> of_i64 g / of_i64 t * flit 100 \<noteq> NaN"
proof -
  assume "in64 g" "in64 t" "0 < t"
  then have "of_i64 g = Fin (rnd (of_int g))" "of_i64 t = Fin (rnd (of_int t))" "rnd (of_int t) \<noteq> 0"
    using rnd_of_int_pos [of t] by (simp_all add: of_i64_fin)
  moreover have "a * Fin 100 \<noteq> NaN" if "a \<noteq> NaN" for a using that by (cases a) (auto simp: times_f64_def finf_def)
  ultimately show ?thesis using flit_small [of 100] by simp
qed

lemma greenShare_not_nan: "in_range c \<Longrightarrow> fst (greenShare c) \<noteq> NaN \<and> snd (greenShare c) \<noteq> NaN"
proof -
  assume "in_range c"
  then have "in64 (max64 (sum64 xs) (rc_LiveDurationSeconds c))" "in64 (max64 (sum64 xs) (rc_DistanceMeters c))" "in64 (sum64 xs)" for xs
    by (simp_all add: max64_def in_range_def sum64_wrap wrap64_in64)
  then show ?thesis unfolding greenShare_def Let_def by (auto simp: zero_f64_def share_not_nan simp del: flit_offsets)
qed

lemma fcompare_cases: "a \<noteq> NaN \<Longrightarrow> b \<noteq> NaN \<Longrightarrow> fcompare a b = (if a < b then - 1 else if feq a b then 0 else 1)"
  by (cases a; cases b) (auto simp: fcompare_def feq_def)

lemma f64_irrefl [simp]: "\<not> a < (a :: f64)"
  by (cases a) (auto simp: less_f64_def)

lemma greener_compare: "in_range a \<Longrightarrow> in_range b \<Longrightarrow> greener a b \<longleftrightarrow> green_compare a b < 0"
  using greenShare_not_nan [of a] greenShare_not_nan [of b]
  unfolding greener_def green_compare_def
  by (cases "greenShare a"; cases "greenShare b")
    (auto simp: fcompare_cases compare_ord_def feq_def split: if_splits)

lemma comparable_routes_facts:
  "set (comparable_routes seen cs) = set (comparable_routes seen cs) \<inter> set cs"
  "distinct (map rc_CandidateID (comparable_routes seen cs))"
  "set (map rc_CandidateID (comparable_routes seen cs)) = rc_CandidateID ` {c \<in> set cs. rc_TrafficDataType c \<noteq> TrafficDataUnknown
     \<and> rc_TrafficDataType c \<noteq> TrafficDataBaseline \<and> rc_Segments c \<noteq> [] \<and> rc_CandidateID c \<notin> set seen}"
  by (induction seen cs rule: comparable_routes.induct) auto

text \<open>The list of greenest routes shown to the user holds distinct candidates with measured traffic, at most the requested number, ordered by
  green share of the duration, then of the distance, then red time, duration and id; no measured candidate left out is
  greener than one shown, and the i-th route carries the reason code of its rank.\<close>

theorem top_green_ranking:
  assumes "list_all in_range candidates"
  shows "\<exists>shown rest. mset (shown @ rest) = mset (comparable_routes [] candidates)
    \<and> length shown = min limit (length (comparable_routes [] candidates))
    \<and> sorted_wrt (\<lambda>a b. \<not> greener b a) (shown @ rest)
    \<and> distinct (map rc_CandidateID (shown @ rest))
    \<and> map rc_CandidateID (topGreenRoutes candidates limit) = map rc_CandidateID shown
    \<and> (\<forall>i < length shown. set (rc_ReasonCodes (topGreenRoutes candidates limit ! i)) =
          (set (rc_ReasonCodes (shown ! i)) - {''''}) \<union> {''GREEN_RANK_'' @ show_nat (i + 1)})"
proof -
  define cs where "cs = comparable_routes [] candidates"
  define os where "os = sort_stable greener cs"
  have r: "list_all in_range cs" using assms comparable_routes_facts(1) [of "[]" candidates] by (auto simp: cs_def list_all_iff)
  have "os = sort_stable (\<lambda>a b. green_compare a b < 0) cs"
    unfolding os_def using r by (intro sort_stable_cong) (auto simp: list_all_iff greener_compare)
  then have "sorted_wrt (\<lambda>a b. \<not> green_compare b a < 0) os" by (simp add: green_order.sort_stable_sorted)
  moreover have "list_all in_range os" using r by (simp add: os_def list_all_iff)
  ultimately have s: "sorted_wrt (\<lambda>a b. \<not> greener b a) os"
    by (auto simp: list_all_iff greener_compare intro: sorted_wrt_mono_rel [rotated])
  have top: "topGreenRoutes candidates limit = map (\<lambda>(i, c). green_ranked i c) (enumerate 0 (take limit os))"
    by (simp add: topGreenRoutes_def os_def cs_def Let_def)
  have nth: "topGreenRoutes candidates limit ! i = green_ranked i (take limit os ! i)" if "i < length (take limit os)" for i
    using that by (simp add: top nth_enumerate_eq)
  have "map rc_CandidateID (topGreenRoutes candidates limit) = map rc_CandidateID (take limit os)"
    by (rule nth_equalityI) (simp_all add: top nth_enumerate_eq green_ranked_def Let_def)
  moreover have "distinct (map rc_CandidateID os)"
    using comparable_routes_facts(2) by (simp add: os_def cs_def distinct_map_sort_stable)
  moreover have "set (rc_ReasonCodes (topGreenRoutes candidates limit ! i)) =
      (set (rc_ReasonCodes (take limit os ! i)) - {''''}) \<union> {''GREEN_RANK_'' @ show_nat (i + 1)}" if "i < length (take limit os)" for i
    by (auto simp: nth [OF that] green_ranked_def Let_def appendUniqueString_def uniqueStrings_def set_unique_from)
  ultimately show ?thesis
    using s by (intro exI [of _ "take limit os"] exI [of _ "drop limit os"])
      (simp add: os_def cs_def min.commute del: nth_take)
qed

theorem top_green_ranking_witness:
  "map rc_CandidateID (topGreenRoutes [ex_candidate ''a'' [ex_segment 1000 100 100]] 3) = [''a'']"
proof -
  let ?c = "ex_candidate ''a'' [ex_segment 1000 100 100]"
  have "in_range ?c" by (simp add: in_range_def in64_def ex_defs)
  then have "list_all in_range [?c]" by simp
  from top_green_ranking [OF this, of 3] obtain shown rest where
    s: "mset (shown @ rest) = mset (comparable_routes [] [?c])" "length shown = min 3 (length (comparable_routes [] [?c]))"
      "map rc_CandidateID (topGreenRoutes [?c] 3) = map rc_CandidateID shown" by blast
  have c: "comparable_routes [] [?c] = [?c]" by (simp add: ex_defs)
  then have "length shown = 1" using s(2) by simp
  then have "shown = [?c]" using s(1) unfolding c by (cases shown) auto
  then show ?thesis using s(3) by (simp add: ex_candidate_def)
qed

section \<open>Progress events fire only on real improvements\<close>

text \<open>A reported improvement never makes the first differing dimension worse.\<close>

lemma tuple_improves_Some: "tuple_improves minimum ps = Some True \<Longrightarrow> \<exists>k < length ps. snd (ps ! k) < fst (ps ! k) \<and> (\<forall>j < k. snd (ps ! j) = fst (ps ! j))"
proof (induction minimum ps rule: tuple_improves.induct)
  case (2 minimum p n rest)
  show ?case
  proof (cases "n = p")
    case True
    with 2 obtain k where "k < length rest" "snd (rest ! k) < fst (rest ! k)" "\<forall>j < k. snd (rest ! j) = fst (rest ! j)" by auto
    with True show ?thesis by (intro exI [of _ "Suc k"]) (auto simp: nth_Cons split: nat.split)
  next
    case False
    with 2 show ?thesis by (intro exI [of _ 0]) (auto split: if_splits)
  qed
qed simp

end
