(* ===== verification/Budget.thy ===== *)
theory Budget
  imports Prelude
begin

text \<open>
  The provider request budget of one search (\<open>services/routing-orchestrator/budget.go\<close>). Workers
  lease part of the budget before a provider call and finish the lease with the number of requests
  the call really used. Each operation holds the budget's mutex, so a run of concurrent workers is a
  sequence of operations in some order: the step relation \<open>budget_step\<close> allows every order.
\<close>

section \<open>State and operations\<close>

record requestBudget =
  rb_limit :: int64
  rb_used :: int64
  rb_reserved :: int64
  rb_billable :: int64

record budgetLease =
  bl_allowance :: int64
  bl_done :: bool

definition newRequestBudget :: "int64 \<Rightarrow> requestBudget" where
  "newRequestBudget limit = \<lparr> rb_limit = limit, rb_used = 0, rb_reserved = 0, rb_billable = 0 \<rparr>"

definition lease :: "int64 \<Rightarrow> requestBudget \<Rightarrow> budgetLease option \<times> requestBudget" where
  "lease maxAllowance b =
     (let available = sub64 (sub64 (rb_limit b) (rb_used b)) (rb_reserved b) in
      if available \<le> 0 then (None, b)
      else
        let maxAllowance = (if maxAllowance < 1 then 1 else maxAllowance);
            available = (if available > maxAllowance then maxAllowance else available)
        in (Some \<lparr> bl_allowance = available, bl_done = False \<rparr>,
            b\<lparr>rb_reserved := add64 (rb_reserved b) available\<rparr>))"

definition lease_finish :: "int64 \<Rightarrow> budgetLease \<Rightarrow> requestBudget \<Rightarrow> budgetLease \<times> requestBudget" where
  "lease_finish actual l b =
     (if bl_done l then (l, b)
      else
        let actual = (if actual < 0 then 0 else actual);
            actual = (if actual > bl_allowance l then bl_allowance l else actual)
        in (l\<lparr>bl_done := True\<rparr>,
            b\<lparr>rb_reserved := sub64 (rb_reserved b) (bl_allowance l), rb_used := add64 (rb_used b) actual\<rparr>))"

text \<open>\<open>snapshot\<close> returns used, remaining and exhausted.\<close>

definition snapshot :: "requestBudget \<Rightarrow> int64 \<times> int64 \<times> bool" where
  "snapshot b = (rb_used b, sub64 (sub64 (rb_limit b) (rb_used b)) (rb_reserved b),
     add64 (rb_used b) (rb_reserved b) \<ge> rb_limit b)"

definition addBillable :: "int64 \<Rightarrow> requestBudget \<Rightarrow> requestBudget" where
  "addBillable units b = (if units \<le> 0 then b else b\<lparr>rb_billable := add64 (rb_billable b) units\<rparr>)"

definition billableUnits :: "requestBudget \<Rightarrow> int64" where
  "billableUnits b = rb_billable b"

section \<open>Interleavings\<close>

text \<open>A state is the budget with all leases issued so far; workers lease, finish and bill in any order.\<close>

type_synonym budget_sys = "requestBudget \<times> budgetLease list"

inductive budget_step :: "budget_sys \<Rightarrow> budget_sys \<Rightarrow> bool" where
  granted: "lease n b = (Some l, b') \<Longrightarrow> budget_step (b, ls) (b', ls @ [l])"
| refused: "lease n b = (None, b') \<Longrightarrow> budget_step (b, ls) (b', ls)"
| finished: "i < length ls \<Longrightarrow> lease_finish actual (ls ! i) b = (l', b') \<Longrightarrow> budget_step (b, ls) (b', ls[i := l'])"
| billed: "budget_step (b, ls) (addBillable u b, ls)"

inductive budget_run :: "int64 \<Rightarrow> budget_sys \<Rightarrow> bool" for limit where
  start: "budget_run limit (newRequestBudget limit, [])"
| more: "budget_run limit s \<Longrightarrow> budget_step s s' \<Longrightarrow> budget_run limit s'"

inductive_cases budget_stepE: "budget_step (b, ls) s'"

definition open_allowances :: "budgetLease list \<Rightarrow> int" where
  "open_allowances ls = sum_list (map (\<lambda>l. if bl_done l then 0 else bl_allowance l) ls)"

definition budget_inv :: "int64 \<Rightarrow> budget_sys \<Rightarrow> bool" where
  "budget_inv limit s \<longleftrightarrow> (case s of (b, ls) \<Rightarrow>
     rb_limit b = limit \<and> 0 \<le> rb_used b \<and> rb_used b + rb_reserved b \<le> limit
     \<and> rb_reserved b = open_allowances ls \<and> list_all (\<lambda>l. 1 \<le> bl_allowance l) ls)"

lemma open_allowances_simps [simp]:
  "open_allowances [] = 0"
  "open_allowances (l # ls) = (if bl_done l then 0 else bl_allowance l) + open_allowances ls"
  "open_allowances (ls @ ms) = open_allowances ls + open_allowances ms"
  by (simp_all add: open_allowances_def)

lemma open_allowances_nonneg: "list_all (\<lambda>l. 1 \<le> bl_allowance l) ls \<Longrightarrow> 0 \<le> open_allowances ls"
  by (induction ls) auto

lemma open_allowances_update:
  "i < length ls \<Longrightarrow> open_allowances (ls[i := l]) =
     open_allowances ls - (if bl_done (ls ! i) then 0 else bl_allowance (ls ! i)) + (if bl_done l then 0 else bl_allowance l)"
proof (induction ls arbitrary: i)
  case (Cons k ls)
  then show ?case by (cases i) auto
qed simp

lemma budget_lease_inv:
  assumes "budget_inv limit (b, ls)" "in64 limit"
  shows "lease n b = (let a = limit - rb_used b - rb_reserved b; m = min a (max 1 n) in
     if a \<le> 0 then (None, b) else (Some \<lparr> bl_allowance = m, bl_done = False \<rparr>, b\<lparr>rb_reserved := rb_reserved b + m\<rparr>))"
proof -
  have i: "rb_limit b = limit" "0 \<le> rb_used b" "rb_used b + rb_reserved b \<le> limit" "0 \<le> rb_reserved b"
    using assms(1) open_allowances_nonneg by (auto simp: budget_inv_def)
  then have a: "sub64 (sub64 (rb_limit b) (rb_used b)) (rb_reserved b) = limit - rb_used b - rb_reserved b"
    using assms(2) by (simp add: sub64_def wrap64_pull wrap64_id in64_def)
  have "in64 (rb_reserved b + m)" if "0 \<le> m" "m \<le> limit - rb_used b - rb_reserved b" for m
    using that i assms(2) by (simp add: in64_def)
  then show ?thesis
    unfolding lease_def Let_def a by (auto simp: add64_id min_def max_def)
qed

lemma budget_finish_inv:
  assumes "budget_inv limit (b, ls)" "in64 limit" "i < length ls" "\<not> bl_done (ls ! i)"
  shows "lease_finish n (ls ! i) b = ((ls ! i)\<lparr>bl_done := True\<rparr>,
     b\<lparr>rb_reserved := rb_reserved b - bl_allowance (ls ! i), rb_used := rb_used b + min (max 0 n) (bl_allowance (ls ! i))\<rparr>)
   \<and> 1 \<le> bl_allowance (ls ! i) \<and> bl_allowance (ls ! i) \<le> rb_reserved b"
proof -
  have i: "0 \<le> rb_used b" "rb_used b + rb_reserved b \<le> limit" "rb_reserved b = open_allowances ls"
    and all: "list_all (\<lambda>l. 1 \<le> bl_allowance l) ls"
    using assms(1) by (auto simp: budget_inv_def)
  have one: "1 \<le> bl_allowance (ls ! i)" using all assms(3) by (simp add: list_all_length)
  have "open_allowances (ls[i := (ls ! i)\<lparr>bl_done := True\<rparr>]) = open_allowances ls - bl_allowance (ls ! i)"
    using assms(3,4) by (simp add: open_allowances_update)
  moreover have "0 \<le> open_allowances (ls[i := (ls ! i)\<lparr>bl_done := True\<rparr>])"
    using all one assms(3) by (intro open_allowances_nonneg) (auto simp: list_all_length nth_list_update)
  ultimately have le: "bl_allowance (ls ! i) \<le> rb_reserved b" using i(3) by simp
  then have "in64 (rb_reserved b - bl_allowance (ls ! i))" "in64 (rb_used b + min (max 0 n) (bl_allowance (ls ! i)))"
    using i one assms(2) by (auto simp: in64_def)
  then show ?thesis
    using assms(4) one le by (auto simp: lease_finish_def Let_def sub64_id add64_id min_def max_def)
qed

lemma budget_step_inv:
  assumes "budget_step s s'" "budget_inv limit s" "in64 limit"
  shows "budget_inv limit s'"
  using assms(1)
proof (cases rule: budget_step.cases)
  case (granted n b l b' ls)
  then show ?thesis
    using budget_lease_inv [of limit b ls n] assms(2,3) by (auto simp: budget_inv_def Let_def split: if_splits)
next
  case (refused n b b' ls)
  then show ?thesis
    using budget_lease_inv [of limit b ls n] assms(2,3) by (auto simp: Let_def split: if_splits)
next
  case (finished i ls actual b l' b')
  show ?thesis
  proof (cases "bl_done (ls ! i)")
    case True
    then show ?thesis using finished assms(2) by (auto simp: lease_finish_def)
  next
    case False
    then show ?thesis
      using finished assms(2) budget_finish_inv [OF assms(2) [unfolded finished] assms(3) finished(3) False, of actual]
      by (auto simp: budget_inv_def open_allowances_update list_all_length nth_list_update)
  qed
next
  case (billed b ls u)
  then show ?thesis using assms(2) by (auto simp: budget_inv_def addBillable_def)
qed

lemma budget_run_inv: "budget_run limit s \<Longrightarrow> 0 \<le> limit \<Longrightarrow> in64 limit \<Longrightarrow> budget_inv limit s"
proof (induction rule: budget_run.induct)
  case start
  then show ?case by (simp add: budget_inv_def newRequestBudget_def)
next
  case (more s s')
  then show ?case using budget_step_inv by blast
qed

section \<open>The budget is never exceeded\<close>

text \<open>C8: in every interleaving of leases, finishes and billing, the requests used plus those reserved by running calls
  never exceed the limit; a new lease is refused exactly when nothing is left and otherwise grants at least one
  and at most the remaining requests; and once every lease is finished nothing stays reserved.\<close>

theorem budget_never_exceeded:
  assumes "budget_run limit (b, ls)" "0 \<le> limit" "in64 limit"
  shows "0 \<le> rb_used b \<and> 0 \<le> rb_reserved b \<and> rb_used b + rb_reserved b \<le> limit
    \<and> snapshot b = (rb_used b, limit - rb_used b - rb_reserved b, rb_used b + rb_reserved b = limit)
    \<and> (case lease n b of
         (None, b') \<Rightarrow> b' = b \<and> rb_used b + rb_reserved b = limit
       | (Some l, b') \<Rightarrow> 1 \<le> bl_allowance l \<and> bl_allowance l \<le> limit - rb_used b - rb_reserved b \<and> bl_allowance l \<le> max 1 n)
    \<and> (list_all bl_done ls \<longrightarrow> rb_reserved b = 0)"
proof -
  have inv: "budget_inv limit (b, ls)" using assms by (rule budget_run_inv)
  have i: "rb_limit b = limit" "0 \<le> rb_used b" "rb_used b + rb_reserved b \<le> limit" "rb_reserved b = open_allowances ls"
    "0 \<le> rb_reserved b"
    using inv open_allowances_nonneg by (auto simp: budget_inv_def)
  have "sub64 (sub64 (rb_limit b) (rb_used b)) (rb_reserved b) = limit - rb_used b - rb_reserved b"
    "add64 (rb_used b) (rb_reserved b) = rb_used b + rb_reserved b"
    using i assms(3) by (simp_all add: sub64_def add64_def wrap64_pull wrap64_id in64_def)
  then have "snapshot b = (rb_used b, limit - rb_used b - rb_reserved b, rb_used b + rb_reserved b = limit)"
    using i by (auto simp: snapshot_def)
  moreover have "rb_reserved b = 0" if "list_all bl_done ls"
    using that unfolding i(4) by (induction ls) auto
  ultimately show ?thesis
    using i budget_lease_inv [OF inv assms(3), of n] by (auto simp: Let_def)
qed

theorem budget_never_exceeded_witness:
  "\<exists>b ls. budget_run 3 (b, ls) \<and> length ls = 1 \<and> rb_used b + rb_reserved b \<le> 3"
proof -
  have l: "lease 2 (newRequestBudget 3) = (Some \<lparr> bl_allowance = 2, bl_done = False \<rparr>, (newRequestBudget 3)\<lparr>rb_reserved := 2\<rparr>)"
    by (simp add: lease_def newRequestBudget_def sub64_def add64_def wrap64_def)
  have r: "budget_run 3 ((newRequestBudget 3)\<lparr>rb_reserved := 2\<rparr>, [\<lparr> bl_allowance = 2, bl_done = False \<rparr>])"
    using budget_run.more [OF budget_run.start [of 3] budget_step.granted [OF l, of "[]"]] by simp
  have "in64 3" by (simp add: in64_def)
  from budget_never_exceeded [OF r _ this] r show ?thesis by (metis length_Cons list.size(3) One_nat_def zero_le_numeral)
qed

end
