(* ===== verification/SearchStore.thy ===== *)
theory SearchStore
  imports Examples
begin

text \<open>
  The search store (\<open>internal/searchstore/store.go\<close>), in-memory implementation: results, their event
  logs and their expiry. Every operation runs under the store's lock, so it is a function from
  state to state; the readings of \<open>time.Now()\<close> inside an operation are its first arguments, and
  the iteration order of Go's map in \<open>ActiveBefore\<close> is an argument as well.

  The store copies values through JSON (\<open>cloneResult\<close>, \<open>cloneEvent\<close>). Encoding fails for a float
  that is not finite; the copy is then the zero value. On every other value the round trip is the
  identity of the modelled data (the two encodings \<open>null\<close> and \<open>[]\<close> of the top-level route
  lists stay distinct).

  The locale \<open>event_log\<close> states what the rest of the system relies on: appending assigns the next
  number, and a reader that polls with the last number it has seen receives the whole log once and
  in order. \<open>Memory\<close> is an interpretation of it.
\<close>

section \<open>Copies through JSON\<close>

definition fin64 :: "f64 \<Rightarrow> bool" where
  "fin64 a \<longleftrightarrow> \<not> is_nan a \<and> \<not> is_inf a"

definition point_json_ok :: "GeoPoint \<Rightarrow> bool" where
  "point_json_ok p \<longleftrightarrow> fin64 (Latitude p) \<and> fin64 (Longitude p)"

definition segment_json_ok :: "RouteSegment \<Rightarrow> bool" where
  "segment_json_ok s \<longleftrightarrow> list_all point_json_ok (seg_Geometry s) \<and> fin64 (seg_TrafficRatio s)
     \<and> fin64 (Score (seg_Confidence s)) \<and> fin64 (seg_GeometrySimilarity s)"

definition candidate_json_ok :: "RouteCandidate \<Rightarrow> bool" where
  "candidate_json_ok c \<longleftrightarrow> list_all point_json_ok (rc_Geometry c) \<and> list_all segment_json_ok (rc_Segments c)
     \<and> fin64 (Score (rc_Confidence c)) \<and> fin64 (rc_Score c)
     \<and> fin64 (CongestedDistancePercent (rc_Metrics c)) \<and> fin64 (CongestedDurationPercent (rc_Metrics c))
     \<and> fin64 (GreenDistancePercent (rc_Metrics c))"

definition result_json_ok :: "RouteSearchResult \<Rightarrow> bool" where
  "result_json_ok r \<longleftrightarrow> pred_option candidate_json_ok (rr_SelectedRoute r)
     \<and> pred_option (list_all candidate_json_ok) (rr_Alternatives r)
     \<and> pred_option (list_all candidate_json_ok) (rr_BestEffortRoutes r)
     \<and> pred_option (list_all candidate_json_ok) (rr_GreenTopRoutes r)
     \<and> pred_option candidate_json_ok (rr_FastestReferenceRoute r)
     \<and> fin64 (ac_MaxExtraDistancePercent (rr_Constraints r)) \<and> fin64 (ac_MinimumConfidenceScore (rr_Constraints r))
     \<and> fin64 (pu_EstimatedCost (rr_ProviderUsage r))"

definition event_json_ok :: "SearchEvent \<Rightarrow> bool" where
  "event_json_ok e \<longleftrightarrow> pred_option candidate_json_ok (ev_Candidate e) \<and> pred_option result_json_ok (ev_Result e)"

definition zero_result :: RouteSearchResult where
  "zero_result = \<lparr> rr_SearchID = '''', rr_RequestID = '''', rr_Status = SearchOther '''', rr_SelectedRoute = None,
     rr_Alternatives = None, rr_BestEffortRoutes = None, rr_GreenTopRoutes = None, rr_FastestReferenceRoute = None,
     rr_Constraints = \<lparr> ac_MaxExtraDistanceMeters = 0, ac_MaxExtraDistancePercent = 0, ac_MaxExtraTimeSeconds = 0,
       ac_MinimumConfidenceScore = 0, ac_AvoidTolls = False, ac_AvoidUnpaved = False \<rparr>,
     rr_ProviderUsage = \<lparr> pu_Provider = '''', pu_RequestsUsed = 0, pu_RequestBudget = 0,
       pu_EstimatedBillableUnits = 0, pu_EstimatedCost = 0, pu_BudgetExhausted = False \<rparr>,
     rr_Warnings = [], rr_ScoringPolicyVersion = '''', rr_GeneratedAt = 0, rr_ExpiresAt = 0 \<rparr>"

definition zero_event :: SearchEvent where
  "zero_event = \<lparr> ev_EventID = 0, ev_SearchID = '''', ev_Type = EventOther '''', ev_Timestamp = 0, ev_Message = '''',
     ev_Candidate = None, ev_Result = None, ev_Metadata = [] \<rparr>"

definition cloneResult :: "RouteSearchResult \<Rightarrow> RouteSearchResult" where
  "cloneResult v = (if result_json_ok v then v else zero_result)"

definition cloneEvent :: "SearchEvent \<Rightarrow> SearchEvent" where
  "cloneEvent v = (if event_json_ok v then v else zero_event)"

fun terminalStatus :: "SearchStatus \<Rightarrow> bool" where
  "terminalStatus SearchCompleted = True"
| "terminalStatus SearchDegraded = True"
| "terminalStatus SearchFailed = True"
| "terminalStatus SearchCancelled = True"
| "terminalStatus _ = False"

section \<open>The in-memory store\<close>

datatype store_error = ErrNotFound | ErrAlreadyExists string

record memoryRecord =
  mr_result :: RouteSearchResult
  mr_events :: "SearchEvent list"
  mr_expiresAt :: time
  mr_nextEvent :: int64

type_synonym Memory = "string \<rightharpoonup> memoryRecord"

definition maximumEventReplayBatch :: int64 where
  "maximumEventReplayBatch = 128"

definition NewMemory :: Memory where
  "NewMemory = Map.empty"

definition purgeExpiredLocked :: "time \<Rightarrow> Memory \<Rightarrow> Memory" where
  "purgeExpiredLocked now m = (\<lambda>sid. case m sid of None \<Rightarrow> None
     | Some record \<Rightarrow> if now > mr_expiresAt record then None else Some record)"

definition Memory_Create ::
    "time \<Rightarrow> time \<Rightarrow> RouteSearchResult \<Rightarrow> duration \<Rightarrow> Memory \<Rightarrow> store_error option \<times> Memory" where
  "Memory_Create now now' result ttl m =
     (let m = purgeExpiredLocked now m in
      case m (rr_SearchID result) of
        Some _ \<Rightarrow> (Some (ErrAlreadyExists (rr_SearchID result)), m)
      | None \<Rightarrow> (None, m(rr_SearchID result \<mapsto>
          \<lparr> mr_result = cloneResult result, mr_events = [], mr_expiresAt = now' + ttl, mr_nextEvent = 0 \<rparr>)))"

text \<open>The record of an id that has not expired.\<close>

definition live :: "time \<Rightarrow> string \<Rightarrow> Memory \<Rightarrow> memoryRecord option" where
  "live now sid m = (case m sid of None \<Rightarrow> None
     | Some record \<Rightarrow> if now > mr_expiresAt record then None else Some record)"

definition Memory_Get :: "time \<Rightarrow> string \<Rightarrow> Memory \<Rightarrow> store_error + RouteSearchResult" where
  "Memory_Get now sid m =
     (case live now sid m of None \<Rightarrow> Inl ErrNotFound | Some record \<Rightarrow> Inr (cloneResult (mr_result record)))"

definition Memory_Update ::
    "time \<Rightarrow> time \<Rightarrow> RouteSearchResult \<Rightarrow> duration \<Rightarrow> Memory \<Rightarrow> store_error option \<times> Memory" where
  "Memory_Update now now' result ttl m =
     (case live now (rr_SearchID result) m of
        None \<Rightarrow> (Some ErrNotFound, m)
      | Some record \<Rightarrow> (None, m(rr_SearchID result \<mapsto>
          record\<lparr>mr_result := cloneResult result, mr_expiresAt := now' + ttl\<rparr>)))"

definition Memory_Delete :: "string \<Rightarrow> Memory \<Rightarrow> store_error option \<times> Memory" where
  "Memory_Delete sid m = (case m sid of None \<Rightarrow> (Some ErrNotFound, m) | Some _ \<Rightarrow> (None, m(sid := None)))"

definition push_event :: "SearchEvent \<Rightarrow> memoryRecord \<Rightarrow> SearchEvent \<times> memoryRecord" where
  "push_event event record =
     (let nextEvent = add64 (mr_nextEvent record) 1; event = event\<lparr>ev_EventID := nextEvent\<rparr>
      in (event, record\<lparr>mr_nextEvent := nextEvent, mr_events := mr_events record @ [cloneEvent event]\<rparr>))"

definition Memory_AppendEvent ::
    "time \<Rightarrow> time \<Rightarrow> SearchEvent \<Rightarrow> duration \<Rightarrow> Memory \<Rightarrow> (store_error + SearchEvent) \<times> Memory" where
  "Memory_AppendEvent now now' event ttl m =
     (case live now (ev_SearchID event) m of
        None \<Rightarrow> (Inl ErrNotFound, m)
      | Some record \<Rightarrow> (case push_event event record of (event', record) \<Rightarrow>
          (Inr event', m(ev_SearchID event \<mapsto> record\<lparr>mr_expiresAt := now' + ttl\<rparr>))))"

definition Memory_Finalize ::
    "time \<Rightarrow> time \<Rightarrow> RouteSearchResult \<Rightarrow> SearchEvent \<Rightarrow> duration \<Rightarrow> Memory \<Rightarrow> store_error option \<times> Memory" where
  "Memory_Finalize now now' result event ttl m =
     (case live now (rr_SearchID result) m of
        None \<Rightarrow> (Some ErrNotFound, m)
      | Some record \<Rightarrow>
          if terminalStatus (rr_Status (mr_result record)) then (None, m)
          else (case push_event event record of (_, record) \<Rightarrow>
            (None, m(rr_SearchID result \<mapsto> record\<lparr>mr_result := cloneResult result, mr_expiresAt := now' + ttl\<rparr>))))"

definition minInt64 :: "int64 \<Rightarrow> int64 \<Rightarrow> int64" where
  "minInt64 left right = (if left < right then left else right)"

definition Memory_EventsAfter :: "time \<Rightarrow> string \<Rightarrow> int64 \<Rightarrow> Memory \<Rightarrow> store_error + SearchEvent list" where
  "Memory_EventsAfter now sid after m =
     (case live now sid m of
        None \<Rightarrow> Inl ErrNotFound
      | Some record \<Rightarrow>
          let after = (if after < 0 then 0 else after); n = int (length (mr_events record)) in
          if after \<ge> n then Inr []
          else let last = minInt64 n (add64 after maximumEventReplayBatch)
               in Inr (map cloneEvent (take (nat (last - after)) (drop (nat after) (mr_events record)))))"

text \<open>The loop of \<open>ActiveBefore\<close> over the ids in the order in which the map is iterated.\<close>

fun active_loop :: "time \<Rightarrow> time \<Rightarrow> int \<Rightarrow> Memory \<Rightarrow> string list \<Rightarrow> RouteSearchResult list \<Rightarrow> RouteSearchResult list" where
  "active_loop now before limit m [] result = result"
| "active_loop now before limit m (sid # ids) result =
     (case m sid of
        None \<Rightarrow> active_loop now before limit m ids result
      | Some record \<Rightarrow>
          if now > mr_expiresAt record \<or> terminalStatus (rr_Status (mr_result record))
            \<or> \<not> rr_GeneratedAt (mr_result record) < before
          then active_loop now before limit m ids result
          else let result = result @ [cloneResult (mr_result record)] in
               if int (length result) = limit then result
               else active_loop now before limit m ids result)"

definition Memory_ActiveBefore :: "time \<Rightarrow> string list \<Rightarrow> time \<Rightarrow> int \<Rightarrow> Memory \<Rightarrow> RouteSearchResult list" where
  "Memory_ActiveBefore now order before limit m =
     (if limit < 1 then [] else active_loop now before limit m order [])"

section \<open>The event log contract\<close>

text \<open>A reader's loop: poll with the number of the last event received. This is what the orchestrator's
  event endpoint and the edge's stream do.\<close>

fun poll :: "nat \<Rightarrow> (int64 \<Rightarrow> 'e + SearchEvent list) \<Rightarrow> int64 \<Rightarrow> SearchEvent list" where
  "poll 0 read cursor = []"
| "poll (Suc k) read cursor =
     (case read cursor of
        Inl _ \<Rightarrow> []
      | Inr es \<Rightarrow> if es = [] then [] else es @ poll k read (ev_EventID (last es)))"

text \<open>\<open>storable\<close> are the events that the log keeps as they are; an append reads its clock at \<open>reads\<close> and the event is visible from \<open>writes\<close> on; \<open>gone\<close> is
  the error for a search that the store does not have.\<close>

locale event_log =
  fixes wf :: "'s \<Rightarrow> bool"
    and view :: "time \<Rightarrow> string \<Rightarrow> 's \<Rightarrow> SearchEvent list option"
    and storable :: "SearchEvent \<Rightarrow> bool"
    and reads :: "'c \<Rightarrow> time" and "writes" :: "'c \<Rightarrow> time"
    and gone :: 'e and capacity :: nat
    and append_event :: "'c \<Rightarrow> SearchEvent \<Rightarrow> duration \<Rightarrow> 's \<Rightarrow> ('e + SearchEvent) \<times> 's"
    and events_after :: "time \<Rightarrow> string \<Rightarrow> int64 \<Rightarrow> 's \<Rightarrow> 'e + SearchEvent list"
  assumes append_live: "wf s \<Longrightarrow> view (reads c) (ev_SearchID e) s = Some es \<Longrightarrow> length es < capacity \<Longrightarrow> storable e \<Longrightarrow> 0 \<le> ttl \<Longrightarrow>
      \<exists>s'. append_event c e ttl s = (Inr (e\<lparr>ev_EventID := int (length es) + 1\<rparr>), s') \<and> wf s'
        \<and> view (writes c) (ev_SearchID e) s' = Some (es @ [e\<lparr>ev_EventID := int (length es) + 1\<rparr>])"
    and append_gone: "view (reads c) (ev_SearchID e) s = None \<Longrightarrow> storable e \<Longrightarrow> append_event c e ttl s = (Inl gone, s)"
    and read_live: "wf s \<Longrightarrow> view now sid s = Some es \<Longrightarrow> length es < capacity \<Longrightarrow> 0 \<le> cursor \<Longrightarrow>
      events_after now sid cursor s = Inr (take 128 (drop (nat cursor) es))"
    and numbered: "wf s \<Longrightarrow> view now sid s = Some es \<Longrightarrow> length es < capacity \<Longrightarrow> i < length es \<Longrightarrow> ev_EventID (es ! i) = int i + 1"
begin

lemma poll_from:
  assumes "wf s" "view now sid s = Some es" "length es < capacity" "c \<le> length es"
  shows "poll k (\<lambda>cursor. events_after now sid cursor s) (int c) = take (128 * k) (drop c es)"
  using assms(4)
proof (induction k arbitrary: c)
  case (Suc k)
  define batch where "batch = take 128 (drop c es)"
  have r: "events_after now sid (int c) s = Inr batch"
    using read_live [OF assms(1-3), of "int c"] by (simp add: batch_def)
  show ?case
  proof (cases "batch = []")
    case True
    then have "drop c es = []" by (simp add: batch_def)
    with True r show ?thesis by simp
  next
    case False
    define d where "d = min (length es) (c + 128)"
    have len: "length batch = d - c" "c < d" "d \<le> length es" using False Suc.prems by (auto simp: batch_def d_def)
    have "last batch = es ! (d - 1)"
      using False len by (simp add: last_conv_nth batch_def)
    then have "ev_EventID (last batch) = int d"
      using numbered [OF assms(1-3), of "d - 1"] len by simp
    then have "poll (Suc k) (\<lambda>cursor. events_after now sid cursor s) (int c) = batch @ take (128 * k) (drop d es)"
      using r False Suc.IH [of d] len by simp
    also have "\<dots> = take (128 * Suc k) (drop c es)"
    proof (cases "c + 128 \<le> length es")
      case True
      then show ?thesis by (simp add: batch_def d_def take_add add.commute)
    next
      case False
      then show ?thesis by (simp add: batch_def d_def)
    qed
    finally show ?thesis .
  qed
qed simp

text \<open>Polling from the beginning delivers the whole log, once and in order.\<close>

lemma poll_complete:
  assumes "wf s" "view now sid s = Some es" "length es < capacity" "length es \<le> 128 * k"
  shows "poll k (\<lambda>cursor. events_after now sid cursor s) 0 = es"
  using poll_from [OF assms(1-3), of 0 k] assms(4) by simp

end

section \<open>The in-memory store keeps the contract\<close>

definition wf_record :: "memoryRecord \<Rightarrow> bool" where
  "wf_record r \<longleftrightarrow> mr_nextEvent r = wrap64 (int (length (mr_events r))) \<and> list_all event_json_ok (mr_events r)
     \<and> map ev_EventID (mr_events r) = map (\<lambda>i. wrap64 (int i + 1)) [0..<length (mr_events r)]"

definition wf_memory :: "Memory \<Rightarrow> bool" where
  "wf_memory m \<longleftrightarrow> (\<forall>sid r. m sid = Some r \<longrightarrow> wf_record r)"

definition memory_view :: "time \<Rightarrow> string \<Rightarrow> Memory \<Rightarrow> SearchEvent list option" where
  "memory_view now sid m = map_option mr_events (live now sid m)"

lemma live_some: "live now sid m = Some r \<longleftrightarrow> m sid = Some r \<and> now \<le> mr_expiresAt r"
  by (auto simp: live_def split: option.splits)

lemma event_json_ok_numbered [simp]: "event_json_ok (e\<lparr>ev_EventID := n\<rparr>) = event_json_ok e"
  by (simp add: event_json_ok_def)

lemma push_event_wf:
  assumes "wf_record r" "event_json_ok e"
  shows "push_event e r = (e\<lparr>ev_EventID := wrap64 (int (length (mr_events r)) + 1)\<rparr>,
      r\<lparr>mr_nextEvent := wrap64 (int (length (mr_events r)) + 1),
        mr_events := mr_events r @ [e\<lparr>ev_EventID := wrap64 (int (length (mr_events r)) + 1)\<rparr>]\<rparr>)"
    and "wf_record (snd (push_event e r))"
  using assms by (auto simp: push_event_def Let_def add64_def wf_record_def wrap64_pull cloneEvent_def add.commute)

lemma wf_record_upd [simp]:
  "wf_record (r\<lparr>mr_expiresAt := t\<rparr>) = wf_record r" "wf_record (r\<lparr>mr_result := x\<rparr>) = wf_record r"
  by (simp_all add: wf_record_def)

lemma map_cloneEvent: "list_all event_json_ok es \<Longrightarrow> map cloneEvent es = es"
  by (induction es) (auto simp: cloneEvent_def)

lemma small_wrap64: "n < 2 ^ 62 \<Longrightarrow> wrap64 (int n + 1) = int n + 1"
proof -
  assume "n < 2 ^ 62"
  then have "int n < 2 ^ 62" by (metis of_nat_less_iff of_nat_numeral of_nat_power)
  then show ?thesis by (intro wrap64_id) (simp add: in64_def)
qed

interpretation memory: event_log wf_memory memory_view event_json_ok fst snd ErrNotFound "2 ^ 62"
  "\<lambda>(now, now'). Memory_AppendEvent now now'" Memory_EventsAfter
proof
  fix s e es ttl and c :: "time \<times> time"
  assume a: "wf_memory s" "memory_view (fst c) (ev_SearchID e) s = Some es" "length es < 2 ^ 62" "event_json_ok e" "0 \<le> (ttl :: duration)"
  obtain now now' where c: "c = (now, now')" by fastforce
  note a = a [unfolded c fst_conv]
  then obtain r where r: "live now (ev_SearchID e) s = Some r" "mr_events r = es" "wf_record r"
    by (auto simp: memory_view_def live_some wf_memory_def)
  let ?e = "e\<lparr>ev_EventID := int (length es) + 1\<rparr>"
  let ?r = "r\<lparr>mr_nextEvent := int (length es) + 1, mr_events := es @ [?e], mr_expiresAt := now' + ttl\<rparr>"
  have p: "push_event e r = (?e, r\<lparr>mr_nextEvent := int (length es) + 1, mr_events := es @ [?e]\<rparr>)"
    using push_event_wf(1) [OF r(3) a(4)] small_wrap64 [OF a(3)] r(2) by simp
  then have "wf_record ?r" using push_event_wf(2) [OF r(3) a(4)] by simp
  then have "wf_memory (s(ev_SearchID e \<mapsto> ?r))" using a(1) by (simp add: wf_memory_def)
  moreover have "Memory_AppendEvent now now' e ttl s = (Inr ?e, s(ev_SearchID e \<mapsto> ?r))"
    by (simp add: Memory_AppendEvent_def r(1) p)
  moreover have "memory_view now' (ev_SearchID e) (s(ev_SearchID e \<mapsto> ?r)) = Some (es @ [?e])"
    using a(5) by (simp add: memory_view_def live_def)
  ultimately show "\<exists>s'. (case c of (now, now') \<Rightarrow> Memory_AppendEvent now now') e ttl s = (Inr ?e, s') \<and> wf_memory s'
      \<and> memory_view (snd c) (ev_SearchID e) s' = Some (es @ [?e])" by (auto simp: c)
next
  show "memory_view (fst c) (ev_SearchID e) s = None \<Longrightarrow> (case c of (now, now') \<Rightarrow> Memory_AppendEvent now now') e ttl s = (Inl ErrNotFound, s)"
    for e s ttl and c :: "time \<times> time" by (cases c) (simp add: memory_view_def Memory_AppendEvent_def)
next
  fix s now sid es and cursor :: int64
  assume a: "wf_memory s" "memory_view now sid s = Some es" "length es < 2 ^ 62" "0 \<le> cursor"
  then obtain r where r: "live now sid s = Some r" "mr_events r = es" "wf_record r"
    by (auto simp: memory_view_def live_some wf_memory_def)
  have "int (length es) < 2 ^ 62" using a(3) by (metis of_nat_less_iff of_nat_numeral of_nat_power)
  then have "add64 cursor maximumEventReplayBatch = cursor + 128" if "cursor < int (length es)"
    using that a(4) unfolding maximumEventReplayBatch_def by (intro add64_id) (simp add: in64_def)
  then have "Memory_EventsAfter now sid cursor s = Inr (map cloneEvent (take 128 (drop (nat cursor) es)))"
    using a(4) nat_diff_distrib [of cursor "cursor + 128"]
    by (auto simp: Memory_EventsAfter_def r(1,2) Let_def minInt64_def)
  moreover have "list_all event_json_ok (take 128 (drop (nat cursor) es))"
    using r(2,3) by (auto simp: wf_record_def list_all_iff dest!: in_set_takeD in_set_dropD)
  ultimately show "Memory_EventsAfter now sid cursor s = Inr (take 128 (drop (nat cursor) es))"
    by (simp add: map_cloneEvent)
next
  fix s now sid es i
  assume a: "wf_memory s" "memory_view now sid s = Some es" "length es < 2 ^ 62" "i < length es"
  then have "map ev_EventID es = map (\<lambda>i. wrap64 (int i + 1)) [0..<length es]"
    by (auto simp: memory_view_def live_some wf_memory_def wf_record_def)
  from arg_cong [OF this, where f = "\<lambda>xs. xs ! i"] show "ev_EventID (es ! i) = int i + 1"
    using a(3,4) small_wrap64 [of i] by simp
qed

section \<open>Sequences of operations\<close>

datatype store_op =
    OpCreate time time RouteSearchResult duration
  | OpUpdate time time RouteSearchResult duration
  | OpDelete string
  | OpAppend time time SearchEvent duration
  | OpFinalize time time RouteSearchResult SearchEvent duration

fun apply_op :: "Memory \<Rightarrow> store_op \<Rightarrow> Memory" where
  "apply_op m (OpCreate now now' r ttl) = snd (Memory_Create now now' r ttl m)"
| "apply_op m (OpUpdate now now' r ttl) = snd (Memory_Update now now' r ttl m)"
| "apply_op m (OpDelete sid) = snd (Memory_Delete sid m)"
| "apply_op m (OpAppend now now' e ttl) = snd (Memory_AppendEvent now now' e ttl m)"
| "apply_op m (OpFinalize now now' r e ttl) = snd (Memory_Finalize now now' r e ttl m)"

text \<open>Operations whose events have only finite numbers.\<close>

fun op_json_ok :: "store_op \<Rightarrow> bool" where
  "op_json_ok (OpAppend _ _ e _) = event_json_ok e"
| "op_json_ok (OpFinalize _ _ _ e _) = event_json_ok e"
| "op_json_ok _ = True"

lemma wf_memory_upd: "wf_memory m \<Longrightarrow> wf_record r \<Longrightarrow> wf_memory (m(sid \<mapsto> r))"
  by (simp add: wf_memory_def)

lemma wf_memory_purge: "wf_memory m \<Longrightarrow> wf_memory (purgeExpiredLocked now m)"
  by (auto simp: wf_memory_def purgeExpiredLocked_def split: option.splits if_splits)

lemma wf_live: "wf_memory m \<Longrightarrow> live now sid m = Some r \<Longrightarrow> wf_record r"
  by (auto simp: wf_memory_def live_some)

lemma push_live_wf:
  "wf_memory m \<Longrightarrow> live now sid m = Some r \<Longrightarrow> event_json_ok e \<Longrightarrow> push_event e r = (e', r') \<Longrightarrow> wf_record r'"
  using push_event_wf(2) [of r e] wf_live by force

lemma apply_op_wf: "wf_memory m \<Longrightarrow> op_json_ok op \<Longrightarrow> wf_memory (apply_op m op)"
proof (cases op)
  case (OpCreate now now' r ttl)
  assume "wf_memory m"
  then have "wf_memory (purgeExpiredLocked now m)" by (rule wf_memory_purge)
  then show ?thesis
    by (auto simp: OpCreate Memory_Create_def Let_def split: option.split intro!: wf_memory_upd)
      (simp add: wf_record_def wrap64_def)
next
  case (OpUpdate now now' r ttl)
  assume "wf_memory m"
  then show ?thesis by (auto simp: OpUpdate Memory_Update_def split: option.split intro!: wf_memory_upd dest: wf_live)
next
  case (OpDelete sid)
  assume "wf_memory m"
  then show ?thesis by (auto simp: OpDelete Memory_Delete_def wf_memory_def split: option.split)
next
  case (OpAppend now now' e ttl)
  assume "wf_memory m" "op_json_ok op"
  then show ?thesis
    by (auto simp: OpAppend Memory_AppendEvent_def split: option.split prod.split intro!: wf_memory_upd intro: push_live_wf)
next
  case (OpFinalize now now' r e ttl)
  assume "wf_memory m" "op_json_ok op"
  then show ?thesis
    by (auto simp: OpFinalize Memory_Finalize_def split: option.split prod.split intro!: wf_memory_upd intro: push_live_wf)
qed

lemma run_ops_wf: "wf_memory m \<Longrightarrow> list_all op_json_ok ops \<Longrightarrow> wf_memory (foldl apply_op m ops)"
  by (induction ops arbitrary: m) (auto intro: apply_op_wf)

text \<open>C11: after any sequence of store operations (events with finite numbers, fewer than \<open>2^62\<close> of them), a reader who polls
  \<open>EventsAfter\<close> with the last event number it saw, starting at zero, receives every stored event of a live search
  exactly once and in order, and the events are numbered 1, 2, 3, \<dots> without gaps.\<close>

theorem store_replay_complete:
  assumes "list_all op_json_ok ops"
    and "live now sid (foldl apply_op NewMemory ops) = Some record" "length (mr_events record) < 2 ^ 62"
  shows "poll (length (mr_events record)) (\<lambda>cursor. Memory_EventsAfter now sid cursor (foldl apply_op NewMemory ops)) 0 = mr_events record
    \<and> map ev_EventID (mr_events record) = map (\<lambda>i. int i + 1) [0..<length (mr_events record)]"
proof -
  have wf: "wf_memory (foldl apply_op NewMemory ops)"
    using assms(1) by (intro run_ops_wf) (simp_all add: NewMemory_def wf_memory_def)
  have v: "memory_view now sid (foldl apply_op NewMemory ops) = Some (mr_events record)"
    using assms(2) by (simp add: memory_view_def)
  show ?thesis
    using memory.poll_complete [OF wf v assms(3)] memory.numbered [OF wf v assms(3)]
    by (auto intro: nth_equalityI)
qed

definition ex_result :: "SearchStatus \<Rightarrow> RouteSearchResult" where
  "ex_result st = zero_result\<lparr>rr_SearchID := ''s'', rr_Status := st\<rparr>"

definition ex_event :: SearchEvent where
  "ex_event = zero_event\<lparr>ev_SearchID := ''s'', ev_Type := EventSearchAccepted\<rparr>"

definition ex_ops :: "store_op list" where
  "ex_ops = [OpCreate 0 0 (ex_result SearchAccepted) 100, OpAppend 1 1 ex_event 100, OpAppend 2 2 ex_event 100]"

lemma ex_ops_live:
  "\<exists>r. live 3 ''s'' (foldl apply_op NewMemory ex_ops) = Some r \<and> length (mr_events r) = 2"
  by (simp add: ex_ops_def ex_event_def ex_result_def Memory_Create_def Memory_AppendEvent_def push_event_def
      purgeExpiredLocked_def NewMemory_def live_def zero_event_def zero_result_def Let_def)

theorem store_replay_complete_witness:
  "\<exists>r. live 3 ''s'' (foldl apply_op NewMemory ex_ops) = Some r \<and> length (mr_events r) = 2
     \<and> poll 2 (\<lambda>cursor. Memory_EventsAfter 3 ''s'' cursor (foldl apply_op NewMemory ex_ops)) 0 = mr_events r"
proof -
  obtain r where r: "live 3 ''s'' (foldl apply_op NewMemory ex_ops) = Some r" "length (mr_events r) = 2"
    using ex_ops_live by blast
  have ok: "list_all op_json_ok ex_ops" by (simp add: ex_ops_def ex_event_def zero_event_def event_json_ok_def)
  have "length (mr_events r) < 2 ^ 62" by (simp add: r(2))
  from store_replay_complete [OF ok r(1) this] r show ?thesis by auto
qed

text \<open>Operations that do not overwrite, delete or recreate the search \<open>sid\<close>.\<close>

fun op_preserves :: "string \<Rightarrow> store_op \<Rightarrow> bool" where
  "op_preserves sid (OpCreate _ _ r _) = (rr_SearchID r \<noteq> sid)"
| "op_preserves sid (OpUpdate _ _ r _) = (rr_SearchID r \<noteq> sid)"
| "op_preserves sid (OpDelete sid') = (sid' \<noteq> sid)"
| "op_preserves sid _ = True"

text \<open>The operations that may add an event to the log of \<open>sid\<close> after its end.\<close>

fun appends :: "string \<Rightarrow> store_op \<Rightarrow> bool" where
  "appends sid (OpAppend _ _ e _) = (ev_SearchID e = sid)"
| "appends sid _ = False"

text \<open>The record of a finished search afterwards: the same result, and at most \<open>n\<close> events more.\<close>

definition finished_still :: "memoryRecord \<Rightarrow> nat \<Rightarrow> memoryRecord option \<Rightarrow> bool" where
  "finished_still r n m \<longleftrightarrow> (case m of None \<Rightarrow> True
     | Some r' \<Rightarrow> mr_result r' = mr_result r \<and> (\<exists>new. mr_events r' = mr_events r @ new \<and> length new \<le> n))"

lemma finished_still_trans: "finished_still r n (Some r') \<Longrightarrow> finished_still r' k m \<Longrightarrow> finished_still r (n + k) m"
  by (auto simp: finished_still_def split: option.splits)

lemma apply_op_terminal:
  assumes "m sid = Some r" "terminalStatus (rr_Status (mr_result r))" "op_preserves sid op"
  shows "finished_still r (if appends sid op then 1 else 0) (apply_op m op sid)"
proof (cases op)
  case (OpCreate now now' x ttl)
  then show ?thesis using assms
    by (auto simp: finished_still_def Memory_Create_def purgeExpiredLocked_def Let_def split: option.split)
next
  case (OpUpdate now now' x ttl)
  then show ?thesis using assms by (auto simp: finished_still_def Memory_Update_def split: option.split)
next
  case (OpDelete x)
  then show ?thesis using assms by (auto simp: finished_still_def Memory_Delete_def split: option.split)
next
  case (OpAppend now now' e ttl)
  then show ?thesis using assms
    by (cases "ev_SearchID e = sid") (auto simp: finished_still_def Memory_AppendEvent_def push_event_def Let_def live_def split: option.split)
next
  case (OpFinalize now now' x e ttl)
  then show ?thesis using assms
    by (cases "rr_SearchID x = sid") (auto simp: finished_still_def Memory_Finalize_def push_event_def Let_def live_def split: option.split)
qed

lemma run_ops_terminal:
  assumes "m sid = None \<or> (\<exists>r'. m sid = Some r' \<and> finished_still r n (Some r'))"
    and "terminalStatus (rr_Status (mr_result r))" "list_all (op_preserves sid) ops"
  shows "finished_still r (n + length (filter (appends sid) ops)) (foldl apply_op m ops sid)"
  using assms
proof (induction ops arbitrary: m n)
  case Nil
  then show ?case by (auto simp: finished_still_def)
next
  case (Cons op ops)
  have gone: "apply_op m op sid = None" if "m sid = None" "op_preserves sid op"
    using that by (cases op) (auto simp: Memory_Create_def Memory_Update_def Memory_Delete_def Memory_AppendEvent_def
        Memory_Finalize_def purgeExpiredLocked_def live_def Let_def push_event_def split: option.split prod.split)
  let ?k = "if appends sid op then 1 else 0"
  have "apply_op m op sid = None \<or> (\<exists>r'. apply_op m op sid = Some r' \<and> finished_still r (n + ?k) (Some r'))"
  proof (cases "m sid")
    case None
    then show ?thesis using gone Cons.prems(3) by simp
  next
    case (Some r')
    then have now: "finished_still r n (Some r')" using Cons.prems(1) by simp
    then have "terminalStatus (rr_Status (mr_result r'))" using Cons.prems(2) by (simp add: finished_still_def)
    then have "finished_still r' ?k (apply_op m op sid)" using apply_op_terminal [where m = m and sid = sid and op = op] Some Cons.prems(3) by simp
    from finished_still_trans [OF now this] show ?thesis by (cases "apply_op m op sid") simp_all
  qed
  from Cons.IH [where m = "apply_op m op" and n = "n + ?k", OF this Cons.prems(2)] Cons.prems(3) show ?case by (simp split: if_splits)
qed

text \<open>C17: A finished search stays finished: once its stored status is terminal, no sequence of operations on the store, other than updating, deleting or
  recreating this search, changes its result. A further \<open>Finalize\<close> does nothing, so there is no second terminal event: the log only ever grows, at its
  end, by \<open>AppendEvent\<close> calls for this search, at most by one event for each; without such calls it stays as it was. The record can only expire.\<close>

theorem store_terminal_is_final:
  assumes "m sid = Some r" "terminalStatus (rr_Status (mr_result r))" "list_all (op_preserves sid) ops"
  shows "case foldl apply_op m ops sid of None \<Rightarrow> True
    | Some r' \<Rightarrow> mr_result r' = mr_result r
        \<and> (\<exists>new. mr_events r' = mr_events r @ new \<and> length new \<le> length (filter (appends sid) ops))
        \<and> (list_all (\<lambda>op. \<not> appends sid op) ops \<longrightarrow> mr_events r' = mr_events r)"
proof -
  have "finished_still r (length (filter (appends sid) ops)) (foldl apply_op m ops sid)"
    using run_ops_terminal [of m sid r 0 ops] assms by (simp add: finished_still_def)
  moreover have "filter (appends sid) ops = []" if "list_all (\<lambda>op. \<not> appends sid op) ops" using that by (simp add: filter_empty_conv list_all_iff)
  ultimately show ?thesis by (auto simp: finished_still_def split: option.splits)
qed

definition ex_done :: Memory where
  "ex_done = [''s'' \<mapsto> \<lparr> mr_result = ex_result SearchCompleted, mr_events = [], mr_expiresAt = 100, mr_nextEvent = 0 \<rparr>]"

theorem store_terminal_is_final_witness:
  "\<exists>r'. apply_op ex_done (OpFinalize 1 1 (ex_result SearchFailed) ex_event 100) ''s'' = Some r' \<and> rr_Status (mr_result r') = SearchCompleted
    \<and> mr_events r' = []"
proof -
  have "list_all (op_preserves ''s'') [OpFinalize 1 1 (ex_result SearchFailed) ex_event 100]" by simp
  from store_terminal_is_final [of ex_done "''s''", OF _ _ this]
  show ?thesis
    by (simp add: ex_done_def ex_result_def zero_result_def Memory_Finalize_def live_def)
qed

section \<open>Creating and reading\<close>

lemma purge_live: "purgeExpiredLocked now m sid = live now sid m"
  by (simp add: purgeExpiredLocked_def live_def)

text \<open>\<open>Create\<close> refuses exactly the ids that are live; otherwise the result just stored is what \<open>Get\<close> returns until
  its time to live has passed, and every other live search is untouched.\<close>

theorem store_create_get:
  assumes "result_json_ok r"
  shows "fst (Memory_Create now now' r ttl m) = (if live now (rr_SearchID r) m = None then None else Some (ErrAlreadyExists (rr_SearchID r)))
    \<and> (live now (rr_SearchID r) m = None \<longrightarrow> Memory_Get t (rr_SearchID r) (snd (Memory_Create now now' r ttl m))
        = (if t \<le> now' + ttl then Inr r else Inl ErrNotFound))
    \<and> (sid \<noteq> rr_SearchID r \<and> now \<le> t \<longrightarrow> Memory_Get t sid (snd (Memory_Create now now' r ttl m)) = Memory_Get t sid m)"
proof -
  have other: "live t sid (purgeExpiredLocked now m) = live t sid m" if "now \<le> t"
    using that by (auto simp: live_def purgeExpiredLocked_def split: option.split)
  have upd: "live t sid (m'(k \<mapsto> x)) = live t sid m'" if "sid \<noteq> k" for m' :: Memory and k x
    using that by (simp add: live_def)
  show ?thesis
    using assms by (auto simp: Memory_Create_def Memory_Get_def Let_def purge_live other upd cloneResult_def live_some split: option.split)
      (auto simp: live_def)
qed

theorem store_create_get_witness:
  "result_json_ok (ex_result SearchAccepted)
   \<and> Memory_Get 7 ''s'' (snd (Memory_Create 5 6 (ex_result SearchAccepted) 10 NewMemory)) = Inr (ex_result SearchAccepted)"
proof -
  have ok: "result_json_ok (ex_result SearchAccepted)"
    by (simp add: ex_result_def zero_result_def result_json_ok_def fin64_def zero_f64_def is_nan_def is_inf_def)
  have "live 5 ''s'' NewMemory = None" by (simp add: live_def NewMemory_def)
  then show ?thesis
    using store_create_get [OF ok, of 5 6 10 NewMemory 7] ok by (simp add: ex_result_def zero_result_def)
qed

end
