(* ===== verification/Scoring_Evaluate.thy ===== *)
theory Scoring_Evaluate
  imports Examples
begin

text \<open>
  Theorems about \<open>Evaluate\<close>: the distance and duration metrics are the per-class sums over the
  classified segments and conserve the route's totals; the longest continuous congestion is the
  maximal sum over contiguous congested runs; confidence scores lie in [0,1] and percentages in
  [0,100]; classification is monotone in the traffic ratio and fail-closed without traffic data;
  evaluation is idempotent.
\<close>

section \<open>Classes and totals\<close>

lemma evaluateSegment_keeps [simp]:
  "seg_DistanceMeters (evaluateSegment e cfg s) = seg_DistanceMeters s"
  "seg_LiveDurationSeconds (evaluateSegment e cfg s) = seg_LiveDurationSeconds s"
  "seg_BaselineDurationSeconds (evaluateSegment e cfg s) = seg_BaselineDurationSeconds s"
  "seg_SegmentID (evaluateSegment e cfg s) = seg_SegmentID s"
  "seg_Geometry (evaluateSegment e cfg s) = seg_Geometry s"
  "seg_Source (evaluateSegment e cfg s) = seg_Source s"
  by (simp_all add: evaluateSegment_def Let_def)

lemma ClassifyTraffic_valid [simp]: "validCongestionClass (ClassifyTraffic r g cfg)"
  by (simp add: ClassifyTraffic_def)

lemma evaluateSegment_class_valid [simp]: "validCongestionClass (seg_CongestionClass (evaluateSegment e cfg s))"
  by (simp add: evaluateSegment_def Let_def)

text \<open>The sum of a measurement over the segments of one class.\<close>

definition class_sum :: "(RouteSegment \<Rightarrow> int64) \<Rightarrow> CongestionClass \<Rightarrow> RouteSegment list \<Rightarrow> int" where
  "class_sum f cls segs = sum_list (map f (filter (\<lambda>s. seg_CongestionClass s = cls) segs))"

lemma class_sum_simps [simp]:
  "class_sum f cls [] = 0"
  "class_sum f cls (s # segs) = (if seg_CongestionClass s = cls then f s else 0) + class_sum f cls segs"
  by (simp_all add: class_sum_def)

lemma class_sum_total:
  "list_all (\<lambda>s. validCongestionClass (seg_CongestionClass s)) segs \<Longrightarrow>
   class_sum f CongestionGreen segs + class_sum f CongestionYellow segs + class_sum f CongestionOrange segs
   + class_sum f CongestionRed segs + class_sum f CongestionUnknown segs = sum_list (map f segs)"
proof (induction segs)
  case (Cons s segs)
  then show ?case by (cases "seg_CongestionClass s") auto
qed simp

text \<open>What one round of the loop adds to each total.\<close>

lemma accumulate_step:
  "GreenDistanceMeters (es_metrics (accumulateSegment st s)) =
     (if seg_CongestionClass s = CongestionGreen then add64 (GreenDistanceMeters (es_metrics st)) (seg_DistanceMeters s) else GreenDistanceMeters (es_metrics st))"
  "YellowDistanceMeters (es_metrics (accumulateSegment st s)) =
     (if seg_CongestionClass s = CongestionYellow then add64 (YellowDistanceMeters (es_metrics st)) (seg_DistanceMeters s) else YellowDistanceMeters (es_metrics st))"
  "OrangeDistanceMeters (es_metrics (accumulateSegment st s)) =
     (if seg_CongestionClass s = CongestionOrange then add64 (OrangeDistanceMeters (es_metrics st)) (seg_DistanceMeters s) else OrangeDistanceMeters (es_metrics st))"
  "RedDistanceMeters (es_metrics (accumulateSegment st s)) =
     (if seg_CongestionClass s = CongestionRed then add64 (RedDistanceMeters (es_metrics st)) (seg_DistanceMeters s) else RedDistanceMeters (es_metrics st))"
  "UnknownDistanceMeters (es_metrics (accumulateSegment st s)) =
     (if seg_CongestionClass s = CongestionUnknown then add64 (UnknownDistanceMeters (es_metrics st)) (seg_DistanceMeters s) else UnknownDistanceMeters (es_metrics st))"
  "GreenDurationSeconds (es_metrics (accumulateSegment st s)) =
     (if seg_CongestionClass s = CongestionGreen then add64 (GreenDurationSeconds (es_metrics st)) (seg_LiveDurationSeconds s) else GreenDurationSeconds (es_metrics st))"
  "YellowDurationSeconds (es_metrics (accumulateSegment st s)) =
     (if seg_CongestionClass s = CongestionYellow then add64 (YellowDurationSeconds (es_metrics st)) (seg_LiveDurationSeconds s) else YellowDurationSeconds (es_metrics st))"
  "OrangeDurationSeconds (es_metrics (accumulateSegment st s)) =
     (if seg_CongestionClass s = CongestionOrange then add64 (OrangeDurationSeconds (es_metrics st)) (seg_LiveDurationSeconds s) else OrangeDurationSeconds (es_metrics st))"
  "RedDurationSeconds (es_metrics (accumulateSegment st s)) =
     (if seg_CongestionClass s = CongestionRed then add64 (RedDurationSeconds (es_metrics st)) (seg_LiveDurationSeconds s) else RedDurationSeconds (es_metrics st))"
  "UnknownDurationSeconds (es_metrics (accumulateSegment st s)) =
     (if seg_CongestionClass s = CongestionUnknown then add64 (UnknownDurationSeconds (es_metrics st)) (seg_LiveDurationSeconds s) else UnknownDurationSeconds (es_metrics st))"
  "es_totalDistance (accumulateSegment st s) = add64 (es_totalDistance st) (seg_DistanceMeters s)"
  "es_totalDuration (accumulateSegment st s) = add64 (es_totalDuration st) (seg_LiveDurationSeconds s)"
  by (cases "seg_CongestionClass s"; simp add: accumulateSegment_def congestedStep_def Let_def)+

lemma class_sum_alt: "class_sum f cls segs = sum_list (map (\<lambda>s. if seg_CongestionClass s = cls then f s else 0) segs)"
  by (induction segs) simp_all

text \<open>Everything the accumulation loop adds up, starting from zero, modulo 64-bit wrap-around.\<close>

lemma accumulate_metrics:
  fixes segs :: "RouteSegment list"
  defines "r \<equiv> foldl accumulateSegment eval_init segs"
  shows
    "GreenDistanceMeters (es_metrics r) = wrap64 (class_sum seg_DistanceMeters CongestionGreen segs)"
    "YellowDistanceMeters (es_metrics r) = wrap64 (class_sum seg_DistanceMeters CongestionYellow segs)"
    "OrangeDistanceMeters (es_metrics r) = wrap64 (class_sum seg_DistanceMeters CongestionOrange segs)"
    "RedDistanceMeters (es_metrics r) = wrap64 (class_sum seg_DistanceMeters CongestionRed segs)"
    "UnknownDistanceMeters (es_metrics r) = wrap64 (class_sum seg_DistanceMeters CongestionUnknown segs)"
    "GreenDurationSeconds (es_metrics r) = wrap64 (class_sum seg_LiveDurationSeconds CongestionGreen segs)"
    "YellowDurationSeconds (es_metrics r) = wrap64 (class_sum seg_LiveDurationSeconds CongestionYellow segs)"
    "OrangeDurationSeconds (es_metrics r) = wrap64 (class_sum seg_LiveDurationSeconds CongestionOrange segs)"
    "RedDurationSeconds (es_metrics r) = wrap64 (class_sum seg_LiveDurationSeconds CongestionRed segs)"
    "UnknownDurationSeconds (es_metrics r) = wrap64 (class_sum seg_LiveDurationSeconds CongestionUnknown segs)"
    "es_totalDistance r = wrap64 (sum_list (map seg_DistanceMeters segs))"
    "es_totalDuration r = wrap64 (sum_list (map seg_LiveDurationSeconds segs))"
  unfolding r_def class_sum_alt
  by (rule fold_wrap64_zero [where f = accumulateSegment];
      simp add: accumulate_step add64_def wrap64_in64 eval_init_def zero_metrics_def)+

definition evaluated :: "RouteCandidate \<Rightarrow> Evidence \<Rightarrow> ScoringConfig \<Rightarrow> RouteSegment list" where
  "evaluated c e cfg = map (evaluateSegment e cfg) (defaultSegments c)"

lemma Evaluate_fields:
  "rc_Segments (Evaluate c e cfg) = evaluated c e cfg"
  "rc_Metrics (Evaluate c e cfg) = finishMetrics c (foldl accumulateSegment eval_init (evaluated c e cfg))"
  "rc_CandidateID (Evaluate c e cfg) = rc_CandidateID c"
  "rc_DistanceMeters (Evaluate c e cfg) = rc_DistanceMeters c"
  "rc_LiveDurationSeconds (Evaluate c e cfg) = rc_LiveDurationSeconds c"
  "rc_Geometry (Evaluate c e cfg) = rc_Geometry c"
  "rc_Blocked (Evaluate c e cfg) = rc_Blocked c"
  "rc_Tolls (Evaluate c e cfg) = rc_Tolls c"
  "rc_Unpaved (Evaluate c e cfg) = rc_Unpaved c"
  "rc_TrafficDataType (Evaluate c e cfg) = rc_TrafficDataType c"
  by (simp_all add: Evaluate_def evaluated_def Let_def)

lemma evaluated_valid: "list_all (\<lambda>s. validCongestionClass (seg_CongestionClass s)) (evaluated c e cfg)"
  by (simp add: evaluated_def list_all_iff)

lemma finishMetrics_distance:
  "GreenDistanceMeters (finishMetrics c st) = GreenDistanceMeters (es_metrics st)"
  "YellowDistanceMeters (finishMetrics c st) = YellowDistanceMeters (es_metrics st)"
  "OrangeDistanceMeters (finishMetrics c st) = OrangeDistanceMeters (es_metrics st)"
  "RedDistanceMeters (finishMetrics c st) = RedDistanceMeters (es_metrics st)"
  "UnknownDistanceMeters (finishMetrics c st) =
     (if rc_DistanceMeters c > es_totalDistance st
      then add64 (UnknownDistanceMeters (es_metrics st)) (sub64 (rc_DistanceMeters c) (es_totalDistance st))
      else UnknownDistanceMeters (es_metrics st))"
  "GreenDurationSeconds (finishMetrics c st) = GreenDurationSeconds (es_metrics st)"
  "YellowDurationSeconds (finishMetrics c st) = YellowDurationSeconds (es_metrics st)"
  "OrangeDurationSeconds (finishMetrics c st) = OrangeDurationSeconds (es_metrics st)"
  "RedDurationSeconds (finishMetrics c st) = RedDurationSeconds (es_metrics st)"
  "UnknownDurationSeconds (finishMetrics c st) =
     (if rc_LiveDurationSeconds c > es_totalDuration st
      then add64 (UnknownDurationSeconds (es_metrics st)) (sub64 (rc_LiveDurationSeconds c) (es_totalDuration st))
      else UnknownDurationSeconds (es_metrics st))"
  "TotalTrafficDelaySeconds (finishMetrics c st) = TotalTrafficDelaySeconds (es_metrics st)"
  "WorstContinuousCongestionMeters (finishMetrics c st) = WorstContinuousCongestionMeters (es_metrics st)"
  by (simp_all add: finishMetrics_def Let_def)

text \<open>The distance (duration) total the percentages are taken of.\<close>

definition total_distance :: "RouteCandidate \<Rightarrow> RouteSegment list \<Rightarrow> int64" where
  "total_distance c segs = max (rc_DistanceMeters c) (sum64 (map seg_DistanceMeters segs))"

definition total_duration :: "RouteCandidate \<Rightarrow> RouteSegment list \<Rightarrow> int64" where
  "total_duration c segs = max (rc_LiveDurationSeconds c) (sum64 (map seg_LiveDurationSeconds segs))"

text \<open>C14: the five class distances of an evaluated route add up to the larger of the route's distance
  and the sum of its segments, and likewise the five class durations, in 64-bit arithmetic; no
  metre and no second of the route is lost or counted twice.\<close>

theorem evaluate_conserves:
  "wrap64 (GreenDistanceMeters (rc_Metrics (Evaluate c e cfg)) + YellowDistanceMeters (rc_Metrics (Evaluate c e cfg))
     + OrangeDistanceMeters (rc_Metrics (Evaluate c e cfg)) + RedDistanceMeters (rc_Metrics (Evaluate c e cfg))
     + UnknownDistanceMeters (rc_Metrics (Evaluate c e cfg)))
   = wrap64 (total_distance c (rc_Segments (Evaluate c e cfg)))
   \<and> wrap64 (GreenDurationSeconds (rc_Metrics (Evaluate c e cfg)) + YellowDurationSeconds (rc_Metrics (Evaluate c e cfg))
     + OrangeDurationSeconds (rc_Metrics (Evaluate c e cfg)) + RedDurationSeconds (rc_Metrics (Evaluate c e cfg))
     + UnknownDurationSeconds (rc_Metrics (Evaluate c e cfg)))
   = wrap64 (total_duration c (rc_Segments (Evaluate c e cfg)))"
proof -
  have "wrap64 (wrap64 g + wrap64 y + wrap64 o' + wrap64 r + (if d > wrap64 t then add64 (wrap64 u) (sub64 d (wrap64 t)) else wrap64 u))
        = wrap64 (max d (wrap64 t))" if "g + y + o' + r + u = t" for g y o' r u t d
  proof (cases "d > wrap64 t")
    case True
    have "add64 (wrap64 u) (sub64 d (wrap64 t)) = wrap64 (u + (d - t))"
      by (simp add: add64_def sub64_def wrap64_pull)
    then have "wrap64 (wrap64 g + wrap64 y + wrap64 o' + wrap64 r + add64 (wrap64 u) (sub64 d (wrap64 t)))
      = wrap64 (g + y + o' + r + (u + (d - t)))" by (simp only: wrap64_sum5)
    moreover have "g + y + o' + r + (u + (d - t)) = d" using that by linarith
    ultimately show ?thesis using True by (simp add: max_def)
  next
    case False
    then show ?thesis using that by (simp add: max_def wrap64_sum5 wrap64_idem)
  qed
  note * = this
  show ?thesis
    unfolding Evaluate_fields finishMetrics_distance accumulate_metrics total_distance_def total_duration_def sum64_wrap
    using * class_sum_total [OF evaluated_valid] by blast
qed

section \<open>Confidence scores\<close>

text \<open>Scores start at one and only go down: \<open>below_one\<close> is kept by every deduction, so that
  clamping always yields a number in [0,1], whatever the inputs.\<close>

definition below_one :: "f64 \<Rightarrow> bool" where
  "below_one a \<longleftrightarrow> a = NegInf \<or> (\<exists>r. a = Fin r \<and> r \<le> 1)"

definition deduction :: "f64 \<Rightarrow> bool" where
  "deduction a \<longleftrightarrow> a = PosInf \<or> (\<exists>r. a = Fin r \<and> 0 \<le> r)"

lemma mk_nonneg: "0 \<le> x \<Longrightarrow> deduction (mk x)"
  using rnd_nonneg [of x] f64_limit_def by (auto simp: deduction_def mk_def Let_def)

lemma below_one_sub: "below_one a \<Longrightarrow> deduction b \<Longrightarrow> below_one (a - b)"
proof -
  assume a: "below_one a" and b: "deduction b"
  have "below_one (mk x)" if "x \<le> 1" for x
    using rnd_le_rep [of 1 x] that below_limit [of 1] by (auto simp: below_one_def mk_def Let_def)
  with a b show ?thesis
    unfolding below_one_def [of a] deduction_def [of b]
    by (auto simp: minus_f64_def fsub_def f64_ops) (auto simp: below_one_def)
qed

lemma clamp01_below_one: "below_one a \<Longrightarrow> frange 0 1 (clamp01 a)"
  by (auto simp: below_one_def clamp01_def fmin_def fmax_def frange_def zero_f64_def one_f64_def)

lemma flit_nonneg: "0 \<le> x \<Longrightarrow> deduction (flit x)"
  by (simp add: flit_def mk_nonneg)

lemma below_one_1: "below_one 1"
  by (simp add: below_one_def one_f64_def)

lemma deduction_mult: "deduction a \<Longrightarrow> b = Fin s \<Longrightarrow> 0 < s \<Longrightarrow> deduction (a * b)"
  by (auto simp: deduction_def [of a] mk_nonneg times_f64_def finf_def) (simp add: deduction_def)

lemma deduction_fmin: "deduction a \<Longrightarrow> deduction b \<Longrightarrow> deduction (fmin a b)"
  by (auto simp: deduction_def fmin_def)

lemma flit_pos: "1 / 2 ^ 60 \<le> x \<Longrightarrow> x \<le> 2 ^ 60 \<Longrightarrow> \<exists>s. flit x = Fin s \<and> 0 < s"
proof -
  assume x: "1 / 2 ^ 60 \<le> x" "x \<le> 2 ^ 60"
  have r: "rep (1 / 2 ^ 60)" "rep (2 ^ 60)"
    unfolding rep_def
    by (rule exI [of _ 1], rule exI [of _ "- 60"], simp add: pow2_def)
      (rule exI [of _ 1], rule exI [of _ "60"], simp add: pow2_def)
  have "frange (1 / 2 ^ 60) (2 ^ 60) (flit x)"
    unfolding flit_def using x r by (intro mk_range) simp_all
  then obtain s where s: "flit x = Fin s" "1 / 2 ^ 60 \<le> s" by (auto elim: frangeE)
  moreover have "(0::rat) < 1 / 2 ^ 60" by simp
  ultimately have "0 < s" by (meson order.strict_trans2)
  with s(1) show ?thesis by blast
qed

lemma round_to_range:
  assumes "frange 0 (of_nat n) a" "n \<le> 1000" "p \<le> 8"
  shows "frange 0 (of_nat n) (round_to a p)"
proof -
  define f where "f = (10::int) ^ p"
  have f: "0 < f" "f \<le> 10 ^ 8"
    using power_increasing [of p 8 "10::int"] assms(3) by (simp_all add: f_def)
  have fl: "flit (10 ^ p) = Fin (of_int f)"
    using flit_small [of f] f by (simp add: f_def)
  have nf: "int n * f \<le> 1000 * 10 ^ 8" using assms(2) f by (intro mult_mono) auto
  then have "of_int (int n * f) \<le> (of_int (1000 * 10 ^ 8) :: rat)" by (simp only: of_int_le_iff)
  also have "\<dots> \<le> 2 ^ 64" by simp
  finally have nf': "of_int (int n * f) \<le> (2 ^ 64 :: rat)" .
  have "rep (of_int (int n * f))" using nf f by (intro rep_int) (simp add: abs_of_nonneg)
  then have "frange 0 (of_nat n * of_int f) (a * Fin (of_int f))"
    using nf' f by (intro frange_mult assms(1)) simp_all
  then have "frange (of_int 0) (of_int (int n * f)) (fround (a * Fin (of_int f)))"
    by (intro frange_round) simp
  then obtain r where r: "fround (a * Fin (of_int f)) = Fin r" "0 \<le> r" "r \<le> of_nat n * of_int f"
    by (auto elim: frangeE)
  have "rep (of_nat n)" using rep_int [of "int n"] assms(2) by simp
  moreover have "(of_nat n :: rat) \<le> 2 ^ 64"
  proof -
    have "of_nat n \<le> (of_nat 1000 :: rat)" using assms(2) by (simp only: of_nat_le_iff)
    then show ?thesis by simp
  qed
  ultimately have "frange 0 (of_nat n) (Fin r / Fin (of_int f))"
    using r f by (intro frange_div_le) auto
  then show ?thesis by (simp add: round_to_def fl r(1))
qed

lemma confidence_score: "Score (confidence s r) = round_to s 4"
  by (simp add: confidence_def)

definition good_conf :: "Confidence \<Rightarrow> bool" where
  "good_conf c \<longleftrightarrow> frange 0 1 (Score c)"

lemma good_confidence: "below_one s \<Longrightarrow> good_conf (confidence (clamp01 s) r)"
  using round_to_range [of 1 "clamp01 s" 4] clamp01_below_one by (simp add: good_conf_def confidence_score)

lemma good_step:
  assumes "below_one (fst E)" "\<And>s r. below_one s \<Longrightarrow> good_conf (B s r)"
  shows "good_conf (case E of (s, r) \<Rightarrow> B s r)"
  using assms by (cases E) auto

lemma good_case:
  assumes "b \<Longrightarrow> below_one (fst E)" "\<not> b \<Longrightarrow> below_one (fst F)"
  shows "below_one (fst (if b then E else F))"
  using assms by simp

lemma good_if: "(b \<Longrightarrow> good_conf c) \<Longrightarrow> (\<not> b \<Longrightarrow> good_conf d) \<Longrightarrow> good_conf (if b then c else d)"
  by simp

lemma below_one_flit: "x \<le> 1 \<Longrightarrow> below_one (flit x)"
  using rnd_le_rep [of 1 x] below_limit [of 1] by (auto simp: below_one_def flit_def mk_def Let_def)

lemma good_fst: "below_one s \<Longrightarrow> below_one (fst (s, r))"
  by simp

lemmas good_intros = good_if good_step good_case good_fst good_confidence below_one_1 below_one_sub
  below_one_flit flit_nonneg

lemma deduction_below:
  assumes "a < flit x" "flit x = Fin s"
  shows "deduction (flit x - a)"
  using assms by (cases a) (auto simp: mk_nonneg, auto simp: minus_f64_def fsub_def deduction_def)

lemma deduction_similarity:
  "a < flit 0.9 \<Longrightarrow> 1 / 2 ^ 60 \<le> w \<Longrightarrow> w \<le> 1 \<Longrightarrow> deduction ((flit 0.9 - a) * flit w)"
proof -
  assume a: "a < flit 0.9" and w: "1 / 2 ^ 60 \<le> w" "w \<le> 1"
  obtain s where s: "flit 0.9 = Fin s" using flit_pos [of "0.9"] by auto
  obtain t where t: "flit w = Fin t" "0 < t"
    using flit_pos [of w] w by auto
  show ?thesis using deduction_below [OF a s] t deduction_mult by blast
qed

lemma flit_nine_tenths: "\<exists>s. flit 0.9 = Fin s \<and> 0 < s \<and> s \<le> 1"
proof -
  obtain s where s: "flit 0.9 = Fin s" "0 < s" using flit_pos [of "0.9"] by auto
  have "frange 0 1 (flit 0.9)" unfolding flit_def by (intro mk_range) simp_all
  with s show ?thesis by auto
qed

lemma clamp01_below: "a < flit 0.9 \<Longrightarrow> clamp01 a < flit 0.9 \<or> clamp01 a = 0"
  using flit_nine_tenths
  by (cases a) (auto simp: clamp01_def fmin_def fmax_def zero_f64_def one_f64_def)

lemma deduction_clamped: "a < flit 0.9 \<Longrightarrow> deduction ((flit 0.9 - clamp01 a) * flit 0.65)"
proof -
  assume "a < flit 0.9"
  then have "clamp01 a < flit 0.9"
    using clamp01_below [of a] flit_nine_tenths by (auto simp: zero_f64_def)
  then show ?thesis by (rule deduction_similarity) simp_all
qed

lemma good_quarter: "good_conf (confidence (flit 0.25) r)"
proof -
  have "frange 0 1 (flit 0.25)" unfolding flit_def by (intro mk_range) simp_all
  then show ?thesis using round_to_range [of 1 "flit 0.25" 4] by (simp add: good_conf_def confidence_score)
qed

lemma good_providerClassConfidence: "good_conf (providerClassConfidence s e)"
  unfolding providerClassConfidence_def Let_def
  by (intro good_intros good_quarter) simp_all

lemma good_segmentConfidence: "good_conf (segmentConfidence s e)"
  unfolding segmentConfidence_def Let_def
  by (intro good_intros deduction_clamped) simp_all

lemma deduction_of_i64: "0 \<le> i \<Longrightarrow> deduction (of_i64 i)"
  by (simp add: of_i64_def mk_nonneg)

lemma deduction_div: "deduction a \<Longrightarrow> b = Fin s \<Longrightarrow> 0 < s \<Longrightarrow> deduction (a / b)"
  by (auto simp: deduction_def [of a] mk_nonneg divide_f64_def finf_def) (simp add: deduction_def)

lemma deduction_div_flit: "deduction a \<Longrightarrow> 1 / 2 ^ 60 \<le> x \<Longrightarrow> x \<le> 2 ^ 60 \<Longrightarrow> deduction (a / flit x)"
  using flit_pos [of x] deduction_div by blast

lemma deduction_mult_flit: "deduction a \<Longrightarrow> 1 / 2 ^ 60 \<le> x \<Longrightarrow> x \<le> 2 ^ 60 \<Longrightarrow> deduction (a * flit x)"
  using flit_pos [of x] deduction_mult by blast

lemma pos_deduction: "0 < a \<Longrightarrow> deduction a"
  by (cases a) (auto simp: deduction_def zero_f64_def)

lemma deduction_average: "a < flit 0.9 \<Longrightarrow> deduction ((flit 0.9 - a) * flit 0.5)"
  by (rule deduction_similarity) simp_all

lemma good_level: "good_conf (c\<lparr>Level := l\<rparr>) \<longleftrightarrow> good_conf c"
  by (simp add: good_conf_def)

lemma good_routeConfidence:
  assumes "in64 (DataAgeSeconds e)"
  shows "good_conf (routeConfidence c e w cfg)"
proof -
  have age: "0 \<le> sub64 (DataAgeSeconds e) 300" if "300 < DataAgeSeconds e"
    using assms that by (subst sub64_id) (auto simp: in64_def)
  note ded = deduction_fmin deduction_mult_flit deduction_div_flit deduction_of_i64 deduction_average pos_deduction
  show ?thesis
    unfolding routeConfidence_def Let_def
    by (intro good_intros ded good_level [THEN iffD2]) (simp_all add: age)
qed

text \<open>Whatever the segments, the evidence and the policy, the confidence of an evaluated route and of each of its
  segments is a number in [0,1]; in particular it is never NaN.\<close>

theorem evaluate_confidence_range:
  assumes "in64 (DataAgeSeconds e)"
  shows "frange 0 1 (Score (rc_Confidence (Evaluate c e cfg)))
    \<and> list_all (\<lambda>s. frange 0 1 (Score (seg_Confidence s))) (rc_Segments (Evaluate c e cfg))"
proof
  show "frange 0 1 (Score (rc_Confidence (Evaluate c e cfg)))"
    using good_routeConfidence [OF assms] by (simp add: Evaluate_def Let_def good_conf_def)
  have "good_conf (seg_Confidence (evaluateSegment e cfg s))" for s
    by (simp add: evaluateSegment_def Let_def good_providerClassConfidence good_segmentConfidence)
  then show "list_all (\<lambda>s. frange 0 1 (Score (seg_Confidence s))) (rc_Segments (Evaluate c e cfg))"
    by (simp add: Evaluate_fields evaluated_def good_conf_def list_all_iff)
qed

theorem evaluate_confidence_range_witness:
  "in64 (DataAgeSeconds ex_evidence)
   \<and> frange 0 1 (Score (rc_Confidence (Evaluate (ex_candidate ''a'' [ex_segment 100 10 9]) ex_evidence DefaultConfig)))"
  using evaluate_confidence_range [of ex_evidence "ex_candidate ''a'' [ex_segment 100 10 9]" DefaultConfig]
  by (simp add: ex_evidence_def in64_def)

text \<open>The default policy passes its own validation.\<close>

lemma DefaultConfig_valid: "Config_Validate DefaultConfig"
  by code_simp

lemma DefaultConfig_similarity: "0 < MinimumGeometrySimilarity DefaultConfig"
  by code_simp

section \<open>Classification\<close>

fun severity :: "CongestionClass \<Rightarrow> nat" where
  "severity CongestionGreen = 0"
| "severity CongestionYellow = 1"
| "severity CongestionOrange = 2"
| "severity CongestionRed = 3"
| "severity _ = 4"

lemma f64_less_trans: "a < b \<Longrightarrow> b \<le> (c :: f64) \<Longrightarrow> a < c"
  by (cases a; cases b; cases c) auto

lemma f64_le_less_trans: "a \<le> b \<Longrightarrow> b < (c :: f64) \<Longrightarrow> a < c"
  by (cases a; cases b; cases c) auto

lemma config_thresholds:
  "Config_Validate cfg \<Longrightarrow> GreenMaxTrafficRatio cfg \<le> YellowMaxTrafficRatio cfg
     \<and> YellowMaxTrafficRatio cfg \<le> OrangeMaxTrafficRatio cfg"
  unfolding Config_Validate_def
  by (cases "GreenMaxTrafficRatio cfg"; cases "YellowMaxTrafficRatio cfg"; cases "OrangeMaxTrafficRatio cfg")
    (auto simp: is_nan_def is_inf_def split: if_splits)

text \<open>For every policy that passes validation, a larger traffic ratio is never classified as lighter
  congestion (at the same geometry similarity, ratios positive and finite).\<close>

theorem classify_monotone:
  assumes cfg: "Config_Validate cfg" and r: "0 < r" "r \<le> r'" and fin: "\<not> is_inf r'"
  shows "severity (ClassifyTraffic r sim cfg) \<le> severity (ClassifyTraffic r' sim cfg)"
proof -
  note th = config_thresholds [OF cfg]
  obtain a b where ab: "r = Fin a" "r' = Fin b"
    using r fin by (cases r; cases r') (auto simp: is_inf_def zero_f64_def)
  have pos: "\<not> r \<le> 0" "\<not> r' \<le> 0" using r ab by (auto simp: zero_f64_def)
  have lt: "r' < x \<Longrightarrow> r < x" for x using r f64_le_less_trans by blast
  show ?thesis
    using th lt pos ab f64_less_trans
    by (auto simp: ClassifyTraffic_def is_nan_def is_inf_def)
qed

theorem classify_monotone_witness:
  "Config_Validate DefaultConfig \<and> severity (ClassifyTraffic (Fin 1) 1 DefaultConfig) \<le> severity (ClassifyTraffic (Fin 2) 1 DefaultConfig)"
proof -
  note c = DefaultConfig_valid
  show ?thesis
    using c classify_monotone [OF c, of "Fin 1" "Fin 2" 1] by (simp add: zero_f64_def is_inf_def)
qed

text \<open>Without traffic data an evaluated route has no green, yellow, orange or red segment: everything is
  unknown, so nothing can be presented as free-flowing. The policy's minimum geometry similarity must be positive.\<close>

theorem evaluate_fails_closed:
  assumes "\<not> TrafficDataAvailable e" "0 < MinimumGeometrySimilarity cfg"
  shows "list_all (\<lambda>s. seg_CongestionClass s = CongestionUnknown) (rc_Segments (Evaluate c e cfg))
    \<and> GreenDistanceMeters (rc_Metrics (Evaluate c e cfg)) = 0
    \<and> GreenDurationSeconds (rc_Metrics (Evaluate c e cfg)) = 0"
proof -
  have u: "seg_CongestionClass (evaluateSegment e cfg s) = CongestionUnknown" for s
    using assms by (simp add: evaluateSegment_def Let_def ClassifyTraffic_def)
  then have "list_all (\<lambda>s. seg_CongestionClass s = CongestionUnknown) (evaluated c e cfg)"
    by (simp add: evaluated_def list_all_iff)
  moreover from this have "class_sum f CongestionGreen (evaluated c e cfg) = 0" for f
    by (simp add: class_sum_def filter_False list_all_iff)
  ultimately show ?thesis
    by (simp add: Evaluate_fields finishMetrics_distance accumulate_metrics wrap64_def)
qed

theorem evaluate_fails_closed_witness:
  "\<not> TrafficDataAvailable ex_blind_evidence \<and> 0 < MinimumGeometrySimilarity DefaultConfig
   \<and> GreenDistanceMeters (rc_Metrics (Evaluate (ex_candidate ''a'' [ex_segment 100 10 10]) ex_blind_evidence DefaultConfig)) = 0"
proof -
  note m = DefaultConfig_similarity
  have e: "\<not> TrafficDataAvailable ex_blind_evidence" by (simp add: ex_defs)
  show ?thesis using m e evaluate_fails_closed [OF e m] by blast
qed

section \<open>Evaluating twice\<close>

lemma providerClassConfidence_cong:
  "seg_CongestionClass s = seg_CongestionClass t \<Longrightarrow> providerClassConfidence s e = providerClassConfidence t e"
  by (simp only: providerClassConfidence_def)

lemma segmentConfidence_cong:
  "seg_BaselineDurationSeconds s = seg_BaselineDurationSeconds t \<Longrightarrow>
   seg_GeometrySimilarity s = seg_GeometrySimilarity t \<Longrightarrow> segmentConfidence s e = segmentConfidence t e"
  by (simp only: segmentConfidence_def)

text \<open>What the two confidence functions read of a segment.\<close>

definition class_confidence :: "CongestionClass \<Rightarrow> Evidence \<Rightarrow> Confidence" where
  "class_confidence k e = providerClassConfidence ((ex_segment 0 0 0)\<lparr>seg_CongestionClass := k\<rparr>) e"

definition baseline_confidence :: "int64 \<Rightarrow> f64 \<Rightarrow> Evidence \<Rightarrow> Confidence" where
  "baseline_confidence b g e = segmentConfidence ((ex_segment 0 0 b)\<lparr>seg_GeometrySimilarity := g\<rparr>) e"

lemma providerClassConfidence_reads: "providerClassConfidence s e = class_confidence (seg_CongestionClass s) e"
  unfolding class_confidence_def by (rule providerClassConfidence_cong) simp

lemma segmentConfidence_reads:
  "segmentConfidence s e = baseline_confidence (seg_BaselineDurationSeconds s) (seg_GeometrySimilarity s) e"
  unfolding baseline_confidence_def by (rule segmentConfidence_cong) (simp_all add: ex_segment_def)

lemma evaluateSegment_idem: "evaluateSegment e cfg (evaluateSegment e cfg s) = evaluateSegment e cfg s"
  by (cases "seg_Source s = SegmentSourceDGISTrafficColor")
    (simp_all add: evaluateSegment_def Let_def providerClassConfidence_reads segmentConfidence_reads)

lemma unique_unique: "unique (unique xs) = unique xs"
  unfolding unique_def by (rule unique_from_id) (auto simp: distinct_unique_from set_unique_from)

lemma unique_appendUnique: "x \<noteq> [] \<Longrightarrow> unique (appendUnique (unique xs) x) = appendUnique (unique xs) x"
  unfolding unique_def appendUnique_def
  by (rule unique_from_id) (auto simp: distinct_unique_from set_unique_from)

lemma appendUnique_twice: "appendUnique (appendUnique xs x) x = appendUnique xs x"
  by (simp add: appendUnique_def)

lemma evaluated_Evaluate: "evaluated (Evaluate c e cfg) e cfg = evaluated c e cfg"
proof -
  have "evaluated c e cfg \<noteq> []" by (simp add: evaluated_def defaultSegments_def)
  then have "defaultSegments (Evaluate c e cfg) = evaluated c e cfg"
    by (simp add: defaultSegments_def Evaluate_fields)
  then show ?thesis
    by (simp add: evaluated_def evaluateSegment_idem comp_def)
qed

lemma finishMetrics_cong:
  "rc_DistanceMeters c = rc_DistanceMeters c' \<Longrightarrow> rc_LiveDurationSeconds c = rc_LiveDurationSeconds c' \<Longrightarrow>
   finishMetrics c st = finishMetrics c' st"
  by (simp only: finishMetrics_def)

lemma routeConfidence_cong:
  "rc_DistanceMeters c = rc_DistanceMeters c' \<Longrightarrow> rc_Metrics c = rc_Metrics c' \<Longrightarrow>
   routeConfidence c e w cfg = routeConfidence c' e w cfg"
  by (simp only: routeConfidence_def)

text \<open>\<open>Evaluate\<close> as one record update, for reasoning about all fields at once.\<close>

lemma Evaluate_eq:
  "Evaluate c e cfg =
     (let segs = evaluated c e cfg; st = foldl accumulateSegment eval_init segs; m = finishMetrics c st;
          reasons = unique (rc_ReasonCodes c)
      in c\<lparr>rc_Segments := segs, rc_Metrics := m, rc_TrafficDelaySeconds := TotalTrafficDelaySeconds m,
           rc_BaselineDurationSeconds := (if rc_BaselineDurationSeconds c \<le> 0
             then max64 0 (sub64 (rc_LiveDurationSeconds c) (TotalTrafficDelaySeconds m))
             else rc_BaselineDurationSeconds c),
           rc_Confidence := routeConfidence (c\<lparr>rc_Metrics := m\<rparr>) e (es_weightedSimilarity st) cfg,
           rc_ReasonCodes := (if UnknownDistanceMeters m > 0
             then appendUnique reasons ''PARTIAL_TRAFFIC_DATA'' else reasons)\<rparr>)"
  unfolding Evaluate_def evaluated_def Let_def
  by (auto intro!: routeConfidence_cong RouteCandidate.equality)

text \<open>Evaluation is idempotent: evaluating an evaluated route again, with the same evidence and policy,
  changes nothing. The search engine relies on it when it re-evaluates routes of earlier waves.\<close>

theorem evaluate_idempotent: "Evaluate (Evaluate c e cfg) e cfg = Evaluate c e cfg"
proof -
  define d where "d = Evaluate c e cfg"
  define segs where "segs = evaluated c e cfg"
  define m where "m = finishMetrics c (foldl accumulateSegment eval_init segs)"
  have segs: "evaluated d e cfg = segs" by (simp add: d_def segs_def evaluated_Evaluate)
  have m: "finishMetrics d (foldl accumulateSegment eval_init segs) = m"
    unfolding m_def by (rule finishMetrics_cong) (simp_all add: Evaluate_fields d_def)
  note eq = Evaluate_eq [of c e cfg, folded d_def segs_def, unfolded Let_def, folded m_def]
  have conf: "routeConfidence (d\<lparr>rc_Metrics := m\<rparr>) e w cfg = routeConfidence (c\<lparr>rc_Metrics := m\<rparr>) e w cfg" for w
    by (rule routeConfidence_cong) (simp_all add: d_def Evaluate_fields)
  have reasons: "(if UnknownDistanceMeters m > 0 then appendUnique (unique (rc_ReasonCodes d)) ''PARTIAL_TRAFFIC_DATA''
      else unique (rc_ReasonCodes d)) = rc_ReasonCodes d"
    by (simp add: eq unique_unique unique_appendUnique appendUnique_twice)
  have "Evaluate d e cfg = d"
    unfolding Evaluate_eq [of d e cfg] segs Let_def m conf reasons by (simp add: eq)
  then show ?thesis by (simp add: d_def)
qed

section \<open>Percentages\<close>

text \<open>Measurements a provider can deliver: nonnegative, with totals inside the 64-bit range.\<close>

definition sane_segments :: "RouteSegment list \<Rightarrow> bool" where
  "sane_segments segs \<longleftrightarrow> list_all (\<lambda>s. 0 \<le> seg_DistanceMeters s \<and> 0 \<le> seg_LiveDurationSeconds s) segs
     \<and> sum_list (map seg_DistanceMeters segs) < 2 ^ 63 \<and> sum_list (map seg_LiveDurationSeconds segs) < 2 ^ 63"

definition sane_route :: "RouteCandidate \<Rightarrow> bool" where
  "sane_route c \<longleftrightarrow> sane_segments (defaultSegments c)
     \<and> rc_DistanceMeters c < 2 ^ 63 \<and> rc_LiveDurationSeconds c < 2 ^ 63"

lemma sane_evaluated: "sane_segments (evaluated c e cfg) \<longleftrightarrow> sane_segments (defaultSegments c)"
  by (simp add: sane_segments_def evaluated_def list_all_iff comp_def)

lemma class_sum_nonneg: "list_all (\<lambda>s. 0 \<le> f s) segs \<Longrightarrow> 0 \<le> class_sum f k segs"
  by (induction segs) auto

lemma class_sum_le: "list_all (\<lambda>s. 0 \<le> f s) segs \<Longrightarrow> k \<noteq> k' \<Longrightarrow>
    class_sum f k segs + class_sum f k' segs \<le> sum_list (map f segs)"
  by (induction segs) auto

lemma percent_range: "v \<le> t \<Longrightarrow> t < 2 ^ 63 \<Longrightarrow> frange 0 100 (percent v t)"
proof -
  assume vt: "v \<le> t" "t < 2 ^ 63"
  have h: "flit 100 = Fin 100" using flit_small [of 100] by simp
  show ?thesis
  proof (cases "t \<le> 0 \<or> v \<le> 0")
    case False
    then have i: "in64 v" "in64 t" using vt by (auto simp: in64_def)
    have t: "1 \<le> rnd (of_int t)" using False by (simp add: rnd_of_int_pos)
    have "rnd (of_int v) \<le> rnd (of_int t)" using vt by (simp add: rnd_mono)
    moreover have "0 \<le> rnd (of_int v)" using False by (simp add: rnd_nonneg)
    ultimately have "frange 0 1 (of_i64 v / of_i64 t)"
      using t by (intro frange_div_le [OF of_i64_fin [OF i(1)] of_i64_fin [OF i(2)]]) auto
    then have "frange 0 (1 * 100) (of_i64 v / of_i64 t * Fin 100)"
      by (rule frange_mult) (use rep_int [of 100] in simp_all)
    then have "frange 0 (of_nat 100) (of_i64 v / of_i64 t * flit 100)" by (simp add: h)
    then have "frange 0 (of_nat 100) (round_to (of_i64 v / of_i64 t * flit 100) 3)"
      by (rule round_to_range) simp_all
    then show ?thesis using False by (simp add: percent_def)
  qed (auto simp: percent_def zero_f64_def)
qed

lemma finishMetrics_percents:
  assumes "es_totalDistance st = td" "es_totalDuration st = tt"
  shows "CongestedDistancePercent (finishMetrics c st) =
      (if max (rc_DistanceMeters c) td > 0 then percent (add64 (OrangeDistanceMeters (es_metrics st)) (RedDistanceMeters (es_metrics st)))
         (max (rc_DistanceMeters c) td) else CongestedDistancePercent (es_metrics st))"
    "GreenDistancePercent (finishMetrics c st) =
      (if max (rc_DistanceMeters c) td > 0 then percent (GreenDistanceMeters (es_metrics st))
         (max (rc_DistanceMeters c) td) else GreenDistancePercent (es_metrics st))"
    "CongestedDurationPercent (finishMetrics c st) =
      (if max (rc_LiveDurationSeconds c) tt > 0 then percent (add64 (OrangeDurationSeconds (es_metrics st)) (RedDurationSeconds (es_metrics st)))
         (max (rc_LiveDurationSeconds c) tt) else CongestedDurationPercent (es_metrics st))"
  unfolding finishMetrics_def Let_def assms by (simp_all add: max_def)

lemma accumulate_percents:
  "CongestedDistancePercent (es_metrics (foldl accumulateSegment st segs)) = CongestedDistancePercent (es_metrics st)"
  "GreenDistancePercent (es_metrics (foldl accumulateSegment st segs)) = GreenDistancePercent (es_metrics st)"
  "CongestedDurationPercent (es_metrics (foldl accumulateSegment st segs)) = CongestedDurationPercent (es_metrics st)"
proof -
  have "CongestedDistancePercent (es_metrics (accumulateSegment st s)) = CongestedDistancePercent (es_metrics st)
    \<and> GreenDistancePercent (es_metrics (accumulateSegment st s)) = GreenDistancePercent (es_metrics st)
    \<and> CongestedDurationPercent (es_metrics (accumulateSegment st s)) = CongestedDurationPercent (es_metrics st)" for st s
    by (cases "seg_CongestionClass s") (simp_all add: accumulateSegment_def congestedStep_def Let_def)
  then show "CongestedDistancePercent (es_metrics (foldl accumulateSegment st segs)) = CongestedDistancePercent (es_metrics st)"
    "GreenDistancePercent (es_metrics (foldl accumulateSegment st segs)) = GreenDistancePercent (es_metrics st)"
    "CongestedDurationPercent (es_metrics (foldl accumulateSegment st segs)) = CongestedDurationPercent (es_metrics st)"
    by (induction segs arbitrary: st) simp_all
qed

text \<open>A percentage of two class sums of one measurement, taken of a total not below the segments' sum.\<close>

lemma percent_classes:
  assumes "list_all (\<lambda>s. 0 \<le> f s) segs" "sum_list (map f segs) < 2 ^ 63" "t < 2 ^ 63" "k \<noteq> k'"
  shows "frange 0 100 (percent (add64 (wrap64 (class_sum f k segs)) (wrap64 (class_sum f k' segs))) (max t (wrap64 (sum_list (map f segs)))))"
    "frange 0 100 (percent (wrap64 (class_sum f k segs)) (max t (wrap64 (sum_list (map f segs)))))"
proof -
  have n: "0 \<le> class_sum f k segs" "0 \<le> class_sum f k' segs" using assms(1) by (simp_all add: class_sum_nonneg)
  have le: "class_sum f k segs + class_sum f k' segs \<le> sum_list (map f segs)" using assms(1,4) by (rule class_sum_le)
  have w: "wrap64 (sum_list (map f segs)) = sum_list (map f segs)" "wrap64 (class_sum f k segs) = class_sum f k segs"
    "wrap64 (class_sum f k' segs) = class_sum f k' segs"
    "add64 (class_sum f k segs) (class_sum f k' segs) = class_sum f k segs + class_sum f k' segs"
    using n le assms(2) by (auto intro!: wrap64_id simp: in64_def add64_def)
  show "frange 0 100 (percent (add64 (wrap64 (class_sum f k segs)) (wrap64 (class_sum f k' segs))) (max t (wrap64 (sum_list (map f segs)))))"
    "frange 0 100 (percent (wrap64 (class_sum f k segs)) (max t (wrap64 (sum_list (map f segs)))))"
    unfolding w using n le assms(2,3) by (auto intro!: percent_range)
qed

text \<open>The three percentages of an evaluated route lie between 0 and 100, for nonnegative segment
  measurements whose totals fit 64 bits.\<close>

theorem evaluate_percentages:
  assumes "sane_route c"
  shows "frange 0 100 (CongestedDistancePercent (rc_Metrics (Evaluate c e cfg)))
    \<and> frange 0 100 (CongestedDurationPercent (rc_Metrics (Evaluate c e cfg)))
    \<and> frange 0 100 (GreenDistancePercent (rc_Metrics (Evaluate c e cfg)))"
proof -
  define segs where "segs = evaluated c e cfg"
  have s: "list_all (\<lambda>s. 0 \<le> seg_DistanceMeters s) segs" "list_all (\<lambda>s. 0 \<le> seg_LiveDurationSeconds s) segs"
    "sum_list (map seg_DistanceMeters segs) < 2 ^ 63" "sum_list (map seg_LiveDurationSeconds segs) < 2 ^ 63"
    using assms sane_evaluated [of c e cfg]
    by (auto simp: sane_route_def sane_segments_def segs_def list_all_iff)
  have c: "rc_DistanceMeters c < 2 ^ 63" "rc_LiveDurationSeconds c < 2 ^ 63" using assms by (simp_all add: sane_route_def)
  note pd = percent_classes [OF s(1) s(3) c(1)] and pt = percent_classes [OF s(2) s(4) c(2)]
  show ?thesis
    unfolding Evaluate_fields segs_def [symmetric]
      finishMetrics_percents [OF accumulate_metrics(11,12)] accumulate_metrics accumulate_percents
    using pd pt by (auto simp: eval_init_def zero_metrics_def zero_f64_def)
qed

theorem evaluate_percentages_witness:
  "sane_route (ex_candidate ''a'' [ex_segment 100 10 9])
   \<and> frange 0 100 (GreenDistancePercent (rc_Metrics (Evaluate (ex_candidate ''a'' [ex_segment 100 10 9]) ex_evidence DefaultConfig)))"
proof -
  have "sane_route (ex_candidate ''a'' [ex_segment 100 10 9])"
    by (simp add: sane_route_def sane_segments_def defaultSegments_def ex_defs)
  then show ?thesis using evaluate_percentages by blast
qed

section \<open>The longest continuous congestion\<close>

definition congested :: "RouteSegment \<Rightarrow> bool" where
  "congested s \<longleftrightarrow> seg_CongestionClass s = CongestionOrange \<or> seg_CongestionClass s = CongestionRed"

text \<open>The loop without wrap-around: the length of the congested run that ends here, and the longest so far.\<close>

definition run_step :: "int \<times> int \<Rightarrow> RouteSegment \<Rightarrow> int \<times> int" where
  "run_step st s = (case st of (cc, w) \<Rightarrow>
     if congested s then (cc + seg_DistanceMeters s, max w (cc + seg_DistanceMeters s)) else (0, w))"

lemma run_cc: "fst (foldl run_step (0, 0) segs) = sum_list (map seg_DistanceMeters (takeWhile congested (rev segs)))"
  by (induction segs rule: rev_induct) (auto simp: run_step_def split: prod.splits)

lemma congested_suffix_le:
  assumes "list_all (\<lambda>s. 0 \<le> seg_DistanceMeters s) segs" "suffix xs segs" "list_all congested xs"
  shows "sum_list (map seg_DistanceMeters xs) \<le> sum_list (map seg_DistanceMeters (takeWhile congested (rev segs)))"
proof -
  obtain pre where p: "segs = pre @ xs" using assms(2) by (auto simp: suffix_def)
  have "takeWhile congested (rev segs) = rev xs @ takeWhile congested (rev pre)"
    unfolding p rev_append by (rule takeWhile_append2) (use assms(3) in \<open>simp add: list_all_iff\<close>)
  moreover have "0 \<le> sum_list (map seg_DistanceMeters (takeWhile congested (rev pre)))"
    using assms(1) by (intro sum_list_nonneg) (auto simp: p list_all_iff dest: set_takeWhileD)
  ultimately show ?thesis by (simp add: rev_map [symmetric])
qed

lemma run_worst:
  assumes "list_all (\<lambda>s. 0 \<le> seg_DistanceMeters s) segs"
  shows "(sublist xs segs \<longrightarrow> list_all congested xs \<longrightarrow> sum_list (map seg_DistanceMeters xs) \<le> snd (foldl run_step (0, 0) segs))
    \<and> (\<exists>xs. sublist xs segs \<and> list_all congested xs \<and> sum_list (map seg_DistanceMeters xs) = snd (foldl run_step (0, 0) segs))"
  using assms
proof (induction segs arbitrary: xs rule: rev_induct)
  case Nil
  then show ?case by (auto simp: sublist_Nil_right)
next
  case (snoc s segs)
  obtain cc w where st: "foldl run_step (0, 0) segs = (cc, w)" by fastforce
  have cc: "cc = sum_list (map seg_DistanceMeters (takeWhile congested (rev segs)))" using run_cc [of segs] st by simp
  have le: "\<And>xs. sublist xs segs \<Longrightarrow> list_all congested xs \<Longrightarrow> sum_list (map seg_DistanceMeters xs) \<le> w"
    and ex: "\<exists>xs. sublist xs segs \<and> list_all congested xs \<and> sum_list (map seg_DistanceMeters xs) = w"
    using snoc st by auto
  have new: "foldl run_step (0, 0) (segs @ [s]) =
      (if congested s then (cc + seg_DistanceMeters s, max w (cc + seg_DistanceMeters s)) else (0, w))"
    by (simp add: st run_step_def)
  have bound: "sum_list (map seg_DistanceMeters xs) \<le> cc + seg_DistanceMeters s"
    if "suffix xs (segs @ [s])" "list_all congested xs" "congested s" for xs
    using congested_suffix_le [OF snoc.prems that(1,2)] that(3) by (simp add: cc)
  have reach: "\<exists>xs. sublist xs (segs @ [s]) \<and> list_all congested xs \<and> sum_list (map seg_DistanceMeters xs) = cc + seg_DistanceMeters s"
    if "congested s"
  proof (intro exI conjI)
    let ?x = "rev (takeWhile congested (rev segs)) @ [s]"
    have "suffix (rev (takeWhile congested (rev segs))) segs"
      by (metis rev_rev_ident suffix_to_prefix takeWhile_is_prefix)
    then show "sublist ?x (segs @ [s])" by (simp add: suffix_imp_sublist)
    show "list_all congested ?x" using that by (auto simp: list_all_iff dest: set_takeWhileD)
    show "sum_list (map seg_DistanceMeters ?x) = cc + seg_DistanceMeters s" by (simp add: cc rev_map [symmetric])
  qed
  show ?case
  proof (cases "congested s")
    case True
    then have snd: "snd (foldl run_step (0, 0) (segs @ [s])) = max w (cc + seg_DistanceMeters s)"
      unfolding new by simp
    have "\<exists>xs. sublist xs (segs @ [s]) \<and> list_all congested xs \<and> sum_list (map seg_DistanceMeters xs) = max w (cc + seg_DistanceMeters s)"
      using ex reach [OF True] by (cases "w \<le> cc + seg_DistanceMeters s") (auto simp: sublist_snoc max_def)
    moreover have "sum_list (map seg_DistanceMeters xs) \<le> max w (cc + seg_DistanceMeters s)"
      if "sublist xs (segs @ [s])" "list_all congested xs" for xs
      using that(1) le [OF _ that(2)] bound [OF _ that(2) True] by (auto simp only: sublist_snoc le_max_iff_disj)
    ultimately show ?thesis unfolding snd by blast
  next
    case False
    have "xs = []" if "suffix xs (segs @ [s])" "list_all congested xs" for xs
      using that False by (cases xs rule: rev_cases) auto
    moreover have "0 \<le> w" using le [of "[]"] by simp
    moreover have "snd (foldl run_step (0, 0) (segs @ [s])) = w" unfolding new using False by simp
    ultimately show ?thesis using le ex by (auto simp: sublist_snoc)
  qed
qed

text \<open>The loop of \<open>Evaluate\<close> computes the same numbers when the total distance fits 64 bits.\<close>

lemma accumulate_run_step:
  assumes "validCongestionClass (seg_CongestionClass s)"
  shows "es_continuousCongestion (accumulateSegment st s) =
      (if congested s then add64 (es_continuousCongestion st) (seg_DistanceMeters s) else 0)"
    "WorstContinuousCongestionMeters (es_metrics (accumulateSegment st s)) =
      (if congested s then max (WorstContinuousCongestionMeters (es_metrics st)) (add64 (es_continuousCongestion st) (seg_DistanceMeters s))
       else WorstContinuousCongestionMeters (es_metrics st))"
  using assms by (cases "seg_CongestionClass s"; simp add: accumulateSegment_def congestedStep_def Let_def congested_def max64_def)+

lemma accumulate_run:
  assumes "list_all (\<lambda>s. validCongestionClass (seg_CongestionClass s)) segs"
    and "list_all (\<lambda>s. 0 \<le> seg_DistanceMeters s) segs" "sum_list (map seg_DistanceMeters segs) < 2 ^ 63"
  shows "(es_continuousCongestion (foldl accumulateSegment eval_init segs),
    WorstContinuousCongestionMeters (es_metrics (foldl accumulateSegment eval_init segs))) = foldl run_step (0, 0) segs"
  using assms
proof (induction segs rule: rev_induct)
  case Nil
  then show ?case by (simp add: eval_init_def zero_metrics_def)
next
  case (snoc s segs)
  have d: "0 \<le> seg_DistanceMeters s" "0 \<le> sum_list (map seg_DistanceMeters segs)"
    using snoc.prems(2) by (auto simp: list_all_iff intro!: sum_list_nonneg)
  then have IH: "(es_continuousCongestion (foldl accumulateSegment eval_init segs),
      WorstContinuousCongestionMeters (es_metrics (foldl accumulateSegment eval_init segs))) = foldl run_step (0, 0) segs"
    using snoc by simp
  have "fst (foldl run_step (0, 0) segs) + seg_DistanceMeters s < 2 ^ 63 \<and> 0 \<le> fst (foldl run_step (0, 0) segs)"
  proof -
    have "sum_list (map seg_DistanceMeters (rev segs)) = sum_list (map seg_DistanceMeters
        (takeWhile congested (rev segs) @ dropWhile congested (rev segs)))" by simp
    then have "sum_list (map seg_DistanceMeters segs) = sum_list (map seg_DistanceMeters (takeWhile congested (rev segs)))
        + sum_list (map seg_DistanceMeters (dropWhile congested (rev segs)))"
      by (simp only: map_append sum_list_append rev_map [symmetric] sum_list_rev)
    moreover have "0 \<le> sum_list (map seg_DistanceMeters (dropWhile congested (rev segs)))"
      "0 \<le> sum_list (map seg_DistanceMeters (takeWhile congested (rev segs)))"
      using snoc.prems(2) set_takeWhileD [of _ congested "rev segs"] set_dropWhileD [of _ congested "rev segs"]
      by (auto simp: list_all_iff intro!: sum_list_nonneg)
    ultimately show ?thesis using snoc.prems(3) by (simp add: run_cc)
  qed
  then have "add64 (fst (foldl run_step (0, 0) segs)) (seg_DistanceMeters s) = fst (foldl run_step (0, 0) segs) + seg_DistanceMeters s"
    using d by (intro add64_id) (auto simp: in64_def)
  moreover obtain cc w where "foldl run_step (0, 0) segs = (cc, w)" by fastforce
  ultimately show ?case
    using IH snoc.prems(1) by (simp add: accumulate_run_step run_step_def [of "(_, _)" s])
qed

text \<open>The reported worst continuous congestion is the length of the longest contiguous stretch of orange and red
  segments: no such stretch is longer, and one has exactly that length (nonnegative distances, total within 64 bits).\<close>

theorem evaluate_worst_congestion:
  assumes "sane_route c"
  shows "(\<forall>xs. sublist xs (rc_Segments (Evaluate c e cfg)) \<and> list_all congested xs \<longrightarrow>
      sum_list (map seg_DistanceMeters xs) \<le> WorstContinuousCongestionMeters (rc_Metrics (Evaluate c e cfg)))
    \<and> (\<exists>xs. sublist xs (rc_Segments (Evaluate c e cfg)) \<and> list_all congested xs \<and>
      sum_list (map seg_DistanceMeters xs) = WorstContinuousCongestionMeters (rc_Metrics (Evaluate c e cfg)))"
proof -
  define segs where "segs = evaluated c e cfg"
  have s: "list_all (\<lambda>s. 0 \<le> seg_DistanceMeters s) segs" "sum_list (map seg_DistanceMeters segs) < 2 ^ 63"
    using assms sane_evaluated [of c e cfg]
    by (auto simp: sane_route_def sane_segments_def segs_def list_all_iff)
  have "WorstContinuousCongestionMeters (rc_Metrics (Evaluate c e cfg)) = snd (foldl run_step (0, 0) segs)"
    using arg_cong [OF accumulate_run [OF evaluated_valid s [unfolded segs_def]], where f = snd]
    by (simp add: Evaluate_fields finishMetrics_distance segs_def)
  then show ?thesis using run_worst [OF s(1)] by (simp add: Evaluate_fields segs_def)
qed

theorem evaluate_worst_congestion_witness:
  "sane_route (ex_candidate ''a'' [ex_segment 100 10 9])
   \<and> (\<exists>xs. sublist xs (rc_Segments (Evaluate (ex_candidate ''a'' [ex_segment 100 10 9]) ex_evidence DefaultConfig))
      \<and> list_all congested xs \<and> sum_list (map seg_DistanceMeters xs) = WorstContinuousCongestionMeters
         (rc_Metrics (Evaluate (ex_candidate ''a'' [ex_segment 100 10 9]) ex_evidence DefaultConfig)))"
proof -
  have "sane_route (ex_candidate ''a'' [ex_segment 100 10 9])"
    by (simp add: sane_route_def sane_segments_def defaultSegments_def ex_defs)
  then show ?thesis using evaluate_worst_congestion by blast
qed

end
