(* ===== verification/Scoring_Rank.thy ===== *)
theory Scoring_Rank
  imports Scoring_Evaluate
begin

text \<open>
  Theorems about the hard constraints and \<open>Rank\<close>: the constraint checks are exactly the stated
  limits (\<open>hard_violations_nil\<close>), the STRICT_GREEN evidence rules admit all-green routes only, the
  selected route is a least element of the comparison among the routes that satisfy every
  constraint, the comparison functions are three-way comparisons (interpretations of \<open>three_way\<close>),
  and ranking does not depend on the order in which candidates arrive.
\<close>

section \<open>The comparison functions\<close>

lemma compareTuple_three_way: "three_way (\<lambda>a b. compareTuple a b gs)"
proof (induction gs)
  case Nil
  show ?case using three_way_key [OF three_way_ord, of rc_CandidateID] by simp
next
  case (Cons g gs)
  show ?case
    using three_way_lex [OF three_way_key [OF three_way_fcompare, of g] Cons] by (simp add: Let_def)
qed

lemma compareTuple_zero: "compareTuple a b gs = 0 \<Longrightarrow> rc_CandidateID a = rc_CandidateID b"
  by (induction gs) (auto simp: Let_def compare_ord_def split: if_splits)

lemma compareScore_three_way:
  "three_way (\<lambda>a b. if fcompare (rc_Score a) (rc_Score b) \<noteq> 0 then fcompare (rc_Score a) (rc_Score b)
     else compare_ord (rc_CandidateID a) (rc_CandidateID b))"
  by (rule three_way_lex) (rule three_way_key [OF three_way_fcompare], rule three_way_key [OF three_way_ord])

interpretation routes: three_way "\<lambda>a b. compareRoutes a b fastest request config"
  for fastest request config
  using compareTuple_three_way compareScore_three_way
  by (cases "rq_RoutingMode request") (simp_all add: compareRoutes_def Let_def del: compareTuple.simps)

interpretation best_effort: three_way compareBestEffortRoutes
  unfolding compareBestEffortRoutes_def by (rule compareTuple_three_way)

lemma compareRoutes_zero: "compareRoutes a b f rq cfg = 0 \<Longrightarrow> rc_CandidateID a = rc_CandidateID b"
  unfolding compareRoutes_def Let_def
  by (cases "rq_RoutingMode rq")
    (auto simp: compare_ord_def simp del: compareTuple.simps split: if_splits dest: compareTuple_zero)

section \<open>The hard constraints\<close>

lemma violation_nil [simp]: "violation b c m = [] \<longleftrightarrow> \<not> b"
  by (simp add: violation_def)

text \<open>A segment that the evidence check does not skip.\<close>

definition meaningful :: "RouteSegment \<Rightarrow> bool" where
  "meaningful s \<longleftrightarrow> 0 < seg_DistanceMeters s \<or> 0 < seg_LiveDurationSeconds s"

definition trusted :: "Confidence \<Rightarrow> bool" where
  "trusted c \<longleftrightarrow> Level c = ConfidenceHigh \<or> Level c = ConfidenceMedium"

text \<open>What STRICT_GREEN demands of a route.\<close>

definition strict_evidence :: "ScoringConfig \<Rightarrow> RouteCandidate \<Rightarrow> bool" where
  "strict_evidence cfg c \<longleftrightarrow>
     (rc_TrafficDataType c = TrafficDataRealtime \<or> rc_TrafficDataType c = TrafficDataForecast)
     \<and> trusted (rc_Confidence c) \<and> list_ex meaningful (rc_Segments c)
     \<and> list_all (\<lambda>s. seg_CongestionClass s = CongestionGreen \<and> trusted (seg_Confidence s)
          \<and> \<not> Score (seg_Confidence s) < MinimumRouteConfidence cfg) (filter meaningful (rc_Segments c))
     \<and> sum64 (map (\<lambda>s. max 0 (seg_DistanceMeters s)) (rc_Segments c)) = rc_DistanceMeters c
     \<and> sum64 (map (\<lambda>s. max 0 (seg_LiveDurationSeconds s)) (rc_Segments c)) = rc_LiveDurationSeconds c"

lemma strictScan_covered:
  "ss_coveredDistance (foldl (strictScanStep cfg) strict_init segs) = sum64 (map (\<lambda>s. max 0 (seg_DistanceMeters s)) segs)"
  "ss_coveredDuration (foldl (strictScanStep cfg) strict_init segs) = sum64 (map (\<lambda>s. max 0 (seg_LiveDurationSeconds s)) segs)"
  unfolding sum64_wrap
  by (rule fold_wrap64_zero [where f = "strictScanStep cfg"],
      simp add: strict_init_def,
      simp add: strictScanStep_def Let_def add64_def max64_def max_def split: CongestionClass.split)+

lemma strictScan_count:
  "ss_meaningfulSegments (foldl (strictScanStep cfg) st segs) = ss_meaningfulSegments st + int (length (filter meaningful segs))"
proof (induction segs arbitrary: st)
  case (Cons s segs)
  have "ss_meaningfulSegments (strictScanStep cfg st s) = ss_meaningfulSegments st + (if meaningful s then 1 else 0)"
    by (simp add: strictScanStep_def Let_def meaningful_def not_le split: CongestionClass.split)
  with Cons show ?case by simp
qed simp

lemma strictScan_nonGreen:
  "ss_nonGreen (foldl (strictScanStep cfg) st segs) \<longleftrightarrow>
     ss_nonGreen st \<or> list_ex (\<lambda>s. meaningful s \<and> seg_CongestionClass s \<noteq> CongestionGreen) segs"
proof (induction segs arbitrary: st)
  case (Cons s segs)
  have "ss_nonGreen (strictScanStep cfg st s) \<longleftrightarrow> ss_nonGreen st \<or> meaningful s \<and> seg_CongestionClass s \<noteq> CongestionGreen"
    by (cases "seg_CongestionClass s") (auto simp: strictScanStep_def Let_def meaningful_def not_le)
  with Cons show ?case by simp
qed simp

lemma strictScan_lowConfidence:
  "ss_lowConfidence (foldl (strictScanStep cfg) st segs) \<longleftrightarrow> ss_lowConfidence st \<or> list_ex (\<lambda>s. meaningful s \<and>
     (Score (seg_Confidence s) < MinimumRouteConfidence cfg \<or> \<not> trusted (seg_Confidence s))) segs"
proof (induction segs arbitrary: st)
  case (Cons s segs)
  have "ss_lowConfidence (strictScanStep cfg st s) \<longleftrightarrow> ss_lowConfidence st \<or> meaningful s \<and>
     (Score (seg_Confidence s) < MinimumRouteConfidence cfg \<or> \<not> trusted (seg_Confidence s))"
    by (cases "seg_CongestionClass s") (auto simp: strictScanStep_def Let_def meaningful_def trusted_def not_le)
  with Cons show ?case by simp
qed simp

definition scan_coloured :: "StrictScan \<Rightarrow> bool" where
  "scan_coloured st \<longleftrightarrow> ss_red st \<or> ss_orange st \<or> ss_yellow st \<or> ss_unknown st"

lemma strictScan_coloured:
  "scan_coloured (foldl (strictScanStep cfg) st segs) \<Longrightarrow> scan_coloured st \<or> ss_nonGreen (foldl (strictScanStep cfg) st segs)"
proof (induction segs arbitrary: st)
  case (Cons s segs)
  have "scan_coloured (strictScanStep cfg st s) \<Longrightarrow> scan_coloured st \<or> ss_nonGreen (strictScanStep cfg st s)"
    by (cases "seg_CongestionClass s") (auto simp: scan_coloured_def strictScanStep_def Let_def split: if_splits)
  with Cons show ?case by (auto simp: strictScan_nonGreen)
qed simp

lemma strict_violations_nil: "strictGreenEvidenceViolations c cfg = [] \<longleftrightarrow> strict_evidence cfg c"
proof -
  let ?st = "foldl (strictScanStep cfg) strict_init (rc_Segments c)"
  have flags: "\<not> ss_nonGreen ?st \<Longrightarrow> \<not> ss_red ?st \<and> \<not> ss_orange ?st \<and> \<not> ss_yellow ?st \<and> \<not> ss_unknown ?st"
    using strictScan_coloured [of cfg strict_init "rc_Segments c"] by (auto simp: scan_coloured_def strict_init_def)
  have count: "ss_meaningfulSegments ?st = 0 \<longleftrightarrow> \<not> list_ex meaningful (rc_Segments c)"
    "ss_meaningfulSegments ?st > 0 \<longleftrightarrow> list_ex meaningful (rc_Segments c)"
    by (auto simp: strictScan_count strict_init_def filter_empty_conv list_ex_iff)
  have green: "ss_nonGreen ?st \<longleftrightarrow> list_ex (\<lambda>s. meaningful s \<and> seg_CongestionClass s \<noteq> CongestionGreen) (rc_Segments c)"
    "ss_lowConfidence ?st \<longleftrightarrow> list_ex (\<lambda>s. meaningful s \<and>
       (Score (seg_Confidence s) < MinimumRouteConfidence cfg \<or> \<not> trusted (seg_Confidence s))) (rc_Segments c)"
    by (simp_all add: strictScan_nonGreen strictScan_lowConfidence strict_init_def)
  show ?thesis
    unfolding strictGreenEvidenceViolations_def Let_def append_is_Nil_conv violation_nil count strictScan_covered
    using flags by (auto simp: strict_evidence_def green trusted_def list_ex_iff list_all_iff)
qed

text \<open>The limits of the request, relative to the fastest candidate.\<close>

definition within_limits :: "RouteSearchRequest \<Rightarrow> ScoringConfig \<Rightarrow> RouteCandidate \<Rightarrow> RouteCandidate \<Rightarrow> bool" where
  "within_limits rq cfg fastest c \<longleftrightarrow>
     \<not> rc_Blocked c \<and> 2 \<le> length (rc_Geometry c) \<and> 0 < rc_DistanceMeters c \<and> 0 < rc_LiveDurationSeconds c
     \<and> (rq_MaxExtraDistanceMeters rq < 0
        \<or> sub64 (rc_DistanceMeters c) (rc_DistanceMeters fastest) \<le> rq_MaxExtraDistanceMeters rq)
     \<and> (0 < rq_MaxExtraDistancePercent rq \<longrightarrow> 0 < rc_DistanceMeters fastest \<longrightarrow>
        \<not> rq_MaxExtraDistancePercent rq < percent (sub64 (rc_DistanceMeters c) (rc_DistanceMeters fastest)) (rc_DistanceMeters fastest))
     \<and> (rq_MaxExtraTimeSeconds rq < 0
        \<or> sub64 (rc_LiveDurationSeconds c) (rc_LiveDurationSeconds fastest) \<le> rq_MaxExtraTimeSeconds rq)
     \<and> \<not> Score (rc_Confidence c) < MinimumRouteConfidence cfg
     \<and> (rq_AvoidTolls rq \<longrightarrow> \<not> rc_Tolls c) \<and> (rq_AvoidUnpaved rq \<longrightarrow> \<not> rc_Unpaved c)"

definition admissible :: "RouteSearchRequest \<Rightarrow> ScoringConfig \<Rightarrow> RouteCandidate \<Rightarrow> RouteCandidate \<Rightarrow> bool" where
  "admissible rq cfg fastest c \<longleftrightarrow> within_limits rq cfg fastest c
     \<and> (rq_RoutingMode rq = RoutingModeStrictGreen \<longrightarrow> strict_evidence cfg c)"

lemma hard_violations_nil: "HardConstraintViolations c fastest rq cfg = [] \<longleftrightarrow> admissible rq cfg fastest c"
  unfolding HardConstraintViolations_def Let_def append_is_Nil_conv violation_nil admissible_def within_limits_def
  by (auto simp: strict_violations_nil not_less not_le)

section \<open>Ranking\<close>

subsection \<open>The fastest candidate\<close>

lemma fasterThan_trans: "fasterThan a b \<Longrightarrow> fasterThan b c \<Longrightarrow> fasterThan a c"
  unfolding fasterThan_def by auto

lemma fasterThan_total: "rc_CandidateID a \<noteq> rc_CandidateID b \<Longrightarrow> fasterThan a b \<or> fasterThan b a"
  unfolding fasterThan_def by (meson linorder_neqE)

lemma fasterThan_negtrans: "\<not> fasterThan a b \<Longrightarrow> \<not> fasterThan b c \<Longrightarrow> \<not> fasterThan a c"
  unfolding fasterThan_def by (auto simp: not_less)

lemma rankFastest_step: "rankFastest f (c # cs) = rankFastest (if fasterThan c f then c else f) cs"
  by (simp add: rankFastest_def)

lemma rankFastest_mem: "rankFastest f cs \<in> set (f # cs)"
  by (induction cs arbitrary: f) (auto simp: rankFastest_step, simp add: rankFastest_def)

lemma rankFastest_least: "c \<in> set (f # cs) \<Longrightarrow> \<not> fasterThan c (rankFastest f cs)"
proof (induction cs arbitrary: f c)
  case Nil
  then show ?case by (simp add: rankFastest_def fasterThan_def)
next
  case (Cons d cs)
  let ?g = "if fasterThan d f then d else f"
  have g: "\<not> fasterThan ?g (rankFastest ?g cs)" by (rule Cons.IH) simp
  have "\<not> fasterThan f ?g" "\<not> fasterThan d ?g"
    using fasterThan_trans [of d f d] fasterThan_trans [of f d f] by (auto simp: fasterThan_def)
  then have "\<not> fasterThan f (rankFastest ?g cs)" "\<not> fasterThan d (rankFastest ?g cs)"
    using g fasterThan_negtrans by blast+
  moreover have "\<not> fasterThan c (rankFastest ?g cs)" if "c \<in> set cs" using that by (intro Cons.IH) simp
  ultimately show ?case using Cons.prems by (auto simp: rankFastest_step)
qed

subsection \<open>The loop over the candidates\<close>

definition scored :: "RouteCandidate \<Rightarrow> RouteSearchRequest \<Rightarrow> ScoringConfig \<Rightarrow> RouteCandidate \<Rightarrow> RouteCandidate" where
  "scored fastest rq cfg c = c\<lparr>rc_Score := routeScore c fastest rq cfg\<rparr>"

definition best_effort_of :: "RouteCandidate \<Rightarrow> RouteSearchRequest \<Rightarrow> ScoringConfig \<Rightarrow> RouteCandidate list \<Rightarrow> RouteCandidate list" where
  "best_effort_of fastest rq cfg cs = map (\<lambda>c. markBestEffort (HardConstraintViolations c fastest rq cfg) c)
     (filter (\<lambda>c. rq_RoutingMode rq = RoutingModeStrictGreen
        \<and> hasStrictGreenViolation (HardConstraintViolations c fastest rq cfg)) cs)"

definition rejected_of :: "RouteCandidate \<Rightarrow> RouteSearchRequest \<Rightarrow> ScoringConfig \<Rightarrow> RouteCandidate list \<Rightarrow> (string \<times> ConstraintViolation list) list" where
  "rejected_of fastest rq cfg cs = map (\<lambda>c. (rc_CandidateID c, HardConstraintViolations c fastest rq cfg))
     (filter (\<lambda>c. \<not> admissible rq cfg fastest c) cs)"

lemma rank_loop:
  "foldl (rankStep fastest rq cfg) r cs =
     r\<lparr>rk_Eligible := rk_Eligible r @ map (scored fastest rq cfg) (filter (admissible rq cfg fastest) cs),
       rk_BestEffort := rk_BestEffort r @ best_effort_of fastest rq cfg cs,
       rk_Rejected := rk_Rejected r ++ map_of (rev (rejected_of fastest rq cfg cs))\<rparr>"
proof (induction cs arbitrary: r)
  case Nil
  then show ?case by (simp add: best_effort_of_def rejected_of_def)
next
  case (Cons c cs)
  have h: "hasStrictGreenViolation [] = False" by (simp add: hasStrictGreenViolation_def)
  have step: "rankStep fastest rq cfg r c =
      r\<lparr>rk_Eligible := rk_Eligible r @ map (scored fastest rq cfg) (filter (admissible rq cfg fastest) [c]),
        rk_BestEffort := rk_BestEffort r @ best_effort_of fastest rq cfg [c],
        rk_Rejected := rk_Rejected r ++ map_of (rejected_of fastest rq cfg [c])\<rparr>"
    by (simp add: rankStep_def Let_def best_effort_of_def rejected_of_def scored_def h
        hard_violations_nil [symmetric])
  show ?case
    unfolding foldl_Cons step Cons.IH by (simp add: best_effort_of_def rejected_of_def map_add_assoc)
qed

subsection \<open>The whole function\<close>

definition chosen :: "RouteCandidate \<Rightarrow> RouteSearchRequest \<Rightarrow> RouteCandidate \<Rightarrow> RouteCandidate" where
  "chosen fastest rq best = (let selected = best\<lparr>rc_ReasonCodes := explain best fastest rq\<rparr>
     in selected\<lparr>rc_Explanation := explanation selected fastest\<rparr>)"

definition eligible_sorted :: "RouteCandidate \<Rightarrow> RouteSearchRequest \<Rightarrow> ScoringConfig \<Rightarrow> RouteCandidate list \<Rightarrow> RouteCandidate list" where
  "eligible_sorted fastest rq cfg cs = sort_stable (\<lambda>a b. compareRoutes a b fastest rq cfg < 0)
     (map (scored fastest rq cfg) (filter (admissible rq cfg fastest) cs))"

lemma Rank_Nil: "Rank [] rq cfg = rank_init"
  by (simp add: Rank_def)

lemma Rank_eq:
  assumes "cs \<noteq> []"
  defines "fastest \<equiv> rankFastest (hd cs) (tl cs)"
  shows "Rank cs rq cfg = \<lparr>
     rk_Selected = (case eligible_sorted fastest rq cfg cs of [] \<Rightarrow> None | best # _ \<Rightarrow> Some (chosen fastest rq best)),
     rk_Eligible = (case eligible_sorted fastest rq cfg cs of [] \<Rightarrow> [] | best # others \<Rightarrow> chosen fastest rq best # others),
     rk_BestEffort = take 3 (sort_stable (\<lambda>a b. compareBestEffortRoutes a b < 0) (best_effort_of fastest rq cfg cs)),
     rk_Rejected = map_of (rev (rejected_of fastest rq cfg cs)) \<rparr>"
proof -
  obtain f t where cs: "cs = f # t" using assms(1) by (cases cs) auto
  show ?thesis
    unfolding Rank_def cs list.case Let_def rank_loop fastest_def list.sel eligible_sorted_def
    by (simp add: rank_init_def chosen_def Let_def split: list.split)
qed

lemma chosen_keeps [simp]:
  "rc_CandidateID (chosen f rq b) = rc_CandidateID b" "rc_Segments (chosen f rq b) = rc_Segments b"
  "rc_Metrics (chosen f rq b) = rc_Metrics b" "rc_Confidence (chosen f rq b) = rc_Confidence b"
  "rc_TrafficDataType (chosen f rq b) = rc_TrafficDataType b" "rc_DistanceMeters (chosen f rq b) = rc_DistanceMeters b"
  "rc_LiveDurationSeconds (chosen f rq b) = rc_LiveDurationSeconds b" "rc_Geometry (chosen f rq b) = rc_Geometry b"
  "rc_Blocked (chosen f rq b) = rc_Blocked b" "rc_Tolls (chosen f rq b) = rc_Tolls b"
  "rc_Unpaved (chosen f rq b) = rc_Unpaved b" "rc_Score (chosen f rq b) = rc_Score b"
  "rc_ReasonCodes (chosen f rq b) = explain b f rq"
  by (simp_all add: chosen_def Let_def)

lemma scored_keeps [simp]:
  "rc_CandidateID (scored f rq cfg b) = rc_CandidateID b" "rc_Segments (scored f rq cfg b) = rc_Segments b"
  "rc_Metrics (scored f rq cfg b) = rc_Metrics b" "rc_Confidence (scored f rq cfg b) = rc_Confidence b"
  "rc_TrafficDataType (scored f rq cfg b) = rc_TrafficDataType b" "rc_DistanceMeters (scored f rq cfg b) = rc_DistanceMeters b"
  "rc_LiveDurationSeconds (scored f rq cfg b) = rc_LiveDurationSeconds b" "rc_Geometry (scored f rq cfg b) = rc_Geometry b"
  "rc_Blocked (scored f rq cfg b) = rc_Blocked b" "rc_Tolls (scored f rq cfg b) = rc_Tolls b"
  "rc_Unpaved (scored f rq cfg b) = rc_Unpaved b" "rc_ReasonCodes (scored f rq cfg b) = rc_ReasonCodes b"
  by (simp_all add: scored_def)

lemma admissible_chosen [simp]: "admissible rq cfg f (chosen f' rq' b) = admissible rq cfg f b"
  and admissible_scored [simp]: "admissible rq cfg f (scored f' rq' cfg' b) = admissible rq cfg f b"
  by (simp_all add: admissible_def within_limits_def strict_evidence_def)

definition the_fastest :: "RouteCandidate list \<Rightarrow> RouteCandidate" where
  "the_fastest cs = rankFastest (hd cs) (tl cs)"

lemma eligible_mem:
  "r \<in> set (rk_Eligible (Rank cs rq cfg)) \<Longrightarrow> \<exists>c \<in> set cs. admissible rq cfg (the_fastest cs) c \<and>
     (r = scored (the_fastest cs) rq cfg c \<or> r = chosen (the_fastest cs) rq (scored (the_fastest cs) rq cfg c))"
proof (cases "cs = []")
  case False
  assume r: "r \<in> set (rk_Eligible (Rank cs rq cfg))"
  have mem: "x \<in> set (eligible_sorted (the_fastest cs) rq cfg cs) \<Longrightarrow>
      \<exists>c \<in> set cs. admissible rq cfg (the_fastest cs) c \<and> x = scored (the_fastest cs) rq cfg c" for x
    by (auto simp: eligible_sorted_def)
  show ?thesis
  proof (cases "eligible_sorted (the_fastest cs) rq cfg cs")
    case Nil
    then show ?thesis using r unfolding Rank_eq [OF False] the_fastest_def [symmetric] by simp
  next
    case (Cons b t)
    then have "r = chosen (the_fastest cs) rq b \<or> r \<in> set t"
      using r unfolding Rank_eq [OF False] the_fastest_def [symmetric] by simp
    then show ?thesis using mem [of b] mem [of r] Cons by auto
  qed
qed (simp add: Rank_Nil rank_init_def)

lemma selected_mem:
  assumes "rk_Selected (Rank cs rq cfg) = Some r"
  obtains c where "c \<in> set cs" "admissible rq cfg (the_fastest cs) c"
    "r = chosen (the_fastest cs) rq (scored (the_fastest cs) rq cfg c)"
    "rk_Eligible (Rank cs rq cfg) = r # tl (eligible_sorted (the_fastest cs) rq cfg cs)"
    "hd (eligible_sorted (the_fastest cs) rq cfg cs) = scored (the_fastest cs) rq cfg c"
proof -
  have ne: "cs \<noteq> []" using assms by (auto simp: Rank_Nil rank_init_def)
  obtain b t where e: "eligible_sorted (the_fastest cs) rq cfg cs = b # t" "r = chosen (the_fastest cs) rq b"
    using assms unfolding Rank_eq [OF ne] the_fastest_def by (auto split: list.splits)
  moreover have "b \<in> set (eligible_sorted (the_fastest cs) rq cfg cs)" using e by simp
  then obtain c where "c \<in> set cs" "admissible rq cfg (the_fastest cs) c" "b = scored (the_fastest cs) rq cfg c"
    by (auto simp: eligible_sorted_def)
  moreover have "rk_Eligible (Rank cs rq cfg) = r # t"
    using e unfolding Rank_eq [OF ne] the_fastest_def by simp
  ultimately show ?thesis using that by simp
qed

section \<open>Strict green\<close>

definition all_green :: "RouteCandidate \<Rightarrow> bool" where
  "all_green r \<longleftrightarrow> GreenDistanceMeters (rc_Metrics r) = rc_DistanceMeters r
     \<and> GreenDurationSeconds (rc_Metrics r) = rc_LiveDurationSeconds r
     \<and> YellowDistanceMeters (rc_Metrics r) = 0 \<and> YellowDurationSeconds (rc_Metrics r) = 0
     \<and> OrangeDistanceMeters (rc_Metrics r) = 0 \<and> OrangeDurationSeconds (rc_Metrics r) = 0
     \<and> RedDistanceMeters (rc_Metrics r) = 0 \<and> RedDurationSeconds (rc_Metrics r) = 0
     \<and> UnknownDistanceMeters (rc_Metrics r) = 0 \<and> UnknownDurationSeconds (rc_Metrics r) = 0"

lemma class_sum_zero: "list_all (\<lambda>s. seg_CongestionClass s = k \<longrightarrow> f s = 0) segs \<Longrightarrow> class_sum f k segs = 0"
  by (induction segs) auto

lemma map_max_nonneg: "list_all (\<lambda>s. 0 \<le> f s) segs \<Longrightarrow> map (\<lambda>s. max 0 (f s)) segs = map f (segs :: 'a list)"
  for f :: "'a \<Rightarrow> int"
  by (induction segs) auto

text \<open>An evaluated route with strict evidence is green from end to end.\<close>

lemma strict_evidence_all_green:
  assumes sane: "sane_route c" and ev: "strict_evidence cfg (Evaluate c e cfg)"
  shows "all_green (Evaluate c e cfg)"
proof -
  define segs where "segs = evaluated c e cfg"
  have s: "list_all (\<lambda>s. 0 \<le> seg_DistanceMeters s) segs" "list_all (\<lambda>s. 0 \<le> seg_LiveDurationSeconds s) segs"
    using sane sane_evaluated [of c e cfg] by (auto simp: sane_route_def sane_segments_def segs_def list_all_iff)
  have green: "\<And>x. x \<in> set segs \<Longrightarrow> meaningful x \<Longrightarrow> seg_CongestionClass x = CongestionGreen"
    and cover: "wrap64 (sum_list (map seg_DistanceMeters segs)) = rc_DistanceMeters c"
      "wrap64 (sum_list (map seg_LiveDurationSeconds segs)) = rc_LiveDurationSeconds c"
    using ev unfolding strict_evidence_def Evaluate_fields segs_def [symmetric]
      map_max_nonneg [OF s(1)] map_max_nonneg [OF s(2)] sum64_wrap
    by (simp_all add: list_all_iff)
  have none: "class_sum seg_DistanceMeters k segs = 0" "class_sum seg_LiveDurationSeconds k segs = 0"
    if "k \<noteq> CongestionGreen" for k
    using green s that by (intro class_sum_zero; fastforce simp: list_all_iff meaningful_def)+
  have "class_sum seg_DistanceMeters CongestionGreen segs = sum_list (map seg_DistanceMeters segs)"
    "class_sum seg_LiveDurationSeconds CongestionGreen segs = sum_list (map seg_LiveDurationSeconds segs)"
    using class_sum_total [OF evaluated_valid [of c e cfg], folded segs_def, of seg_DistanceMeters]
      class_sum_total [OF evaluated_valid [of c e cfg], folded segs_def, of seg_LiveDurationSeconds] none
    by simp_all
  with none cover show ?thesis
    by (simp add: all_green_def Evaluate_fields finishMetrics_distance accumulate_metrics segs_def [symmetric] wrap64_id in64_def)
qed

lemma strict_evidence_scored [simp]: "strict_evidence cfg (scored f rq cfg' c) = strict_evidence cfg c"
  and strict_evidence_chosen [simp]: "strict_evidence cfg (chosen f rq c) = strict_evidence cfg c"
  and all_green_scored [simp]: "all_green (scored f rq cfg' c) = all_green c"
  and all_green_chosen [simp]: "all_green (chosen f rq c) = all_green c"
  by (simp_all add: strict_evidence_def all_green_def)

text \<open>C1: STRICT_GREEN fails closed. In that mode every route that ranking offers (the selected route is one of them)
  rests on observed or forecast traffic, has at least medium confidence as a route and in every segment, has green
  segments only, and those segments cover the provider's whole distance and duration; for evaluated routes with
  nonnegative measurements the metrics are therefore green to the last metre and second.\<close>

theorem strict_green_fails_closed:
  assumes "rq_RoutingMode rq = RoutingModeStrictGreen"
    and "list_all (\<lambda>(c, e). sane_route c) inputs"
    and "r \<in> set (rk_Eligible (Rank (map (\<lambda>(c, e). Evaluate c e cfg) inputs) rq cfg))"
  shows "strict_evidence cfg r \<and> all_green r"
proof -
  define cs where "cs = map (\<lambda>(c, e). Evaluate c e cfg) inputs"
  obtain c where c: "c \<in> set cs" "admissible rq cfg (the_fastest cs) c"
    and r: "r = scored (the_fastest cs) rq cfg c \<or> r = chosen (the_fastest cs) rq (scored (the_fastest cs) rq cfg c)"
    using eligible_mem [of r cs rq cfg] assms(3) by (auto simp: cs_def)
  obtain c0 e where "c = Evaluate c0 e cfg" "sane_route c0"
    using c(1) assms(2) by (auto simp: cs_def list_all_iff)
  moreover have "strict_evidence cfg c" using c(2) assms(1) by (simp add: admissible_def)
  ultimately have "strict_evidence cfg c \<and> all_green c" using strict_evidence_all_green by blast
  then show ?thesis using r by auto
qed

lemma ex_ranked:
  "map rc_CandidateID (rk_Eligible (Rank [Evaluate (ex_candidate ''a'' [ex_segment 1000 100 100]) ex_evidence DefaultConfig]
     (ex_request RoutingModeStrictGreen) DefaultConfig)) = [''a'']"
  by code_simp

lemma ex_eligible: "rk_Eligible (Rank (map (\<lambda>(c, e). Evaluate c e DefaultConfig) ex_inputs) (ex_request RoutingModeStrictGreen) DefaultConfig) \<noteq> []"
  using ex_ranked by (auto simp: ex_inputs_def)

lemma ex_inputs_sane: "list_all (\<lambda>(c, e). sane_route c) ex_inputs"
  by (simp add: ex_inputs_def sane_route_def sane_segments_def defaultSegments_def ex_defs)

theorem strict_green_fails_closed_witness:
  "\<exists>r. r \<in> set (rk_Eligible (Rank (map (\<lambda>(c, e). Evaluate c e DefaultConfig) ex_inputs) (ex_request RoutingModeStrictGreen) DefaultConfig))
     \<and> strict_evidence DefaultConfig r \<and> all_green r"
proof -
  obtain r where r: "r \<in> set (rk_Eligible (Rank (map (\<lambda>(c, e). Evaluate c e DefaultConfig) ex_inputs) (ex_request RoutingModeStrictGreen) DefaultConfig))"
    using ex_eligible by (meson last_in_set)
  have "rq_RoutingMode (ex_request RoutingModeStrictGreen) = RoutingModeStrictGreen" by (simp add: ex_request_def)
  with r ex_inputs_sane show ?thesis using strict_green_fails_closed by blast
qed

section \<open>Selection\<close>

lemma compareRoutes_chosen: "compareRoutes (chosen f' rq' a) b f rq cfg = compareRoutes a b f rq cfg"
proof -
  have *: "compareTuple (chosen f' rq' a) b gs = compareTuple a b gs" if "\<forall>g \<in> set gs. g (chosen f' rq' a) = g a" for gs
    using that by (induction gs) (simp_all add: Let_def)
  show ?thesis
    by (cases "rq_RoutingMode rq")
      (simp_all add: compareRoutes_def strictGreenTuple_def greenestTuple_def unknownDurationRatio_def
        unknownDistanceRatio_def Let_def * del: compareTuple.simps)
qed

lemma selected_iff_eligible:
  "rk_Selected (Rank cs rq cfg) = (case rk_Eligible (Rank cs rq cfg) of [] \<Rightarrow> None | r # _ \<Rightarrow> Some r)"
  by (cases "cs = []") (simp_all add: Rank_Nil rank_init_def Rank_eq split: list.split)

text \<open>C5: ranking selects a route exactly when some candidate satisfies every hard constraint, and the selected route
  is then one of the candidates (up to its score, reason codes and explanation), satisfies all constraints
  relative to the fastest candidate, and compares at most equal to every other admissible candidate.\<close>

theorem rank_selects_best:
  "case rk_Selected (Rank cs rq cfg) of
     None \<Rightarrow> list_all (\<lambda>c. \<not> admissible rq cfg (the_fastest cs) c) cs
   | Some r \<Rightarrow> \<exists>c \<in> set cs. r = chosen (the_fastest cs) rq (scored (the_fastest cs) rq cfg c)
       \<and> admissible rq cfg (the_fastest cs) r
       \<and> list_all (\<lambda>d. compareRoutes r (scored (the_fastest cs) rq cfg d) (the_fastest cs) rq cfg \<le> 0)
           (filter (admissible rq cfg (the_fastest cs)) cs)"
proof (cases "rk_Selected (Rank cs rq cfg)")
  case None
  have "list_all (\<lambda>c. \<not> admissible rq cfg (the_fastest cs) c) cs"
  proof (cases "cs = []")
    case False
    then have "eligible_sorted (the_fastest cs) rq cfg cs = []"
      using None by (simp add: Rank_eq the_fastest_def split: list.splits)
    then show ?thesis by (simp add: eligible_sorted_def filter_empty_conv list_all_iff)
  qed simp
  with None show ?thesis by simp
next
  case (Some r)
  then obtain c where c: "c \<in> set cs" "admissible rq cfg (the_fastest cs) c"
    "r = chosen (the_fastest cs) rq (scored (the_fastest cs) rq cfg c)"
    "hd (eligible_sorted (the_fastest cs) rq cfg cs) = scored (the_fastest cs) rq cfg c"
    by (rule selected_mem)
  have "compareRoutes r (scored (the_fastest cs) rq cfg d) (the_fastest cs) rq cfg \<le> 0"
    if d: "d \<in> set cs" "admissible rq cfg (the_fastest cs) d" for d
  proof -
    have "\<not> compareRoutes (scored (the_fastest cs) rq cfg d) (scored (the_fastest cs) rq cfg c) (the_fastest cs) rq cfg < 0"
      using d routes.sort_stable_hd_least [of "scored (the_fastest cs) rq cfg d"
          "map (scored (the_fastest cs) rq cfg) (filter (admissible rq cfg (the_fastest cs)) cs)" "the_fastest cs" rq cfg]
      by (auto simp: eligible_sorted_def c(4) [unfolded eligible_sorted_def])
    then show ?thesis by (simp add: c(3) compareRoutes_chosen not_less routes.le_flip)
  qed
  with c Some show ?thesis by (auto simp: list_all_iff)
qed

text \<open>The comparison that orders eligible routes is a total preorder for every mode, and only routes with the same
  candidate id tie; \<open>slices.SortStableFunc\<close> is therefore given a lawful comparison.\<close>

theorem compareRoutes_lawful:
  "(compareRoutes a b f rq cfg < 0 \<longleftrightarrow> 0 < compareRoutes b a f rq cfg)
   \<and> (compareRoutes a b f rq cfg \<le> 0 \<and> compareRoutes b c f rq cfg \<le> 0 \<longrightarrow> compareRoutes a c f rq cfg \<le> 0)
   \<and> (compareRoutes a b f rq cfg = 0 \<longrightarrow> rc_CandidateID a = rc_CandidateID b)"
  using routes.antisym [of a b f rq cfg] routes.trans [of a b f rq cfg c] compareRoutes_zero [of a b f rq cfg]
  by blast

theorem compareRoutes_lawful_witness:
  "compareRoutes (ex_candidate ''a'' []) (ex_candidate ''a'' []) (ex_candidate ''a'' []) (ex_request RoutingModeGreenest) DefaultConfig = 0
   \<and> rc_CandidateID (ex_candidate ''a'' []) = rc_CandidateID (ex_candidate ''a'' [])"
  using compareRoutes_lawful [of "ex_candidate ''a'' []" "ex_candidate ''a'' []" "ex_candidate ''a'' []" "ex_request RoutingModeGreenest" DefaultConfig]
    routes.refl by blast

section \<open>Order independence\<close>

lemma the_fastest_perm:
  assumes "mset cs = mset ds" "distinct (map rc_CandidateID cs)" "cs \<noteq> []"
  shows "the_fastest cs = the_fastest ds"
proof -
  have s: "set cs = set ds" "ds \<noteq> []" using assms(1,3) by (metis mset_eq_setD, metis mset.simps(1) mset_zero_iff)
  have ne: "hd cs # tl cs = cs" "hd ds # tl ds = ds" using assms(3) s(2) by simp_all
  have m: "the_fastest cs \<in> set cs" "the_fastest ds \<in> set cs"
    using rankFastest_mem [of "hd cs" "tl cs"] rankFastest_mem [of "hd ds" "tl ds"] ne s(1) by (simp_all add: the_fastest_def)
  then have "\<not> fasterThan (the_fastest cs) (the_fastest ds)" "\<not> fasterThan (the_fastest ds) (the_fastest cs)"
    using rankFastest_least [of _ "hd cs" "tl cs"] rankFastest_least [of _ "hd ds" "tl ds"] ne s(1)
    by (simp_all add: the_fastest_def)
  then have "rc_CandidateID (the_fastest cs) = rc_CandidateID (the_fastest ds)" using fasterThan_total by blast
  then show ?thesis using assms(2) m by (auto simp: distinct_map inj_on_def)
qed

lemma map_of_perm:
  assumes "mset xs = mset ys" "distinct (map fst xs)"
  shows "map_of xs = map_of ys"
proof
  fix k
  have "distinct (map fst ys)" using assms by (metis mset_eq_imp_distinct_iff mset_map)
  moreover have "set xs = set ys" using assms(1) by (rule mset_eq_setD)
  ultimately show "map_of xs k = map_of ys k"
    using assms(2) by (metis eq_key_imp_eq_value map_of_SomeD map_of_is_SomeI option.exhaust)
qed

lemma same_id_same_route:
  "distinct (map rc_CandidateID cs) \<Longrightarrow> a \<in> set cs \<Longrightarrow> b \<in> set cs \<Longrightarrow> rc_CandidateID a = rc_CandidateID b \<Longrightarrow> a = b"
  by (auto simp: distinct_map inj_on_def)

lemma markBestEffort_id [simp]: "rc_CandidateID (markBestEffort v c) = rc_CandidateID c"
  by (simp add: markBestEffort_def)

lemma compareBestEffort_zero: "compareBestEffortRoutes a b = 0 \<Longrightarrow> rc_CandidateID a = rc_CandidateID b"
  unfolding compareBestEffortRoutes_def by (rule compareTuple_zero)

text \<open>ranking does not depend on the order in which the candidates arrive: for distinct candidate ids, any
  permutation of the candidates gives the same selected route, the same eligible and best-effort lists in the same
  order, and the same rejections.\<close>

theorem rank_order_independent:
  assumes m: "mset cs = mset ds" and d: "distinct (map rc_CandidateID cs)"
  shows "Rank cs rq cfg = Rank ds rq cfg"
proof (cases "cs = []")
  case False
  define f where "f = the_fastest cs"
  have ds: "ds \<noteq> []" using m False by auto
  have f: "the_fastest ds = f" using the_fastest_perm [OF m d False] by (simp add: f_def)
  have "eligible_sorted f rq cfg cs = eligible_sorted f rq cfg ds"
    unfolding eligible_sorted_def
  proof (rule routes.sort_stable_perm)
    show "mset (map (scored f rq cfg) (filter (admissible rq cfg f) cs)) = mset (map (scored f rq cfg) (filter (admissible rq cfg f) ds))"
      using m by simp
    fix x y
    assume "x \<in> set (map (scored f rq cfg) (filter (admissible rq cfg f) cs))"
      "y \<in> set (map (scored f rq cfg) (filter (admissible rq cfg f) cs))"
      "\<not> compareRoutes x y f rq cfg < 0" "\<not> compareRoutes y x f rq cfg < 0"
    moreover from this have "rc_CandidateID x = rc_CandidateID y"
      using compareRoutes_zero [of x y f rq cfg] routes.antisym [of y x f rq cfg] by fastforce
    ultimately show "x = y" using same_id_same_route [OF d] by (auto intro!: arg_cong [of _ _ "scored f rq cfg"])
  qed
  moreover have "sort_stable (\<lambda>a b. compareBestEffortRoutes a b < 0) (best_effort_of f rq cfg cs)
      = sort_stable (\<lambda>a b. compareBestEffortRoutes a b < 0) (best_effort_of f rq cfg ds)"
  proof (rule best_effort.sort_stable_perm)
    show "mset (best_effort_of f rq cfg cs) = mset (best_effort_of f rq cfg ds)"
      using m by (simp add: best_effort_of_def)
    fix x y
    assume "x \<in> set (best_effort_of f rq cfg cs)" "y \<in> set (best_effort_of f rq cfg cs)"
      "\<not> compareBestEffortRoutes x y < 0" "\<not> compareBestEffortRoutes y x < 0"
    moreover from this have "rc_CandidateID x = rc_CandidateID y"
      using compareBestEffort_zero [of x y] best_effort.antisym [of y x] by fastforce
    ultimately show "x = y" using same_id_same_route [OF d]
      by (auto simp: best_effort_of_def intro!: arg_cong [of _ _ "\<lambda>c. markBestEffort (HardConstraintViolations c f rq cfg) c"])
  qed
  moreover have "map_of (rev (rejected_of f rq cfg cs)) = map_of (rev (rejected_of f rq cfg ds))"
  proof (rule map_of_perm)
    show "mset (rev (rejected_of f rq cfg cs)) = mset (rev (rejected_of f rq cfg ds))"
      using m by (simp add: rejected_of_def)
    have "distinct (map fst (rejected_of f rq cfg cs))"
      using d by (simp add: rejected_of_def comp_def distinct_map_filter)
    then show "distinct (map fst (rev (rejected_of f rq cfg cs)))" by (simp add: rev_map [symmetric])
  qed
  ultimately show ?thesis
    unfolding Rank_eq [OF False, of rq cfg, folded the_fastest_def, folded f_def]
      Rank_eq [OF ds, of rq cfg, folded the_fastest_def, unfolded f] by simp
qed (use m in simp)

theorem rank_order_independent_witness:
  "Rank [ex_candidate ''b'' [], ex_candidate ''a'' []] (ex_request RoutingModeBalanced) DefaultConfig
   = Rank [ex_candidate ''a'' [], ex_candidate ''b'' []] (ex_request RoutingModeBalanced) DefaultConfig"
  by (rule rank_order_independent) (simp_all add: ex_candidate_def add_mset_commute)

section \<open>Best effort and rejected routes\<close>

lemma set_appendUnique [simp]: "set (appendUnique xs x) = insert x (set xs)"
  by (auto simp: appendUnique_def)

lemma set_fold_appendUnique: "set (foldl (\<lambda>xs v. appendUnique xs (h v)) xs vs) = set xs \<union> h ` set vs"
  by (induction vs arbitrary: xs) auto

lemma set_markBestEffort:
  "set (rc_ReasonCodes (markBestEffort vs c)) = set (rc_ReasonCodes c) \<union> {''BEST_EFFORT_NOT_STRICT_GREEN''} \<union> Code ` set vs"
  by (auto simp: markBestEffort_def set_fold_appendUnique)

lemma strict_codes:
  "v \<in> set (HardConstraintViolations c f rq cfg) \<Longrightarrow> prefix ''STRICT_GREEN_'' (Code v) \<Longrightarrow> \<not> strict_evidence cfg c"
  unfolding HardConstraintViolations_def Let_def strict_violations_nil [symmetric]
  by (auto simp: violation_def split: if_splits)

text \<open>Best-effort routes never pass for strict-green ones: there are at most three, only in STRICT_GREEN mode, each is
  a candidate that fails the strict-green evidence rules, is not among the eligible routes (for distinct ids), and carries the reason
  code that says so together with the code of every constraint it violates.\<close>

theorem best_effort_marked:
  assumes d: "distinct (map rc_CandidateID cs)" and b: "b \<in> set (rk_BestEffort (Rank cs rq cfg))"
  shows "length (rk_BestEffort (Rank cs rq cfg)) \<le> 3 \<and> rq_RoutingMode rq = RoutingModeStrictGreen
    \<and> \<not> strict_evidence cfg b \<and> ''BEST_EFFORT_NOT_STRICT_GREEN'' \<in> set (rc_ReasonCodes b)
    \<and> rc_CandidateID b \<notin> rc_CandidateID ` set (rk_Eligible (Rank cs rq cfg))
    \<and> (\<exists>vs. rk_Rejected (Rank cs rq cfg) (rc_CandidateID b) = Some vs \<and> vs \<noteq> [] \<and> Code ` set vs \<subseteq> set (rc_ReasonCodes b))"
proof -
  have ne: "cs \<noteq> []" using b by (auto simp: Rank_Nil rank_init_def)
  define f where "f = the_fastest cs"
  note R = Rank_eq [OF ne, of rq cfg, folded the_fastest_def, folded f_def]
  have "b \<in> set (best_effort_of f rq cfg cs)" using b by (auto simp: R dest: in_set_takeD)
  then obtain c where c: "c \<in> set cs" "rq_RoutingMode rq = RoutingModeStrictGreen"
    "hasStrictGreenViolation (HardConstraintViolations c f rq cfg)" "b = markBestEffort (HardConstraintViolations c f rq cfg) c"
    by (auto simp: best_effort_of_def)
  have ev: "\<not> strict_evidence cfg c" using c(3) strict_codes by (auto simp: hasStrictGreenViolation_def list_ex_iff)
  then have bad: "\<not> admissible rq cfg f c" using c(2) by (simp add: admissible_def)
  have "(rc_CandidateID c, HardConstraintViolations c f rq cfg) \<in> set (rev (rejected_of f rq cfg cs))"
    using c(1) bad by (auto simp: rejected_of_def)
  moreover have "distinct (map fst (rev (rejected_of f rq cfg cs)))"
    using d by (simp add: rejected_of_def comp_def distinct_map_filter rev_map [symmetric])
  ultimately have rej: "rk_Rejected (Rank cs rq cfg) (rc_CandidateID b) = Some (HardConstraintViolations c f rq cfg)"
    by (simp add: R c(4))
  have "rc_CandidateID b \<notin> rc_CandidateID ` set (rk_Eligible (Rank cs rq cfg))"
  proof
    assume "rc_CandidateID b \<in> rc_CandidateID ` set (rk_Eligible (Rank cs rq cfg))"
    then obtain r where r: "r \<in> set (rk_Eligible (Rank cs rq cfg))" "rc_CandidateID r = rc_CandidateID c" by (auto simp: c(4))
    then obtain c' where "c' \<in> set cs" "admissible rq cfg f c'" "rc_CandidateID c' = rc_CandidateID c"
      using eligible_mem [OF r(1)] by (auto simp: f_def)
    then show False using same_id_same_route [OF d, of c' c] c(1) bad by simp
  qed
  moreover have "\<not> strict_evidence cfg b" using ev by (simp add: c(4) markBestEffort_def strict_evidence_def)
  ultimately show ?thesis
    using rej c(2) bad by (auto simp: R c(4) set_markBestEffort hard_violations_nil [symmetric])
qed

lemma ex_best_effort:
  "map rc_CandidateID (rk_BestEffort (Rank [ex_candidate ''a'' [ex_segment 1000 100 100]] (ex_request RoutingModeStrictGreen) DefaultConfig)) = [''a'']"
  by code_simp

theorem best_effort_marked_witness:
  "\<exists>b. b \<in> set (rk_BestEffort (Rank [ex_candidate ''a'' [ex_segment 1000 100 100]] (ex_request RoutingModeStrictGreen) DefaultConfig))
     \<and> ''BEST_EFFORT_NOT_STRICT_GREEN'' \<in> set (rc_ReasonCodes b)"
proof -
  obtain b where b: "b \<in> set (rk_BestEffort (Rank [ex_candidate ''a'' [ex_segment 1000 100 100]] (ex_request RoutingModeStrictGreen) DefaultConfig))"
    using ex_best_effort by (metis last_in_set list.map_disc_iff not_Cons_self2)
  have "distinct (map rc_CandidateID [ex_candidate ''a'' [ex_segment 1000 100 100]])" by simp
  from best_effort_marked [OF this b] b show ?thesis by blast
qed

text \<open>Every candidate is accounted for: the ids of the eligible routes are those of the admissible candidates, each
  once, and exactly the other candidates have an entry in the rejection map.\<close>

theorem rank_partition:
  "mset (map rc_CandidateID (rk_Eligible (Rank cs rq cfg)))
     = mset (map rc_CandidateID (filter (admissible rq cfg (the_fastest cs)) cs))
   \<and> dom (rk_Rejected (Rank cs rq cfg)) = rc_CandidateID ` {c \<in> set cs. \<not> admissible rq cfg (the_fastest cs) c}"
proof (cases "cs = []")
  case False
  note R = Rank_eq [OF False, of rq cfg, folded the_fastest_def]
  have "map rc_CandidateID (rk_Eligible (Rank cs rq cfg)) = map rc_CandidateID (eligible_sorted (the_fastest cs) rq cfg cs)"
    by (simp add: R split: list.split)
  then have "mset (map rc_CandidateID (rk_Eligible (Rank cs rq cfg)))
     = mset (map rc_CandidateID (filter (admissible rq cfg (the_fastest cs)) cs))"
    by (simp add: eligible_sorted_def multiset.map_comp comp_def del: mset_filter flip: mset_map)
       (simp add: eligible_sorted_def multiset.map_comp comp_def)
  moreover have "dom (rk_Rejected (Rank cs rq cfg)) = rc_CandidateID ` {c \<in> set cs. \<not> admissible rq cfg (the_fastest cs) c}"
    by (force simp: R dom_map_of_conv_image_fst rejected_of_def image_image)
  ultimately show ?thesis by blast
qed (simp add: Rank_Nil rank_init_def)

lemma set_appendWhen [simp]: "set (appendWhen b r rs) = set rs \<union> (if b then {r} else {})"
  by (auto simp: appendWhen_def)

lemma explain_within_distance:
  "sub64 (rc_DistanceMeters c) (rc_DistanceMeters f) \<le> rq_MaxExtraDistanceMeters rq \<Longrightarrow>
   ''WITHIN_EXTRA_DISTANCE_LIMIT'' \<in> set (explain c f rq)"
  by (simp add: explain_def Let_def)

text \<open>A selected route always carries a reason code, as the public result contract demands.\<close>

lemma selected_reason_codes:
  assumes "0 \<le> rq_MaxExtraDistanceMeters rq" "rk_Selected (Rank cs rq cfg) = Some r"
  shows "''WITHIN_EXTRA_DISTANCE_LIMIT'' \<in> set (rc_ReasonCodes r)"
proof -
  obtain c where "admissible rq cfg (the_fastest cs) c" "r = chosen (the_fastest cs) rq (scored (the_fastest cs) rq cfg c)"
    using assms(2) by (rule selected_mem)
  then show ?thesis using assms(1) by (auto simp: admissible_def within_limits_def intro: explain_within_distance)
qed

end
