(* ===== verification/GoState.thy ===== *)
theory GoState
  imports Prelude "HOL-Library.State_Monad"
begin

text \<open>
  Reasoning about stateful code written in the state monad: \<open>wp m Q s\<close> says that running \<open>m\<close> in the
  state \<open>s\<close> ends in a state and with a result that satisfy \<open>Q\<close> (all programs here are total
  functions, so this is total correctness). The rules split a program at its binds; a specification of
  an operation has the shape \<open>P s \<Longrightarrow> wp op Q s\<close> and is used with \<open>wp_mono\<close>. The collection \<open>wp_rules\<close>
  holds the equations for the control structures.
\<close>

named_theorems wp_rules

abbreviation ret :: "'a \<Rightarrow> ('s, 'a) state" where
  "ret \<equiv> State_Monad.return"

abbreviation modify :: "('s \<Rightarrow> 's) \<Rightarrow> ('s, unit) state" where
  "modify \<equiv> State_Monad.update"

abbreviation read :: "('s, 's) state" where
  "read \<equiv> State_Monad.get"

definition wp :: "('s, 'a) state \<Rightarrow> ('a \<Rightarrow> 's \<Rightarrow> bool) \<Rightarrow> 's \<Rightarrow> bool" where
  "wp m Q s \<longleftrightarrow> (case run_state m s of (a, s') \<Rightarrow> Q a s')"

lemma wp_ret [wp_rules]: "wp (ret a) Q s = Q a s"
  by (simp add: wp_def)

lemma wp_bind [wp_rules]: "wp (State_Monad.bind m f) Q s = wp m (\<lambda>a. wp (f a) Q) s"
  by (simp add: wp_def split: prod.split)

lemma wp_read [wp_rules]: "wp read Q s = Q s s"
  by (simp add: wp_def)

lemma wp_modify [wp_rules]: "wp (modify f) Q s = Q () (f s)"
  by (simp add: wp_def State_Monad.update_def)

lemma wp_State [wp_rules]: "wp (State f) Q s = (case f s of (a, s') \<Rightarrow> Q a s')"
  by (simp add: wp_def)

lemma wp_if [wp_rules]: "wp (if b then m else n) Q s = (if b then wp m Q s else wp n Q s)"
  by simp

lemma wp_let [wp_rules]: "wp (Let x f) Q s = wp (f x) Q s"
  by simp

lemma wp_case_prod [wp_rules]: "wp (case p of (x, y) \<Rightarrow> f x y) Q s = (case p of (x, y) \<Rightarrow> wp (f x y) Q s)"
  by (cases p) simp

lemma wp_case_option [wp_rules]: "wp (case x of None \<Rightarrow> m | Some y \<Rightarrow> f y) Q s = (case x of None \<Rightarrow> wp m Q s | Some y \<Rightarrow> wp (f y) Q s)"
  by (cases x) simp_all

lemma wp_case_sum [wp_rules]: "wp (case x of Inl y \<Rightarrow> f y | Inr z \<Rightarrow> g z) Q s = (case x of Inl y \<Rightarrow> wp (f y) Q s | Inr z \<Rightarrow> wp (g z) Q s)"
  by (cases x) simp_all

lemma wp_mono: "wp m P s \<Longrightarrow> (\<And>a s'. P a s' \<Longrightarrow> Q a s') \<Longrightarrow> wp m Q s"
  by (auto simp: wp_def split: prod.splits)

lemma wp_conj: "wp m P s \<Longrightarrow> wp m Q s \<Longrightarrow> wp m (\<lambda>a s'. P a s' \<and> Q a s') s"
  by (auto simp: wp_def split: prod.splits)

lemma wp_run: "wp m Q s \<Longrightarrow> run_state m s = (a, s') \<Longrightarrow> Q a s'"
  by (simp add: wp_def)

lemma wp_cong_run: "run_state m s = (a, s') \<Longrightarrow> wp m Q s = Q a s'"
  by (simp add: wp_def)

end
