(* ===== verification/Engine.thy ===== *)
theory Engine
  imports Candidates Budget SearchStore Ids Scoring_Rank GoState
begin

text \<open>
  The search engine (\<open>services/routing-orchestrator/engine.go\<close>): admission, the worker of one search with
  its budgeted provider calls, concurrent evaluation, green-corridor enhancement and finalization, and
  the recovery of interrupted searches.

  The code is written in the state monad over the \<open>world\<close>: the engine with its store, the budget of the running search, the
  provider requests sent so far and a counter of the readings taken from the environment. The
  environment (\<open>environment\<close>) is arbitrary: the readings of the clock, of the cancellation of the
  context, the provider's replies and the choices of the goroutine scheduler are functions of the
  reading's number. Telemetry and logging have no effect on the state and are left out. The goroutines
  of \<open>evaluateAll\<close> run as a list of workers that the scheduler steps in any order; the semaphore bounds
  how many of them hold a slot. The store is the in-memory one.
\<close>

section \<open>Configuration and state\<close>

record config =
  cf_Environment :: string
  cf_Address :: string
  cf_ProviderURL :: string
  cf_InternalToken :: string
  cf_RedisURL :: string
  cf_RequireRedis :: bool
  cf_ProviderDataStorage :: bool
  cf_StateTTL :: duration
  cf_StaleSearchAfter :: duration
  cf_EnableEnhancedSearch :: bool
  cf_EnableAvoidZones :: bool
  cf_EnableCorridorAnchors :: bool
  cf_EnableTollFreeProbe :: bool
  cf_EnableReranking :: bool
  cf_MaxActiveCandidates :: int
  cf_MaxConcurrentSearches :: int
  cf_MaxEnhancedIterations :: int
  cf_MinimumScoreImprovement :: f64
  cf_ScoringPolicyFile :: string
  cf_SSEHeartbeat :: duration
  cf_ShutdownGrace :: duration

record engineStats =
  st_searches :: int64
  st_degraded :: int64
  st_lowConfidence :: int64
  st_budgetExceeded :: int64
  st_providerCalls :: int64
  st_billingUnits :: int64

record engine =
  en_config :: config
  en_store :: Memory
  en_scoring :: ScoringConfig
  en_capabilities :: ProviderCapabilities
  en_capabilityOK :: bool
  en_admission :: int
  en_admissionCapacity :: int
  en_cancels :: "string set"
  en_stats :: engineStats

text \<open>\<open>start\<close> answers with a validation error, or refuses for lack of capabilities, capacity or by the store.\<close>

datatype start_error = InvalidRequest request_error | errSearchCapacity | errCapabilitiesUnavailable | StoreError store_error

datatype search_error = RequestBudgetExhausted | ProviderFailed provider_error

datatype capability_error = CapabilitiesUnavailable provider_error | IncompatibleContract string | OmitProviderOrMode
  | MaxAlternativesUnsupported | MaxWaypointsUnsupported | LacksTrafficModes

record environment =
  env_now :: "nat \<Rightarrow> time"
  env_done :: "nat \<Rightarrow> bool"
  env_reply :: "nat \<Rightarrow> ProviderRouteRequest \<Rightarrow> ProviderRouteResponse http_reply"
  env_pick :: "nat \<Rightarrow> nat"

record world =
  w_engine :: engine
  w_budget :: requestBudget
  w_sent :: "ProviderRouteRequest list"
  w_tick :: nat

type_synonym 'a go = "(world, 'a) state"

definition zero_stats :: engineStats where
  "zero_stats = \<lparr> st_searches = 0, st_degraded = 0, st_lowConfidence = 0, st_budgetExceeded = 0,
     st_providerCalls = 0, st_billingUnits = 0 \<rparr>"

definition zero_capabilities :: ProviderCapabilities where
  "zero_capabilities = \<lparr> pc_ContractVersion = '''', pc_Provider = '''', pc_Mode = '''', pc_APIIntegrations = [],
     pc_MaxAlternatives = 0, pc_MaxWaypoints = 0, pc_RealtimeTraffic = False, pc_TrafficDisabledBaseline = False,
     pc_DepartureTime = False, pc_AvoidZones = False, pc_Geosuggest = False, pc_Coverage = [],
     pc_ExperimentalSources = False, pc_DataStorageAllowed = False, pc_RawResponseCacheTTLSecond = 0 \<rparr>"

definition newEngine :: "config \<Rightarrow> Memory \<Rightarrow> engine" where
  "newEngine cfg store =
     (let maxConcurrent = (if cf_MaxConcurrentSearches cfg < 1 then 64 else cf_MaxConcurrentSearches cfg)
      in \<lparr> en_config = cfg, en_store = store, en_scoring = DefaultConfig, en_capabilities = zero_capabilities,
           en_capabilityOK = False, en_admission = 0, en_admissionCapacity = maxConcurrent, en_cancels = {},
           en_stats = zero_stats \<rparr>)"

section \<open>Capabilities\<close>

definition discoverCapabilities :: "providerCapabilitiesDocument http_reply \<Rightarrow> engine \<Rightarrow> capability_error option \<times> engine" where
  "discoverCapabilities reply e = (case capabilities reply of
     Inl err \<Rightarrow> (Some (CapabilitiesUnavailable err), e)
   | Inr c \<Rightarrow>
       if pc_ContractVersion c \<noteq> InternalContractVersion then (Some (IncompatibleContract (pc_ContractVersion c)), e)
       else if trim_space (pc_Provider c) = [] \<or> trim_space (pc_Mode c) = [] then (Some OmitProviderOrMode, e)
       else if pc_MaxAlternatives c < 0 \<or> pc_MaxAlternatives c > 2 then (Some MaxAlternativesUnsupported, e)
       else if pc_MaxWaypoints c < 2 \<or> pc_MaxWaypoints c > 50 then (Some MaxWaypointsUnsupported, e)
       else if \<not> pc_RealtimeTraffic c \<or> \<not> pc_TrafficDisabledBaseline c then (Some LacksTrafficModes, e)
       else (None, e\<lparr>en_capabilities := c, en_capabilityOK := True\<rparr>))"

text \<open>One round of the refresh loop, with the delay before the next round.\<close>

definition second :: duration where
  "second = 10 ^ 9"

definition refreshCapabilities :: "providerCapabilitiesDocument http_reply \<Rightarrow> engine \<Rightarrow> duration \<times> engine" where
  "refreshCapabilities reply e = (case discoverCapabilities reply e of
     (Some _, e) \<Rightarrow> (second, e\<lparr>en_capabilityOK := False\<rparr>)
   | (None, e) \<Rightarrow> (5 * minute, e))"

definition capabilitySnapshot :: "engine \<Rightarrow> ProviderCapabilities \<times> bool" where
  "capabilitySnapshot e = (en_capabilities e, en_capabilityOK e)"

section \<open>Effects\<close>

definition reading :: "nat go" where
  "reading = State (\<lambda>w. (w_tick w, w\<lparr>w_tick := Suc (w_tick w)\<rparr>))"

definition clock :: "environment \<Rightarrow> time go" where
  "clock env = do { n \<leftarrow> reading; ret (env_now env n) }"

definition ctx_done :: "environment \<Rightarrow> bool go" where
  "ctx_done env = do { n \<leftarrow> reading; ret (env_done env n) }"

definition on_engine :: "(engine \<Rightarrow> engine) \<Rightarrow> unit go" where
  "on_engine f = modify (\<lambda>w. w\<lparr>w_engine := f (w_engine w)\<rparr>)"

definition on_stats :: "(engineStats \<Rightarrow> engineStats) \<Rightarrow> unit go" where
  "on_stats f = on_engine (\<lambda>e. e\<lparr>en_stats := f (en_stats e)\<rparr>)"

definition the_engine :: "engine go" where
  "the_engine = State (\<lambda>w. (w_engine w, w))"

definition on_store :: "(Memory \<Rightarrow> 'a \<times> Memory) \<Rightarrow> 'a go" where
  "on_store f = State (\<lambda>w. case f (en_store (w_engine w)) of
     (r, m) \<Rightarrow> (r, w\<lparr>w_engine := (w_engine w)\<lparr>en_store := m\<rparr>\<rparr>))"

definition on_budget :: "(requestBudget \<Rightarrow> 'a \<times> requestBudget) \<Rightarrow> 'a go" where
  "on_budget f = State (\<lambda>w. case f (w_budget w) of (r, b) \<Rightarrow> (r, w\<lparr>w_budget := b\<rparr>))"

definition send :: "ProviderRouteRequest \<Rightarrow> unit go" where
  "send request = modify (\<lambda>w. w\<lparr>w_sent := w_sent w @ [request]\<rparr>)"

fun level_name :: "ConfidenceLevel \<Rightarrow> string" where
  "level_name ConfidenceHigh = ''HIGH''"
| "level_name ConfidenceMedium = ''MEDIUM''"
| "level_name ConfidenceLow = ''LOW''"
| "level_name (ConfidenceOther s) = s"

fun traffic_name :: "TrafficDataType \<Rightarrow> string" where
  "traffic_name TrafficDataRealtime = ''REALTIME''"
| "traffic_name TrafficDataForecast = ''FORECAST''"
| "traffic_name TrafficDataBaseline = ''BASELINE''"
| "traffic_name TrafficDataSynthetic = ''SYNTHETIC''"
| "traffic_name TrafficDataUnknown = ''UNKNOWN''"
| "traffic_name (TrafficDataOther s) = s"

definition candidateProgressMetadata :: "RouteCandidate \<Rightarrow> (string \<times> meta_value) list" where
  "candidateProgressMetadata c = [(''candidateId'', MetaStr (rc_CandidateID c)),
     (''confidenceLevel'', MetaStr (level_name (Level (rc_Confidence c)))),
     (''trafficDataType'', MetaStr (traffic_name (rc_TrafficDataType c)))]"

definition appendEvent ::
    "environment \<Rightarrow> string \<Rightarrow> EventType \<Rightarrow> string \<Rightarrow> RouteCandidate option \<Rightarrow> RouteSearchResult option
      \<Rightarrow> (string \<times> meta_value) list \<Rightarrow> unit go" where
  "appendEvent env searchID eventType message candidate result metadata = do {
     stamp \<leftarrow> clock env;
     now \<leftarrow> clock env;
     now' \<leftarrow> clock env;
     e \<leftarrow> the_engine;
     _ \<leftarrow> on_store (Memory_AppendEvent now now' \<lparr> ev_EventID = 0, ev_SearchID = searchID, ev_Type = eventType,
       ev_Timestamp = stamp, ev_Message = message, ev_Candidate = cloneCandidate candidate,
       ev_Result = copyResult result, ev_Metadata = metadata \<rparr> (cf_StateTTL (en_config e)));
     ret ()
   }"

section \<open>Budgeted provider calls\<close>

text \<open>A call in two phases, between which other goroutines run: lease and send, then the reply.\<close>

definition begin_call :: "ProviderRouteRequest \<Rightarrow> (budgetLease \<times> ProviderRouteRequest) option go" where
  "begin_call request = do {
     l \<leftarrow> on_budget (lease 2);
     case l of
       None \<Rightarrow> ret None
     | Some l \<Rightarrow> do {
         let request = request\<lparr>pr_RequestBudget := bl_allowance l\<rparr>;
         send request;
         ret (Some (l, request))
       }
   }"

definition end_call :: "environment \<Rightarrow> budgetLease \<Rightarrow> ProviderRouteRequest \<Rightarrow> (search_error + ProviderRouteResponse) go" where
  "end_call env l request = do {
     n \<leftarrow> reading;
     case routes (env_reply env n request) request of
       Inl err \<Rightarrow> do {
         _ \<leftarrow> on_budget (lease_finish (bl_allowance l) l);
         on_stats (\<lambda>s. s\<lparr>st_providerCalls := add64 (st_providerCalls s) (bl_allowance l)\<rparr>);
         ret (Inl (ProviderFailed err))
       }
     | Inr response \<Rightarrow> do {
         _ \<leftarrow> on_budget (lease_finish (ps_RequestsUsed response) l);
         on_stats (\<lambda>s. s\<lparr>st_providerCalls := add64 (st_providerCalls s) (ps_RequestsUsed response)\<rparr>);
         _ \<leftarrow> on_budget (\<lambda>b. ((), addBillable (ps_EstimatedBillableUnits response) b));
         on_stats (\<lambda>s. s\<lparr>st_billingUnits := add64 (st_billingUnits s) (ps_EstimatedBillableUnits response)\<rparr>);
         ret (Inr response)
       }
   }"

definition routeWithBudget :: "environment \<Rightarrow> ProviderRouteRequest \<Rightarrow> (search_error + ProviderRouteResponse) go" where
  "routeWithBudget env request = do {
     c \<leftarrow> begin_call request;
     case c of None \<Rightarrow> ret (Inl RequestBudgetExhausted) | Some (l, request) \<Rightarrow> end_call env l request
   }"

section \<open>Evaluating one candidate\<close>

text \<open>The two cases that need no provider call.\<close>

definition local_evaluation :: "ScoringConfig \<Rightarrow> bool \<Rightarrow> RouteCandidate \<Rightarrow> RouteCandidate option" where
  "local_evaluation cfg hasAlternatives c =
     (if hasCompleteProviderTrafficClasses c then Some (Evaluate c (trafficEvidence c True hasAlternatives) cfg)
      else if hasCompleteBaseline c then Some (Evaluate c (trafficEvidence c True hasAlternatives) cfg)
      else None)"

text \<open>The traffic-disabled request along the route; \<^term>\<open>None\<close> when the route has no points (the code then panics).\<close>

definition baseline_request :: "libm \<Rightarrow> ProviderCapabilities \<Rightarrow> RouteSearchRequest \<Rightarrow> RouteCandidate \<Rightarrow> ProviderRouteRequest option" where
  "baseline_request lm caps request c =
     (let points = controlPoints lm (rc_Geometry c) (maxInt 2 (pc_MaxWaypoints caps)) in
      if points = [] then None
      else Some \<lparr> pr_RequestID = rq_RequestID request, pr_Origin = hd points, pr_Destination = last points,
        pr_Waypoints = (if length points > 2 then butlast (tl points) else []), pr_Traffic = False, pr_Alternatives = 0,
        pr_AvoidTolls = rq_AvoidTolls request, pr_AvoidUnpaved = rq_AvoidUnpaved request, pr_DepartureUnix = 0,
        pr_AvoidZones = [], pr_RequestBudget = 0, pr_DeadlineMS = maxInt 500 (quot64 (rq_SearchDeadlineMS request) 2) \<rparr>)"

definition evaluate_without_baseline :: "ScoringConfig \<Rightarrow> bool \<Rightarrow> RouteCandidate \<Rightarrow> RouteCandidate" where
  "evaluate_without_baseline cfg hasAlternatives c =
     (let c = c\<lparr>rc_Segments := map (\<lambda>s. s\<lparr>seg_BaselineDurationSeconds := 0, seg_GeometrySimilarity := 0\<rparr>) (ensureSegments c)\<rparr>;
          c = c\<lparr>rc_ReasonCodes := appendUniqueString (rc_ReasonCodes c) ''BASELINE_UNAVAILABLE''\<rparr>;
          evidence = (trafficEvidence c False hasAlternatives)\<lparr>ProviderErrors := 1\<rparr>
      in Evaluate c evidence cfg)"

text \<open>The baseline duration is shared out by distance; the last segment takes the remainder.\<close>

fun baseline_segments :: "f64 \<Rightarrow> int64 \<Rightarrow> int64 \<Rightarrow> int64 \<Rightarrow> RouteSegment list \<Rightarrow> RouteSegment list" where
  "baseline_segments similarity baselineDuration distance remaining [] = []"
| "baseline_segments similarity baselineDuration distance remaining (s # ss) =
     (let s = s\<lparr>seg_GeometrySimilarity := similarity, seg_Source := ''GREENROUTE_LIVE_BASELINE_COMPARISON''\<rparr> in
      if ss = [] then [s\<lparr>seg_BaselineDurationSeconds := max64 0 remaining\<rparr>]
      else if distance > 0 then
        let b = to_i64 (fround (of_i64 baselineDuration * of_i64 (seg_DistanceMeters s) / of_i64 distance)) in
        s\<lparr>seg_BaselineDurationSeconds := b\<rparr>
          # baseline_segments similarity baselineDuration distance (sub64 remaining b) ss
      else s # baseline_segments similarity baselineDuration distance remaining ss)"

definition evaluate_with_baseline ::
    "libm \<Rightarrow> ScoringConfig \<Rightarrow> bool \<Rightarrow> RouteCandidate \<Rightarrow> ProviderRouteResponse \<Rightarrow> RouteCandidate" where
  "evaluate_with_baseline lm cfg hasAlternatives c response =
     (let baseline = hd (ps_Candidates response);
          baselineDuration = (if rc_BaselineDurationSeconds baseline \<le> 0 then rc_LiveDurationSeconds baseline
            else rc_BaselineDurationSeconds baseline);
          similarity = Similarity lm (rc_Geometry c) (rc_Geometry baseline) (flit 3000);
          c = c\<lparr>rc_BaselineDurationSeconds := baselineDuration\<rparr>;
          c = c\<lparr>rc_Segments := baseline_segments similarity baselineDuration (rc_DistanceMeters c) baselineDuration (ensureSegments c)\<rparr>;
          c = c\<lparr>rc_ProviderRequestCount := add64 (rc_ProviderRequestCount c) (ps_RequestsUsed response)\<rparr>
      in Evaluate c (trafficEvidence c (MinimumGeometrySimilarity cfg \<le> similarity) hasAlternatives) cfg)"

definition evaluate_reply ::
    "libm \<Rightarrow> ScoringConfig \<Rightarrow> bool \<Rightarrow> RouteCandidate \<Rightarrow> search_error + ProviderRouteResponse \<Rightarrow> RouteCandidate" where
  "evaluate_reply lm cfg hasAlternatives c reply = (case reply of
     Inl _ \<Rightarrow> evaluate_without_baseline cfg hasAlternatives c
   | Inr response \<Rightarrow> if ps_Candidates response = [] then evaluate_without_baseline cfg hasAlternatives c
       else evaluate_with_baseline lm cfg hasAlternatives c response)"

text \<open>\<open>evaluateCandidate\<close> run to completion by one goroutine; \<^term>\<open>None\<close> is the panic that \<open>evaluateAll\<close> isolates.\<close>

definition evaluateCandidate ::
    "environment \<Rightarrow> libm \<Rightarrow> RouteSearchRequest \<Rightarrow> bool \<Rightarrow> RouteCandidate \<Rightarrow> RouteCandidate option go" where
  "evaluateCandidate env lm request hasAlternatives c = do {
     e \<leftarrow> the_engine;
     case local_evaluation (en_scoring e) hasAlternatives c of
       Some r \<Rightarrow> ret (Some r)
     | None \<Rightarrow> (case baseline_request lm (en_capabilities e) request c of
         None \<Rightarrow> ret None
       | Some providerRequest \<Rightarrow> do {
           reply \<leftarrow> routeWithBudget env providerRequest;
           ret (Some (evaluate_reply lm (en_scoring e) hasAlternatives c reply))
         })
   }"

section \<open>Concurrent evaluation\<close>

text \<open>
  A goroutine of \<open>evaluateAll\<close>: waiting for the semaphore, inside a provider call, done with the evaluation but still
  holding its slot, or finished (with \<^term>\<open>None\<close> when it left on a cancelled context or panicked).
\<close>

datatype worker = Waiting | Calling budgetLease ProviderRouteRequest | Evaluated RouteCandidate
  | Finished "RouteCandidate option"

fun holding :: "worker \<Rightarrow> bool" where
  "holding (Calling _ _) = True"
| "holding (Evaluated _) = True"
| "holding _ = False"

fun finished :: "worker \<Rightarrow> bool" where
  "finished (Finished _) = True"
| "finished _ = False"

definition holders :: "worker list \<Rightarrow> int" where
  "holders ws = int (length (filter holding ws))"

definition start_worker ::
    "libm \<Rightarrow> RouteSearchRequest \<Rightarrow> bool \<Rightarrow> RouteCandidate \<Rightarrow> worker go" where
  "start_worker lm request hasAlternatives c = do {
     e \<leftarrow> the_engine;
     case local_evaluation (en_scoring e) hasAlternatives c of
       Some r \<Rightarrow> ret (Evaluated r)
     | None \<Rightarrow> (case baseline_request lm (en_capabilities e) request c of
         None \<Rightarrow> ret (Finished None)
       | Some providerRequest \<Rightarrow> do {
           call \<leftarrow> begin_call providerRequest;
           case call of
             None \<Rightarrow> ret (Evaluated (evaluate_reply lm (en_scoring e) hasAlternatives c (Inl RequestBudgetExhausted)))
           | Some (l, providerRequest) \<Rightarrow> ret (Calling l providerRequest)
         })
   }"

fun worker_step ::
    "environment \<Rightarrow> libm \<Rightarrow> string \<Rightarrow> RouteSearchRequest \<Rightarrow> bool \<Rightarrow> RouteCandidate \<Rightarrow> worker \<Rightarrow> worker go" where
  "worker_step env lm searchID request hasAlternatives c Waiting = start_worker lm request hasAlternatives c"
| "worker_step env lm searchID request hasAlternatives c (Calling l providerRequest) = do {
     e \<leftarrow> the_engine;
     reply \<leftarrow> end_call env l providerRequest;
     ret (Evaluated (evaluate_reply lm (en_scoring e) hasAlternatives c reply))
   }"
| "worker_step env lm searchID request hasAlternatives c (Evaluated r) = do {
     appendEvent env searchID EventCandidateEvaluated ''Candidate evaluated'' None None (candidateProgressMetadata r);
     ret (Finished (Some r))
   }"
| "worker_step env lm searchID request hasAlternatives c (Finished r) = ret (Finished r)"

text \<open>
  One scheduling decision for the unfinished goroutine \<open>i\<close>. A waiting one takes the branch of the \<open>select\<close> that
  the environment allows: it leaves on a cancelled context, or takes a free slot; with neither it is blocked and
  a goroutine that holds a slot runs instead.
\<close>

definition first_holder :: "worker list \<Rightarrow> nat \<Rightarrow> nat" where
  "first_holder ws i = (case List.find (\<lambda>j. holding (ws ! j)) [0..<length ws] of Some j \<Rightarrow> j | None \<Rightarrow> i)"

definition schedule ::
    "environment \<Rightarrow> libm \<Rightarrow> string \<Rightarrow> RouteSearchRequest \<Rightarrow> bool \<Rightarrow> RouteCandidate list \<Rightarrow> int \<Rightarrow> nat \<Rightarrow> worker list \<Rightarrow> worker list go" where
  "schedule env lm searchID request hasAlternatives cs limit i ws = do {
     left \<leftarrow> (if ws ! i = Waiting then ctx_done env else ret False);
     if left then ret (ws[i := Finished None])
     else do {
       let j = (if ws ! i = Waiting \<and> holders ws \<ge> limit then first_holder ws i else i);
       w \<leftarrow> worker_step env lm searchID request hasAlternatives (cs ! j) (ws ! j);
       ret (ws[j := w])
     }
   }"

fun run_workers ::
    "nat \<Rightarrow> environment \<Rightarrow> libm \<Rightarrow> string \<Rightarrow> RouteSearchRequest \<Rightarrow> bool \<Rightarrow> RouteCandidate list \<Rightarrow> int \<Rightarrow> worker list \<Rightarrow> worker list go" where
  "run_workers 0 env lm searchID request hasAlternatives cs limit ws = ret ws"
| "run_workers (Suc fuel) env lm searchID request hasAlternatives cs limit ws =
     (let todo = filter (\<lambda>i. \<not> finished (ws ! i)) [0..<length ws] in
      if todo = [] then ret ws
      else do {
        n \<leftarrow> reading;
        ws \<leftarrow> schedule env lm searchID request hasAlternatives cs limit (todo ! (env_pick env n mod length todo)) ws;
        run_workers fuel env lm searchID request hasAlternatives cs limit ws
      })"

definition compact :: "worker list \<Rightarrow> RouteCandidate list" where
  "compact ws = List.map_filter (\<lambda>w. case w of Finished r \<Rightarrow> r | _ \<Rightarrow> None) ws"

text \<open>Three scheduling decisions per goroutine are enough for all of them to finish.\<close>

definition evaluateAll ::
    "environment \<Rightarrow> libm \<Rightarrow> string \<Rightarrow> RouteSearchRequest \<Rightarrow> RouteCandidate list \<Rightarrow> bool \<Rightarrow> RouteCandidate list go" where
  "evaluateAll env lm searchID request candidates hasAlternatives = do {
     let limit = maxInt 1 (minInt 3 (int (length candidates)));
     ws \<leftarrow> run_workers (3 * length candidates) env lm searchID request hasAlternatives candidates limit
             (replicate (length candidates) Waiting);
     ret (compact ws)
   }"

section \<open>Finalization\<close>

fun finalize_loop ::
    "nat \<Rightarrow> environment \<Rightarrow> RouteSearchResult \<Rightarrow> SearchEvent \<Rightarrow> unit go" where
  "finalize_loop 0 env result event = ret ()"
| "finalize_loop (Suc attempts) env result event = do {
     now \<leftarrow> clock env;
     now' \<leftarrow> clock env;
     e \<leftarrow> the_engine;
     err \<leftarrow> on_store (Memory_Finalize now now' result event (cf_StateTTL (en_config e)));
     if err = None \<or> err = Some ErrNotFound then ret ()
     else do {
       cancelled \<leftarrow> ctx_done env;
       if cancelled then ret () else finalize_loop attempts env result event
     }
   }"

definition finalize :: "environment \<Rightarrow> RouteSearchResult \<Rightarrow> EventType \<Rightarrow> string \<Rightarrow> unit go" where
  "finalize env result eventType message = do {
     stamp \<leftarrow> clock env;
     finalize_loop 3 env result \<lparr> ev_EventID = 0, ev_SearchID = rr_SearchID result, ev_Type = eventType,
       ev_Timestamp = stamp, ev_Message = message, ev_Candidate = None, ev_Result = copyResult (Some result), ev_Metadata = [] \<rparr>
   }"

text \<open>\<open>finish\<close> and \<open>run\<close> return here the result they finalize, which the code discards.\<close>

definition finish :: "environment \<Rightarrow> RouteSearchResult \<Rightarrow> EventType \<Rightarrow> RouteSearchResult go" where
  "finish env result eventType = do {
     (used, _, exhausted) \<leftarrow> on_budget (\<lambda>b. (snapshot b, b));
     billable \<leftarrow> on_budget (\<lambda>b. (billableUnits b, b));
     generatedAt \<leftarrow> clock env;
     e \<leftarrow> the_engine;
     let result = result\<lparr>rr_ProviderUsage := (rr_ProviderUsage result)\<lparr>pu_RequestsUsed := used,
         pu_EstimatedBillableUnits := billable, pu_BudgetExhausted := exhausted\<rparr>,
       rr_GeneratedAt := generatedAt, rr_ExpiresAt := generatedAt + cf_StateTTL (en_config e)\<rparr>;
     (if exhausted then on_stats (\<lambda>s. s\<lparr>st_budgetExceeded := add64 (st_budgetExceeded s) 1\<rparr>) else ret ());
     let warnings = (if exhausted then appendUniqueString (rr_Warnings result) ''SEARCH_BUDGET_EXHAUSTED'' else rr_Warnings result);
     let result = result\<lparr>rr_Warnings := uniqueStrings warnings\<rparr>;
     finalize env result eventType (terminalMessage (rr_Status result));
     ret result
   }"

section \<open>Green-corridor enhancement\<close>

definition shouldEnhance :: "config \<Rightarrow> RouteSearchRequest \<Rightarrow> RouteCandidate option \<Rightarrow> bool" where
  "shouldEnhance cfg request selected =
     (if \<not> cf_EnableEnhancedSearch cfg \<or> \<not> cf_EnableReranking cfg then False
      else if rq_RoutingMode request \<noteq> RoutingModeGreenest \<and> rq_RoutingMode request \<noteq> RoutingModeStrictGreen then False
      else case selected of
        None \<Rightarrow> rq_RoutingMode request = RoutingModeStrictGreen
      | Some c \<Rightarrow> (let m = rc_Metrics c in
          RedDurationSeconds m > 0 \<or> OrangeDurationSeconds m > 0 \<or> YellowDurationSeconds m > 0 \<or> UnknownDurationSeconds m > 0
          \<or> RedDistanceMeters m > 0 \<or> OrangeDistanceMeters m > 0 \<or> YellowDistanceMeters m > 0 \<or> UnknownDistanceMeters m > 0))"

text \<open>The variables of the enhancement loop.\<close>

record enhancement =
  eh_result :: RouteSearchResult
  eh_candidates :: "RouteCandidate list"
  eh_best :: "RouteCandidate option"
  eh_tried :: "string list"
  eh_probes :: int
  eh_errors :: int

definition add_warning :: "string \<Rightarrow> RouteSearchResult \<Rightarrow> RouteSearchResult" where
  "add_warning code r = r\<lparr>rr_Warnings := appendUniqueString (rr_Warnings r) code\<rparr>"

text \<open>A request for the whole trip with live traffic.\<close>

definition detour_request :: "ProviderCapabilities \<Rightarrow> RouteSearchRequest \<Rightarrow> int \<Rightarrow> bool \<Rightarrow> GeoPoint list \<Rightarrow> AvoidZone list \<Rightarrow> ProviderRouteRequest" where
  "detour_request caps request remaining avoidTolls anchors zones =
     \<lparr> pr_RequestID = rq_RequestID request, pr_Origin = rq_Origin request, pr_Destination = rq_Destination request,
       pr_Waypoints = rq_Waypoints request @ anchors, pr_Traffic = True,
       pr_Alternatives = minInt 2 (maxInt 0 (pc_MaxAlternatives caps)), pr_AvoidTolls = avoidTolls,
       pr_AvoidUnpaved = rq_AvoidUnpaved request, pr_DepartureUnix = departureUnix request, pr_AvoidZones = zones,
       pr_RequestBudget = remaining, pr_DeadlineMS = maxInt 500 (quot64 (rq_SearchDeadlineMS request) 2) \<rparr>"

text \<open>Accepting the routes of a reply: sanitized up to the free capacity, and only those that make the same trip.\<close>

definition incoming_routes ::
    "libm \<Rightarrow> config \<Rightarrow> RouteCandidate list \<Rightarrow> RouteCandidate \<Rightarrow> string \<Rightarrow> ProviderRouteResponse \<Rightarrow> RouteCandidate list \<times> int \<times> RouteCandidate list" where
  "incoming_routes lm cfg candidates base generatedBy response =
     (let capacity = maxInt 0 (cf_MaxActiveCandidates cfg - int (length candidates));
          (incoming, invalid) = sanitizeProviderCandidates lm (ps_Candidates response) capacity generatedBy
      in (incoming, invalid, filter (\<lambda>c. connectsSameTrip lm c base detourEndpointToleranceMeters) incoming))"

definition toll_free_probe ::
    "environment \<Rightarrow> libm \<Rightarrow> RouteSearchRequest \<Rightarrow> RouteCandidate \<Rightarrow> RouteSearchResult \<Rightarrow> RouteCandidate list
      \<Rightarrow> (RouteSearchResult \<times> RouteCandidate list) go" where
  "toll_free_probe env lm request base result candidates = do {
     e \<leftarrow> the_engine;
     if cf_EnableTollFreeProbe (en_config e) \<and> \<not> rq_AvoidTolls request \<and> anyTollRoute candidates then do {
       (_, remaining, exhausted) \<leftarrow> on_budget (\<lambda>b. (snapshot b, b));
       cancelled \<leftarrow> (if \<not> exhausted \<and> remaining > 0 then ctx_done env else ret True);
       if cancelled then ret (result, candidates)
       else do {
         appendEvent env (rr_SearchID result) EventDetourSearchStarted ''Comparing a toll-free alternative'' None None
           [(''strategy'', MetaStr ''TOLL_FREE_ALTERNATIVE'')];
         reply \<leftarrow> routeWithBudget env (detour_request (en_capabilities e) request remaining True [] []);
         case reply of
           Inl _ \<Rightarrow> ret (result, candidates)
         | Inr response \<Rightarrow> (case incoming_routes lm (en_config e) candidates base ''TOLL_FREE_ALTERNATIVE'' response of
             (_, _, kept) \<Rightarrow>
               if kept = [] then ret (result, candidates)
               else do {
                 scored_routes \<leftarrow> evaluateAll env lm (rr_SearchID result) request kept True;
                 let candidates = fst (Deduplicate lm (candidates @ scored_routes) DefaultDedupeConfig);
                 ret (result\<lparr>rr_GreenTopRoutes := Some (topGreenRoutes candidates greenTopRouteCount)\<rparr>, candidates)
               })
       }
     } else ret (result, candidates)
   }"

text \<open>The pool after new routes: ranked again, with the fastest reference, best effort and green top routes updated.\<close>

definition rerank :: "environment \<Rightarrow> RouteSearchRequest \<Rightarrow> RouteCandidate list \<Rightarrow> enhancement \<Rightarrow> enhancement go" where
  "rerank env request candidates v = do {
     e \<leftarrow> the_engine;
     let ranked = Rank candidates request (en_scoring e);
     let result = (eh_result v)\<lparr>rr_FastestReferenceRoute := cloneCandidate (Some (fastestRoute candidates)),
       rr_BestEffortRoutes := Some (cloneCandidates (rk_BestEffort ranked)),
       rr_GreenTopRoutes := Some (topGreenRoutes candidates greenTopRouteCount)\<rparr>;
     case rk_Selected ranked of
       None \<Rightarrow> ret (v\<lparr>eh_result := result, eh_candidates := candidates\<rparr>)
     | Some selected \<Rightarrow> do {
         let result = result\<lparr>rr_SelectedRoute := cloneCandidate (Some selected), rr_Alternatives := Some (rk_Eligible ranked)\<rparr>;
         (if materiallyBetter (eh_best v) (Some selected) (cf_MinimumScoreImprovement (en_config e))
         then appendEvent env (rr_SearchID result) EventBetterRouteFound ''A materially smoother eligible route was found''
                None None (candidateProgressMetadata selected)
         else ret ());
         ret (v\<lparr>eh_result := result, eh_candidates := candidates, eh_best := Some selected\<rparr>)
       }
   }"

text \<open>The body of the loop for the plan that was picked; the flag says whether the loop goes on.\<close>

definition probe_plan ::
    "environment \<Rightarrow> libm \<Rightarrow> RouteSearchRequest \<Rightarrow> RouteCandidate \<Rightarrow> int \<Rightarrow> int \<Rightarrow> detourPlan \<Rightarrow> enhancement \<Rightarrow> (bool \<times> enhancement) go" where
  "probe_plan env lm request base remaining clusterCount plan v = do {
     e \<leftarrow> the_engine;
     let v = v\<lparr>eh_tried := dp_label plan # eh_tried v, eh_probes := eh_probes v + 1\<rparr>;
     appendEvent env (rr_SearchID (eh_result v)) EventDetourSearchStarted ''Probing a greener corridor'' None None
       [(''strategy'', MetaStr (dp_label plan)), (''avoidZones'', MetaInt (int (length (dp_zones plan)))),
        (''anchors'', MetaInt (int (length (dp_anchors plan)))), (''congestionClusters'', MetaInt clusterCount),
        (''probe'', MetaInt (eh_probes v))];
     reply \<leftarrow> routeWithBudget env (detour_request (en_capabilities e) request remaining (rq_AvoidTolls request) (dp_anchors plan) (dp_zones plan));
     case reply of
       Inl _ \<Rightarrow>
         (let v = v\<lparr>eh_result := add_warning ''ENHANCED_SEARCH_PROVIDER_ERROR'' (eh_result v), eh_errors := eh_errors v + 1\<rparr> in
          if eh_errors v \<ge> 2 then ret (False, v\<lparr>eh_result := add_warning ''DETOUR_SEARCH_STOPPED_EARLY'' (eh_result v)\<rparr>)
          else ret (True, v))
     | Inr response \<Rightarrow> (case incoming_routes lm (en_config e) (eh_candidates v) base ''ENHANCED_DETOUR'' response of
         (incoming, invalid, joined) \<Rightarrow> do {
           let result = (if invalid > 0 then add_warning ''INVALID_PROVIDER_CANDIDATES_REJECTED'' (eh_result v) else eh_result v);
           let result = (if length joined < length incoming then add_warning ''DETOUR_ENDPOINTS_RELOCATED_BY_PROVIDER'' result else result);
           let v = v\<lparr>eh_result := result, eh_errors := 0\<rparr>;
           if joined = [] then ret (True, v)
           else do {
             scored_routes \<leftarrow> evaluateAll env lm (rr_SearchID result) request joined (length (eh_candidates v) + length joined > 1);
             v \<leftarrow> rerank env request (fst (Deduplicate lm (eh_candidates v @ scored_routes) DefaultDedupeConfig)) v;
             ret (True, v)
           }
         })
   }"

fun enhance_loop ::
    "nat \<Rightarrow> environment \<Rightarrow> libm \<Rightarrow> RouteSearchRequest \<Rightarrow> RouteCandidate \<Rightarrow> bool \<Rightarrow> int \<Rightarrow> enhancement \<Rightarrow> enhancement go" where
  "enhance_loop 0 env lm request base zonesAllowed anchorCapacity v = ret v"
| "enhance_loop (Suc iterations) env lm request base zonesAllowed anchorCapacity v = do {
     e \<leftarrow> the_engine;
     (_, remaining, exhausted) \<leftarrow> on_budget (\<lambda>b. (snapshot b, b));
     cancelled \<leftarrow> (if exhausted \<or> remaining = 0 then ret True else ctx_done env);
     if cancelled \<or> int (length (eh_candidates v)) \<ge> cf_MaxActiveCandidates (en_config e) then ret v
     else (let clusters = congestionClusters lm (eh_candidates v) request 1 in
       case nextUntriedPlan (greenDetourPlans lm clusters request zonesAllowed (cf_EnableCorridorAnchors (en_config e)) anchorCapacity) (eh_tried v) of
         None \<Rightarrow> ret v
       | Some plan \<Rightarrow> do {
           (continue, v) \<leftarrow> probe_plan env lm request base remaining (int (length clusters)) plan v;
           if continue then enhance_loop iterations env lm request base zonesAllowed anchorCapacity v else ret v
         })
   }"

definition enhance ::
    "environment \<Rightarrow> libm \<Rightarrow> RouteSearchRequest \<Rightarrow> RouteSearchResult \<Rightarrow> RouteCandidate list \<Rightarrow> RouteSearchResult go" where
  "enhance env lm request result candidates = do {
     e \<leftarrow> the_engine;
     let best = rr_SelectedRoute result;
     case (if best = None then rr_FastestReferenceRoute result else best) of
       None \<Rightarrow> ret result
     | Some base \<Rightarrow> do {
         let zonesAllowed = (cf_EnableAvoidZones (en_config e) \<and> pc_AvoidZones (en_capabilities e));
         let anchorCapacity = maxInt 0 (pc_MaxWaypoints (en_capabilities e) - int (length (rq_Waypoints request)) - 2);
         (result, candidates) \<leftarrow> toll_free_probe env lm request base result candidates;
         v \<leftarrow> enhance_loop (nat (cf_MaxEnhancedIterations (en_config e))) env lm request base zonesAllowed anchorCapacity
           \<lparr> eh_result = result, eh_candidates = candidates, eh_best = best, eh_tried = [], eh_probes = 0, eh_errors = 0 \<rparr>;
         ret ((eh_result v)\<lparr>rr_GreenTopRoutes := Some (topGreenRoutes (eh_candidates v) greenTopRouteCount)\<rparr>)
       }
   }"

section \<open>The worker of one search\<close>

definition initial_request :: "ProviderCapabilities \<Rightarrow> RouteSearchRequest \<Rightarrow> ProviderRouteRequest" where
  "initial_request caps request =
     \<lparr> pr_RequestID = rq_RequestID request, pr_Origin = rq_Origin request, pr_Destination = rq_Destination request,
       pr_Waypoints = rq_Waypoints request, pr_Traffic = True, pr_Alternatives = minInt 2 (maxInt 0 (pc_MaxAlternatives caps)),
       pr_AvoidTolls = rq_AvoidTolls request, pr_AvoidUnpaved = rq_AvoidUnpaved request, pr_DepartureUnix = departureUnix request,
       pr_AvoidZones = [], pr_RequestBudget = rq_MaxProviderRequests request, pr_DeadlineMS = rq_SearchDeadlineMS request \<rparr>"

definition warn :: "string \<Rightarrow> RouteSearchResult \<Rightarrow> RouteSearchResult" where
  "warn code r = r\<lparr>rr_Warnings := rr_Warnings r @ [code]\<rparr>"

definition degrade :: "environment \<Rightarrow> RouteSearchResult \<Rightarrow> string \<Rightarrow> RouteSearchResult go" where
  "degrade env result code = finish env (warn code (result\<lparr>rr_Status := SearchDegraded\<rparr>)) EventSearchDegraded"

definition count_degraded :: "unit go" where
  "count_degraded = on_stats (\<lambda>s. s\<lparr>st_degraded := add64 (st_degraded s) 1\<rparr>)"

text \<open>The last part of \<open>run\<close>: the status of a search from its selected route.\<close>

definition conclude :: "environment \<Rightarrow> RouteSearchRequest \<Rightarrow> RouteSearchResult \<Rightarrow> RouteSearchResult go" where
  "conclude env request result = (case rr_SelectedRoute result of
     None \<Rightarrow> do {
       let result = warn ''NO_ROUTE_WITHIN_HARD_CONSTRAINTS'' (result\<lparr>rr_Status := SearchDegraded\<rparr>);
       let result = (if rq_RoutingMode request = RoutingModeStrictGreen then warn ''NO_VERIFIED_STRICT_GREEN_ROUTE'' result else result);
       count_degraded;
       finish env result (terminalEvent (rr_Status result))
     }
   | Some selected \<Rightarrow> do {
       let result = result\<lparr>rr_Status := SearchCompleted\<rparr>;
       let result = (if RedDurationSeconds (rc_Metrics selected) = 0 \<and> \<not> hasUnknownTraffic selected then result
         else warn ''NO_GREEN_ROUTE_AVAILABLE'' (result\<lparr>rr_SelectedRoute :=
           Some (selected\<lparr>rc_ReasonCodes := appendUniqueString (rc_ReasonCodes selected) ''NO_GREEN_ROUTE_AVAILABLE''\<rparr>)\<rparr>));
       (if Level (rc_Confidence selected) = ConfidenceLow
        then on_stats (\<lambda>s. s\<lparr>st_lowConfidence := add64 (st_lowConfidence s) 1\<rparr>) else ret ());
       let result = (if Level (rc_Confidence selected) = ConfidenceLow then warn ''LOW_CONFIDENCE_RESULT'' result else result);
       finish env result (terminalEvent (rr_Status result))
     })"

text \<open>Ranking of the evaluated initial candidates, enhancement when it is due, and the conclusion. The keys of the
  rejection map are ids of the ranked candidates, so the map is non-empty when one of them is a key.\<close>

definition rank_and_conclude ::
    "environment \<Rightarrow> libm \<Rightarrow> RouteSearchRequest \<Rightarrow> RouteSearchResult \<Rightarrow> RouteCandidate list \<Rightarrow> RouteSearchResult go" where
  "rank_and_conclude env lm request result scored_routes = do {
     e \<leftarrow> the_engine;
     let ranked = Rank scored_routes request (en_scoring e);
     let result = result\<lparr>rr_FastestReferenceRoute := cloneCandidate (Some (fastestRoute scored_routes)),
       rr_Alternatives := Some (rk_Eligible ranked), rr_BestEffortRoutes := Some (cloneCandidates (rk_BestEffort ranked)),
       rr_GreenTopRoutes := Some (topGreenRoutes scored_routes greenTopRouteCount),
       rr_SelectedRoute := cloneCandidate (rk_Selected ranked)\<rparr>;
     let result = (if list_ex (\<lambda>c. rk_Rejected ranked (rc_CandidateID c) \<noteq> None) scored_routes then warn ''ROUTES_REJECTED_BY_HARD_CONSTRAINTS'' result else result);
     result \<leftarrow> (if shouldEnhance (en_config e) request (rk_Selected ranked) then do {
         appendEvent env (rr_SearchID result) EventDetourSearchStarted ''Searching bounded detours'' None None [];
         enhance env lm request result scored_routes
       } else ret result);
     conclude env request result
   }"

text \<open>The initial provider answer: sanitized, deduplicated and evaluated.\<close>

definition use_initial ::
    "environment \<Rightarrow> libm \<Rightarrow> RouteSearchRequest \<Rightarrow> RouteSearchResult \<Rightarrow> ProviderRouteResponse \<Rightarrow> RouteSearchResult go" where
  "use_initial env lm request result response = do {
     e \<leftarrow> the_engine;
     let result = result\<lparr>rr_Warnings := rr_Warnings result @ providerWarningCodes response\<rparr>;
     let (valid, invalid) = sanitizeProviderCandidates lm (ps_Candidates response) (cf_MaxActiveCandidates (en_config e)) ''PROVIDER_ALTERNATIVE'';
     let result = (if invalid > 0 then add_warning ''INVALID_PROVIDER_CANDIDATES_REJECTED'' result else result);
     let (valid, dropped) = Deduplicate lm valid DefaultDedupeConfig;
     if valid = [] then degrade env result ''NO_VALID_PROVIDER_ROUTES''
     else do {
       let result = result\<lparr>rr_FastestReferenceRoute := cloneCandidate (Some (fastestRoute valid))\<rparr>;
       appendEvent env (rr_SearchID result) EventInitialCandidatesReady ''Initial candidates ready'' None None
         [(''count'', MetaInt (int (length valid))), (''deduplicated'', MetaInt dropped)];
       scored_routes \<leftarrow> evaluateAll env lm (rr_SearchID result) request valid (length valid > 1);
       if scored_routes = [] then degrade env result ''BASELINE_EVALUATION_UNAVAILABLE''
       else rank_and_conclude env lm request result scored_routes
     }
   }"

definition run :: "environment \<Rightarrow> libm \<Rightarrow> RouteSearchRequest \<Rightarrow> RouteSearchResult \<Rightarrow> RouteSearchResult go" where
  "run env lm request result = do {
     e \<leftarrow> the_engine;
     on_stats (\<lambda>s. s\<lparr>st_searches := add64 (st_searches s) 1\<rparr>);
     _ \<leftarrow> on_budget (\<lambda>_. ((), newRequestBudget (rq_MaxProviderRequests request)));
     let result = result\<lparr>rr_Status := SearchSearching\<rparr>;
     now \<leftarrow> clock env;
     now' \<leftarrow> clock env;
     _ \<leftarrow> on_store (Memory_Update now now' result (cf_StateTTL (en_config e)));
     appendEvent env (rr_SearchID result) EventProviderRequestStarted ''Requesting initial alternatives'' None None [];
     reply \<leftarrow> routeWithBudget env (initial_request (en_capabilities e) request);
     case reply of
       Inl _ \<Rightarrow> do { count_degraded; degrade env result ''PROVIDER_INITIAL_CANDIDATES_UNAVAILABLE'' }
     | Inr response \<Rightarrow>
         if ps_Candidates response = [] then do { count_degraded; degrade env result ''PROVIDER_INITIAL_CANDIDATES_UNAVAILABLE'' }
         else use_initial env lm request result response
   }"

section \<open>Admission, cancellation and recovery\<close>

text \<open>
  \<open>start\<close> also returns the goroutine it starts, if any, as its arguments. \<open>sha256\<close> is the hash behind
  stable ids and \<open>rand\<close>, \<open>rand'\<close> are the random bytes of the two generated ids.
\<close>

definition accepted_result ::
    "engine \<Rightarrow> string \<Rightarrow> RouteSearchRequest \<Rightarrow> time \<Rightarrow> RouteSearchResult" where
  "accepted_result e searchID request now =
     \<lparr> rr_SearchID = searchID, rr_RequestID = rq_RequestID request, rr_Status = SearchAccepted, rr_SelectedRoute = None,
       rr_Alternatives = Some [], rr_BestEffortRoutes = Some [], rr_GreenTopRoutes = Some [], rr_FastestReferenceRoute = None,
       rr_Constraints = \<lparr> ac_MaxExtraDistanceMeters = rq_MaxExtraDistanceMeters request,
         ac_MaxExtraDistancePercent = rq_MaxExtraDistancePercent request, ac_MaxExtraTimeSeconds = rq_MaxExtraTimeSeconds request,
         ac_MinimumConfidenceScore = MinimumRouteConfidence (en_scoring e), ac_AvoidTolls = rq_AvoidTolls request,
         ac_AvoidUnpaved = rq_AvoidUnpaved request \<rparr>,
       rr_ProviderUsage = \<lparr> pu_Provider = defaultString (pc_Provider (en_capabilities e)) ''yandex'', pu_RequestsUsed = 0,
         pu_RequestBudget = rq_MaxProviderRequests request, pu_EstimatedBillableUnits = 0, pu_EstimatedCost = 0, pu_BudgetExhausted = False \<rparr>,
       rr_Warnings = [], rr_ScoringPolicyVersion = PolicyVersion (en_scoring e), rr_GeneratedAt = now,
       rr_ExpiresAt = now + cf_StateTTL (en_config e) \<rparr>"

text \<open>The answer when the record cannot be created: an operation key returns the existing search. The slot is released.\<close>

definition answer_existing ::
    "environment \<Rightarrow> string \<Rightarrow> string \<Rightarrow> store_error \<Rightarrow> ((start_error + RouteSearchResult) \<times> (RouteSearchRequest \<times> RouteSearchResult) option) go" where
  "answer_existing env searchID operationKey err = do {
     answer \<leftarrow> (if (case err of ErrAlreadyExists _ \<Rightarrow> operationKey \<noteq> [] | ErrNotFound \<Rightarrow> False) then do {
         now \<leftarrow> clock env;
         r \<leftarrow> on_store (\<lambda>m. (Memory_Get now searchID m, m));
         ret (case r of Inl err \<Rightarrow> Inl (StoreError err) | Inr r \<Rightarrow> Inr r)
       } else ret (Inl (StoreError err)));
     on_engine (\<lambda>e. e\<lparr>en_admission := en_admission e - 1\<rparr>);
     ret (answer, None)
   }"

definition launch ::
    "environment \<Rightarrow> string \<Rightarrow> RouteSearchRequest \<Rightarrow> RouteSearchResult
      \<Rightarrow> ((start_error + RouteSearchResult) \<times> (RouteSearchRequest \<times> RouteSearchResult) option) go" where
  "launch env searchID request result = do {
     appendEvent env searchID EventSearchAccepted ''Search accepted'' None (Some result) [];
     on_engine (\<lambda>e. e\<lparr>en_cancels := insert searchID (en_cancels e)\<rparr>);
     ret (Inr result, Some (request, result))
   }"

definition start ::
    "environment \<Rightarrow> (string \<Rightarrow> 8 word list) \<Rightarrow> 8 word list \<Rightarrow> 8 word list \<Rightarrow> RouteSearchRequest \<Rightarrow> string
      \<Rightarrow> ((start_error + RouteSearchResult) \<times> (RouteSearchRequest \<times> RouteSearchResult) option) go" where
  "start env sha256 rand rand' request operationKey = do {
     let request = ApplySafeDefaults request;
     checkTime \<leftarrow> clock env;
     e \<leftarrow> the_engine;
     case RouteSearchRequest_Validate checkTime DefaultValidationLimits request of
       Some err \<Rightarrow> ret (Inl (InvalidRequest err), None)
     | None \<Rightarrow> (
       let request = (if rq_RequestID request = [] then request\<lparr>rq_RequestID := New rand\<rparr> else request) in
       if \<not> en_capabilityOK e then ret (Inl errCapabilitiesUnavailable, None)
       else if en_admission e \<ge> en_admissionCapacity e then ret (Inl errSearchCapacity, None)
       else do {
         on_engine (\<lambda>e. e\<lparr>en_admission := en_admission e + 1\<rparr>);
         generatedAt \<leftarrow> clock env;
         let searchID = (if operationKey \<noteq> [] then FromStableKey sha256 ''route-search'' operationKey else New rand');
         let result = accepted_result e searchID request generatedAt;
         now \<leftarrow> clock env;
         now' \<leftarrow> clock env;
         err \<leftarrow> on_store (Memory_Create now now' result (cf_StateTTL (en_config e)));
         case err of
           Some err \<Rightarrow> answer_existing env searchID operationKey err
         | None \<Rightarrow> launch env searchID request result
       })
   }"

definition removeCancel :: "string \<Rightarrow> engine \<Rightarrow> engine" where
  "removeCancel sid e = e\<lparr>en_cancels := en_cancels e - {sid}\<rparr>"

text \<open>The goroutine of \<open>start\<close>: run the search, then forget its cancel function and release its slot.\<close>

definition worker_goroutine :: "environment \<Rightarrow> libm \<Rightarrow> RouteSearchRequest \<times> RouteSearchResult \<Rightarrow> RouteSearchResult go" where
  "worker_goroutine env lm args = do {
     final \<leftarrow> run env lm (fst args) (snd args);
     on_engine (removeCancel (rr_SearchID (snd args)));
     on_engine (\<lambda>e. e\<lparr>en_admission := en_admission e - 1\<rparr>);
     ret final
   }"

definition cancel :: "string \<Rightarrow> store_error option go" where
  "cancel sid = do {
     on_engine (removeCancel sid);
     on_store (Memory_Delete sid)
   }"

definition recover_one :: "environment \<Rightarrow> time \<Rightarrow> RouteSearchResult \<Rightarrow> unit go" where
  "recover_one env now result = do {
     e \<leftarrow> the_engine;
     let result = result\<lparr>rr_Status := SearchFailed, rr_Warnings := appendUniqueString (rr_Warnings result) ''WORKER_INTERRUPTED'',
       rr_GeneratedAt := now\<rparr>;
     t \<leftarrow> clock env;
     t' \<leftarrow> clock env;
     _ \<leftarrow> on_store (Memory_Finalize t t' result \<lparr> ev_EventID = 0, ev_SearchID = rr_SearchID result, ev_Type = EventSearchFailed,
       ev_Timestamp = now, ev_Message = ''Search worker was interrupted and the operation was safely closed'', ev_Candidate = None,
       ev_Result = copyResult (Some result), ev_Metadata = [] \<rparr> (cf_StateTTL (en_config e)));
     ret ()
   }"

definition recoverStaleBatch :: "environment \<Rightarrow> string list \<Rightarrow> time \<Rightarrow> unit go" where
  "recoverStaleBatch env order now = do {
     e \<leftarrow> the_engine;
     let staleAfter = (if cf_StaleSearchAfter (en_config e) = 0 then 45 * second else cf_StaleSearchAfter (en_config e));
     t \<leftarrow> clock env;
     searches \<leftarrow> on_store (\<lambda>m. (Memory_ActiveBefore t order (now - staleAfter) 100 m, m));
     _ \<leftarrow> State_Monad.traverse_list (recover_one env now) searches;
     ret ()
   }"

end
