(* ===== verification/Engine_Search.thy ===== *)
theory Engine_Search
  imports Engine
begin

text \<open>
  What one search guarantees whatever the provider answers, however the clock runs, whenever the context is cancelled
  and in whichever order the goroutines are scheduled. The invariant \<open>winv\<close> of the world is carried
  through every operation of \<open>Engine\<close>: the budget with the leases of the running calls, the requests sent, the engine's
  unchanged configuration and (when the clock stays within the record's lifetime) the pending
  record in the store.
\<close>

section \<open>The invariant\<close>

record search_ctx =
  k_cfg :: config
  k_scoring :: ScoringConfig
  k_caps :: ProviderCapabilities
  k_limit :: int64
  k_sid :: string
  k_deadline :: time
  k_timely :: bool
  k_good :: "ProviderRouteRequest \<Rightarrow> bool"
  k_admission :: int
  k_capacity :: int
  k_cancels :: "string set"

text \<open>The record of the search is in the store, outlives the deadline and is not terminal.\<close>

definition pending :: "string \<Rightarrow> time \<Rightarrow> Memory \<Rightarrow> bool" where
  "pending sid deadline m \<longleftrightarrow>
     (\<exists>r. m sid = Some r \<and> deadline \<le> mr_expiresAt r \<and> \<not> terminalStatus (rr_Status (mr_result r)))"

definition engine_is :: "search_ctx \<Rightarrow> engine \<Rightarrow> bool" where
  "engine_is k e \<longleftrightarrow> en_config e = k_cfg k \<and> en_scoring e = k_scoring k \<and> en_capabilities e = k_caps k
     \<and> en_admission e = k_admission k \<and> en_admissionCapacity e = k_capacity k \<and> en_cancels e = k_cancels k"

lemma engine_is_update [simp]:
  "engine_is k (e\<lparr>en_stats := st\<rparr>) = engine_is k e"
  "engine_is k (e\<lparr>en_store := m\<rparr>) = engine_is k e"
  by (simp_all add: engine_is_def)

definition winv :: "search_ctx \<Rightarrow> budgetLease list \<Rightarrow> world \<Rightarrow> bool" where
  "winv k ls w \<longleftrightarrow> engine_is k (w_engine w)
     \<and> budget_inv (k_limit k) (w_budget w, ls) \<and> list_all (\<lambda>l. \<not> bl_done l) ls
     \<and> int (length (w_sent w)) \<le> rb_used (w_budget w) + int (length ls)
     \<and> list_all (\<lambda>r. 1 \<le> pr_RequestBudget r \<and> pr_RequestBudget r \<le> 2 \<and> k_good k r) (w_sent w)
     \<and> (k_timely k \<longrightarrow> pending (k_sid k) (k_deadline k) (en_store (w_engine w)))"

text \<open>The clock readings of a timely search: none is past the deadline, and each is at most a lifetime before it.\<close>

definition timely :: "search_ctx \<Rightarrow> environment \<Rightarrow> bool" where
  "timely k env \<longleftrightarrow> in64 (k_limit k) \<and> (k_timely k \<longrightarrow> (\<forall>n. env_now env n \<le> k_deadline k \<and>
     k_deadline k \<le> env_now env n + cf_StateTTL (k_cfg k)))"

definition sendable :: "search_ctx \<Rightarrow> ProviderRouteRequest \<Rightarrow> bool" where
  "sendable k r \<longleftrightarrow> (\<forall>a. k_good k (r\<lparr>pr_RequestBudget := a\<rparr>))"

lemma budget_inv_perm:
  assumes "mset ls = mset ls'"
  shows "budget_inv limit (b, ls) = budget_inv limit (b, ls')"
proof -
  have "sum_list (map f ls) = sum_list (map f ls')" for f :: "budgetLease \<Rightarrow> int"
    using assms by (metis mset_map sum_mset_sum_list)
  moreover have "set ls = set ls'" using assms by (rule mset_eq_setD)
  ultimately show ?thesis by (simp add: budget_inv_def open_allowances_def list_all_iff)
qed

lemma winv_perm:
  assumes "mset ls = mset ls'"
  shows "winv k ls w = winv k ls' w"
proof -
  have "set ls = set ls'" "length ls = length ls'" using assms by (metis mset_eq_setD, metis size_mset)
  then show ?thesis using budget_inv_perm [OF assms] by (simp add: winv_def list_all_iff)
qed

section \<open>Effects keep the invariant\<close>

lemma wp_reading: "winv k ls w \<Longrightarrow> wp reading (\<lambda>_. winv k ls) w"
  by (simp add: reading_def wp_rules winv_def)

lemma wp_clock:
  assumes "winv k ls w" "timely k env"
  shows "wp (clock env) (\<lambda>t w'. winv k ls w' \<and> (k_timely k \<longrightarrow> t \<le> k_deadline k \<and> k_deadline k \<le> t + cf_StateTTL (k_cfg k))) w"
  using assms by (simp add: clock_def reading_def wp_rules winv_def timely_def)

lemma wp_ctx_done: "winv k ls w \<Longrightarrow> wp (ctx_done env) (\<lambda>_. winv k ls) w"
  by (simp add: ctx_done_def reading_def wp_rules winv_def)

lemma wp_the_engine: "winv k ls w \<Longrightarrow> wp the_engine (\<lambda>e w'. winv k ls w' \<and> engine_is k e) w"
  by (simp add: the_engine_def wp_rules winv_def)

lemma wp_on_stats: "winv k ls w \<Longrightarrow> wp (on_stats f) (\<lambda>_. winv k ls) w"
  by (simp add: on_stats_def on_engine_def wp_rules winv_def)

lemma pending_live: "pending sid d m \<Longrightarrow> now \<le> d \<Longrightarrow> \<exists>r. live now sid m = Some r \<and> m sid = Some r \<and> d \<le> mr_expiresAt r \<and> \<not> terminalStatus (rr_Status (mr_result r))"
  by (auto simp: pending_def live_def)

lemma pending_append:
  assumes "pending sid d m" "now \<le> d" "d \<le> now' + ttl"
  shows "pending sid d (snd (Memory_AppendEvent now now' ev ttl m))"
proof (cases "live now (ev_SearchID ev) m")
  case None
  with assms(1) show ?thesis by (simp add: Memory_AppendEvent_def)
next
  case (Some r)
  then have m: "m (ev_SearchID ev) = Some r" by (simp add: live_some)
  obtain ev' r' where p: "push_event ev r = (ev', r')" "mr_result r' = mr_result r" by (auto simp: push_event_def Let_def)
  with Some m assms show ?thesis
    by (cases "ev_SearchID ev = sid") (auto simp: Memory_AppendEvent_def pending_def)
qed

lemma winv_store:
  assumes "winv k ls w" "k_timely k \<Longrightarrow> pending (k_sid k) (k_deadline k) (en_store (w_engine w)) \<Longrightarrow> pending (k_sid k) (k_deadline k) m"
  shows "winv k ls (w\<lparr>w_engine := (w_engine w)\<lparr>en_store := m\<rparr>\<rparr>)"
  using assms by (simp add: winv_def)

lemma wp_appendEvent:
  assumes "winv k ls w" "timely k env"
  shows "wp (appendEvent env sid ty msg c r meta) (\<lambda>_. winv k ls) w"
  unfolding appendEvent_def wp_rules
  apply (rule wp_mono [OF wp_clock [OF assms]], elim conjE)
  apply (rule wp_mono [OF wp_clock [OF _ assms(2)]], assumption, elim conjE)
  apply (rule wp_mono [OF wp_clock [OF _ assms(2)]], assumption, elim conjE)
  apply (rule wp_mono [OF wp_the_engine], assumption)
  apply (auto simp: on_store_def wp_rules engine_is_def split: prod.split intro!: winv_store)
  by (metis pending_append snd_conv)

section \<open>Provider calls\<close>

lemma routes_used: "routes reply r = Inr resp \<Longrightarrow> 1 \<le> ps_RequestsUsed resp \<and> ps_RequestsUsed resp \<le> pr_RequestBudget r"
  by (auto simp: routes_def validateProviderRouteResponse_def split: http_reply.splits option.splits if_splits)

lemma wp_begin_call:
  assumes "winv k ls w" "in64 (k_limit k)" "sendable k r"
  shows "wp (begin_call r) (\<lambda>c w'. case c of None \<Rightarrow> winv k ls w'
      | Some (l, r') \<Rightarrow> winv k (l # ls) w' \<and> pr_RequestBudget r' = bl_allowance l) w"
proof -
  have inv: "budget_inv (k_limit k) (w_budget w, ls)" using assms(1) by (simp add: winv_def)
  note L = budget_lease_inv [OF inv assms(2), of 2]
  show ?thesis
  proof (cases "k_limit k - rb_used (w_budget w) - rb_reserved (w_budget w) \<le> 0")
    case True
    then have "lease 2 (w_budget w) = (None, w_budget w)" using L by (simp add: Let_def)
    then show ?thesis using assms(1) by (simp add: begin_call_def on_budget_def wp_rules)
  next
    case False
    define a where "a = min (k_limit k - rb_used (w_budget w) - rb_reserved (w_budget w)) 2"
    define l where "l = \<lparr> bl_allowance = a, bl_done = False \<rparr>"
    have le: "lease 2 (w_budget w) = (Some l, (w_budget w)\<lparr>rb_reserved := rb_reserved (w_budget w) + a\<rparr>)"
      using L False by (simp add: Let_def a_def l_def)
    have a: "1 \<le> a" "a \<le> 2" using False by (auto simp: a_def)
    have "budget_inv (k_limit k) ((w_budget w)\<lparr>rb_reserved := rb_reserved (w_budget w) + a\<rparr>, ls @ [l])"
      using budget_step_inv [OF budget_step.granted [OF le, of ls] inv assms(2)] .
    then have "budget_inv (k_limit k) ((w_budget w)\<lparr>rb_reserved := rb_reserved (w_budget w) + a\<rparr>, l # ls)"
      by (subst budget_inv_perm [of _ "ls @ [l]"]) simp_all
    then show ?thesis
      using assms(1,3) a
      by (simp add: begin_call_def on_budget_def send_def wp_rules le winv_def sendable_def l_def)
  qed
qed

lemma finish_lease:
  assumes "budget_inv limit (b, l # ls)" "in64 limit" "\<not> bl_done l" "1 \<le> n" "n \<le> bl_allowance l"
  shows "\<exists>b'. lease_finish n l b = (l\<lparr>bl_done := True\<rparr>, b') \<and> budget_inv limit (b', ls) \<and> rb_used b' = rb_used b + n"
proof -
  note F = budget_finish_inv [OF assms(1,2), of 0 n, simplified, OF assms(3)]
  define b' where "b' = b\<lparr>rb_reserved := rb_reserved b - bl_allowance l, rb_used := rb_used b + n\<rparr>"
  have f: "lease_finish n l b = (l\<lparr>bl_done := True\<rparr>, b')" using F assms(4,5) by (simp add: b'_def max_def min_def)
  have "budget_inv limit (b', (l # ls)[0 := l\<lparr>bl_done := True\<rparr>])"
    by (rule budget_step_inv [OF budget_step.finished [of 0 "l # ls" n b] assms(1,2)]) (simp_all add: f)
  then have "budget_inv limit (b', ls)" by (simp add: budget_inv_def)
  with f show ?thesis by (auto simp: b'_def)
qed

lemma wp_end_call:
  assumes "winv k (l # ls) w" "in64 (k_limit k)" "pr_RequestBudget r = bl_allowance l"
  shows "wp (end_call env l r) (\<lambda>_. winv k ls) w"
proof -
  have b: "budget_inv (k_limit k) (w_budget w, l # ls)" and nd: "\<not> bl_done l" using assms(1) by (simp_all add: winv_def)
  have one: "1 \<le> bl_allowance l" using b by (simp add: budget_inv_def)
  have step: "\<exists>b'. lease_finish n l (w_budget w) = (l\<lparr>bl_done := True\<rparr>, b') \<and> budget_inv (k_limit k) (b', ls)
      \<and> rb_used b' = rb_used (w_budget w) + n" if "1 \<le> n" "n \<le> bl_allowance l" for n
    using finish_lease [OF b assms(2) nd that] .
  show ?thesis
  proof (cases "routes (env_reply env (w_tick w) r) r")
    case (Inl err)
    with step [OF one order_refl] assms(1) one show ?thesis
      by (auto simp: end_call_def reading_def on_budget_def on_stats_def on_engine_def wp_rules winv_def)
  next
    case (Inr resp)
    have u: "1 \<le> ps_RequestsUsed resp" "ps_RequestsUsed resp \<le> bl_allowance l" using routes_used [OF Inr] assms(3) by auto
    have "budget_inv lim (addBillable n b', ls') = budget_inv lim (b', ls')" "rb_used (addBillable n b') = rb_used b'" for n b' lim ls'
      by (simp_all add: budget_inv_def addBillable_def)
    with step [OF u] assms(1) u Inr show ?thesis
      by (auto simp: end_call_def reading_def on_budget_def on_stats_def on_engine_def wp_rules winv_def)
  qed
qed

lemma wp_routeWithBudget:
  assumes "winv k ls w" "in64 (k_limit k)" "sendable k r"
  shows "wp (routeWithBudget env r) (\<lambda>_. winv k ls) w"
  unfolding routeWithBudget_def wp_rules
  by (rule wp_mono [OF wp_begin_call [OF assms]])
    (auto simp: wp_rules assms(2) intro: wp_end_call split: option.splits)

section \<open>Concurrent evaluation\<close>

text \<open>What evaluation keeps of a route.\<close>

definition same_trip :: "RouteCandidate \<Rightarrow> RouteCandidate \<Rightarrow> bool" where
  "same_trip c r \<longleftrightarrow> rc_CandidateID r = rc_CandidateID c \<and> rc_Geometry r = rc_Geometry c
     \<and> rc_DistanceMeters r = rc_DistanceMeters c \<and> rc_LiveDurationSeconds r = rc_LiveDurationSeconds c
     \<and> rc_TrafficDataType r = rc_TrafficDataType c \<and> rc_Tolls r = rc_Tolls c \<and> rc_Unpaved r = rc_Unpaved c \<and> rc_Blocked r = rc_Blocked c"

definition scored_from :: "ScoringConfig \<Rightarrow> RouteCandidate \<Rightarrow> RouteCandidate \<Rightarrow> bool" where
  "scored_from cfg c r \<longleftrightarrow> same_trip c r \<and> (\<exists>c' e. r = Evaluate c' e cfg)"

lemma same_trip_Evaluate: "same_trip c c' \<Longrightarrow> same_trip c (Evaluate c' e cfg)"
  by (simp add: same_trip_def Evaluate_def Let_def)

lemma scored_from_Evaluate: "same_trip c c' \<Longrightarrow> scored_from cfg c (Evaluate c' e cfg)"
  unfolding scored_from_def using same_trip_Evaluate by blast

lemma local_evaluation_scored: "local_evaluation cfg h c = Some r \<Longrightarrow> scored_from cfg c r"
  by (auto simp: local_evaluation_def same_trip_def split: if_splits intro!: scored_from_Evaluate)

lemma evaluate_reply_scored: "scored_from cfg c (evaluate_reply lm cfg h c reply)"
  unfolding evaluate_reply_def evaluate_without_baseline_def evaluate_with_baseline_def Let_def
  by (auto split: sum.split intro!: scored_from_Evaluate simp: same_trip_def)

fun lease_list :: "worker \<Rightarrow> budgetLease list" where
  "lease_list (Calling l _) = [l]"
| "lease_list _ = []"

definition leases_of :: "worker list \<Rightarrow> budgetLease list" where
  "leases_of ws = concat (map lease_list ws)"

fun worker_for :: "ScoringConfig \<Rightarrow> RouteCandidate \<Rightarrow> worker \<Rightarrow> bool" where
  "worker_for cfg c (Calling l r) = (pr_RequestBudget r = bl_allowance l)"
| "worker_for cfg c (Evaluated r) = scored_from cfg c r"
| "worker_for cfg c (Finished (Some r)) = scored_from cfg c r"
| "worker_for cfg c _ = True"

fun weight :: "worker \<Rightarrow> nat" where
  "weight Waiting = 3"
| "weight (Calling _ _) = 2"
| "weight (Evaluated _) = 1"
| "weight (Finished _) = 0"

definition total_weight :: "worker list \<Rightarrow> nat" where
  "total_weight ws = sum_list (map weight ws)"

definition evaluable :: "search_ctx \<Rightarrow> libm \<Rightarrow> RouteSearchRequest \<Rightarrow> RouteCandidate \<Rightarrow> bool" where
  "evaluable k lm request c \<longleftrightarrow> (\<forall>r. baseline_request lm (k_caps k) request c = Some r \<longrightarrow> sendable k r)"

lemma wp_start_worker:
  assumes "winv k ls w" "in64 (k_limit k)" "evaluable k lm request c"
  shows "wp (start_worker lm request h c) (\<lambda>v w'. winv k (lease_list v @ ls) w' \<and> worker_for (k_scoring k) c v \<and> weight v < 3) w"
proof -
  have e: "engine_is k (w_engine w)" using assms(1) by (simp add: winv_def)
  show ?thesis
  proof (cases "local_evaluation (k_scoring k) h c")
    case (Some r)
    then show ?thesis using assms(1) e
      by (simp add: start_worker_def the_engine_def wp_rules engine_is_def local_evaluation_scored)
  next
    case none: None
    show ?thesis
    proof (cases "baseline_request lm (k_caps k) request c")
      case None
      then show ?thesis using assms(1) e none by (simp add: start_worker_def the_engine_def wp_rules engine_is_def)
    next
      case (Some r)
      then have "sendable k r" using assms(3) by (simp add: evaluable_def)
      note call = wp_begin_call [OF assms(1,2) this]
      show ?thesis
        using e none Some unfolding start_worker_def the_engine_def wp_rules
        by (auto simp: wp_rules engine_is_def evaluate_reply_scored intro!: wp_mono [OF call] split: option.splits)
    qed
  qed
qed

lemma wp_worker_step:
  assumes "winv k (lease_list v @ ls) w" "timely k env" "evaluable k lm request c" "worker_for (k_scoring k) c v" "\<not> finished v"
  shows "wp (worker_step env lm sid request h c v)
    (\<lambda>v' w'. winv k (lease_list v' @ ls) w' \<and> worker_for (k_scoring k) c v' \<and> weight v' < weight v) w"
proof (cases v)
  case Waiting
  then show ?thesis using wp_start_worker [of k ls w lm request c h] assms by (simp add: timely_def)
next
  case (Calling l r)
  then have "engine_is k (w_engine w)" "wp (end_call env l r) (\<lambda>_. winv k ls) w"
    using assms by (auto simp: winv_def timely_def intro!: wp_end_call)
  then show ?thesis
    using Calling by (auto simp: the_engine_def wp_rules engine_is_def evaluate_reply_scored elim!: wp_mono)
next
  case (Evaluated r)
  then have "winv k ls w" using assms(1) by simp
  note ev = wp_appendEvent [OF this assms(2)]
  show ?thesis
    using Evaluated assms(4) by (auto simp: wp_rules intro!: wp_mono [OF ev])
next
  case (Finished r)
  then show ?thesis using assms(5) by simp
qed

lemma leases_update:
  "j < length ws \<Longrightarrow> mset (leases_of (ws[j := v])) + mset (lease_list (ws ! j)) = mset (leases_of ws) + mset (lease_list v)"
proof (induction ws arbitrary: j)
  case (Cons a ws)
  then show ?case by (cases j) (auto simp: leases_of_def union_commute union_lcomm)
qed simp

lemma weight_update:
  "j < length ws \<Longrightarrow> total_weight (ws[j := v]) + weight (ws ! j) = total_weight ws + weight v"
proof (induction ws arbitrary: j)
  case (Cons a ws)
  then show ?case by (cases j) (auto simp: total_weight_def)
qed simp

lemma holders_update:
  "j < length ws \<Longrightarrow> holders (ws[j := v]) = holders ws - (if holding (ws ! j) then 1 else 0) + (if holding v then 1 else 0)"
proof (induction ws arbitrary: j)
  case (Cons a ws)
  show ?case
  proof (cases j)
    case (Suc n)
    then show ?thesis using Cons.IH [of n] Cons.prems by (auto simp: holders_def split: if_splits)
  qed (simp add: holders_def)
qed simp

text \<open>The leases of all workers but one.\<close>

definition other_leases :: "worker list \<Rightarrow> nat \<Rightarrow> budgetLease list" where
  "other_leases ws j = leases_of (ws[j := Waiting])"

lemma other_leases: "j < length ws \<Longrightarrow> mset (leases_of (ws[j := v])) = mset (lease_list v @ other_leases ws j)"
proof -
  assume j: "j < length ws"
  have "mset (leases_of (ws[j := v])) + mset (lease_list (ws ! j)) =
      (mset (lease_list v) + mset (other_leases ws j)) + mset (lease_list (ws ! j))"
    using leases_update [OF j, of v] leases_update [OF j, of Waiting] by (simp add: other_leases_def ac_simps)
  then show ?thesis by simp
qed

definition workers_inv :: "search_ctx \<Rightarrow> RouteCandidate list \<Rightarrow> int \<Rightarrow> worker list \<Rightarrow> world \<Rightarrow> bool" where
  "workers_inv k cs limit ws w \<longleftrightarrow> winv k (leases_of ws) w \<and> length ws = length cs \<and> holders ws \<le> limit
     \<and> (\<forall>j < length cs. worker_for (k_scoring k) (cs ! j) (ws ! j))"

lemma wp_step_at:
  assumes "workers_inv k cs limit ws w" "timely k env" "list_all (evaluable k lm request) cs"
    "j < length cs" "\<not> finished (ws ! j)" "ws ! j = Waiting \<Longrightarrow> holders ws < limit"
  shows "wp (worker_step env lm sid request h (cs ! j) (ws ! j))
    (\<lambda>v w'. workers_inv k cs limit (ws[j := v]) w' \<and> total_weight (ws[j := v]) < total_weight ws) w"
proof -
  have i: "winv k (leases_of ws) w" "length ws = length cs" "holders ws \<le> limit"
    "\<And>j. j < length cs \<Longrightarrow> worker_for (k_scoring k) (cs ! j) (ws ! j)"
    using assms(1) by (auto simp: workers_inv_def)
  have "winv k (lease_list (ws ! j) @ other_leases ws j) w"
    using i(1) winv_perm [OF other_leases [of j ws "ws ! j"]] i(2) assms(4) by simp
  moreover have "evaluable k lm request (cs ! j)" using assms(3,4) by (simp add: list_all_length)
  ultimately show ?thesis
  proof (rule wp_mono [OF wp_worker_step [OF _ assms(2) _ i(4) [OF assms(4)] assms(5)]], goal_cases)
    case (1 v w')
    then have "winv k (leases_of (ws[j := v])) w'"
      using winv_perm [OF other_leases [of j ws v]] i(2) assms(4) by simp
    moreover have "holders (ws[j := v]) \<le> limit"
      using 1 i(2,3) assms(4-6) holders_update [of j ws v] by (cases "ws ! j") auto
    moreover have "total_weight (ws[j := v]) < total_weight ws"
      using 1 weight_update [of j ws v] i(2) assms(4) by linarith
    moreover have "worker_for (k_scoring k) (cs ! m) (ws[j := v] ! m)" if "m < length cs" for m
      using 1 i(4) [OF that] i(2) that by (cases "m = j") simp_all
    ultimately show ?case using i(2) by (simp add: workers_inv_def)
  qed
qed

lemma first_holder: "0 < holders ws \<Longrightarrow> first_holder ws i < length ws \<and> holding (ws ! first_holder ws i)"
proof -
  assume "0 < holders ws"
  then obtain x where "x \<in> set ws" "holding x" by (auto simp: holders_def filter_empty_conv)
  then obtain j where "j < length ws" "holding (ws ! j)" by (auto simp: in_set_conv_nth)
  then show ?thesis
    by (auto simp: first_holder_def find_None_iff split: option.split dest!: find_Some_iff [THEN iffD1])
qed

lemma wp_schedule:
  assumes "workers_inv k cs limit ws w" "timely k env" "list_all (evaluable k lm request) cs"
    "i < length cs" "\<not> finished (ws ! i)" "1 \<le> limit"
  shows "wp (schedule env lm sid request h cs limit i ws) (\<lambda>ws' w'. workers_inv k cs limit ws' w' \<and> total_weight ws' < total_weight ws) w"
proof -
  have len: "length ws = length cs" using assms(1) by (simp add: workers_inv_def)
  define j where "j = (if ws ! i = Waiting \<and> holders ws \<ge> limit then first_holder ws i else i)"
  have j: "j < length cs" "\<not> finished (ws ! j)" "ws ! j = Waiting \<Longrightarrow> holders ws < limit"
  proof -
    have "first_holder ws i < length cs \<and> holding (ws ! first_holder ws i)" if "holders ws \<ge> limit"
      using first_holder [of ws i] that assms(6) len by simp
    moreover have "\<not> finished x \<and> x \<noteq> Waiting" if "holding x" for x using that by (cases x) auto
    ultimately show "j < length cs" "\<not> finished (ws ! j)" "ws ! j = Waiting \<Longrightarrow> holders ws < limit"
      using assms(4,5) by (auto simp: j_def not_le split: if_splits)
  qed
  have go: "wp (worker_step env lm sid request h (cs ! j) (ws ! j) \<bind> (\<lambda>v. ret (ws[j := v])))
      (\<lambda>ws' w'. workers_inv k cs limit ws' w' \<and> total_weight ws' < total_weight ws) w'" if "workers_inv k cs limit ws w'" for w'
    unfolding wp_rules by (rule wp_step_at [OF that assms(2,3) j])
  show ?thesis
  proof (cases "ws ! i = Waiting")
    case True
    have d: "wp (ctx_done env) (\<lambda>_ w'. workers_inv k cs limit ws w') w"
      using wp_ctx_done [of k "leases_of ws" w env] assms(1) by (auto simp: workers_inv_def elim!: wp_mono)
    have "workers_inv k cs limit (ws[i := Finished None]) w' \<and> total_weight (ws[i := Finished None]) < total_weight ws"
      if "workers_inv k cs limit ws w'" for w'
      using that True len assms(4) leases_update [of i ws "Finished None"] weight_update [of i ws "Finished None"]
        holders_update [of i ws "Finished None"] winv_perm [of "leases_of (ws[i := Finished None])" "leases_of ws"]
      by (auto simp: workers_inv_def nth_list_update)
    with go d True show ?thesis
      unfolding schedule_def wp_rules j_def [symmetric] by (auto elim!: wp_mono simp: wp_rules)
  next
    case False
    then show ?thesis using go [OF assms(1)] unfolding schedule_def wp_rules by (simp add: wp_rules j_def)
  qed
qed

lemma weight_zero: "total_weight ws = 0 \<longleftrightarrow> list_all finished ws"
proof -
  have "weight v = 0 \<longleftrightarrow> finished v" for v by (cases v) auto
  then show ?thesis by (induction ws) (auto simp: total_weight_def)
qed

text \<open>With any number of decisions the invariant holds, so in every intermediate state; with as many as the total weight, all finish.\<close>

lemma wp_run_workers:
  assumes "workers_inv k cs limit ws w" "timely k env" "list_all (evaluable k lm request) cs" "1 \<le> limit"
  shows "wp (run_workers fuel env lm sid request h cs limit ws)
    (\<lambda>ws' w'. workers_inv k cs limit ws' w' \<and> (total_weight ws \<le> fuel \<longrightarrow> list_all finished ws')) w"
  using assms(1)
proof (induction fuel arbitrary: ws w)
  case 0
  then show ?case by (simp add: wp_rules weight_zero)
next
  case (Suc fuel)
  define todo where "todo = filter (\<lambda>i. \<not> finished (ws ! i)) [0..<length ws]"
  have len: "length ws = length cs" using Suc.prems(1) by (simp add: workers_inv_def)
  show ?case
  proof (cases "todo = []")
    case True
    then have "list_all finished ws" by (auto simp: todo_def filter_empty_conv list_all_length)
    with True Suc.prems(1) show ?thesis by (simp add: wp_rules todo_def Let_def)
  next
    case False
    have pick: "todo ! (n mod length todo) \<in> set todo" for n using False by simp
    have "wp reading (\<lambda>_ w'. workers_inv k cs limit ws w') w"
      using wp_reading [of k "leases_of ws" w] Suc.prems(1) by (auto simp: workers_inv_def elim!: wp_mono)
    moreover have "wp (schedule env lm sid request h cs limit (todo ! (n mod length todo)) ws)
        (\<lambda>ws'. wp (run_workers fuel env lm sid request h cs limit ws')
          (\<lambda>ws' w'. workers_inv k cs limit ws' w' \<and> (total_weight ws \<le> Suc fuel \<longrightarrow> list_all finished ws'))) w'"
      if "workers_inv k cs limit ws w'" for n w'
      by (rule wp_mono [OF wp_schedule [OF that assms(2,3) _ _ assms(4)]])
        (use pick [of n] len in \<open>auto simp: todo_def intro!: wp_mono [OF Suc.IH]\<close>)
    ultimately show ?thesis
      using False unfolding run_workers.simps Let_def todo_def [symmetric]
      by (auto simp: wp_rules elim!: wp_mono)
  qed
qed

text \<open>All goroutines finish: the results are evaluations of some of the candidates, in their order.\<close>

lemma workers_start: "winv k [] w \<Longrightarrow> 0 \<le> limit \<Longrightarrow> workers_inv k cs limit (replicate (length cs) Waiting) w"
proof -
  have "leases_of (replicate n Waiting) = []" "holders (replicate n Waiting) = 0" for n
    by (simp_all add: leases_of_def holders_def map_replicate_const concat_replicate_trivial)
  then show "winv k [] w \<Longrightarrow> 0 \<le> limit \<Longrightarrow> workers_inv k cs limit (replicate (length cs) Waiting) w"
    by (simp add: workers_inv_def)
qed

lemma compact_Cons [simp]: "compact (v # ws) = (case v of Finished (Some r) \<Rightarrow> r # compact ws | _ \<Rightarrow> compact ws)"
  by (cases v) (auto simp: compact_def List.map_filter_simps split: option.split)

lemma compact_Nil [simp]: "compact [] = []"
  by (simp add: compact_def List.map_filter_simps)

lemma compact_facts:
  assumes "length ws = length cs" "\<forall>j < length cs. worker_for cfg (cs ! j) (ws ! j)"
  shows "length (compact ws) \<le> length cs \<and> list_all (\<lambda>r. \<exists>c \<in> set cs. scored_from cfg c r) (compact ws)
    \<and> subseq (map rc_CandidateID (compact ws)) (map rc_CandidateID cs)"
  using assms
proof (induction ws cs rule: list_induct2)
  case (Cons v ws c cs)
  have "\<forall>j < length cs. worker_for cfg (cs ! j) (ws ! j)" using Cons.prems by (metis length_Cons nth_Cons_Suc Suc_less_eq)
  note IH = Cons.IH [OF this]
  have v: "worker_for cfg c v" using Cons.prems by force
  have "(\<exists>r. v = Finished (Some r)) \<or> compact (v # ws) = compact ws"
    by (auto split: worker.split option.split)
  then consider r where "v = Finished (Some r)" | "compact (v # ws) = compact ws" by blast
  then show ?case
  proof cases
    case 1
    with IH v show ?thesis by (auto simp: list_all_iff scored_from_def same_trip_def)
  next
    case 2
    with IH show ?thesis by (auto simp: list_all_iff simp del: compact_Cons intro: subseq_Cons')
  qed
qed simp

lemma leases_finished: "list_all finished ws \<Longrightarrow> leases_of ws = []"
proof -
  have "finished v \<Longrightarrow> lease_list v = []" for v by (cases v) auto
  then show "list_all finished ws \<Longrightarrow> leases_of ws = []" by (auto simp: leases_of_def list_all_iff)
qed

lemma wp_evaluateAll:
  assumes "winv k [] w" "timely k env" "list_all (evaluable k lm request) cs"
  shows "wp (evaluateAll env lm sid request cs h) (\<lambda>rs w'. winv k [] w' \<and> length rs \<le> length cs
    \<and> list_all (\<lambda>r. \<exists>c \<in> set cs. scored_from (k_scoring k) c r) rs) w"
proof -
  let ?limit = "maxInt 1 (minInt 3 (int (length cs)))"
  have "1 \<le> ?limit" by (simp add: maxInt_def)
  moreover have "total_weight (replicate n Waiting) = 3 * n" for n by (induction n) (simp_all add: total_weight_def)
  ultimately have run: "wp (run_workers (3 * length cs) env lm sid request h cs ?limit (replicate (length cs) Waiting))
      (\<lambda>ws w'. workers_inv k cs ?limit ws w' \<and> list_all finished ws) w"
    using wp_run_workers [OF workers_start [OF assms(1), of ?limit cs] assms(2,3), of "3 * length cs" sid h] by simp
  show ?thesis
    unfolding evaluateAll_def Let_def wp_rules
  proof (rule wp_mono [OF run], goal_cases)
    case (1 ws w')
    then show ?case
      using compact_facts [of ws cs "k_scoring k"] leases_finished [of ws] by (auto simp: workers_inv_def)
  qed
qed

end
