(* ===== verification/Engine_Run.thy ===== *)
theory Engine_Run
  imports Engine_Search
begin

text \<open>
  One whole search: every result of \<open>run\<close> is the ranking of a pool of sanitized provider routes that the
  scoring policy evaluated, whatever the provider, the clock, cancellation and the scheduler do.
\<close>

section \<open>Pools and results\<close>

text \<open>A route of the pool: a sanitized provider route, evaluated by the engine's policy.\<close>

definition pool :: "search_ctx \<Rightarrow> RouteCandidate list \<Rightarrow> bool" where
  "pool k cs \<longleftrightarrow> list_all (\<lambda>r. \<exists>c. route_safe c \<and> scored_from (k_scoring k) c r) cs
     \<and> int (length cs) \<le> max 0 (cf_MaxActiveCandidates (k_cfg k))"

text \<open>The lists that show routes without offering them.\<close>

definition shown :: "search_ctx \<Rightarrow> RouteSearchRequest \<Rightarrow> RouteSearchResult \<Rightarrow> bool" where
  "shown k request r \<longleftrightarrow> (\<exists>q. pool k q \<and> rr_BestEffortRoutes r = Some (rk_BestEffort (Rank q request (k_scoring k))))
     \<and> (\<exists>g. pool k g \<and> rr_GreenTopRoutes r = Some (topGreenRoutes g 3))"

lemma shown_simps [simp]:
  "shown k request (r\<lparr>rr_Status := st\<rparr>) = shown k request r"
  "shown k request (r\<lparr>rr_SelectedRoute := s\<rparr>) = shown k request r"
  "shown k request (r\<lparr>rr_Warnings := ws\<rparr>) = shown k request r"
  "shown k request (r\<lparr>rr_FastestReferenceRoute := f\<rparr>) = shown k request r"
  by (simp_all add: shown_def)

definition result_from :: "search_ctx \<Rightarrow> RouteSearchRequest \<Rightarrow> RouteSearchResult \<Rightarrow> bool" where
  "result_from k request r \<longleftrightarrow> rr_SearchID r = k_sid k \<and> pu_RequestBudget (rr_ProviderUsage r) = rq_MaxProviderRequests request
     \<and> (\<exists>p. pool k p \<and> rr_SelectedRoute r = rk_Selected (Rank p request (k_scoring k))
          \<and> rr_Alternatives r = Some (rk_Eligible (Rank p request (k_scoring k))))
     \<and> shown k request r"

lemma pool_Nil [simp]: "pool k []"
  by (simp add: pool_def)

lemma Deduplicate_sub: "set (fst (Deduplicate lm cs cfg)) \<subseteq> set cs \<and> length (fst (Deduplicate lm cs cfg)) \<le> length cs"
proof -
  define st where "st = foldl (dedupe_step lm cfg) ([], 0) (sort_stable routeLess cs)"
  obtain result dropped where st2: "st = (result, dropped)" by fastforce
  have "dedupe_inv lm cfg (sort_stable routeLess cs) st"
    unfolding st_def by (rule dedupe_fold_inv) (rule route_order.sort_stable_sorted)
  then have "subseq result (sort_stable routeLess cs)" by (simp add: dedupe_inv_def st2)
  then have "set result \<subseteq> set cs" "length result \<le> length cs"
    using set_mset_mono [OF subseq_mset] list_emb_length [of "(=)" result] by (fastforce dest: subseq_set)+
  then show ?thesis by (simp add: Deduplicate_def st_def [symmetric] st2)
qed

lemma sanitize_facts:
  assumes "sanitizeProviderCandidates lm cs limit g = (valid, invalid)"
  shows "list_all route_safe valid \<and> int (length valid) \<le> max 0 limit"
proof (cases "limit \<le> 0")
  case True
  then show ?thesis using assms by (simp add: sanitizeProviderCandidates_def)
next
  case False
  then have "valid = map (mark_generated g) (take (nat limit) (filter (candidate_accepted lm) cs))"
    using assms by (simp add: sanitizeProviderCandidates_def sanitize_loop_eq Let_def)
  with False show ?thesis by (auto simp: list_all_iff dest!: in_set_takeD intro: candidate_accepted_safe)
qed

section \<open>Operations of a search\<close>

text \<open>The requests a search can make, once its routes are safe and its detour plans well-formed.\<close>

definition requests_ok :: "search_ctx \<Rightarrow> libm \<Rightarrow> RouteSearchRequest \<Rightarrow> bool" where
  "requests_ok k lm request \<longleftrightarrow> sendable k (initial_request (k_caps k) request)
     \<and> (\<forall>c. route_safe c \<longrightarrow> evaluable k lm request c)
     \<and> (\<forall>remaining. sendable k (detour_request (k_caps k) request remaining True [] []))
     \<and> (\<forall>remaining p. plan_ok (maxInt 0 (pc_MaxWaypoints (k_caps k) - int (length (rq_Waypoints request)) - 2)) p
          \<and> (dp_zones p = [] \<or> cf_EnableAvoidZones (k_cfg k) \<and> pc_AvoidZones (k_caps k)) \<longrightarrow>
          sendable k (detour_request (k_caps k) request remaining (rq_AvoidTolls request) (dp_anchors p) (dp_zones p)))"

definition search_ok :: "search_ctx \<Rightarrow> environment \<Rightarrow> libm \<Rightarrow> RouteSearchRequest \<Rightarrow> bool" where
  "search_ok k env lm request \<longleftrightarrow> timely k env \<and> requests_ok k lm request"

lemma search_okD:
  assumes "search_ok k env lm request"
  shows "timely k env" "requests_ok k lm request" "in64 (k_limit k)"
    "\<And>cs. list_all route_safe cs \<Longrightarrow> list_all (evaluable k lm request) cs"
  using assms by (auto simp: search_ok_def requests_ok_def timely_def list_all_iff)

lemma wp_budget_get: "wp (on_budget (\<lambda>b. (f b, b))) Q w = Q (f (w_budget w)) w"
  by (simp add: on_budget_def wp_rules)

lemma wp_budget_read: "winv k ls w \<Longrightarrow> wp (on_budget (\<lambda>b. (f b, b))) (\<lambda>_. winv k ls) w"
  by (simp add: wp_budget_get)

text \<open>New routes join the pool within its capacity.\<close>

lemma pool_join:
  assumes "pool k cs" "list_all route_safe new" "list_all (\<lambda>r. \<exists>c \<in> set new. scored_from (k_scoring k) c r) rs"
    "length rs \<le> length new" "int (length cs) + int (length new) \<le> max 0 (cf_MaxActiveCandidates (k_cfg k))"
  shows "pool k (fst (Deduplicate lm (cs @ rs) cfg))"
proof -
  have "list_all (\<lambda>r. \<exists>c. route_safe c \<and> scored_from (k_scoring k) c r) (cs @ rs)"
    using assms(1-3) unfolding pool_def list_all_iff by fastforce
  moreover note d = Deduplicate_sub [of lm "cs @ rs" cfg]
  moreover have "int (length (fst (Deduplicate lm (cs @ rs) cfg))) \<le> max 0 (cf_MaxActiveCandidates (k_cfg k))"
    using d assms(4,5) by simp
  ultimately show ?thesis by (auto simp: pool_def list_all_iff)
qed

lemma incoming_facts:
  assumes "incoming_routes lm cfg cs base g response = (incoming, invalid, joined)" "int (length cs) \<le> max 0 (cf_MaxActiveCandidates cfg)"
  shows "list_all route_safe joined \<and> int (length cs) + int (length joined) \<le> max 0 (cf_MaxActiveCandidates cfg)"
proof -
  obtain v n where s: "sanitizeProviderCandidates lm (ps_Candidates response) (maxInt 0 (cf_MaxActiveCandidates cfg - int (length cs))) g = (v, n)"
    by fastforce
  then have j: "joined = filter (\<lambda>c. connectsSameTrip lm c base detourEndpointToleranceMeters) v"
    using assms(1) by (auto simp: incoming_routes_def)
  have "list_all route_safe joined" using sanitize_facts [OF s] j by (auto simp: list_all_iff)
  moreover have "length joined \<le> length v" by (simp add: j)
  then have "int (length cs) + int (length joined) \<le> max 0 (cf_MaxActiveCandidates cfg)"
    using sanitize_facts [OF s] assms(2) by (auto simp: maxInt_def max_def split: if_splits)
  ultimately show ?thesis by simp
qed


lemma wp_toll_free_probe:
  assumes "winv k [] w" "search_ok k env lm request" "result_from k request result" "pool k cs"
  shows "wp (toll_free_probe env lm request base result cs)
    (\<lambda>p w'. winv k [] w' \<and> result_from k request (fst p) \<and> pool k (snd p)) w"
proof -
  note ok = search_okD [OF assms(2)]
  have ask: "sendable k (detour_request (k_caps k) request remaining True [] [])" for remaining
    using ok(2) by (simp add: requests_ok_def)
  have join: "wp (evaluateAll env lm sid request joined True) (\<lambda>rs w'. winv k [] w' \<and>
      (let cs = fst (Deduplicate lm (cs @ rs) DefaultDedupeConfig) in
       result_from k request (result\<lparr>rr_GreenTopRoutes := Some (topGreenRoutes cs greenTopRouteCount)\<rparr>) \<and> pool k cs)) w'"
    if "winv k [] w'" "incoming_routes lm (k_cfg k) cs base g response = (incoming, invalid, joined)" for w' g response incoming invalid joined sid
  proof -
    have j: "list_all route_safe joined" "int (length cs) + int (length joined) \<le> max 0 (cf_MaxActiveCandidates (k_cfg k))"
      using incoming_facts [OF that(2)] assms(4) by (simp_all add: pool_def)
    show ?thesis
      by (rule wp_mono [OF wp_evaluateAll [OF that(1) ok(1) ok(4) [OF j(1)]]])
        (use assms(3) pool_join [OF assms(4) j(1) _ _ j(2)] in \<open>auto simp: result_from_def shown_def Let_def greenTopRouteCount_def\<close>)
  qed
  show ?thesis
    unfolding toll_free_probe_def wp_rules
    apply (rule wp_mono [OF wp_the_engine [OF assms(1)]], elim conjE)
    apply (simp add: wp_rules engine_is_def assms(3,4), intro impI)
    apply (rule wp_mono [OF wp_budget_read], assumption)
    apply (simp split: prod.split, intro allI impI conjI)
     apply (rule wp_mono [OF wp_ctx_done], assumption)
     apply (simp add: wp_rules assms(3,4), intro impI)
     apply (rule wp_mono [OF wp_appendEvent [OF _ ok(1)]], assumption)
     apply (rule wp_mono [OF wp_routeWithBudget [OF _ ok(3) ask]], assumption)
     apply (auto simp: wp_rules Let_def assms(3,4) split: sum.split prod.split intro!: wp_mono [OF join])[1]
    done
qed

lemma wp_rerank:
  assumes "winv k [] w" "timely k env" "result_from k request (eh_result v)" "pool k cs"
  shows "wp (rerank env request cs v) (\<lambda>v' w'. winv k [] w' \<and> result_from k request (eh_result v') \<and> pool k (eh_candidates v')) w"
proof -
  have e: "engine_is k (w_engine w)" using assms(1) by (simp add: winv_def)
  define result where "result = (eh_result v)\<lparr>rr_FastestReferenceRoute := cloneCandidate (Some (fastestRoute cs)),
    rr_BestEffortRoutes := Some (cloneCandidates (rk_BestEffort (Rank cs request (k_scoring k)))),
    rr_GreenTopRoutes := Some (topGreenRoutes cs greenTopRouteCount)\<rparr>"
  have "result_from k request result"
    using assms(3,4) by (auto simp: result_from_def shown_def result_def greenTopRouteCount_def)
  moreover have "result_from k request (result\<lparr>rr_SelectedRoute := Some s, rr_Alternatives := Some (rk_Eligible (Rank cs request (k_scoring k)))\<rparr>)"
    if "rk_Selected (Rank cs request (k_scoring k)) = Some s" for s
    using that calculation assms(4) unfolding result_from_def shown_def by auto
  moreover note ev = wp_appendEvent [OF assms(1,2)]
  ultimately show ?thesis
    using e assms(1,4) unfolding rerank_def the_engine_def wp_rules
    by (auto simp: wp_rules engine_is_def Let_def result_def intro!: wp_mono [OF ev] split: option.split)
qed

lemma result_from_warning [simp]: "result_from k request (add_warning code r) = result_from k request r"
  by (simp add: result_from_def add_warning_def)

definition enhancement_inv :: "search_ctx \<Rightarrow> RouteSearchRequest \<Rightarrow> enhancement \<Rightarrow> world \<Rightarrow> bool" where
  "enhancement_inv k request v w \<longleftrightarrow> winv k [] w \<and> result_from k request (eh_result v) \<and> pool k (eh_candidates v)"

lemma wp_probe_plan:
  assumes "enhancement_inv k request v w" "search_ok k env lm request"
    "\<And>remaining. sendable k (detour_request (k_caps k) request remaining (rq_AvoidTolls request) (dp_anchors plan) (dp_zones plan))"
  shows "wp (probe_plan env lm request base remaining n plan v) (\<lambda>p. enhancement_inv k request (snd p)) w"
proof -
  note ok = search_okD [OF assms(2)]
  have i: "winv k [] w" "result_from k request (eh_result v)" "pool k (eh_candidates v)"
    using assms(1) by (auto simp: enhancement_inv_def)
  have join: "wp (evaluateAll env lm sid request joined h) (\<lambda>rs.
        wp (rerank env request (fst (Deduplicate lm (eh_candidates v @ rs) DefaultDedupeConfig)) v') (enhancement_inv k request)) w'"
    if "winv k [] w'" "incoming_routes lm (k_cfg k) (eh_candidates v) base g response = (incoming, invalid, joined)"
      "result_from k request (eh_result v')" for w' g response incoming invalid joined sid v' h
  proof -
    have j: "list_all route_safe joined" "int (length (eh_candidates v)) + int (length joined) \<le> max 0 (cf_MaxActiveCandidates (k_cfg k))"
      using incoming_facts [OF that(2)] i(3) by (simp_all add: pool_def)
    show ?thesis
      by (rule wp_mono [OF wp_evaluateAll [OF that(1) ok(1) ok(4) [OF j(1)]]])
        (auto simp: enhancement_inv_def intro!: wp_mono [OF wp_rerank [OF _ ok(1) that(3) pool_join [OF i(3) j(1) _ _ j(2)]]])
  qed
  show ?thesis
    unfolding probe_plan_def wp_rules
    apply (rule wp_mono [OF wp_the_engine [OF i(1)]], elim conjE)
    apply (simp add: wp_rules engine_is_def Let_def)
    apply (rule wp_mono [OF wp_appendEvent [OF _ ok(1)]], assumption)
    apply (rule wp_mono [OF wp_routeWithBudget [OF _ ok(3) assms(3)]], assumption)
    apply (auto simp: wp_rules Let_def i split: sum.split prod.split intro!: join)
        apply (auto simp: enhancement_inv_def i)
    done
qed

lemma wp_enhance_loop:
  assumes "enhancement_inv k request v w" "search_ok k env lm request"
    "zonesAllowed = (cf_EnableAvoidZones (k_cfg k) \<and> pc_AvoidZones (k_caps k))"
    "anchorCapacity = maxInt 0 (pc_MaxWaypoints (k_caps k) - int (length (rq_Waypoints request)) - 2)"
  shows "wp (enhance_loop n env lm request base zonesAllowed anchorCapacity v) (enhancement_inv k request) w"
  using assms(1)
proof (induction n arbitrary: v w)
  case (Suc n)
  note ok = search_okD [OF assms(2)]
  have i: "winv k [] w" "result_from k request (eh_result v)" "pool k (eh_candidates v)"
    using Suc.prems by (auto simp: enhancement_inv_def)
  have plan: "sendable k (detour_request (k_caps k) request remaining (rq_AvoidTolls request) (dp_anchors p) (dp_zones p))"
    if "nextUntriedPlan (greenDetourPlans lm cl request zonesAllowed an anchorCapacity) tried = Some p" for p cl an tried remaining
  proof -
    have "p \<in> set (greenDetourPlans lm cl request zonesAllowed an anchorCapacity)"
      using nextUntriedPlan_spec [of tried "greenDetourPlans lm cl request zonesAllowed an anchorCapacity"] that by simp
    then have "plan_ok anchorCapacity p" "dp_zones p = [] \<or> zonesAllowed"
      using detour_plans_ok [of anchorCapacity lm cl request zonesAllowed an] detour_plans_zones [of p lm cl request an anchorCapacity]
      by (auto simp: list_all_iff)
    then show ?thesis using ok(2) assms(3,4) by (auto simp: requests_ok_def)
  qed
  have keep: "enhancement_inv k request v w'" if "winv k [] w'" for w' using that i by (simp add: enhancement_inv_def)
  have next_probe: "wp (probe_plan env lm request base remaining m p v)
      (\<lambda>(go_on, v). if go_on then wp (enhance_loop n env lm request base zonesAllowed anchorCapacity v) (enhancement_inv k request)
        else enhancement_inv k request v) w'"
    if "winv k [] w'" "nextUntriedPlan (greenDetourPlans lm cl request zonesAllowed an anchorCapacity) tried = Some p" for p cl an tried remaining m w'
  proof -
    from wp_probe_plan [OF keep [OF that(1)] assms(2) plan [OF that(2)]] show ?thesis
      by (rule wp_mono) (auto intro: Suc.IH)
  qed
  show ?case
    unfolding enhance_loop.simps wp_rules
    apply (rule wp_mono [OF wp_the_engine [OF i(1)]], elim conjE)
    apply (rule wp_mono [OF wp_budget_read], assumption)
    apply (simp add: wp_rules split: prod.split, intro allI impI conjI)
      apply (simp_all only: keep)
    apply (rule wp_mono [OF wp_ctx_done], assumption)
    apply (auto simp: wp_rules Let_def keep split: option.split intro!: wp_mono [OF next_probe])
    done
qed (simp add: wp_rules)

lemma wp_enhance:
  assumes "winv k [] w" "search_ok k env lm request" "result_from k request result" "pool k cs"
  shows "wp (enhance env lm request result cs) (\<lambda>r w'. winv k [] w' \<and> result_from k request r) w"
proof -
  note ok = search_okD [OF assms(2)]
  have last: "result_from k request ((eh_result v)\<lparr>rr_GreenTopRoutes := Some (topGreenRoutes (eh_candidates v) greenTopRouteCount)\<rparr>)"
    if "enhancement_inv k request v w'" for v w'
    using that by (auto simp: enhancement_inv_def result_from_def shown_def greenTopRouteCount_def)
  have go: "wp (toll_free_probe env lm request base result cs) (\<lambda>(result, candidates).
      wp (enhance_loop n env lm request base (cf_EnableAvoidZones (k_cfg k) \<and> pc_AvoidZones (k_caps k))
          (maxInt 0 (pc_MaxWaypoints (k_caps k) - int (length (rq_Waypoints request)) - 2))
          \<lparr> eh_result = result, eh_candidates = candidates, eh_best = best, eh_tried = [], eh_probes = 0, eh_errors = 0 \<rparr>)
        (\<lambda>v w'. winv k [] w' \<and> result_from k request ((eh_result v)\<lparr>rr_GreenTopRoutes := Some (topGreenRoutes (eh_candidates v) greenTopRouteCount)\<rparr>))) w'"
    if "winv k [] w'" for w' base n best
    by (rule wp_mono [OF wp_toll_free_probe [OF that assms(2-4)]], clarsimp)
      (rule wp_mono [OF wp_enhance_loop [OF _ assms(2) refl refl]];
        use last in \<open>auto simp: enhancement_inv_def\<close>)
  show ?thesis
    unfolding enhance_def wp_rules
    apply (rule wp_mono [OF wp_the_engine [OF assms(1)]], elim conjE)
    apply (auto simp: wp_rules engine_is_def Let_def assms(3) intro!: wp_mono [OF go] split: option.split)
    done
qed

section \<open>The end of a search\<close>

text \<open>What the store holds when a timely search has ended.\<close>

definition settled :: "search_ctx \<Rightarrow> RouteSearchResult \<Rightarrow> world \<Rightarrow> bool" where
  "settled k final w \<longleftrightarrow> (\<exists>r. en_store (w_engine w) (k_sid k) = Some r \<and> mr_result r = cloneResult final
     \<and> mr_events r \<noteq> [] \<and> k_deadline k \<le> mr_expiresAt r)"

text \<open>The invariant after the last store operation: everything but the pending record.\<close>

definition closed :: "search_ctx \<Rightarrow> search_ctx" where
  "closed k = k\<lparr>k_timely := False\<rparr>"

lemma finalize_pending:
  assumes "pending sid d m" "now \<le> d" "d \<le> now' + ttl" "rr_SearchID result = sid"
  shows "\<exists>r. Memory_Finalize now now' result event ttl m = (None, m(sid \<mapsto> r)) \<and> mr_result r = cloneResult result
    \<and> d \<le> mr_expiresAt r \<and> mr_events r \<noteq> []"
proof -
  obtain r where "live now sid m = Some r" "\<not> terminalStatus (rr_Status (mr_result r))"
    using pending_live [OF assms(1,2)] by blast
  with assms(3,4) show ?thesis by (auto simp: Memory_Finalize_def push_event_def Let_def)
qed

lemma engine_is_closed: "engine_is (closed k) e = engine_is k e"
  by (simp add: engine_is_def closed_def)

lemma winv_closed: "winv k ls w \<Longrightarrow> winv (closed k) ls w"
  by (simp add: winv_def engine_is_closed) (simp add: closed_def)

lemma winv_closed_store: "winv (closed k) ls w \<Longrightarrow> winv (closed k) ls (w\<lparr>w_engine := (w_engine w)\<lparr>en_store := m\<rparr>\<rparr>)"
  by (simp add: winv_def engine_is_closed) (simp add: closed_def)

lemma wp_finalize_loop:
  assumes "winv k [] w" "timely k env" "rr_SearchID result = k_sid k"
  shows "wp (finalize_loop (Suc n) env result event) (\<lambda>_ w'. winv (closed k) [] w' \<and> (k_timely k \<longrightarrow> settled k result w')) w"
proof -
  have untimely: "wp (finalize_loop m env result event) (\<lambda>_ w'. winv (closed k) [] w') w'" if "winv (closed k) [] w'" for m w'
    using that
  proof (induction m arbitrary: w')
    case (Suc m)
    have t: "timely (closed k) env" using assms(2) by (simp add: timely_def closed_def)
    show ?case
      unfolding finalize_loop.simps wp_rules
      apply (rule wp_mono [OF wp_clock [OF Suc.prems t]], elim conjE)
      apply (rule wp_mono [OF wp_clock [OF _ t]], assumption, elim conjE)
      apply (rule wp_mono [OF wp_the_engine], assumption, elim conjE)
      apply (auto simp: on_store_def wp_rules winv_closed_store split: prod.split intro!: wp_mono [OF wp_ctx_done] Suc.IH)
      done
  qed (simp add: wp_rules)
  have store: "wp (on_store (Memory_Finalize now now' result event ttl))
      (\<lambda>err w'. winv (closed k) [] w' \<and> (k_timely k \<longrightarrow> err = None \<and> settled k result w')) w'"
    if "winv k [] w'" "k_timely k \<longrightarrow> now \<le> k_deadline k" "k_timely k \<longrightarrow> k_deadline k \<le> now' + ttl" for w' now now' ttl
  proof (cases "k_timely k")
    case True
    then have "pending (k_sid k) (k_deadline k) (en_store (w_engine w'))" using that(1) by (simp add: winv_def)
    from finalize_pending [OF this _ _ assms(3)] that(2,3) True obtain r where
      "Memory_Finalize now now' result event ttl (en_store (w_engine w')) = (None, (en_store (w_engine w'))(k_sid k \<mapsto> r))"
      "mr_result r = cloneResult result" "k_deadline k \<le> mr_expiresAt r" "mr_events r \<noteq> []" by blast
    then show ?thesis using winv_closed [OF that(1)] by (simp add: on_store_def wp_rules settled_def winv_closed_store)
  qed (use that(1) in \<open>auto simp: on_store_def wp_rules winv_closed winv_closed_store split: prod.split\<close>)
  show ?thesis
    unfolding finalize_loop.simps wp_rules
    apply (rule wp_mono [OF wp_clock [OF assms(1,2)]], elim conjE)
    apply (rule wp_mono [OF wp_clock [OF _ assms(2)]], assumption, elim conjE)
    apply (rule wp_mono [OF wp_the_engine], assumption, elim conjE)
    apply (rule wp_mono [OF store], assumption, simp, simp add: engine_is_def)
    apply (auto intro!: wp_mono [OF wp_ctx_done] untimely)
    done
qed

text \<open>What \<open>finish\<close> adds to a result: the usage, which is within the budget, the time stamps and distinct warnings.\<close>

definition finished_from :: "search_ctx \<Rightarrow> RouteSearchResult \<Rightarrow> RouteSearchResult \<Rightarrow> bool" where
  "finished_from k result final \<longleftrightarrow>
     final = result\<lparr>rr_ProviderUsage := rr_ProviderUsage final, rr_GeneratedAt := rr_GeneratedAt final,
       rr_ExpiresAt := rr_ExpiresAt final, rr_Warnings := rr_Warnings final\<rparr>
     \<and> pu_RequestBudget (rr_ProviderUsage final) = pu_RequestBudget (rr_ProviderUsage result)
     \<and> 0 \<le> pu_RequestsUsed (rr_ProviderUsage final) \<and> pu_RequestsUsed (rr_ProviderUsage final) \<le> k_limit k
     \<and> (pu_BudgetExhausted (rr_ProviderUsage final) \<longleftrightarrow> pu_RequestsUsed (rr_ProviderUsage final) = k_limit k)
     \<and> distinct (rr_Warnings final) \<and> '''' \<notin> set (rr_Warnings final)
     \<and> set (rr_Warnings result) - {''''} \<subseteq> set (rr_Warnings final)"

lemma finished_fields:
  assumes "finished_from k result final"
  shows "rr_SearchID final = rr_SearchID result" "rr_Status final = rr_Status result" "rr_SelectedRoute final = rr_SelectedRoute result"
    "rr_Alternatives final = rr_Alternatives result" "rr_BestEffortRoutes final = rr_BestEffortRoutes result"
    "rr_GreenTopRoutes final = rr_GreenTopRoutes result" "shown k request final = shown k request result"
  unfolding shown_def using assms by (cases final; cases result; simp add: finished_from_def)+

lemma uniqueStrings_facts: "distinct (uniqueStrings xs) \<and> set (uniqueStrings xs) = set xs - {''''}"
  by (auto simp: uniqueStrings_def distinct_unique_from set_unique_from)

definition done_with :: "search_ctx \<Rightarrow> RouteSearchResult \<Rightarrow> RouteSearchResult \<Rightarrow> world \<Rightarrow> bool" where
  "done_with k result final w \<longleftrightarrow> winv (closed k) [] w \<and> finished_from k result final
     \<and> pu_RequestsUsed (rr_ProviderUsage final) = rb_used (w_budget w) \<and> (k_timely k \<longrightarrow> settled k final w)"

lemma finalize_loop_budget: "wp (finalize_loop n env r ev) (\<lambda>_ w'. w_budget w' = w_budget w) w"
proof (induction n arbitrary: w)
  case (Suc n)
  have later: "wp (finalize_loop n env r ev) (\<lambda>_ w'. w_budget w' = b) w'" if "w_budget w' = b" for w' b
    using Suc.IH [of w'] that by simp
  show ?case
    by (auto simp: clock_def ctx_done_def reading_def the_engine_def on_store_def wp_rules intro!: later split: prod.split)
qed (simp add: wp_rules)

lemma finish_usage: "wp (finish env result ty) (\<lambda>final w'. pu_RequestsUsed (rr_ProviderUsage final) = rb_used (w_budget w')) w"
proof -
  show ?thesis
    unfolding finish_def finalize_def
    by (auto simp: clock_def reading_def the_engine_def on_budget_def on_stats_def on_engine_def wp_rules snapshot_def Let_def
        simp del: finalize_loop.simps intro!: wp_mono [OF finalize_loop_budget])
qed

lemma wp_finish:
  assumes "winv k [] w" "timely k env" "rr_SearchID result = k_sid k"
  shows "wp (finish env result ty) (done_with k result) w"
proof (rule wp_mono [OF wp_conj [OF finish_usage]])
  let ?done = "\<lambda>final w'. winv (closed k) [] w' \<and> finished_from k result final \<and> (k_timely k \<longrightarrow> settled k final w')"
  have b: "budget_inv (k_limit k) (w_budget w, [])" using assms(1) by (simp add: winv_def)
  have s: "0 \<le> rb_used (w_budget w)" "rb_used (w_budget w) \<le> k_limit k" using b by (auto simp: budget_inv_def)
  moreover have "rb_reserved (w_budget w) = 0" "rb_limit (w_budget w) = k_limit k" using b by (auto simp: budget_inv_def)
  moreover from calculation have "add64 (rb_used (w_budget w)) 0 = rb_used (w_budget w)"
    using assms(2) by (simp add: timely_def add64_id in64_def)
  ultimately have snap: "snapshot (w_budget w) = (rb_used (w_budget w), sub64 (sub64 (k_limit k) (rb_used (w_budget w))) 0, rb_used (w_budget w) = k_limit k)"
    by (auto simp: snapshot_def)
  have stat: "wp (if x then on_stats f else ret ()) (\<lambda>_. winv k []) w'" if "winv k [] w'" for w' x f
    using that wp_on_stats [of k "[]" w' f] by (simp add: wp_rules)
  have fin: "wp (finalize env r ty msg) (\<lambda>_. ?done r) w'"
    if "winv k [] w'" "finished_from k result r" for w' r msg
  proof -
    have "rr_SearchID r = k_sid k" using finished_fields [OF that(2)] assms(3) by simp
    then show ?thesis
      unfolding finalize_def wp_rules
      by (rule_tac wp_mono [OF wp_clock [OF that(1) assms(2)]], elim conjE)
        (auto simp: numeral_3_eq_3 that(2) simp del: finalize_loop.simps intro!: wp_mono [OF wp_finalize_loop [OF _ assms(2)]])
  qed
  show "wp (finish env result ty) ?done w"
    apply (simp only: finish_def wp_bind wp_budget_get wp_ret Let_def snap prod.case)
    apply (rule wp_mono [OF wp_clock [OF assms(1,2)]], elim conjE)
    apply (simp only: wp_bind)
    apply (rule wp_mono [OF wp_the_engine], assumption, elim conjE)
    apply (simp only: wp_bind wp_ret)
    apply (rule wp_mono [OF stat], assumption)
    apply (simp only: wp_bind wp_ret)
    apply (rule wp_mono [OF fin], assumption)
     apply (use s in \<open>auto simp: finished_from_def uniqueStrings_facts appendUniqueString_def\<close>)[1]
    apply (subst wp_ret, assumption)
    done
qed (simp add: done_with_def)

section \<open>The whole search\<close>

text \<open>A result that can be reported: completed with a selected route or degraded without one, over ranked pools.
  The selected route is the ranking's choice, perhaps with one more reason code.\<close>

definition selection_codes :: "RouteCandidate \<Rightarrow> string list set" where
  "selection_codes s = {rc_ReasonCodes s, appendUniqueString (rc_ReasonCodes s) ''NO_GREEN_ROUTE_AVAILABLE''}"

definition concluded :: "search_ctx \<Rightarrow> RouteSearchRequest \<Rightarrow> RouteSearchResult \<Rightarrow> bool" where
  "concluded k request r \<longleftrightarrow> rr_SearchID r = k_sid k \<and> pu_RequestBudget (rr_ProviderUsage r) = rq_MaxProviderRequests request
     \<and> rr_Status r = (if rr_SelectedRoute r = None then SearchDegraded else SearchCompleted)
     \<and> (\<exists>p. pool k p \<and> rr_Alternatives r = Some (rk_Eligible (Rank p request (k_scoring k)))
          \<and> (case rk_Selected (Rank p request (k_scoring k)) of None \<Rightarrow> rr_SelectedRoute r = None
             | Some s \<Rightarrow> \<exists>codes \<in> selection_codes s. rr_SelectedRoute r = Some (s\<lparr>rc_ReasonCodes := codes\<rparr>)))
     \<and> shown k request r"

definition outcome :: "search_ctx \<Rightarrow> RouteSearchRequest \<Rightarrow> RouteSearchResult \<Rightarrow> world \<Rightarrow> bool" where
  "outcome k request final w \<longleftrightarrow> concluded k request final \<and> (\<exists>result. done_with k result final w)"

lemma outcomeI:
  assumes "concluded k request result" "done_with k result final w"
  shows "outcome k request final w"
proof -
  have f: "finished_from k result final" using assms(2) by (simp add: done_with_def)
  have "pu_RequestBudget (rr_ProviderUsage final) = pu_RequestBudget (rr_ProviderUsage result)"
    using f by (simp add: finished_from_def)
  with assms(1) have "concluded k request final" unfolding concluded_def finished_fields [OF f] by simp
  with assms(2) show ?thesis by (auto simp: outcome_def)
qed

lemma wp_finish_outcome:
  assumes "winv k [] w" "timely k env" "concluded k request result"
  shows "wp (finish env result ty) (outcome k request) w"
  by (rule wp_mono [OF wp_finish [OF assms(1,2)]]) (use assms(3) outcomeI in \<open>auto simp: concluded_def\<close>)

lemma wp_count_degraded: "winv k ls w \<Longrightarrow> wp count_degraded (\<lambda>_. winv k ls) w"
  unfolding count_degraded_def by (rule wp_on_stats)

lemma result_from_simps [simp]:
  "result_from k request (warn code r) = result_from k request r"
  "result_from k request (r\<lparr>rr_Status := st\<rparr>) = result_from k request r"
  "result_from k request (r\<lparr>rr_FastestReferenceRoute := f\<rparr>) = result_from k request r"
  "result_from k request (r\<lparr>rr_Warnings := ws\<rparr>) = result_from k request r"
  by (simp_all add: result_from_def warn_def)

lemma concluded_from:
  assumes "result_from k request r"
  shows "rr_SelectedRoute r = None \<Longrightarrow> concluded k request (r\<lparr>rr_Status := SearchDegraded\<rparr>)"
    "rr_SelectedRoute r = Some s \<Longrightarrow> concluded k request (r\<lparr>rr_Status := SearchCompleted\<rparr>)"
    "rr_SelectedRoute r = Some s \<Longrightarrow> codes \<in> selection_codes s \<Longrightarrow>
      concluded k request (r\<lparr>rr_Status := SearchCompleted, rr_SelectedRoute := Some (s\<lparr>rc_ReasonCodes := codes\<rparr>)\<rparr>)"
proof -
  obtain p where p: "pool k p" "rr_SelectedRoute r = rk_Selected (Rank p request (k_scoring k))"
    "rr_Alternatives r = Some (rk_Eligible (Rank p request (k_scoring k)))" using assms by (auto simp: result_from_def)
  have r: "rr_SearchID r = k_sid k" "pu_RequestBudget (rr_ProviderUsage r) = rq_MaxProviderRequests request" "shown k request r"
    using assms by (auto simp: result_from_def)
  have id: "\<exists>codes \<in> selection_codes s. s = s\<lparr>rc_ReasonCodes := codes\<rparr>" by (rule bexI [of _ "rc_ReasonCodes s"]) (simp_all add: selection_codes_def)
  show "rr_SelectedRoute r = None \<Longrightarrow> concluded k request (r\<lparr>rr_Status := SearchDegraded\<rparr>)"
    "rr_SelectedRoute r = Some s \<Longrightarrow> concluded k request (r\<lparr>rr_Status := SearchCompleted\<rparr>)"
    "rr_SelectedRoute r = Some s \<Longrightarrow> codes \<in> selection_codes s \<Longrightarrow>
      concluded k request (r\<lparr>rr_Status := SearchCompleted, rr_SelectedRoute := Some (s\<lparr>rc_ReasonCodes := codes\<rparr>)\<rparr>)"
    using id by (auto simp: concluded_def r p(1,3) p(2) [symmetric] intro!: exI [of _ p])
qed

lemma concluded_warn [simp]: "concluded k request (warn code r) = concluded k request r"
  by (simp add: concluded_def warn_def cong: option.case_cong)

lemma wp_degrade:
  assumes "winv k [] w" "timely k env" "result_from k request result" "rr_SelectedRoute result = None"
  shows "wp (degrade env result code) (outcome k request) w"
  unfolding degrade_def by (rule wp_finish_outcome [OF assms(1,2)]) (simp add: concluded_from(1) [OF assms(3,4)])

lemma wp_conclude:
  assumes "winv k [] w" "timely k env" "result_from k request result"
  shows "wp (conclude env request result) (outcome k request) w"
proof (cases "rr_SelectedRoute result")
  case None
  then show ?thesis
    unfolding conclude_def
    by (auto simp: wp_rules Let_def concluded_from(1) [OF assms(3)] intro!: wp_mono [OF wp_count_degraded [OF assms(1)]] wp_finish_outcome assms(2))
next
  case (Some s)
  have stat: "wp (if x then on_stats f else ret ()) (\<lambda>_. winv k []) w" for x f
    using assms(1) wp_on_stats [of k "[]" w f] by (simp add: wp_rules)
  show ?thesis
    unfolding conclude_def Some option.case wp_rules(1-2) Let_def
    by (rule wp_mono [OF stat])
      (auto simp: selection_codes_def intro!: wp_finish_outcome assms(2) concluded_from(2,3) [OF assms(3) Some])
qed

lemma pool_initial:
  assumes "list_all route_safe valid" "int (length valid) \<le> max 0 (cf_MaxActiveCandidates (k_cfg k))"
    "length rs \<le> length valid" "list_all (\<lambda>r. \<exists>c \<in> set valid. scored_from (k_scoring k) c r) rs"
  shows "pool k rs"
  using assms unfolding pool_def list_all_iff by fastforce

lemma wp_rank_and_conclude:
  assumes "winv k [] w" "search_ok k env lm request" "result_from k request result" "pool k rs"
  shows "wp (rank_and_conclude env lm request result rs) (outcome k request) w"
proof -
  note ok = search_okD [OF assms(2)]
  define ranked where "ranked = Rank rs request (k_scoring k)"
  define result' where "result' = result\<lparr>rr_FastestReferenceRoute := cloneCandidate (Some (fastestRoute rs)),
       rr_Alternatives := Some (rk_Eligible ranked), rr_BestEffortRoutes := Some (cloneCandidates (rk_BestEffort ranked)),
       rr_GreenTopRoutes := Some (topGreenRoutes rs greenTopRouteCount),
       rr_SelectedRoute := cloneCandidate (rk_Selected ranked)\<rparr>"
  have r: "result_from k request result'"
    using assms(3,4) by (auto simp: result_from_def shown_def result'_def ranked_def greenTopRouteCount_def)
  have tail: "wp (if x then appendEvent env sid ty msg None None [] \<bind> (\<lambda>_. enhance env lm request r rs) else ret r)
      (\<lambda>r. wp (conclude env request r) (outcome k request)) w'" if "winv k [] w'" "result_from k request r" for x sid ty msg r w'
    using that assms(4)
    by (auto simp: wp_rules intro!: wp_mono [OF wp_appendEvent [OF _ ok(1)]] wp_mono [OF wp_enhance [OF _ assms(2)]] wp_conclude ok(1))
  show ?thesis
    unfolding rank_and_conclude_def wp_bind
    apply (rule wp_mono [OF wp_the_engine [OF assms(1)]], elim conjE)
    apply (simp only: wp_bind Let_def engine_is_def)
    apply (rule tail, assumption)
    apply (use r in \<open>simp add: result'_def ranked_def\<close>)
    done
qed

lemma wp_use_initial:
  assumes "winv k [] w" "search_ok k env lm request" "result_from k request result" "rr_SelectedRoute result = None"
  shows "wp (use_initial env lm request result response) (outcome k request) w"
proof -
  note ok = search_okD [OF assms(2)]
  obtain v n where san: "sanitizeProviderCandidates lm (ps_Candidates response) (cf_MaxActiveCandidates (k_cfg k)) ''PROVIDER_ALTERNATIVE'' = (v, n)"
    by fastforce
  obtain valid dropped where ded: "Deduplicate lm v DefaultDedupeConfig = (valid, dropped)" by fastforce
  have v: "list_all route_safe valid" "int (length valid) \<le> max 0 (cf_MaxActiveCandidates (k_cfg k))"
    using sanitize_facts [OF san] Deduplicate_sub [of lm v DefaultDedupeConfig] ded by (auto simp: list_all_iff)
  define result' where "result' = (if n > 0 then add_warning ''INVALID_PROVIDER_CANDIDATES_REJECTED'' (result\<lparr>rr_Warnings := rr_Warnings result @ providerWarningCodes response\<rparr>)
     else result\<lparr>rr_Warnings := rr_Warnings result @ providerWarningCodes response\<rparr>)"
  have r: "result_from k request result'" "rr_SelectedRoute result' = None"
    using assms(3,4) by (auto simp: result'_def add_warning_def result_from_def)
  have go: "wp (evaluateAll env lm sid request valid h \<bind> (\<lambda>rs. if rs = [] then degrade env (result'\<lparr>rr_FastestReferenceRoute := f\<rparr>) code
        else rank_and_conclude env lm request (result'\<lparr>rr_FastestReferenceRoute := f\<rparr>) rs)) (outcome k request) w'"
    if "winv k [] w'" for w' sid h f code
    unfolding wp_bind
    by (rule wp_mono [OF wp_evaluateAll [OF that ok(1) ok(4) [OF v(1)]]])
      (use r in \<open>auto intro!: wp_degrade ok(1) wp_rank_and_conclude assms(2) pool_initial [OF v]\<close>)
  show ?thesis
    unfolding use_initial_def wp_bind
    apply (rule wp_mono [OF wp_the_engine [OF assms(1)]], elim conjE)
    apply (simp only: engine_is_def Let_def san prod.case ded result'_def [symmetric])
    apply (auto simp: wp_rules intro!: wp_degrade ok(1) r wp_mono [OF wp_appendEvent [OF _ ok(1)]] go [simplified])
    done
qed

text \<open>What \<open>start\<close> hands to the worker.\<close>

definition ready :: "search_ctx \<Rightarrow> RouteSearchRequest \<Rightarrow> world \<Rightarrow> bool" where
  "ready k request w \<longleftrightarrow> engine_is k (w_engine w) \<and> w_sent w = [] \<and> k_limit k = rq_MaxProviderRequests request \<and> 0 \<le> k_limit k
     \<and> (k_timely k \<longrightarrow> pending (k_sid k) (k_deadline k) (en_store (w_engine w)))"

lemma pending_update:
  assumes "pending sid d m" "now \<le> d" "d \<le> now' + ttl" "\<not> terminalStatus (rr_Status result)"
  shows "pending sid d (snd (Memory_Update now now' result ttl m))"
proof -
  have "\<not> terminalStatus (rr_Status (cloneResult result))" using assms(4) by (simp add: cloneResult_def zero_result_def)
  with pending_live [OF assms(1,2)] assms(1,3) show ?thesis
    by (auto simp: Memory_Update_def pending_def split: option.split)
qed

lemma run_correct:
  assumes "ready k request w" "search_ok k env lm request" "result_from k request result" "rr_SelectedRoute result = None"
  shows "wp (run env lm request result) (outcome k request) w"
proof -
  note ok = search_okD [OF assms(2)]
  have upd: "wp (on_store (Memory_Update now now' (result\<lparr>rr_Status := SearchSearching\<rparr>) ttl)) (\<lambda>_. winv k []) w'"
    if "winv k [] w'" "k_timely k \<longrightarrow> now \<le> k_deadline k" "k_timely k \<longrightarrow> k_deadline k \<le> now' + ttl" for w' now now' ttl
    using that pending_update [of "k_sid k" "k_deadline k" _ now now' ttl "result\<lparr>rr_Status := SearchSearching\<rparr>"]
    by (auto simp: on_store_def wp_rules intro!: winv_store split: prod.split) (metis snd_conv)
  have init: "sendable k (initial_request (k_caps k) request)" using ok(2) by (simp add: requests_ok_def)
  have first: "winv k [] (w\<lparr>w_engine := (w_engine w)\<lparr>en_stats := st\<rparr>, w_budget := newRequestBudget (rq_MaxProviderRequests request)\<rparr>)" for st
    using assms(1) by (simp add: ready_def winv_def budget_inv_def newRequestBudget_def)
  have failed: "wp (count_degraded \<bind> (\<lambda>_. degrade env (result\<lparr>rr_Status := SearchSearching\<rparr>) code)) (outcome k request) w'"
    if "winv k [] w'" for w' code
    unfolding wp_bind by (rule wp_mono [OF wp_count_degraded [OF that]]) (rule wp_degrade, use assms(3,4) ok(1) in auto)
  have e: "en_config (w_engine w) = k_cfg k" "en_capabilities (w_engine w) = k_caps k"
    using assms(1) by (auto simp: ready_def engine_is_def)
  show ?thesis
    apply (simp only: run_def the_engine_def on_stats_def on_engine_def on_budget_def wp_bind wp_State wp_modify prod.case Let_def e)
    apply (simp add: wp_rules)
    apply (rule wp_mono [OF wp_clock [OF first ok(1)]], elim conjE, unfold wp_bind)
    apply (rule wp_mono [OF wp_clock [OF _ ok(1)]], assumption, elim conjE)
    apply (rule wp_mono [OF upd], assumption, simp, simp)
    apply (rule wp_mono [OF wp_appendEvent [OF _ ok(1)]], assumption)
    apply (rule wp_mono [OF wp_routeWithBudget [OF _ ok(3) init]], assumption)
    apply (use assms(2-4) failed in \<open>auto simp: wp_case_sum split: sum.split intro!: wp_use_initial\<close>)
    done
qed

end
