(* ===== verification/Engine_Properties.thy ===== *)
theory Engine_Properties
  imports Engine_Run
begin

text \<open>
  The guarantees of the search engine, stated over its operations and proved from the specifications of
  \<open>Engine_Search\<close> and \<open>Engine_Run\<close>: the provider budget, the soundness of results, the life cycle in the store, the
  requests sent, concurrency, admission, cancellation and recovery.
\<close>

section \<open>Instances of the search invariant\<close>

definition ctx_for :: "engine \<Rightarrow> string \<Rightarrow> RouteSearchRequest \<Rightarrow> search_ctx" where
  "ctx_for e sid request = \<lparr> k_cfg = en_config e, k_scoring = en_scoring e, k_caps = en_capabilities e,
     k_limit = rq_MaxProviderRequests request, k_sid = sid, k_deadline = 0, k_timely = False, k_good = (\<lambda>_. True),
     k_admission = en_admission e, k_capacity = en_admissionCapacity e, k_cancels = en_cancels e \<rparr>"

lemma accepted_from: "result_from (k\<lparr>k_sid := sid\<rparr>) request (accepted_result e sid request t)"
  by (auto simp: result_from_def shown_def accepted_result_def Rank_Nil rank_init_def topGreenRoutes_def intro!: exI [of _ "[]"])

lemma budget_valid:
  "RouteSearchRequest_Validate now DefaultValidationLimits request = None \<Longrightarrow>
     1 \<le> rq_MaxProviderRequests request \<and> rq_MaxProviderRequests request \<le> 20 \<and> in64 (rq_MaxProviderRequests request)"
  by (auto simp: request_validate_None request_ok_def in64_def)

lemma run_outcome:
  assumes "RouteSearchRequest_Validate now DefaultValidationLimits request = None" "w_sent w = []"
  shows "wp (run env lm request (accepted_result origin sid request t))
    (outcome (ctx_for (w_engine w) sid request) request) w"
proof (rule run_correct)
  let ?k = "ctx_for (w_engine w) sid request"
  note b = budget_valid [OF assms(1)]
  show "ready ?k request w" using assms(2) b by (simp add: ready_def ctx_for_def engine_is_def)
  show "search_ok ?k env lm request"
    using b by (simp add: search_ok_def timely_def requests_ok_def sendable_def evaluable_def ctx_for_def)
  show "result_from ?k request (accepted_result origin sid request t)"
    using accepted_from [of sid ?k] by (simp add: ctx_for_def)
qed (simp add: accepted_result_def)

section \<open>The provider budget\<close>

text \<open>C3: a search never asks the provider for more than its budget: whatever the provider answers and however the goroutines
  are scheduled, the number of requests sent is at most the number of provider requests charged, which is at most
  the request's budget and is the number the result reports; each request allows the adapter one or two attempts.\<close>

theorem search_respects_budget:
  assumes "RouteSearchRequest_Validate now DefaultValidationLimits request = None" "w_sent w = []"
  shows "case run_state (run env lm request (accepted_result origin sid request t)) w of (final, w') \<Rightarrow>
    int (length (w_sent w')) \<le> pu_RequestsUsed (rr_ProviderUsage final)
    \<and> pu_RequestsUsed (rr_ProviderUsage final) \<le> rq_MaxProviderRequests request
    \<and> pu_RequestBudget (rr_ProviderUsage final) = rq_MaxProviderRequests request
    \<and> (pu_BudgetExhausted (rr_ProviderUsage final) \<longleftrightarrow> pu_RequestsUsed (rr_ProviderUsage final) = rq_MaxProviderRequests request)
    \<and> list_all (\<lambda>r. 1 \<le> pr_RequestBudget r \<and> pr_RequestBudget r \<le> 2) (w_sent w')"
proof -
  have *: "k_limit (ctx_for e sid request) = rq_MaxProviderRequests request" for e by (simp add: ctx_for_def)
  show ?thesis
    using run_outcome [OF assms, of env lm origin sid t] unfolding wp_def
    by (auto simp: outcome_def concluded_def done_with_def finished_from_def winv_def * list_all_iff)
qed

definition ex_config :: config where
  "ex_config = \<lparr> cf_Environment = ''test'', cf_Address = '''', cf_ProviderURL = '''', cf_InternalToken = '''', cf_RedisURL = '''',
     cf_RequireRedis = False, cf_ProviderDataStorage = False, cf_StateTTL = 1000, cf_StaleSearchAfter = 0,
     cf_EnableEnhancedSearch = True, cf_EnableAvoidZones = True, cf_EnableCorridorAnchors = True, cf_EnableTollFreeProbe = True,
     cf_EnableReranking = True, cf_MaxActiveCandidates = 12, cf_MaxConcurrentSearches = 2, cf_MaxEnhancedIterations = 8,
     cf_MinimumScoreImprovement = 0, cf_ScoringPolicyFile = '''', cf_SSEHeartbeat = 1, cf_ShutdownGrace = 1 \<rparr>"

definition ex_world :: world where
  "ex_world = \<lparr> w_engine = newEngine ex_config Map.empty, w_budget = newRequestBudget 0, w_sent = [], w_tick = 0 \<rparr>"

text \<open>A provider that cannot be reached.\<close>

definition ex_env :: environment where
  "ex_env = \<lparr> env_now = (\<lambda>_. 0), env_done = (\<lambda>_. False), env_reply = (\<lambda>_ _. TransportError), env_pick = (\<lambda>n. n) \<rparr>"

lemma ex_request_valid: "RouteSearchRequest_Validate 0 DefaultValidationLimits (ex_request RoutingModeStrictGreen) = None"
  by (simp add: request_validate_None request_ok_def ex_request_def ex_point_def point_ok_def frange_def one_f64_def)

theorem search_respects_budget_witness:
  "case run_state (run ex_env ex_libm (ex_request RoutingModeStrictGreen)
      (accepted_result (w_engine ex_world) ''s'' (ex_request RoutingModeStrictGreen) 0)) ex_world of (final, w') \<Rightarrow>
    int (length (w_sent w')) \<le> 8"
proof -
  have "w_sent ex_world = []" by (simp add: ex_world_def)
  from search_respects_budget [OF ex_request_valid this, where env = ex_env and lm = ex_libm and origin = "w_engine ex_world" and sid = "''s''" and t = 0]
  show ?thesis by (auto simp: ex_request_def)
qed

section \<open>The soundness of results\<close>

lemma Rank_lengths: "length (rk_Eligible (Rank p rq cfg)) \<le> length p" "length (rk_BestEffort (Rank p rq cfg)) \<le> 3"
proof -
  have e: "length (eligible_sorted f rq cfg p) \<le> length p" for f by (simp add: eligible_sorted_def)
  show "length (rk_Eligible (Rank p rq cfg)) \<le> length p"
  proof (cases "p = []")
    case False
    show ?thesis using e [of "rankFastest (hd p) (tl p)"] unfolding Rank_eq [OF False] by (auto split: list.split)
  qed (simp add: Rank_Nil rank_init_def)
  show "length (rk_BestEffort (Rank p rq cfg)) \<le> 3"
    by (cases "p = []") (simp_all add: Rank_Nil rank_init_def Rank_eq)
qed

lemma length_topGreenRoutes: "length (topGreenRoutes cs n) \<le> n"
  by (simp add: topGreenRoutes_def Let_def)

lemma concluded_selection:
  assumes "concluded k request r"
  obtains p where "pool k p" "rr_Alternatives r = Some (rk_Eligible (Rank p request (k_scoring k)))"
    "case rk_Selected (Rank p request (k_scoring k)) of None \<Rightarrow> rr_SelectedRoute r = None
     | Some s \<Rightarrow> \<exists>codes. rr_SelectedRoute r = Some (s\<lparr>rc_ReasonCodes := codes\<rparr>)"
proof -
  have weaken: "(case x of None \<Rightarrow> P | Some s \<Rightarrow> \<exists>codes \<in> A s. Q s codes) \<Longrightarrow> (case x of None \<Rightarrow> P | Some s \<Rightarrow> \<exists>codes. Q s codes)"
    for x :: "'a option" and P A and Q :: "'a \<Rightarrow> 'b \<Rightarrow> bool" by (auto split: option.splits)
  show ?thesis using assms that by (auto simp: concluded_def dest!: weaken)
qed

text \<open>C2: every search ends with a sound result. It is completed with a selected route or degraded without one. The alternatives are
  exactly the eligible routes of the ranking of one pool, at most as many as the configured number of active
  candidates; the pool holds provider routes that passed the sanitizer and were evaluated by the scoring policy, with their geometry,
  distance and duration unchanged; the selected route is the best of that ranking up to its reason codes. At most three best-effort
  and three green routes are shown, and the warnings are distinct.\<close>

theorem search_result_sound:
  assumes "RouteSearchRequest_Validate now DefaultValidationLimits request = None" "w_sent w = []"
  shows "case run_state (run env lm request (accepted_result origin sid request t)) w of (final, w') \<Rightarrow>
    rr_SearchID final = sid \<and> rr_Status final = (if rr_SelectedRoute final = None then SearchDegraded else SearchCompleted)
    \<and> (\<exists>p. list_all (\<lambda>r. \<exists>c. route_safe c \<and> scored_from (en_scoring (w_engine w)) c r) p
         \<and> int (length p) \<le> max 0 (cf_MaxActiveCandidates (en_config (w_engine w)))
         \<and> rr_Alternatives final = Some (rk_Eligible (Rank p request (en_scoring (w_engine w))))
         \<and> (case rk_Selected (Rank p request (en_scoring (w_engine w))) of None \<Rightarrow> rr_SelectedRoute final = None
            | Some s \<Rightarrow> \<exists>codes. rr_SelectedRoute final = Some (s\<lparr>rc_ReasonCodes := codes\<rparr>)))
    \<and> length (slice_of (rr_BestEffortRoutes final)) \<le> 3 \<and> length (slice_of (rr_GreenTopRoutes final)) \<le> 3
    \<and> distinct (rr_Warnings final)"
proof -
  let ?k = "ctx_for (w_engine w) sid request"
  obtain final w' where r: "run_state (run env lm request (accepted_result origin sid request t)) w = (final, w')" by fastforce
  have o: "outcome ?k request final w'" using run_outcome [OF assms, of env lm origin sid t] unfolding wp_def r by simp
  then have "distinct (rr_Warnings final)" by (auto simp: outcome_def done_with_def finished_from_def)
  moreover have c: "concluded ?k request final" using o by (simp add: outcome_def)
  then have "length (slice_of (rr_BestEffortRoutes final)) \<le> 3" "length (slice_of (rr_GreenTopRoutes final)) \<le> 3"
    using Rank_lengths(2) length_topGreenRoutes by (auto simp: concluded_def shown_def slice_of_def)
  moreover obtain p where "pool ?k p" "rr_Alternatives final = Some (rk_Eligible (Rank p request (k_scoring ?k)))"
    "case rk_Selected (Rank p request (k_scoring ?k)) of None \<Rightarrow> rr_SelectedRoute final = None
     | Some s \<Rightarrow> \<exists>codes. rr_SelectedRoute final = Some (s\<lparr>rc_ReasonCodes := codes\<rparr>)" by (rule concluded_selection [OF c])
  then have "\<exists>p. list_all (\<lambda>r. \<exists>c. route_safe c \<and> scored_from (en_scoring (w_engine w)) c r) p
         \<and> int (length p) \<le> max 0 (cf_MaxActiveCandidates (en_config (w_engine w)))
         \<and> rr_Alternatives final = Some (rk_Eligible (Rank p request (en_scoring (w_engine w))))
         \<and> (case rk_Selected (Rank p request (en_scoring (w_engine w))) of None \<Rightarrow> rr_SelectedRoute final = None
            | Some s \<Rightarrow> \<exists>codes. rr_SelectedRoute final = Some (s\<lparr>rc_ReasonCodes := codes\<rparr>))"
    by (intro exI [of _ p]) (simp add: pool_def ctx_for_def)
  ultimately show ?thesis using c unfolding r by (simp add: concluded_def ctx_for_def)
qed

theorem search_result_sound_witness:
  "case run_state (run ex_env ex_libm (ex_request RoutingModeStrictGreen)
      (accepted_result (w_engine ex_world) ''s'' (ex_request RoutingModeStrictGreen) 0)) ex_world of (final, w') \<Rightarrow>
    rr_SearchID final = ''s'' \<and> rr_Status final = (if rr_SelectedRoute final = None then SearchDegraded else SearchCompleted)"
proof -
  have "w_sent ex_world = []" by (simp add: ex_world_def)
  from search_result_sound [OF ex_request_valid this, where env = ex_env and lm = ex_libm and origin = "w_engine ex_world" and sid = "''s''" and t = 0] show ?thesis by auto
qed

text \<open>C6: the strict-green promise holds end to end: in STRICT_GREEN mode the route a search selects, and every alternative it offers,
  rests on real traffic data with trusted confidence and is green in every segment, and the segments account for the whole route;
  otherwise the search selects nothing and says so.\<close>

theorem strict_green_search:
  assumes "RouteSearchRequest_Validate now DefaultValidationLimits request = None" "w_sent w = []"
    and "rq_RoutingMode request = RoutingModeStrictGreen"
  shows "case run_state (run env lm request (accepted_result origin sid request t)) w of (final, w') \<Rightarrow>
    list_all (strict_evidence (en_scoring (w_engine w))) (slice_of (rr_Alternatives final))
    \<and> (case rr_SelectedRoute final of None \<Rightarrow> rr_Status final = SearchDegraded
       | Some s \<Rightarrow> rr_Status final = SearchCompleted \<and> strict_evidence (en_scoring (w_engine w)) s)"
proof -
  let ?k = "ctx_for (w_engine w) sid request" and ?cfg = "en_scoring (w_engine w)"
  obtain final w' where r: "run_state (run env lm request (accepted_result origin sid request t)) w = (final, w')" by fastforce
  have c: "concluded ?k request final" using run_outcome [OF assms(1,2), of env lm origin sid t] unfolding wp_def r by (simp add: outcome_def)
  have strict: "strict_evidence ?cfg x" if "x \<in> set (rk_Eligible (Rank p request ?cfg))" for x p
    using eligible_mem [OF that] assms(3) by (auto simp: admissible_def)
  have sel: "strict_evidence ?cfg s" if "rk_Selected (Rank p request ?cfg) = Some s" for s p
    using strict [of s p] that selected_iff_eligible [of p request ?cfg] by (auto split: list.splits)
  have codes: "strict_evidence ?cfg (s\<lparr>rc_ReasonCodes := cs\<rparr>) = strict_evidence ?cfg s" for s cs
    by (simp add: strict_evidence_def)
  obtain p where p: "rr_Alternatives final = Some (rk_Eligible (Rank p request ?cfg))"
    "case rk_Selected (Rank p request ?cfg) of None \<Rightarrow> rr_SelectedRoute final = None
     | Some s \<Rightarrow> \<exists>codes. rr_SelectedRoute final = Some (s\<lparr>rc_ReasonCodes := codes\<rparr>)"
    by (rule concluded_selection [OF c]) (simp add: ctx_for_def)
  have "list_all (strict_evidence ?cfg) (slice_of (rr_Alternatives final))" using strict p(1) by (simp add: slice_of_def list_all_iff)
  moreover have "case rr_SelectedRoute final of None \<Rightarrow> True | Some s \<Rightarrow> strict_evidence ?cfg s"
    using p(2) sel codes by (auto split: option.splits)
  ultimately show ?thesis using c unfolding r by (auto simp: concluded_def split: option.splits)
qed

theorem strict_green_search_witness:
  "case run_state (run ex_env ex_libm (ex_request RoutingModeStrictGreen)
      (accepted_result (w_engine ex_world) ''s'' (ex_request RoutingModeStrictGreen) 0)) ex_world of (final, w') \<Rightarrow>
    (case rr_SelectedRoute final of None \<Rightarrow> rr_Status final = SearchDegraded
     | Some s \<Rightarrow> strict_evidence (en_scoring (w_engine ex_world)) s)"
proof -
  have "w_sent ex_world = []" "rq_RoutingMode (ex_request RoutingModeStrictGreen) = RoutingModeStrictGreen"
    by (simp_all add: ex_world_def ex_request_def)
  from strict_green_search [OF ex_request_valid this, where env = ex_env and lm = ex_libm and origin = "w_engine ex_world" and sid = "''s''" and t = 0] show ?thesis by (auto split: option.splits)
qed

section \<open>The life cycle in the store\<close>

text \<open>C4: A search always settles. If its record is in the store when the worker starts and the clock stays within the record's lifetime, then, whatever the
  provider and the scheduler do, the worker returns a terminal result, and the record is there until the deadline with a non-empty log of events. If the
  result can be encoded as JSON, the record ends terminal with exactly this result, and a reader gets it. If it cannot (a number in it is not
  finite), the store silently keeps the zero result instead, which is not terminal.\<close>

theorem search_settles:
  assumes "RouteSearchRequest_Validate now DefaultValidationLimits request = None" "w_sent w = []"
    and "en_store (w_engine w) sid = Some r" "deadline \<le> mr_expiresAt r" "rr_Status (mr_result r) = SearchAccepted"
    and "\<forall>n. env_now env n \<le> deadline \<and> deadline \<le> env_now env n + cf_StateTTL (en_config (w_engine w))"
  shows "case run_state (run env lm request (accepted_result origin sid request t)) w of (final, w') \<Rightarrow>
    terminalStatus (rr_Status final) \<and> rr_SearchID final = sid
    \<and> (\<exists>r'. en_store (w_engine w') sid = Some r' \<and> mr_events r' \<noteq> [] \<and> deadline \<le> mr_expiresAt r'
        \<and> (if result_json_ok final then mr_result r' = final \<and> terminalStatus (rr_Status (mr_result r'))
           else mr_result r' = zero_result \<and> \<not> terminalStatus (rr_Status (mr_result r'))))
    \<and> Memory_Get deadline sid (en_store (w_engine w')) = Inr (if result_json_ok final then final else zero_result)"
proof -
  let ?k = "(ctx_for (w_engine w) sid request)\<lparr>k_timely := True, k_deadline := deadline\<rparr>"
  note b = budget_valid [OF assms(1)]
  have "wp (run env lm request (accepted_result origin sid request t)) (outcome ?k request) w"
  proof (rule run_correct)
    show "ready ?k request w"
      using assms(2-5) b by (auto simp: ready_def ctx_for_def engine_is_def pending_def)
    show "search_ok ?k env lm request"
      using b assms(6) by (simp add: search_ok_def timely_def requests_ok_def sendable_def evaluable_def ctx_for_def)
    show "result_from ?k request (accepted_result origin sid request t)"
      using accepted_from [of sid ?k] by (simp add: ctx_for_def)
  qed (simp add: accepted_result_def)
  moreover have "k_sid ?k = sid" "k_deadline ?k = deadline" "k_timely ?k" by (simp_all add: ctx_for_def)
  moreover have zero: "\<not> terminalStatus (rr_Status zero_result)" "result_json_ok zero_result"
    by (simp_all add: zero_result_def result_json_ok_def fin64_def is_nan_def is_inf_def zero_f64_def)
  ultimately show ?thesis
    unfolding wp_def by (auto simp: outcome_def concluded_def done_with_def settled_def Memory_Get_def live_def cloneResult_def split: if_splits)
qed

definition ex_record :: memoryRecord where
  "ex_record = \<lparr> mr_result = (ex_result SearchAccepted), mr_events = [], mr_expiresAt = 1000, mr_nextEvent = 0 \<rparr>"

theorem search_settles_witness:
  "\<exists>final w'. run_state (run ex_env ex_libm (ex_request RoutingModeStrictGreen)
      (accepted_result (newEngine ex_config [''s'' \<mapsto> ex_record]) ''s'' (ex_request RoutingModeStrictGreen) 0))
      (ex_world\<lparr>w_engine := newEngine ex_config [''s'' \<mapsto> ex_record]\<rparr>) = (final, w')
    \<and> terminalStatus (rr_Status final) \<and> Memory_Get 1000 ''s'' (en_store (w_engine w')) = Inr (if result_json_ok final then final else zero_result)"
proof -
  let ?w = "ex_world\<lparr>w_engine := newEngine ex_config [''s'' \<mapsto> ex_record]\<rparr>"
  have "w_sent ?w = []" "en_store (w_engine ?w) ''s'' = Some ex_record" "1000 \<le> mr_expiresAt ex_record"
    "rr_Status (mr_result ex_record) = SearchAccepted"
    "\<forall>n. env_now ex_env n \<le> 1000 \<and> 1000 \<le> env_now ex_env n + cf_StateTTL (en_config (w_engine ?w))"
    by (simp_all add: ex_world_def newEngine_def ex_record_def ex_result_def zero_result_def ex_env_def ex_config_def)
  from search_settles [OF ex_request_valid this, where lm = ex_libm and origin = "newEngine ex_config [''s'' \<mapsto> ex_record]" and t = 0] show ?thesis by (auto split: prod.splits)
qed

section \<open>The requests sent\<close>

text \<open>A request within what the provider declared: alternatives, waypoints with both ends (or just the traveller's own waypoints, however
  many they are), and avoid zones only if supported.\<close>

definition within_capabilities :: "RouteSearchRequest \<Rightarrow> ProviderCapabilities \<Rightarrow> ProviderRouteRequest \<Rightarrow> bool" where
  "within_capabilities request caps r \<longleftrightarrow> 0 \<le> pr_Alternatives r \<and> pr_Alternatives r \<le> max 0 (min 2 (pc_MaxAlternatives caps))
     \<and> (int (length (pr_Waypoints r)) + 2 \<le> pc_MaxWaypoints caps \<or> pr_Waypoints r = rq_Waypoints request)
     \<and> length (pr_AvoidZones r) \<le> 12 \<and> list_all zone_ok (pr_AvoidZones r) \<and> (pr_AvoidZones r = [] \<or> pc_AvoidZones caps)
     \<and> list_all point_ok (pr_Origin r # pr_Destination r # pr_Waypoints r)"

lemma within_budget [simp]: "within_capabilities request caps (r\<lparr>pr_RequestBudget := a\<rparr>) = within_capabilities request caps r"
  by (simp add: within_capabilities_def)

lemma discovered_limits:
  assumes "discoverCapabilities reply e = (None, e')"
  shows "0 \<le> pc_MaxAlternatives (en_capabilities e') \<and> pc_MaxAlternatives (en_capabilities e') \<le> 2
    \<and> 2 \<le> pc_MaxWaypoints (en_capabilities e') \<and> pc_MaxWaypoints (en_capabilities e') \<le> 50
    \<and> pc_RealtimeTraffic (en_capabilities e') \<and> pc_TrafficDisabledBaseline (en_capabilities e')
    \<and> pc_ContractVersion (en_capabilities e') = InternalContractVersion \<and> en_capabilityOK e'
    \<and> capabilities reply = Inr (en_capabilities e')"
  using assms by (auto simp: discoverCapabilities_def split: sum.splits if_splits)

lemma baseline_within:
  assumes "route_safe c" "baseline_request lm caps request c = Some r" "2 \<le> pc_MaxWaypoints caps" "pc_MaxWaypoints caps \<le> 50"
  shows "within_capabilities request caps r"
proof -
  define ps where "ps = controlPoints lm (rc_Geometry c) (pc_MaxWaypoints caps)"
  have m: "maxInt 2 (pc_MaxWaypoints caps) = pc_MaxWaypoints caps" using assms(3) by (simp add: maxInt_def)
  have ps: "2 \<le> length ps" "int (length ps) \<le> pc_MaxWaypoints caps" "set ps \<subseteq> set (rc_Geometry c)"
    using controlPoints_facts [of "rc_Geometry c" "pc_MaxWaypoints caps" lm] assms(1,3,4) by (auto simp: ps_def route_safe_def)
  then have ok: "\<forall>x \<in> set ps. point_ok x" using assms(1) by (auto simp: route_safe_def list_all_iff)
  have ne: "ps \<noteq> []" using ps(1) by auto
  have mid: "set (butlast (tl ps)) \<subseteq> set ps" using ne by (meson in_set_butlastD list.set_sel(2) subsetI)
  have r: "pr_Origin r = hd ps" "pr_Destination r = last ps" "pr_Waypoints r = (if length ps > 2 then butlast (tl ps) else [])"
    "pr_AvoidZones r = []" "pr_Alternatives r = 0"
    using assms(2) ne by (auto simp: baseline_request_def Let_def m ps_def [symmetric])
  have "list_all point_ok (pr_Waypoints r)" using ok mid by (auto simp: r(3) list_all_iff)
  moreover have "point_ok (hd ps)" "point_ok (last ps)" using ok ne by auto
  ultimately show ?thesis using ps(2) assms(3) by (simp add: within_capabilities_def r)
qed

text \<open>The identifier, deadline and departure of every request come from the search.\<close>

definition from_search :: "RouteSearchRequest \<Rightarrow> ProviderRouteRequest \<Rightarrow> bool" where
  "from_search request r \<longleftrightarrow> pr_RequestID r = rq_RequestID request \<and> 500 \<le> pr_DeadlineMS r \<and> pr_DeadlineMS r \<le> 30000
     \<and> (pr_DepartureUnix r \<noteq> 0 \<longrightarrow> pr_Traffic r \<and> pr_DepartureUnix r = departureUnix request)"

lemma from_search_budget [simp]: "from_search request (r\<lparr>pr_RequestBudget := a\<rparr>) = from_search request r"
  by (simp add: from_search_def)

lemma half_deadline:
  assumes "500 \<le> d" "d \<le> 30000"
  shows "500 \<le> maxInt 500 (quot64 d 2) \<and> maxInt 500 (quot64 d 2) \<le> 30000"
proof -
  have half: "0 \<le> d div 2" "d div 2 \<le> 30000" using assms by linarith+
  then have "in64 (d div 2)" by (simp add: in64_def)
  then have "quot64 d 2 = d div 2" using assms(1) by (simp add: quot64_def wrap64_id)
  then show ?thesis using half(2) by (simp add: maxInt_def)
qed

lemma search_requests:
  assumes "RouteSearchRequest_Validate now DefaultValidationLimits request = None" "w_sent w = []"
    and "discoverCapabilities reply e = (None, w_engine w)"
    and "run_state (run env lm request (accepted_result origin sid request t)) w = (final, w')"
  shows "list_all (\<lambda>r. 1 \<le> pr_RequestBudget r \<and> pr_RequestBudget r \<le> 2 \<and> within_capabilities request (en_capabilities (w_engine w)) r
    \<and> from_search request r) (w_sent w')"
proof -
  define caps where "caps = en_capabilities (w_engine w)"
  let ?good = "\<lambda>r. within_capabilities request caps r \<and> from_search request r"
  let ?k = "(ctx_for (w_engine w) sid request)\<lparr>k_good := ?good\<rparr>"
  note b = budget_valid [OF assms(1)]
  have c: "2 \<le> pc_MaxWaypoints caps" "pc_MaxWaypoints caps \<le> 50"
    using discovered_limits [OF assms(3)] by (simp_all add: caps_def)
  have q: "point_ok (rq_Origin request)" "point_ok (rq_Destination request)" "list_all point_ok (rq_Waypoints request)"
    and deadline: "500 \<le> rq_SearchDeadlineMS request" "rq_SearchDeadlineMS request \<le> 30000"
    using assms(1) by (auto simp: request_validate_None request_ok_def list_all_iff)
  note half = half_deadline [OF deadline]
  have detour: "?good (detour_request caps request remaining tolls (dp_anchors p) (dp_zones p))"
    if "plan_ok (maxInt 0 (pc_MaxWaypoints caps - int (length (rq_Waypoints request)) - 2)) p" "dp_zones p = [] \<or> pc_AvoidZones caps"
    for p remaining tolls
    using that q half
    by (auto simp: within_capabilities_def from_search_def detour_request_def plan_ok_def caps_def minInt_def maxInt_def split: if_splits)
  have plain: "?good (detour_request caps request remaining tolls [] [])" "?good (initial_request caps request)" for remaining tolls
    using q half deadline by (auto simp: within_capabilities_def from_search_def detour_request_def initial_request_def caps_def minInt_def maxInt_def)
  have baseline: "?good r" if "route_safe c" "baseline_request lm caps request c = Some r" for c r
    using baseline_within [OF that c] that(2) half by (auto simp: baseline_request_def from_search_def Let_def split: if_splits)
  have "wp (run env lm request (accepted_result origin sid request t)) (outcome ?k request) w"
  proof (rule run_correct)
    show "ready ?k request w" using assms(2) b by (simp add: ready_def ctx_for_def engine_is_def)
    have "k_caps ?k = caps" by (simp add: ctx_for_def caps_def)
    then show "search_ok ?k env lm request"
      using b detour plain baseline
      by (auto simp: search_ok_def timely_def requests_ok_def sendable_def evaluable_def ctx_for_def)
    show "result_from ?k request (accepted_result origin sid request t)"
      using accepted_from [of sid ?k] by (simp add: ctx_for_def)
  qed (simp add: accepted_result_def)
  moreover have "k_good (closed ?k) = ?good" by (simp add: closed_def)
  ultimately show ?thesis
    using assms(4) unfolding wp_def caps_def [symmetric] by (auto simp: outcome_def done_with_def winv_def list_all_iff)
qed

text \<open>C7: Every request that a search sends, the initial one, the baseline of each candidate, the toll-free probe and each detour probe, keeps to the
  capabilities that were accepted at discovery (alternatives, avoid zones only if supported and at most twelve) and carries only valid coordinates. With its
  ends it has at most the declared number of waypoints, unless it carries exactly the traveller's own ones, which the engine passes on without comparing them
  with the limit: when they fit, every request does, and when they do not, no detour adds to them.\<close>

theorem requests_within_capabilities:
  assumes "RouteSearchRequest_Validate now DefaultValidationLimits request = None" "w_sent w = []"
    and "discoverCapabilities reply e = (None, w_engine w)"
  shows "case run_state (run env lm request (accepted_result origin sid request t)) w of (final, w') \<Rightarrow>
    \<forall>r \<in> set (w_sent w'). let caps = en_capabilities (w_engine w) in
      0 \<le> pr_Alternatives r \<and> pr_Alternatives r \<le> max 0 (min 2 (pc_MaxAlternatives caps))
      \<and> (int (length (pr_Waypoints r)) + 2 \<le> pc_MaxWaypoints caps \<or> pr_Waypoints r = rq_Waypoints request)
      \<and> (int (length (rq_Waypoints request)) + 2 \<le> pc_MaxWaypoints caps \<longrightarrow> int (length (pr_Waypoints r)) + 2 \<le> pc_MaxWaypoints caps)
      \<and> length (pr_AvoidZones r) \<le> 12 \<and> list_all zone_ok (pr_AvoidZones r) \<and> (pr_AvoidZones r = [] \<or> pc_AvoidZones caps)
      \<and> list_all point_ok (pr_Origin r # pr_Destination r # pr_Waypoints r)"
proof -
  obtain final w' where run: "run_state (run env lm request (accepted_result origin sid request t)) w = (final, w')" by fastforce
  then have "within_capabilities request (en_capabilities (w_engine w)) r" if "r \<in> set (w_sent w')" for r
    using search_requests [OF assms run] that by (simp add: list_all_iff)
  then show ?thesis unfolding run prod.case within_capabilities_def Let_def by metis
qed

definition ex_document :: providerCapabilitiesDocument where
  "ex_document = \<lparr> pd_ProviderCapabilities = zero_capabilities\<lparr>pc_ContractVersion := InternalContractVersion, pc_Provider := ''2gis'',
       pc_Mode := ''live'', pc_MaxAlternatives := 2, pc_MaxWaypoints := 10, pc_RealtimeTraffic := True, pc_TrafficDisabledBaseline := True\<rparr>,
     pd_VerifiedAt = '''', pd_OfficialDocumentation = [], pd_OfficialEndpoint = '''', pd_AddressSearchProvider = '''',
     pd_AddressSearchEndpoint = '''', pd_MaxRoutesPerRequest = 3, pd_RequestsPerSecond = 1, pd_RequestsPerMinute = 60,
     pd_DailyRequestLimit = None, pd_MonthlyRequestLimit = None, pd_DailyLimitContractDependent = False, pd_AvoidTolls = True,
     pd_AvoidUnpaved = '''', pd_Billing = \<lparr> pb_Unit = '''', pb_MultipleRoutesCount = '''' \<rparr>,
     pd_Storage = \<lparr> pst_Standard = '''', pst_Extended = '''' \<rparr>, pd_DataModificationAllowed = False,
     pd_Licenses = \<lparr> pl_BasicName = '''', pl_AdvancedName = '''', pl_FreeTier = '''' \<rparr>, pd_Limitations = [], pd_ExperimentalRequested = False \<rparr>"

definition ex_ready :: engine where
  "ex_ready = (newEngine ex_config Map.empty)\<lparr>en_capabilities := pd_ProviderCapabilities ex_document, en_capabilityOK := True\<rparr>"

lemma ex_discovered: "discoverCapabilities (Reply 200 (Some ex_document)) (newEngine ex_config Map.empty) = (None, ex_ready)"
proof -
  have "capabilities (Reply 200 (Some ex_document)) = Inr (pd_ProviderCapabilities ex_document)" by code_simp
  moreover have "trim_space ''2gis'' = ''2gis''" "trim_space ''live'' = ''live''" by code_simp+
  ultimately show ?thesis by (simp add: discoverCapabilities_def ex_ready_def ex_document_def zero_capabilities_def)
qed

theorem requests_within_capabilities_witness:
  "case run_state (run ex_env ex_libm (ex_request RoutingModeStrictGreen)
      (accepted_result ex_ready ''s'' (ex_request RoutingModeStrictGreen) 0)) (ex_world\<lparr>w_engine := ex_ready\<rparr>) of (final, w') \<Rightarrow>
    \<forall>r \<in> set (w_sent w'). int (length (pr_Waypoints r)) + 2 \<le> 10"
proof -
  let ?w = "ex_world\<lparr>w_engine := ex_ready\<rparr>"
  have "w_sent ?w = []" "discoverCapabilities (Reply 200 (Some ex_document)) (newEngine ex_config Map.empty) = (None, w_engine ?w)"
    using ex_discovered by (simp_all add: ex_world_def)
  from requests_within_capabilities [OF ex_request_valid this, where env = ex_env and lm = ex_libm and origin = ex_ready and sid = "''s''" and t = 0]
  show ?thesis by (simp add: ex_request_def ex_ready_def ex_document_def Let_def split: prod.splits)
qed

section \<open>Concurrency\<close>

text \<open>C9: concurrent evaluation is bounded and ends. After any number of scheduling decisions, in whatever order the goroutines were
  run, at most three of them are inside an evaluation, the budget is not exceeded, and every finished evaluation
  belongs to its own candidate; after three decisions per candidate all of them have finished and every lease is returned.\<close>

theorem evaluation_bounded_and_ends:
  assumes "w_budget w = newRequestBudget limit" "0 \<le> limit" "in64 limit" "w_sent w = []"
  shows "case run_state (run_workers fuel env lm sid request h cs (maxInt 1 (minInt 3 (int (length cs)))) (replicate (length cs) Waiting)) w of
    (ws, w') \<Rightarrow> holders ws \<le> 3 \<and> rb_used (w_budget w') + rb_reserved (w_budget w') \<le> limit
      \<and> length ws = length cs \<and> (\<forall>j r. ws ! j = Finished (Some r) \<and> j < length cs \<longrightarrow> same_trip (cs ! j) r)
      \<and> (3 * length cs \<le> fuel \<longrightarrow> list_all finished ws \<and> rb_reserved (w_budget w') = 0)"
proof -
  let ?k = "(ctx_for (w_engine w) sid request)\<lparr>k_limit := limit\<rparr>" and ?limit = "maxInt 1 (minInt 3 (int (length cs)))"
  have k: "winv ?k [] w"
    using assms(1,2,4) by (simp add: winv_def ctx_for_def engine_is_def budget_inv_def newRequestBudget_def)
  have t: "timely ?k env" "list_all (evaluable ?k lm request) cs"
    using assms(3) by (simp_all add: timely_def ctx_for_def list_all_iff evaluable_def sendable_def)
  have l: "1 \<le> ?limit" "?limit \<le> 3" by (simp_all add: maxInt_def minInt_def)
  have weight: "total_weight (replicate n Waiting) = 3 * n" for n by (induction n) (simp_all add: total_weight_def)
  have run: "wp (run_workers fuel env lm sid request h cs ?limit (replicate (length cs) Waiting))
      (\<lambda>ws w'. workers_inv ?k cs ?limit ws w' \<and> (3 * length cs \<le> fuel \<longrightarrow> list_all finished ws)) w"
    using wp_run_workers [OF workers_start [OF k, of ?limit cs] t l(1), of fuel sid h] l(1) by (simp add: weight)
  have facts: "holders ws \<le> 3" "rb_used (w_budget w') + rb_reserved (w_budget w') \<le> limit" "length ws = length cs"
    "\<forall>j r. ws ! j = Finished (Some r) \<and> j < length cs \<longrightarrow> same_trip (cs ! j) r"
    "list_all finished ws \<Longrightarrow> rb_reserved (w_budget w') = 0" if "workers_inv ?k cs ?limit ws w'" for ws w'
  proof -
    from that have i: "winv ?k (leases_of ws) w'" "length ws = length cs" "holders ws \<le> ?limit"
      "\<And>j. j < length cs \<Longrightarrow> worker_for (k_scoring ?k) (cs ! j) (ws ! j)" by (auto simp: workers_inv_def)
    show "holders ws \<le> 3" using i(3) l(2) by linarith
    show "length ws = length cs" by (rule i(2))
    show "rb_used (w_budget w') + rb_reserved (w_budget w') \<le> limit" using i(1) by (simp add: winv_def budget_inv_def)
    show "list_all finished ws \<Longrightarrow> rb_reserved (w_budget w') = 0"
      using i(1) leases_finished [of ws] by (simp add: winv_def budget_inv_def)
    show "\<forall>j r. ws ! j = Finished (Some r) \<and> j < length cs \<longrightarrow> same_trip (cs ! j) r"
      using i(4) by (metis scored_from_def worker_for.simps(3))
  qed
  show ?thesis using run unfolding wp_def by (auto split: prod.splits dest: facts)
qed

theorem evaluation_bounded_and_ends_witness:
  "case run_state (run_workers 3 ex_env ex_libm ''s'' (ex_request RoutingModeStrictGreen) False [ex_candidate ''a'' [ex_segment 1000 100 100]]
      (maxInt 1 (minInt 3 1)) [Waiting]) (ex_world\<lparr>w_budget := newRequestBudget 2\<rparr>) of (ws, w') \<Rightarrow>
    list_all finished ws \<and> rb_reserved (w_budget w') = 0"
proof -
  let ?w = "ex_world\<lparr>w_budget := newRequestBudget 2\<rparr>"
  have "w_budget ?w = newRequestBudget 2" "(0::int) \<le> 2" "in64 2" "w_sent ?w = []" by (simp_all add: ex_world_def in64_def)
  from evaluation_bounded_and_ends [OF this, where fuel = 3 and env = ex_env and lm = ex_libm and sid = "''s''"
      and request = "ex_request RoutingModeStrictGreen" and h = False and cs = "[ex_candidate ''a'' [ex_segment 1000 100 100]]"]
  show ?thesis by (auto simp del: run_workers.simps)
qed

section \<open>Admission\<close>

text \<open>Discovery is the gate of the service: capabilities are taken over only if they keep the contract, a failed refresh changes nothing
  but closes the gate, and while it is closed every valid search is refused without any effect on the engine.\<close>

theorem capability_gate:
  assumes "refreshCapabilities reply e = (delay, e')"
    and "RouteSearchRequest_Validate (env_now env (w_tick w)) DefaultValidationLimits (ApplySafeDefaults request) = None" "w_engine w = e'"
  shows "if en_capabilityOK e'
    then delay = 5 * minute \<and> capabilities reply = Inr (en_capabilities e') \<and> pc_MaxAlternatives (en_capabilities e') \<in> {0..2}
      \<and> pc_MaxWaypoints (en_capabilities e') \<in> {2..50} \<and> pc_RealtimeTraffic (en_capabilities e') \<and> pc_TrafficDisabledBaseline (en_capabilities e')
    else delay = second \<and> e' = e\<lparr>en_capabilityOK := False\<rparr>
      \<and> (case run_state (start env sha rand rand' request key) w of ((answer, job), w') \<Rightarrow>
           answer = Inl errCapabilitiesUnavailable \<and> job = None \<and> w_engine w' = w_engine w)"
proof (cases "fst (discoverCapabilities reply e)")
  case None
  then have "discoverCapabilities reply e = (None, e')" "delay = 5 * minute"
    using assms(1) by (auto simp: refreshCapabilities_def split: prod.splits option.splits)
  with discovered_limits [OF this(1)] show ?thesis by simp
next
  case (Some err)
  have "snd (discoverCapabilities reply e) = e" using Some by (auto simp: discoverCapabilities_def split: sum.splits if_splits)
  with Some assms(1) have "delay = second" "e' = e\<lparr>en_capabilityOK := False\<rparr>"
    by (auto simp: refreshCapabilities_def split: prod.splits option.splits)
  with assms(2,3) show ?thesis
    by (simp add: start_def clock_def reading_def the_engine_def Let_def)
qed

theorem capability_gate_witness:
  "snd (refreshCapabilities TransportError ex_ready) = ex_ready\<lparr>en_capabilityOK := False\<rparr>
   \<and> (case run_state (start ex_env (\<lambda>_. []) [] [] (ex_request RoutingModeStrictGreen) ''k'') (ex_world\<lparr>w_engine := ex_ready\<lparr>en_capabilityOK := False\<rparr>\<rparr>) of
        ((answer, job), w') \<Rightarrow> answer = Inl errCapabilitiesUnavailable \<and> job = None)"
proof -
  let ?e = "ex_ready\<lparr>en_capabilityOK := False\<rparr>" and ?w = "ex_world\<lparr>w_engine := ex_ready\<lparr>en_capabilityOK := False\<rparr>\<rparr>"
  have r: "refreshCapabilities TransportError ex_ready = (second, ?e)"
    by (simp add: refreshCapabilities_def discoverCapabilities_def capabilities_def)
  have "ApplySafeDefaults (ex_request RoutingModeStrictGreen) = ex_request RoutingModeStrictGreen"
    by (simp add: ApplySafeDefaults_def ex_request_def)
  then have v: "RouteSearchRequest_Validate (env_now ex_env (w_tick ?w)) DefaultValidationLimits (ApplySafeDefaults (ex_request RoutingModeStrictGreen)) = None"
    using ex_request_valid by (simp add: ex_env_def)
  show ?thesis
    using capability_gate [OF r v, where sha = "\<lambda>_. []" and rand = "[]" and rand' = "[]" and key = "''k''"] r
    by (auto split: prod.splits)
qed

end
