(* ===== verification/EngineProvider.thy ===== *)
theory EngineProvider
  imports ProviderService Engine_Properties
begin

text \<open>
  The requests of the engine against the checks of the provider service (\<open>services/provider-yandex/validation.go\<close>): which of the requests that a search
  sends the service refuses.
\<close>

section \<open>The checks as a condition\<close>

lemma zone_error_None: "zone_error i z = None \<longleftrightarrow>
    3 \<le> length (az_Points z) \<and> length (az_Points z) \<le> 32 \<and> list_all point_ok (az_Points z) \<and> 3 \<le> distinct_points (az_Points z)"
  by (auto simp: zone_error_def first_invalid_None list_all_iff)

lemma zones_None: "set (map (\<lambda>(i, z). zone_error i z) (enumerate n zs)) \<subseteq> {None} \<longleftrightarrow> (\<forall>z \<in> set zs. zone_error 0 z = None)"
proof (induction zs arbitrary: n)
  case (Cons z zs)
  have "zone_error n z = None \<longleftrightarrow> zone_error 0 z = None" by (simp add: zone_error_None)
  with Cons [of "Suc n"] show ?case by simp
qed simp

lemma validateRouteRequest_None: "validateRouteRequest r m t = None \<longleftrightarrow>
    requestIDPattern (pr_RequestID r) \<and> point_ok (pr_Origin r) \<and> point_ok (pr_Destination r) \<and> \<not> point_eq (pr_Origin r) (pr_Destination r)
    \<and> length (pr_Waypoints r) \<le> 48 \<and> list_all point_ok (pr_Waypoints r) \<and> 0 \<le> pr_Alternatives r \<and> pr_Alternatives r \<le> m
    \<and> 1 \<le> pr_RequestBudget r \<and> pr_RequestBudget r \<le> 20 \<and> 100 \<le> pr_DeadlineMS r \<and> pr_DeadlineMS r \<le> 30000
    \<and> (0 < pr_DepartureUnix r \<longrightarrow> pr_Traffic r \<and> t - minute \<le> pr_DepartureUnix r * ProviderService.second)
    \<and> length (pr_AvoidZones r) \<le> 8 \<and> (\<forall>z \<in> set (pr_AvoidZones r). zone_error 0 z = None)"
proof -
  have "validateRouteRequest r m t = None \<longleftrightarrow> set [check (\<not> requestIDPattern (pr_RequestID r)) RequestIDInvalid,
     map_option ROriginInvalid (GeoPoint_Validate (pr_Origin r)), map_option RDestinationInvalid (GeoPoint_Validate (pr_Destination r)),
     check (point_eq (pr_Origin r) (pr_Destination r)) REndpointsEqual, check (length (pr_Waypoints r) > 48) RTooManyWaypoints,
     map_option (\<lambda>(i, e). RWaypointInvalid i e) (first_invalid 0 (pr_Waypoints r)),
     check (pr_Alternatives r < 0 \<or> pr_Alternatives r > m) RAlternativesRange,
     check (pr_RequestBudget r < 1 \<or> pr_RequestBudget r > 20) RBudgetRange, check (pr_DeadlineMS r < 100 \<or> pr_DeadlineMS r > 30000) RDeadlineRange,
     check (pr_DepartureUnix r > 0 \<and> \<not> pr_Traffic r) RDepartureWithoutTraffic,
     check (pr_DepartureUnix r > 0 \<and> pr_DepartureUnix r * ProviderService.second < t - minute) RDepartureInPast,
     check (length (pr_AvoidZones r) > 8) RTooManyZones] \<subseteq> {None}
     \<and> set (map (\<lambda>(i, z). zone_error i z) (enumerate 0 (pr_AvoidZones r))) \<subseteq> {None}"
    unfolding validateRouteRequest_def first_some_None set_append Un_subset_iff ..
  then show ?thesis unfolding zones_None
    by (cases "0 < pr_DepartureUnix r") (simp_all add: GeoPoint_Validate_None first_invalid_None list_all_iff not_less)
qed

text \<open>Identifiers of the edge fit the pattern of the service.\<close>

lemma lower_hex_alnum: "isLowerHex c \<Longrightarrow> is_alnum c"
  by (auto simp: isLowerHex_def is_alnum_def is_digit_def to_lower_char_def Let_def less_eq_char_def)

lemma uuid_pattern:
  assumes "Valid s"
  shows "requestIDPattern s"
proof -
  have dashes: "length s = 36" "s ! 8 = CHR ''-''" "s ! 13 = CHR ''-''" "s ! 18 = CHR ''-''" "s ! 23 = CHR ''-''"
    and rest: "\<forall>i \<in> {0..<36}. i = 8 \<or> i = 13 \<or> i = 18 \<or> i = 23 \<or> isLowerHex (s ! i)"
    using assms by (auto simp: Valid_def list_all_iff split: if_splits)
  have s: "length s = 36" "\<And>i. i < 36 \<Longrightarrow> s ! i = CHR ''-'' \<or> isLowerHex (s ! i)"
  proof -
    show "s ! i = CHR ''-'' \<or> isLowerHex (s ! i)" if "i < 36" for i
      using bspec [OF rest, of i] that dashes(2-5) by force
  qed (rule dashes(1))
  then obtain c t where ct: "s = c # t" by (cases s) auto
  have "is_alnum c" using bspec [OF rest, of 0] lower_hex_alnum ct by simp
  moreover have "is_alnum d \<or> d \<in> set ''._:-''" if "d \<in> set t" for d
  proof -
    have "d \<in> set s" using that ct by simp
    then obtain i where "i < 36" "s ! i = d" unfolding in_set_conv_nth s(1) by blast
    with s(2) [of i] have "d = CHR ''-'' \<or> isLowerHex d" by blast
    then show ?thesis using lower_hex_alnum by fastforce
  qed
  ultimately show ?thesis using s(1) ct by (simp add: requestIDPattern_def list_all_iff)
qed

section \<open>The requests of a search\<close>

text \<open>What the service still has to check of a request of the engine.\<close>

definition service_conditions :: "time \<Rightarrow> ProviderRouteRequest \<Rightarrow> bool" where
  "service_conditions t r \<longleftrightarrow> \<not> point_eq (pr_Origin r) (pr_Destination r)
     \<and> (0 < pr_DepartureUnix r \<longrightarrow> t - minute \<le> pr_DepartureUnix r * ProviderService.second)
     \<and> length (pr_AvoidZones r) \<le> 8 \<and> (\<forall>z \<in> set (pr_AvoidZones r). 3 \<le> distinct_points (az_Points z))"

definition service_decides :: "int \<Rightarrow> ProviderRouteRequest \<Rightarrow> bool" where
  "service_decides m r \<longleftrightarrow> (\<forall>a t. 1 \<le> a \<and> a \<le> 20 \<longrightarrow> (validateRouteRequest (r\<lparr>pr_RequestBudget := a\<rparr>) m t = None \<longleftrightarrow> service_conditions t r))"

lemma within_decides:
  assumes "within_capabilities request caps r" "length (pr_Waypoints r) \<le> 48" "0 \<le> pc_MaxAlternatives caps" "requestIDPattern (pr_RequestID r)"
    and "100 \<le> pr_DeadlineMS r" "pr_DeadlineMS r \<le> 30000" "0 < pr_DepartureUnix r \<Longrightarrow> pr_Traffic r"
  shows "service_decides (pc_MaxAlternatives caps) r"
proof -
  have zones: "zone_error 0 z = None \<longleftrightarrow> 3 \<le> distinct_points (az_Points z)" if "z \<in> set (pr_AvoidZones r)" for z
    using assms(1) that by (auto simp: within_capabilities_def list_all_iff zone_ok_def zone_error_None)
  have "pr_Alternatives r \<le> pc_MaxAlternatives caps"
    using assms(1,3) by (simp add: within_capabilities_def)
  then show ?thesis
    using assms zones by (auto simp: service_decides_def service_conditions_def validateRouteRequest_None within_capabilities_def)
qed

text \<open>C34: The engine and the provider service on requests. A request of a search, with the capabilities that the service declared and the request id of the edge,
  passes the checks of the service exactly when its ends differ, its departure is at most a minute past, and it has at most eight avoid zones, each
  with three distinct points; all other checks (identifier, coordinates, alternatives, waypoints, budget, deadline, sizes of zones) always hold, also
  when the traveller's waypoints exceed the number that the capability document declares: the service does not compare them with it.\<close>

theorem requests_accepted_by_service:
  assumes "RouteSearchRequest_Validate now DefaultValidationLimits request = None" "w_sent w = []"
    and "discoverCapabilities reply e = (None, w_engine w)" "Valid (rq_RequestID request)"
  shows "case run_state (run ev lm request (accepted_result origin sid request t)) w of (final, w') \<Rightarrow>
    \<forall>r \<in> set (w_sent w'). \<forall>t. validateRouteRequest r (pc_MaxAlternatives (en_capabilities (w_engine w))) t = None \<longleftrightarrow>
      \<not> point_eq (pr_Origin r) (pr_Destination r)
      \<and> (0 < pr_DepartureUnix r \<longrightarrow> t - minute \<le> pr_DepartureUnix r * ProviderService.second)
      \<and> length (pr_AvoidZones r) \<le> 8 \<and> (\<forall>z \<in> set (pr_AvoidZones r). 3 \<le> distinct_points (az_Points z))"
proof -
  define caps where "caps = en_capabilities (w_engine w)"
  have caps: "pc_MaxWaypoints caps \<le> 50" "0 \<le> pc_MaxAlternatives caps" using discovered_limits [OF assms(3)] by (simp_all add: caps_def)
  have "validateRouteRequest r (pc_MaxAlternatives caps) t = None \<longleftrightarrow> service_conditions t r"
    if "1 \<le> pr_RequestBudget r" "pr_RequestBudget r \<le> 2" "within_capabilities request caps r" "from_search request r" for r t
  proof -
    have "length (rq_Waypoints request) \<le> 48" using assms(1) by (simp add: request_validate_None request_ok_def)
    then have waypoints: "length (pr_Waypoints r) \<le> 48" using that(3) caps(1) by (auto simp: within_capabilities_def)
    have "service_decides (pc_MaxAlternatives caps) r"
      using that(4) uuid_pattern [OF assms(4)] by (intro within_decides [OF that(3) waypoints caps(2)]) (auto simp: from_search_def)
    then show ?thesis using that(1,2)
      unfolding service_decides_def by (auto dest: spec [of _ "pr_RequestBudget r"])
  qed
  then show ?thesis
    using search_requests [OF assms(1-3)] unfolding caps_def [symmetric] service_conditions_def by (auto simp: list_all_iff split: prod.split)
qed

definition ex_sent :: RouteSearchRequest where
  "ex_sent = (ex_request RoutingModeStrictGreen)\<lparr>rq_RequestID := ''00000000-0000-4000-8000-000000000000''\<rparr>"

lemma ex_sent_valid: "RouteSearchRequest_Validate 0 DefaultValidationLimits ex_sent = None" "Valid (rq_RequestID ex_sent)"
proof -
  show "RouteSearchRequest_Validate 0 DefaultValidationLimits ex_sent = None"
    using ex_request_valid by (simp add: ex_sent_def RouteSearchRequest_Validate_def)
  show "Valid (rq_RequestID ex_sent)" unfolding ex_sent_def by code_simp
qed

theorem requests_accepted_by_service_witness:
  "case run_state (run ex_env ex_libm ex_sent (accepted_result ex_ready ''s'' ex_sent 0)) (ex_world\<lparr>w_engine := ex_ready\<rparr>) of (final, w') \<Rightarrow>
    \<forall>r \<in> set (w_sent w'). validateRouteRequest r (pc_MaxAlternatives (en_capabilities ex_ready)) 0 = None \<longrightarrow> length (pr_AvoidZones r) \<le> 8"
proof -
  let ?w = "ex_world\<lparr>w_engine := ex_ready\<rparr>"
  have "w_sent ?w = []" "discoverCapabilities (Reply 200 (Some ex_document)) (newEngine ex_config Map.empty) = (None, w_engine ?w)"
    using ex_discovered by (simp_all add: ex_world_def)
  from requests_accepted_by_service [OF ex_sent_valid(1) this(1,2) ex_sent_valid(2), where ev = ex_env and lm = ex_libm and origin = ex_ready and sid = "''s''" and t = 0]
  show ?thesis by (auto split: prod.splits)
qed

section \<open>Late departures\<close>

text \<open>What a search ends with is its result with the usage, times and warnings of the end.\<close>

lemma wp_any: "(\<And>a s'. Q a s') \<Longrightarrow> wp m Q s"
  by (simp add: wp_def split: prod.split)

lemma finish_keeps:
  "wp (finish ev result ty) (\<lambda>final _. rr_Status final = rr_Status result \<and> rr_SelectedRoute final = rr_SelectedRoute result
     \<and> set (rr_Warnings result) - {[]} \<subseteq> set (rr_Warnings final)) w"
proof -
  have last: "wp (finalize ev r ty msg) (\<lambda>_. wp (ret r) Q) w" if "\<And>w. Q r w" for r msg Q w
    by (rule wp_any) (simp add: wp_rules that)
  show ?thesis
    unfolding finish_def wp_bind
    by (simp add: clock_def reading_def the_engine_def on_budget_def on_stats_def on_engine_def wp_rules Let_def split: prod.split)
      (auto intro!: last simp: uniqueStrings_facts appendUniqueString_def)
qed

lemma routeWithBudget_refused:
  assumes "\<And>n a. \<exists>e. routes (env_reply ev n (q\<lparr>pr_RequestBudget := a\<rparr>)) (q\<lparr>pr_RequestBudget := a\<rparr>) = Inl e"
  shows "wp (routeWithBudget ev q) (\<lambda>reply _. \<exists>e. reply = Inl e) w"
proof -
  have "wp (end_call ev l (q\<lparr>pr_RequestBudget := a\<rparr>)) (\<lambda>reply _. \<exists>e. reply = Inl e) w" for l a w
    using assms [of "w_tick w" a] by (auto simp: end_call_def reading_def on_budget_def on_stats_def on_engine_def wp_rules split: prod.split)
  then show ?thesis
    by (simp add: routeWithBudget_def begin_call_def on_budget_def send_def wp_rules split: prod.split option.split)
qed

text \<open>C35: A recent departure ends a search. The validation of the orchestrator takes departures up to five minutes past, the provider service only up to one: whenever
  the departure of a request is more than a minute past for the service, every route request of the search is refused, and the search ends degraded
  without a route.\<close>

theorem late_departure_degrades:
  assumes "0 < departureUnix request" "departureUnix request * ProviderService.second < ts - minute"
    and "\<And>n r. validateRouteRequest r m ts \<noteq> None \<Longrightarrow> \<exists>e. routes (env_reply ev n r) r = Inl e"
  shows "case run_state (run ev lm request (accepted_result origin sid request t)) w of (final, _) \<Rightarrow>
    rr_Status final = SearchDegraded \<and> rr_SelectedRoute final = None \<and> ''PROVIDER_INITIAL_CANDIDATES_UNAVAILABLE'' \<in> set (rr_Warnings final)"
proof -
  let ?post = "\<lambda>final _. rr_Status final = SearchDegraded \<and> rr_SelectedRoute final = None
    \<and> ''PROVIDER_INITIAL_CANDIDATES_UNAVAILABLE'' \<in> set (rr_Warnings final)"
  let ?start = "(accepted_result origin sid request t)\<lparr>rr_Status := SearchSearching\<rparr>"
  have refused: "\<exists>e. routes (env_reply ev n ((initial_request caps request)\<lparr>pr_RequestBudget := a\<rparr>))
      ((initial_request caps request)\<lparr>pr_RequestBudget := a\<rparr>) = Inl e" for caps n a
    by (rule assms(3)) (use assms(1,2) in \<open>simp add: validateRouteRequest_None initial_request_def\<close>)
  have gone: "wp (degrade ev ?start ''PROVIDER_INITIAL_CANDIDATES_UNAVAILABLE'') ?post w" for w
    unfolding degrade_def by (rule wp_mono [OF finish_keeps]) (auto simp: warn_def accepted_result_def)
  have reply: "wp (routeWithBudget ev (initial_request caps request)) (\<lambda>reply. wp (case reply of
        Inl _ \<Rightarrow> do { count_degraded; degrade ev ?start ''PROVIDER_INITIAL_CANDIDATES_UNAVAILABLE'' } | Inr response \<Rightarrow> f response) ?post) w" for caps f w
    by (rule wp_mono [OF routeWithBudget_refused [OF refused]])
      (auto simp: wp_rules count_degraded_def on_stats_def on_engine_def gone)
  have "wp (run ev lm request (accepted_result origin sid request t)) ?post w"
    unfolding run_def wp_bind Let_def
    by (rule wp_any, rule wp_any, rule wp_any, rule wp_any, rule wp_any, rule wp_any, rule wp_any, rule reply)
  then show ?thesis by (simp add: wp_def)
qed

text \<open>A departure that is valid three minutes later, and a service that is not reached.\<close>

definition ex_late :: RouteSearchRequest where
  "ex_late = (ex_request RoutingModeStrictGreen)\<lparr>rq_DepartureTime := Some (20 * ProviderService.second)\<rparr>"

theorem late_departure_degrades_witness:
  "RouteSearchRequest_Validate (200 * ProviderService.second) DefaultValidationLimits ex_late = None
    \<and> (case run_state (run ex_env ex_libm ex_late (accepted_result ex_ready ''s'' ex_late 0)) ex_world of (final, _) \<Rightarrow> rr_Status final = SearchDegraded)"
proof
  show "RouteSearchRequest_Validate (200 * ProviderService.second) DefaultValidationLimits ex_late = None"
    by (simp add: request_validate_None request_ok_def ex_late_def ex_request_def ex_point_def point_ok_def frange_def one_f64_def minute_def ProviderService.second_def)
  have "0 < departureUnix ex_late" "departureUnix ex_late * ProviderService.second < 200 * ProviderService.second - minute"
    by (simp_all add: departureUnix_def ex_late_def ProviderService.second_def minute_def)
  moreover have "\<exists>e. routes (env_reply ex_env n r) r = Inl e" for n r by (simp add: ex_env_def routes_def)
  ultimately show "case run_state (run ex_env ex_libm ex_late (accepted_result ex_ready ''s'' ex_late 0)) ex_world of (final, _) \<Rightarrow> rr_Status final = SearchDegraded"
    using late_departure_degrades [of ex_late "200 * ProviderService.second" 2 ex_env ex_libm ex_ready "''s''" 0 ex_world] by auto
qed

end
