(* ===== verification/Httpx.thy ===== *)
theory Httpx
  imports GoText
begin

text \<open>
  Requests and responses of the HTTP services (\<open>internal/httpx/httpx.go\<close>): what handlers read of a request and set of a response, problem and JSON
  answers, and the checks on a JSON body. The JSON encoder and decoder are arguments.
\<close>

section \<open>Requests and responses\<close>

text \<open>\<open>hr_Header\<close> is \<open>Header.Get\<close>: empty when the header is missing.\<close>

record http_request =
  hr_Method :: string
  hr_Path :: string
  hr_Header :: "string \<Rightarrow> string"
  hr_RemoteAddr :: string

record Problem =
  pb_Type :: string
  pb_Title :: string
  pb_Status :: int
  pb_Detail :: string
  pb_Instance :: string
  pb_CorrelationID :: string

datatype response_body = NoBody | ProblemBody Problem | RawBody string

text \<open>The headers are those the code sets, in order.\<close>

record response =
  ws_Status :: int
  ws_Headers :: "(string \<times> string) list"
  ws_Body :: response_body

section \<open>Answers\<close>

text \<open>\<open>httpx.WriteProblem\<close> with the headers set before it.\<close>

definition WriteProblem :: "(string \<times> string) list \<Rightarrow> Problem \<Rightarrow> response" where
  "WriteProblem headers p =
     (let p = p\<lparr>pb_Type := (if pb_Type p = [] then ''about:blank'' else pb_Type p), pb_Status := (if pb_Status p = 0 then 500 else pb_Status p)\<rparr> in
      \<lparr> ws_Status = pb_Status p,
        ws_Headers = headers @ [(''Content-Type'', ''application/problem+json; charset=utf-8''), (''X-Content-Type-Options'', ''nosniff'')],
        ws_Body = ProblemBody p \<rparr>)"

text \<open>\<open>WriteJSON\<close> of a value that the encoder writes as \<open>text\<close>.\<close>

definition WriteJSON :: "(string \<times> string) list \<Rightarrow> int \<Rightarrow> string \<Rightarrow> response" where
  "WriteJSON headers status text = \<lparr> ws_Status = status,
     ws_Headers = headers @ [(''Content-Type'', ''application/json; charset=utf-8''), (''X-Content-Type-Options'', ''nosniff'')], ws_Body = RawBody text \<rparr>"

section \<open>JSON bodies\<close>

text \<open>\<open>DecodeJSON\<close>; the decoder's answer is its error or the value, with whether the body ends after it.\<close>

definition DecodeJSON :: "http_request \<Rightarrow> string + 'a \<times> bool \<Rightarrow> string + 'a" where
  "DecodeJSON r decoded =
     (let mediaType = to_lower (trim_space (hd (Split (CHR '';'') (hr_Header r ''Content-Type'')))) in
      if mediaType \<noteq> ''application/json'' then Inl ''content-type must be application/json''
      else (case decoded of
          Inl e \<Rightarrow> Inl (''invalid JSON body: '' @ e)
        | Inr (value, ends) \<Rightarrow> if ends then Inr value else Inl ''request body must contain one JSON object''))"

end
