(* ===== verification/Environment.thy ===== *)
theory Environment
  imports GoText
begin

text \<open>
  The readers of environment variables, which \<open>services/edge-api/config.go\<close> and \<open>services/routing-orchestrator/config.go\<close> both define with the same
  bodies. The environment is a function from names to values, empty when a variable is not set; the parser of durations of Go's library is an
  argument.
\<close>

section \<open>Reading variables\<close>

text \<open>An error is the text that names the variable.\<close>

definition env :: "(string \<Rightarrow> string) \<Rightarrow> string \<Rightarrow> string \<Rightarrow> string" where
  "env getenv name fallback = (let value = trim_space (getenv name) in if value \<noteq> [] then value else fallback)"

text \<open>\<open>strconv.ParseBool\<close>.\<close>

definition ParseBool :: "string \<Rightarrow> bool option" where
  "ParseBool s =
     (if s \<in> {''1'', ''t'', ''T'', ''true'', ''TRUE'', ''True''} then Some True
      else if s \<in> {''0'', ''f'', ''F'', ''false'', ''FALSE'', ''False''} then Some False else None)"

definition env_parsed :: "(string \<Rightarrow> 'a option) \<Rightarrow> string \<Rightarrow> (string \<Rightarrow> string) \<Rightarrow> string \<Rightarrow> 'a \<Rightarrow> string + 'a" where
  "env_parsed parse what getenv name fallback =
     (let value = trim_space (getenv name) in
      if value = [] then Inr fallback
      else (case parse value of None \<Rightarrow> Inl (name @ '' must be '' @ what) | Some v \<Rightarrow> Inr v))"

definition envBool :: "(string \<Rightarrow> string) \<Rightarrow> string \<Rightarrow> bool \<Rightarrow> string + bool" where
  "envBool = env_parsed ParseBool ''a boolean''"

definition envInt :: "(string \<Rightarrow> string) \<Rightarrow> string \<Rightarrow> int \<Rightarrow> string + int" where
  "envInt = env_parsed ParseInt ''an integer''"

definition envDuration :: "(string \<Rightarrow> duration option) \<Rightarrow> (string \<Rightarrow> string) \<Rightarrow> string \<Rightarrow> duration \<Rightarrow> string + duration" where
  "envDuration parse_duration = env_parsed parse_duration ''a duration''"

definition envFloat :: "(string \<Rightarrow> string) \<Rightarrow> string \<Rightarrow> f64 \<Rightarrow> string + f64" where
  "envFloat = env_parsed ParseFloat ''a number''"

definition parseEnvironment :: "string \<Rightarrow> string option" where
  "parseEnvironment raw =
     (let value = to_lower (trim_space raw) in
      if value \<in> {'''', ''development'', ''dev''} then Some ''development''
      else if value = ''local'' then Some ''local''
      else if value \<in> {''test'', ''testing''} then Some ''test''
      else if value \<in> {''stage'', ''staging''} then Some ''staging''
      else if value \<in> {''prod'', ''production''} then Some ''production''
      else None)"

section \<open>Loading a configuration\<close>

text \<open>The range checks.\<close>

definition outside :: "int \<Rightarrow> int \<Rightarrow> int \<Rightarrow> bool" where
  "outside low high v \<longleftrightarrow> v < low \<or> high < v"

lemma outside_iff [simp]: "\<not> outside low high v \<longleftrightarrow> low \<le> v \<and> v \<le> high"
  by (auto simp: outside_def)

definition seconds :: "int \<Rightarrow> duration" where
  "seconds n = n * 10 ^ 9"

text \<open>A variable is read and stored, or the first error ends the loading.\<close>

definition store :: "string + 'a \<Rightarrow> ('a \<Rightarrow> 'c \<Rightarrow> 'c) \<Rightarrow> string + 'c \<Rightarrow> string + 'c" where
  "store value put c = (case c of Inl e \<Rightarrow> Inl e | Inr c \<Rightarrow> (case value of Inl e \<Rightarrow> Inl e | Inr v \<Rightarrow> Inr (put v c)))"

end
