(* ===== verification/EdgeConfig.thy ===== *)
theory EdgeConfig
  imports Environment
begin

text \<open>
  The configuration of the edge (\<open>services/edge-api/config.go\<close>): the record, \<open>loadConfig\<close> with all its checks. The environment and Go's parsers
  of durations and URLs are arguments.
\<close>

section \<open>Service addresses\<close>

text \<open>What \<open>validatedServiceURL\<close> reads of a parsed URL.\<close>

record url =
  url_Scheme :: string
  url_Host :: string
  url_User :: bool
  url_RawQuery :: string
  url_Fragment :: string

definition validatedServiceURL :: "(string \<Rightarrow> url option) \<Rightarrow> string \<Rightarrow> url option" where
  "validatedServiceURL parse_url raw = (case parse_url raw of
     None \<Rightarrow> None
   | Some parsed \<Rightarrow>
       if url_Host parsed = [] \<or> url_Scheme parsed \<noteq> ''http'' \<and> url_Scheme parsed \<noteq> ''https'' \<or> url_User parsed
          \<or> url_RawQuery parsed \<noteq> [] \<or> url_Fragment parsed \<noteq> [] then None else Some parsed)"

definition splitCSV :: "string \<Rightarrow> string list" where
  "splitCSV value = filter (\<lambda>item. item \<noteq> []) (map trim_space (Split (CHR '','') value))"

section \<open>The configuration\<close>

definition minimumRatePerMinute :: int where "minimumRatePerMinute = 1"
definition maximumRatePerMinute :: int where "maximumRatePerMinute = 1000000"

record edgeConfig =
  ec_Environment :: string
  ec_Address :: string
  ec_OrchestratorURL :: string
  ec_ProviderURL :: string
  ec_InternalToken :: string
  ec_RedisURL :: string
  ec_DatabaseURL :: string
  ec_RequireRedis :: bool
  ec_RequireDatabase :: bool
  ec_AnonymousUsage :: bool
  ec_LocalAnonymousAdmin :: bool
  ec_OIDCIssuerURL :: string
  ec_OIDCClientID :: string
  ec_OIDCAdminGroup :: string
  ec_CORSOrigins :: "string list"
  ec_TrustedProxyCIDRs :: "string list"
  ec_IPRequestsPerMinute :: int
  ec_UserRequestsPerMinute :: int
  ec_SearchesPerMinute :: int
  ec_MaximumConcurrent :: int
  ec_MaxConcurrentSSE :: int
  ec_MaxSSEPerPrincipal :: int
  ec_SSEMaxLifetime :: duration
  ec_SSEIdleTimeout :: duration
  ec_IdempotencyTTL :: duration
  ec_OwnershipTTL :: duration
  ec_ShutdownGrace :: duration
  ec_AuditHashKey :: string
  ec_AbuseHashKey :: string
  ec_AbusePreviousHashKey :: string
  ec_AuditRetention :: duration
  ec_AuditPurgeInterval :: duration

text \<open>The variables that are read as plain text, with the zero value for all others.\<close>

definition text_config :: "(string \<Rightarrow> string) \<Rightarrow> string \<Rightarrow> edgeConfig" where
  "text_config getenv environment = \<lparr>
     ec_Environment = environment, ec_Address = env getenv ''EDGE_ADDR'' '':8080'',
     ec_OrchestratorURL = env getenv ''ORCHESTRATOR_URL'' ''http://localhost:8081'',
     ec_ProviderURL = env getenv ''PROVIDER_URL'' ''http://localhost:8082'',
     ec_InternalToken = trim_space (getenv ''INTERNAL_API_TOKEN''), ec_RedisURL = trim_space (getenv ''REDIS_URL''),
     ec_DatabaseURL = trim_space (getenv ''DATABASE_URL''), ec_RequireRedis = False, ec_RequireDatabase = False,
     ec_AnonymousUsage = False, ec_LocalAnonymousAdmin = False,
     ec_OIDCIssuerURL = trim_space (getenv ''OIDC_ISSUER_URL''), ec_OIDCClientID = trim_space (getenv ''OIDC_CLIENT_ID''),
     ec_OIDCAdminGroup = env getenv ''OIDC_ADMIN_GROUP'' ''greenroute-admins'',
     ec_CORSOrigins = splitCSV (getenv ''CORS_ALLOWED_ORIGINS''), ec_TrustedProxyCIDRs = splitCSV (getenv ''TRUSTED_PROXY_CIDRS''),
     ec_IPRequestsPerMinute = 0, ec_UserRequestsPerMinute = 0, ec_SearchesPerMinute = 0, ec_MaximumConcurrent = 0,
     ec_MaxConcurrentSSE = 0, ec_MaxSSEPerPrincipal = 0, ec_SSEMaxLifetime = 0, ec_SSEIdleTimeout = 0, ec_IdempotencyTTL = 0,
     ec_OwnershipTTL = 0, ec_ShutdownGrace = 0, ec_AuditHashKey = trim_space (getenv ''AUDIT_HASH_KEY''),
     ec_AbuseHashKey = trim_space (getenv ''ABUSE_HASH_KEY''), ec_AbusePreviousHashKey = trim_space (getenv ''ABUSE_PREVIOUS_HASH_KEY''),
     ec_AuditRetention = 0, ec_AuditPurgeInterval = 0 \<rparr>"

definition read_config :: "(string \<Rightarrow> duration option) \<Rightarrow> (string \<Rightarrow> string) \<Rightarrow> string \<Rightarrow> string + edgeConfig" where
  "read_config parse_duration getenv environment =
     (let duration = envDuration parse_duration getenv in
      fold (\<lambda>step c. step c)
        [store (envBool getenv ''REQUIRE_REDIS'' False) (\<lambda>v. ec_RequireRedis_update (\<lambda>_. v)),
         store (envBool getenv ''REQUIRE_DATABASE'' False) (\<lambda>v. ec_RequireDatabase_update (\<lambda>_. v)),
         store (envBool getenv ''ENABLE_ANONYMOUS_USAGE'' False) (\<lambda>v. ec_AnonymousUsage_update (\<lambda>_. v)),
         store (envBool getenv ''ENABLE_LOCAL_ANONYMOUS_ADMIN'' (environment = ''local'')) (\<lambda>v. ec_LocalAnonymousAdmin_update (\<lambda>_. v)),
         store (envInt getenv ''RATE_LIMIT_IP_PER_MINUTE'' 60) (\<lambda>v. ec_IPRequestsPerMinute_update (\<lambda>_. v)),
         store (envInt getenv ''RATE_LIMIT_USER_PER_MINUTE'' 120) (\<lambda>v. ec_UserRequestsPerMinute_update (\<lambda>_. v)),
         store (envInt getenv ''RATE_LIMIT_SEARCH_PER_MINUTE'' 12) (\<lambda>v. ec_SearchesPerMinute_update (\<lambda>_. v)),
         store (envInt getenv ''MAX_CONCURRENT_EDGE_REQUESTS'' 256) (\<lambda>v. ec_MaximumConcurrent_update (\<lambda>_. v)),
         store (envInt getenv ''MAX_CONCURRENT_SSE'' 64) (\<lambda>v. ec_MaxConcurrentSSE_update (\<lambda>_. v)),
         store (envInt getenv ''MAX_SSE_PER_PRINCIPAL'' 3) (\<lambda>v. ec_MaxSSEPerPrincipal_update (\<lambda>_. v)),
         store (duration ''SSE_MAX_LIFETIME'' (seconds 1800)) (\<lambda>v. ec_SSEMaxLifetime_update (\<lambda>_. v)),
         store (duration ''SSE_IDLE_TIMEOUT'' (seconds 45)) (\<lambda>v. ec_SSEIdleTimeout_update (\<lambda>_. v)),
         store (duration ''IDEMPOTENCY_TTL'' (seconds 900)) (\<lambda>v. ec_IdempotencyTTL_update (\<lambda>_. v)),
         store (duration ''SEARCH_OWNERSHIP_TTL'' (seconds 1800)) (\<lambda>v. ec_OwnershipTTL_update (\<lambda>_. v)),
         store (duration ''SHUTDOWN_GRACE_PERIOD'' (seconds 20)) (\<lambda>v. ec_ShutdownGrace_update (\<lambda>_. v)),
         store (duration ''AUDIT_RETENTION'' (seconds 7776000)) (\<lambda>v. ec_AuditRetention_update (\<lambda>_. v)),
         store (duration ''AUDIT_PURGE_INTERVAL'' (seconds 86400)) (\<lambda>v. ec_AuditPurgeInterval_update (\<lambda>_. v))]
        (Inr (text_config getenv environment)))"

definition production_error :: "edgeConfig \<Rightarrow> string option" where
  "production_error c = first_some [
     check (length (ec_InternalToken c) < 32) ''INTERNAL_API_TOKEN of at least 32 characters is required in production'',
     check (ec_AnonymousUsage c) ''ENABLE_ANONYMOUS_USAGE must be false in production'',
     check (ec_OIDCIssuerURL c = [] \<or> ec_OIDCClientID c = []) ''OIDC_ISSUER_URL and OIDC_CLIENT_ID are required in production'',
     check (\<not> ec_RequireRedis c \<or> \<not> ec_RequireDatabase c) ''production requires REQUIRE_REDIS=true and REQUIRE_DATABASE=true'',
     check (length (ec_AuditHashKey c) < 32) ''AUDIT_HASH_KEY of at least 32 characters is required in production'',
     check (length (ec_AbuseHashKey c) < 32) ''ABUSE_HASH_KEY of at least 32 characters is required in production'']"

definition limits_error :: "edgeConfig \<Rightarrow> string option" where
  "limits_error c = first_some [
     check (outside minimumRatePerMinute maximumRatePerMinute (ec_IPRequestsPerMinute c)) ''RATE_LIMIT_IP_PER_MINUTE must be between 1 and 1000000'',
     check (outside minimumRatePerMinute maximumRatePerMinute (ec_UserRequestsPerMinute c)) ''RATE_LIMIT_USER_PER_MINUTE must be between 1 and 1000000'',
     check (outside minimumRatePerMinute maximumRatePerMinute (ec_SearchesPerMinute c)) ''RATE_LIMIT_SEARCH_PER_MINUTE must be between 1 and 1000000'',
     check (outside 1 10000 (ec_MaximumConcurrent c)) ''MAX_CONCURRENT_EDGE_REQUESTS must be between 1 and 10000'',
     check (outside 1 1000 (ec_MaxConcurrentSSE c)) ''MAX_CONCURRENT_SSE must be between 1 and 1000'',
     check (ec_MaximumConcurrent c \<le> ec_MaxConcurrentSSE c) ''MAX_CONCURRENT_SSE must be less than MAX_CONCURRENT_EDGE_REQUESTS'',
     check (outside 1 20 (ec_MaxSSEPerPrincipal c)) ''MAX_SSE_PER_PRINCIPAL must be between 1 and 20'',
     check (outside (seconds 60) (seconds 7200) (ec_SSEMaxLifetime c)) ''SSE_MAX_LIFETIME must be between 1m and 2h'',
     check (outside (seconds 5) (seconds 300) (ec_SSEIdleTimeout c)) ''SSE_IDLE_TIMEOUT must be between 5s and 5m'',
     check (outside (seconds 60) (seconds 86400) (ec_IdempotencyTTL c)) ''IDEMPOTENCY_TTL must be between 1m and 24h'',
     check (outside (seconds 60) (seconds 86400) (ec_OwnershipTTL c)) ''SEARCH_OWNERSHIP_TTL must be between 1m and 24h'',
     check (outside (seconds 1) (seconds 300) (ec_ShutdownGrace c)) ''SHUTDOWN_GRACE_PERIOD must be between 1s and 5m'',
     check (outside (seconds 86400) (seconds 31536000) (ec_AuditRetention c)) ''AUDIT_RETENTION must be between 24h and 8760h'',
     check (outside (seconds 60) (seconds 86400) (ec_AuditPurgeInterval c)) ''AUDIT_PURGE_INTERVAL must be between 1m and 24h'',
     check (ec_AuditRetention c < ec_AuditPurgeInterval c) ''AUDIT_PURGE_INTERVAL must not exceed AUDIT_RETENTION'']"

definition config_invalid :: "(string \<Rightarrow> url option) \<Rightarrow> edgeConfig \<Rightarrow> string option" where
  "config_invalid parse_url c = first_some [
     check (validatedServiceURL parse_url (ec_OrchestratorURL c) = None)
       ''ORCHESTRATOR_URL: must be an absolute http(s) URL without userinfo, query, or fragment'',
     check (validatedServiceURL parse_url (ec_ProviderURL c) = None)
       ''PROVIDER_URL: must be an absolute http(s) URL without userinfo, query, or fragment'',
     (if ec_Environment c = ''production'' then production_error c else None),
     check (ec_AbusePreviousHashKey c \<noteq> [] \<and> length (ec_AbusePreviousHashKey c) < 32) ''ABUSE_PREVIOUS_HASH_KEY must be empty or at least 32 characters'',
     check (ec_LocalAnonymousAdmin c \<and> ec_Environment c \<noteq> ''local'') ''ENABLE_LOCAL_ANONYMOUS_ADMIN is allowed only when APP_ENV=local'',
     check (ec_LocalAnonymousAdmin c \<and> \<not> ec_AnonymousUsage c) ''ENABLE_LOCAL_ANONYMOUS_ADMIN requires ENABLE_ANONYMOUS_USAGE=true'',
     check (\<not> ec_AnonymousUsage c \<and> (ec_OIDCIssuerURL c = [] \<or> ec_OIDCClientID c = [])) ''OIDC configuration is required when anonymous usage is disabled'',
     check (ec_RequireRedis c \<and> ec_RedisURL c = []) ''REDIS_URL is required'',
     check (ec_RequireDatabase c \<and> ec_DatabaseURL c = []) ''DATABASE_URL is required'',
     limits_error c]"

definition loadConfig :: "(string \<Rightarrow> duration option) \<Rightarrow> (string \<Rightarrow> url option) \<Rightarrow> (string \<Rightarrow> string) \<Rightarrow> string + edgeConfig" where
  "loadConfig parse_duration parse_url getenv = (case parseEnvironment (getenv ''APP_ENV'') of
     None \<Rightarrow> Inl ''APP_ENV must be one of local, development, test, staging, or production''
   | Some environment \<Rightarrow> (case read_config parse_duration getenv environment of
         Inl e \<Rightarrow> Inl e
       | Inr c \<Rightarrow> (case config_invalid parse_url c of Some e \<Rightarrow> Inl e | None \<Rightarrow> Inr c)))"

section \<open>What an accepted configuration guarantees\<close>

lemma loadConfig_valid: "loadConfig parse_duration parse_url getenv = Inr c \<Longrightarrow> config_invalid parse_url c = None"
  by (auto simp: loadConfig_def split: option.splits sum.splits)

lemma limits_error_None:
  assumes "limits_error c = None"
  shows "1 \<le> ec_MaxConcurrentSSE c" "ec_MaxConcurrentSSE c < ec_MaximumConcurrent c" "1 \<le> ec_MaxSSEPerPrincipal c"
    "1 \<le> ec_IPRequestsPerMinute c" "1 \<le> ec_UserRequestsPerMinute c" "1 \<le> ec_SearchesPerMinute c"
    "seconds 60 \<le> ec_IdempotencyTTL c" "seconds 60 \<le> ec_OwnershipTTL c"
  using assms by (simp_all add: limits_error_def outside_def minimumRatePerMinute_def maximumRatePerMinute_def)

lemma loadConfig_anonymous:
  assumes "loadConfig parse_duration parse_url getenv = Inr c"
  shows "ec_AnonymousUsage c \<longrightarrow> ec_Environment c \<noteq> ''production''" "ec_LocalAnonymousAdmin c \<longrightarrow> ec_Environment c = ''local''"
  using loadConfig_valid [OF assms] by (auto simp: config_invalid_def production_error_def)

text \<open>The configuration fails closed. Whatever the environment holds, a configuration that is accepted in production has an internal token,
  an audit key and an abuse key of at least 32 characters, no anonymous usage, an identity provider, and a required state store and
  database with their addresses; an anonymous administrator exists only in a local environment with anonymous usage; without anonymous usage there is an
  identity provider; and every limit is positive, with room for requests beside the event streams.\<close>

theorem config_fails_closed:
  assumes "loadConfig parse_duration parse_url getenv = Inr c"
  shows "(ec_Environment c = ''production'' \<longrightarrow> 32 \<le> length (ec_InternalToken c) \<and> 32 \<le> length (ec_AuditHashKey c)
      \<and> 32 \<le> length (ec_AbuseHashKey c) \<and> \<not> ec_AnonymousUsage c \<and> \<not> ec_LocalAnonymousAdmin c
      \<and> ec_OIDCIssuerURL c \<noteq> [] \<and> ec_OIDCClientID c \<noteq> [] \<and> ec_RedisURL c \<noteq> [] \<and> ec_DatabaseURL c \<noteq> [])
    \<and> (ec_LocalAnonymousAdmin c \<longrightarrow> ec_Environment c = ''local'' \<and> ec_AnonymousUsage c)
    \<and> (ec_AnonymousUsage c \<or> ec_OIDCIssuerURL c \<noteq> [] \<and> ec_OIDCClientID c \<noteq> [])
    \<and> 1 \<le> ec_MaxConcurrentSSE c \<and> ec_MaxConcurrentSSE c < ec_MaximumConcurrent c \<and> 1 \<le> ec_MaxSSEPerPrincipal c
    \<and> 1 \<le> ec_IPRequestsPerMinute c \<and> 1 \<le> ec_UserRequestsPerMinute c \<and> 1 \<le> ec_SearchesPerMinute c"
proof -
  have v: "config_invalid parse_url c = None" using loadConfig_valid [OF assms] .
  then have "limits_error c = None" by (simp add: config_invalid_def)
  note limits = limits_error_None [OF this]
  have "production_error c = None" if "ec_Environment c = ''production''" using v that by (simp add: config_invalid_def)
  then show ?thesis using v limits by (auto simp: config_invalid_def production_error_def)
qed

text \<open>An environment for examples.\<close>

definition ex_environment :: "string \<Rightarrow> string" where
  "ex_environment name = (case map_of [
     (''APP_ENV'', ''prod''), (''INTERNAL_API_TOKEN'', replicate 32 (CHR ''t'')), (''AUDIT_HASH_KEY'', replicate 32 (CHR ''a'')),
     (''ABUSE_HASH_KEY'', replicate 32 (CHR ''k'')), (''OIDC_ISSUER_URL'', ''https://id''), (''OIDC_CLIENT_ID'', ''web''),
     (''REQUIRE_REDIS'', ''true''), (''REDIS_URL'', ''redis''), (''REQUIRE_DATABASE'', ''true''), (''DATABASE_URL'', ''postgres'')] name of Some v \<Rightarrow> v | None \<Rightarrow> [])"

definition ex_url :: url where
  "ex_url = \<lparr> url_Scheme = ''http'', url_Host = ''orchestrator'', url_User = False, url_RawQuery = [], url_Fragment = [] \<rparr>"

lemma ex_environment_loads:
  "case loadConfig (\<lambda>_. None) (\<lambda>_. Some ex_url) ex_environment of Inl e \<Rightarrow> False | Inr c \<Rightarrow> ec_Environment c = ''production''"
  by code_simp

theorem config_fails_closed_witness:
  "\<exists>c. loadConfig (\<lambda>_. None) (\<lambda>_. Some ex_url) ex_environment = Inr c \<and> 32 \<le> length (ec_AbuseHashKey c) \<and> \<not> ec_AnonymousUsage c"
proof -
  obtain c where c: "loadConfig (\<lambda>_. None) (\<lambda>_. Some ex_url) ex_environment = Inr c" "ec_Environment c = ''production''"
    using ex_environment_loads by (auto split: sum.splits)
  from config_fails_closed [OF c(1)] c show ?thesis by blast
qed

end
