(* ===== verification/EdgeState.thy ===== *)
theory EdgeState
  imports Ids
begin

text \<open>
  The in-memory state of the edge service (\<open>services/edge-api/state.go\<close>): idempotency claims of search requests, owners of searches and
  rate counters. Every operation holds the mutex, so concurrent requests are sequences of operations in some order. The
  readings of the clock and the random bytes of a new claim token are arguments.
\<close>

section \<open>State and operations\<close>

text \<open>\<open>StateUnavailable\<close> stands for every other error of a store; the in-memory one has none.\<close>

datatype state_error = errStateNotFound | errStateConflict | errStateInProgress | StateUnavailable

record idempotencyRecord =
  ir_BodyHash :: string
  ir_ClaimToken :: string
  ir_Pending :: bool
  ir_SearchID :: string
  ir_ExpiresAt :: time

text \<open>A stored value with its expiry.\<close>

record 'a memoryValue =
  mv_value :: 'a
  mv_expiresAt :: time

record memoryState =
  ms_idempotency :: "string \<rightharpoonup> idempotencyRecord memoryValue"
  ms_idempotencyFingerprints :: "string \<rightharpoonup> string memoryValue"
  ms_owners :: "string \<rightharpoonup> string memoryValue"
  ms_counters :: "string \<rightharpoonup> int64 memoryValue"

definition newMemoryState :: memoryState where
  "newMemoryState = \<lparr> ms_idempotency = Map.empty, ms_idempotencyFingerprints = Map.empty, ms_owners = Map.empty, ms_counters = Map.empty \<rparr>"

text \<open>The answer of \<open>BeginIdempotency\<close>: the record, the claim token and the error.\<close>

type_synonym begin_answer = "idempotencyRecord option \<times> string \<times> state_error option"

definition existing_answer :: "string \<Rightarrow> time \<Rightarrow> duration \<Rightarrow> string \<Rightarrow> idempotencyRecord \<Rightarrow> memoryState \<Rightarrow> begin_answer \<times> memoryState" where
  "existing_answer key now recordTTL bodyHash record s =
     (if ir_BodyHash record \<noteq> bodyHash then ((None, '''', Some errStateConflict), s)
      else
        let s = s\<lparr>ms_idempotencyFingerprints := (ms_idempotencyFingerprints s)(key \<mapsto> \<lparr> mv_value = ir_BodyHash record, mv_expiresAt = now + recordTTL \<rparr>)\<rparr> in
        if ir_Pending record then ((None, ir_ClaimToken record, Some errStateInProgress), s)
        else ((Some record, '''', None), s))"

definition new_claim :: "8 word list \<Rightarrow> string \<Rightarrow> time \<Rightarrow> duration \<Rightarrow> string \<Rightarrow> memoryState \<Rightarrow> begin_answer \<times> memoryState" where
  "new_claim rand key now claimTTL bodyHash s =
     (let claimToken = New rand;
          record = \<lparr> ir_BodyHash = bodyHash, ir_ClaimToken = claimToken, ir_Pending = True, ir_SearchID = '''', ir_ExpiresAt = now + claimTTL \<rparr>
      in ((None, claimToken, None),
          s\<lparr>ms_idempotency := (ms_idempotency s)(key \<mapsto> \<lparr> mv_value = record, mv_expiresAt = ir_ExpiresAt record \<rparr>)\<rparr>))"

text \<open>No live record: the fingerprint of an earlier body still counts.\<close>

definition claim_free ::
    "8 word list \<Rightarrow> time \<Rightarrow> string \<Rightarrow> string \<Rightarrow> duration \<Rightarrow> duration \<Rightarrow> memoryState \<Rightarrow> begin_answer \<times> memoryState" where
  "claim_free rand now key bodyHash recordTTL claimTTL s =
     (let fresh = s\<lparr>ms_idempotencyFingerprints := (ms_idempotencyFingerprints s)(key \<mapsto> \<lparr> mv_value = bodyHash, mv_expiresAt = now + recordTTL \<rparr>)\<rparr> in
      case ms_idempotencyFingerprints s key of
        Some fingerprint \<Rightarrow>
          if now < mv_expiresAt fingerprint then
            if mv_value fingerprint \<noteq> bodyHash then ((None, '''', Some errStateConflict), s)
            else new_claim rand key now claimTTL bodyHash s
          else new_claim rand key now claimTTL bodyHash fresh
      | None \<Rightarrow> new_claim rand key now claimTTL bodyHash fresh)"

definition BeginIdempotency ::
    "8 word list \<Rightarrow> time \<Rightarrow> string \<Rightarrow> string \<Rightarrow> duration \<Rightarrow> duration \<Rightarrow> memoryState \<Rightarrow> begin_answer \<times> memoryState" where
  "BeginIdempotency rand now key bodyHash recordTTL claimTTL s =
     (case ms_idempotency s key of
        Some stored \<Rightarrow>
          if now < mv_expiresAt stored then existing_answer key now recordTTL bodyHash (mv_value stored) s
          else claim_free rand now key bodyHash recordTTL claimTTL (s\<lparr>ms_idempotency := (ms_idempotency s)(key := None)\<rparr>)
      | None \<Rightarrow> claim_free rand now key bodyHash recordTTL claimTTL (s\<lparr>ms_idempotency := (ms_idempotency s)(key := None)\<rparr>))"

text \<open>\<open>now\<close> and \<open>now'\<close> are the two readings of the clock.\<close>

definition CompleteIdempotency ::
    "time \<Rightarrow> time \<Rightarrow> string \<Rightarrow> string \<Rightarrow> string \<Rightarrow> string \<Rightarrow> duration \<Rightarrow> memoryState \<Rightarrow> state_error option \<times> memoryState" where
  "CompleteIdempotency now now' key bodyHash claimToken searchID ttl s =
     (case ms_idempotency s key of
        None \<Rightarrow> (Some errStateNotFound, s)
      | Some stored \<Rightarrow>
          if now > mv_expiresAt stored then (Some errStateNotFound, s\<lparr>ms_idempotency := (ms_idempotency s)(key := None)\<rparr>)
          else let record = mv_value stored in
            if ir_BodyHash record \<noteq> bodyHash \<or> ir_ClaimToken record \<noteq> claimToken \<or> \<not> ir_Pending record then (Some errStateConflict, s)
            else let record = record\<lparr>ir_Pending := False, ir_SearchID := searchID, ir_ExpiresAt := now' + ttl, ir_ClaimToken := ''''\<rparr> in
              (None, s\<lparr>ms_idempotency := (ms_idempotency s)(key \<mapsto> \<lparr> mv_value = record, mv_expiresAt = ir_ExpiresAt record \<rparr>),
                ms_idempotencyFingerprints := (ms_idempotencyFingerprints s)(key \<mapsto> \<lparr> mv_value = bodyHash, mv_expiresAt = ir_ExpiresAt record \<rparr>)\<rparr>))"

definition ForgetIdempotency :: "time \<Rightarrow> string \<Rightarrow> string \<Rightarrow> memoryState \<Rightarrow> state_error option \<times> memoryState" where
  "ForgetIdempotency now key claimToken s =
     (case ms_idempotency s key of
        None \<Rightarrow> (Some errStateNotFound, s)
      | Some stored \<Rightarrow>
          if now > mv_expiresAt stored then (Some errStateNotFound, s\<lparr>ms_idempotency := (ms_idempotency s)(key := None)\<rparr>)
          else if \<not> ir_Pending (mv_value stored) \<or> ir_ClaimToken (mv_value stored) \<noteq> claimToken then (Some errStateConflict, s)
          else (None, s\<lparr>ms_idempotency := (ms_idempotency s)(key := None),
            ms_idempotencyFingerprints := (ms_idempotencyFingerprints s)(key := None)\<rparr>))"

definition SetOwner :: "time \<Rightarrow> string \<Rightarrow> string \<Rightarrow> duration \<Rightarrow> memoryState \<Rightarrow> memoryState" where
  "SetOwner now searchID owner ttl s = s\<lparr>ms_owners := (ms_owners s)(searchID \<mapsto> \<lparr> mv_value = owner, mv_expiresAt = now + ttl \<rparr>)\<rparr>"

definition Owns :: "time \<Rightarrow> string \<Rightarrow> string \<Rightarrow> memoryState \<Rightarrow> bool \<times> memoryState" where
  "Owns now searchID owner s =
     (case ms_owners s searchID of
        None \<Rightarrow> (False, s)
      | Some stored \<Rightarrow>
          if now > mv_expiresAt stored then (False, s\<lparr>ms_owners := (ms_owners s)(searchID := None)\<rparr>)
          else (mv_value stored = owner, s))"

definition DeleteOwner :: "string \<Rightarrow> memoryState \<Rightarrow> memoryState" where
  "DeleteOwner searchID s = s\<lparr>ms_owners := (ms_owners s)(searchID := None)\<rparr>"

definition edge_Allow :: "time \<Rightarrow> string \<Rightarrow> int \<Rightarrow> duration \<Rightarrow> memoryState \<Rightarrow> bool \<times> memoryState" where
  "edge_Allow now key limit window s =
     (let (count, expiresAt) = (case ms_counters s key of
            Some stored \<Rightarrow> if now < mv_expiresAt stored then (mv_value stored, mv_expiresAt stored) else (0, now + window)
          | None \<Rightarrow> (0, now + window));
          count = add64 count 1
      in (count \<le> limit, s\<lparr>ms_counters := (ms_counters s)(key \<mapsto> \<lparr> mv_value = count, mv_expiresAt = expiresAt \<rparr>)\<rparr>))"

section \<open>Claims are exclusive and completion is final\<close>

text \<open>The operations of concurrent requests, each at its time.\<close>

datatype edge_op =
    OpBegin "8 word list" time string string duration duration
  | OpComplete time time string string string string duration
  | OpForget time string string
  | OpSetOwner time string string duration
  | OpOwns time string string
  | OpDeleteOwner string
  | OpAllow time string int duration

fun edge_step :: "memoryState \<Rightarrow> edge_op \<Rightarrow> memoryState" where
  "edge_step s (OpBegin rand now key body recordTTL claimTTL) = snd (BeginIdempotency rand now key body recordTTL claimTTL s)"
| "edge_step s (OpComplete now now' key body token sid ttl) = snd (CompleteIdempotency now now' key body token sid ttl s)"
| "edge_step s (OpForget now key token) = snd (ForgetIdempotency now key token s)"
| "edge_step s (OpSetOwner now sid owner ttl) = SetOwner now sid owner ttl s"
| "edge_step s (OpOwns now sid owner) = snd (Owns now sid owner s)"
| "edge_step s (OpDeleteOwner sid) = DeleteOwner sid s"
| "edge_step s (OpAllow now key limit window) = snd (edge_Allow now key limit window s)"

text \<open>An operation that reads the clock before the time \<open>until\<close>, where the clock matters for the claims.\<close>

fun before :: "time \<Rightarrow> edge_op \<Rightarrow> bool" where
  "before until (OpBegin rand now k body recordTTL claimTTL) = (now < until)"
| "before until (OpComplete now now' k body t sid ttl) = (now < until)"
| "before until (OpForget now k t) = (now < until)"
| "before until _ = True"

text \<open>An operation that does not present the claim \<open>token\<close> of \<open>key\<close>.\<close>

fun foreign :: "string \<Rightarrow> string \<Rightarrow> edge_op \<Rightarrow> bool" where
  "foreign key token (OpComplete now now' k body t sid ttl) = (k \<noteq> key \<or> t \<noteq> token)"
| "foreign key token (OpForget now k t) = (k \<noteq> key \<or> t \<noteq> token)"
| "foreign key token _ = True"

text \<open>A stored record outlives every such operation: nobody but the holder of the token changes a pending record, and nobody a completed one.\<close>

lemma foreign_keeps:
  assumes "ms_idempotency s key = Some v" "before (mv_expiresAt v) op"
    "ir_Pending (mv_value v) \<Longrightarrow> foreign key (ir_ClaimToken (mv_value v)) op"
  shows "ms_idempotency (edge_step s op) key = Some v"
proof (cases op)
  case (OpBegin rand now k body recordTTL claimTTL)
  then show ?thesis using assms
    by (cases "k = key") (auto simp: BeginIdempotency_def existing_answer_def claim_free_def new_claim_def Let_def split: option.split)
qed (use assms in \<open>auto simp: CompleteIdempotency_def ForgetIdempotency_def SetOwner_def Owns_def DeleteOwner_def edge_Allow_def Let_def
    split: option.split prod.split\<close>)

lemma foreign_run:
  assumes "ms_idempotency s key = Some v" "list_all (before (mv_expiresAt v)) ops"
    "ir_Pending (mv_value v) \<Longrightarrow> list_all (foreign key (ir_ClaimToken (mv_value v))) ops"
  shows "ms_idempotency (foldl edge_step s ops) key = Some v"
  using assms
proof (induction ops arbitrary: s)
  case (Cons op ops)
  then have "ms_idempotency (edge_step s op) key = Some v" by (intro foreign_keeps) auto
  then show ?case using Cons by simp
qed simp

text \<open>What a granted claim and an accepted completion leave in the store.\<close>

lemma begin_granted:
  assumes "BeginIdempotency rand now key body recordTTL claimTTL s = ((None, token, None), s')"
  shows "ms_idempotency s' key = Some \<lparr> mv_value = \<lparr> ir_BodyHash = body, ir_ClaimToken = token, ir_Pending = True, ir_SearchID = [],
           ir_ExpiresAt = now + claimTTL \<rparr>, mv_expiresAt = now + claimTTL \<rparr>"
  using assms
  by (auto simp: BeginIdempotency_def existing_answer_def claim_free_def new_claim_def Let_def split: option.splits if_splits)

lemma complete_pending:
  assumes "ms_idempotency s key = Some v" "now \<le> mv_expiresAt v" "ir_Pending (mv_value v)" "ir_BodyHash (mv_value v) = body"
  shows "fst (CompleteIdempotency now now' key body (ir_ClaimToken (mv_value v)) sid ttl s) = None"
    and "ms_idempotency (snd (CompleteIdempotency now now' key body (ir_ClaimToken (mv_value v)) sid ttl s)) key =
      Some \<lparr> mv_value = \<lparr> ir_BodyHash = body, ir_ClaimToken = [], ir_Pending = False, ir_SearchID = sid, ir_ExpiresAt = now' + ttl \<rparr>,
        mv_expiresAt = now' + ttl \<rparr>"
  using assms by (cases "mv_value v"; simp add: CompleteIdempotency_def)+

lemma begin_live:
  assumes "ms_idempotency s key = Some v" "now < mv_expiresAt v"
  shows "fst (BeginIdempotency rand now key body recordTTL claimTTL s) =
    (if ir_BodyHash (mv_value v) \<noteq> body then (None, [], Some errStateConflict)
     else if ir_Pending (mv_value v) then (None, ir_ClaimToken (mv_value v), Some errStateInProgress)
     else (Some (mv_value v), [], None))"
  using assms by (simp add: BeginIdempotency_def existing_answer_def)

text \<open>Once \<open>BeginIdempotency\<close> grants a claim for a key, then whatever operations of other requests run before the claim expires, in
  any order: a retry with the same body is told that the request is in progress and one with another body that it conflicts, so no
  second search is started; the holder of the claim can complete it; and from then on, whatever anybody does until the record expires,
  even with the old token, a retry with the same body gets the recorded search and one with another body a conflict.\<close>

theorem idempotency_exclusive:
  assumes granted: "BeginIdempotency rand now key body recordTTL claimTTL s = ((None, token, None), s1)"
    and ops: "list_all (\<lambda>op. before (now + claimTTL) op \<and> foreign key token op) ops" "s2 = foldl edge_step s1 ops"
    and done_at: "done_at \<le> now + claimTTL" "completed = CompleteIdempotency done_at done_at' key body token sid ttl s2"
    and later: "list_all (before (done_at' + ttl)) later" "s3 = foldl edge_step (snd completed) later"
  shows "(\<forall>rand' t body' r c. t < now + claimTTL \<longrightarrow> fst (BeginIdempotency rand' t key body' r c s2) =
      (if body' = body then (None, token, Some errStateInProgress) else (None, [], Some errStateConflict))) \<and>
    fst completed = None \<and>
    (\<forall>rand' t body' r c. t < done_at' + ttl \<longrightarrow> fst (BeginIdempotency rand' t key body' r c s3) =
      (if body' = body
       then (Some \<lparr> ir_BodyHash = body, ir_ClaimToken = [], ir_Pending = False, ir_SearchID = sid, ir_ExpiresAt = done_at' + ttl \<rparr>, [], None)
       else (None, [], Some errStateConflict)))" (is "?pending \<and> ?completes \<and> ?final")
proof (intro conjI)
  let ?v = "\<lparr> mv_value = \<lparr> ir_BodyHash = body, ir_ClaimToken = token, ir_Pending = True, ir_SearchID = [],
           ir_ExpiresAt = now + claimTTL \<rparr>, mv_expiresAt = now + claimTTL \<rparr>"
  let ?w = "\<lparr> mv_value = \<lparr> ir_BodyHash = body, ir_ClaimToken = [], ir_Pending = False, ir_SearchID = sid, ir_ExpiresAt = done_at' + ttl \<rparr>,
        mv_expiresAt = done_at' + ttl \<rparr>"
  have held: "ms_idempotency s2 key = Some ?v"
    unfolding ops(2) by (rule foreign_run[OF begin_granted[OF granted]]) (use ops(1) in \<open>auto simp: list_all_iff\<close>)
  show ?pending using begin_live[OF held] by simp
  show ?completes using complete_pending(1)[OF held, of done_at body] done_at by simp
  have "ms_idempotency (snd completed) key = Some ?w" using complete_pending(2)[OF held, of done_at body] done_at by simp
  then have "ms_idempotency s3 key = Some ?w" unfolding later(2) by (rule foreign_run) (use later(1) in auto)
  from begin_live[OF this] show ?final by simp
qed

theorem idempotency_exclusive_witness:
  "fst (BeginIdempotency [] 8 ''k'' ''h'' 50 10
     (foldl edge_step (snd (CompleteIdempotency 5 6 ''k'' ''h'' (New []) ''s1'' 100
        (foldl edge_step (snd (BeginIdempotency [] 0 ''k'' ''h'' 50 10 newMemoryState)) [OpForget 3 ''k'' ''other'', OpBegin [] 4 ''k'' ''x'' 50 10])))
      [OpForget 7 ''k'' (New [])])) =
   (Some \<lparr> ir_BodyHash = ''h'', ir_ClaimToken = [], ir_Pending = False, ir_SearchID = ''s1'', ir_ExpiresAt = 106 \<rparr>, [], None)"
proof -
  have granted: "BeginIdempotency [] 0 ''k'' ''h'' 50 10 newMemoryState =
      ((None, New [], None), snd (BeginIdempotency [] 0 ''k'' ''h'' 50 10 newMemoryState))"
    by (simp add: BeginIdempotency_def claim_free_def new_claim_def newMemoryState_def Let_def)
  have other: "New [] \<noteq> ''other''" by code_simp
  show ?thesis
    using idempotency_exclusive[OF granted _ refl _ refl _ refl, of "[OpForget 3 ''k'' ''other'', OpBegin [] 4 ''k'' ''x'' 50 10]" 5
        6 100 "[OpForget 7 ''k'' (New [])]" "''s1''"] other
    by simp
qed

section \<open>The rate limiter\<close>

text \<open>The answers to the calls of \<open>Allow\<close> for one key in a sequence of operations.\<close>

fun allow_answers :: "string \<Rightarrow> memoryState \<Rightarrow> edge_op list \<Rightarrow> bool list" where
  "allow_answers key s [] = []"
| "allow_answers key s (OpAllow now k limit window # ops) =
     (if k = key then [fst (edge_Allow now k limit window s)] else []) @ allow_answers key (edge_step s (OpAllow now k limit window)) ops"
| "allow_answers key s (op # ops) = allow_answers key (edge_step s op) ops"

text \<open>The calls for the key all use the same limit and come before the time \<open>until\<close>.\<close>

fun uniform :: "string \<Rightarrow> int \<Rightarrow> time \<Rightarrow> edge_op \<Rightarrow> bool" where
  "uniform key limit until (OpAllow now k l w) = (k = key \<longrightarrow> l = limit \<and> now < until)"
| "uniform key limit until _ = True"

lemma counters_keep:
  assumes "\<forall>now limit window. op \<noteq> OpAllow now key limit window"
  shows "ms_counters (edge_step s op) key = ms_counters s key"
  using assms
  by (cases op) (auto simp: BeginIdempotency_def existing_answer_def claim_free_def new_claim_def CompleteIdempotency_def ForgetIdempotency_def
      SetOwner_def Owns_def DeleteOwner_def edge_Allow_def Let_def split: option.split prod.split)

lemma next_calls:
  "map (\<lambda>i. c + 1 + int i \<le> limit) [0..<Suc n] = (c + 1 \<le> limit) # map (\<lambda>i. c + 1 + 1 + int i \<le> limit) [0..<n]"
  by (auto simp: map_upt_Suc simp del: upt_Suc)

lemma counter_running:
  assumes "ms_counters s key = Some \<lparr> mv_value = c, mv_expiresAt = until \<rparr>" "list_all (uniform key limit until) ops"
    "0 \<le> c" "c + int (length ops) < 2 ^ 63"
  shows "\<exists>n. allow_answers key s ops = map (\<lambda>i. c + 1 + int i \<le> limit) [0..<n]"
  using assms
proof (induction key s ops arbitrary: c rule: allow_answers.induct)
  case (2 key s now k l w ops)
  show ?case
  proof (cases "k = key")
    case True
    have sum: "add64 c 1 = c + 1" using 2 by (intro add64_id) (simp add: in64_def)
    have this_call: "fst (edge_Allow now key limit w s) = (c + 1 \<le> limit)"
      "ms_counters (edge_step s (OpAllow now k l w)) key = Some \<lparr> mv_value = c + 1, mv_expiresAt = until \<rparr>"
      using 2 True sum by (auto simp: edge_Allow_def Let_def)
    obtain n where n: "allow_answers key (edge_step s (OpAllow now k l w)) ops = map (\<lambda>i. c + 1 + 1 + int i \<le> limit) [0..<n]"
      using "2.IH"[OF this_call(2)] 2 by auto
    then have "allow_answers key s (OpAllow now k l w # ops) = map (\<lambda>i. c + 1 + int i \<le> limit) [0..<Suc n]"
      using this_call(1) True 2 unfolding next_calls by simp
    then show ?thesis by blast
  next
    case False
    then show ?thesis using 2 counters_keep[of "OpAllow now k l w" key s] by simp
  qed
qed (simp_all add: counters_keep del: edge_step.simps)

lemma first_calls:
  "map (\<lambda>i. 1 + int i \<le> limit) [0..<n] = replicate (min n (nat limit)) True @ replicate (n - nat limit) False" (is "?l = ?r")
proof (rule nth_equalityI)
  fix i assume "i < length ?l"
  then show "?l ! i = ?r ! i" by (cases "i < nat limit") (auto simp: nth_append)
qed simp

text \<open>Within one window of the rate limiter exactly the first \<open>limit\<close> calls for a key are allowed and every later one is refused,
  whatever other operations run in between and whatever other keys do.\<close>

theorem rate_limit_window:
  assumes fresh: "\<forall>v. ms_counters s key = Some v \<longrightarrow> mv_expiresAt v \<le> now"
    and ops: "list_all (uniform key limit (now + window)) ops" "0 < window" "int (length ops) < 2 ^ 63 - 1"
    and answers: "answers = allow_answers key s (OpAllow now key limit window # ops)"
  shows "answers = replicate (min (length answers) (nat limit)) True @ replicate (length answers - nat limit) False"
proof -
  have first: "fst (edge_Allow now key limit window s) = (1 \<le> limit)"
    "ms_counters (edge_step s (OpAllow now key limit window)) key = Some \<lparr> mv_value = 1, mv_expiresAt = now + window \<rparr>"
    using fresh by (auto simp: edge_Allow_def add64_id in64_def split: option.splits)
  obtain n where n: "allow_answers key (edge_step s (OpAllow now key limit window)) ops = map (\<lambda>i. 1 + 1 + int i \<le> limit) [0..<n]"
    using counter_running[OF first(2) ops(1)] ops by auto
  have "answers = map (\<lambda>i. 0 + 1 + int i \<le> limit) [0..<Suc n]"
    unfolding next_calls using n first(1) answers by simp
  then have "length answers = Suc n" "answers = map (\<lambda>i. 1 + int i \<le> limit) [0..<Suc n]" by simp_all
  then show ?thesis unfolding first_calls by simp
qed

theorem rate_limit_window_witness:
  "allow_answers ''k'' newMemoryState [OpAllow 0 ''k'' 2 60, OpAllow 1 ''k'' 2 60, OpAllow 1 ''j'' 2 60, OpAllow 59 ''k'' 2 60] =
     [True, True, False]"
proof -
  let ?a = "allow_answers ''k'' newMemoryState [OpAllow 0 ''k'' 2 60, OpAllow 1 ''k'' 2 60, OpAllow 1 ''j'' 2 60, OpAllow 59 ''k'' 2 60]"
  have "?a = replicate (min (length ?a) (nat 2)) True @ replicate (length ?a - nat 2) False"
    by (rule rate_limit_window[where now = 0 and window = 60 and s = newMemoryState and key = "''k''" and
          ops = "[OpAllow 1 ''k'' 2 60, OpAllow 1 ''j'' 2 60, OpAllow 59 ''k'' 2 60]"]) (simp_all add: newMemoryState_def)
  then show ?thesis by simp
qed

end
