(* ===== verification/EdgeGateway.thy ===== *)
theory EdgeGateway
  imports Httpx EdgeConfig EdgeState "HOL-Library.Word" "HOL-Library.Sublist"
begin

text \<open>
  The gate of the edge in front of every handler (\<open>services/edge-api/server.go\<close>: \<open>middleware\<close> and what it calls; \<open>auth.go\<close>): request ids, security headers,
  CORS, the concurrency limit, the client's address behind trusted proxies, rate limits, authentication, and the
  slots of event streams. HMAC, the verification of tokens by the OIDC library, the random source and the parser and printer of IP addresses are arguments. The recovery
  from panics, metrics and logs are left out.
\<close>

unbundle bit_operations_syntax

section \<open>Responses\<close>

definition routeTemplate :: "string \<Rightarrow> string" where
  "routeTemplate path =
     (let searches = ''/api/v1/route-searches/''; remainder = drop (length searches) path in
      if path \<in> {''/health/live'', ''/health/ready'', ''/metrics'', ''/api/v1/me'', ''/api/v1/route-searches'', ''/api/v1/geosuggest'', ''/api/v1/admin/overview''}
      then path
      else if prefix searches path \<and> CHR ''/'' \<notin> set remainder then searches @ ''{searchId}''
      else if prefix searches path \<and> length (filter (\<lambda>c. c = CHR ''/'') remainder) = 1 \<and> suffix ''/events'' remainder
      then searches @ ''{searchId}/events''
      else ''/unmatched'')"

definition requestID :: "http_request \<Rightarrow> string" where
  "requestID r = hr_Header r ''X-Request-ID''"

definition problem :: "http_request \<Rightarrow> int \<Rightarrow> string \<Rightarrow> string \<Rightarrow> Problem" where
  "problem r status title detail = \<lparr> pb_Type = ''https://greenroute.local/problems/'' @ show_int status, pb_Title = title, pb_Status = status,
     pb_Detail = detail, pb_Instance = routeTemplate (hr_Path r), pb_CorrelationID = requestID r \<rparr>"

definition writeRawJSON :: "(string \<times> string) list \<Rightarrow> int \<Rightarrow> string \<Rightarrow> response" where
  "writeRawJSON headers status body = \<lparr> ws_Status = status,
     ws_Headers = headers @ [(''Content-Type'', ''application/json; charset=utf-8''), (''X-Content-Type-Options'', ''nosniff'')], ws_Body = RawBody body \<rparr>"

text \<open>A problem answer with its extra headers.\<close>

definition reject :: "http_request \<Rightarrow> (string \<times> string) list \<Rightarrow> int \<Rightarrow> string \<Rightarrow> string \<Rightarrow> response" where
  "reject r headers status title detail = WriteProblem headers (problem r status title detail)"

definition securityHeaders :: "(string \<times> string) list" where
  "securityHeaders = [(''X-Content-Type-Options'', ''nosniff''), (''X-Frame-Options'', ''DENY''), (''Referrer-Policy'', ''no-referrer''),
     (''Content-Security-Policy'', ''default-src 'none'; frame-ancestors 'none'; base-uri 'none'' @ [CHR 0x27]), (''Permissions-Policy'', ''geolocation=(), camera=(), microphone=()''),
     (''Cache-Control'', ''no-store'')]"

section \<open>CORS\<close>

text \<open>The answer, if the request ends here, and the headers that are set otherwise.\<close>

definition handleCORS :: "string list \<Rightarrow> http_request \<Rightarrow> response option \<times> (string \<times> string) list" where
  "handleCORS allowed r =
     (let origin = hr_Header r ''Origin'';
          headers = [(''Access-Control-Allow-Origin'', origin), (''Access-Control-Allow-Credentials'', ''true''),
            (''Access-Control-Expose-Headers'', ''Location, Idempotency-Replayed, X-Request-ID''), (''Vary'', ''Origin'')];
          preflight = headers @ [(''Access-Control-Allow-Methods'', ''GET, POST, DELETE, OPTIONS''),
            (''Access-Control-Allow-Headers'', ''Authorization, Content-Type, Idempotency-Key, Last-Event-ID, X-Request-ID''),
            (''Access-Control-Max-Age'', ''600'')]
      in if origin = [] then (None, [])
         else if origin \<notin> set allowed then (Some (reject r [] 403 ''CORS origin denied'' ''Origin is not allowlisted.''), [])
         else if hr_Method r = ''OPTIONS'' then (Some \<lparr> ws_Status = 204, ws_Headers = preflight, ws_Body = NoBody \<rparr>, [])
         else (None, headers))"

definition isSSERequest :: "http_request \<Rightarrow> bool" where
  "isSSERequest r \<longleftrightarrow> hr_Method r = ''GET'' \<and> prefix ''/api/v1/route-searches/'' (hr_Path r) \<and> suffix ''/events'' (hr_Path r)"

section \<open>The address of the client\<close>

text \<open>\<open>netip.Addr\<close>, with the zone of an IPv6 address, and \<open>netip.Prefix\<close>.\<close>

datatype addr = IPv4 "32 word" | IPv6 "128 word" string

record addr_prefix =
  px_addr :: addr
  px_bits :: nat

definition Unmap :: "addr \<Rightarrow> addr" where
  "Unmap a = (case a of IPv4 _ \<Rightarrow> a
     | IPv6 w _ \<Rightarrow> if drop_bit 32 w = 0xFFFF then IPv4 (ucast w) else a)"

text \<open>\<open>Prefix.Contains\<close>: never across the families, never for an address with a zone.\<close>

definition Contains :: "addr_prefix \<Rightarrow> addr \<Rightarrow> bool" where
  "Contains p a = (case (px_addr p, a) of
     (IPv4 v, IPv4 w) \<Rightarrow> drop_bit (32 - px_bits p) (w XOR v) = 0
   | (IPv6 v _, IPv6 w zone) \<Rightarrow> zone = [] \<and> drop_bit (128 - px_bits p) (w XOR v) = 0
   | _ \<Rightarrow> False)"

definition isTrustedProxy :: "addr_prefix list \<Rightarrow> addr \<Rightarrow> bool" where
  "isTrustedProxy ranges a = list_ex (\<lambda>p. Contains p a) ranges"

record ip_text =
  ip_ParseAddr :: "string \<Rightarrow> addr option"
  ip_String :: "addr \<Rightarrow> string"
  ip_SplitHostPort :: "string \<Rightarrow> string option"

text \<open>The walk from the socket peer towards the client, over the hops from right to left.\<close>

fun proxy_walk :: "ip_text \<Rightarrow> addr_prefix list \<Rightarrow> addr \<Rightarrow> string list \<Rightarrow> addr" where
  "proxy_walk ip ranges current [] = current"
| "proxy_walk ip ranges current (hop # hops) =
     (if \<not> isTrustedProxy ranges current then current
      else (case ip_ParseAddr ip (trim_space hop) of None \<Rightarrow> current | Some next_hop \<Rightarrow> proxy_walk ip ranges (Unmap next_hop) hops))"

definition clientIP :: "ip_text \<Rightarrow> addr_prefix list \<Rightarrow> http_request \<Rightarrow> string" where
  "clientIP ip ranges r =
     (let host = (case ip_SplitHostPort ip (hr_RemoteAddr r) of None \<Rightarrow> hr_RemoteAddr r | Some host \<Rightarrow> host) in
      case ip_ParseAddr ip host of
        None \<Rightarrow> ''invalid''
      | Some address \<Rightarrow>
          if \<not> isTrustedProxy ranges address then ip_String ip address
          else ip_String ip (proxy_walk ip ranges address (rev (Split (CHR '','') (hr_Header r ''X-Forwarded-For'')))))"

section \<open>Authentication (auth.go)\<close>

record principal =
  pc_UserID :: string
  pc_DisplayName :: string
  pc_Roles :: "string list"
  pc_Authenticated :: bool
  pc_ExpiresAt :: "time option"
  pc_OwnerIDs :: "string list"
  pc_AbuseSubjectIDs :: "string list"

record claims =
  cl_Subject :: string
  cl_Name :: string
  cl_PreferredUsername :: string
  cl_Roles :: "string list"
  cl_Groups :: "string list"

text \<open>A verifier gives the claims of a valid token, if they can be read, and its expiry.\<close>

type_synonym verifier = "string \<Rightarrow> (claims option \<times> time) option"

record authenticator =
  au_anonymous :: bool
  au_anonymousAdmin :: bool
  au_adminGroup :: string
  au_verifier :: "verifier option"
  au_abuseKeys :: "string list"

text \<open>\<open>discovered\<close> is the verifier of the identity provider, if it can be reached.\<close>

definition newAuthenticator :: "edgeConfig \<Rightarrow> verifier option \<Rightarrow> authenticator option" where
  "newAuthenticator cfg discovered =
     (let current = (if ec_AbuseHashKey cfg = [] then ''greenroute-local-abuse-pseudonym-key'' else ec_AbuseHashKey cfg);
          previous = ec_AbusePreviousHashKey cfg;
          auth = \<lparr> au_anonymous = ec_AnonymousUsage cfg, au_anonymousAdmin = ec_LocalAnonymousAdmin cfg, au_adminGroup = ec_OIDCAdminGroup cfg,
            au_verifier = None, au_abuseKeys = current # (if previous \<noteq> [] \<and> previous \<noteq> current then [previous] else []) \<rparr>
      in if ec_OIDCIssuerURL cfg = [] then (if ec_AnonymousUsage cfg then Some auth else None)
         else (case discovered of None \<Rightarrow> None | Some verify \<Rightarrow> Some (auth\<lparr>au_verifier := Some verify\<rparr>)))"

definition abusePseudonyms :: "(string \<Rightarrow> string \<Rightarrow> 8 word list) \<Rightarrow> authenticator \<Rightarrow> string \<Rightarrow> string \<Rightarrow> string list" where
  "abusePseudonyms hmac a namespace value = map (\<lambda>key. hex_encode (take 16 (hmac key (namespace @ [CHR 0x00] @ value)))) (au_abuseKeys a)"

definition prefixedPseudonyms :: "string \<Rightarrow> string list \<Rightarrow> string list" where
  "prefixedPseudonyms p values = map (\<lambda>value. p @ value) values"

definition prefixedKeys :: "string \<Rightarrow> string list \<Rightarrow> string list" where
  "prefixedKeys p values = map (\<lambda>value. p @ value) values"

definition uniqueStrings :: "string list \<Rightarrow> string list" where
  "uniqueStrings values = foldl (\<lambda>result value. if value \<in> set result then result else result @ [value]) [] values"

definition hasRole :: "principal \<Rightarrow> string \<Rightarrow> bool" where
  "hasRole p role \<longleftrightarrow> role \<in> set (pc_Roles p)"

definition anonymous_principal :: "(string \<Rightarrow> string \<Rightarrow> 8 word list) \<Rightarrow> authenticator \<Rightarrow> string \<Rightarrow> principal" where
  "anonymous_principal hmac a ip = \<lparr>
     pc_UserID = ''anonymous:'' @ hd (abusePseudonyms hmac a ''anonymous-ip'' ip),
     pc_DisplayName = (if au_anonymousAdmin a then ''Local admin'' else ''Local user''),
     pc_Roles = ''user'' # (if au_anonymousAdmin a then [''admin''] else []), pc_Authenticated = False, pc_ExpiresAt = None,
     pc_OwnerIDs = prefixedPseudonyms ''owner:'' (abusePseudonyms hmac a ''owner-anonymous'' ip),
     pc_AbuseSubjectIDs = abusePseudonyms hmac a ''rate-anonymous'' ip \<rparr>"

definition token_principal :: "(string \<Rightarrow> string \<Rightarrow> 8 word list) \<Rightarrow> authenticator \<Rightarrow> claims \<Rightarrow> time \<Rightarrow> principal" where
  "token_principal hmac a c expiry = \<lparr>
     pc_UserID = cl_Subject c, pc_DisplayName = (if cl_Name c = [] then cl_PreferredUsername c else cl_Name c),
     pc_Roles = uniqueStrings (''user'' # filter (\<lambda>role. role = ''admin'') (cl_Roles c) @ (if au_adminGroup a \<in> set (cl_Groups c) then [''admin''] else [])),
     pc_Authenticated = True, pc_ExpiresAt = Some expiry,
     pc_OwnerIDs = prefixedPseudonyms ''owner:'' (abusePseudonyms hmac a ''owner-user'' (cl_Subject c)),
     pc_AbuseSubjectIDs = abusePseudonyms hmac a ''rate-user'' (cl_Subject c) \<rparr>"

definition authenticate :: "(string \<Rightarrow> string \<Rightarrow> 8 word list) \<Rightarrow> authenticator \<Rightarrow> http_request \<Rightarrow> string \<Rightarrow> string + principal" where
  "authenticate hmac a r ip =
     (let authorization = trim_space (hr_Header r ''Authorization'') in
      if authorization = [] \<and> au_anonymous a then Inr (anonymous_principal hmac a ip)
      else if \<not> prefix ''Bearer '' authorization \<or> length authorization \<le> length ''Bearer '' then Inl ''missing bearer token''
      else (case au_verifier a of
          None \<Rightarrow> Inl ''token verifier unavailable''
        | Some verify \<Rightarrow> (case verify (drop (length ''Bearer '') authorization) of
              None \<Rightarrow> Inl ''invalid access token''
            | Some (None, _) \<Rightarrow> Inl ''required token claims missing''
            | Some (Some c, expiry) \<Rightarrow>
                if cl_Subject c = [] then Inl ''required token claims missing'' else Inr (token_principal hmac a c expiry))))"

section \<open>The state store behind an interface\<close>

text \<open>The interface \<open>edgeState\<close>: the operations with their readings of the clock. Any operation may fail with an error.\<close>

record 's edgeState =
  st_BeginIdempotency :: "8 word list \<Rightarrow> time \<Rightarrow> string \<Rightarrow> string \<Rightarrow> duration \<Rightarrow> duration \<Rightarrow> 's \<Rightarrow> begin_answer \<times> 's"
  st_CompleteIdempotency :: "time \<Rightarrow> time \<Rightarrow> string \<Rightarrow> string \<Rightarrow> string \<Rightarrow> string \<Rightarrow> duration \<Rightarrow> 's \<Rightarrow> state_error option \<times> 's"
  st_ForgetIdempotency :: "time \<Rightarrow> string \<Rightarrow> string \<Rightarrow> 's \<Rightarrow> state_error option \<times> 's"
  st_SetOwner :: "time \<Rightarrow> string \<Rightarrow> string \<Rightarrow> duration \<Rightarrow> 's \<Rightarrow> state_error option \<times> 's"
  st_Owns :: "time \<Rightarrow> string \<Rightarrow> string \<Rightarrow> 's \<Rightarrow> (bool \<times> state_error option) \<times> 's"
  st_DeleteOwner :: "string \<Rightarrow> 's \<Rightarrow> state_error option \<times> 's"
  st_Allow :: "time \<Rightarrow> string \<Rightarrow> int \<Rightarrow> duration \<Rightarrow> 's \<Rightarrow> (bool \<times> state_error option) \<times> 's"

text \<open>\<open>memoryState\<close> behind the interface: it reports no errors of its own.\<close>

definition memory_ops :: "memoryState edgeState" where
  "memory_ops = \<lparr> st_BeginIdempotency = BeginIdempotency, st_CompleteIdempotency = CompleteIdempotency, st_ForgetIdempotency = ForgetIdempotency,
     st_SetOwner = (\<lambda>now sid owner ttl s. (None, SetOwner now sid owner ttl s)),
     st_Owns = (\<lambda>now sid owner s. case Owns now sid owner s of (owned, s) \<Rightarrow> ((owned, None), s)),
     st_DeleteOwner = (\<lambda>sid s. (None, DeleteOwner sid s)),
     st_Allow = (\<lambda>now key limit window s. case edge_Allow now key limit window s of (allowed, s) \<Rightarrow> ((allowed, None), s)) \<rparr>"

section \<open>The gate (middleware)\<close>

text \<open>\<open>now\<close> numbers the readings of the clock.\<close>

fun enforceRateLimit :: "'s edgeState \<Rightarrow> (nat \<Rightarrow> time) \<Rightarrow> http_request \<Rightarrow> string list \<Rightarrow> int \<Rightarrow> 's \<Rightarrow> response option \<times> 's" where
  "enforceRateLimit ops now r [] limit s = (None, s)"
| "enforceRateLimit ops now r (key # keys) limit s = (case st_Allow ops (now 0) key limit minute s of
     ((_, Some e), s) \<Rightarrow> (Some (reject r [] 503 ''Rate-limit state unavailable'' ''Request safety state is temporarily unavailable.''), s)
   | ((False, None), s) \<Rightarrow> (Some (reject r [(''Retry-After'', ''60'')] 429 ''Rate limit exceeded'' ''Too many requests; retry after the indicated interval.''), s)
   | ((True, None), s) \<Rightarrow> enforceRateLimit ops (\<lambda>i. now (Suc i)) r keys limit s)"

text \<open>The fields of \<open>apiServer\<close> that change, with the store. The channels \<open>bulkhead\<close> and \<open>sseGlobal\<close> are the numbers of their elements.\<close>

record 's apiServer =
  as_state :: 's
  as_bulkhead :: int
  as_sseGlobal :: int
  as_sseByOwner :: "string \<rightharpoonup> int"

text \<open>What the gate uses of its surroundings: configuration, authenticator, trusted ranges, store, and the readings.\<close>

record 's gate =
  gt_config :: edgeConfig
  gt_auth :: authenticator
  gt_ranges :: "addr_prefix list"
  gt_ip :: ip_text
  gt_hmac :: "string \<Rightarrow> string \<Rightarrow> 8 word list"
  gt_ops :: "'s edgeState"

datatype gate_result = Answered response | Passed http_request "principal option" "(string \<times> string) list"

definition take_request :: "http_request \<Rightarrow> 's apiServer \<Rightarrow> 's apiServer" where
  "take_request r e = (if isSSERequest r then e else e\<lparr>as_bulkhead := as_bulkhead e + 1\<rparr>)"

text \<open>The deferred release when the handler has returned.\<close>

definition leave :: "http_request \<Rightarrow> 's apiServer \<Rightarrow> 's apiServer" where
  "leave r e = (if isSSERequest r then e else e\<lparr>as_bulkhead := as_bulkhead e - 1\<rparr>)"

text \<open>The checks of an API request, with the slot held: the address, the identity and the rates.\<close>

definition identify :: "'s gate \<Rightarrow> (nat \<Rightarrow> nat \<Rightarrow> time) \<Rightarrow> http_request \<Rightarrow> 's \<Rightarrow> (response + principal) \<times> 's" where
  "identify g now r s =
     (let ip = clientIP (gt_ip g) (gt_ranges g) r; cfg = gt_config g in
      case enforceRateLimit (gt_ops g) (now 0) r (prefixedKeys ''ip:'' (abusePseudonyms (gt_hmac g) (gt_auth g) ''rate-ip'' ip)) (ec_IPRequestsPerMinute cfg) s of
        (Some w, s) \<Rightarrow> (Inl w, s)
      | (None, s) \<Rightarrow> (case authenticate (gt_hmac g) (gt_auth g) r ip of
            Inl _ \<Rightarrow> (Inl (reject r [(''WWW-Authenticate'', ''Bearer realm='' @ [CHR 0x22] @ ''greenroute'' @ [CHR 0x22])] 401 ''Unauthorized''
              ''A valid short-lived access token is required.''), s)
          | Inr identity \<Rightarrow> (case enforceRateLimit (gt_ops g) (now 1) r (prefixedKeys ''user:'' (pc_AbuseSubjectIDs identity)) (ec_UserRequestsPerMinute cfg) s of
                (Some w, s) \<Rightarrow> (Inl w, s)
              | (None, s) \<Rightarrow>
                  if hr_Method r = ''POST'' \<and> hr_Path r = ''/api/v1/route-searches'' then
                    (case enforceRateLimit (gt_ops g) (now 2) r (prefixedKeys ''search:'' (pc_AbuseSubjectIDs identity)) (ec_SearchesPerMinute cfg) s of
                       (Some w, s) \<Rightarrow> (Inl w, s)
                     | (None, s) \<Rightarrow> (Inr identity, s))
                  else (Inr identity, s))))"

text \<open>The headers of the gate come before those of the answer.\<close>

definition with_headers :: "(string \<times> string) list \<Rightarrow> response \<Rightarrow> response" where
  "with_headers headers w = w\<lparr>ws_Headers := headers @ ws_Headers w\<rparr>"

definition enter :: "'s gate \<Rightarrow> 8 word list \<Rightarrow> (nat \<Rightarrow> nat \<Rightarrow> time) \<Rightarrow> http_request \<Rightarrow> 's apiServer \<Rightarrow> gate_result \<times> 's apiServer" where
  "enter g rand now r e =
     (let given = trim_space (hr_Header r ''X-Request-ID'');
          rid = (if Valid given then given else New rand);
          r = r\<lparr>hr_Header := (hr_Header r)(''X-Request-ID'' := rid)\<rparr>;
          headers = (''X-Request-ID'', rid) # securityHeaders
      in case handleCORS (ec_CORSOrigins (gt_config g)) r of
          (Some w, _) \<Rightarrow> (Answered (with_headers headers w), e)
        | (None, cors) \<Rightarrow>
            if \<not> isSSERequest r \<and> as_bulkhead e \<ge> ec_MaximumConcurrent (gt_config g) then
              (Answered (with_headers (headers @ cors)
                (reject r [(''Retry-After'', ''1'')] 503 ''Service busy'' ''Request concurrency limit reached; retry shortly.'')), e)
            else
              let e = take_request r e in
              if \<not> prefix ''/api/'' (hr_Path r) then (Passed r None (headers @ cors), e)
              else (case identify g now r (as_state e) of
                  (Inl w, s) \<Rightarrow> (Answered (with_headers (headers @ cors) w), leave r (e\<lparr>as_state := s\<rparr>))
                | (Inr identity, s) \<Rightarrow> (Passed r (Some identity) (headers @ cors), e\<lparr>as_state := s\<rparr>)))"

section \<open>Slots of event streams\<close>

definition streams_of :: "'s apiServer \<Rightarrow> string \<Rightarrow> int" where
  "streams_of e owner = (case as_sseByOwner e owner of None \<Rightarrow> 0 | Some n \<Rightarrow> n)"

text \<open>The answer is the rejection, empty when the slot was taken.\<close>

definition acquireSSE :: "edgeConfig \<Rightarrow> string \<Rightarrow> 's apiServer \<Rightarrow> string \<times> 's apiServer" where
  "acquireSSE cfg owner e =
     (if as_sseGlobal e \<ge> ec_MaxConcurrentSSE cfg then (''global_limit'', e)
      else if streams_of e owner \<ge> ec_MaxSSEPerPrincipal cfg then (''principal_limit'', e)
      else ([], e\<lparr>as_sseGlobal := as_sseGlobal e + 1, as_sseByOwner := (as_sseByOwner e)(owner \<mapsto> streams_of e owner + 1)\<rparr>))"

text \<open>The release, which \<open>sync.Once\<close> runs once.\<close>

definition releaseSSE :: "string \<Rightarrow> 's apiServer \<Rightarrow> 's apiServer" where
  "releaseSSE owner e =
     (let n = streams_of e owner - 1 in
      e\<lparr>as_sseGlobal := as_sseGlobal e - 1, as_sseByOwner := (as_sseByOwner e)(owner := (if n = 0 then None else Some n))\<rparr>)"

section \<open>The address cannot be forged\<close>

lemma Split_append: "Split sep (a @ sep # b) = Split sep a @ Split sep b"
proof (induction a)
  case (Cons c a)
  then show ?case by (cases "Split sep a") auto
qed simp

text \<open>The addresses of the chain from the socket peer on; \<^term>\<open>None\<close> is a hop that cannot be read.\<close>

definition proxy_chain :: "ip_text \<Rightarrow> addr \<Rightarrow> string \<Rightarrow> addr option list" where
  "proxy_chain ip peer forwarded = Some peer # map (\<lambda>hop. map_option Unmap (ip_ParseAddr ip (trim_space hop))) (rev (Split (CHR '','') forwarded))"

definition proxied :: "addr_prefix list \<Rightarrow> addr option \<Rightarrow> bool" where
  "proxied ranges hop \<longleftrightarrow> (case hop of None \<Rightarrow> False | Some a \<Rightarrow> isTrustedProxy ranges a)"

lemma proxied_simps [simp]: "\<not> proxied ranges None" "proxied ranges (Some a) = isTrustedProxy ranges a"
  by (simp_all add: proxied_def)

lemma proxy_walk_append:
  assumes "\<not> list_all (proxied ranges) (Some current # map (\<lambda>hop. map_option Unmap (ip_ParseAddr ip (trim_space hop))) hops)"
  shows "proxy_walk ip ranges current (hops @ further) = proxy_walk ip ranges current hops"
  using assms by (induction hops arbitrary: current) (auto split: option.splits; cases further; simp)+

text \<open>The walk ends at the first address that is no trusted proxy, or before the first hop that cannot be read.\<close>

lemma proxy_walk_stops:
  "\<exists>trusted rest. Some current # map (\<lambda>hop. map_option Unmap (ip_ParseAddr ip (trim_space hop))) hops
       = trusted @ Some (proxy_walk ip ranges current hops) # rest
     \<and> list_all (proxied ranges) trusted
     \<and> (isTrustedProxy ranges (proxy_walk ip ranges current hops) \<longrightarrow> rest = [] \<or> hd rest = None)"
proof (induction hops arbitrary: current)
  case Nil
  show ?case by (intro exI [of _ "[]"]) simp
next
  case (Cons hop hops)
  show ?case
  proof (cases "isTrustedProxy ranges current \<and> ip_ParseAddr ip (trim_space hop) \<noteq> None")
    case False
    then show ?thesis
      by (intro exI [of _ "[]"] exI [of _ "map (\<lambda>hop. map_option Unmap (ip_ParseAddr ip (trim_space hop))) (hop # hops)"]) auto
  next
    case True
    then obtain a where a: "ip_ParseAddr ip (trim_space hop) = Some a" by auto
    obtain trusted rest where
      "Some (Unmap a) # map (\<lambda>hop. map_option Unmap (ip_ParseAddr ip (trim_space hop))) hops = trusted @ Some (proxy_walk ip ranges (Unmap a) hops) # rest"
      "list_all (proxied ranges) trusted" "isTrustedProxy ranges (proxy_walk ip ranges (Unmap a) hops) \<longrightarrow> rest = [] \<or> hd rest = None"
      using Cons.IH [of "Unmap a"] by auto
    then show ?thesis using True a by - (rule exI [of _ "Some current # trusted"], rule exI [of _ rest], simp)
  qed
qed

text \<open>C28: A client cannot choose the address it is judged by. The header \<open>X-Forwarded-For\<close> counts only if the socket peer is a trusted
  proxy; the answer is then the first address of the chain, from the peer on, that is no trusted proxy, or the last one before a hop
  that cannot be read; and as soon as the chain has such an end, whatever a client puts in front of the header changes nothing.\<close>

theorem client_ip_spoof_proof:
  fixes r xff
  defines "request \<equiv> \<lambda>forwarded. r\<lparr>hr_Header := (hr_Header r)(''X-Forwarded-For'' := forwarded)\<rparr>"
  assumes peer: "ip_ParseAddr ip (case ip_SplitHostPort ip (hr_RemoteAddr r) of None \<Rightarrow> hr_RemoteAddr r | Some host \<Rightarrow> host) = Some peer"
  shows "(\<not> isTrustedProxy ranges peer \<longrightarrow> clientIP ip ranges (request xff) = ip_String ip peer)
    \<and> (\<exists>trusted a rest. proxy_chain ip peer xff = trusted @ Some a # rest \<and> list_all (proxied ranges) trusted
         \<and> (isTrustedProxy ranges a \<longrightarrow> rest = [] \<or> hd rest = None) \<and> clientIP ip ranges (request xff) = ip_String ip a)
    \<and> (\<not> list_all (proxied ranges) (proxy_chain ip peer xff) \<longrightarrow>
         clientIP ip ranges (request (forged @ CHR '','' # xff)) = clientIP ip ranges (request xff))"
proof -
  have c: "clientIP ip ranges (request f) = ip_String ip (proxy_walk ip ranges peer (rev (Split (CHR '','') f)))" for f
    using peer by (cases "ip_SplitHostPort ip (hr_RemoteAddr r)"; cases "rev (Split (CHR '','') f)") (auto simp: clientIP_def request_def)
  have stops: "\<not> isTrustedProxy ranges peer \<Longrightarrow> proxy_walk ip ranges peer hops = peer" for hops by (cases hops) auto
  show ?thesis
    unfolding c Split_append rev_append proxy_chain_def
    using proxy_walk_append [of ranges peer ip "rev (Split (CHR '','') xff)"] proxy_walk_stops [of peer ip "rev (Split (CHR '','') xff)" ranges]
    by (auto simp: stops)
qed

definition ex_ip :: ip_text where
  "ex_ip = \<lparr> ip_ParseAddr = (\<lambda>s. if s = ''10.0.0.1'' then Some (IPv4 0x0A000001) else if s = ''1.2.3.4'' then Some (IPv4 0x01020304) else None),
     ip_String = (\<lambda>a. if a = IPv4 0x01020304 then ''1.2.3.4'' else ''10.0.0.1''), ip_SplitHostPort = (\<lambda>_. Some ''10.0.0.1'') \<rparr>"

definition ex_ranges :: "addr_prefix list" where
  "ex_ranges = [\<lparr> px_addr = IPv4 0x0A000000, px_bits = 8 \<rparr>]"

definition ex_http :: "string \<Rightarrow> string \<Rightarrow> http_request" where
  "ex_http m path = \<lparr> hr_Method = m, hr_Path = path, hr_Header = (\<lambda>_. []), hr_RemoteAddr = ''10.0.0.1:80'' \<rparr>"

theorem client_ip_spoof_proof_witness:
  "clientIP ex_ip ex_ranges ((ex_http ''GET'' ''/api/v1/me'')\<lparr>hr_Header := (\<lambda>_. [])(''X-Forwarded-For'' := ''10.0.0.1'' @ CHR '','' # '' 1.2.3.4'')\<rparr>) = ''1.2.3.4''"
proof -
  have ends: "\<not> list_all (proxied ex_ranges) (proxy_chain ex_ip (IPv4 0x0A000001) '' 1.2.3.4'')" by code_simp
  have "clientIP ex_ip ex_ranges ((ex_http ''GET'' ''/api/v1/me'')\<lparr>hr_Header := (\<lambda>_. [])(''X-Forwarded-For'' := '' 1.2.3.4'')\<rparr>) = ''1.2.3.4''"
    by code_simp
  moreover have "ip_ParseAddr ex_ip (case ip_SplitHostPort ex_ip (hr_RemoteAddr (ex_http ''GET'' ''/api/v1/me'')) of
      None \<Rightarrow> hr_RemoteAddr (ex_http ''GET'' ''/api/v1/me'') | Some host \<Rightarrow> host) = Some (IPv4 0x0A000001)"
    by (simp add: ex_ip_def)
  ultimately show ?thesis
    using client_ip_spoof_proof [of ex_ip "ex_http ''GET'' ''/api/v1/me''" "IPv4 0x0A000001" ex_ranges "'' 1.2.3.4''" "''10.0.0.1''"] ends
    by (simp add: ex_http_def)
qed

section \<open>Who passes the gate\<close>

lemma set_uniqueStrings: "set (uniqueStrings values) = set values"
proof -
  have "set (foldl (\<lambda>result value. if value \<in> set result then result else result @ [value]) acc values) = set acc \<union> set values" for acc
    by (induction "values" arbitrary: acc) auto
  then show ?thesis by (simp add: uniqueStrings_def)
qed

lemma authenticate_cases:
  assumes "authenticate hmac a r ip = Inr p"
  obtains (anonymous) "trim_space (hr_Header r ''Authorization'') = []" "au_anonymous a" "p = anonymous_principal hmac a ip"
  | (token) verify token c expiry where "trim_space (hr_Header r ''Authorization'') = ''Bearer '' @ token" "au_verifier a = Some verify"
      "verify token = Some (Some c, expiry)" "cl_Subject c \<noteq> []" "p = token_principal hmac a c expiry"
proof (cases "trim_space (hr_Header r ''Authorization'') = [] \<and> au_anonymous a")
  case True
  then show ?thesis using assms by (intro anonymous) (auto simp: authenticate_def)
next
  case False
  let ?token = "drop (length ''Bearer '') (trim_space (hr_Header r ''Authorization''))"
  from False assms have p: "prefix ''Bearer '' (trim_space (hr_Header r ''Authorization''))"
    by (auto simp: authenticate_def Let_def simp del: prefix_code split: if_splits)
  then have b: "trim_space (hr_Header r ''Authorization'') = ''Bearer '' @ ?token" by (auto simp: prefix_def)
  from False assms p obtain verify c expiry where v: "au_verifier a = Some verify" "verify ?token = Some (Some c, expiry)" "cl_Subject c \<noteq> []"
      "p = token_principal hmac a c expiry"
    by (auto simp: authenticate_def Let_def simp del: prefix_code split: if_splits option.splits)
  from token [OF b v] show ?thesis .
qed

lemma identify_authenticated: "identify g now r s = (Inr p, s') \<Longrightarrow> authenticate (gt_hmac g) (gt_auth g) r (clientIP (gt_ip g) (gt_ranges g) r) = Inr p"
  by (auto simp: identify_def Let_def split: prod.splits option.splits sum.splits if_splits)

text \<open>What it means to pass the gate.\<close>

lemma enter_passed:
  assumes "enter g rand now r e = (Passed r' ident headers, e')"
  shows "\<exists>rid. r' = r\<lparr>hr_Header := (hr_Header r)(''X-Request-ID'' := rid)\<rparr> \<and> (Valid rid \<or> rid = New rand)"
    and "hr_Header r' ''Origin'' = [] \<or> hr_Header r' ''Origin'' \<in> set (ec_CORSOrigins (gt_config g))"
    and "isSSERequest r' \<or> as_bulkhead e < ec_MaximumConcurrent (gt_config g)"
    and "as_bulkhead e' = (if isSSERequest r' then as_bulkhead e else as_bulkhead e + 1)"
    and "as_sseGlobal e' = as_sseGlobal e" "as_sseByOwner e' = as_sseByOwner e"
  using assms unfolding enter_def Let_def handleCORS_def take_request_def
  by (auto simp del: prefix_code split: if_splits prod.splits sum.splits)

lemma enter_identified:
  assumes "enter g rand now r e = (Passed r' ident headers, e')"
  shows "case ident of None \<Rightarrow> \<not> prefix ''/api/'' (hr_Path r')
    | Some p \<Rightarrow> authenticate (gt_hmac g) (gt_auth g) r' (clientIP (gt_ip g) (gt_ranges g) r') = Inr p"
proof (cases ident)
  case None
  then show ?thesis using assms unfolding enter_def Let_def by (auto simp del: prefix_code split: if_splits prod.splits sum.splits option.splits)
next
  case (Some p)
  then obtain s s' where "identify g now r' s = (Inr p, s')"
    using assms unfolding enter_def Let_def by (fastforce simp del: prefix_code split: if_splits prod.splits sum.splits option.splits)
  then show ?thesis using identify_authenticated Some by fastforce
qed

text \<open>A request that is answered by the gate leaves the connections as they were.\<close>

lemma enter_answered:
  assumes "enter g rand now r e = (Answered w, e')"
  shows "as_bulkhead e' = as_bulkhead e" "as_sseGlobal e' = as_sseGlobal e" "as_sseByOwner e' = as_sseByOwner e"
  using assms unfolding enter_def Let_def take_request_def leave_def
  by (auto simp del: prefix_code split: if_splits prod.splits sum.splits option.splits)

lemma newAuthenticator_Some:
  assumes "newAuthenticator cfg discovered = Some a"
  shows "au_anonymous a = ec_AnonymousUsage cfg" "au_anonymousAdmin a = ec_LocalAnonymousAdmin cfg" "au_adminGroup a = ec_OIDCAdminGroup cfg"
    "au_verifier a = Some verify \<Longrightarrow> discovered = Some verify" "au_abuseKeys a \<noteq> []"
    "hd (au_abuseKeys a) = (if ec_AbuseHashKey cfg = [] then ''greenroute-local-abuse-pseudonym-key'' else ec_AbuseHashKey cfg)"
    "set (au_abuseKeys a) \<subseteq> {hd (au_abuseKeys a), ec_AbusePreviousHashKey cfg}"
  using assms by (auto simp: newAuthenticator_def Let_def split: if_splits option.splits)

text \<open>C29: Whoever passes the gate to an API handler is known. With a configuration that \<open>loadConfig\<close> accepted, a request that reaches an API
  handler carries an identity with an owner: either of a token that the identity provider's verifier accepted, for its subject and until its
  expiry, as an administrator only if the token says so by role or group; or anonymous, which happens only where anonymous usage is
  configured, never in production, only without any credential, and as an administrator only in a local environment. The owner ids are
  pseudonyms: the keyed hashes of the subject, or of the client's address for an anonymous identity, under the configured key and then, if there is one,
  the previous key. A request with an origin that is not allowed passes nowhere.\<close>

theorem gateway_identity:
  assumes loaded: "loadConfig parse_duration parse_url getenv = Inr (gt_config g)"
    and auth: "newAuthenticator (gt_config g) discovered = Some (gt_auth g)"
    and passed: "enter g rand now r e = (Passed r' ident headers, e')"
  shows "(hr_Header r ''Origin'' = [] \<or> hr_Header r ''Origin'' \<in> set (ec_CORSOrigins (gt_config g)))
    \<and> (case ident of
        None \<Rightarrow> \<not> prefix ''/api/'' (hr_Path r)
      | Some p \<Rightarrow> pc_OwnerIDs p \<noteq> [] \<and>
          (let keys = au_abuseKeys (gt_auth g);
               pseudonyms = (\<lambda>namespace value.
                 map (\<lambda>key. ''owner:'' @ hex_encode (take 16 (gt_hmac g key (namespace @ [CHR 0x00] @ value)))) keys) in
           hd keys = (if ec_AbuseHashKey (gt_config g) = [] then ''greenroute-local-abuse-pseudonym-key'' else ec_AbuseHashKey (gt_config g))
           \<and> set keys \<subseteq> {hd keys, ec_AbusePreviousHashKey (gt_config g)} \<and>
          (if pc_Authenticated p
           then \<exists>verify token c expiry. discovered = Some verify \<and> verify token = Some (Some c, expiry)
             \<and> trim_space (hr_Header r ''Authorization'') = ''Bearer '' @ token
             \<and> pc_UserID p = cl_Subject c \<and> cl_Subject c \<noteq> [] \<and> pc_ExpiresAt p = Some expiry
             \<and> pc_OwnerIDs p = pseudonyms ''owner-user'' (cl_Subject c)
             \<and> (hasRole p ''admin'' \<longrightarrow> ''admin'' \<in> set (cl_Roles c) \<or> ec_OIDCAdminGroup (gt_config g) \<in> set (cl_Groups c))
           else ec_AnonymousUsage (gt_config g) \<and> ec_Environment (gt_config g) \<noteq> ''production''
             \<and> trim_space (hr_Header r ''Authorization'') = []
             \<and> pc_OwnerIDs p = pseudonyms ''owner-anonymous'' (clientIP (gt_ip g) (gt_ranges g) r')
             \<and> (hasRole p ''admin'' \<longrightarrow> ec_Environment (gt_config g) = ''local''))))"
proof -
  note e = enter_passed [OF passed] enter_identified [OF passed]
  note a = newAuthenticator_Some [OF auth]
  note c = loadConfig_anonymous [OF loaded]
  from e(1) have h: "hr_Header r' ''Origin'' = hr_Header r ''Origin''" "hr_Header r' ''Authorization'' = hr_Header r ''Authorization''"
    "hr_Path r' = hr_Path r" by auto
  show ?thesis
  proof (cases ident)
    case None
    then show ?thesis using e(2,7) h by simp
  next
    case (Some p)
    then have "authenticate (gt_hmac g) (gt_auth g) r' (clientIP (gt_ip g) (gt_ranges g) r') = Inr p" using e(7) by auto
    then show ?thesis
    proof (cases rule: authenticate_cases)
      case anonymous
      then show ?thesis using e(2) h a c Some
        by (auto simp: anonymous_principal_def prefixedPseudonyms_def abusePseudonyms_def hasRole_def Let_def)
    next
      case (token verify token c expiry)
      then show ?thesis using e(2) h a Some
        by (auto simp: token_principal_def prefixedPseudonyms_def abusePseudonyms_def hasRole_def set_uniqueStrings Let_def)
    qed
  qed
qed

text \<open>A gate of a local anonymous edge over the in-memory store.\<close>

definition ex_local :: "string \<Rightarrow> string" where
  "ex_local name = (if name = ''APP_ENV'' then ''local'' else if name = ''ENABLE_ANONYMOUS_USAGE'' then ''1'' else [])"

definition ex_edge_config :: edgeConfig where
  "ex_edge_config = projr (loadConfig (\<lambda>_. None) (\<lambda>_. Some ex_url) ex_local)"

definition ex_gate :: "memoryState gate" where
  "ex_gate = \<lparr> gt_config = ex_edge_config, gt_auth = the (newAuthenticator ex_edge_config None), gt_ranges = [], gt_ip = ex_ip,
     gt_hmac = (\<lambda>_ _. []), gt_ops = memory_ops \<rparr>"

definition ex_server :: "memoryState apiServer" where
  "ex_server = \<lparr> as_state = newMemoryState, as_bulkhead = 0, as_sseGlobal = 0, as_sseByOwner = Map.empty \<rparr>"

lemma ex_edge_config_loads: "loadConfig (\<lambda>_. None) (\<lambda>_. Some ex_url) ex_local = Inr ex_edge_config"
proof -
  have "isl (loadConfig (\<lambda>_. None) (\<lambda>_. Some ex_url) ex_local) = False" by code_simp
  then show ?thesis by (cases "loadConfig (\<lambda>_. None) (\<lambda>_. Some ex_url) ex_local") (auto simp: ex_edge_config_def)
qed

lemma ex_gate_auth: "newAuthenticator (gt_config ex_gate) None = Some (gt_auth ex_gate)"
proof -
  have "(newAuthenticator ex_edge_config None = None) = False" by code_simp
  then show ?thesis by (auto simp: ex_gate_def)
qed

lemma ex_enters:
  "case enter ex_gate (replicate 16 0xff) (\<lambda>_ _. 0) (ex_http ''GET'' ''/api/v1/me'') ex_server of
     (Passed r (Some p) headers, e) \<Rightarrow> hasRole p ''admin'' \<and> \<not> pc_Authenticated p | _ \<Rightarrow> False"
  by code_simp

theorem gateway_identity_witness:
  "\<exists>r p headers e. enter ex_gate (replicate 16 0xff) (\<lambda>_ _. 0) (ex_http ''GET'' ''/api/v1/me'') ex_server = (Passed r (Some p) headers, e)
     \<and> pc_OwnerIDs p \<noteq> [] \<and> ec_AnonymousUsage ex_edge_config"
proof -
  obtain r p headers e where p: "enter ex_gate (replicate 16 0xff) (\<lambda>_ _. 0) (ex_http ''GET'' ''/api/v1/me'') ex_server = (Passed r (Some p) headers, e)"
      "\<not> pc_Authenticated p"
    using ex_enters by (auto split: prod.splits gate_result.splits option.splits)
  have "loadConfig (\<lambda>_. None) (\<lambda>_. Some ex_url) ex_local = Inr (gt_config ex_gate)" using ex_edge_config_loads by (simp add: ex_gate_def)
  from gateway_identity [OF this ex_gate_auth p(1)] p show ?thesis by (auto simp: ex_gate_def Let_def)
qed

section \<open>The connections are bounded\<close>

text \<open>The states of the server, with the requests whose handlers run and the owners of the open streams: requests enter and
  leave, handlers change the stored state, streams open and close, in any order.\<close>

inductive edge_reach :: "'s gate \<Rightarrow> 's apiServer \<Rightarrow> http_request list \<Rightarrow> string list \<Rightarrow> bool" for g where
  edge_start: "edge_reach g \<lparr> as_state = s, as_bulkhead = 0, as_sseGlobal = 0, as_sseByOwner = Map.empty \<rparr> [] []"
| edge_pass: "edge_reach g e requests streams \<Longrightarrow> enter g rand now r e = (Passed r' ident headers, e') \<Longrightarrow> edge_reach g e' (r' # requests) streams"
| edge_answer: "edge_reach g e requests streams \<Longrightarrow> enter g rand now r e = (Answered w, e') \<Longrightarrow> edge_reach g e' requests streams"
| edge_leave: "edge_reach g e requests streams \<Longrightarrow> r \<in> set requests \<Longrightarrow> edge_reach g (leave r e) (remove1 r requests) streams"
| edge_handler: "edge_reach g e requests streams \<Longrightarrow> edge_reach g (e\<lparr>as_state := s\<rparr>) requests streams"
| edge_open: "edge_reach g e requests streams \<Longrightarrow> acquireSSE (gt_config g) owner e = ([], e') \<Longrightarrow> edge_reach g e' requests (owner # streams)"
| edge_refuse: "edge_reach g e requests streams \<Longrightarrow> acquireSSE (gt_config g) owner e = (why, e') \<Longrightarrow> why \<noteq> [] \<Longrightarrow> edge_reach g e' requests streams"
| edge_close: "edge_reach g e requests streams \<Longrightarrow> owner \<in> set streams \<Longrightarrow> edge_reach g (releaseSSE owner e) requests (remove1 owner streams)"

definition plain_requests :: "http_request list \<Rightarrow> int" where
  "plain_requests requests = int (length (filter (\<lambda>r. \<not> isSSERequest r) requests))"

lemma plain_requests_simps [simp]:
  "plain_requests [] = 0"
  "plain_requests (r # requests) = plain_requests requests + (if isSSERequest r then 0 else 1)"
  "r \<in> set requests \<Longrightarrow> plain_requests (remove1 r requests) = plain_requests requests - (if isSSERequest r then 0 else 1)"
  unfolding plain_requests_def by (simp_all, induction requests) auto

definition stream_count :: "string list \<Rightarrow> string \<Rightarrow> int" where
  "stream_count streams owner = int (count_list streams owner)"

definition owner_entry :: "int \<Rightarrow> int option" where
  "owner_entry n = (if n = 0 then None else Some n)"

definition edge_inv :: "edgeConfig \<Rightarrow> 's apiServer \<Rightarrow> http_request list \<Rightarrow> string list \<Rightarrow> bool" where
  "edge_inv cfg e requests streams \<longleftrightarrow>
     as_bulkhead e = plain_requests requests \<and> plain_requests requests \<le> ec_MaximumConcurrent cfg
     \<and> as_sseGlobal e = int (length streams) \<and> int (length streams) \<le> ec_MaxConcurrentSSE cfg
     \<and> as_sseByOwner e = (\<lambda>owner. owner_entry (stream_count streams owner)) \<and> (\<forall>owner. stream_count streams owner \<le> ec_MaxSSEPerPrincipal cfg)"

lemma stream_count_simps [simp]:
  "stream_count [] y = 0"
  "stream_count (x # xs) y = stream_count xs y + (if x = y then 1 else 0)"
  "0 \<le> stream_count xs y" "stream_count xs y = 0 \<longleftrightarrow> y \<notin> set xs"
  by (simp_all add: stream_count_def count_list_0_iff)

lemma stream_count_remove1:
  assumes "x \<in> set xs"
  shows "stream_count (remove1 x xs) y = stream_count xs y - (if y = x then 1 else 0)"
proof -
  have "count_list xs x \<noteq> 0" using assms by (simp add: count_list_0_iff)
  moreover have "count_list (remove1 x xs) y = count_list xs y - (if y = x then 1 else 0)"
    by (simp flip: count_mset)
  ultimately show ?thesis by (auto simp: stream_count_def of_nat_diff)
qed

lemma streams_of_inv: "edge_inv cfg e requests streams \<Longrightarrow> streams_of e owner = stream_count streams owner"
  by (simp add: edge_inv_def streams_of_def owner_entry_def del: stream_count_simps(4))

lemma edge_reach_inv:
  assumes "edge_reach g e requests streams" "0 \<le> ec_MaximumConcurrent (gt_config g)" "0 \<le> ec_MaxConcurrentSSE (gt_config g)"
    "0 \<le> ec_MaxSSEPerPrincipal (gt_config g)"
  shows "edge_inv (gt_config g) e requests streams"
  using assms(1)
proof induction
  case (edge_start s)
  then show ?case using assms(2-4) by (simp add: edge_inv_def owner_entry_def fun_eq_iff)
next
  case (edge_pass e requests streams rand now r r' ident headers e')
  note p = enter_passed [OF edge_pass.hyps(2)]
  show ?case using edge_pass.IH p(3-6) by (auto simp: edge_inv_def)
next
  case (edge_answer e requests streams rand now r w e')
  then show ?case using enter_answered [OF edge_answer.hyps(2)] by (simp add: edge_inv_def)
next
  case (edge_leave e requests streams r)
  then show ?case by (auto simp: edge_inv_def leave_def)
next
  case (edge_open e requests streams owner e')
  have "stream_count streams owner + 1 \<noteq> 0" using stream_count_simps(3) [of streams owner] by linarith
  then show ?case using edge_open.hyps(2) edge_open.IH streams_of_inv [OF edge_open.IH, of owner]
    by (auto simp: edge_inv_def acquireSSE_def owner_entry_def fun_eq_iff split: if_splits)
next
  case (edge_refuse e requests streams owner why e')
  then show ?case by (auto simp: acquireSSE_def split: if_splits)
next
  case (edge_close e requests streams owner)
  note count = stream_count_remove1 [OF edge_close.hyps(2)]
  have "int (length (remove1 owner streams)) = int (length streams) - 1"
    using edge_close.hyps(2) length_pos_if_in_set [OF edge_close.hyps(2)] by (simp only: length_remove1 if_True)
  moreover have "stream_count streams owner - 1 \<le> ec_MaxSSEPerPrincipal (gt_config g)"
    using edge_close.IH by (auto simp: edge_inv_def intro: order_trans [of _ "stream_count streams owner"])
  ultimately show ?case using edge_close.IH streams_of_inv [OF edge_close.IH, of owner]
    by (auto simp: edge_inv_def releaseSSE_def Let_def count owner_entry_def fun_eq_iff simp del: stream_count_simps(4))
qed (simp_all add: edge_inv_def)

text \<open>C27: However requests and event streams come and go, the edge keeps to its limits: the handlers that run hold exactly the slots that are
  taken, at most \<open>MaximumConcurrent\<close> of them, with event streams outside; the open event streams are exactly those
  counted, at most \<open>MaxConcurrentSSE\<close> in all and \<open>MaxSSEPerPrincipal\<close> per owner; and an owner without a stream has no entry.\<close>

theorem connections_bounded:
  assumes "edge_reach g e requests streams" "loadConfig parse_duration parse_url getenv = Inr (gt_config g)"
  shows "as_bulkhead e = plain_requests requests \<and> plain_requests requests \<le> ec_MaximumConcurrent (gt_config g)
    \<and> as_sseGlobal e = int (length streams) \<and> int (length streams) \<le> ec_MaxConcurrentSSE (gt_config g)
    \<and> (\<forall>owner. stream_count streams owner \<le> ec_MaxSSEPerPrincipal (gt_config g)
         \<and> (as_sseByOwner e owner = None \<longleftrightarrow> owner \<notin> set streams))"
proof -
  have "limits_error (gt_config g) = None" using loadConfig_valid [OF assms(2)] by (simp add: config_invalid_def)
  from limits_error_None(1-3) [OF this] have "edge_inv (gt_config g) e requests streams" by (intro edge_reach_inv [OF assms(1)]) linarith+
  then show ?thesis by (simp add: edge_inv_def owner_entry_def)
qed

theorem connections_bounded_witness:
  "\<exists>e. edge_reach ex_gate e [] [''a'', ''b''] \<and> as_sseGlobal e = 2 \<and> stream_count [''a'', ''b''] ''a'' \<le> ec_MaxSSEPerPrincipal ex_edge_config"
proof -
  have fst_open: "fst (acquireSSE ex_edge_config ''b'' ex_server) = []"
    and snd_open: "fst (acquireSSE ex_edge_config ''a'' (snd (acquireSSE ex_edge_config ''b'' ex_server))) = []" by code_simp+
  have g: "gt_config ex_gate = ex_edge_config" by (simp add: ex_gate_def)
  have "edge_reach ex_gate ex_server [] []" unfolding ex_server_def by (rule edge_start)
  from edge_open [OF this, of "''b''"] have b: "edge_reach ex_gate (snd (acquireSSE ex_edge_config ''b'' ex_server)) [] [''b'']"
    using fst_open by (metis g prod.collapse)
  from edge_open [OF this, of "''a''"] obtain e where r: "edge_reach ex_gate e [] [''a'', ''b'']"
    using snd_open by (metis g prod.collapse)
  have "loadConfig (\<lambda>_. None) (\<lambda>_. Some ex_url) ex_local = Inr (gt_config ex_gate)" using ex_edge_config_loads g by simp
  from connections_bounded [OF r this] r g show ?thesis by auto
qed

end
