(* ===== verification/EdgeSearch.thy ===== *)
theory EdgeSearch
  imports EdgeGateway SearchStore Contracts
begin

text \<open>
  The search handlers of the edge (\<open>services/edge-api/server.go\<close>) and the contract checks of its client (\<open>service_client.go\<close>): starting a search
  under an idempotency key, reading and deleting it, its event stream, address suggestions and the administrator's overview. The handlers run over
  any store behind the interface \<open>edgeState\<close>; the upstream services, the JSON encoder and decoder, SHA-256 and the clock are arguments. The audit, metrics
  and logs are left out.
\<close>

section \<open>The contract of a search result (service_client.go)\<close>

datatype result_error = RequiredFieldsMissing | ArraysMissing | TooManyBestEffort | CandidateInvalid | BestEffortInvalid | BestEffortDuplicate
  | SelectedIsBestEffort | BestEffortUnmarked | TooManyGreen | GreenInvalid | GreenDuplicate | GreenUnmarked

definition containsReason :: "string list \<Rightarrow> string \<Rightarrow> bool" where
  "containsReason values expected = list_ex (\<lambda>value. value = expected) values"

definition containsReasonPrefix :: "string list \<Rightarrow> string \<Rightarrow> bool" where
  "containsReasonPrefix values p = list_ex (\<lambda>value. prefix p value) values"

definition validateResultCandidate :: "RouteCandidate \<Rightarrow> result_error option" where
  "validateResultCandidate c = first_some [
     check (rc_CandidateID c = []) CandidateInvalid,
     check (Level (rc_Confidence c) \<notin> {ConfidenceHigh, ConfidenceMedium, ConfidenceLow}) CandidateInvalid,
     check (Score (rc_Confidence c) < 0 \<or> Score (rc_Confidence c) > 1 \<or> rc_ReasonCodes c = []) CandidateInvalid]"

text \<open>\<open>seen\<close> holds the ids of the earlier routes.\<close>

fun validate_best_effort :: "RouteCandidate option \<Rightarrow> string list \<Rightarrow> RouteCandidate list \<Rightarrow> result_error option" where
  "validate_best_effort selected seen [] = None"
| "validate_best_effort selected seen (c # cs) =
     (case first_some [
        check (validateResultCandidate c \<noteq> None) BestEffortInvalid,
        check (rc_CandidateID c \<in> set seen) BestEffortDuplicate,
        check (map_option rc_CandidateID selected = Some (rc_CandidateID c)) SelectedIsBestEffort,
        check (\<not> containsReason (rc_ReasonCodes c) ''BEST_EFFORT_NOT_STRICT_GREEN'' \<or> \<not> containsReasonPrefix (rc_ReasonCodes c) ''STRICT_GREEN_'') BestEffortUnmarked]
      of Some e \<Rightarrow> Some e | None \<Rightarrow> validate_best_effort selected (rc_CandidateID c # seen) cs)"

fun validate_green :: "string list \<Rightarrow> RouteCandidate list \<Rightarrow> result_error option" where
  "validate_green seen [] = None"
| "validate_green seen (c # cs) =
     (case first_some [
        check (validateResultCandidate c \<noteq> None) GreenInvalid,
        check (rc_CandidateID c \<in> set seen) GreenDuplicate,
        check (\<not> containsReasonPrefix (rc_ReasonCodes c) ''GREEN_RANK_'') GreenUnmarked]
      of Some e \<Rightarrow> Some e | None \<Rightarrow> validate_green (rc_CandidateID c # seen) cs)"

text \<open>A slice that is nil counts as empty where only its elements are read.\<close>

definition elements :: "'a list option \<Rightarrow> 'a list" where
  "elements xs = (case xs of None \<Rightarrow> [] | Some ys \<Rightarrow> ys)"

definition validateResult :: "RouteSearchResult \<Rightarrow> result_error option" where
  "validateResult result = first_some [
     check (rr_SearchID result = [] \<or> rr_Status result = SearchOther []) RequiredFieldsMissing,
     check (rr_Alternatives result = None \<or> rr_BestEffortRoutes result = None) ArraysMissing,
     check (length (elements (rr_BestEffortRoutes result)) > 3) TooManyBestEffort,
     (if rr_Status result = SearchCompleted \<or> rr_Status result = SearchDegraded
      then (case rr_SelectedRoute result of None \<Rightarrow> None | Some c \<Rightarrow> validateResultCandidate c) else None),
     validate_best_effort (rr_SelectedRoute result) [] (elements (rr_BestEffortRoutes result)),
     check (length (elements (rr_GreenTopRoutes result)) > 3) TooManyGreen,
     validate_green [] (elements (rr_GreenTopRoutes result))]"

section \<open>The upstream services\<close>

text \<open>What comes of a request to an upstream service: none, an answer whose body breaks off, or one with its body and, where a
  result is expected, what the JSON decoder makes of it.\<close>

datatype 'a upstream = Unreachable | Unreadable int | Replied int string "'a option"

text \<open>The answers of the client: status, body, result and whether it reports an error.\<close>

type_synonym client_answer = "int \<times> string \<times> RouteSearchResult \<times> bool"

definition client_startSearch :: "RouteSearchResult upstream \<Rightarrow> client_answer" where
  "client_startSearch answer = (case answer of
     Unreachable \<Rightarrow> (0, [], zero_result, True)
   | Unreadable _ \<Rightarrow> (0, [], zero_result, True)
   | Replied status body decoded \<Rightarrow>
       if status \<noteq> 200 \<and> status \<noteq> 202 \<and> status \<noteq> 422 then (status, body, zero_result, True)
       else if status = 422 then (status, body, zero_result, False)
       else (case decoded of None \<Rightarrow> (status, body, zero_result, True) | Some result \<Rightarrow> (status, body, result, False)))"

definition client_getSearch :: "RouteSearchResult upstream \<Rightarrow> client_answer" where
  "client_getSearch answer = (case answer of
     Unreachable \<Rightarrow> (0, [], zero_result, True)
   | Unreadable _ \<Rightarrow> (0, [], zero_result, True)
   | Replied status body decoded \<Rightarrow>
       if status \<noteq> 200 then (status, body, zero_result, False)
       else (case decoded of None \<Rightarrow> (status, body, zero_result, True) | Some result \<Rightarrow> (status, body, result, False)))"

text \<open>The status and whether the call failed; the body is not read.\<close>

definition client_deleteSearch :: "RouteSearchResult upstream \<Rightarrow> int \<times> bool" where
  "client_deleteSearch answer = (case answer of Unreachable \<Rightarrow> (0, True) | Unreadable status \<Rightarrow> (status, False) | Replied status _ _ \<Rightarrow> (status, False))"

text \<open>The requests a handler sends upstream, in order.\<close>

datatype upstream_call = StartSearch string RouteSearchRequest | GetSearch string | DeleteSearch string | SearchEvents string string
  | Suggest string string int | AdminOverview

section \<open>Starting a search\<close>

text \<open>The surroundings of the handler: clock, random source, SHA-256, JSON encoder, validation messages, and the answers of the orchestrator to the
  creation, to the reads and to the deletion.\<close>

record start_env =
  se_now :: "nat \<Rightarrow> time"
  se_rand :: "8 word list"
  se_sha256 :: "string \<Rightarrow> 8 word list"
  se_marshal :: "RouteSearchRequest \<Rightarrow> string"
  se_text :: "request_error \<Rightarrow> string"
  se_start :: "RouteSearchResult upstream"
  se_get :: "nat \<Rightarrow> RouteSearchResult upstream"
  se_delete :: "RouteSearchResult upstream"

definition validIdempotencyKey :: "string \<Rightarrow> bool" where
  "validIdempotencyKey value \<longleftrightarrow> 8 \<le> length value \<and> length value \<le> 128
     \<and> list_all (\<lambda>c. 0x21 \<le> (of_char c :: nat) \<and> (of_char c :: nat) \<le> 0x7e) value"

definition pendingIdempotencyTTL :: "duration \<Rightarrow> duration" where
  "pendingIdempotencyTTL configured = (let maximumPendingTTL = seconds 30 in if configured < maximumPendingTTL then configured else maximumPendingTTL)"

definition principalOwnerIDs :: "principal \<Rightarrow> string list" where
  "principalOwnerIDs identity =
     (if pc_OwnerIDs identity \<noteq> [] then pc_OwnerIDs identity else if pc_UserID identity \<noteq> [] then [pc_UserID identity] else [])"

definition currentOwnerID :: "principal \<Rightarrow> string" where
  "currentOwnerID identity = (case principalOwnerIDs identity of [] \<Rightarrow> [] | owner # _ \<Rightarrow> owner)"

definition still_running :: "SearchStatus \<Rightarrow> bool" where
  "still_running status \<longleftrightarrow> status = SearchAccepted \<or> status = SearchSearching"

text \<open>The keys of an operation: of the owner and the header, and of that and the body.\<close>

definition body_hash :: "start_env \<Rightarrow> RouteSearchRequest \<Rightarrow> string" where
  "body_hash ev request = hex_encode (se_sha256 ev (se_marshal ev (request\<lparr>rq_RequestID := []\<rparr>)))"

definition idempotency_key :: "start_env \<Rightarrow> string \<Rightarrow> string \<Rightarrow> string" where
  "idempotency_key ev owner header = hex_encode (se_sha256 ev (owner @ [CHR 0x00] @ header))"

definition operation_key :: "start_env \<Rightarrow> string \<Rightarrow> string \<Rightarrow> string" where
  "operation_key ev key bodyHash = hex_encode (se_sha256 ev (key @ [CHR 0x00] @ bodyHash))"

definition operation_search :: "start_env \<Rightarrow> string \<Rightarrow> string" where
  "operation_search ev operationKey = FromStableKey (se_sha256 ev) ''route-search'' operationKey"

text \<open>Asks for the search that an operation key stands for; without a key nothing is asked.\<close>

definition recoverOperation :: "start_env \<Rightarrow> nat \<Rightarrow> string \<Rightarrow> (int \<times> string \<times> RouteSearchResult) option \<times> upstream_call list" where
  "recoverOperation ev n operationKey =
     (if operationKey = [] then (None, [])
      else
        let searchID = operation_search ev operationKey in
        case client_getSearch (se_get ev n) of (status, body, result, failed) \<Rightarrow>
          (if failed \<or> status \<noteq> 200 \<or> validateResult result \<noteq> None \<or> rr_SearchID result \<noteq> searchID then None
           else Some (if still_running (rr_Status result) then 202 else status, body, result), [GetSearch searchID]))"

text \<open>The variables of the handler when the search exists.\<close>

record started =
  sv_owner :: string
  sv_bodyHash :: string
  sv_key :: string
  sv_claim :: string
  sv_operation :: string

definition search_location :: "string \<Rightarrow> string \<times> string" where
  "search_location searchID = (''Location'', ''/api/v1/route-searches/'' @ searchID)"

definition replayed_header :: "string \<times> string" where
  "replayed_header = (''Idempotency-Replayed'', ''true'')"

text \<open>The owner is stored, the claim completed and the answer given. \<open>calls\<close> are the calls sent so far.\<close>

definition record_search ::
    "'s edgeState \<Rightarrow> edgeConfig \<Rightarrow> start_env \<Rightarrow> http_request \<Rightarrow> started \<Rightarrow> upstream_call list \<Rightarrow> bool \<Rightarrow> int \<Rightarrow> string \<Rightarrow> RouteSearchResult \<Rightarrow> 's
     \<Rightarrow> response \<times> upstream_call list \<times> 's" where
  "record_search ops cfg ev r v calls replayed status body result s =
     (case st_SetOwner ops (se_now ev 2) (rr_SearchID result) (sv_owner v) (ec_OwnershipTTL cfg) s of
        (Some e, s) \<Rightarrow>
          let (deleteStatus, failed) = client_deleteSearch (se_delete ev);
              s = (if sv_key v \<noteq> [] \<and> \<not> failed \<and> (deleteStatus = 204 \<or> deleteStatus = 404)
                   then snd (st_ForgetIdempotency ops (se_now ev 5) (sv_key v) (sv_claim v) s) else s)
          in (reject r [] 503 ''Search ownership unavailable'' ''The request was cancelled because authorization state could not be stored.'',
              calls @ [DeleteSearch (rr_SearchID result)], s)
      | (None, s) \<Rightarrow>
          let s = (if sv_key v \<noteq> []
                   then snd (st_CompleteIdempotency ops (se_now ev 3) (se_now ev 4) (sv_key v) (sv_bodyHash v) (sv_claim v) (rr_SearchID result) (ec_IdempotencyTTL cfg) s)
                   else s)
          in (writeRawJSON ((if replayed then [replayed_header] else []) @ [search_location (rr_SearchID result)]) status body, calls, s))"

definition accept_search ::
    "'s edgeState \<Rightarrow> edgeConfig \<Rightarrow> start_env \<Rightarrow> http_request \<Rightarrow> started \<Rightarrow> upstream_call list \<Rightarrow> bool \<Rightarrow> int \<Rightarrow> string \<Rightarrow> RouteSearchResult \<Rightarrow> 's
     \<Rightarrow> response \<times> upstream_call list \<times> 's" where
  "accept_search ops cfg ev r v calls replayed status body result s =
     (if status = 422 then
        (writeRawJSON [] status body, calls, if sv_key v \<noteq> [] then snd (st_ForgetIdempotency ops (se_now ev 5) (sv_key v) (sv_claim v) s) else s)
      else if validateResult result = None then record_search ops cfg ev r v calls replayed status body result s
      else (case recoverOperation ev 1 (sv_operation v) of
          (Some (status, body, result), more_calls) \<Rightarrow> record_search ops cfg ev r v (calls @ more_calls) True status body result s
        | (None, more_calls) \<Rightarrow>
            (reject r [] 502 ''Invalid routing response'' ''The routing service returned an invalid contract.'', calls @ more_calls, s)))"

definition call_start ::
    "'s edgeState \<Rightarrow> edgeConfig \<Rightarrow> start_env \<Rightarrow> http_request \<Rightarrow> started \<Rightarrow> RouteSearchRequest \<Rightarrow> 's \<Rightarrow> response \<times> upstream_call list \<times> 's" where
  "call_start ops cfg ev r v request s =
     (let calls = [StartSearch (sv_operation v) request] in
      case client_startSearch (se_start ev) of (status, body, result, failed) \<Rightarrow>
        if \<not> failed then accept_search ops cfg ev r v calls False status body result s
        else (case recoverOperation ev 0 (sv_operation v) of
            (Some (status, body, result), more_calls) \<Rightarrow> accept_search ops cfg ev r v (calls @ more_calls) True status body result s
          | (None, more_calls) \<Rightarrow>
              (reject r [] 503 ''Routing service unavailable'' ''The routing service is temporarily unavailable; retry later.'', calls @ more_calls, s)))"

text \<open>The answer to a repeated request whose search is recorded.\<close>

definition replay_record :: "start_env \<Rightarrow> http_request \<Rightarrow> idempotencyRecord \<Rightarrow> response \<times> upstream_call list" where
  "replay_record ev r record =
     (case client_getSearch (se_get ev 0) of (status, body, result, failed) \<Rightarrow>
        (if failed \<or> status \<noteq> 200 \<or> validateResult result \<noteq> None
         then reject r [replayed_header] 503 ''Idempotent result unavailable'' ''The original search exists but its current state is temporarily unavailable.''
         else writeRawJSON [replayed_header, search_location (ir_SearchID record)] (if still_running (rr_Status result) then 202 else status) body,
         [GetSearch (ir_SearchID record)]))"

definition keyed_start ::
    "'s edgeState \<Rightarrow> edgeConfig \<Rightarrow> start_env \<Rightarrow> http_request \<Rightarrow> string \<Rightarrow> string \<Rightarrow> RouteSearchRequest \<Rightarrow> 's \<Rightarrow> response \<times> upstream_call list \<times> 's" where
  "keyed_start ops cfg ev r owner header request s =
     (let bodyHash = body_hash ev request; key = idempotency_key ev owner header; operationKey = operation_key ev key bodyHash in
      case st_BeginIdempotency ops (se_rand ev) (se_now ev 1) key bodyHash (ec_IdempotencyTTL cfg) (pendingIdempotencyTTL (ec_IdempotencyTTL cfg)) s of
        ((record, claimToken, err), s) \<Rightarrow>
          let v = \<lparr> sv_owner = owner, sv_bodyHash = bodyHash, sv_key = key, sv_claim = claimToken, sv_operation = operationKey \<rparr> in
          (case err of
             Some errStateConflict \<Rightarrow> (reject r [] 409 ''Idempotency conflict'' ''The same key was already used with a different request.'', [], s)
           | Some errStateInProgress \<Rightarrow>
               (case recoverOperation ev 0 operationKey of
                  (None, calls) \<Rightarrow>
                    (reject r [(''Retry-After'', ''1'')] 409 ''Request already in progress'' ''Retry with the same key after the original request completes.'', calls, s)
                | (Some (status, body, result), calls) \<Rightarrow> accept_search ops cfg ev r v calls True status body result s)
           | Some _ \<Rightarrow> (reject r [] 503 ''Idempotency unavailable'' ''Request safety state is temporarily unavailable.'', [], s)
           | None \<Rightarrow>
               (case record of
                  Some rec \<Rightarrow> (case replay_record ev r rec of (w, calls) \<Rightarrow> (w, calls, s))
                | None \<Rightarrow> call_start ops cfg ev r v request s)))"

text \<open>\<open>input\<close> is the decoded body, or the error of the decoder.\<close>

definition edge_startSearch ::
    "'s edgeState \<Rightarrow> edgeConfig \<Rightarrow> start_env \<Rightarrow> http_request \<Rightarrow> principal \<Rightarrow> string + RouteSearchInput \<Rightarrow> 's \<Rightarrow> response \<times> upstream_call list \<times> 's" where
  "edge_startSearch ops cfg ev r identity input s = (case input of
     Inl e \<Rightarrow> (reject r [] 400 ''Invalid route search'' e, [], s)
   | Inr i \<Rightarrow> (case RouteSearchInput_Request i of
         Inl missing \<Rightarrow> (reject r [] 400 ''Invalid route search'' (''required property '' @ [CHR 0x22] @ missing @ [CHR 0x22] @ '' is missing''), [], s)
       | Inr request \<Rightarrow>
           let request = request\<lparr>rq_RequestID := requestID r\<rparr>;
               owner = currentOwnerID identity;
               header = trim_space (hr_Header r ''Idempotency-Key'')
           in (case RouteSearchRequest_Validate (se_now ev 0) DefaultValidationLimits request of
                 Some e \<Rightarrow> (reject r [] 422 ''Route search rejected'' (se_text ev e), [], s)
               | None \<Rightarrow>
                   if owner = [] then
                     (reject r [] 500 ''Identity unavailable'' ''A privacy-preserving ownership identity could not be established.'', [], s)
                   else if header = [] then
                     call_start ops cfg ev r \<lparr> sv_owner = owner, sv_bodyHash = body_hash ev request, sv_key = [], sv_claim = [], sv_operation = [] \<rparr> request s
                   else if \<not> validIdempotencyKey header then
                     (reject r [] 400 ''Invalid Idempotency-Key'' ''Use 8-128 printable ASCII characters.'', [], s)
                   else keyed_start ops cfg ev r owner header request s)))"

section \<open>Access to a search\<close>

text \<open>The owners of the identity are asked for one after the other, until one owns the search or the store fails.\<close>

fun owned_by_any :: "'s edgeState \<Rightarrow> (nat \<Rightarrow> time) \<Rightarrow> string \<Rightarrow> string list \<Rightarrow> 's \<Rightarrow> (bool \<times> state_error option) \<times> 's" where
  "owned_by_any ops now searchID [] s = ((False, None), s)"
| "owned_by_any ops now searchID (owner # owners) s = (case st_Owns ops (now 0) searchID owner s of
     ((owned, err), s) \<Rightarrow>
       if err \<noteq> None \<or> owned then ((owned, err), s) else owned_by_any ops (\<lambda>i. now (Suc i)) searchID owners s)"

definition not_found :: "http_request \<Rightarrow> response" where
  "not_found r = reject r [] 404 ''Search not found'' ''The search expired, was deleted, or never existed.''"

text \<open>The answer, if the request ends here. \<open>searchID\<close> is the path value.\<close>

definition authorizeSearch :: "'s edgeState \<Rightarrow> (nat \<Rightarrow> time) \<Rightarrow> http_request \<Rightarrow> string \<Rightarrow> principal \<Rightarrow> 's \<Rightarrow> response option \<times> 's" where
  "authorizeSearch ops now r searchID identity s =
     (if \<not> Valid searchID then (Some (reject r [] 400 ''Invalid search identifier'' ''searchId must be a canonical UUID.''), s)
      else (case owned_by_any ops now searchID (principalOwnerIDs identity) s of
          ((_, Some e), s) \<Rightarrow> (Some (reject r [] 503 ''Authorization state unavailable'' ''Search authorization is temporarily unavailable.''), s)
        | ((False, None), s) \<Rightarrow> (Some (not_found r), s)
        | ((True, None), s) \<Rightarrow> (None, s)))"

definition service_unavailable :: "http_request \<Rightarrow> response" where
  "service_unavailable r = reject r [] 503 ''Routing service unavailable'' ''The routing service is temporarily unavailable.''"

definition writeNormalizedUpstreamProblem :: "http_request \<Rightarrow> int \<Rightarrow> response" where
  "writeNormalizedUpstreamProblem r status =
     (if status = 404 then not_found r
      else if status = 400 \<or> status = 422 then reject r [] 422 ''Request rejected'' ''The routing request could not be processed.''
      else service_unavailable r)"

definition edge_getSearch ::
    "'s edgeState \<Rightarrow> (nat \<Rightarrow> time) \<Rightarrow> http_request \<Rightarrow> string \<Rightarrow> principal \<Rightarrow> RouteSearchResult upstream \<Rightarrow> 's \<Rightarrow> response \<times> upstream_call list \<times> 's" where
  "edge_getSearch ops now r searchID identity answer s = (case authorizeSearch ops now r searchID identity s of
     (Some w, s) \<Rightarrow> (w, [], s)
   | (None, s) \<Rightarrow> (case client_getSearch answer of (status, body, result, failed) \<Rightarrow>
       (if failed then service_unavailable r
        else if status \<noteq> 200 then writeNormalizedUpstreamProblem r status
        else if validateResult result \<noteq> None then
          reject r [] 502 ''Invalid routing response'' ''The routing service returned an invalid contract.''
        else writeRawJSON [] status body, [GetSearch searchID], s)))"

definition edge_deleteSearch ::
    "'s edgeState \<Rightarrow> (nat \<Rightarrow> time) \<Rightarrow> http_request \<Rightarrow> string \<Rightarrow> principal \<Rightarrow> RouteSearchResult upstream \<Rightarrow> 's \<Rightarrow> response \<times> upstream_call list \<times> 's" where
  "edge_deleteSearch ops now r searchID identity answer s = (case authorizeSearch ops now r searchID identity s of
     (Some w, s) \<Rightarrow> (w, [], s)
   | (None, s) \<Rightarrow> (case client_deleteSearch answer of (status, failed) \<Rightarrow>
       if failed then (service_unavailable r, [DeleteSearch searchID], s)
       else if status \<noteq> 204 then (writeNormalizedUpstreamProblem r status, [DeleteSearch searchID], s)
       else (\<lparr> ws_Status = 204, ws_Headers = [], ws_Body = NoBody \<rparr>, [DeleteSearch searchID], snd (st_DeleteOwner ops searchID s))))"

section \<open>The event stream\<close>

text \<open>The upstream stream: no connection, or one with a status.\<close>

datatype stream_answer = StreamFailed | StreamReplied int

text \<open>The time a stream may live, or the answer to an expired session. The wrapped response writer can always flush.\<close>

definition stream_lifetime :: "edgeConfig \<Rightarrow> time \<Rightarrow> http_request \<Rightarrow> principal \<Rightarrow> response + duration" where
  "stream_lifetime cfg now r identity = (case pc_ExpiresAt identity of
     None \<Rightarrow> Inr (ec_SSEMaxLifetime cfg)
   | Some expiry \<Rightarrow>
       let remaining = expiry - now in
       if remaining \<le> 0 then Inl (reject r [] 401 ''Session expired'' ''Reauthenticate before opening an event stream.'')
       else Inr (if remaining < ec_SSEMaxLifetime cfg then remaining else ec_SSEMaxLifetime cfg))"

text \<open>With the slot held: the cursor, the lifetime and the upstream connection. \<^term>\<open>Inr\<close> is an open stream with its lifetime.\<close>

definition connect_stream ::
    "edgeConfig \<Rightarrow> time \<Rightarrow> http_request \<Rightarrow> string \<Rightarrow> principal \<Rightarrow> stream_answer \<Rightarrow> (response + duration) \<times> upstream_call list" where
  "connect_stream cfg now r searchID identity answer =
     (let lastEventID = trim_space (hr_Header r ''Last-Event-ID'') in
      if lastEventID \<noteq> [] \<and> (case ParseInt lastEventID of None \<Rightarrow> True | Some v \<Rightarrow> v < 0) then
        (Inl (reject r [] 400 ''Invalid event cursor'' ''Last-Event-ID must be a non-negative integer.''), [])
      else (case stream_lifetime cfg now r identity of
          Inl w \<Rightarrow> (Inl w, [])
        | Inr lifetime \<Rightarrow> (case answer of
              StreamFailed \<Rightarrow> Inl (reject r [] 503 ''Event stream unavailable'' ''The event stream is temporarily unavailable.'')
            | StreamReplied status \<Rightarrow> if status \<noteq> 200 then Inl (writeNormalizedUpstreamProblem r status) else Inr lifetime,
            [SearchEvents searchID lastEventID])))"

text \<open>\<open>events\<close> up to the open stream, over the server with its slots; \<open>now\<close> 0 is read for the lifetime, later numbers for the owners. A stream that
  does not open gives its slot back; an open one gives it back with \<open>releaseSSE\<close> when it ends.\<close>

definition edge_events ::
    "'s edgeState \<Rightarrow> edgeConfig \<Rightarrow> (nat \<Rightarrow> time) \<Rightarrow> http_request \<Rightarrow> string \<Rightarrow> principal \<Rightarrow> stream_answer \<Rightarrow> 's apiServer
     \<Rightarrow> (response + duration) \<times> upstream_call list \<times> 's apiServer" where
  "edge_events ops cfg now r searchID identity answer e = (case authorizeSearch ops (\<lambda>i. now (Suc i)) r searchID identity (as_state e) of
     (Some w, s) \<Rightarrow> (Inl w, [], e\<lparr>as_state := s\<rparr>)
   | (None, s) \<Rightarrow>
       let e = e\<lparr>as_state := s\<rparr>; owner = currentOwnerID identity in
       (case acquireSSE cfg owner e of (rejection, e) \<Rightarrow>
         if rejection = ''principal_limit'' then
           (Inl (reject r [(''Retry-After'', ''30'')] 429 ''SSE connection limit exceeded'' ''Too many event streams are already open for this identity.''), [], e)
         else if rejection \<noteq> [] then
           (Inl (reject r [(''Retry-After'', ''1'')] 503 ''SSE capacity exhausted'' ''Event-stream capacity is temporarily exhausted.''), [], e)
         else (case connect_stream cfg (now 0) r searchID identity answer of
             (Inl w, calls) \<Rightarrow> (Inl w, calls, releaseSSE owner e)
           | (Inr lifetime, calls) \<Rightarrow> (Inr lifetime, calls, e))))"

text \<open>The relay loop: what its \<open>select\<close> chooses, one after the other. A read brings bytes, possibly none, and says whether the upstream has
  ended; the write to the client may fail.\<close>

datatype stream_event = LifetimeOver | IdleTimeout | Read string bool bool

fun relay :: "stream_event list \<Rightarrow> string" where
  "relay [] = []"
| "relay (LifetimeOver # events) = []"
| "relay (IdleTimeout # events) = []"
| "relay (Read body ended write_fails # events) =
     (if body \<noteq> [] \<and> write_fails then [] else body @ (if ended then [] else relay events))"

section \<open>Suggestions and overview\<close>

text \<open>\<open>decodeGeosuggestResponse\<close>, after the JSON decoder.\<close>

definition decodeGeosuggestResponse :: "GeoSuggestion list option \<Rightarrow> bool" where
  "decodeGeosuggestResponse decoded = (case decoded of None \<Rightarrow> False
     | Some suggestions \<Rightarrow> list_all (\<lambda>g. gs_ID g \<noteq> [] \<and> gs_Label g \<noteq> [] \<and> GeoPoint_Validate (gs_Point g) = None) suggestions)"

text \<open>The answer to a query; \<open>q\<close>, \<open>lang\<close> and \<open>limit\<close> are the query values. An upstream body that breaks off is an error.\<close>

definition edge_geosuggest :: "http_request \<Rightarrow> string \<Rightarrow> string \<Rightarrow> string \<Rightarrow> GeoSuggestion list upstream \<Rightarrow> response \<times> upstream_call list" where
  "edge_geosuggest r q lang limit answer =
     (let query = trim_space q; language = (if lang = [] then ''ru_RU'' else lang);
          parsed = (if limit = [] then Some 5 else ParseInt limit)
      in if rune_count query < 2 \<or> rune_count query > 200 then (reject r [] 400 ''Invalid query'' ''q must contain 2-200 characters.'', [])
         else if language \<noteq> ''ru_RU'' \<and> language \<noteq> ''en_US'' then (reject r [] 400 ''Invalid language'' ''lang must be ru_RU or en_US.'', [])
         else (case parsed of
             None \<Rightarrow> (reject r [] 400 ''Invalid limit'' ''limit must be between 1 and 10.'', [])
           | Some n \<Rightarrow>
               if n < 1 \<or> n > 10 then (reject r [] 400 ''Invalid limit'' ''limit must be between 1 and 10.'', [])
               else
                 let unavailable = reject r [] 503 ''Address search unavailable'' ''Address search is temporarily unavailable.'' in
                 (case answer of
                    Replied status body decoded \<Rightarrow>
                      if status \<ge> 500 then unavailable
                      else if status \<noteq> 200 then writeNormalizedUpstreamProblem r status
                      else if \<not> decodeGeosuggestResponse decoded then
                        reject r [] 502 ''Invalid geosuggest response'' ''Address provider returned an invalid contract.''
                      else writeRawJSON [] 200 body
                  | _ \<Rightarrow> unavailable, [Suggest query language n])))"

definition edge_adminOverview :: "http_request \<Rightarrow> principal \<Rightarrow> unit upstream \<Rightarrow> response \<times> upstream_call list" where
  "edge_adminOverview r identity answer =
     (if \<not> hasRole identity ''admin'' then (reject r [] 403 ''Forbidden'' ''Administrator role is required.'', [])
      else (case answer of
          Replied status body _ \<Rightarrow>
            if status = 200 then writeRawJSON [] 200 body
            else reject r [] 503 ''Admin overview unavailable'' ''Administrative telemetry is temporarily unavailable.''
        | _ \<Rightarrow> reject r [] 503 ''Admin overview unavailable'' ''Administrative telemetry is temporarily unavailable.'', [AdminOverview]))"

section \<open>Only owners reach a search\<close>

text \<open>What the handlers rely on of a store: \<open>owner_of\<close> is the owner it knows of a search at a time, and asking changes nothing that counts.\<close>

locale owner_store =
  fixes ops :: "'s edgeState" and owner_of :: "'s \<Rightarrow> time \<Rightarrow> string \<Rightarrow> string option"
  assumes owns_true: "st_Owns ops now sid owner s = ((True, None), s') \<Longrightarrow> owner_of s now sid = Some owner"
    and owns_false: "st_Owns ops now sid owner s = ((False, None), s') \<Longrightarrow> owner_of s now sid \<noteq> Some owner"
    and owns_adds_nothing: "st_Owns ops now sid owner s = (answer, s') \<Longrightarrow> owner_of s' t sid' = Some other \<Longrightarrow> owner_of s t sid' = Some other"
    and owns_keeps: "st_Owns ops now sid owner s = (answer, s') \<Longrightarrow> owner_of s t sid' = Some other \<Longrightarrow> now \<le> t \<Longrightarrow> owner_of s' t sid' = Some other"
begin

lemma owned_sound:
  "owned_by_any ops now sid owners s = ((True, None), s') \<Longrightarrow> \<exists>i < length owners. owner_of s (now i) sid = Some (owners ! i)"
proof (induction owners arbitrary: now s)
  case (Cons owner owners)
  obtain owned err s1 where o: "st_Owns ops (now 0) sid owner s = ((owned, err), s1)" by (metis prod.collapse)
  show ?case
  proof (cases "err \<noteq> None \<or> owned")
    case True
    then have "owner_of s (now 0) sid = Some owner" using Cons.prems o owns_true by (auto split: if_splits)
    then show ?thesis by (intro exI [of _ 0]) simp
  next
    case False
    with Cons.IH [of "\<lambda>i. now (Suc i)" s1] Cons.prems o obtain i where i: "i < length owners" "owner_of s1 (now (Suc i)) sid = Some (owners ! i)" by auto
    then show ?thesis using owns_adds_nothing [OF o i(2)] by (intro exI [of _ "Suc i"]) simp
  qed
qed simp

lemma owned_complete:
  "owned_by_any ops now sid owners s = ((False, None), s') \<Longrightarrow> \<forall>i j. i \<le> j \<longrightarrow> now i \<le> now j \<Longrightarrow> i < length owners \<Longrightarrow>
     owner_of s (now i) sid \<noteq> Some (owners ! i)"
proof (induction owners arbitrary: now s i)
  case (Cons owner owners)
  obtain owned err s1 where o: "st_Owns ops (now 0) sid owner s = ((owned, err), s1)" by (metis prod.collapse)
  then have continues: "\<not> (err \<noteq> None \<or> owned)" using Cons.prems(1) by (auto split: if_splits)
  have rest: "owned_by_any ops (\<lambda>i. now (Suc i)) sid owners s1 = ((False, None), s')" using Cons.prems(1) o continues by simp
  show ?case
  proof (cases i)
    case 0
    then show ?thesis using owns_false [of "now 0" sid owner s s1] o continues by simp
  next
    case (Suc k)
    have "owner_of s1 (now (Suc k)) sid \<noteq> Some (owners ! k)"
      using Cons.IH [OF rest, of k] Cons.prems(2,3) Suc by simp
    then show ?thesis using owns_keeps [OF o, of "now (Suc k)" sid "owners ! k"] Cons.prems(2) Suc by auto
  qed
qed simp

end

definition memory_owner :: "memoryState \<Rightarrow> time \<Rightarrow> string \<Rightarrow> string option" where
  "memory_owner s now searchID = (case ms_owners s searchID of None \<Rightarrow> None | Some v \<Rightarrow> if now > mv_expiresAt v then None else Some (mv_value v))"

interpretation memory: owner_store memory_ops memory_owner
  by unfold_locales (auto simp: memory_ops_def memory_owner_def Owns_def split: prod.splits option.splits if_splits)

lemma memory_no_error: "fst (owned_by_any memory_ops now sid owners s) = (owned, err) \<Longrightarrow> err = None"
  by (induction owners arbitrary: now s)
    (auto simp: memory_ops_def split: prod.splits if_splits)

lemma authorize_memory:
  assumes "Valid sid" "\<And>i j. i \<le> j \<Longrightarrow> now i \<le> now j" "authorizeSearch memory_ops now r sid p s = (w, s')"
  shows "if \<exists>i < length (principalOwnerIDs p). memory_owner s (now i) sid = Some (principalOwnerIDs p ! i) then w = None else w = Some (not_found r)"
proof -
  obtain owned err s1 where o: "owned_by_any memory_ops now sid (principalOwnerIDs p) s = ((owned, err), s1)" by (metis prod.collapse)
  then have err: "err = None" using memory_no_error [of now sid "principalOwnerIDs p" s owned err] by simp
  show ?thesis
  proof (cases owned)
    case True
    then show ?thesis using assms(1,3) o err memory.owned_sound [of now sid "principalOwnerIDs p" s s1] by (auto simp: authorizeSearch_def)
  next
    case False
    then have "owned_by_any memory_ops now sid (principalOwnerIDs p) s = ((False, None), s1)" using o err by simp
    from memory.owned_complete [OF this] show ?thesis using assms o err False by (auto simp: authorizeSearch_def)
  qed
qed

text \<open>C25: A search belongs to its owner. Reading it, deleting it and listening to its events reach the orchestrator only for an identity one of whose owner
  ids is the unexpired owner of the search; everybody else gets the same answer that an unknown search gets, whoever owns it, without any
  upstream request and without taking a stream slot. An owner is let through.\<close>

theorem search_needs_owner:
  fixes s :: memoryState
  assumes valid: "Valid sid" and clock: "\<And>i j. i \<le> j \<Longrightarrow> now i \<le> now j"
    and owned: "owned \<longleftrightarrow> (\<exists>i < length (principalOwnerIDs p). memory_owner s (now i) sid = Some (principalOwnerIDs p ! i))"
    and server: "as_state e = s"
  shows "(case edge_getSearch memory_ops now r sid p answer s of (w, calls, _) \<Rightarrow>
        if owned then calls = [GetSearch sid] else w = not_found r \<and> calls = [])
    \<and> (case edge_deleteSearch memory_ops now r sid p answer s of (w, calls, _) \<Rightarrow>
        if owned then calls = [DeleteSearch sid] else w = not_found r \<and> calls = [])
    \<and> (case edge_events memory_ops cfg (\<lambda>i. case i of 0 \<Rightarrow> t | Suc k \<Rightarrow> now k) r sid p stream e of (w, calls, e') \<Rightarrow>
        \<not> owned \<longrightarrow> w = Inl (not_found r) \<and> calls = [] \<and> as_sseGlobal e' = as_sseGlobal e \<and> as_sseByOwner e' = as_sseByOwner e)"
proof -
  obtain w s' where a: "authorizeSearch memory_ops now r sid p s = (w, s')" by fastforce
  have w: "w = (if owned then None else Some (not_found r))"
    using authorize_memory [OF valid clock a] owned by (auto split: if_splits)
  then show ?thesis
    using a server by (auto simp: edge_getSearch_def edge_deleteSearch_def edge_events_def split: prod.splits)
qed

definition ex_owner :: principal where
  "ex_owner = \<lparr> pc_UserID = ''u'', pc_DisplayName = [], pc_Roles = [], pc_Authenticated = True, pc_ExpiresAt = None, pc_OwnerIDs = [''new'', ''old''],
     pc_AbuseSubjectIDs = [] \<rparr>"

definition ex_search :: string where
  "ex_search = ''00000000-0000-4000-8000-000000000000''"

theorem search_needs_owner_witness:
  "fst (snd (edge_deleteSearch memory_ops (\<lambda>_. 5) (ex_http ''DELETE'' []) ex_search ex_owner (Replied 204 [] None)
      (SetOwner 0 ex_search ''old'' 10 newMemoryState))) = [DeleteSearch ex_search]"
proof -
  define s where "s = SetOwner 0 ex_search ''old'' 10 newMemoryState"
  have v: "Valid ex_search" by code_simp
  have "memory_owner s 5 ex_search = Some (principalOwnerIDs ex_owner ! 1)" "1 < length (principalOwnerIDs ex_owner)"
    by (simp_all add: s_def memory_owner_def SetOwner_def principalOwnerIDs_def ex_owner_def)
  then have o: "True \<longleftrightarrow> (\<exists>i < length (principalOwnerIDs ex_owner). memory_owner s 5 ex_search = Some (principalOwnerIDs ex_owner ! i))" by blast
  have "as_state (ex_server\<lparr>as_state := s\<rparr>) = s" by simp
  from search_needs_owner [where now = "\<lambda>_. 5", OF v _ o this, where r = "ex_http ''DELETE'' []" and answer = "Replied 204 [] None" and cfg = ex_edge_config and t = 0
      and stream = StreamFailed] show ?thesis
    by (simp add: s_def split: prod.splits)
qed

end
