(* ===== verification/EdgeContract.thy ===== *)
theory EdgeContract
  imports EdgeSearch Engine_Properties
begin

text \<open>
  The engine's results meet the contract that the edge checks them against (\<open>validateResult\<close> in \<open>services/edge-api/service_client.go\<close>): what the
  orchestrator computes, the edge passes on.
\<close>

section \<open>Routes of a pool\<close>

definition public_confidence :: "Confidence \<Rightarrow> bool" where
  "public_confidence c \<longleftrightarrow> Level c \<in> {ConfidenceHigh, ConfidenceMedium, ConfidenceLow} \<and> \<not> Score c < 0 \<and> \<not> 1 < Score c"

lemma candidate_accepted_iff:
  "validateResultCandidate c = None \<longleftrightarrow> rc_CandidateID c \<noteq> [] \<and> public_confidence (rc_Confidence c) \<and> rc_ReasonCodes c \<noteq> []"
  by (auto simp: validateResultCandidate_def public_confidence_def check_def)

lemma clamp01_cases: "clamp01 a = NaN \<or> frange 0 1 (clamp01 a)"
  by (cases a) (auto simp: clamp01_def fmin_def fmax_def frange_def zero_f64_def one_f64_def)

lemma rounded_unit: "\<not> round_to (clamp01 a) 4 < 0 \<and> \<not> 1 < round_to (clamp01 a) 4"
proof (cases "clamp01 a = NaN")
  case True
  then have "round_to (clamp01 a) 4 = NaN" by (simp add: round_to_def Let_def times_f64_def divide_f64_def)
  then show ?thesis by simp
next
  case False
  with clamp01_cases have "frange 0 1 (clamp01 a)" by blast
  then have "frange 0 1 (round_to (clamp01 a) 4)" using round_to_range [of 1 "clamp01 a" 4] by simp
  then show ?thesis by (auto simp: frange_def zero_f64_def one_f64_def)
qed

lemma public_level: "public_confidence c \<Longrightarrow> l \<in> {ConfidenceHigh, ConfidenceMedium, ConfidenceLow} \<Longrightarrow> public_confidence (c\<lparr>Level := l\<rparr>)"
  by (simp add: public_confidence_def)

lemma public_rounded: "public_confidence (confidence (clamp01 a) r)"
  using rounded_unit [of a] by (simp add: confidence_def public_confidence_def)

lemma public_step: "(\<And>s r. public_confidence (B s r)) \<Longrightarrow> public_confidence (case E of (s, r) \<Rightarrow> B s r)"
  by (cases E) simp

lemma public_if: "public_confidence c \<Longrightarrow> public_confidence d \<Longrightarrow> public_confidence (if b then c else d)"
  by simp

lemma public_routeConfidence: "public_confidence (routeConfidence c e s cfg)"
  unfolding routeConfidence_def Let_def by (intro public_step public_if public_level public_rounded) simp_all

lemma Evaluate_confidence: "\<exists>c' s. rc_Confidence (Evaluate c e cfg) = routeConfidence c' e s cfg"
  by (auto simp: Evaluate_def Let_def)

lemma pool_route:
  assumes "pool k p" "c \<in> set p"
  shows "rc_CandidateID c \<noteq> [] \<and> public_confidence (rc_Confidence c)"
proof -
  obtain c0 where c0: "route_safe c0" "scored_from (k_scoring k) c0 c" using assms by (auto simp: pool_def list_all_iff)
  then obtain c' e where "c = Evaluate c' e (k_scoring k)" by (auto simp: scored_from_def)
  then have "public_confidence (rc_Confidence c)" using Evaluate_confidence [of c' e "k_scoring k"] public_routeConfidence by auto
  with c0 show ?thesis by (simp add: scored_from_def same_trip_def route_safe_def)
qed

section \<open>The lists of a result\<close>

lemma best_effort_routes:
  assumes "pool k p" "b \<in> set (rk_BestEffort (Rank p request cfg))"
  shows "validateResultCandidate b = None \<and> containsReason (rc_ReasonCodes b) ''BEST_EFFORT_NOT_STRICT_GREEN''
    \<and> containsReasonPrefix (rc_ReasonCodes b) ''STRICT_GREEN_''"
proof -
  have ne: "p \<noteq> []" using assms(2) by (auto simp: Rank_Nil rank_init_def)
  obtain c vs where c: "c \<in> set p" "hasStrictGreenViolation vs" "b = markBestEffort vs c"
    using assms(2) by (auto simp: Rank_eq [OF ne] best_effort_of_def dest!: in_set_takeD)
  have "rc_CandidateID b = rc_CandidateID c" "rc_Confidence b = rc_Confidence c" by (simp_all add: c(3) markBestEffort_def)
  then show ?thesis
    using pool_route [OF assms(1) c(1)] c(2)
    by (auto simp: candidate_accepted_iff containsReason_def containsReasonPrefix_def list_ex_iff c(3) set_markBestEffort hasStrictGreenViolation_def
        simp flip: set_empty)
qed

lemma green_route:
  assumes "pool k p" "c \<in> set (topGreenRoutes p n)"
  shows "validateResultCandidate c = None \<and> containsReasonPrefix (rc_ReasonCodes c) ''GREEN_RANK_''"
proof -
  obtain i c0 where e: "(i, c0) \<in> set (enumerate 0 (take n (sort_stable greener (comparable_routes [] p))))" "c = green_ranked i c0"
    using assms(2) by (auto simp: topGreenRoutes_def Let_def)
  then have "c0 \<in> set (take n (sort_stable greener (comparable_routes [] p)))" by (auto simp: in_set_enumerate_eq intro: nth_mem simp del: take_map nth_take)
  then have "c0 \<in> set (comparable_routes [] p)" by (auto dest: in_set_takeD)
  then have c0: "c0 \<in> set p" "c = green_ranked i c0" using comparable_routes_facts(1) [of "[]" p] e(2) by blast+
  then show ?thesis
    using pool_route [OF assms(1) c0(1)]
    by (auto simp: candidate_accepted_iff containsReasonPrefix_def list_ex_iff green_ranked_def Let_def appendUniqueString_def uniqueStrings_def set_unique_from
        simp flip: set_empty)
qed

lemma green_distinct: "distinct (map rc_CandidateID (topGreenRoutes p n))"
proof -
  have "map rc_CandidateID (topGreenRoutes p n) = map rc_CandidateID (take n (sort_stable greener (comparable_routes [] p)))"
    by (rule nth_equalityI) (simp_all add: topGreenRoutes_def nth_enumerate_eq green_ranked_def Let_def)
  then show ?thesis using comparable_routes_facts(2) by (simp add: distinct_map_sort_stable flip: take_map)
qed

lemma selected_route:
  assumes "pool k p" "rk_Selected (Rank p request cfg) = Some s" "0 \<le> rq_MaxExtraDistanceMeters request" "codes \<in> selection_codes s"
  shows "validateResultCandidate (s\<lparr>rc_ReasonCodes := codes\<rparr>) = None"
proof -
  obtain c where c: "c \<in> set p" "s = chosen (the_fastest p) request (scored (the_fastest p) request cfg c)"
    using assms(2) by (rule selected_mem)
  moreover have "codes \<noteq> []"
  proof -
    have "''NO_GREEN_ROUTE_AVAILABLE'' \<in> set (appendUniqueString (rc_ReasonCodes s) ''NO_GREEN_ROUTE_AVAILABLE'')"
      by (simp add: appendUniqueString_def uniqueStrings_def set_unique_from)
    then show ?thesis using selected_reason_codes [OF assms(3,2)] assms(4) unfolding selection_codes_def by force
  qed
  ultimately show ?thesis using pool_route [OF assms(1) c(1)] by (simp add: candidate_accepted_iff)
qed

section \<open>The checks of the edge\<close>

lemma best_effort_check:
  assumes "\<And>b. b \<in> set cs \<Longrightarrow> validateResultCandidate b = None \<and> containsReason (rc_ReasonCodes b) ''BEST_EFFORT_NOT_STRICT_GREEN''
    \<and> containsReasonPrefix (rc_ReasonCodes b) ''STRICT_GREEN_''"
  shows "validate_best_effort selected seen cs = None \<longleftrightarrow> distinct (map rc_CandidateID cs) \<and> set seen \<inter> rc_CandidateID ` set cs = {}
    \<and> (case selected of None \<Rightarrow> True | Some s \<Rightarrow> rc_CandidateID s \<notin> rc_CandidateID ` set cs)"
  using assms
  by (induction cs arbitrary: seen) (auto simp: check_def split: option.split)

lemma green_check:
  assumes "\<And>c. c \<in> set cs \<Longrightarrow> validateResultCandidate c = None \<and> containsReasonPrefix (rc_ReasonCodes c) ''GREEN_RANK_''"
  shows "validate_green seen cs = None \<longleftrightarrow> distinct (map rc_CandidateID cs) \<and> set seen \<inter> rc_CandidateID ` set cs = {}"
  using assms by (induction cs arbitrary: seen) (auto simp: check_def)

lemma last_check: "first_some [x, None, None] = x"
  by (cases x) simp_all

text \<open>C26: The orchestrator and the edge agree on results. Whatever a search ends with, the edge's contract check accepts it exactly when the best-effort
  routes have distinct ids and none of them has the id of the selected route; every other condition of the check (required fields, arrays,
  lengths, confidence, reason codes, marks and distinct green routes) always holds.\<close>

theorem engine_results_accepted:
  assumes "RouteSearchRequest_Validate now DefaultValidationLimits request = None" "w_sent w = []" "sid \<noteq> []"
  shows "case run_state (run ev lm request (accepted_result origin sid request t)) w of (final, w') \<Rightarrow>
    validateResult final = None \<longleftrightarrow> distinct (map rc_CandidateID (slice_of (rr_BestEffortRoutes final)))
      \<and> (case rr_SelectedRoute final of None \<Rightarrow> True
         | Some s \<Rightarrow> rc_CandidateID s \<notin> rc_CandidateID ` set (slice_of (rr_BestEffortRoutes final)))"
proof -
  let ?k = "ctx_for (w_engine w) sid request" and ?cfg = "en_scoring (w_engine w)"
  obtain final w' where r: "run_state (run ev lm request (accepted_result origin sid request t)) w = (final, w')" by fastforce
  have c: "concluded ?k request final" using run_outcome [OF assms(1,2), of ev lm origin sid t] unfolding wp_def r by (simp add: outcome_def)
  have extra: "0 \<le> rq_MaxExtraDistanceMeters request" using assms(1) by (simp add: request_validate_None request_ok_def)
  obtain q where q: "pool ?k q" "rr_BestEffortRoutes final = Some (rk_BestEffort (Rank q request ?cfg))"
    using c by (auto simp: concluded_def shown_def ctx_for_def)
  obtain g where g: "pool ?k g" "rr_GreenTopRoutes final = Some (topGreenRoutes g 3)" using c by (auto simp: concluded_def shown_def)
  obtain p where p: "pool ?k p" "(rr_Alternatives final = None) = False" "case rk_Selected (Rank p request ?cfg) of None \<Rightarrow> rr_SelectedRoute final = None
      | Some s \<Rightarrow> \<exists>codes \<in> selection_codes s. rr_SelectedRoute final = Some (s\<lparr>rc_ReasonCodes := codes\<rparr>)"
    using c by (auto simp: concluded_def ctx_for_def)
  have selected: "(case rr_SelectedRoute final of None \<Rightarrow> None | Some s \<Rightarrow> validateResultCandidate s) = None"
    using p(3) selected_route [OF p(1) _ extra] by (auto split: option.splits)
  have status: "rr_SearchID final \<noteq> []" "rr_Status final \<noteq> SearchOther []" using c assms(3) by (auto simp: concluded_def ctx_for_def)
  have lengths: "length (rk_BestEffort (Rank q request ?cfg)) \<le> 3" "length (topGreenRoutes g 3) \<le> 3"
    using Rank_lengths(2) length_topGreenRoutes by auto
  have checks: "validateResult final = validate_best_effort (rr_SelectedRoute final) [] (rk_BestEffort (Rank q request ?cfg))"
    using selected status lengths p(2) green_check [of "topGreenRoutes g 3" "[]"] green_route [OF g(1)] green_distinct [of g 3]
    by (cases "rr_Alternatives final") (simp_all add: validateResult_def check_def elements_def q(2) g(2) last_check)
  show ?thesis
    unfolding r prod.case checks using best_effort_check [OF best_effort_routes [OF q(1)], where seen = "[]"]
    by (simp add: slice_of_def q(2) cong: option.case_cong)
qed

theorem engine_results_accepted_witness:
  "\<exists>final w'. run_state (run ex_env ex_libm (ex_request RoutingModeStrictGreen)
      (accepted_result (w_engine ex_world) ''s'' (ex_request RoutingModeStrictGreen) 0)) ex_world = (final, w')
    \<and> (rr_BestEffortRoutes final = Some [] \<longrightarrow> validateResult final = None)"
proof -
  have sent: "w_sent ex_world = []" by (simp add: ex_world_def)
  from engine_results_accepted [OF ex_request_valid sent, of "''s''", where ev = ex_env and lm = ex_libm and origin = "w_engine ex_world" and t = 0]
  show ?thesis by (auto simp: slice_of_def split: prod.splits option.splits)
qed

end
