(* ===== verification/EdgeIdempotency.thy ===== *)
theory EdgeIdempotency
  imports EdgeSearch
begin

text \<open>
  The idempotency of the edge's \<open>startSearch\<close> (\<open>services/edge-api/server.go\<close>) over the in-memory store: what each branch of the handler leaves of the
  claim of its key, and that one key starts one search.
\<close>

section \<open>Only the creation creates\<close>

lemma recover_calls: "recoverOperation ev n k = (x, calls) \<Longrightarrow> StartSearch op q \<notin> set calls"
  by (auto simp: recoverOperation_def Let_def split: if_splits prod.splits)

lemma recover_status: "recoverOperation ev n k = (Some (status, body, result), calls) \<Longrightarrow> status = 200 \<or> status = 202"
  by (auto simp: recoverOperation_def Let_def split: if_splits prod.splits)

lemma record_calls: "record_search ops cfg ev r v calls replayed status body result s = (w, calls', s') \<Longrightarrow>
    StartSearch op q \<in> set calls' \<Longrightarrow> StartSearch op q \<in> set calls"
  by (auto simp: record_search_def Let_def split: if_splits prod.splits option.splits)

lemma accept_calls: "accept_search ops cfg ev r v calls replayed status body result s = (w, calls', s') \<Longrightarrow>
    StartSearch op q \<in> set calls' \<Longrightarrow> StartSearch op q \<in> set calls"
  by (auto simp: accept_search_def split: if_splits prod.splits option.splits dest!: record_calls dest: recover_calls)

section \<open>What a request leaves of its claim\<close>

text \<open>The store keeps the claims when an owner is stored.\<close>

lemma record_memory:
  assumes "record_search memory_ops cfg ev r v calls replayed status body result s = (w, calls', s')" "sv_key v \<noteq> []"
  shows "ws_Status w = status" "search_location (rr_SearchID result) \<in> set (ws_Headers w)"
    "(''Location'', l) \<in> set (ws_Headers w) \<Longrightarrow> (''Location'', l) = search_location (rr_SearchID result)"
    "\<exists>s2. ms_idempotency s2 = ms_idempotency s \<and>
      s' = snd (CompleteIdempotency (se_now ev 3) (se_now ev 4) (sv_key v) (sv_bodyHash v) (sv_claim v) (rr_SearchID result) (ec_IdempotencyTTL cfg) s2)"
proof -
  have "ms_idempotency (SetOwner (se_now ev 2) (rr_SearchID result) (sv_owner v) (ec_OwnershipTTL cfg) s) = ms_idempotency s"
    by (simp add: SetOwner_def)
  moreover have "s' = snd (CompleteIdempotency (se_now ev 3) (se_now ev 4) (sv_key v) (sv_bodyHash v) (sv_claim v) (rr_SearchID result) (ec_IdempotencyTTL cfg)
      (SetOwner (se_now ev 2) (rr_SearchID result) (sv_owner v) (ec_OwnershipTTL cfg) s))"
    using assms by (simp add: record_search_def memory_ops_def)
  ultimately show "\<exists>s2. ms_idempotency s2 = ms_idempotency s \<and>
      s' = snd (CompleteIdempotency (se_now ev 3) (se_now ev 4) (sv_key v) (sv_bodyHash v) (sv_claim v) (rr_SearchID result) (ec_IdempotencyTTL cfg) s2)" by blast
  show "ws_Status w = status" "search_location (rr_SearchID result) \<in> set (ws_Headers w)"
    "(''Location'', l) \<in> set (ws_Headers w) \<Longrightarrow> (''Location'', l) = search_location (rr_SearchID result)"
    using assms by (auto simp: record_search_def memory_ops_def writeRawJSON_def replayed_header_def search_location_def split: if_splits)
qed

text \<open>What a keyed request leaves of its claim: still pending after a failure, completed with the search it names after a success.\<close>

definition pending_record :: "string \<Rightarrow> string \<Rightarrow> time \<Rightarrow> idempotencyRecord memoryValue" where
  "pending_record body token expiry = \<lparr> mv_value = \<lparr> ir_BodyHash = body, ir_ClaimToken = token, ir_Pending = True, ir_SearchID = [],
     ir_ExpiresAt = expiry \<rparr>, mv_expiresAt = expiry \<rparr>"

definition completed_record :: "string \<Rightarrow> string \<Rightarrow> time \<Rightarrow> idempotencyRecord memoryValue" where
  "completed_record body sid expiry = \<lparr> mv_value = \<lparr> ir_BodyHash = body, ir_ClaimToken = [], ir_Pending = False, ir_SearchID = sid,
     ir_ExpiresAt = expiry \<rparr>, mv_expiresAt = expiry \<rparr>"

lemma record_completes:
  assumes "record_search memory_ops cfg ev r v calls replayed status body result s = (w, calls', s')" "sv_key v \<noteq> []"
    and "ms_idempotency s (sv_key v) = Some (pending_record (sv_bodyHash v) (sv_claim v) expiry)" "se_now ev 3 \<le> expiry"
  shows "ms_idempotency s' (sv_key v) = Some (completed_record (sv_bodyHash v) (rr_SearchID result) (se_now ev 4 + ec_IdempotencyTTL cfg))"
proof -
  obtain s2 where s2: "ms_idempotency s2 = ms_idempotency s"
      "s' = snd (CompleteIdempotency (se_now ev 3) (se_now ev 4) (sv_key v) (sv_bodyHash v) (sv_claim v) (rr_SearchID result) (ec_IdempotencyTTL cfg) s2)"
    using record_memory(4) [OF assms(1,2)] by blast
  have "ms_idempotency s2 (sv_key v) = Some (pending_record (sv_bodyHash v) (sv_claim v) expiry)" using s2(1) assms(3) by simp
  from complete_pending(2) [OF this, of "se_now ev 3" "sv_bodyHash v"] assms(4) s2(2) show ?thesis
    by (simp add: pending_record_def completed_record_def)
qed

text \<open>The state of the claim after the handler.\<close>

definition claim_left :: "start_env \<Rightarrow> edgeConfig \<Rightarrow> started \<Rightarrow> time \<Rightarrow> response \<Rightarrow> memoryState \<Rightarrow> bool" where
  "claim_left ev cfg v expiry w s \<longleftrightarrow>
     (ws_Status w \<notin> {200, 202} \<and> ms_idempotency s (sv_key v) = Some (pending_record (sv_bodyHash v) (sv_claim v) expiry))
     \<or> (ws_Status w \<in> {200, 202} \<and> (\<exists>sid. (\<forall>l. (''Location'', l) \<in> set (ws_Headers w) \<longrightarrow> (''Location'', l) = search_location sid)
          \<and> ms_idempotency s (sv_key v) = Some (completed_record (sv_bodyHash v) sid (se_now ev 4 + ec_IdempotencyTTL cfg))))"

lemma reject_status [simp]: "ws_Status (reject r headers status title detail) = (if status = 0 then 500 else status)"
  by (simp add: reject_def WriteProblem_def problem_def Let_def)

lemma accept_claim:
  assumes "accept_search memory_ops cfg ev r v calls replayed status body result s = (w, calls', s')" "sv_key v \<noteq> []" "ws_Status w \<noteq> 422"
    and "ms_idempotency s (sv_key v) = Some (pending_record (sv_bodyHash v) (sv_claim v) expiry)" "se_now ev 3 \<le> expiry"
    and "status = 200 \<or> status = 202 \<or> status = 422"
  shows "claim_left ev cfg v expiry w s'"
proof -
  have done_search: "claim_left ev cfg v expiry w s'"
    if "record_search memory_ops cfg ev r v calls0 replayed0 status0 body0 result0 s = (w, calls', s')" "status0 = 200 \<or> status0 = 202"
    for calls0 replayed0 status0 body0 result0
    using record_memory [OF that(1) assms(2)] record_completes [OF that(1) assms(2,4,5)] that(2) unfolding claim_left_def by auto
  have "status \<noteq> 422" using assms(1,3) by (auto simp: accept_search_def writeRawJSON_def)
  with assms(6) have ok: "status = 200 \<or> status = 202" by simp
  show ?thesis
  proof (cases "validateResult result = None")
    case True
    then show ?thesis using done_search [OF _ ok] assms(1) \<open>status \<noteq> 422\<close> by (simp add: accept_search_def)
  next
    case False
    obtain x extra where x: "recoverOperation ev 1 (sv_operation v) = (x, extra)" by fastforce
    show ?thesis
    proof (cases x)
      case None
      then show ?thesis using assms(1,4) False x \<open>status \<noteq> 422\<close> by (auto simp: accept_search_def claim_left_def)
    next
      case (Some y)
      obtain status0 body0 result0 where y: "y = (status0, body0, result0)" by (metis prod_cases3)
      from recover_status [of ev 1 "sv_operation v" status0 body0 result0 extra] have "status0 = 200 \<or> status0 = 202" using x Some y by simp
      with done_search show ?thesis using assms(1) False x Some y \<open>status \<noteq> 422\<close> by (simp add: accept_search_def)
    qed
  qed
qed

lemma client_start_status: "client_startSearch answer = (status, body, result, False) \<Longrightarrow> status = 200 \<or> status = 202 \<or> status = 422"
  by (auto simp: client_startSearch_def split: upstream.splits option.splits if_splits)

lemma call_start_claim:
  assumes "call_start memory_ops cfg ev r v request s = (w, calls, s')" "sv_key v \<noteq> []" "ws_Status w \<noteq> 422"
    and "ms_idempotency s (sv_key v) = Some (pending_record (sv_bodyHash v) (sv_claim v) expiry)" "se_now ev 3 \<le> expiry"
  shows "claim_left ev cfg v expiry w s'"
proof -
  obtain status body result failed where c: "client_startSearch (se_start ev) = (status, body, result, failed)" by (metis prod_cases4)
  obtain x extra where x: "recoverOperation ev 0 (sv_operation v) = (x, extra)" by fastforce
  note accept = accept_claim [OF _ assms(2,3,4,5)]
  show ?thesis
  proof (cases failed)
    case False
    then show ?thesis using accept client_start_status [of "se_start ev" status body result] assms(1) c by (auto simp: call_start_def)
  next
    case failed: True
    show ?thesis
    proof (cases x)
      case None
      then show ?thesis using assms(1,4) c x failed by (auto simp: call_start_def claim_left_def)
    next
      case (Some y)
      obtain status0 body0 result0 where y: "y = (status0, body0, result0)" by (metis prod_cases3)
      from recover_status [of ev 0 "sv_operation v" status0 body0 result0 extra] have "status0 = 200 \<or> status0 = 202" using x Some y by simp
      with accept show ?thesis using assms(1) c x Some y failed by (simp add: call_start_def) blast
    qed
  qed
qed

lemma hex_encode_nonempty: "bs \<noteq> [] \<Longrightarrow> hex_encode bs \<noteq> []"
  by (cases bs) (simp_all add: hex_encode_def)

lemma begin_token: "BeginIdempotency rand now key body recordTTL claimTTL s = ((None, token, None), s') \<Longrightarrow> token = New rand"
  by (auto simp: BeginIdempotency_def existing_answer_def claim_free_def new_claim_def Let_def split: option.splits if_splits)

lemma begin_memory: "st_BeginIdempotency memory_ops rand now key body recordTTL claimTTL s = BeginIdempotency rand now key body recordTTL claimTTL s"
  by (simp add: memory_ops_def)

text \<open>The request that creates holds the claim, a later one does not get it.\<close>

lemma keyed_creates:
  assumes run: "keyed_start memory_ops cfg ev r owner header request s = (w, calls, s')" and start: "StartSearch op q \<in> set calls"
  obtains s1 where "BeginIdempotency (se_rand ev) (se_now ev 1) (idempotency_key ev owner header) (body_hash ev request) (ec_IdempotencyTTL cfg)
        (pendingIdempotencyTTL (ec_IdempotencyTTL cfg)) s = ((None, New (se_rand ev), None), s1)"
    "call_start memory_ops cfg ev r \<lparr> sv_owner = owner, sv_bodyHash = body_hash ev request, sv_key = idempotency_key ev owner header,
        sv_claim = New (se_rand ev), sv_operation = operation_key ev (idempotency_key ev owner header) (body_hash ev request) \<rparr> request s1 = (w, calls, s')"
proof -
  obtain found token err s1 where b: "BeginIdempotency (se_rand ev) (se_now ev 1) (idempotency_key ev owner header) (body_hash ev request)
      (ec_IdempotencyTTL cfg) (pendingIdempotencyTTL (ec_IdempotencyTTL cfg)) s = ((found, token, err), s1)" by (metis prod.collapse)
  have "err = None \<and> found = None"
    using run start b
    by (auto simp: keyed_start_def begin_memory replay_record_def Let_def dest: recover_calls accept_calls split: option.splits state_error.splits prod.splits if_splits)
  with b begin_token [of "se_rand ev" "se_now ev 1"] run show ?thesis by (intro that [of s1]) (auto simp: keyed_start_def begin_memory Let_def)
qed

lemma keyed_leaves:
  assumes "keyed_start memory_ops cfg ev r owner header request s = (w, calls, s')" "StartSearch op q \<in> set calls"
    and "idempotency_key ev owner header \<noteq> []" "ws_Status w \<noteq> 422" "se_now ev 3 \<le> se_now ev 1 + pendingIdempotencyTTL (ec_IdempotencyTTL cfg)"
  shows "claim_left ev cfg \<lparr> sv_owner = owner, sv_bodyHash = body_hash ev request, sv_key = idempotency_key ev owner header,
        sv_claim = New (se_rand ev), sv_operation = operation_key ev (idempotency_key ev owner header) (body_hash ev request) \<rparr>
      (se_now ev 1 + pendingIdempotencyTTL (ec_IdempotencyTTL cfg)) w s'"
proof -
  obtain s1 where b: "BeginIdempotency (se_rand ev) (se_now ev 1) (idempotency_key ev owner header) (body_hash ev request) (ec_IdempotencyTTL cfg)
        (pendingIdempotencyTTL (ec_IdempotencyTTL cfg)) s = ((None, New (se_rand ev), None), s1)"
    and c: "call_start memory_ops cfg ev r \<lparr> sv_owner = owner, sv_bodyHash = body_hash ev request, sv_key = idempotency_key ev owner header,
        sv_claim = New (se_rand ev), sv_operation = operation_key ev (idempotency_key ev owner header) (body_hash ev request) \<rparr> request s1 = (w, calls, s')"
    by (rule keyed_creates [OF assms(1,2)])
  show ?thesis by (rule call_start_claim [OF c]) (use assms begin_granted [OF b] in \<open>simp_all add: pending_record_def\<close>)
qed

lemma reject_location: "(''Location'', l) \<in> set (ws_Headers (reject r headers status title detail)) \<longleftrightarrow> (''Location'', l) \<in> set headers"
  by (simp add: reject_def WriteProblem_def Let_def)

lemma replay_location:
  "(''Location'', l) \<in> set (ws_Headers (fst (replay_record ev r found))) \<Longrightarrow> (''Location'', l) = search_location (ir_SearchID found)"
  by (auto simp: replay_record_def reject_location writeRawJSON_def replayed_header_def search_location_def split: prod.splits if_splits)

lemma keyed_repeats:
  assumes run: "keyed_start memory_ops cfg ev r owner header request s = (w, calls, s')"
    and live: "ms_idempotency s (idempotency_key ev owner header) = Some v" "se_now ev 1 < mv_expiresAt v"
  shows "StartSearch op q \<notin> set calls"
    "\<not> ir_Pending (mv_value v) \<Longrightarrow> (''Location'', l) \<in> set (ws_Headers w) \<Longrightarrow> (''Location'', l) = search_location (ir_SearchID (mv_value v))"
proof -
  note b = begin_live [OF live, of "se_rand ev" "body_hash ev request" "ec_IdempotencyTTL cfg" "pendingIdempotencyTTL (ec_IdempotencyTTL cfg)"]
  show "StartSearch op q \<notin> set calls"
  proof
    assume "StartSearch op q \<in> set calls"
    then obtain s1 where "BeginIdempotency (se_rand ev) (se_now ev 1) (idempotency_key ev owner header) (body_hash ev request) (ec_IdempotencyTTL cfg)
        (pendingIdempotencyTTL (ec_IdempotencyTTL cfg)) s = ((None, New (se_rand ev), None), s1)" by (rule keyed_creates [OF run])
    with b show False by (simp split: if_splits)
  qed
  obtain found token err s1 where begun: "BeginIdempotency (se_rand ev) (se_now ev 1) (idempotency_key ev owner header) (body_hash ev request)
      (ec_IdempotencyTTL cfg) (pendingIdempotencyTTL (ec_IdempotencyTTL cfg)) s = ((found, token, err), s1)" by (metis prod.collapse)
  assume completed: "\<not> ir_Pending (mv_value v)" and l: "(''Location'', l) \<in> set (ws_Headers w)"
  show "(''Location'', l) = search_location (ir_SearchID (mv_value v))"
  proof (cases "ir_BodyHash (mv_value v) = body_hash ev request")
    case True
    then have "w = fst (replay_record ev r (mv_value v))"
      using run b completed begun by (simp add: keyed_start_def begin_memory Let_def split: prod.splits)
    then show ?thesis using l replay_location by simp
  next
    case False
    then have "w = reject r [] 409 ''Idempotency conflict'' ''The same key was already used with a different request.''"
      using run b begun by (simp add: keyed_start_def begin_memory Let_def)
    then show ?thesis using l reject_location by simp
  qed
qed

lemma start_outcomes:
  assumes "edge_startSearch ops cfg ev r p input s = (w, calls, s')" "trim_space (hr_Header r ''Idempotency-Key'') \<noteq> []"
  shows "(calls = [] \<and> (\<forall>l. (''Location'', l) \<notin> set (ws_Headers w)))
    \<or> (\<exists>request. keyed_start ops cfg ev r (currentOwnerID p) (trim_space (hr_Header r ''Idempotency-Key'')) request s = (w, calls, s'))"
  using assms by (auto simp: edge_startSearch_def reject_location Let_def split: sum.splits option.splits if_splits)

section \<open>One search per key\<close>

text \<open>C24: One search per idempotency key. Once a request has created a search, then, whatever operations of other requests run in between, as long as none of
  them presents the token of the claim, every further
  request of the same owner with the same key that comes while the claim or the record lives creates none, whatever its body is; and if both are
  answered with a search, it is the same one. The claim lives for the pending time and, once completed, for the configured time from then on. A
  search that the orchestrator rejects releases the key.\<close>

theorem search_started_once:
  assumes first: "edge_startSearch memory_ops cfg ev1 r1 p1 input1 s = (w1, calls1, s1)" "StartSearch op q \<in> set calls1"
    and key: "trim_space (hr_Header r1 ''Idempotency-Key'') \<noteq> []" "\<And>x. se_sha256 ev1 x \<noteq> []"
    and kept: "ws_Status w1 \<noteq> 422" "se_now ev1 3 \<le> se_now ev1 1 + pendingIdempotencyTTL (ec_IdempotencyTTL cfg)"
    and until: "until = (if ws_Status w1 \<in> {200, 202} then se_now ev1 4 + ec_IdempotencyTTL cfg
        else se_now ev1 1 + pendingIdempotencyTTL (ec_IdempotencyTTL cfg))"
    and between: "list_all (\<lambda>op. before until op \<and> foreign (idempotency_key ev1 (currentOwnerID p1) (trim_space (hr_Header r1 ''Idempotency-Key'')))
        (New (se_rand ev1)) op) ops" "s2 = foldl edge_step s1 ops"
    and again: "edge_startSearch memory_ops cfg ev2 r2 p2 input2 s2 = (w2, calls2, s3)" "currentOwnerID p2 = currentOwnerID p1"
      "trim_space (hr_Header r2 ''Idempotency-Key'') = trim_space (hr_Header r1 ''Idempotency-Key'')" "se_sha256 ev2 = se_sha256 ev1"
      "se_now ev2 1 < until"
  shows "StartSearch op' q' \<notin> set calls2 \<and> (ws_Status w1 \<in> {200, 202} \<longrightarrow> (''Location'', l1) \<in> set (ws_Headers w1) \<longrightarrow>
    (''Location'', l2) \<in> set (ws_Headers w2) \<longrightarrow> l2 = l1)"
proof -
  let ?header = "trim_space (hr_Header r1 ''Idempotency-Key'')" and ?until = "se_now ev1 1 + pendingIdempotencyTTL (ec_IdempotencyTTL cfg)"
  let ?key = "idempotency_key ev1 (currentOwnerID p1) ?header"
  obtain request where "keyed_start memory_ops cfg ev1 r1 (currentOwnerID p1) ?header request s = (w1, calls1, s1)"
    using start_outcomes [OF first(1) key(1)] first(2) by auto
  from keyed_leaves [OF this first(2) _ kept]
  have left: "claim_left ev1 cfg \<lparr> sv_owner = currentOwnerID p1, sv_bodyHash = body_hash ev1 request, sv_key = ?key, sv_claim = New (se_rand ev1),
      sv_operation = operation_key ev1 ?key (body_hash ev1 request) \<rparr> ?until w1 s1"
    using hex_encode_nonempty key(2) by (simp add: idempotency_key_def)
  then obtain v where v: "ms_idempotency s1 ?key = Some v" "mv_expiresAt v = until" "ir_Pending (mv_value v) \<Longrightarrow> ir_ClaimToken (mv_value v) = New (se_rand ev1)"
      "ws_Status w1 \<in> {200, 202} \<Longrightarrow> \<not> ir_Pending (mv_value v)"
      "ws_Status w1 \<in> {200, 202} \<Longrightarrow> (''Location'', l1) \<in> set (ws_Headers w1) \<Longrightarrow> (''Location'', l1) = search_location (ir_SearchID (mv_value v))"
    unfolding claim_left_def until by (auto simp: pending_record_def completed_record_def)
  have live: "ms_idempotency s2 ?key = Some v"
    unfolding between(2) by (rule foreign_run [OF v(1)]) (use between(1) v(2,3) in \<open>auto simp: list_all_iff\<close>)
  show ?thesis
  proof (cases "calls2 = [] \<and> (\<forall>l. (''Location'', l) \<notin> set (ws_Headers w2))")
    case False
    then obtain request2 where "keyed_start memory_ops cfg ev2 r2 (currentOwnerID p1) ?header request2 s2 = (w2, calls2, s3)"
      using start_outcomes [OF again(1)] again(2,3) key(1) by auto
    from keyed_repeats [OF this, of v] live v again(4,5) show ?thesis by (auto simp: idempotency_key_def search_location_def)
  qed auto
qed

text \<open>A created search, still running, and a repetition of the request.\<close>

definition ex_accepted :: RouteSearchResult where
  "ex_accepted = zero_result\<lparr>rr_SearchID := ex_search, rr_Status := SearchAccepted, rr_Alternatives := Some [], rr_BestEffortRoutes := Some []\<rparr>"

definition ex_start :: "time \<Rightarrow> start_env" where
  "ex_start t = \<lparr> se_now = (\<lambda>_. t), se_rand = replicate 16 0, se_sha256 = (\<lambda>_. replicate 32 7), se_marshal = (\<lambda>_. ''{}''), se_text = (\<lambda>_. ''invalid''),
     se_start = Replied 202 ''{}'' (Some ex_accepted), se_get = (\<lambda>_. Replied 200 ''{}'' (Some ex_accepted)), se_delete = Unreachable \<rparr>"

definition ex_start_request :: http_request where
  "ex_start_request = (ex_http ''POST'' ''/api/v1/route-searches'')\<lparr>hr_Header := (\<lambda>_. [])(''Idempotency-Key'' := ''the-key-1'')\<rparr>"

lemma ex_input_valid: "RouteSearchRequest_Validate t DefaultValidationLimits ((ex_request RoutingModeStrictGreen)\<lparr>rq_RequestID := x\<rparr>) = None"
  by (simp add: request_validate_None request_ok_def ex_request_def ex_point_def point_ok_def frange_def one_f64_def)

lemma ex_started:
  "case edge_startSearch memory_ops ex_edge_config (ex_start 0) ex_start_request ex_owner (Inr (input_of_request (ex_request RoutingModeStrictGreen)))
      newMemoryState of
     (w, calls, s) \<Rightarrow> ws_Status w = 202 \<and> (\<exists>op q. StartSearch op q \<in> set calls) \<and> search_location ex_search \<in> set (ws_Headers w)"
proof -
  have input: "RouteSearchInput_Request (input_of_request r) = Inr r" for r
    by (simp add: RouteSearchInput_Request_def input_of_request_def default_opt_def)
  have "hr_Header ex_start_request ''Idempotency-Key'' = ''the-key-1''" by (simp add: ex_start_request_def)
  moreover have "trim_space ''the-key-1'' = ''the-key-1''" "validIdempotencyKey ''the-key-1''" by code_simp+
  moreover have "currentOwnerID ex_owner = ''new''" by (simp add: currentOwnerID_def principalOwnerIDs_def ex_owner_def)
  moreover have "validateResult ex_accepted = None" by code_simp
  moreover have "rr_SearchID ex_accepted = ex_search" by (simp add: ex_accepted_def)
  ultimately show ?thesis
    by (simp add: edge_startSearch_def input ex_input_valid keyed_start_def begin_memory BeginIdempotency_def claim_free_def new_claim_def
        newMemoryState_def call_start_def client_startSearch_def accept_search_def record_search_def memory_ops_def writeRawJSON_def ex_start_def Let_def)
qed

theorem search_started_once_witness:
  "\<forall>op q. StartSearch op q \<notin> set (fst (snd (edge_startSearch memory_ops ex_edge_config (ex_start 1) ex_start_request ex_owner
      (Inr (input_of_request (ex_request RoutingModeStrictGreen)))
      (snd (snd (edge_startSearch memory_ops ex_edge_config (ex_start 0) ex_start_request ex_owner
        (Inr (input_of_request (ex_request RoutingModeStrictGreen))) newMemoryState))))))"
proof -
  let ?start = "\<lambda>t. edge_startSearch memory_ops ex_edge_config (ex_start t) ex_start_request ex_owner
      (Inr (input_of_request (ex_request RoutingModeStrictGreen)))"
  obtain w1 calls1 s1 where one: "?start 0 newMemoryState = (w1, calls1, s1)" by (metis prod_cases3)
  obtain w2 calls2 s2 where two: "?start 1 s1 = (w2, calls2, s2)" by (metis prod_cases3)
  obtain op0 q0 where first: "ws_Status w1 = 202" "StartSearch op0 q0 \<in> set calls1" using ex_started one by auto
  have key: "hr_Header ex_start_request ''Idempotency-Key'' = ''the-key-1''" by (simp add: ex_start_request_def)
  have nonempty: "trim_space ''the-key-1'' \<noteq> []" by code_simp
  have ttl: "0 \<le> pendingIdempotencyTTL (ec_IdempotencyTTL ex_edge_config)" "1 < ec_IdempotencyTTL ex_edge_config" by code_simp+
  have "StartSearch op q \<notin> set calls2" for op q
    using search_started_once [where ops = "[]" and ?ev2.0 = "ex_start 1" and ?r2.0 = ex_start_request and ?p2.0 = ex_owner and ?l1.0 = "[]" and ?l2.0 = "[]" and op' = op and q' = q,
      OF one first(2) _ _ _ _ refl _ refl, OF _ _ _ _ _ _ refl refl]
    two first(1) ttl key nonempty by (simp add: ex_start_def)
  then show ?thesis using one two by simp
qed

end
