(* ===== verification/OrchestratorConfig.thy ===== *)
theory OrchestratorConfig
  imports Environment Engine
begin

text \<open>
  The environment of the orchestrator (\<open>services/routing-orchestrator/config.go\<close>): \<open>loadConfig\<close> with all its defaults and checks, and what an accepted
  configuration guarantees to the engine.
\<close>

section \<open>Loading\<close>

text \<open>The variables that are read as plain text, with the zero value for all others.\<close>

definition orchestrator_text :: "(string \<Rightarrow> string) \<Rightarrow> string \<Rightarrow> config" where
  "orchestrator_text getenv environment = \<lparr>
     cf_Environment = environment, cf_Address = env getenv ''ORCHESTRATOR_ADDR'' '':8081'',
     cf_ProviderURL = env getenv ''PROVIDER_URL'' ''http://localhost:8082'', cf_InternalToken = trim_space (getenv ''INTERNAL_API_TOKEN''),
     cf_RedisURL = trim_space (getenv ''REDIS_URL''), cf_RequireRedis = False, cf_ProviderDataStorage = False, cf_StateTTL = 0,
     cf_StaleSearchAfter = 0, cf_EnableEnhancedSearch = False, cf_EnableAvoidZones = False, cf_EnableCorridorAnchors = False,
     cf_EnableTollFreeProbe = False, cf_EnableReranking = False, cf_MaxActiveCandidates = 0, cf_MaxConcurrentSearches = 0,
     cf_MaxEnhancedIterations = 0, cf_MinimumScoreImprovement = 0, cf_ScoringPolicyFile = trim_space (getenv ''SCORING_POLICY_FILE''),
     cf_SSEHeartbeat = 0, cf_ShutdownGrace = 0 \<rparr>"

definition orchestrator_read :: "(string \<Rightarrow> duration option) \<Rightarrow> (string \<Rightarrow> string) \<Rightarrow> string \<Rightarrow> string + config" where
  "orchestrator_read parse_duration getenv environment =
     (let flag = envBool getenv; interval = envDuration parse_duration getenv; number = envInt getenv in
      fold (\<lambda>step c. step c)
        [store (flag ''REQUIRE_REDIS'' False) (\<lambda>v. cf_RequireRedis_update (\<lambda>_. v)),
         store (flag ''PROVIDER_DATA_STORAGE_ALLOWED'' False) (\<lambda>v. cf_ProviderDataStorage_update (\<lambda>_. v)),
         store (flag ''ENABLE_ENHANCED_SEARCH'' True) (\<lambda>v. cf_EnableEnhancedSearch_update (\<lambda>_. v)),
         store (flag ''ENABLE_AVOID_ZONE_GENERATION'' True) (\<lambda>v. cf_EnableAvoidZones_update (\<lambda>_. v)),
         store (flag ''ENABLE_TOLL_FREE_PROBE'' True) (\<lambda>v. cf_EnableTollFreeProbe_update (\<lambda>_. v)),
         store (flag ''ENABLE_CORRIDOR_ANCHORS'' True) (\<lambda>v. cf_EnableCorridorAnchors_update (\<lambda>_. v)),
         store (flag ''ENABLE_ROUTE_RERANKING'' True) (\<lambda>v. cf_EnableReranking_update (\<lambda>_. v)),
         store (interval ''SEARCH_STATE_TTL'' (seconds 1800)) (\<lambda>v. cf_StateTTL_update (\<lambda>_. v)),
         store (interval ''STALE_SEARCH_AFTER'' (seconds 45)) (\<lambda>v. cf_StaleSearchAfter_update (\<lambda>_. v)),
         store (number ''MAX_ACTIVE_CANDIDATES'' 12) (\<lambda>v. cf_MaxActiveCandidates_update (\<lambda>_. v)),
         store (number ''MAX_CONCURRENT_SEARCHES'' 64) (\<lambda>v. cf_MaxConcurrentSearches_update (\<lambda>_. v)),
         store (number ''MAX_ENHANCED_ITERATIONS'' 8) (\<lambda>v. cf_MaxEnhancedIterations_update (\<lambda>_. v)),
         store (envFloat getenv ''MINIMUM_SCORE_IMPROVEMENT'' (flit 0.02)) (\<lambda>v. cf_MinimumScoreImprovement_update (\<lambda>_. v)),
         store (interval ''SSE_HEARTBEAT_INTERVAL'' (seconds 15)) (\<lambda>v. cf_SSEHeartbeat_update (\<lambda>_. v)),
         store (interval ''SHUTDOWN_GRACE_PERIOD'' (seconds 20)) (\<lambda>v. cf_ShutdownGrace_update (\<lambda>_. v))]
        (Inr (orchestrator_text getenv environment)))"

definition orchestrator_invalid :: "config \<Rightarrow> string option" where
  "orchestrator_invalid c = first_some [
     check (cf_Environment c = ''production'' \<and> length (cf_InternalToken c) < 32) ''INTERNAL_API_TOKEN of at least 32 characters is required in production'',
     check (cf_RequireRedis c \<and> cf_RedisURL c = []) ''REDIS_URL is required when REQUIRE_REDIS=true'',
     check (cf_RequireRedis c \<and> \<not> cf_ProviderDataStorage c) ''REQUIRE_REDIS=true for route state requires PROVIDER_DATA_STORAGE_ALLOWED=true'',
     check (outside (seconds 60) (seconds 86400) (cf_StateTTL c)) ''SEARCH_STATE_TTL must be between 1m and 24h'',
     check (outside (seconds 35) (seconds 300) (cf_StaleSearchAfter c)) ''STALE_SEARCH_AFTER must be between 35s and 5m'',
     check (outside 1 50 (cf_MaxActiveCandidates c)) ''MAX_ACTIVE_CANDIDATES must be between 1 and 50'',
     check (outside 1 1000 (cf_MaxConcurrentSearches c)) ''MAX_CONCURRENT_SEARCHES must be between 1 and 1000'',
     check (outside 0 8 (cf_MaxEnhancedIterations c)) ''MAX_ENHANCED_ITERATIONS must be between 0 and 8'',
     check (is_nan (cf_MinimumScoreImprovement c) \<or> is_inf (cf_MinimumScoreImprovement c) \<or> cf_MinimumScoreImprovement c < 0 \<or> 1 < cf_MinimumScoreImprovement c)
       ''MINIMUM_SCORE_IMPROVEMENT must be a finite number between 0 and 1'',
     check (outside (seconds 1) (seconds 300) (cf_SSEHeartbeat c)) ''SSE_HEARTBEAT_INTERVAL must be between 1s and 5m'',
     check (outside (seconds 1) (seconds 300) (cf_ShutdownGrace c)) ''SHUTDOWN_GRACE_PERIOD must be between 1s and 5m'']"

definition orchestrator_loadConfig :: "(string \<Rightarrow> duration option) \<Rightarrow> (string \<Rightarrow> string) \<Rightarrow> string + config" where
  "orchestrator_loadConfig parse_duration getenv = (case parseEnvironment (getenv ''APP_ENV'') of
     None \<Rightarrow> Inl ''APP_ENV must be one of local, development, test, staging, or production''
   | Some environment \<Rightarrow> (case orchestrator_read parse_duration getenv environment of
         Inl e \<Rightarrow> Inl e
       | Inr c \<Rightarrow> (case orchestrator_invalid c of Some e \<Rightarrow> Inl e | None \<Rightarrow> Inr c)))"

section \<open>What an accepted configuration guarantees\<close>

lemma orchestrator_loadConfig_valid: "orchestrator_loadConfig parse_duration getenv = Inr c \<Longrightarrow> orchestrator_invalid c = None"
  by (auto simp: orchestrator_loadConfig_def split: option.splits sum.splits)

lemma orchestrator_limits:
  assumes "orchestrator_invalid c = None"
  shows "1 \<le> cf_MaxActiveCandidates c" "cf_MaxActiveCandidates c \<le> 50" "1 \<le> cf_MaxConcurrentSearches c" "cf_MaxConcurrentSearches c \<le> 1000"
    "cf_MaxEnhancedIterations c \<le> 8" "seconds 60 \<le> cf_StateTTL c" "seconds 35 \<le> cf_StaleSearchAfter c"
    "frange 0 1 (cf_MinimumScoreImprovement c)"
proof -
  show "1 \<le> cf_MaxActiveCandidates c" "cf_MaxActiveCandidates c \<le> 50" "1 \<le> cf_MaxConcurrentSearches c" "cf_MaxConcurrentSearches c \<le> 1000"
    "cf_MaxEnhancedIterations c \<le> 8" "seconds 60 \<le> cf_StateTTL c" "seconds 35 \<le> cf_StaleSearchAfter c"
    using assms by (simp_all add: orchestrator_invalid_def)
  show "frange 0 1 (cf_MinimumScoreImprovement c)"
    using assms by (cases "cf_MinimumScoreImprovement c") (auto simp: orchestrator_invalid_def is_inf_def is_nan_def frange_def zero_f64_def one_f64_def)
qed

end
