(* ===== verification/OrchestratorServer.thy ===== *)
theory OrchestratorServer
  imports Httpx OrchestratorConfig Contracts Ids
begin

text \<open>
  The HTTP handlers of the orchestrator (\<open>services/routing-orchestrator/server.go\<close>) over the engine and its in-memory store: the internal credential, starting,
  reading and deleting a search, and the event stream. The JSON encoder and decoder and the connection are arguments; health and metrics are
  left out.
\<close>

section \<open>Answers\<close>

definition orchestrator_routeTemplate :: "string \<Rightarrow> string" where
  "orchestrator_routeTemplate path =
     (let searches = ''/internal/v1/searches/''; remainder = drop (length searches) path in
      if path \<in> {''/health/live'', ''/health/ready'', ''/metrics'', ''/internal/v1/searches'', ''/internal/v1/admin/overview''} then path
      else if prefix searches path \<and> CHR ''/'' \<notin> set remainder then searches @ ''{searchId}''
      else if prefix searches path \<and> length (filter (\<lambda>c. c = CHR ''/'') remainder) = 1 \<and> suffix ''/events'' remainder
      then searches @ ''{searchId}/events''
      else ''/unmatched'')"

definition orchestrator_problem :: "http_request \<Rightarrow> int \<Rightarrow> string \<Rightarrow> string \<Rightarrow> Problem" where
  "orchestrator_problem r status title detail = \<lparr> pb_Type = ''https://greenroute.local/problems/'' @ show_int status, pb_Title = title,
     pb_Status = status, pb_Detail = detail, pb_Instance = orchestrator_routeTemplate (hr_Path r), pb_CorrelationID = hr_Header r ''X-Request-ID'' \<rparr>"

definition refuse :: "http_request \<Rightarrow> (string \<times> string) list \<Rightarrow> int \<Rightarrow> string \<Rightarrow> string \<Rightarrow> response" where
  "refuse r headers status title detail = WriteProblem headers (orchestrator_problem r status title detail)"

section \<open>The internal credential\<close>

text \<open>The middleware up to the handler: the answer to a request without the credential, or the request that is passed on; with the headers set.\<close>

definition requestMiddleware :: "config \<Rightarrow> 8 word list \<Rightarrow> http_request \<Rightarrow> (response + http_request) \<times> (string \<times> string) list" where
  "requestMiddleware cfg rand r =
     (let given = trim_space (hr_Header r ''X-Request-ID'');
          rid = (if Valid given then given else New rand);
          r = r\<lparr>hr_Header := (hr_Header r)(''X-Request-ID'' := rid)\<rparr>;
          headers = [(''X-Request-ID'', rid), (''X-Content-Type-Options'', ''nosniff''), (''Referrer-Policy'', ''no-referrer'')]
      in (if prefix ''/internal/'' (hr_Path r) \<and> cf_InternalToken cfg \<noteq> [] \<and> hr_Header r ''Authorization'' \<noteq> ''Bearer '' @ cf_InternalToken cfg
          then Inl (refuse r [] 401 ''Unauthorized'' ''A valid internal service credential is required.'') else Inr r, headers))"

section \<open>Searches\<close>

text \<open>\<open>operationKeyPattern\<close>: 64 lowercase hexadecimal digits.\<close>

definition operationKeyPattern :: "string \<Rightarrow> bool" where
  "operationKeyPattern key \<longleftrightarrow> length key = 64 \<and> list_all (\<lambda>c. c \<in> set ''abcdef0123456789'') key"

text \<open>The JSON encoder, the texts of validation errors and SHA-256.\<close>

record codec =
  cd_marshal :: "RouteSearchResult \<Rightarrow> string"
  cd_event :: "SearchEvent \<Rightarrow> string option"
  cd_text :: "request_error \<Rightarrow> string"
  cd_sha256 :: "string \<Rightarrow> 8 word list"

definition start_problem :: "http_request \<Rightarrow> start_error \<Rightarrow> response" where
  "start_problem r e = (case e of
     errSearchCapacity \<Rightarrow> refuse r [(''Retry-After'', ''1'')] 503 ''Route search temporarily unavailable'' ''route search capacity exhausted''
   | errCapabilitiesUnavailable \<Rightarrow>
       refuse r [(''Retry-After'', ''1'')] 503 ''Route search temporarily unavailable'' ''provider capabilities unavailable''
   | _ \<Rightarrow> refuse r [] 503 ''Route search state unavailable'' ''The search could not be safely persisted.'')"

text \<open>\<open>start\<close>; \<open>input\<close> is what \<open>DecodeJSON\<close> makes of the body. The second component is the worker that was launched.\<close>

definition server_start ::
    "environment \<Rightarrow> codec \<Rightarrow> 8 word list \<Rightarrow> 8 word list \<Rightarrow> http_request \<Rightarrow> string + RouteSearchInput
      \<Rightarrow> (response \<times> (RouteSearchRequest \<times> RouteSearchResult) option) go" where
  "server_start ev cd rand rand' r input = (case input of
     Inl e \<Rightarrow> ret (refuse r [] 400 ''Invalid route search'' e, None)
   | Inr i \<Rightarrow> (case RouteSearchInput_Request i of
       Inl missing \<Rightarrow> ret (refuse r [] 400 ''Invalid route search'' (''required property '' @ [CHR 0x22] @ missing @ [CHR 0x22] @ '' is missing''), None)
     | Inr request \<Rightarrow> do {
         let request = ApplySafeDefaults request;
         now \<leftarrow> clock ev;
         case RouteSearchRequest_Validate now DefaultValidationLimits request of
           Some e \<Rightarrow> ret (refuse r [] 422 ''Route search rejected'' (cd_text cd e), None)
         | None \<Rightarrow>
           let operationKey = trim_space (hr_Header r ''X-Operation-Key'') in
           if operationKey \<noteq> [] \<and> \<not> operationKeyPattern operationKey then
             ret (refuse r [] 400 ''Invalid operation key'' ''X-Operation-Key must be a 64-character lowercase hexadecimal value.'', None)
           else do {
             (answer, job) \<leftarrow> start ev (cd_sha256 cd) rand rand' request operationKey;
             ret (case answer of Inl e \<Rightarrow> start_problem r e | Inr result \<Rightarrow> WriteJSON [] 202 (cd_marshal cd result), job)
           }
       }))"

definition validSearchID :: "http_request \<Rightarrow> string \<Rightarrow> response option" where
  "validSearchID r searchID = (if Valid searchID then None else Some (refuse r [] 400 ''Invalid search identifier'' ''searchId must be a canonical UUID.''))"

text \<open>The in-memory store has no other error than \<open>ErrNotFound\<close> here.\<close>

definition server_get :: "codec \<Rightarrow> time \<Rightarrow> http_request \<Rightarrow> string \<Rightarrow> Memory \<Rightarrow> response" where
  "server_get cd now r searchID m = (case validSearchID r searchID of
     Some w \<Rightarrow> w
   | None \<Rightarrow> (case Memory_Get now searchID m of
       Inl ErrNotFound \<Rightarrow> refuse r [] 404 ''Search not found'' ''The search expired, was deleted, or never existed.''
     | Inl _ \<Rightarrow> refuse r [] 503 ''Search state unavailable'' ''Search state is temporarily unavailable.''
     | Inr result \<Rightarrow> WriteJSON [] 200 (cd_marshal cd result)))"

definition server_delete :: "http_request \<Rightarrow> string \<Rightarrow> response go" where
  "server_delete r searchID = (case validSearchID r searchID of
     Some w \<Rightarrow> ret w
   | None \<Rightarrow> do {
       err \<leftarrow> cancel searchID;
       ret (case err of
           Some ErrNotFound \<Rightarrow> refuse r [] 404 ''Search not found'' ''The search expired, was deleted, or never existed.''
         | Some _ \<Rightarrow> refuse r [] 503 ''Search deletion failed'' ''Search state could not be deleted.''
         | None \<Rightarrow> \<lparr> ws_Status = 204, ws_Headers = [], ws_Body = NoBody \<rparr>)
     })"

section \<open>The event stream\<close>

text \<open>The number after which events are sent, from the header or the query.\<close>

definition event_cursor :: "http_request \<Rightarrow> string \<Rightarrow> response + int64" where
  "event_cursor r query =
     (let lastID = (if query \<noteq> [] then query else hr_Header r ''Last-Event-ID'');
          invalid = Inl (refuse r [] 400 ''Invalid event cursor'' ''Last-Event-ID must be a non-negative integer.'')
      in if lastID = [] then Inr 0
         else (case ParseInt lastID of None \<Rightarrow> invalid | Some parsed \<Rightarrow> if parsed < 0 then invalid else Inr parsed))"

text \<open>\<open>events\<close> up to the open stream, which answers with the cursor.\<close>

definition open_events :: "time \<Rightarrow> http_request \<Rightarrow> string \<Rightarrow> string \<Rightarrow> Memory \<Rightarrow> response + int64" where
  "open_events now r searchID query m = (case validSearchID r searchID of
     Some w \<Rightarrow> Inl w
   | None \<Rightarrow> (case event_cursor r query of
       Inl w \<Rightarrow> Inl w
     | Inr cursor \<Rightarrow> (case Memory_Get now searchID m of
         Inl ErrNotFound \<Rightarrow> Inl (refuse r [] 404 ''Search not found'' ''The event stream expired or was deleted.'')
       | Inl _ \<Rightarrow> Inl (refuse r [] 503 ''Event stream unavailable'' ''Event state is temporarily unavailable.'')
       | Inr _ \<Rightarrow> Inr cursor)))"

text \<open>What is written to the stream; \<open>frame_text\<close> is its text on the wire.\<close>

datatype frame = EventFrame SearchEvent string | HeartbeatFrame int

text \<open>The events of one reading, and the cursor after them. An event that cannot be encoded is skipped.\<close>

fun write_events :: "codec \<Rightarrow> SearchEvent list \<Rightarrow> int64 \<Rightarrow> frame list \<times> int64" where
  "write_events cd [] after = ([], after)"
| "write_events cd (event # events) after = (case cd_event cd event of
     None \<Rightarrow> write_events cd events after
   | Some payload \<Rightarrow> (case write_events cd events (ev_EventID event) of (frames, after) \<Rightarrow> (EventFrame event payload # frames, after)))"

text \<open>What ends the wait of a round: the client goes, the poll timer or the heartbeat.\<close>

datatype wake = ClientGone | PollTick | Heartbeat int

text \<open>One round of the loop: the store with the time when the events are read, the same when the result is read, and the end of the wait.\<close>

record round =
  rd_store :: Memory
  rd_now :: time
  rd_store' :: Memory
  rd_now' :: time
  rd_wake :: wake

text \<open>How a stream ends: still open after the given rounds, with the search, or otherwise.\<close>

datatype stream_end = StillOpen | SearchEnded | StreamLost

fun stream_loop :: "codec \<Rightarrow> string \<Rightarrow> int64 \<Rightarrow> round list \<Rightarrow> frame list \<times> stream_end" where
  "stream_loop cd sid after [] = ([], StillOpen)"
| "stream_loop cd sid after (rd # rounds) = (case Memory_EventsAfter (rd_now rd) sid after (rd_store rd) of
     Inl _ \<Rightarrow> ([], StreamLost)
   | Inr events \<Rightarrow> (case write_events cd events after of (frames, after) \<Rightarrow>
       (case Memory_Get (rd_now' rd) sid (rd_store' rd) of
          Inl _ \<Rightarrow> (frames, StreamLost)
        | Inr result \<Rightarrow>
            if terminalStatus (rr_Status result) \<and> events = [] then (frames, SearchEnded)
            else (case rd_wake rd of
                ClientGone \<Rightarrow> (frames, StreamLost)
              | PollTick \<Rightarrow> (case stream_loop cd sid after rounds of (more_frames, outcome) \<Rightarrow> (frames @ more_frames, outcome))
              | Heartbeat unix \<Rightarrow> (case stream_loop cd sid after rounds of (more_frames, outcome) \<Rightarrow> (frames @ HeartbeatFrame unix # more_frames, outcome))))))"

fun frame_text :: "(EventType \<Rightarrow> string) \<Rightarrow> frame \<Rightarrow> string" where
  "frame_text type_text (EventFrame event payload) =
     ''id: '' @ show_int (ev_EventID event) @ [CHR 0x0A] @ ''event: '' @ type_text (ev_Type event) @ [CHR 0x0A] @ ''data: '' @ payload @ [CHR 0x0A, CHR 0x0A]"
| "frame_text type_text (HeartbeatFrame unix) = '': heartbeat '' @ show_int unix @ [CHR 0x0A, CHR 0x0A]"

end
