(* ===== verification/EventStream.thy ===== *)
theory EventStream
  imports OrchestratorServer
begin

text \<open>
  What the event stream of the orchestrator (\<open>events\<close> in \<open>services/routing-orchestrator/server.go\<close>) delivers while the search goes on: any operations
  of the store run between the readings of the loop.
\<close>

section \<open>The log grows\<close>


text \<open>The log of \<open>sid\<close> in \<open>m'\<close> continues the one in \<open>m\<close>, unless the record is gone.\<close>

definition log_grows :: "string \<Rightarrow> Memory \<Rightarrow> Memory \<Rightarrow> bool" where
  "log_grows sid m m' \<longleftrightarrow> (case m' sid of None \<Rightarrow> True
     | Some r' \<Rightarrow> (case m sid of None \<Rightarrow> False | Some r \<Rightarrow> prefix (mr_events r) (mr_events r')))"

lemma log_grows_refl [simp]: "log_grows sid m m"
  by (simp add: log_grows_def split: option.split)




section \<open>The rounds of a stream\<close>

text \<open>A step of the script: operations before the events are read, the time of that, operations before the result is read, the time of that, and the
  end of the wait.\<close>

type_synonym script = "(store_op list \<times> time \<times> store_op list \<times> time \<times> wake) list"

fun play :: "Memory \<Rightarrow> script \<Rightarrow> round list" where
  "play m [] = []"
| "play m ((ops, t, ops', t', wake) # script) =
     (let m1 = foldl apply_op m ops; m2 = foldl apply_op m1 ops' in
      \<lparr> rd_store = m1, rd_now = t, rd_store' = m2, rd_now' = t', rd_wake = wake \<rparr> # play m2 script)"





section \<open>What is sent\<close>

fun frame_event :: "frame \<Rightarrow> SearchEvent list" where
  "frame_event (EventFrame e payload) = [e]"
| "frame_event (HeartbeatFrame t) = []"

definition sent :: "frame list \<Rightarrow> SearchEvent list" where
  "sent frames = concat (map frame_event frames)"

lemma sent_simps [simp]: "sent [] = []" "sent (f # fs) = frame_event f @ sent fs" "sent (fs @ gs) = sent fs @ sent gs"
  by (simp_all add: sent_def)




section \<open>The stream and the log\<close>









definition ex_codec :: codec where
  "ex_codec = \<lparr> cd_marshal = (\<lambda>_. ''{}''), cd_event = (\<lambda>_. Some ''{}''), cd_text = (\<lambda>_. ''invalid''), cd_sha256 = (\<lambda>_. replicate 32 0) \<rparr>"


definition ex_begun :: Memory where
  "ex_begun = snd (Memory_Create 0 0 (ex_result SearchAccepted) 100 NewMemory)"


section \<open>The last event\<close>

text \<open>C32: The end of a search can be missed. If the worker finishes the search after the loop has found no new events and before it reads the result, the
  stream ends at once, and the terminal event, which is then in the log, is never sent on it.\<close>

theorem stream_can_miss_the_end:
  assumes "m sid = Some r" "t \<le> mr_expiresAt r" "t1 \<le> mr_expiresAt r" "\<not> terminalStatus (rr_Status (mr_result r))"
    and "rr_SearchID final = sid" "result_json_ok final" "terminalStatus (rr_Status final)" "t2 \<le> t1' + ttl"
    and "play m [([], t, [OpFinalize t1 t1' final e ttl], t2, wake)] = [rd]"
  shows "stream_loop cd sid (int (length (mr_events r))) [rd] = ([], SearchEnded)
    \<and> (\<exists>r' last_event. rd_store' rd sid = Some r' \<and> mr_result r' = final \<and> mr_events r' = mr_events r @ [last_event])"
proof -
  have live: "live t sid m = Some r" "live t1 sid m = Some r" using assms(1-3) by (simp_all add: live_some)
  define r' where "r' = (snd (push_event e r))\<lparr>mr_result := final, mr_expiresAt := t1' + ttl\<rparr>"
  have store: "snd (Memory_Finalize t1 t1' final e ttl m) = m(sid \<mapsto> r')"
    using live(2) assms(4-6) by (simp add: Memory_Finalize_def r'_def cloneResult_def split: prod.split)
  have log: "mr_events r' = mr_events r @ [cloneEvent (fst (push_event e r))]" by (simp add: r'_def push_event_def Let_def)
  have "Memory_Get t2 sid (m(sid \<mapsto> r')) = Inr final"
    using assms(6,8) by (simp add: Memory_Get_def live_def r'_def cloneResult_def)
  moreover have "Memory_EventsAfter t sid (int (length (mr_events r))) m = Inr []" using live(1) by (simp add: Memory_EventsAfter_def)
  moreover have "rd = \<lparr> rd_store = m, rd_now = t, rd_store' = m(sid \<mapsto> r'), rd_now' = t2, rd_wake = wake \<rparr>" using assms(9) store by (simp add: Let_def)
  ultimately show ?thesis using assms(7) log by (simp add: r'_def)
qed

theorem stream_can_miss_the_end_witness:
  "\<exists>rd. play ex_begun [([], 1, [OpFinalize 2 2 (ex_result SearchCompleted) ex_event 100], 3, PollTick)] = [rd]
    \<and> stream_loop ex_codec ''s'' 0 [rd] = ([], SearchEnded)"
proof -
  let ?r = "\<lparr> mr_result = ex_result SearchAccepted, mr_events = [], mr_expiresAt = 100, mr_nextEvent = 0 \<rparr>"
  have json: "result_json_ok (ex_result st)" for st by (simp add: ex_result_def zero_result_def result_json_ok_def fin64_def is_nan_def is_inf_def zero_f64_def)
  then have m: "ex_begun ''s'' = Some ?r"
    by (simp add: ex_begun_def Memory_Create_def purgeExpiredLocked_def NewMemory_def cloneResult_def) (simp add: ex_result_def)
  obtain rd where rd: "play ex_begun [([], 1, [OpFinalize 2 2 (ex_result SearchCompleted) ex_event 100], 3, PollTick)] = [rd]" by (simp add: Let_def)
  have "rr_SearchID (ex_result SearchCompleted) = ''s''" "terminalStatus (rr_Status (ex_result SearchCompleted))"
    "\<not> terminalStatus (rr_Status (ex_result SearchAccepted))" by (simp_all add: ex_result_def)
  with stream_can_miss_the_end [OF m _ _ _ _ json _ _ rd, of ex_codec] rd show ?thesis by simp
qed

end
