(* ===== verification/Engine_Service.thy ===== *)
theory Engine_Service
  imports Engine_Properties
begin

text \<open>
  The engine as a service: searches are started, end, are cancelled and recovered, and capabilities are refreshed, in any order.
  The step relation \<open>serving\<close> takes these operations as its steps, with the workers of the accepted searches still to end;
  admission is an invariant of it.
\<close>

section \<open>What the operations change of the engine\<close>

definition same_but_store :: "engine \<Rightarrow> engine \<Rightarrow> bool" where
  "same_but_store e e' \<longleftrightarrow> (\<exists>m. e' = e\<lparr>en_store := m\<rparr>)"

lemma same_but_store_trans: "same_but_store e e' \<Longrightarrow> same_but_store e' e'' \<Longrightarrow> same_but_store e e''"
  by (auto simp: same_but_store_def)

lemma same_but_store_refl [simp]: "same_but_store e e"
  by (auto simp: same_but_store_def intro: exI [of _ "en_store e"])

lemma same_but_store_update [simp]: "same_but_store e (e\<lparr>en_store := m\<rparr>)"
  by (auto simp: same_but_store_def)

lemma same_but_storeD:
  "same_but_store e e' \<Longrightarrow> en_admission e' = en_admission e \<and> en_admissionCapacity e' = en_admissionCapacity e \<and> en_cancels e' = en_cancels e
     \<and> en_config e' = en_config e"
  by (auto simp: same_but_store_def)

lemma appendEvent_engine: "wp (appendEvent env sid ty msg c r meta) (\<lambda>_ w'. same_but_store (w_engine w) (w_engine w')) w"
  by (auto simp: appendEvent_def clock_def reading_def the_engine_def on_store_def wp_rules split: prod.split)

lemma recover_one_engine: "wp (recover_one env now result) (\<lambda>_ w'. same_but_store (w_engine w) (w_engine w')) w"
  by (auto simp: recover_one_def clock_def reading_def the_engine_def on_store_def wp_rules Let_def split: prod.split)

lemma wp_traverse:
  assumes "\<And>x w. I w \<Longrightarrow> wp (f x) (\<lambda>_. I) w" "I w"
  shows "wp (State_Monad.traverse_list f xs) (\<lambda>_. I) w"
  using assms(2)
proof (induction xs arbitrary: w)
  case (Cons x xs)
  show ?case
    unfolding State_Monad.traverse_list.simps wp_rules
    by (rule wp_mono [OF assms(1) [OF Cons.prems]], rule wp_mono [OF Cons.IH]) (simp_all add: wp_rules)
qed (simp add: wp_rules)

lemma recoverStaleBatch_engine: "wp (recoverStaleBatch env order now) (\<lambda>_ w'. same_but_store (w_engine w) (w_engine w')) w"
proof -
  have all: "wp (State_Monad.traverse_list (recover_one env now) rs) (\<lambda>_ w'. same_but_store e (w_engine w')) w'"
    if "same_but_store e (w_engine w')" for rs w' e
  proof (rule wp_traverse [where I = "\<lambda>w'. same_but_store e (w_engine w')"])
    fix x and w' :: world
    assume "same_but_store e (w_engine w')"
    then show "wp (recover_one env now x) (\<lambda>_ w'. same_but_store e (w_engine w')) w'"
      by (blast intro: wp_mono [OF recover_one_engine] same_but_store_trans)
  qed (fact that)
  show ?thesis
    unfolding recoverStaleBatch_def clock_def reading_def the_engine_def on_store_def Let_def wp_rules
    by (simp add: wp_rules) (auto intro: all)
qed

text \<open>Every answer of \<open>start\<close>: with no worker the admission count is as before; with one, there was a free slot.\<close>

lemma start_cases:
  "wp (start env sha rand rand' request key) (\<lambda>(answer, job) w'. en_admissionCapacity (w_engine w') = en_admissionCapacity (w_engine w) \<and>
     (case job of
        None \<Rightarrow> en_admission (w_engine w') = en_admission (w_engine w) \<and> en_cancels (w_engine w') = en_cancels (w_engine w)
      | Some (rq, res) \<Rightarrow> en_admission (w_engine w) < en_admissionCapacity (w_engine w)
          \<and> en_admission (w_engine w') = en_admission (w_engine w) + 1
          \<and> en_cancels (w_engine w') = insert (rr_SearchID res) (en_cancels (w_engine w))
          \<and> (\<exists>now. RouteSearchRequest_Validate now DefaultValidationLimits rq = None)
          \<and> (\<exists>sid t. res = accepted_result (w_engine w) sid rq t))) w"
proof -
  have id: "RouteSearchRequest_Validate now DefaultValidationLimits (rq\<lparr>rq_RequestID := i\<rparr>) = RouteSearchRequest_Validate now DefaultValidationLimits rq" for now rq i
    by (simp add: RouteSearchRequest_Validate_def)
  have sid: "rr_SearchID (accepted_result e sid rq t) = sid" for e sid rq t by (simp add: accepted_result_def)
  let ?post = "\<lambda>(answer, job) w'. en_admissionCapacity (w_engine w') = en_admissionCapacity (w_engine w) \<and>
     (case job of
        None \<Rightarrow> en_admission (w_engine w') = en_admission (w_engine w) \<and> en_cancels (w_engine w') = en_cancels (w_engine w)
      | Some (rq, res) \<Rightarrow> en_admission (w_engine w) < en_admissionCapacity (w_engine w)
          \<and> en_admission (w_engine w') = en_admission (w_engine w) + 1
          \<and> en_cancels (w_engine w') = insert (rr_SearchID res) (en_cancels (w_engine w))
          \<and> (\<exists>now. RouteSearchRequest_Validate now DefaultValidationLimits rq = None)
          \<and> (\<exists>sid t. res = accepted_result (w_engine w) sid rq t))"
  have admitted: "wp (case err of Some err \<Rightarrow> answer_existing env sid key err | None \<Rightarrow> launch env sid rq (accepted_result (w_engine w) sid rq t)) ?post w'"
    if "\<exists>m. w_engine w' = (w_engine w)\<lparr>en_admission := en_admission (w_engine w) + 1, en_store := m\<rparr>"
      "en_admission (w_engine w) < en_admissionCapacity (w_engine w)"
      "RouteSearchRequest_Validate now DefaultValidationLimits rq = None" for w' err sid rq t now
  proof (cases err)
    case None
    have "wp (launch env sid rq (accepted_result (w_engine w) sid rq t)) ?post w'"
      unfolding launch_def wp_bind
      by (rule wp_mono [OF appendEvent_engine]) (use that in \<open>auto simp: wp_rules on_engine_def sid same_but_store_def\<close>)
    with None show ?thesis by simp
  next
    case (Some e)
    have "wp (answer_existing env sid key e) ?post w'"
      using that by (auto simp: answer_existing_def clock_def reading_def on_store_def on_engine_def wp_rules)
    with Some show ?thesis by simp
  qed
  define rq where "rq = (if rq_RequestID (ApplySafeDefaults request) = [] then (ApplySafeDefaults request)\<lparr>rq_RequestID := New rand\<rparr>
    else ApplySafeDefaults request)"
  show ?thesis
  proof (cases "RouteSearchRequest_Validate (env_now env (w_tick w)) DefaultValidationLimits (ApplySafeDefaults request) = None
      \<and> en_capabilityOK (w_engine w) \<and> en_admission (w_engine w) < en_admissionCapacity (w_engine w)")
    case True
    then have v: "RouteSearchRequest_Validate (env_now env (w_tick w)) DefaultValidationLimits rq = None" by (simp add: rq_def id)
    have "wp (on_store (Memory_Create now now' (accepted_result (w_engine w) sid rq t) ttl)) (\<lambda>err. wp (case err of
        Some err \<Rightarrow> answer_existing env sid key err | None \<Rightarrow> launch env sid rq (accepted_result (w_engine w) sid rq t)) ?post)
        (w\<lparr>w_engine := (w_engine w)\<lparr>en_admission := en_admission (w_engine w) + 1\<rparr>, w_tick := n\<rparr>)" for now now' sid t ttl n
      using True by (auto simp: on_store_def wp_State intro!: admitted [OF _ _ v] split: prod.split)
    with True show ?thesis
      by (simp add: start_def rq_def [symmetric] clock_def reading_def the_engine_def on_engine_def wp_bind wp_State wp_modify wp_ret Let_def
          split del: if_split)
  next
    case False
    then show ?thesis
      by (auto simp: start_def clock_def reading_def the_engine_def wp_bind wp_State wp_ret Let_def split: option.split)
  qed
qed

lemma worker_engine:
  assumes "RouteSearchRequest_Validate now DefaultValidationLimits request = None" "w_sent w = []"
  shows "wp (worker_goroutine env lm (request, accepted_result origin sid request t)) (\<lambda>_ w'.
    en_admission (w_engine w') = en_admission (w_engine w) - 1 \<and> en_admissionCapacity (w_engine w') = en_admissionCapacity (w_engine w)
    \<and> en_cancels (w_engine w') = en_cancels (w_engine w) - {sid}) w"
proof -
  have sid: "rr_SearchID (accepted_result origin sid request t) = sid" by (simp add: accepted_result_def)
  have engine: "en_admission (w_engine w') = en_admission (w_engine w) \<and> en_admissionCapacity (w_engine w') = en_admissionCapacity (w_engine w)
      \<and> en_cancels (w_engine w') = en_cancels (w_engine w)" if "outcome (ctx_for (w_engine w) sid request) request final w'" for final w'
  proof -
    have "engine_is (ctx_for (w_engine w) sid request) (w_engine w')"
      using that by (auto simp: outcome_def done_with_def winv_def engine_is_closed)
    then show ?thesis by (simp add: engine_is_def ctx_for_def)
  qed
  show ?thesis
    unfolding worker_goroutine_def fst_conv snd_conv wp_bind
    by (rule wp_mono [OF run_outcome [OF assms]], drule engine) (simp add: on_engine_def wp_rules removeCancel_def sid)
qed

section \<open>Admission over the life of the service\<close>

type_synonym job = "RouteSearchRequest \<times> RouteSearchResult"

definition jobs_of :: "job option \<Rightarrow> job list" where
  "jobs_of j = (case j of None \<Rightarrow> [] | Some j \<Rightarrow> [j])"

text \<open>Each worker runs with a log of requests of its own.\<close>

inductive serving :: "config \<Rightarrow> Memory \<Rightarrow> world \<times> job list \<Rightarrow> bool" for cfg store where
  boot: "w_engine w = newEngine cfg store \<Longrightarrow> serving cfg store (w, [])"
| started: "serving cfg store (w, jobs) \<Longrightarrow> run_state (start env sha rand rand' request key) w = ((answer, job), w') \<Longrightarrow>
    serving cfg store (w', jobs @ jobs_of job)"
| ended: "serving cfg store (w, jobs) \<Longrightarrow> i < length jobs \<Longrightarrow> run_state (worker_goroutine env lm (jobs ! i)) (w\<lparr>w_sent := []\<rparr>) = (final, w') \<Longrightarrow>
    serving cfg store (w', take i jobs @ drop (Suc i) jobs)"
| cancelled: "serving cfg store (w, jobs) \<Longrightarrow> run_state (cancel sid) w = (err, w') \<Longrightarrow> serving cfg store (w', jobs)"
| refreshed: "serving cfg store (w, jobs) \<Longrightarrow> refreshCapabilities reply (w_engine w) = (delay, e) \<Longrightarrow>
    serving cfg store (w\<lparr>w_engine := e\<rparr>, jobs)"
| recovered: "serving cfg store (w, jobs) \<Longrightarrow> run_state (recoverStaleBatch env order now) w = (u, w') \<Longrightarrow> serving cfg store (w', jobs)"

definition job_ok :: "job \<Rightarrow> bool" where
  "job_ok j \<longleftrightarrow> (\<exists>now. RouteSearchRequest_Validate now DefaultValidationLimits (fst j) = None)
     \<and> (\<exists>origin sid t. snd j = accepted_result origin sid (fst j) t)"

definition admission_inv :: "config \<Rightarrow> world \<times> job list \<Rightarrow> bool" where
  "admission_inv cfg s \<longleftrightarrow> (case s of (w, jobs) \<Rightarrow>
     en_admissionCapacity (w_engine w) = (if cf_MaxConcurrentSearches cfg < 1 then 64 else cf_MaxConcurrentSearches cfg)
     \<and> en_admission (w_engine w) = int (length jobs) \<and> int (length jobs) \<le> en_admissionCapacity (w_engine w)
     \<and> en_cancels (w_engine w) \<subseteq> (\<lambda>j. rr_SearchID (snd j)) ` set jobs \<and> list_all job_ok jobs)"

lemma refresh_engine:
  "refreshCapabilities reply e = (delay, e') \<Longrightarrow> en_admission e' = en_admission e \<and> en_admissionCapacity e' = en_admissionCapacity e \<and> en_cancels e' = en_cancels e"
  by (auto simp: refreshCapabilities_def discoverCapabilities_def split: sum.splits if_splits prod.splits option.splits)

lemma serving_inv: "serving cfg store s \<Longrightarrow> admission_inv cfg s"
proof (induction rule: serving.induct)
  case (boot w)
  then show ?case by (simp add: admission_inv_def newEngine_def Let_def)
next
  case (started w jobs env sha rand rand' request key answer job w')
  note S = wp_run [OF start_cases started.hyps(2)]
  show ?case
  proof (cases job)
    case None
    then show ?thesis using S started.IH by (simp add: admission_inv_def jobs_of_def)
  next
    case (Some j)
    then show ?thesis using S started.IH by (cases j) (auto simp: admission_inv_def jobs_of_def job_ok_def accepted_result_def)
  qed
next
  case (ended w jobs i env lm final w')
  have "job_ok (jobs ! i)" using ended by (auto simp: admission_inv_def list_all_length)
  then obtain now origin sid t where j: "RouteSearchRequest_Validate now DefaultValidationLimits (fst (jobs ! i)) = None"
    "jobs ! i = (fst (jobs ! i), accepted_result origin sid (fst (jobs ! i)) t)" by (metis job_ok_def prod.collapse)
  have sid: "rr_SearchID (snd (jobs ! i)) = sid" by (subst j(2)) (simp add: accepted_result_def)
  have W: "en_admission (w_engine w') = en_admission (w_engine w) - 1" "en_admissionCapacity (w_engine w') = en_admissionCapacity (w_engine w)"
    "en_cancels (w_engine w') = en_cancels (w_engine w) - {sid}"
    using wp_run [OF worker_engine [OF j(1), of "w\<lparr>w_sent := []\<rparr>" env lm origin sid t]] ended.hyps(3) j(2) by auto
  have split: "jobs = take i jobs @ jobs ! i # drop (Suc i) jobs" using ended.hyps(2) by (rule id_take_nth_drop)
  have len: "int (length (take i jobs @ drop (Suc i) jobs)) = int (length jobs) - 1" using ended.hyps(2) by auto
  have jobs: "set jobs = set (take i jobs @ drop (Suc i) jobs) \<union> {jobs ! i}" by (subst split) auto
  show ?case
    using ended.IH W len jobs sid by (auto simp: admission_inv_def list_all_iff)
next
  case (cancelled w jobs sid err w')
  then show ?case by (auto simp: admission_inv_def cancel_def on_engine_def on_store_def removeCancel_def State_Monad.update_def split: prod.splits)
next
  case (refreshed w jobs reply delay e)
  then show ?case using refresh_engine [OF refreshed.hyps(2)] by (simp add: admission_inv_def)
next
  case (recovered w jobs env order now u w')
  then show ?case using same_but_storeD [OF wp_run [OF recoverStaleBatch_engine recovered.hyps(2)]] by (simp add: admission_inv_def)
qed

text \<open>C10: admission control holds over the whole life of the service, in any order of starts, ends, cancellations, refreshes and recoveries:
  the number of occupied slots is exactly the number of running workers and never exceeds the configured concurrency, and only
  running searches have a registered cancel function.\<close>

theorem admission_bounded:
  assumes "serving cfg store (w, jobs)"
  shows "en_admission (w_engine w) = int (length jobs)
    \<and> int (length jobs) \<le> (if cf_MaxConcurrentSearches cfg < 1 then 64 else cf_MaxConcurrentSearches cfg)
    \<and> en_cancels (w_engine w) \<subseteq> (\<lambda>j. rr_SearchID (snd j)) ` set jobs"
  using serving_inv [OF assms] by (simp add: admission_inv_def)

theorem admission_bounded_witness:
  "serving ex_config Map.empty (snd (run_state (cancel ''s'') ex_world), [])
   \<and> en_admission (w_engine (snd (run_state (cancel ''s'') ex_world))) = 0"
proof -
  have "serving ex_config Map.empty (ex_world, [])" by (rule serving.boot) (simp add: ex_world_def)
  from serving.cancelled [OF this, of "''s''"] have s: "serving ex_config Map.empty (snd (run_state (cancel ''s'') ex_world), [])"
    by (metis prod.collapse)
  from admission_bounded [OF s] s show ?thesis by simp
qed

section \<open>Operation keys\<close>

text \<open>Starting a search is idempotent under an operation key: while the record of an earlier start with the same key lives, a repeated start
  returns that search as it stands, starts no worker, and leaves the record, the slots and the cancel functions as they were.\<close>

theorem start_idempotent:
  assumes "RouteSearchRequest_Validate (env_now env (w_tick w)) DefaultValidationLimits (ApplySafeDefaults request) = None"
    and "en_capabilityOK (w_engine w)" "en_admission (w_engine w) < en_admissionCapacity (w_engine w)" "key \<noteq> []"
    and "en_store (w_engine w) (FromStableKey sha ''route-search'' key) = Some r" "\<forall>n. env_now env n \<le> mr_expiresAt r"
  shows "case run_state (start env sha rand rand' request key) w of ((answer, job), w') \<Rightarrow>
    answer = Inr (cloneResult (mr_result r)) \<and> job = None
    \<and> en_store (w_engine w') (FromStableKey sha ''route-search'' key) = Some r
    \<and> en_admission (w_engine w') = en_admission (w_engine w) \<and> en_cancels (w_engine w') = en_cancels (w_engine w)"
proof -
  define sid where "sid = FromStableKey sha ''route-search'' key"
  define m where "m = purgeExpiredLocked (env_now env (Suc (Suc (w_tick w)))) (en_store (w_engine w))"
  have keep: "m sid = Some r"
    using assms(5,6) by (auto simp: m_def sid_def [symmetric] purgeExpiredLocked_def not_less)
  have create: "Memory_Create (env_now env (Suc (Suc (w_tick w)))) now' result ttl (en_store (w_engine w)) = (Some (ErrAlreadyExists sid), m)"
    if "rr_SearchID result = sid" for now' result ttl
    using keep that by (simp add: Memory_Create_def m_def [symmetric])
  have get: "Memory_Get (env_now env n) sid m = Inr (cloneResult (mr_result r))" for n
    using keep assms(6) by (auto simp: Memory_Get_def live_def not_less)
  have sid': "rr_SearchID (accepted_result e sid rq t) = sid" for e rq t by (simp add: accepted_result_def)
  show ?thesis
    using assms(1-4) keep get create [OF sid']
    by (simp add: start_def clock_def reading_def the_engine_def on_engine_def on_store_def answer_existing_def Let_def sid_def [symmetric]
        State_Monad.update_def split del: if_split)
qed

theorem start_idempotent_witness:
  "case run_state (start ex_env (\<lambda>_. replicate 32 0) [] [] (ex_request RoutingModeStrictGreen) ''key'')
      (ex_world\<lparr>w_engine := ex_ready\<lparr>en_store := [FromStableKey (\<lambda>_. replicate 32 0) ''route-search'' ''key'' \<mapsto> ex_record]\<rparr>\<rparr>) of
    ((answer, job), w') \<Rightarrow> answer = Inr (cloneResult (mr_result ex_record)) \<and> job = None"
proof -
  let ?e = "ex_ready\<lparr>en_store := [FromStableKey (\<lambda>_. replicate 32 0) ''route-search'' ''key'' \<mapsto> ex_record]\<rparr>"
  let ?w = "ex_world\<lparr>w_engine := ?e\<rparr>"
  have "ApplySafeDefaults (ex_request RoutingModeStrictGreen) = ex_request RoutingModeStrictGreen"
    by (simp add: ApplySafeDefaults_def ex_request_def)
  then have v: "RouteSearchRequest_Validate (env_now ex_env (w_tick ?w)) DefaultValidationLimits (ApplySafeDefaults (ex_request RoutingModeStrictGreen)) = None"
    using ex_request_valid by (simp add: ex_env_def)
  have "en_capabilityOK (w_engine ?w)" "en_admission (w_engine ?w) < en_admissionCapacity (w_engine ?w)" "''key'' \<noteq> []"
    "en_store (w_engine ?w) (FromStableKey (\<lambda>_. replicate 32 0) ''route-search'' ''key'') = Some ex_record"
    "\<forall>n. env_now ex_env n \<le> mr_expiresAt ex_record"
    by (simp_all add: ex_ready_def newEngine_def ex_config_def ex_env_def ex_record_def)
  from start_idempotent [OF v this, where rand = "[]" and rand' = "[]"] show ?thesis by (auto split: prod.splits)
qed

section \<open>Recovery of interrupted searches\<close>

definition stale :: "time \<Rightarrow> time \<Rightarrow> Memory \<Rightarrow> string \<Rightarrow> bool" where
  "stale t before m sid \<longleftrightarrow> (case m sid of None \<Rightarrow> False
     | Some r \<Rightarrow> t \<le> mr_expiresAt r \<and> \<not> terminalStatus (rr_Status (mr_result r)) \<and> rr_GeneratedAt (mr_result r) < before)"

lemma active_loop_eq:
  "int (length result) + int (length ids) \<le> limit \<Longrightarrow>
     active_loop t before limit m ids result = result @ map (\<lambda>sid. cloneResult (mr_result (the (m sid)))) (filter (stale t before m) ids)"
proof (induction ids arbitrary: result)
  case (Cons sid ids)
  then show ?case by (cases "m sid"; cases ids) (auto simp: stale_def Let_def not_less)
qed simp

definition interrupted :: "time \<Rightarrow> RouteSearchResult \<Rightarrow> RouteSearchResult" where
  "interrupted now r = r\<lparr>rr_Status := SearchFailed, rr_Warnings := appendUniqueString (rr_Warnings r) ''WORKER_INTERRUPTED'', rr_GeneratedAt := now\<rparr>"

text \<open>Stored records: keyed by the id of a result that can be encoded.\<close>

definition record_ok :: "string \<Rightarrow> memoryRecord \<Rightarrow> bool" where
  "record_ok sid r \<longleftrightarrow> rr_SearchID (mr_result r) = sid \<and> result_json_ok (mr_result r)"

lemma recover_one_store:
  assumes "en_store (w_engine w) sid = Some r" "record_ok sid r" "\<forall>n. env_now env n \<le> mr_expiresAt r"
    "\<not> terminalStatus (rr_Status (mr_result r))"
  shows "wp (recover_one env now (mr_result r)) (\<lambda>_ w'. \<exists>r'. en_store (w_engine w') = (en_store (w_engine w))(sid \<mapsto> r')
    \<and> mr_result r' = interrupted now (mr_result r) \<and> (\<exists>e. mr_events r' = mr_events r @ [e] \<and> ev_Type e = EventSearchFailed)) w"
proof -
  have j: "result_json_ok (interrupted now (mr_result r))" using assms(2) by (simp add: record_ok_def result_json_ok_def interrupted_def)
  have i: "rr_SearchID (interrupted now (mr_result r)) = sid" using assms(2) by (simp add: record_ok_def interrupted_def)
  have live: "live (env_now env n) sid (en_store (w_engine w)) = Some r" for n using assms(1,3) by (auto simp: live_def not_less)
  have copied: "copyResult (Some x) = Some y \<Longrightarrow> result_json_ok x \<Longrightarrow> result_json_ok y" for x y
    by (auto simp: copyResult_def result_json_ok_def slice_of_def split: option.splits)
  show ?thesis
    using assms(4) live i j copied [OF _ j]
    by (auto simp: recover_one_def clock_def reading_def the_engine_def on_store_def wp_rules Let_def interrupted_def [symmetric]
        Memory_Finalize_def push_event_def cloneResult_def cloneEvent_def event_json_ok_def copyResult_def split: prod.split)
qed

definition closes :: "time \<Rightarrow> memoryRecord \<Rightarrow> memoryRecord \<Rightarrow> bool" where
  "closes now r r' \<longleftrightarrow> mr_result r' = interrupted now (mr_result r) \<and> (\<exists>e. mr_events r' = mr_events r @ [e] \<and> ev_Type e = EventSearchFailed)"

lemma recover_all:
  assumes "distinct sids" "\<forall>sid \<in> set sids. \<exists>r. m sid = Some r \<and> record_ok sid r \<and> (\<forall>n. env_now env n \<le> mr_expiresAt r)
      \<and> \<not> terminalStatus (rr_Status (mr_result r))"
    and "\<forall>sid \<in> set sids. en_store (w_engine w) sid = m sid"
  shows "wp (State_Monad.traverse_list (recover_one env now) (map (\<lambda>sid. mr_result (the (m sid))) sids)) (\<lambda>_ w'.
    (\<forall>sid. sid \<notin> set sids \<longrightarrow> en_store (w_engine w') sid = en_store (w_engine w) sid)
    \<and> (\<forall>sid \<in> set sids. \<exists>r'. en_store (w_engine w') sid = Some r' \<and> closes now (the (m sid)) r')) w"
  using assms
proof (induction sids arbitrary: w)
  case (Cons sid sids)
  obtain r where r: "m sid = Some r" "record_ok sid r" "\<forall>n. env_now env n \<le> mr_expiresAt r" "\<not> terminalStatus (rr_Status (mr_result r))"
    using Cons.prems(2) by auto
  have here: "en_store (w_engine w) sid = Some r" using Cons.prems(3) r(1) by simp
  have rest: "wp (State_Monad.traverse_list (recover_one env now) (map (\<lambda>sid. mr_result (the (m sid))) sids)) (\<lambda>_ w''.
      (\<forall>sid. sid \<notin> set sids \<longrightarrow> en_store (w_engine w'') sid = en_store (w_engine w') sid)
      \<and> (\<forall>sid \<in> set sids. \<exists>r'. en_store (w_engine w'') sid = Some r' \<and> closes now (the (m sid)) r')) w'"
    if "en_store (w_engine w') = (en_store (w_engine w))(sid \<mapsto> r')" for w' r'
    by (rule Cons.IH) (use Cons.prems that in auto)
  show ?case
    unfolding list.map State_Monad.traverse_list.simps wp_rules r(1) option.sel
  proof (rule wp_mono [OF recover_one_store [OF here r(2-4), folded closes_def]], elim exE conjE, goal_cases)
    case (1 u w' r')
    show ?case
      by (rule wp_mono [OF rest [OF 1(1)]]) (use 1 r(1) Cons.prems(1) in \<open>auto simp: wp_rules\<close>)
  qed
qed (simp add: wp_rules)

text \<open>The searches that are stale for a batch at time \<open>now\<close>, by the clock reading of the batch.\<close>

definition overdue :: "environment \<Rightarrow> time \<Rightarrow> world \<Rightarrow> string \<Rightarrow> bool" where
  "overdue env now w = stale (env_now env (w_tick w)) (now - (if cf_StaleSearchAfter (en_config (w_engine w)) = 0 then 45 * second
     else cf_StaleSearchAfter (en_config (w_engine w)))) (en_store (w_engine w))"

text \<open>A batch leaves alone every search that is not overdue, whatever it does to others.\<close>

lemma recover_one_other:
  assumes "rr_SearchID x \<noteq> sid"
  shows "wp (recover_one env now x) (\<lambda>_ w'. en_store (w_engine w') sid = en_store (w_engine w) sid) w"
  using assms by (auto simp: recover_one_def clock_def reading_def the_engine_def on_store_def wp_rules Let_def Memory_Finalize_def split: prod.split option.split)

lemma recover_others:
  "\<forall>x \<in> set xs. rr_SearchID x \<noteq> sid \<Longrightarrow>
    wp (State_Monad.traverse_list (recover_one env now) xs) (\<lambda>_ w'. en_store (w_engine w') sid = en_store (w_engine w) sid) w"
proof (induction xs arbitrary: w)
  case (Cons x xs)
  have rest: "wp (State_Monad.traverse_list (recover_one env now) xs) (\<lambda>_ w''. en_store (w_engine w'') sid = en_store (w_engine w) sid) w'"
    if "en_store (w_engine w') sid = en_store (w_engine w) sid" for w'
    using Cons.IH [of w'] Cons.prems that by simp
  show ?case
    unfolding State_Monad.traverse_list.simps wp_rules
    by (rule wp_mono [OF recover_one_other [of x sid]]) (use Cons.prems in \<open>auto intro!: wp_mono [OF rest] simp: wp_rules\<close>)
qed (simp add: wp_rules)

definition stale_results :: "time \<Rightarrow> time \<Rightarrow> Memory \<Rightarrow> RouteSearchResult set" where
  "stale_results t before m = {cloneResult (mr_result (the (m k))) | k. stale t before m k}"

lemma active_loop_stale: "set result \<subseteq> stale_results t before m \<Longrightarrow> set (active_loop t before limit m ids result) \<subseteq> stale_results t before m"
proof (induction ids arbitrary: result)
  case (Cons sid ids)
  show ?case
  proof (cases "stale t before m sid")
    case True
    then have new: "set (result @ [cloneResult (mr_result (the (m sid)))]) \<subseteq> stale_results t before m"
      using Cons.prems by (auto simp: stale_results_def)
    from Cons.IH [OF this] new show ?thesis using Cons.prems True by (auto simp: stale_def Let_def split: option.splits)
  next
    case False
    then show ?thesis using Cons by (auto simp: stale_def not_less split: option.splits)
  qed
qed simp

lemma batch_spares:
  assumes keyed: "\<And>k r. en_store (w_engine w) k = Some r \<Longrightarrow> rr_SearchID (mr_result r) = k" and sid: "sid \<noteq> []" "\<not> overdue env now w sid"
  shows "wp (recoverStaleBatch env order now) (\<lambda>_ w'. en_store (w_engine w') sid = en_store (w_engine w) sid) w"
proof -
  define limit where "limit = (if cf_StaleSearchAfter (en_config (w_engine w)) = 0 then 45 * second else cf_StaleSearchAfter (en_config (w_engine w)))"
  define m where "m = en_store (w_engine w)"
  have "rr_SearchID x \<noteq> sid" if "x \<in> set (Memory_ActiveBefore (env_now env (w_tick w)) order (now - limit) 100 m)" for x
  proof -
    have "x \<in> stale_results (env_now env (w_tick w)) (now - limit) m"
      using subsetD [OF active_loop_stale, of "[]" _ _ _ x 100 order] that by (simp add: Memory_ActiveBefore_def)
    then obtain k where k: "x = cloneResult (mr_result (the (m k)))" "stale (env_now env (w_tick w)) (now - limit) m k"
      by (auto simp: stale_results_def)
    then obtain r where r: "m k = Some r" by (auto simp: stale_def split: option.splits)
    have "k \<noteq> sid" using k(2) sid(2) by (auto simp: overdue_def m_def limit_def)
    then show ?thesis using k(1) r keyed [of k r] sid(1) by (auto simp: m_def cloneResult_def zero_result_def)
  qed
  then have all: "wp (State_Monad.traverse_list (recover_one env now) (Memory_ActiveBefore (env_now env (w_tick w)) order (now - limit) 100 m))
      (\<lambda>_ w'. en_store (w_engine w') sid = en_store (w_engine (w\<lparr>w_tick := n\<rparr>)) sid) (w\<lparr>w_tick := n\<rparr>)" for n
    by (intro recover_others ballI)
  show ?thesis
    by (simp add: recoverStaleBatch_def clock_def reading_def the_engine_def on_store_def wp_rules Let_def limit_def [symmetric] m_def [symmetric]
        split del: if_split) (rule wp_mono [OF all], simp add: wp_ret m_def)
qed

text \<open>recovery closes every interrupted search of the batch and touches nothing else: each live record that is not terminal and was generated
  before the stale limit becomes failed with the warning WORKER_INTERRUPTED and one final event, its routes unchanged, and every other
  record stays as it was. Here the batch visits at most a hundred ids and the clock stays within the lifetime of the stale records.\<close>

theorem recovery_closes_stale:
  assumes "distinct order" "length order \<le> 100"
    and "\<forall>sid r. en_store (w_engine w) sid = Some r \<longrightarrow> record_ok sid r"
    and "\<forall>sid r. en_store (w_engine w) sid = Some r \<and> overdue env now w sid \<longrightarrow> (\<forall>n. env_now env n \<le> mr_expiresAt r)"
  shows "case run_state (recoverStaleBatch env order now) w of (_, w') \<Rightarrow>
    (\<forall>sid \<in> set order. overdue env now w sid \<longrightarrow>
       (\<exists>r r'. en_store (w_engine w) sid = Some r \<and> en_store (w_engine w') sid = Some r' \<and> closes now r r'))
    \<and> (\<forall>sid. sid \<notin> set order \<or> \<not> overdue env now w sid \<longrightarrow> en_store (w_engine w') sid = en_store (w_engine w) sid)"
proof -
  define m where "m = en_store (w_engine w)"
  define limit where "limit = (if cf_StaleSearchAfter (en_config (w_engine w)) = 0 then 45 * second else cf_StaleSearchAfter (en_config (w_engine w)))"
  define old where "old = stale (env_now env (w_tick w)) (now - limit) m"
  have old: "overdue env now w = old" by (simp add: overdue_def old_def limit_def m_def)
  define sids where "sids = filter old order"
  have some: "\<exists>r. m sid = Some r \<and> record_ok sid r \<and> (\<forall>n. env_now env n \<le> mr_expiresAt r) \<and> \<not> terminalStatus (rr_Status (mr_result r))"
    if "sid \<in> set sids" for sid
    using that assms(3,4) unfolding old by (auto simp: sids_def old_def stale_def m_def [symmetric] split: option.splits)
  have active: "Memory_ActiveBefore (env_now env (w_tick w)) order (now - limit) 100 m = map (\<lambda>sid. mr_result (the (m sid))) sids"
  proof -
    have "cloneResult (mr_result (the (m sid))) = mr_result (the (m sid))" if "sid \<in> set sids" for sid
      using some [OF that] by (auto simp: cloneResult_def record_ok_def)
    then show ?thesis
      using active_loop_eq [of "[]" order 100 "env_now env (w_tick w)" "now - limit" m] assms(2)
      by (simp add: Memory_ActiveBefore_def sids_def old_def)
  qed
  have all: "wp (State_Monad.traverse_list (recover_one env now) (map (\<lambda>sid. mr_result (the (m sid))) sids)) (\<lambda>_ w'.
      (\<forall>sid. sid \<notin> set sids \<longrightarrow> en_store (w_engine w') sid = m sid)
      \<and> (\<forall>sid \<in> set sids. \<exists>r'. en_store (w_engine w') sid = Some r' \<and> closes now (the (m sid)) r')) (w\<lparr>w_tick := n\<rparr>)" for n
    using recover_all [of sids m env "w\<lparr>w_tick := n\<rparr>" now] some assms(1) by (auto simp: sids_def m_def)
  have "wp (recoverStaleBatch env order now) (\<lambda>_ w'. (\<forall>sid. sid \<notin> set sids \<longrightarrow> en_store (w_engine w') sid = m sid)
      \<and> (\<forall>sid \<in> set sids. \<exists>r'. en_store (w_engine w') sid = Some r' \<and> closes now (the (m sid)) r')) w"
    using active
    by (simp add: recoverStaleBatch_def clock_def reading_def the_engine_def on_store_def wp_rules Let_def limit_def [symmetric] m_def [symmetric]
        split del: if_split) (rule wp_mono [OF all], simp add: wp_ret)
  then show ?thesis
    unfolding wp_def old m_def [symmetric] using some by (fastforce simp: sids_def split: prod.splits)
qed

definition ex_stale :: memoryRecord where
  "ex_stale = \<lparr> mr_result = (ex_result SearchSearching), mr_events = [], mr_expiresAt = 10 ^ 12, mr_nextEvent = 0 \<rparr>"

theorem recovery_closes_stale_witness:
  "case run_state (recoverStaleBatch ex_env [''s''] (10 ^ 11)) (ex_world\<lparr>w_engine := newEngine ex_config [''s'' \<mapsto> ex_stale]\<rparr>) of (_, w') \<Rightarrow>
    \<exists>r'. en_store (w_engine w') ''s'' = Some r' \<and> rr_Status (mr_result r') = SearchFailed"
proof -
  let ?w = "ex_world\<lparr>w_engine := newEngine ex_config [''s'' \<mapsto> ex_stale]\<rparr>"
  have o: "overdue ex_env (10 ^ 11) ?w ''s''"
    by (simp add: overdue_def stale_def ex_env_def ex_stale_def newEngine_def ex_config_def second_def ex_result_def zero_result_def)
  have "distinct [''s'']" "length [''s''] \<le> 100" by simp_all
  moreover have "\<forall>sid r. en_store (w_engine ?w) sid = Some r \<longrightarrow> record_ok sid r"
    "\<forall>sid r. en_store (w_engine ?w) sid = Some r \<and> overdue ex_env (10 ^ 11) ?w sid \<longrightarrow> (\<forall>n. env_now ex_env n \<le> mr_expiresAt r)"
    by (simp_all add: newEngine_def record_ok_def ex_stale_def ex_result_def zero_result_def result_json_ok_def ex_env_def fin64_def zero_f64_def is_nan_def is_inf_def)
  ultimately show ?thesis
    using recovery_closes_stale [of "[''s'']" ?w ex_env "10 ^ 11"] o
    by (auto simp: closes_def interrupted_def split: prod.splits)
qed

end
