(* ===== verification/EdgeOrchestrator.thy ===== *)
theory EdgeOrchestrator
  imports EdgeContract EdgeIdempotency EventStream Engine_Service
begin

text \<open>
  The edge and the orchestrator together: the operation key that the edge sends is one the orchestrator takes, and the search that it starts under
  the key is the one that the edge recovers by it.
\<close>

section \<open>Operation keys\<close>

lemma hex_digit_lower: "unat n < 16 \<Longrightarrow> hex_digit n \<in> set ''abcdef0123456789''"
proof -
  have "\<forall>i < 16. ''0123456789abcdef'' ! i \<in> set ''abcdef0123456789''" by (simp add: All_less_Suc numeral_eq_Suc)
  then show "unat n < 16 \<Longrightarrow> hex_digit n \<in> set ''abcdef0123456789''" by (simp add: hex_digit_def)
qed

lemma hex_encode_pattern: "length bytes = 32 \<Longrightarrow> operationKeyPattern (hex_encode bytes)"
proof -
  have "length (hex_encode bytes) = 2 * length bytes" by (induction bytes) (simp_all add: hex_encode_def)
  moreover have "c \<in> set ''abcdef0123456789''" if "c \<in> set (hex_encode bytes)" for c
    using that nibble_less hex_digit_lower unfolding hex_encode_def by fastforce
  ultimately show "length bytes = 32 \<Longrightarrow> ?thesis" by (simp add: operationKeyPattern_def list_all_iff)
qed

section \<open>What a start leaves in the store\<close>

lemma appendEvent_result:
  assumes "en_store (w_engine w) sid = Some r"
  shows "wp (appendEvent ev sid' ty msg c res meta) (\<lambda>_ w'. \<exists>r'. en_store (w_engine w') sid = Some r' \<and> mr_result r' = mr_result r) w"
  using assms
  by (auto simp: appendEvent_def clock_def reading_def the_engine_def on_store_def wp_rules Memory_AppendEvent_def push_event_def live_def Let_def
      split: prod.split option.split)

lemma launch_stores:
  assumes "en_store (w_engine w) sid = Some r" "mr_result r = cloneResult res" "rr_SearchID res = sid"
  shows "wp (launch ev sid rq res) (\<lambda>(answer, job) w'. answer = Inr res \<and> job = Some (rq, res)
     \<and> (\<exists>r'. en_store (w_engine w') sid = Some r' \<and> mr_result r' = cloneResult res)) w"
  unfolding launch_def wp_bind
  by (rule wp_mono [OF appendEvent_result [OF assms(1)]]) (use assms(2) in \<open>auto simp: wp_rules on_engine_def\<close>)

definition fresh_result :: "engine \<Rightarrow> RouteSearchRequest \<Rightarrow> RouteSearchResult \<Rightarrow> bool" where
  "fresh_result e rq res \<longleftrightarrow> (\<exists>origin sid t. res = accepted_result origin sid rq t \<and> en_scoring origin = en_scoring e)
     \<and> (\<exists>now. RouteSearchRequest_Validate now DefaultValidationLimits rq = None)"

text \<open>A start that launches a worker has created the record, under the id of its key.\<close>

definition created :: "(string \<Rightarrow> 8 word list) \<Rightarrow> string \<Rightarrow> (start_error + RouteSearchResult) \<times> (RouteSearchRequest \<times> RouteSearchResult) option \<Rightarrow> engine \<Rightarrow> bool" where
  "created sha key result e = (case result of (answer, job) \<Rightarrow> (case job of None \<Rightarrow> True | Some (rq, res) \<Rightarrow>
     answer = Inr res \<and> (key \<noteq> [] \<longrightarrow> rr_SearchID res = FromStableKey sha ''route-search'' key)
     \<and> fresh_result e rq res \<and> (\<exists>r. en_store e (rr_SearchID res) = Some r \<and> mr_result r = cloneResult res)))"

lemma appendEvent_scoring: "wp (appendEvent ev sid ty msg c res meta) (\<lambda>_ w'. en_scoring (w_engine w') = en_scoring (w_engine w)) w"
  by (auto simp: appendEvent_def clock_def reading_def the_engine_def on_store_def wp_rules split: prod.split)

lemma start_creates: "wp (start ev sha rand rand' request key) (\<lambda>result w'. created sha key result (w_engine w')) w"
proof -
  have id: "RouteSearchRequest_Validate now DefaultValidationLimits (rq\<lparr>rq_RequestID := i\<rparr>) = RouteSearchRequest_Validate now DefaultValidationLimits rq" for now rq i
    by (simp add: RouteSearchRequest_Validate_def)
  have sid: "rr_SearchID (accepted_result e sid rq t) = sid" for e sid rq t by (simp add: accepted_result_def)
  define rq where "rq = (if rq_RequestID (ApplySafeDefaults request) = [] then (ApplySafeDefaults request)\<lparr>rq_RequestID := New rand\<rparr>
    else ApplySafeDefaults request)"
  define search where "search = (if key \<noteq> [] then FromStableKey sha ''route-search'' key else New rand')"
  have begun: "wp (case err of Some err \<Rightarrow> answer_existing ev search key err | None \<Rightarrow> launch ev search rq (accepted_result (w_engine w) search rq t))
      (\<lambda>result w'. created sha key result (w_engine w')) w'"
    if "err = None \<Longrightarrow> \<exists>r. en_store (w_engine w') search = Some r \<and> mr_result r = cloneResult (accepted_result (w_engine w) search rq t)"
      "en_scoring (w_engine w') = en_scoring (w_engine w)" "RouteSearchRequest_Validate now DefaultValidationLimits rq = None" for w' err t now
  proof (cases err)
    case None
    note stored = that(1) [OF None]
    obtain r where r: "en_store (w_engine w') search = Some r" "mr_result r = cloneResult (accepted_result (w_engine w) search rq t)"
      using stored by blast
    have "wp (launch ev search rq (accepted_result (w_engine w) search rq t)) (\<lambda>_ w''. en_scoring (w_engine w'') = en_scoring (w_engine w)) w'"
      unfolding launch_def wp_bind by (rule wp_mono [OF appendEvent_scoring]) (use that(2) in \<open>auto simp: wp_rules on_engine_def\<close>)
    note launched = wp_conj [OF launch_stores [OF r sid] this]
    have fresh: "fresh_result e rq (accepted_result (w_engine w) search rq t)" if "en_scoring e = en_scoring (w_engine w)" for e
      using that \<open>RouteSearchRequest_Validate now DefaultValidationLimits rq = None\<close> unfolding fresh_result_def by metis
    have key: "key \<noteq> [] \<Longrightarrow> search = FromStableKey sha ''route-search'' key" by (simp add: search_def)
    show ?thesis
      unfolding None option.case by (rule wp_mono [OF launched]) (use fresh key in \<open>auto simp: created_def sid\<close>)
  next
    case (Some e)
    then show ?thesis by (auto simp: answer_existing_def clock_def reading_def on_store_def on_engine_def wp_rules created_def)
  qed
  show ?thesis
  proof (cases "RouteSearchRequest_Validate (env_now ev (w_tick w)) DefaultValidationLimits (ApplySafeDefaults request) = None
      \<and> en_capabilityOK (w_engine w) \<and> en_admission (w_engine w) < en_admissionCapacity (w_engine w)")
    case True
    then have v: "RouteSearchRequest_Validate (env_now ev (w_tick w)) DefaultValidationLimits rq = None" by (simp add: rq_def id)
    have "wp (on_store (Memory_Create now now' (accepted_result (w_engine w) search rq t) ttl)) (\<lambda>err. wp (case err of
        Some err \<Rightarrow> answer_existing ev search key err | None \<Rightarrow> launch ev search rq (accepted_result (w_engine w) search rq t))
          (\<lambda>result w'. created sha key result (w_engine w')))
        (w\<lparr>w_engine := (w_engine w)\<lparr>en_admission := en_admission (w_engine w) + 1\<rparr>, w_tick := n\<rparr>)" for now now' t ttl n
      by (auto simp: on_store_def wp_State Memory_Create_def sid Let_def split: prod.split option.split
          intro!: begun [where err = None, unfolded option.case, OF _ _ v] begun [where err = "Some e" for e, unfolded option.case, OF _ _ v])
    with True show ?thesis
      by (simp add: start_def rq_def [symmetric] search_def [symmetric] clock_def reading_def the_engine_def on_engine_def wp_bind wp_State wp_modify wp_ret Let_def
          split del: if_split)
  next
    case False
    then show ?thesis
      by (auto simp: start_def clock_def reading_def the_engine_def wp_bind wp_State wp_ret Let_def created_def split: option.split)
  qed
qed

section \<open>Recovery\<close>

text \<open>The orchestrator's answer as the edge gets it: the body with what the JSON decoder makes of it.\<close>

definition reply_of :: "(Problem \<Rightarrow> string) \<Rightarrow> (string \<Rightarrow> RouteSearchResult option) \<Rightarrow> response \<Rightarrow> RouteSearchResult upstream" where
  "reply_of problem_text decode w =
     (let body = (case ws_Body w of NoBody \<Rightarrow> [] | ProblemBody p \<Rightarrow> problem_text p | RawBody text \<Rightarrow> text) in Replied (ws_Status w) body (decode body))"

text \<open>The JSON library reads back what it wrote for a result without NaN and infinities.\<close>

definition reads_back :: "codec \<Rightarrow> (string \<Rightarrow> RouteSearchResult option) \<Rightarrow> RouteSearchResult \<Rightarrow> bool" where
  "reads_back cd decode r \<longleftrightarrow> (result_json_ok r \<longrightarrow> decode (cd_marshal cd r) = Some r)"

lemma trim_space_id: "list_all (\<lambda>c. \<not> is_space c) s \<Longrightarrow> trim_space s = s"
proof -
  have drop: "list_all (\<lambda>c. \<not> is_space c) s \<Longrightarrow> dropWhile is_space s = s" for s by (cases s) simp_all
  show "list_all (\<lambda>c. \<not> is_space c) s \<Longrightarrow> ?thesis" using drop [of s] drop [of "rev s"] by (simp add: trim_space_def)
qed

lemma key_without_space: "operationKeyPattern key \<Longrightarrow> trim_space key = key \<and> key \<noteq> []"
proof -
  have "list_all (\<lambda>c. \<not> is_space c) ''abcdef0123456789''" by (simp add: is_space_def)
  then have plain: "\<not> is_space c" if "c \<in> set ''abcdef0123456789''" for c using that unfolding list_all_iff by blast
  assume key: "operationKeyPattern key"
  then have "list_all (\<lambda>c. \<not> is_space c) key" unfolding operationKeyPattern_def list_all_iff using plain by blast
  moreover have "length key = 64" using key unfolding operationKeyPattern_def by blast
  ultimately show ?thesis using trim_space_id by fastforce
qed

lemma fresh_facts:
  assumes "fresh_result e rq res" "fin64 (MinimumRouteConfidence (en_scoring e))" "rr_SearchID res \<noteq> []"
  shows "result_json_ok res" "rr_Status res = SearchAccepted" "validateResult res = None"
proof -
  obtain origin sid t now where res: "res = accepted_result origin sid rq t" "en_scoring origin = en_scoring e"
      and valid: "RouteSearchRequest_Validate now DefaultValidationLimits rq = None" using assms(1) by (auto simp: fresh_result_def)
  have "fin64 (rq_MaxExtraDistancePercent rq)"
    using valid by (auto simp: request_validate_None request_ok_def fin64_def frange_def is_nan_def is_inf_def)
  moreover have "fin64 0" by (simp add: fin64_def is_nan_def is_inf_def zero_f64_def)
  ultimately show "result_json_ok res" using res assms(2) by (simp add: result_json_ok_def accepted_result_def)
  show "rr_Status res = SearchAccepted" by (simp add: res(1) accepted_result_def)
  have "first_some [None, None, None, None, None, None, None :: result_error option] = None" by simp
  then show "validateResult res = None" using assms(3) by (simp add: res(1) accepted_result_def validateResult_def elements_def check_def)
qed

text \<open>The worker keeps the id of its search.\<close>

lemma worker_keeps_id:
  assumes "fresh_result e rq res" "w_sent w = []" "run_state (run ev lm rq res) w = (final, w')"
  shows "rr_SearchID final = rr_SearchID res"
proof -
  obtain origin sid t now where res: "res = accepted_result origin sid rq t" and valid: "RouteSearchRequest_Validate now DefaultValidationLimits rq = None"
    using assms(1) by (auto simp: fresh_result_def)
  have "outcome (ctx_for (w_engine w) sid rq) rq final w'"
    using run_outcome [OF valid assms(2), of ev lm origin sid t] assms(3) by (simp add: wp_def res)
  then show ?thesis by (simp add: outcome_def concluded_def ctx_for_def res accepted_result_def)
qed

text \<open>A keyed start that launches a worker has passed every check, and the engine has created its record.\<close>

lemma server_start_launched:
  assumes "run_state (server_start oe cd rand rand' r input) w = ((resp, Some (rq, res)), w')"
    and "operationKeyPattern (hr_Header r ''X-Operation-Key'')"
  shows "resp = WriteJSON [] 202 (cd_marshal cd res)"
    "created (cd_sha256 cd) (hr_Header r ''X-Operation-Key'') (Inr res, Some (rq, res)) (w_engine w')"
proof -
  let ?key = "hr_Header r ''X-Operation-Key''"
  have key: "trim_space ?key = ?key" "?key \<noteq> []" using key_without_space [OF assms(2)] by blast+
  have "wp (server_start oe cd rand rand' r input) (\<lambda>(resp, job) w'. case job of None \<Rightarrow> True | Some (rq, res) \<Rightarrow>
      resp = WriteJSON [] 202 (cd_marshal cd res) \<and> created (cd_sha256 cd) ?key (Inr res, Some (rq, res)) (w_engine w')) w"
    (is "wp _ ?post w")
  proof -
    have "wp (start oe (cd_sha256 cd) rand rand' request ?key \<bind> (\<lambda>(answer, job).
        ret (case answer of Inl e \<Rightarrow> start_problem r e | Inr result \<Rightarrow> WriteJSON [] 202 (cd_marshal cd result), job))) ?post w'" for request w'
      unfolding wp_bind by (rule wp_mono [OF start_creates]) (auto simp: wp_rules created_def split: option.splits)
    then show ?thesis
      by (auto simp: server_start_def key assms(2) clock_def reading_def wp_rules Let_def split: sum.split option.split)
  qed
  with assms(1) show "resp = WriteJSON [] 202 (cd_marshal cd res)"
    "created (cd_sha256 cd) ?key (Inr res, Some (rq, res)) (w_engine w')" by (simp_all add: wp_def)
qed

text \<open>C30: A lost answer loses no search. The operation key that the edge derives is accepted by the orchestrator; when a start under it launches a worker,
  the orchestrator's answer is one the edge accepts, and the record is stored under the id that the edge computes from the key. If the answer is lost,
  the edge asks for that id: right after the start it finds the same search and accepts it; and whatever the worker has made of the record since, as long as it
  lives under its id, the edge finds it and accepts it, as running or ended, exactly when its result satisfies the edge's contract. It sends nothing but
  that one request, so no second search is created. The result with which the worker ends has the same id.\<close>

theorem recovery_finds_search:
  assumes "\<And>x. length (cd_sha256 cd x) = 32" "se_sha256 ev = cd_sha256 cd" "reads_back cd decode res"
    and "fin64 (MinimumRouteConfidence (en_scoring (w_engine w')))"
    and "hr_Header r ''X-Operation-Key'' = operation_key ev key body"
    and "run_state (server_start oe cd rand rand' r input) w = ((resp, Some (rq, res)), w')"
  shows "client_startSearch (reply_of problem_text decode resp) = (202, cd_marshal cd res, res, False) \<and> validateResult res = None
    \<and> (\<exists>stored. en_store (w_engine w') (operation_search ev (operation_key ev key body)) = Some stored
      \<and> (\<forall>now n r2. now \<le> mr_expiresAt stored
          \<and> se_get ev n = reply_of problem_text decode (server_get cd now r2 (operation_search ev (operation_key ev key body)) (en_store (w_engine w')))
        \<longrightarrow> recoverOperation ev n (operation_key ev key body)
            = (Some (202, cd_marshal cd res, res), [GetSearch (operation_search ev (operation_key ev key body))])))
    \<and> (\<forall>m stored now n r2. m (operation_search ev (operation_key ev key body)) = Some stored
          \<and> rr_SearchID (mr_result stored) = operation_search ev (operation_key ev key body) \<and> result_json_ok (mr_result stored)
          \<and> reads_back cd decode (mr_result stored) \<and> now \<le> mr_expiresAt stored
          \<and> se_get ev n = reply_of problem_text decode (server_get cd now r2 (operation_search ev (operation_key ev key body)) m)
        \<longrightarrow> recoverOperation ev n (operation_key ev key body)
            = (if validateResult (mr_result stored) = None
               then Some (if still_running (rr_Status (mr_result stored)) then 202 else 200, cd_marshal cd (mr_result stored), mr_result stored)
               else None, [GetSearch (operation_search ev (operation_key ev key body))]))
    \<and> (\<forall>we lm w1 final w2. w_sent w1 = [] \<and> run_state (run we lm rq res) w1 = (final, w2)
        \<longrightarrow> rr_SearchID final = operation_search ev (operation_key ev key body))"
proof -
  let ?op = "operation_key ev key body" and ?id = "operation_search ev (operation_key ev key body)"
  have pattern: "operationKeyPattern ?op" unfolding operation_key_def using assms(1,2) hex_encode_pattern by simp
  then have op: "?op \<noteq> []" using key_without_space by blast
  have launched: "resp = WriteJSON [] 202 (cd_marshal cd res)" "created (cd_sha256 cd) ?op (Inr res, Some (rq, res)) (w_engine w')"
    using server_start_launched [OF assms(6)] pattern assms(5) by simp_all
  have id: "rr_SearchID res = ?id" using launched(2) op assms(2) by (simp add: created_def operation_search_def)
  have valid: "Valid ?id" using formatV4_valid assms(1,2) by (simp add: operation_search_def FromStableKey_def)
  then have "?id \<noteq> []" by (auto simp: Valid_def)
  note facts = fresh_facts [of "w_engine w'" rq res, OF _ assms(4), unfolded id, OF _ this]
  have fresh: "fresh_result (w_engine w') rq res" using launched(2) by (simp add: created_def)
  obtain stored where stored: "en_store (w_engine w') ?id = Some stored" "mr_result stored = cloneResult res"
    using launched(2) id by (auto simp: created_def)
  have decoded: "decode (cd_marshal cd res) = Some res" "cloneResult res = res"
    using assms(3) facts(1) [OF fresh] by (simp_all add: reads_back_def cloneResult_def)
  have get: "server_get cd now r2 ?id (en_store (w_engine w')) = WriteJSON [] 200 (cd_marshal cd res)" if "now \<le> mr_expiresAt stored" for now r2
    using that stored valid decoded(2) by (simp add: server_get_def validSearchID_def Memory_Get_def live_def)
  have reply: "reply_of problem_text decode (WriteJSON [] st (cd_marshal cd res)) = Replied st (cd_marshal cd res) (Some res)" for st
    by (simp add: reply_of_def WriteJSON_def decoded(1))
  have "recoverOperation ev n ?op = (Some (202, cd_marshal cd res, res), [GetSearch ?id])"
    if "se_get ev n = Replied 200 (cd_marshal cd res) (Some res)" for n
    using that op id facts(2,3) [OF fresh] by (simp add: recoverOperation_def client_getSearch_def still_running_def)
  then have "\<forall>now n r2. now \<le> mr_expiresAt stored
      \<and> se_get ev n = reply_of problem_text decode (server_get cd now r2 ?id (en_store (w_engine w')))
    \<longrightarrow> recoverOperation ev n ?op = (Some (202, cd_marshal cd res, res), [GetSearch ?id])" using get reply by simp
  moreover have "recoverOperation ev n ?op = (if validateResult (mr_result stored) = None
        then Some (if still_running (rr_Status (mr_result stored)) then 202 else 200, cd_marshal cd (mr_result stored), mr_result stored)
        else None, [GetSearch ?id])"
    if later: "m ?id = Some stored" "rr_SearchID (mr_result stored) = ?id" "result_json_ok (mr_result stored)" "reads_back cd decode (mr_result stored)"
      "now \<le> mr_expiresAt stored" "se_get ev n = reply_of problem_text decode (server_get cd now r2 ?id m)" for m stored now n r2
  proof -
    have "server_get cd now r2 ?id m = WriteJSON [] 200 (cd_marshal cd (mr_result stored))"
      using later(1,3,5) valid by (simp add: server_get_def validSearchID_def Memory_Get_def live_def cloneResult_def)
    then have "se_get ev n = Replied 200 (cd_marshal cd (mr_result stored)) (Some (mr_result stored))"
      using later(3,4,6) by (simp add: reply_of_def WriteJSON_def reads_back_def)
    then show ?thesis using op later(2) by (simp add: recoverOperation_def client_getSearch_def)
  qed
  moreover have "rr_SearchID final = ?id" if "w_sent w1 = []" "run_state (run we lm rq res) w1 = (final, w2)" for we lm w1 final w2
    using worker_keeps_id [OF fresh that] id by simp
  ultimately show ?thesis using stored(1) launched(1) reply facts(3) [OF fresh] by (auto simp: client_startSearch_def)
qed

definition ex_exchange :: codec where
  "ex_exchange = \<lparr> cd_marshal = (\<lambda>_. ''{}''), cd_event = (\<lambda>_. None), cd_text = (\<lambda>_. ''invalid''), cd_sha256 = (\<lambda>_. replicate 32 7) \<rparr>"

definition ex_keyed :: http_request where
  "ex_keyed = (ex_http ''POST'' ''/internal/v1/searches'')\<lparr>hr_Header := (\<lambda>_. operation_key (ex_start 0) ''key'' ''body'')\<rparr>"

lemma ex_keyed_key: "hr_Header ex_keyed h = operation_key (ex_start 0) ''key'' ''body''" "operationKeyPattern (hr_Header ex_keyed h)"
proof -
  show "hr_Header ex_keyed h = operation_key (ex_start 0) ''key'' ''body''" by (simp add: ex_keyed_def)
  moreover have "length (se_sha256 (ex_start 0) x) = 32" for x by (simp add: ex_start_def)
  ultimately show "operationKeyPattern (hr_Header ex_keyed h)" using hex_encode_pattern by (simp add: operation_key_def)
qed

lemma ex_launched:
  "\<exists>resp rq res w'. run_state (server_start ex_env ex_exchange [] [] ex_keyed (Inr (input_of_request (ex_request RoutingModeStrictGreen))))
      (ex_world\<lparr>w_engine := ex_ready\<rparr>) = ((resp, Some (rq, res)), w') \<and> en_scoring (w_engine w') = en_scoring ex_ready"
proof -
  let ?request = "ex_request RoutingModeStrictGreen" and ?key = "hr_Header ex_keyed ''X-Operation-Key''"
  have input: "RouteSearchInput_Request (input_of_request r) = Inr r" for r
    by (simp add: RouteSearchInput_Request_def input_of_request_def default_opt_def)
  have id: "ApplySafeDefaults ?request = ?request" by (simp add: ApplySafeDefaults_def ex_request_def)
  have valid: "RouteSearchRequest_Validate (env_now ex_env n) DefaultValidationLimits ?request = None" for n
    using ex_request_valid by (simp add: ex_env_def)
  have key: "operationKeyPattern ?key" "trim_space ?key = ?key" "?key \<noteq> []"
    using key_without_space [OF ex_keyed_key(2)] ex_keyed_key(2) by simp_all
  have fresh_store: "Memory_Create now now' r ttl Map.empty
      = (None, [rr_SearchID r \<mapsto> \<lparr> mr_result = cloneResult r, mr_events = [], mr_expiresAt = now' + ttl, mr_nextEvent = 0 \<rparr>])" for now now' r ttl
    by (simp add: Memory_Create_def purgeExpiredLocked_def)
  have begun: "wp (start ex_env (cd_sha256 ex_exchange) [] [] ?request ?key) (\<lambda>(answer, job) w'. job \<noteq> None \<and> en_scoring (w_engine w') = en_scoring ex_ready)
      w" if "w_engine w = ex_ready" for w
    using that by (simp add: start_def id valid launch_def appendEvent_def on_engine_def on_store_def the_engine_def clock_def reading_def wp_rules Let_def
        fresh_store ex_ready_def newEngine_def ex_config_def key split: prod.split)
  have "wp (server_start ex_env ex_exchange [] [] ex_keyed (Inr (input_of_request ?request)))
      (\<lambda>(resp, job) w'. job \<noteq> None \<and> en_scoring (w_engine w') = en_scoring ex_ready) (ex_world\<lparr>w_engine := ex_ready\<rparr>)"
    by (simp add: server_start_def input id valid key clock_def reading_def wp_rules Let_def) (rule wp_mono [OF begun], auto simp: wp_rules)
  then show ?thesis by (auto simp: wp_def split: prod.splits)
qed

theorem recovery_finds_search_witness:
  "\<exists>resp rq res w'. run_state (server_start ex_env ex_exchange [] [] ex_keyed (Inr (input_of_request (ex_request RoutingModeStrictGreen))))
      (ex_world\<lparr>w_engine := ex_ready\<rparr>) = ((resp, Some (rq, res)), w')
    \<and> client_startSearch (reply_of (\<lambda>_. []) (\<lambda>_. Some res) resp) = (202, ''{}'', res, False)"
proof -
  obtain resp rq res w' where run: "run_state (server_start ex_env ex_exchange [] [] ex_keyed (Inr (input_of_request (ex_request RoutingModeStrictGreen))))
      (ex_world\<lparr>w_engine := ex_ready\<rparr>) = ((resp, Some (rq, res)), w')" "en_scoring (w_engine w') = en_scoring ex_ready" using ex_launched by blast
  have finite: "fin64 (MinimumRouteConfidence (en_scoring (w_engine w')))"
    unfolding run(2) by code_simp
  have codec: "length (cd_sha256 ex_exchange x) = 32" "se_sha256 (ex_start 0) = cd_sha256 ex_exchange" "reads_back ex_exchange (\<lambda>_. Some res) res" for x
    by (simp_all add: ex_exchange_def ex_start_def reads_back_def)
  from recovery_finds_search [OF codec finite ex_keyed_key(1) run(1), of "\<lambda>_. []"] run(1) show ?thesis by (simp add: ex_exchange_def)
qed

end
