(* ===== verification/OrchestratorProperties.thy ===== *)
theory OrchestratorProperties
  imports OrchestratorServer Engine_Service
begin

text \<open>
  What the configuration of the orchestrator (\<open>services/routing-orchestrator/config.go\<close>) means for the running service: who reaches the internal handlers,
  how many searches run, and that recovery leaves a search alone within its deadline.
\<close>

section \<open>The configuration in force\<close>

lemma middleware_passes:
  assumes "requestMiddleware cfg rand r = (Inr r', headers)" "prefix ''/internal/'' (hr_Path r)" "cf_InternalToken cfg \<noteq> []"
  shows "hr_Header r ''Authorization'' = ''Bearer '' @ cf_InternalToken cfg"
  using assms by (auto simp: requestMiddleware_def Let_def split: if_splits)

text \<open>A search that is stored with the configuration and runs no longer than its deadline is not overdue.\<close>

lemma within_deadline:
  assumes "orchestrator_invalid c = None" "RouteSearchRequest_Validate t DefaultValidationLimits rq = None"
    and "en_config (w_engine w) = c" "en_store (w_engine w) sid = Some stored"
    and "now \<le> rr_GeneratedAt (mr_result stored) + rq_SearchDeadlineMS rq * 10 ^ 6"
  shows "\<not> overdue ev now w sid"
proof -
  have "rq_SearchDeadlineMS rq \<le> 30000" using assms(2) by (simp add: request_validate_None request_ok_def)
  moreover have "35 * 10 ^ 9 \<le> cf_StaleSearchAfter c" using orchestrator_limits(7) [OF assms(1)] by (simp add: seconds_def)
  ultimately have "now - cf_StaleSearchAfter c \<le> rr_GeneratedAt (mr_result stored)" "cf_StaleSearchAfter c \<noteq> 0" using assms(5) by simp_all
  then show ?thesis using assms(3,4) by (simp add: overdue_def stale_def not_less)
qed

text \<open>C33: An accepted configuration is safe to run. In production the internal API has a token of at least 32 characters, and the middleware passes on only
  requests that carry it; a required state store has an address and the right to keep provider data; the engine admits between 1 and
  1000 searches at a time; and a batch of the recovery, in whatever order it visits the searches and whatever it does to others, leaves the record of a search
  with an id untouched that is within the deadline of its request (in a store whose records are kept under the ids of their results).\<close>

theorem orchestrator_config_safe:
  assumes "orchestrator_loadConfig parse_duration getenv = Inr c"
  shows "(cf_Environment c = ''production'' \<longrightarrow> 32 \<le> length (cf_InternalToken c)
      \<and> (\<forall>rand r r' headers. requestMiddleware c rand r = (Inr r', headers) \<and> prefix ''/internal/'' (hr_Path r)
          \<longrightarrow> hr_Header r ''Authorization'' = ''Bearer '' @ cf_InternalToken c))
    \<and> (cf_RequireRedis c \<longrightarrow> cf_RedisURL c \<noteq> [] \<and> cf_ProviderDataStorage c)
    \<and> 1 \<le> en_admissionCapacity (newEngine c m) \<and> en_admissionCapacity (newEngine c m) \<le> 1000
    \<and> (\<forall>ev order w u w' sid stored t rq now. en_config (w_engine w) = c \<and> en_store (w_engine w) sid = Some stored \<and> sid \<noteq> []
        \<and> (\<forall>k r. en_store (w_engine w) k = Some r \<longrightarrow> rr_SearchID (mr_result r) = k)
        \<and> RouteSearchRequest_Validate t DefaultValidationLimits rq = None
        \<and> now \<le> rr_GeneratedAt (mr_result stored) + rq_SearchDeadlineMS rq * 10 ^ 6
        \<and> run_state (recoverStaleBatch ev order now) w = (u, w') \<longrightarrow> en_store (w_engine w') sid = Some stored)"
proof -
  have valid: "orchestrator_invalid c = None" using orchestrator_loadConfig_valid [OF assms] .
  have token: "cf_Environment c = ''production'' \<Longrightarrow> 32 \<le> length (cf_InternalToken c)"
    and redis: "cf_RequireRedis c \<Longrightarrow> cf_RedisURL c \<noteq> [] \<and> cf_ProviderDataStorage c"
    using valid by (auto simp: orchestrator_invalid_def)
  then have "cf_Environment c = ''production'' \<Longrightarrow> cf_InternalToken c \<noteq> []" by force
  note credential = middleware_passes [OF _ _ this]
  have slots: "en_admissionCapacity (newEngine c m) = cf_MaxConcurrentSearches c"
    using orchestrator_limits(3) [OF valid] by (simp add: newEngine_def Let_def)
  have spared: "en_store (w_engine w') sid = Some stored"
    if "en_config (w_engine w) = c" "en_store (w_engine w) sid = Some stored" "sid \<noteq> []"
      "\<forall>k r. en_store (w_engine w) k = Some r \<longrightarrow> rr_SearchID (mr_result r) = k" "RouteSearchRequest_Validate t DefaultValidationLimits rq = None"
      "now \<le> rr_GeneratedAt (mr_result stored) + rq_SearchDeadlineMS rq * 10 ^ 6" "run_state (recoverStaleBatch ev order now) w = (u, w')"
    for ev order w u w' sid stored t rq now
    using wp_run [OF batch_spares [OF that(4) [rule_format] that(3) within_deadline [OF valid that(5,1,2,6)]] that(7)] that(2) by simp
  have bearer: "hr_Header r ''Authorization'' = ''Bearer '' @ cf_InternalToken c"
    if "cf_Environment c = ''production''" "requestMiddleware c rand r = (Inr r', headers) \<and> prefix ''/internal/'' (hr_Path r)" for rand r r' headers
    using credential that by blast
  show ?thesis
  proof (intro conjI)
    show "cf_Environment c = ''production'' \<longrightarrow> 32 \<le> length (cf_InternalToken c)
      \<and> (\<forall>rand r r' headers. requestMiddleware c rand r = (Inr r', headers) \<and> prefix ''/internal/'' (hr_Path r)
          \<longrightarrow> hr_Header r ''Authorization'' = ''Bearer '' @ cf_InternalToken c)" using token bearer by blast
    show "cf_RequireRedis c \<longrightarrow> cf_RedisURL c \<noteq> [] \<and> cf_ProviderDataStorage c" using redis by blast
    show "1 \<le> en_admissionCapacity (newEngine c m)" "en_admissionCapacity (newEngine c m) \<le> 1000"
      using orchestrator_limits(3,4) [OF valid] by (simp_all add: slots)
  qed (intro allI impI, elim conjE, rule spared)
qed

text \<open>The defaults, and production with a token.\<close>

definition ex_production :: "string \<Rightarrow> string" where
  "ex_production name = (if name = ''APP_ENV'' then ''prod'' else if name = ''INTERNAL_API_TOKEN'' then replicate 32 (CHR ''t'') else [])"

lemma ex_production_loads:
  "case orchestrator_loadConfig (\<lambda>_. None) ex_production of Inl e \<Rightarrow> False | Inr c \<Rightarrow> cf_Environment c = ''production''"
  by code_simp

theorem orchestrator_config_safe_witness:
  "\<exists>c. orchestrator_loadConfig (\<lambda>_. None) ex_production = Inr c \<and> 32 \<le> length (cf_InternalToken c)
    \<and> en_admissionCapacity (newEngine c Map.empty) \<le> 1000
    \<and> (case run_state (recoverStaleBatch ex_env [''s''] (10 ^ 10)) (ex_world\<lparr>w_engine := newEngine c [''s'' \<mapsto> ex_stale]\<rparr>) of (_, w') \<Rightarrow>
          en_store (w_engine w') ''s'' = Some ex_stale)"
proof -
  obtain c where c: "orchestrator_loadConfig (\<lambda>_. None) ex_production = Inr c" "cf_Environment c = ''production''"
    using ex_production_loads by (auto split: sum.splits)
  let ?w = "ex_world\<lparr>w_engine := newEngine c [''s'' \<mapsto> ex_stale]\<rparr>"
  obtain u w' where run: "run_state (recoverStaleBatch ex_env [''s''] (10 ^ 10)) ?w = (u, w')" by (metis surj_pair)
  have valid: "RouteSearchRequest_Validate 0 DefaultValidationLimits (ex_request RoutingModeGreenest) = None"
    by (simp add: request_validate_None request_ok_def ex_request_def ex_point_def point_ok_def frange_def one_f64_def)
  note all = orchestrator_config_safe [OF c(1), of Map.empty]
  have stored: "en_config (w_engine ?w) = c" "en_store (w_engine ?w) ''s'' = Some ex_stale" "''s'' \<noteq> []"
    "\<forall>k r. en_store (w_engine ?w) k = Some r \<longrightarrow> rr_SearchID (mr_result r) = k"
    "10 ^ 10 \<le> rr_GeneratedAt (mr_result ex_stale) + rq_SearchDeadlineMS (ex_request RoutingModeGreenest) * 10 ^ 6"
    by (simp_all add: newEngine_def Let_def ex_stale_def ex_result_def zero_result_def ex_request_def)
  have kept: "en_store (w_engine w') ''s'' = Some ex_stale"
    by (rule all [THEN conjunct2, THEN conjunct2, THEN conjunct2, THEN conjunct2, rule_format, OF conjI, OF stored(1) conjI, OF stored(2) conjI, OF stored(3) conjI,
        OF stored(4) conjI, OF valid conjI, OF stored(5) run])
  show ?thesis
  proof (intro exI [of _ c] conjI)
    show "32 \<le> length (cf_InternalToken c)" using all c(2) by blast
    show "en_admissionCapacity (newEngine c Map.empty) \<le> 1000" using all by blast
    show "case run_state (recoverStaleBatch ex_env [''s''] (10 ^ 10)) ?w of (_, w') \<Rightarrow> en_store (w_engine w') ''s'' = Some ex_stale"
      by (simp only: run prod.case kept)
  qed (rule c(1))
qed

end
