(* ===== verification/Yandex_Routes.thy ===== *)
theory Yandex_Routes
  imports ProviderService ProviderClient
begin

text \<open>
  The normalization of a Yandex route response (\<open>services/provider-yandex/yandex.go\<close>): from the decoded JSON to candidates. The HTTP exchange
  and the JSON decoder come before it and are not modelled; the adapter's retry loop is in \<open>Adapter_Routes\<close>. The last section
  compares what the adapter emits with what the orchestrator's client accepts.
\<close>

section \<open>The decoded response\<close>

record yandexStep =
  ys_Duration :: f64
  ys_Length :: f64
  ys_Mode :: string
  ys_Points :: "f64 list list"

record yandexLeg =
  yl_Status :: string
  yl_Steps :: "yandexStep list"

record yandexRoute =
  yr_Legs :: "yandexLeg list"
  yr_HasTolls :: bool
  yr_HasNonTransactionalTolls :: bool

record yandexRouteResponse =
  yw_TrafficType :: string
  yw_Route :: "yandexRoute option"
  yw_Routes :: "yandexRoute list"

section \<open>Normalization\<close>

fun polyline_loop :: "GeoPoint list \<Rightarrow> f64 list list \<Rightarrow> go_error + GeoPoint list" where
  "polyline_loop geometry [] = Inr geometry"
| "polyline_loop geometry (pair # points) =
     (if length pair \<noteq> 2 then Inl (response_invalid ''provider returned malformed geometry'')
      else let point = \<lparr> Latitude = pair ! 0, Longitude = pair ! 1 \<rparr> in
        if GeoPoint_Validate point \<noteq> None then Inl (response_invalid ''provider returned out-of-range geometry'')
        else polyline_loop (appendDistinct geometry [point]) points)"

definition normalizePolyline :: "f64 list list \<Rightarrow> go_error + GeoPoint list" where
  "normalizePolyline points = (case polyline_loop [] points of
     Inl e \<Rightarrow> Inl e
   | Inr geometry \<Rightarrow>
       if length geometry < 2 then Inl (response_invalid ''provider returned insufficient geometry'') else Inr geometry)"

text \<open>The answer counts as a traffic-free baseline.\<close>

definition is_baseline :: "ProviderRouteRequest \<Rightarrow> string \<Rightarrow> bool" where
  "is_baseline request trafficType \<longleftrightarrow> trafficType = ''disabled'' \<or> \<not> pr_Traffic request"

definition yandex_segment :: "ProviderRouteRequest \<Rightarrow> string \<Rightarrow> string \<Rightarrow> GeoPoint list \<Rightarrow> yandexStep \<Rightarrow> RouteSegment" where
  "yandex_segment request trafficType segmentID stepGeometry step = \<lparr>
     seg_SegmentID = segmentID, seg_Geometry = stepGeometry, seg_DistanceMeters = rounded (ys_Length step),
     seg_LiveDurationSeconds = (if is_baseline request trafficType then 0 else rounded (ys_Duration step)),
     seg_BaselineDurationSeconds = (if is_baseline request trafficType then rounded (ys_Duration step) else 0),
     seg_TrafficRatio = 0, seg_CongestionClass = CongestionUnknown,
     seg_Confidence = \<lparr> Level = ConfidenceLow, Score = flit 0.5, Reasons = [''PROVIDER_HAS_NO_OFFICIAL_SEGMENT_CONGESTION_CLASS''] \<rparr>,
     seg_GeometrySimilarity = 1, seg_Source = ''YANDEX_ROUTER_API'' \<rparr>"

text \<open>The variables of the loops of \<open>normalizeYandexRoute\<close>.\<close>

record yandex_scan =
  sn_steps :: nat
  sn_points :: nat
  sn_geometry :: "GeoPoint list"
  sn_distance :: f64
  sn_duration :: f64
  sn_segments :: "RouteSegment list"

definition yandex_segment_id :: "nat \<Rightarrow> nat \<Rightarrow> nat \<Rightarrow> string" where
  "yandex_segment_id routeIndex legIndex stepIndex =
     ''yandex-'' @ show_nat (routeIndex + 1) @ ''-'' @ show_nat (legIndex + 1) @ ''-'' @ show_nat (stepIndex + 1)"

definition yandex_step :: "libm \<Rightarrow> ProviderRouteRequest \<Rightarrow> string \<Rightarrow> nat \<Rightarrow> nat \<Rightarrow> nat \<Rightarrow> yandex_scan \<Rightarrow> yandexStep \<Rightarrow> go_error + yandex_scan" where
  "yandex_step lm request trafficType routeIndex legIndex stepIndex s step =
     (let s = s\<lparr>sn_steps := sn_steps s + 1, sn_points := sn_points s + length (ys_Points step)\<rparr> in
      if sn_steps s > maxProviderStepsPerRoute \<or> sn_points s > maxProviderPointsPerRoute then
        Inl (response_invalid ''provider route geometry exceeds safety limits'')
      else if \<not> finitePositive (ys_Length step) \<or> \<not> finitePositive (ys_Duration step) then
        Inl (response_invalid ''provider returned invalid route measurements'')
      else case normalizePolyline (ys_Points step) of
        Inl e \<Rightarrow> Inl e
      | Inr stepGeometry \<Rightarrow>
          if PolylineLength lm stepGeometry > ys_Length step * flit 2 + flit 5000 then
            Inl (response_invalid ''provider geometry is inconsistent with route length'')
          else Inr (s\<lparr>sn_geometry := appendDistinct (sn_geometry s) stepGeometry,
            sn_distance := sn_distance s + ys_Length step, sn_duration := sn_duration s + ys_Duration step,
            sn_segments := sn_segments s @ [yandex_segment request trafficType (yandex_segment_id routeIndex legIndex stepIndex) stepGeometry step]\<rparr>))"

fun yandex_steps :: "libm \<Rightarrow> ProviderRouteRequest \<Rightarrow> string \<Rightarrow> nat \<Rightarrow> nat \<Rightarrow> nat \<Rightarrow> yandex_scan \<Rightarrow> yandexStep list \<Rightarrow> go_error + yandex_scan" where
  "yandex_steps lm request trafficType routeIndex legIndex stepIndex s [] = Inr s"
| "yandex_steps lm request trafficType routeIndex legIndex stepIndex s (step # later) =
     (case yandex_step lm request trafficType routeIndex legIndex stepIndex s step of
        Inl e \<Rightarrow> Inl e
      | Inr s \<Rightarrow> yandex_steps lm request trafficType routeIndex legIndex (Suc stepIndex) s later)"

fun yandex_legs :: "libm \<Rightarrow> ProviderRouteRequest \<Rightarrow> string \<Rightarrow> nat \<Rightarrow> nat \<Rightarrow> bool \<Rightarrow> yandex_scan \<Rightarrow> yandexLeg list \<Rightarrow> go_error + bool \<times> yandex_scan" where
  "yandex_legs lm request trafficType routeIndex legIndex blocked s [] = Inr (blocked, s)"
| "yandex_legs lm request trafficType routeIndex legIndex blocked s (leg # legs) =
     (case yandex_steps lm request trafficType routeIndex legIndex 0 s (yl_Steps leg) of
        Inl e \<Rightarrow> Inl e
      | Inr s \<Rightarrow> yandex_legs lm request trafficType routeIndex (Suc legIndex) (blocked \<or> yl_Status leg \<noteq> ''OK'') s legs)"

text \<open>The explanation in Russian, as UTF-8 bytes.\<close>

definition yandex_explanation :: string where
  "yandex_explanation = unhex (
     ''d09cd0b0d180d188d180d183d18220d0bdd0bed180d0bcd0b0d0bbd0b8d0b7d0bed0b2d0b0d0bd20d0b8d0b720d0bed184d0b8d186d0b8d0b0d0bbd1'' @
     ''8cd0bdd0bed0b3d0be2059616e64657820526f75746572204150493b20d183d180d0bed0b2d0b5d0bdd18c20d0bfd180d0bed0b1d0bed0ba20d0bfd0'' @
     ''be20d181d0b5d0b3d0bcd0b5d0bdd182d0b0d0bc20d0bed181d182d0b0d191d182d181d18f20554e4b4e4f574e20d0b4d0be20626173656c696e652d'' @
     ''d181d0bed0bfd0bed181d182d0b0d0b2d0bbd0b5d0bdd0b8d18f2e'')"

definition yandex_candidate ::
    "(string \<Rightarrow> 8 word list) \<Rightarrow> ProviderRouteRequest \<Rightarrow> string \<Rightarrow> nat \<Rightarrow> yandexRoute \<Rightarrow> bool \<Rightarrow> yandex_scan \<Rightarrow> RouteCandidate" where
  "yandex_candidate sha256 request trafficType routeIndex route blocked s =
     (let distanceMeters = rounded (sn_distance s);
          durationSeconds = rounded (sn_duration s);
          baseline = is_baseline request trafficType;
          known = (trafficType = ''realtime'' \<or> trafficType = ''forecast'')
      in \<lparr> rc_CandidateID = candidateID sha256 ''yandex'' (int routeIndex) (sn_geometry s) distanceMeters durationSeconds,
           rc_Provider = ''yandex'', rc_ProviderRouteReference = [],
           rc_TrafficDataType = (if baseline then TrafficDataBaseline else if trafficType = ''realtime'' then TrafficDataRealtime
             else if trafficType = ''forecast'' then TrafficDataForecast else TrafficDataUnknown),
           rc_Geometry = sn_geometry s, rc_DistanceMeters = distanceMeters,
           rc_LiveDurationSeconds = (if baseline then 0 else durationSeconds),
           rc_BaselineDurationSeconds = (if baseline then durationSeconds else 0), rc_TrafficDelaySeconds = 0,
           rc_Segments = sn_segments s, rc_Blocked = blocked,
           rc_Tolls = (yr_HasTolls route \<or> yr_HasNonTransactionalTolls route), rc_Unpaved = False,
           rc_Confidence = \<lparr> Level = (if baseline \<or> known then ConfidenceMedium else ConfidenceLow),
             Score = flit (if baseline \<or> known then 0.65 else 0.5), Reasons = [''OFFICIAL_PROVIDER_ROUTE'', ''NO_BASELINE_LIVE_PAIR''] \<rparr>,
           rc_Score = 0,
           rc_ReasonCodes = [''PROVIDER_ROUTE_DETAILS'', ''SEGMENT_CONGESTION_UNKNOWN'',
             if baseline then ''TRAFFIC_DISABLED_BASELINE'' else if trafficType = ''realtime'' then ''YANDEX_TRAFFIC_REALTIME''
             else if trafficType = ''forecast'' then ''YANDEX_TRAFFIC_FORECAST'' else ''YANDEX_TRAFFIC_TYPE_UNKNOWN''],
           rc_Explanation = yandex_explanation, rc_GeneratedBy = ''INITIAL_PROVIDER'', rc_ProviderRequestCount = 0, rc_Metrics = zero_metrics \<rparr>)"

definition normalizeYandexRoute ::
    "libm \<Rightarrow> (string \<Rightarrow> 8 word list) \<Rightarrow> ProviderRouteRequest \<Rightarrow> string \<Rightarrow> nat \<Rightarrow> yandexRoute \<Rightarrow> go_error + RouteCandidate" where
  "normalizeYandexRoute lm sha256 request trafficType routeIndex route =
     (if yr_Legs route = [] \<or> length (yr_Legs route) > maxProviderLegsPerRoute then Inl (response_invalid ''provider returned an invalid leg count'')
      else case yandex_legs lm request trafficType routeIndex 0 False
          \<lparr> sn_steps = 0, sn_points = 0, sn_geometry = [], sn_distance = 0, sn_duration = 0, sn_segments = [] \<rparr> (yr_Legs route) of
        Inl e \<Rightarrow> Inl e
      | Inr (blocked, s) \<Rightarrow>
          if length (sn_geometry s) < 2 \<or> sn_distance s \<le> 0 \<or> sn_duration s \<le> 0 then
            Inl (response_invalid ''provider returned an incomplete route'')
          else Inr (yandex_candidate sha256 request trafficType routeIndex route blocked s))"

definition yandex_routes_of :: "yandexRouteResponse \<Rightarrow> yandexRoute list" where
  "yandex_routes_of response = (if yw_Routes response = [] then (case yw_Route response of None \<Rightarrow> [] | Some r \<Rightarrow> [r]) else yw_Routes response)"

definition yandex_warnings :: "nat \<Rightarrow> string list" where
  "yandex_warnings n =
     [''Yandex traffic_type describes the traffic model used; the API does not expose an official per-segment congestion class.'',
      ''Estimated billable response units: '' @ show_nat n @ ''; the active commercial contract is authoritative.'']"

definition normalizeYandexRoutes ::
    "libm \<Rightarrow> (string \<Rightarrow> 8 word list) \<Rightarrow> ProviderRouteRequest \<Rightarrow> yandexRouteResponse \<Rightarrow> go_error + ProviderRouteResponse" where
  "normalizeYandexRoutes lm sha256 request response =
     (let routes = yandex_routes_of response in
      if routes = [] then Inl (no_route ''provider returned no route'')
      else if int (length routes) > min (1 + pr_Alternatives request) maxProviderRoutes then
        Inl (response_invalid ''provider returned too many routes'')
      else case map_result (normalizeYandexRoute lm sha256 request (yw_TrafficType response)) 0 routes of
        Inl e \<Rightarrow> Inl e
      | Inr candidates \<Rightarrow> Inr \<lparr> ps_Candidates = candidates, ps_RequestsUsed = 0, ps_EstimatedBillableUnits = 0, ps_BudgetRemaining = 0,
          ps_Warnings = yandex_warnings (length candidates), ps_Degraded = False \<rparr>)"

text \<open>What \<open>Routes\<close> adds to a successful response.\<close>

definition yandex_success :: "requestBudget \<Rightarrow> ProviderRouteResponse \<Rightarrow> ProviderRouteResponse" where
  "yandex_success budget response = response\<lparr>ps_RequestsUsed := rb_used budget, ps_BudgetRemaining := rb_remaining budget,
     ps_EstimatedBillableUnits := int (length (ps_Candidates response)),
     ps_Candidates := map (rc_ProviderRequestCount_update (\<lambda>_. rb_used budget)) (ps_Candidates response)\<rparr>"

section \<open>What normalization establishes\<close>

lemma polyline_loop_points:
  "polyline_loop g points = Inr h \<Longrightarrow> list_all point_ok g \<Longrightarrow> list_all point_ok h \<and> length h \<le> length g + length points"
proof (induction g points arbitrary: h rule: polyline_loop.induct)
  case (2 g pair points)
  let ?p = "\<lparr> Latitude = pair ! 0, Longitude = pair ! 1 \<rparr>"
  have p: "point_ok ?p" "polyline_loop (appendDistinct g [?p]) points = Inr h"
    using "2.prems"(1) by (auto simp: Let_def GeoPoint_Validate_None split: if_splits)
  have "list_all point_ok (appendDistinct g [?p])" using p(1) "2.prems"(2) by (intro appendDistinct_points) auto
  moreover have "length (appendDistinct g [?p]) \<le> Suc (length g)" using length_appendDistinct [of g "[?p]"] by simp
  moreover have "length pair = 2" "GeoPoint_Validate ?p = None" using "2.prems"(1) by (auto simp: Let_def split: if_splits)
  ultimately show ?case using "2.IH" p(2) by fastforce
qed simp

lemma normalizePolyline_points:
  "normalizePolyline points = Inr g \<Longrightarrow> list_all point_ok g \<and> 2 \<le> length g \<and> length g \<le> length points"
  using polyline_loop_points [of "[]" points] by (auto simp: normalizePolyline_def split: sum.splits if_splits)

text \<open>A segment made from a step.\<close>

definition segment_of :: "ProviderRouteRequest \<Rightarrow> string \<Rightarrow> yandexStep \<Rightarrow> RouteSegment \<Rightarrow> bool" where
  "segment_of request trafficType step segment \<longleftrightarrow> (\<exists>i g. segment = yandex_segment request trafficType i g step
     \<and> list_all point_ok g \<and> 2 \<le> length g \<and> length g \<le> 4096)"

text \<open>The loop variables after some steps.\<close>

definition scan_ok :: "ProviderRouteRequest \<Rightarrow> string \<Rightarrow> yandex_scan \<Rightarrow> yandexStep list \<Rightarrow> bool" where
  "scan_ok request trafficType s past \<longleftrightarrow> sn_steps s = length past \<and> length past \<le> 2000 \<and> sn_points s \<le> 4096
     \<and> length (sn_geometry s) \<le> sn_points s \<and> list_all point_ok (sn_geometry s)
     \<and> sn_distance s = foldl (+) 0 (map ys_Length past) \<and> sn_duration s = foldl (+) 0 (map ys_Duration past)
     \<and> list_all2 (segment_of request trafficType) past (sn_segments s)
     \<and> sum_list (map (length \<circ> seg_Geometry) (sn_segments s)) \<le> sn_points s
     \<and> list_all (\<lambda>st. finitePositive (ys_Length st) \<and> finitePositive (ys_Duration st)) past"

lemma yandex_step_ok:
  assumes "yandex_step lm request trafficType r l k s step = Inr s'" "scan_ok request trafficType s past"
  shows "scan_ok request trafficType s' (past @ [step])
    \<and> map seg_SegmentID (sn_segments s') = map seg_SegmentID (sn_segments s) @ [yandex_segment_id r l k]"
proof -
  obtain g where g: "normalizePolyline (ys_Points step) = Inr g"
      "s' = s\<lparr>sn_steps := sn_steps s + 1, sn_points := sn_points s + length (ys_Points step),
        sn_geometry := appendDistinct (sn_geometry s) g, sn_distance := sn_distance s + ys_Length step,
        sn_duration := sn_duration s + ys_Duration step,
        sn_segments := sn_segments s @ [yandex_segment request trafficType (yandex_segment_id r l k) g step]\<rparr>"
      "sn_steps s + 1 \<le> 2000" "sn_points s + length (ys_Points step) \<le> 4096" "finitePositive (ys_Length step)" "finitePositive (ys_Duration step)"
    using assms(1) by (auto simp: yandex_step_def Let_def adapter_limits split: sum.splits if_splits)
  note p = normalizePolyline_points [OF g(1)]
  have "segment_of request trafficType step (yandex_segment request trafficType (yandex_segment_id r l k) g step)"
    unfolding segment_of_def using p g(4) by (intro exI [of _ "yandex_segment_id r l k"] exI [of _ g]) simp
  moreover have "length (appendDistinct (sn_geometry s) g) \<le> sn_points s + length (ys_Points step)"
    using length_appendDistinct [of "sn_geometry s" g] p assms(2) by (auto simp: scan_ok_def)
  moreover have "length (seg_Geometry (yandex_segment request trafficType (yandex_segment_id r l k) g step)) \<le> length (ys_Points step)"
    using p by (simp add: yandex_segment_def)
  ultimately show ?thesis using assms(2) g p
    by (auto simp: scan_ok_def appendDistinct_points list_all2_appendI yandex_segment_def)
qed

lemma yandex_steps_ok:
  assumes "yandex_steps lm request trafficType r l k s later = Inr s'" "scan_ok request trafficType s past"
  shows "scan_ok request trafficType s' (past @ later)
    \<and> map seg_SegmentID (sn_segments s') = map seg_SegmentID (sn_segments s) @ map (yandex_segment_id r l) [k..<k + length later]"
  using assms
proof (induction later arbitrary: k s past)
  case (Cons step later)
  obtain s1 where s1: "yandex_step lm request trafficType r l k s step = Inr s1"
      "yandex_steps lm request trafficType r l (Suc k) s1 later = Inr s'" using Cons.prems(1) by (auto split: sum.splits)
  note one = yandex_step_ok [OF s1(1) Cons.prems(2)]
  have "[k..<k + length (step # later)] = k # [Suc k..<Suc k + length later]" by (subst upt_conv_Cons) auto
  with Cons.IH [OF s1(2) conjunct1 [OF one]] one show ?case by (simp del: upt_Suc)
qed simp

text \<open>The indices of legs and steps, in order.\<close>

fun leg_pairs :: "nat \<Rightarrow> yandexLeg list \<Rightarrow> (nat \<times> nat) list" where
  "leg_pairs l [] = []"
| "leg_pairs l (leg # legs) = map (Pair l) [0..<length (yl_Steps leg)] @ leg_pairs (Suc l) legs"

lemma leg_pairs_set: "p \<in> set (leg_pairs l legs) \<Longrightarrow> l \<le> fst p \<and> fst p < l + length legs \<and> snd p < length (concat (map yl_Steps legs))"
  by (induction l legs rule: leg_pairs.induct) fastforce+

lemma leg_pairs_distinct: "distinct (leg_pairs l legs)"
proof (induction l legs rule: leg_pairs.induct)
  case (2 l leg legs)
  have "set (map (Pair l) [0..<length (yl_Steps leg)]) \<inter> set (leg_pairs (Suc l) legs) = {}"
    using leg_pairs_set [of _ "Suc l" legs] by fastforce
  with 2 show ?case by (simp add: distinct_map inj_on_def)
qed simp

lemma yandex_legs_ok:
  assumes "yandex_legs lm request trafficType r l blocked s legs = Inr (b, s')" "scan_ok request trafficType s past"
  shows "scan_ok request trafficType s' (past @ concat (map yl_Steps legs))
    \<and> map seg_SegmentID (sn_segments s') = map seg_SegmentID (sn_segments s) @ map (\<lambda>(l, k). yandex_segment_id r l k) (leg_pairs l legs)"
  using assms
proof (induction legs arbitrary: l s blocked past)
  case (Cons leg legs)
  obtain s1 where s1: "yandex_steps lm request trafficType r l 0 s (yl_Steps leg) = Inr s1"
      "yandex_legs lm request trafficType r (Suc l) (blocked \<or> yl_Status leg \<noteq> ''OK'') s1 legs = Inr (b, s')"
    using Cons.prems(1) by (auto split: sum.splits)
  note one = yandex_steps_ok [OF s1(1) Cons.prems(2)]
  from Cons.IH [OF s1(2) conjunct1 [OF one]] one show ?case by (simp add: comp_def)
qed simp

lemma yandex_segment_id_inj: "yandex_segment_id r l k = yandex_segment_id r l' k' \<Longrightarrow> l = l' \<and> k = k'"
  by (auto simp: yandex_segment_id_def dest!: dash_inj [OF show_nat_no_dash show_nat_no_dash] show_nat_inj)

lemma yandex_segment_ids:
  assumes "r < 1000" "length legs \<le> 64" "length (concat (map yl_Steps legs)) \<le> 2000"
  defines "ids \<equiv> map (\<lambda>(l, k). yandex_segment_id r l k) (leg_pairs 0 legs)"
  shows "distinct ids \<and> list_all (\<lambda>i. trim_space i \<noteq> [] \<and> length i \<le> 256) ids"
proof -
  have "distinct ids" unfolding ids_def
    using leg_pairs_distinct [of 0 legs] by (auto simp: distinct_map inj_on_def dest!: yandex_segment_id_inj)
  moreover have "length (yandex_segment_id r l k) \<le> 256 \<and> trim_space (yandex_segment_id r l k) \<noteq> []" if "(l, k) \<in> set (leg_pairs 0 legs)" for l k
    using leg_pairs_set [OF that] assms show_nat_length [of "r + 1" 4] show_nat_length [of "l + 1" 4] show_nat_length [of "k + 1" 4]
    by (simp add: yandex_segment_id_def trim_space_Cons is_space_def)
  ultimately show ?thesis by (auto simp: ids_def list_all_iff)
qed

section \<open>What the orchestrator accepts\<close>

text \<open>The measurements of a step stay below this bound (in metres and seconds).\<close>

definition moderate :: "yandexStep \<Rightarrow> bool" where
  "moderate st \<longleftrightarrow> frange 0 (10 ^ 7) (ys_Length st) \<and> frange 0 (10 ^ 7) (ys_Duration st)"

text \<open>A step measures at least half a metre and half a second, so that neither measurement rounds to zero.\<close>

definition substantial :: "yandexStep \<Rightarrow> bool" where
  "substantial st \<longleftrightarrow> Fin (1 / 2) \<le> ys_Length st \<and> Fin (1 / 2) \<le> ys_Duration st"

lemma yandex_segment_accepted:
  assumes "segment_of request trafficType st segment" "moderate st" "finitePositive (ys_Length st)" "finitePositive (ys_Duration st)"
    "trim_space (seg_SegmentID segment) \<noteq> []" "length (seg_SegmentID segment) \<le> 256"
  shows "provider_segment_ok segment \<longleftrightarrow> substantial st"
proof -
  obtain i g where g: "segment = yandex_segment request trafficType i g st" "list_all point_ok g" "2 \<le> length g" "length g \<le> 4096"
    using assms(1) by (auto simp: segment_of_def)
  obtain a b where m: "ys_Length st = Fin a" "ys_Duration st = Fin b" "0 < a" "0 < b" "a \<le> 10 ^ 7" "b \<le> 10 ^ 7"
    using assms(2,3,4) by (auto simp: moderate_def finitePositive_Fin)
  have d: "0 < rounded (ys_Length st) \<longleftrightarrow> 1 / 2 \<le> a" "0 < rounded (ys_Duration st) \<longleftrightarrow> 1 / 2 \<le> b" "0 \<le> rounded (ys_Duration st)"
    using m rounded_pos [of a] rounded_pos [of b] rounded_nonneg [of b] by auto
  have "frange 0 1 (flit 0.5)" unfolding flit_def by (rule mk_range) simp_all
  then show ?thesis
    unfolding provider_segment_ok_def g(1) yandex_segment_def substantial_def m(1,2) f64_fin_ops using assms(5,6) g d m
    by (auto simp: yandex_segment_def zero_f64_def one_f64_def)
qed

lemma measured_step: "moderate st \<Longrightarrow> substantial st \<Longrightarrow> frange (1 / 2) (10 ^ 7) (ys_Length st) \<and> frange (1 / 2) (10 ^ 7) (ys_Duration st)"
  by (auto simp: moderate_def substantial_def elim!: frangeE)

lemma zero_metrics_ok: "provider_metrics_ok zero_metrics"
  by (simp add: provider_metrics_ok_def zero_metrics_def zero_f64_def)

lemma score_literals: "0 \<le> x \<Longrightarrow> x \<le> 1 \<Longrightarrow> frange 0 1 (flit x)"
  unfolding flit_def by (rule mk_range) simp_all

lemma yandex_warnings_short: "n \<le> 3 \<Longrightarrow> length (yandex_warnings n) = 2 \<and> list_all (\<lambda>w. length w \<le> 2048) (yandex_warnings n)"
  using show_nat_length [of n 1] by (simp add: yandex_warnings_def)

lemma yandex_candidate_accepted:
  assumes legs: "yandex_legs lm request trafficType r 0 False
      \<lparr> sn_steps = 0, sn_points = 0, sn_geometry = [], sn_distance = 0, sn_duration = 0, sn_segments = [] \<rparr> (yr_Legs route) = Inr (blocked, s)"
    and bounds: "r < 1000" "length (yr_Legs route) \<le> 64" "2 \<le> length (sn_geometry s)" "\<not> sn_distance s \<le> 0" "0 \<le> used"
    and moderate: "list_all moderate (concat (map yl_Steps (yr_Legs route)))"
  shows "provider_candidate_ok used (rc_ProviderRequestCount_update (\<lambda>_. used) (yandex_candidate sha256 request trafficType r route blocked s))
    \<longleftrightarrow> list_all substantial (concat (map yl_Steps (yr_Legs route)))"
proof -
  define sts where "sts = concat (map yl_Steps (yr_Legs route))"
  define c where "c = rc_ProviderRequestCount_update (\<lambda>_. used) (yandex_candidate sha256 request trafficType r route blocked s)"
  have "scan_ok request trafficType \<lparr> sn_steps = 0, sn_points = 0, sn_geometry = [], sn_distance = 0, sn_duration = 0, sn_segments = [] \<rparr> []"
    by (simp add: scan_ok_def)
  from yandex_legs_ok [OF legs this] have ok: "scan_ok request trafficType s sts"
    and ids: "map seg_SegmentID (sn_segments s) = map (\<lambda>(l, k). yandex_segment_id r l k) (leg_pairs 0 (yr_Legs route))"
    by (simp_all add: sts_def)
  note idsok = yandex_segment_ids [OF bounds(1,2), folded ids]
  have len: "length sts \<le> 2000" using ok by (simp add: scan_ok_def)
  have segs: "provider_segment_ok segment \<longleftrightarrow> substantial st" if "segment_of request trafficType st segment" "st \<in> set sts" "segment \<in> set (sn_segments s)" for st segment
    using that idsok len ok moderate
    by (intro yandex_segment_accepted) (auto simp: sts_def scan_ok_def list_all_iff)
  have all: "list_all provider_segment_ok (sn_segments s) \<longleftrightarrow> list_all substantial sts"
    using ok segs unfolding scan_ok_def list_all2_conv_all_nth list_all_length by (metis nth_mem)
  have ne: "sts \<noteq> []" using ok bounds(4) by (auto simp: scan_ok_def zero_f64_def)
  have sums: "0 < rounded (sn_distance s) \<and> 0 < rounded (sn_duration s)" if "list_all substantial sts"
  proof -
    have "list_all (frange (1 / 2) (10 ^ 7)) (map ys_Length sts)" "list_all (frange (1 / 2) (10 ^ 7)) (map ys_Duration sts)"
      using that moderate unfolding sts_def [symmetric] by (auto simp: list_all_iff dest!: measured_step)
    then show ?thesis using ok ne len substantial_sum [of "map ys_Length sts"] substantial_sum [of "map ys_Duration sts"] by (simp add: scan_ok_def)
  qed
  have rest: "provider_candidate_ok used c \<longleftrightarrow> 0 < rc_DistanceMeters c \<and> 0 \<le> rc_LiveDurationSeconds c \<and> 0 \<le> rc_BaselineDurationSeconds c
      \<and> (0 < rc_LiveDurationSeconds c \<or> 0 < rc_BaselineDurationSeconds c) \<and> list_all provider_segment_ok (sn_segments s)"
    using ok bounds(3,5) idsok len
    by (auto simp: c_def provider_candidate_ok_def yandex_candidate_def Let_def scan_ok_def sts_def candidateID_bounds trim_space_Cons is_space_def
        zero_metrics_ok list_all2_lengthD [symmetric] score_literals zero_f64_def)
  have measured: "rc_DistanceMeters c = rounded (sn_distance s)"
      "rc_LiveDurationSeconds c = (if is_baseline request trafficType then 0 else rounded (sn_duration s))"
      "rc_BaselineDurationSeconds c = (if is_baseline request trafficType then rounded (sn_duration s) else 0)"
    by (simp_all add: c_def yandex_candidate_def Let_def)
  show ?thesis using rest all sums unfolding measured c_def [symmetric] sts_def [symmetric] by auto
qed

text \<open>C23: Every response that the Yandex adapter hands out passes the contract check of the orchestrator's client exactly when no step of
  any route measures less than half a metre or half a second (given steps below ten million metres and seconds and no collision of
  the hashed route ids). A shorter step rounds to a segment of length or duration zero, which the adapter emits and the orchestrator
  rejects together with all routes of the response.\<close>

theorem yandex_response_accepted:
  assumes normal: "normalizeYandexRoutes lm sha256 request wire = Inr response"
    and budget: "1 \<le> rb_used b" "0 \<le> rb_remaining b" "rb_used b + rb_remaining b = pr_RequestBudget request" "pr_RequestBudget request \<le> 20"
    and ids: "distinct (map rc_CandidateID (ps_Candidates response))"
    and moderate: "list_all moderate (concat (map yl_Steps (concat (map yr_Legs (yandex_routes_of wire)))))"
  shows "validateProviderRouteResponse (yandex_success b response) request = None
    \<longleftrightarrow> list_all substantial (concat (map yl_Steps (concat (map yr_Legs (yandex_routes_of wire)))))"
proof -
  let ?routes = "yandex_routes_of wire" and ?f = "normalizeYandexRoute lm sha256 request (yw_TrafficType wire)"
  let ?u = "rc_ProviderRequestCount_update (\<lambda>_. rb_used b)" and ?cs = "ps_Candidates response"
  have n: "?routes \<noteq> []" "length ?routes \<le> 3" "map_result ?f 0 ?routes = Inr ?cs" "ps_Warnings response = yandex_warnings (length ?cs)"
    using normal by (auto simp: normalizeYandexRoutes_def Let_def maxProviderRoutes_def split: if_splits sum.splits)
  note cs = map_result_Inr [OF n(3)]
  have one: "provider_candidate_ok (rb_used b) (?u (?cs ! k)) \<longleftrightarrow> list_all substantial (concat (map yl_Steps (yr_Legs (?routes ! k))))"
    if k: "k < length ?routes" for k
  proof -
    have "?f k (?routes ! k) = Inr (?cs ! k)" using cs k by simp
    then obtain blocked s where s: "yandex_legs lm request (yw_TrafficType wire) k 0 False
        \<lparr> sn_steps = 0, sn_points = 0, sn_geometry = [], sn_distance = 0, sn_duration = 0, sn_segments = [] \<rparr> (yr_Legs (?routes ! k)) = Inr (blocked, s)"
        "length (yr_Legs (?routes ! k)) \<le> 64" "2 \<le> length (sn_geometry s)" "\<not> sn_distance s \<le> 0"
        "?cs ! k = yandex_candidate sha256 request (yw_TrafficType wire) k (?routes ! k) blocked s"
      by (auto simp: normalizeYandexRoute_def maxProviderLegsPerRoute_def split: if_splits sum.splits prod.splits)
    have "set (yr_Legs (?routes ! k)) \<subseteq> set (concat (map yr_Legs ?routes))" using nth_mem [OF k] by auto
    then have "list_all moderate (concat (map yl_Steps (yr_Legs (?routes ! k))))" using moderate unfolding list_all_iff by fastforce
    moreover have "k < 1000" using k n(2) by simp
    ultimately show ?thesis unfolding s(5) using s budget(1) by (intro yandex_candidate_accepted) auto
  qed
  have ids': "map rc_CandidateID (map ?u ?cs) = map rc_CandidateID ?cs" by simp
  have "response_contract request (yandex_success b response) \<longleftrightarrow> list_all (provider_candidate_ok (rb_used b)) (map ?u ?cs)"
    using n(1,2,4) cs budget ids yandex_warnings_short [of "length ?cs"]
    by (auto simp: response_contract_def yandex_success_def comp_def Suc_le_eq)
  also have "\<dots> \<longleftrightarrow> (\<forall>k < length ?routes. list_all substantial (concat (map yl_Steps (yr_Legs (?routes ! k)))))"
    using cs one by (auto simp: list_all_length)
  also have "\<dots> \<longleftrightarrow> list_all substantial (concat (map yl_Steps (concat (map yr_Legs ?routes))))"
    by (auto simp: list_all_iff all_set_conv_all_nth)
  finally show ?thesis by (simp add: validateProviderRouteResponse_None)
qed

definition ex_flat :: libm where
  "ex_flat = \<lparr> m_sin = (\<lambda>_. 0), m_cos = (\<lambda>_. 1), m_atan2 = (\<lambda>_ _. 0), m_sqrt = (\<lambda>x. x), m_hypot = (\<lambda>x _. x) \<rparr>"

definition ex_provider_request :: ProviderRouteRequest where
  "ex_provider_request = \<lparr> pr_RequestID = ''r'', pr_Origin = ex_point 0 0, pr_Destination = ex_point 0 1, pr_Waypoints = [], pr_Traffic = True,
     pr_Alternatives = 0, pr_AvoidTolls = False, pr_AvoidUnpaved = False, pr_DepartureUnix = 0, pr_AvoidZones = [], pr_RequestBudget = 2,
     pr_DeadlineMS = 1000 \<rparr>"

text \<open>A response with one route of two steps, the second of the given length.\<close>

definition ex_wire :: "rat \<Rightarrow> yandexRouteResponse" where
  "ex_wire len = \<lparr> yw_TrafficType = ''realtime'', yw_Route = None, yw_Routes = [\<lparr> yr_Legs = [\<lparr> yl_Status = ''OK'',
     yl_Steps = [\<lparr> ys_Duration = Fin 5, ys_Length = Fin 100, ys_Mode = ''driving'', ys_Points = [[Fin 0, Fin 0], [Fin 0, Fin 1]] \<rparr>,
       \<lparr> ys_Duration = Fin 1, ys_Length = Fin len, ys_Mode = ''driving'', ys_Points = [[Fin 0, Fin 1], [Fin 0, Fin 2]] \<rparr>] \<rparr>],
     yr_HasTolls = False, yr_HasNonTransactionalTolls = False \<rparr>] \<rparr>"

lemma ex_flat_zero: "DistanceMeters ex_flat p q = Fin 0"
proof -
  have "frange 0 (of_int (2 ^ 23)) earthRadiusMeters" unfolding earthRadiusMeters_def flit_def by (intro mk_range rep_int) simp_all
  moreover have "frange 0 2 (flit 2)" unfolding flit_def by (intro mk_range rep_numeral) simp_all
  ultimately have "frange 0 (of_int (2 ^ 23) * 2) (earthRadiusMeters * flit 2)"
    using rep_int [of "2 ^ 24"] by (intro frange_mult) simp_all
  then obtain x where "earthRadiusMeters * flit 2 = Fin x" by (rule frangeE)
  then show ?thesis by (simp add: DistanceMeters_def ex_flat_def zero_f64_def Let_def)
qed

lemma ex_polyline:
  "normalizePolyline [[Fin 0, Fin 0], [Fin 0, Fin 1]] = Inr [ex_point 0 0, ex_point 0 1]"
  "normalizePolyline [[Fin 0, Fin 1], [Fin 0, Fin 2]] = Inr [ex_point 0 1, ex_point 0 2]"
  "PolylineLength ex_flat [a, b] = Fin 0"
  by (simp_all add: normalizePolyline_def GeoPoint_Validate_def is_nan_def is_inf_def point_eq_def feq_def ex_point_def PolylineLength_def
      ex_flat_zero zero_f64_def)

lemma mk_nonneg_fin: "0 \<le> x \<Longrightarrow> mk x = PosInf \<or> (\<exists>r \<ge> 0. mk x = Fin r)"
proof -
  assume "0 \<le> x"
  moreover have "(0::rat) < f64_limit" by (simp add: f64_limit_def)
  ultimately show ?thesis using rnd_nonneg [of x] by (auto simp: mk_def Let_def)
qed

lemma ex_sums:
  assumes "0 < l" "l \<le> 100"
  shows "\<not> Fin l * flit 2 + flit 5000 < Fin 0" "\<not> 0 + Fin 100 + Fin l \<le> 0" "\<not> 0 + Fin 5 + Fin 1 \<le> 0"
proof -
  have "flit 2 = Fin 2" "flit 5000 = Fin 5000" unfolding flit_def by (simp_all add: mk_numeral)
  moreover obtain r where "Fin l * Fin 2 = Fin r" "0 \<le> r"
    using assms mk_range [of 0 "of_int 200" "l * 2"] rep_int [of 200] by (auto elim!: frangeE)
  ultimately show "\<not> Fin l * flit 2 + flit 5000 < Fin 0" using mk_nonneg_fin [of "r + 5000"] by auto
  show "\<not> 0 + Fin 5 + Fin 1 \<le> 0" by (simp add: zero_f64_def mk_numeral)
  have "frange (of_int 100) (of_int 200) (mk (100 + l))" using assms rep_int [of 100] rep_int [of 200] by (intro mk_range) simp_all
  then show "\<not> 0 + Fin 100 + Fin l \<le> 0" by (auto elim!: frangeE simp: zero_f64_def mk_numeral)
qed

theorem yandex_response_accepted_witness:
  "(\<exists>response. normalizeYandexRoutes ex_flat (\<lambda>_. []) ex_provider_request (ex_wire 3) = Inr response
     \<and> validateProviderRouteResponse (yandex_success \<lparr> rb_remaining = 1, rb_used = 1 \<rparr> response) ex_provider_request = None)
   \<and> (\<exists>response. normalizeYandexRoutes ex_flat (\<lambda>_. []) ex_provider_request (ex_wire (2 / 5)) = Inr response
     \<and> validateProviderRouteResponse (yandex_success \<lparr> rb_remaining = 1, rb_used = 1 \<rparr> response) ex_provider_request \<noteq> None)"
proof -
  have run: "case normalizeYandexRoutes ex_flat (\<lambda>_. []) ex_provider_request (ex_wire l) of Inl _ \<Rightarrow> False | Inr r \<Rightarrow> length (ps_Candidates r) = 1"
    if l: "l = 3 \<or> l = 2 / 5" for l
  proof -
    have "0 < l" "l \<le> 100" using l by auto
    then show ?thesis using ex_sums [of l] ex_sums [of 100] ex_polyline
      by (simp add: normalizeYandexRoutes_def normalizeYandexRoute_def ex_wire_def yandex_routes_of_def ex_provider_request_def yandex_step_def
          adapter_limits finitePositive_Fin ex_point_def point_eq_def feq_def)
  qed
  have steps: "list_all moderate (concat (map yl_Steps (concat (map yr_Legs (yandex_routes_of (ex_wire l))))))"
      "list_all substantial (concat (map yl_Steps (concat (map yr_Legs (yandex_routes_of (ex_wire l)))))) \<longleftrightarrow> 1 / 2 \<le> l" if "0 \<le> l" "l \<le> 3" for l
    using that by (simp_all add: ex_wire_def yandex_routes_of_def moderate_def substantial_def)
  have "validateProviderRouteResponse (yandex_success \<lparr> rb_remaining = 1, rb_used = 1 \<rparr> response) ex_provider_request = None \<longleftrightarrow> 1 / 2 \<le> l"
    if "normalizeYandexRoutes ex_flat (\<lambda>_. []) ex_provider_request (ex_wire l) = Inr response" "length (ps_Candidates response) = 1" "0 \<le> l" "l \<le> 3"
    for l response
  proof -
    have "distinct (map rc_CandidateID (ps_Candidates response))" using that(2) by (cases "ps_Candidates response") auto
    then show ?thesis
      using yandex_response_accepted [OF that(1), of "\<lparr> rb_remaining = 1, rb_used = 1 \<rparr>"] steps [OF that(3,4)] by (simp add: ex_provider_request_def)
  qed
  from this [of 3] this [of "2 / 5"] run [of 3] run [of "2 / 5"] show ?thesis by (auto split: sum.splits)
qed

end
