(* ===== verification/Dgis_Routes.thy ===== *)
theory Dgis_Routes
  imports Yandex_Routes
begin

text \<open>
  The 2GIS side of the provider service (\<open>services/provider-yandex/dgis.go\<close>): the request it sends, the reading of its WKT geometry,
  the sharing of a route's distance and time among its parts, and the normalization of a decoded response. The HTTP exchange and the
  JSON codec are not modelled.
\<close>

section \<open>Limits\<close>

definition maxDGISRoutePoints :: nat where "maxDGISRoutePoints = 10"
definition maxDGISManeuvers :: nat where "maxDGISManeuvers = 2000"
definition maxDGISGeometryParts :: nat where "maxDGISGeometryParts = 4096"
definition maxDGISWKTBytes :: nat where "maxDGISWKTBytes = 1048576"
definition maxDGISTotalRouteMeters :: rat where "maxDGISTotalRouteMeters = 10000000"
definition maxDGISTotalDuration :: rat where "maxDGISTotalDuration = 14 * 24 * 60 * 60"

lemmas dgis_limits = maxDGISRoutePoints_def maxDGISManeuvers_def maxDGISGeometryParts_def maxDGISWKTBytes_def
  maxDGISTotalRouteMeters_def maxDGISTotalDuration_def

section \<open>The request\<close>

record dgisRequestPoint =
  dp_Type :: string
  dp_Lon :: f64
  dp_Lat :: f64

record dgisExcludeArea =
  de_Type :: string
  de_Severity :: string
  de_Points :: "dgisRequestPoint list"

record dgisRouteRequest =
  dq_Points :: "dgisRequestPoint list"
  dq_Transport :: string
  dq_Output :: string
  dq_Locale :: string
  dq_RouteMode :: string
  dq_TrafficMode :: string
  dq_UTC :: int64
  dq_AllowLockedRoads :: bool
  dq_Filters :: "string list"
  dq_Exclude :: "dgisExcludeArea list"
  dq_NeedPaymentInfo :: bool
  dq_Alternative :: int

definition dgisForecastDeparture :: "int64 \<Rightarrow> time \<Rightarrow> bool" where
  "dgisForecastDeparture departureUnix now =
     (if departureUnix \<le> 0 then False else departureUnix > (now + 5 * minute) div second)"

text \<open>A zone becomes a polygon whose last point is its first.\<close>

definition exclude_area :: "AvoidZone \<Rightarrow> dgisExcludeArea" where
  "exclude_area zone =
     (let points = map (\<lambda>p. \<lparr> dp_Type = [], dp_Lon = Longitude p, dp_Lat = Latitude p \<rparr>) (az_Points zone);
          points = (if points \<noteq> [] \<and> (\<not> feq (dp_Lon (hd points)) (dp_Lon (last points)) \<or> \<not> feq (dp_Lat (hd points)) (dp_Lat (last points)))
            then points @ [hd points] else points)
      in \<lparr> de_Type = ''polygon'', de_Severity = ''hard'', de_Points = points \<rparr>)"

text \<open>The wire request; the fixed endpoint and the JSON encoding are left out. \<^term>\<open>None\<close> is the error on the number of points.\<close>

definition buildDGISRouteRequest :: "Config \<Rightarrow> ProviderRouteRequest \<Rightarrow> time \<Rightarrow> dgisRouteRequest option" where
  "buildDGISRouteRequest cfg request now =
     (let points = [pr_Origin request] @ pr_Waypoints request @ [pr_Destination request];
          forecast = dgisForecastDeparture (pr_DepartureUnix request) now
      in if length points < 2 \<or> length points > maxDGISRoutePoints then None
         else Some \<lparr> dq_Points = map (\<lambda>p. \<lparr> dp_Type = ''stop'', dp_Lon = Longitude p, dp_Lat = Latitude p \<rparr>) points,
           dq_Transport = ''driving'', dq_Output = ''detailed'', dq_Locale = ''ru'',
           dq_RouteMode = (if pr_Traffic request then ''fastest'' else ''shortest''),
           dq_TrafficMode = (if pr_Traffic request then (if forecast then ''statistics'' else ''jam'') else []),
           dq_UTC = (if pr_Traffic request \<and> forecast then pr_DepartureUnix request else 0),
           dq_AllowLockedRoads = False,
           dq_Filters = (if pr_AvoidTolls request then [''toll_road''] else []) @ (if pr_AvoidUnpaved request then [''dirt_road''] else []),
           dq_Exclude = map exclude_area (pr_AvoidZones request), dq_NeedPaymentInfo = True,
           dq_Alternative = min (pr_Alternatives request) (cf_DGISMaxResults cfg - 1) \<rparr>)"

section \<open>Status codes\<close>

definition mapDGISStatus :: "(string \<Rightarrow> time option) \<Rightarrow> int \<Rightarrow> string \<Rightarrow> time \<Rightarrow> go_error" where
  "mapDGISStatus parse_time status retryAfter now =
     (if status = 204 then no_route ''provider could not build a route''
      else if status \<in> {400, 413} then serviceError ''PROVIDER_REJECTED_REQUEST'' ''provider rejected the normalized request'' 502 False None
      else if status = 401 then serviceError ''PROVIDER_AUTHENTICATION_FAILED'' ''2GIS rejected the API key'' 503 False None
      else if status = 402 then
        serviceError ''PROVIDER_SUBSCRIPTION_REQUIRED'' ''2GIS Routing API subscription or paid quota access is required'' 503 False None
      else if status = 403 then
        serviceError ''PROVIDER_ACCESS_FORBIDDEN'' ''2GIS Routing API access is forbidden by key service access or restrictions'' 503 False None
      else if status = 422 then no_route ''provider could not build a route''
      else if status = 429 then rate_limited ''provider rate limit reached'' (parseRetryAfter parse_time retryAfter now)
      else if status \<in> {500, 502, 503, 504} then serviceError ''PROVIDER_UNAVAILABLE'' ''provider is temporarily unavailable'' 502 True None
      else if status \<ge> 500 \<and> status \<le> 599 then serviceError ''PROVIDER_UNAVAILABLE'' ''provider is temporarily unavailable'' 502 True None
      else serviceError ''PROVIDER_UNEXPECTED_STATUS'' ''provider returned an unexpected status'' 502 False None)"

definition isDGISCredentialAccessError :: "string \<Rightarrow> bool" where
  "isDGISCredentialAccessError code \<longleftrightarrow> code \<in> {''PROVIDER_AUTHENTICATION_FAILED'', ''PROVIDER_SUBSCRIPTION_REQUIRED'', ''PROVIDER_ACCESS_FORBIDDEN''}"

section \<open>The decoded response\<close>

text \<open>\<open>json.RawMessage\<close> is its text, and a pedestrian path is the text of its geometry.\<close>

record dgisGeometryPart =
  dg_Selection :: string
  dg_Color :: string
  dg_Length :: f64
  dg_Style :: string
  dg_PublicTransportLane :: bool

record dgisPath =
  dh_Distance :: f64
  dh_Duration :: f64
  dh_Geometry :: "dgisGeometryPart list"

record dgisManeuver =
  dm_ID :: string
  dm_OutcomingPath :: "dgisPath option"
  dm_ManeuverType :: string
  dm_ManeuverIcon :: string
  dm_ManeuverRemark :: string

record dgisRoute =
  dr_ID :: string
  dr_RouteID :: string
  dr_Algorithm :: string
  dr_TotalDistance :: f64
  dr_TotalDuration :: f64
  dr_Reliability :: "f64 option"
  dr_BeginPedestrianPath :: string
  dr_EndPedestrianPath :: string
  dr_Maneuvers :: "dgisManeuver list"
  dr_TotalPayments :: string

record dgisRouteResponse =
  dw_Status :: string
  dw_Type :: string
  dw_Message :: string
  dw_Result :: "dgisRoute list"

section \<open>Geometry text\<close>

definition coordinate_value :: "f64 option \<Rightarrow> f64 option" where
  "coordinate_value parsed = (case parsed of None \<Rightarrow> None | Some v \<Rightarrow> if is_nan v \<or> is_inf v then None else Some v)"

definition parse_wkt_point :: "string \<Rightarrow> go_error + GeoPoint" where
  "parse_wkt_point rawPoint =
     (let fields = Fields rawPoint in
      if length fields < 2 \<or> length fields > 3 then Inl (response_invalid ''provider returned malformed WKT coordinate'')
      else case coordinate_value (ParseFloat (fields ! 0)) of
        None \<Rightarrow> Inl (response_invalid ''provider returned malformed WKT longitude'')
      | Some longitude \<Rightarrow> (case coordinate_value (ParseFloat (fields ! 1)) of
          None \<Rightarrow> Inl (response_invalid ''provider returned malformed WKT latitude'')
        | Some latitude \<Rightarrow>
            if length fields = 3 \<and> coordinate_value (ParseFloat (fields ! 2)) = None then
              Inl (response_invalid ''provider returned malformed WKT altitude'')
            else let point = \<lparr> Latitude = latitude, Longitude = longitude \<rparr> in
              if GeoPoint_Validate point \<noteq> None then Inl (response_invalid ''provider returned out-of-range WKT geometry'')
              else Inr point))"

fun wkt_loop :: "GeoPoint list \<Rightarrow> string list \<Rightarrow> go_error + GeoPoint list" where
  "wkt_loop geometry [] = Inr geometry"
| "wkt_loop geometry (rawPoint # parts) = (case parse_wkt_point rawPoint of
     Inl e \<Rightarrow> Inl e
   | Inr point \<Rightarrow> wkt_loop (appendDistinct geometry [point]) parts)"

definition parseDGISGeometryPart :: "string \<Rightarrow> int \<Rightarrow> go_error + GeoPoint list" where
  "parseDGISGeometryPart value remainingPoints =
     (let value = trim_space value in
      if length value = 0 \<or> length value > maxDGISWKTBytes \<or> remainingPoints < 2 then
        Inl (response_invalid ''provider returned invalid WKT geometry'')
      else if length value < 10 \<or> \<not> EqualFold (take 10 value) ''LINESTRING'' then
        Inl (response_invalid ''provider returned unsupported WKT geometry'')
      else let coordinates = trim_space (drop 10 value) in
        if length coordinates < 5 \<or> hd coordinates \<noteq> CHR ''('' \<or> last coordinates \<noteq> CHR '')'' then
          Inl (response_invalid ''provider returned malformed WKT geometry'')
        else let parts = Split (CHR '','') (butlast (tl coordinates)) in
          if length parts < 2 \<or> int (length parts) > remainingPoints then
            Inl (response_invalid ''provider WKT geometry exceeds the point limit'')
          else wkt_loop [] parts)"

definition parseDGISLineString :: "string \<Rightarrow> int \<Rightarrow> go_error + GeoPoint list" where
  "parseDGISLineString value remainingPoints = (case parseDGISGeometryPart value remainingPoints of
     Inl e \<Rightarrow> Inl e
   | Inr geometry \<Rightarrow>
       if length geometry < 2 then Inl (response_invalid ''provider returned insufficient WKT geometry'') else Inr geometry)"

section \<open>Classes and shares\<close>

definition nonNegativeFinite :: "f64 \<Rightarrow> bool" where
  "nonNegativeFinite value \<longleftrightarrow> \<not> is_nan value \<and> \<not> is_inf value \<and> 0 \<le> value"

definition rawCollectionNonEmpty :: "string \<Rightarrow> bool" where
  "rawCollectionNonEmpty raw \<longleftrightarrow> trim_space raw \<notin> {[], ''null'', ''[]'', ''{}''}"

definition dgisTrafficDataType :: "ProviderRouteRequest \<Rightarrow> time \<Rightarrow> TrafficDataType" where
  "dgisTrafficDataType request now =
     (if \<not> pr_Traffic request then TrafficDataBaseline
      else if dgisForecastDeparture (pr_DepartureUnix request) now then TrafficDataForecast
      else TrafficDataRealtime)"

definition color_class :: "string \<Rightarrow> CongestionClass" where
  "color_class color =
     (let color = to_lower (trim_space color) in
      if color \<in> {''fast'', ''free''} then CongestionGreen
      else if color = ''normal'' then CongestionYellow
      else if color = ''fluid'' then CongestionOrange
      else if color \<in> {''slow'', ''slow-jams''} then CongestionRed
      else CongestionUnknown)"

definition normalizeDGISTrafficColor :: "bool \<Rightarrow> string \<Rightarrow> CongestionClass \<times> Confidence \<times> string" where
  "normalizeDGISTrafficColor traffic color =
     (if \<not> traffic then
        (CongestionUnknown, \<lparr> Level = ConfidenceLow, Score = flit 0.5, Reasons = [''TRAFFIC_DISABLED_BASELINE''] \<rparr>, ''DGIS_ROUTING_API'')
      else if color_class color = CongestionUnknown then
        (CongestionUnknown, \<lparr> Level = ConfidenceLow, Score = flit 0.25, Reasons = [''PROVIDER_TRAFFIC_CLASS_UNKNOWN''] \<rparr>, SegmentSourceDGISTrafficColor)
      else (color_class color, \<lparr> Level = ConfidenceMedium, Score = flit 0.7, Reasons = [''PROVIDER_TRAFFIC_COLOR_INFERRED''] \<rparr>,
        SegmentSourceDGISTrafficColor))"

fun allocate_loop :: "int64 \<Rightarrow> f64 \<Rightarrow> f64 list \<Rightarrow> int64 list" where
  "allocate_loop remainingTotal remainingWeight [] = []"
| "allocate_loop remainingTotal remainingWeight [weight] = [remainingTotal]"
| "allocate_loop remainingTotal remainingWeight (weight # weights) =
     (let remainingItems = int (length weights);
          share = rounded (of_i64 remainingTotal * weight / remainingWeight);
          share = max 1 (min share (sub64 remainingTotal remainingItems))
      in share # allocate_loop (sub64 remainingTotal share) (remainingWeight - weight) weights)"

definition allocateDGISMeasurements :: "int64 \<Rightarrow> f64 list \<Rightarrow> int64 list option" where
  "allocateDGISMeasurements amount weights =
     (if weights = [] \<or> amount < int (length weights) then None
      else if \<not> list_all finitePositive weights then None
      else Some (allocate_loop amount (foldl (+) 0 weights) weights))"

section \<open>Normalization\<close>

record normalizedDGISPart =
  np_geometry :: "GeoPoint list"
  np_weight :: f64
  np_class :: CongestionClass
  np_confidence :: Confidence
  np_source :: string

text \<open>The variables of the loops of \<open>normalizeDGISRoute\<close>.\<close>

record dgis_scan =
  dn_geometry :: "GeoPoint list"
  dn_parts :: "normalizedDGISPart list"
  dn_totalParts :: nat
  dn_totalPoints :: nat

definition dgis_part :: "libm \<Rightarrow> bool \<Rightarrow> dgis_scan \<Rightarrow> dgisGeometryPart \<Rightarrow> go_error + dgis_scan" where
  "dgis_part lm traffic s part =
     (case parseDGISGeometryPart (dg_Selection part) (int maxProviderPointsPerRoute - int (dn_totalPoints s)) of
        Inl e \<Rightarrow> Inl e
      | Inr partGeometry \<Rightarrow>
          let s = s\<lparr>dn_totalPoints := dn_totalPoints s + length partGeometry\<rparr> in
          if dn_totalPoints s > maxProviderPointsPerRoute then Inl (response_invalid ''provider route geometry exceeds the safety limit'')
          else let s = s\<lparr>dn_geometry := appendDistinct (dn_geometry s) partGeometry\<rparr>;
                   weight = (if finitePositive (dg_Length part) then dg_Length part else PolylineLength lm partGeometry)
            in if Fin maxDGISTotalRouteMeters < weight then Inl (response_invalid ''provider returned an invalid detailed geometry length'')
               else if length partGeometry < 2 \<or> \<not> finitePositive weight then Inr s
               else case normalizeDGISTrafficColor traffic (dg_Color part) of (class, conf, source) \<Rightarrow>
                 Inr (s\<lparr>dn_parts := dn_parts s @ [\<lparr> np_geometry = partGeometry, np_weight = weight, np_class = class,
                   np_confidence = conf, np_source = source \<rparr>]\<rparr>))"

fun dgis_part_loop :: "libm \<Rightarrow> bool \<Rightarrow> dgis_scan \<Rightarrow> dgisGeometryPart list \<Rightarrow> go_error + dgis_scan" where
  "dgis_part_loop lm traffic s [] = Inr s"
| "dgis_part_loop lm traffic s (part # parts) = (case dgis_part lm traffic s part of
     Inl e \<Rightarrow> Inl e | Inr s \<Rightarrow> dgis_part_loop lm traffic s parts)"

fun dgis_maneuver_loop :: "libm \<Rightarrow> bool \<Rightarrow> dgis_scan \<Rightarrow> dgisManeuver list \<Rightarrow> go_error + dgis_scan" where
  "dgis_maneuver_loop lm traffic s [] = Inr s"
| "dgis_maneuver_loop lm traffic s (maneuver # maneuvers) = (case dm_OutcomingPath maneuver of
     None \<Rightarrow> dgis_maneuver_loop lm traffic s maneuvers
   | Some path \<Rightarrow>
       if \<not> nonNegativeFinite (dh_Distance path) \<or> \<not> nonNegativeFinite (dh_Duration path) then
         Inl (response_invalid ''provider returned invalid maneuver measurements'')
       else let s = s\<lparr>dn_totalParts := dn_totalParts s + length (dh_Geometry path)\<rparr> in
         if dn_totalParts s > maxDGISGeometryParts then Inl (response_invalid ''provider returned too many geometry parts'')
         else (case dgis_part_loop lm traffic s (dh_Geometry path) of
             Inl e \<Rightarrow> Inl e | Inr s \<Rightarrow> dgis_maneuver_loop lm traffic s maneuvers))"

definition dgis_segment_id :: "nat \<Rightarrow> nat \<Rightarrow> string" where
  "dgis_segment_id routeIndex index = ''2gis-'' @ show_nat (routeIndex + 1) @ ''-'' @ show_nat (index + 1)"

definition dgis_segment :: "TrafficDataType \<Rightarrow> nat \<Rightarrow> int64 list \<Rightarrow> int64 list \<Rightarrow> nat \<Rightarrow> normalizedDGISPart \<Rightarrow> RouteSegment" where
  "dgis_segment dataType routeIndex distances durations index part = \<lparr>
     seg_SegmentID = dgis_segment_id routeIndex index, seg_Geometry = np_geometry part, seg_DistanceMeters = distances ! index,
     seg_LiveDurationSeconds = (if dataType = TrafficDataBaseline then 0 else durations ! index),
     seg_BaselineDurationSeconds = (if dataType = TrafficDataBaseline then durations ! index else 0),
     seg_TrafficRatio = 0, seg_CongestionClass = np_class part, seg_Confidence = np_confidence part, seg_GeometrySimilarity = 1,
     seg_Source = np_source part \<rparr>"

text \<open>The explanation in Russian, as UTF-8 bytes.\<close>

definition dgis_explanation :: string where
  "dgis_explanation = unhex (
     ''d09ed184d0b8d186d0b8d0b0d0bbd18cd0bdd18bd0b920d0bcd0b0d180d188d180d183d1822032d093d098d0a120d180d0b0d0b7d0bed0b1d180d0b0'' @
     ''d0bd20d0bdd0b020d186d0b2d0b5d182d0bed0b2d18bd0b520d183d187d0b0d181d182d0bad0b820d0bed182d0b2d0b5d182d0b020526f7574696e67'' @
     ''204150493b20d186d0b2d0b5d18220e2809420d0bdd0b0d188d0b020d0bed186d0b5d0bdd0bad0b020d0bdd0b020d0bcd0bed0bcd0b5d0bdd18220d0'' @
     ''b7d0b0d0bfd180d0bed181d0b02e'')"

definition dgis_candidate ::
    "(string \<Rightarrow> 8 word list) \<Rightarrow> ProviderRouteRequest \<Rightarrow> time \<Rightarrow> nat \<Rightarrow> dgisRoute \<Rightarrow> GeoPoint list \<Rightarrow> int64 \<Rightarrow> int64 \<Rightarrow> RouteSegment list \<Rightarrow> RouteCandidate" where
  "dgis_candidate sha256 request now routeIndex route geometry distanceMeters durationSeconds segments =
     (let dataType = dgisTrafficDataType request now in
      \<lparr> rc_CandidateID = candidateID sha256 ''2gis'' (int routeIndex) geometry distanceMeters durationSeconds, rc_Provider = ''2gis'',
        rc_ProviderRouteReference = trim_space (dr_RouteID route), rc_TrafficDataType = dataType, rc_Geometry = geometry,
        rc_DistanceMeters = distanceMeters,
        rc_LiveDurationSeconds = (if dataType = TrafficDataBaseline then 0 else durationSeconds),
        rc_BaselineDurationSeconds = (if dataType = TrafficDataBaseline then durationSeconds else 0),
        rc_TrafficDelaySeconds = 0, rc_Segments = segments, rc_Blocked = False, rc_Tolls = rawCollectionNonEmpty (dr_TotalPayments route),
        rc_Unpaved = False,
        rc_Confidence = (if dataType \<in> {TrafficDataRealtime, TrafficDataForecast}
          then \<lparr> Level = ConfidenceMedium, Score = flit 0.65, Reasons = [''OFFICIAL_PROVIDER_ROUTE'', ''PROVIDER_TRAFFIC_COLOR_INFERRED''] \<rparr>
          else if dataType = TrafficDataBaseline then \<lparr> Level = ConfidenceLow, Score = flit 0.5, Reasons = [''TRAFFIC_DISABLED_BASELINE''] \<rparr>
          else \<lparr> Level = ConfidenceLow, Score = flit 0.5, Reasons = [''TRAFFIC_SEMANTICS_UNAVAILABLE''] \<rparr>),
        rc_Score = 0,
        rc_ReasonCodes = [''PROVIDER_ROUTE_DETAILS''] @ (if pr_Traffic request then [''DGIS_TRAFFIC_COLOR_SEGMENTS''] else [])
          @ [case dataType of TrafficDataRealtime \<Rightarrow> ''DGIS_TRAFFIC_REALTIME'' | TrafficDataForecast \<Rightarrow> ''DGIS_TRAFFIC_FORECAST''
             | TrafficDataBaseline \<Rightarrow> ''TRAFFIC_DISABLED_SHORTEST_BASELINE'' | _ \<Rightarrow> ''DGIS_TRAFFIC_TYPE_UNKNOWN''],
        rc_Explanation = dgis_explanation, rc_GeneratedBy = ''INITIAL_PROVIDER'', rc_ProviderRequestCount = 0, rc_Metrics = zero_metrics \<rparr>)"

definition reliability_invalid :: "f64 option \<Rightarrow> bool" where
  "reliability_invalid r = (case r of None \<Rightarrow> False | Some v \<Rightarrow> is_nan v \<or> is_inf v \<or> v < 0 \<or> 1 < v)"

text \<open>The part after the loops: consistency, shares and the candidate.\<close>

definition dgis_assemble ::
    "libm \<Rightarrow> (string \<Rightarrow> 8 word list) \<Rightarrow> ProviderRouteRequest \<Rightarrow> time \<Rightarrow> nat \<Rightarrow> dgisRoute \<Rightarrow> dgis_scan \<Rightarrow> go_error + RouteCandidate" where
  "dgis_assemble lm sha256 request now routeIndex route s =
     (let distanceMeters = rounded (dr_TotalDistance route); durationSeconds = rounded (dr_TotalDuration route);
          weights = map np_weight (dn_parts s)
      in if length (dn_geometry s) < 2 \<or> dn_parts s = [] then Inl (response_invalid ''provider returned incomplete route geometry'')
         else if dr_TotalDistance route * flit 2 + flit 5000 < PolylineLength lm (dn_geometry s) then
           Inl (response_invalid ''provider geometry is inconsistent with route length'')
         else case allocateDGISMeasurements distanceMeters weights of
           None \<Rightarrow> Inl (response_invalid ''provider route distance cannot cover detailed geometry parts'')
         | Some distances \<Rightarrow> (case allocateDGISMeasurements durationSeconds weights of
             None \<Rightarrow> Inl (response_invalid ''provider route duration cannot cover detailed geometry parts'')
           | Some durations \<Rightarrow>
               Inr (dgis_candidate sha256 request now routeIndex route (dn_geometry s) distanceMeters durationSeconds
                 (map (\<lambda>(index, part). dgis_segment (dgisTrafficDataType request now) routeIndex distances durations index part)
                   (enumerate 0 (dn_parts s))))))"

definition normalizeDGISRoute ::
    "libm \<Rightarrow> (string \<Rightarrow> 8 word list) \<Rightarrow> ProviderRouteRequest \<Rightarrow> time \<Rightarrow> nat \<Rightarrow> dgisRoute \<Rightarrow> go_error + RouteCandidate" where
  "normalizeDGISRoute lm sha256 request now routeIndex route =
     (if \<not> finitePositive (dr_TotalDistance route) \<or> Fin maxDGISTotalRouteMeters < dr_TotalDistance route
        \<or> \<not> finitePositive (dr_TotalDuration route) \<or> Fin maxDGISTotalDuration < dr_TotalDuration route then
        Inl (response_invalid ''provider returned invalid route measurements'')
      else if reliability_invalid (dr_Reliability route) then Inl (response_invalid ''provider returned invalid route reliability'')
      else if dr_Maneuvers route = [] \<or> length (dr_Maneuvers route) > maxDGISManeuvers then
        Inl (response_invalid ''provider returned an invalid maneuver count'')
      else if length (dr_RouteID route) > 128 then Inl (response_invalid ''provider route reference exceeds the safety limit'')
      else if rounded (dr_TotalDistance route) \<le> 0 \<or> rounded (dr_TotalDuration route) \<le> 0 then
        Inl (response_invalid ''provider returned sub-unit route measurements'')
      else case dgis_maneuver_loop lm (pr_Traffic request) \<lparr> dn_geometry = [], dn_parts = [], dn_totalParts = 0, dn_totalPoints = 0 \<rparr>
          (dr_Maneuvers route) of
        Inl e \<Rightarrow> Inl e
      | Inr s \<Rightarrow> dgis_assemble lm sha256 request now routeIndex route s)"

definition dgis_warnings :: "bool \<Rightarrow> string list" where
  "dgis_warnings traffic =
     [''Estimated billable units: 1 for one point set; the active 2GIS subscription and Platform Manager statistics are authoritative.'']
     @ (if traffic then [] else
        [''Traffic-disabled comparison uses the documented shortest-distance mode and may have geometry different from the fastest route.''])"

text \<open>\<open>nows\<close> are the readings of the clock, one for each route.\<close>

definition normalizeDGISRoutes ::
    "libm \<Rightarrow> (string \<Rightarrow> 8 word list) \<Rightarrow> ProviderRouteRequest \<Rightarrow> (nat \<Rightarrow> time) \<Rightarrow> dgisRouteResponse \<Rightarrow> go_error + ProviderRouteResponse" where
  "normalizeDGISRoutes lm sha256 request nows response =
     (if dw_Status response \<noteq> ''OK'' \<or> dw_Type response \<noteq> ''result'' then
        if dw_Status response \<in> {''ROUTE_NOT_FOUND'', ''ROUTE_DOES_NOT_EXISTS'', ''POINT_EXCLUDED'', ''ATTRACT_FAIL''} then
          Inl (no_route ''provider could not build a route'')
        else if dw_Status response = ''FAIL'' then Inl (serviceError ''PROVIDER_UNAVAILABLE'' ''provider failed to build a route'' 502 True None)
        else Inl (response_invalid ''provider returned an invalid result status'')
      else if dw_Result response = [] then Inl (no_route ''provider returned no route'')
      else if int (length (dw_Result response)) > min (1 + pr_Alternatives request) maxProviderRoutes then
        Inl (response_invalid ''provider returned too many routes'')
      else case map_result (\<lambda>i. normalizeDGISRoute lm sha256 request (nows i) i) 0 (dw_Result response) of
        Inl e \<Rightarrow> Inl e
      | Inr candidates \<Rightarrow> Inr \<lparr> ps_Candidates = candidates, ps_RequestsUsed = 0, ps_EstimatedBillableUnits = 0, ps_BudgetRemaining = 0,
          ps_Warnings = dgis_warnings (pr_Traffic request), ps_Degraded = False \<rparr>)"

text \<open>What \<open>Routes\<close> adds to a successful response.\<close>

definition dgis_success :: "requestBudget \<Rightarrow> ProviderRouteResponse \<Rightarrow> ProviderRouteResponse" where
  "dgis_success budget response = response\<lparr>ps_RequestsUsed := rb_used budget, ps_BudgetRemaining := rb_remaining budget,
     ps_EstimatedBillableUnits := 1,
     ps_Candidates := map (rc_ProviderRequestCount_update (\<lambda>_. rb_used budget)) (ps_Candidates response)\<rparr>"

section \<open>Shares conserve the whole\<close>

lemma allocate_loop_ok:
  "in64 t \<Longrightarrow> int (length ws) \<le> t \<Longrightarrow> ws \<noteq> [] \<Longrightarrow>
     length (allocate_loop t w ws) = length ws \<and> sum_list (allocate_loop t w ws) = t \<and> list_all (\<lambda>x. 1 \<le> x) (allocate_loop t w ws)"
proof (induction t w ws rule: allocate_loop.induct)
  case (3 t rw w v ws)
  define share where "share = max 1 (min (rounded (of_i64 t * w / rw)) (sub64 t (int (length (v # ws)))))"
  have items: "sub64 t (int (length (v # ws))) = t - int (length (v # ws))"
    using "3.prems" by (intro sub64_nonneg) (auto simp: in64_def)
  have share: "1 \<le> share" "share \<le> t - int (length (v # ws))" using "3.prems"(2) unfolding share_def items by auto
  then have left: "sub64 t share = t - share" "in64 (t - share)"
    using "3.prems" by (auto intro!: sub64_nonneg simp: in64_def)
  have step: "allocate_loop t rw (w # v # ws) = share # allocate_loop (t - share) (rw - w) (v # ws)"
    unfolding allocate_loop.simps Let_def share_def [symmetric] left(1) ..
  have ih: "length (allocate_loop (t - share) (rw - w) (v # ws)) = length (v # ws) \<and> sum_list (allocate_loop (t - share) (rw - w) (v # ws)) = t - share
      \<and> list_all (\<lambda>x. 1 \<le> x) (allocate_loop (t - share) (rw - w) (v # ws))"
    using "3.IH" [OF refl refl refl] share left unfolding share_def [symmetric] by simp
  show ?case unfolding step using ih share(1) by simp
qed simp_all

lemma allocate_ok:
  assumes "allocateDGISMeasurements amount weights = Some xs" "in64 amount"
  shows "length xs = length weights \<and> sum_list xs = amount \<and> list_all (\<lambda>x. 1 \<le> x) xs"
  using assms allocate_loop_ok [of amount weights] by (auto simp: allocateDGISMeasurements_def split: if_splits)

text \<open>The sharing of a route's distance or time among its parts succeeds exactly when there is a part, every weight is a positive finite
  number and the amount reaches the number of parts; then every part gets at least one unit and the shares add up to the amount, whatever
  the rounding of the floating-point weights.\<close>

theorem dgis_shares_conserve:
  assumes "in64 amount"
  shows "case allocateDGISMeasurements amount weights of
      None \<Rightarrow> weights = [] \<or> amount < int (length weights) \<or> \<not> list_all finitePositive weights
    | Some shares \<Rightarrow> weights \<noteq> [] \<and> list_all finitePositive weights \<and> length shares = length weights
        \<and> sum_list shares = amount \<and> list_all (\<lambda>x. 1 \<le> x) shares"
  using allocate_ok [OF _ assms, of weights]
  by (auto simp: allocateDGISMeasurements_def split: option.splits if_splits)

theorem dgis_shares_conserve_witness:
  "case allocateDGISMeasurements 7 [Fin 2, Fin 1, Fin 4] of None \<Rightarrow> False | Some shares \<Rightarrow> sum_list shares = 7 \<and> list_all (\<lambda>x. 1 \<le> x) shares"
proof -
  have "list_all finitePositive [Fin 2, Fin 1, Fin 4]" by (simp add: finitePositive_Fin)
  then show ?thesis using dgis_shares_conserve [of 7 "[Fin 2, Fin 1, Fin 4]"] by (auto simp: in64_def split: option.splits)
qed

section \<open>What normalization establishes\<close>

lemma parse_wkt_point_ok: "parse_wkt_point raw = Inr p \<Longrightarrow> point_ok p"
  by (auto simp: parse_wkt_point_def Let_def GeoPoint_Validate_None split: if_splits option.splits)

lemma wkt_loop_ok: "wkt_loop g parts = Inr h \<Longrightarrow> list_all point_ok g \<Longrightarrow> list_all point_ok h \<and> length h \<le> length g + length parts"
proof (induction g parts arbitrary: h rule: wkt_loop.induct)
  case (2 g raw parts)
  then obtain p where p: "parse_wkt_point raw = Inr p" "wkt_loop (appendDistinct g [p]) parts = Inr h" by (auto split: sum.splits)
  have "list_all point_ok (appendDistinct g [p])" using parse_wkt_point_ok [OF p(1)] "2.prems"(2) by (intro appendDistinct_points) auto
  then show ?case using "2.IH" [OF p] length_appendDistinct [of g "[p]"] by fastforce
qed simp

lemma parseDGISGeometryPart_ok:
  "parseDGISGeometryPart v n = Inr g \<Longrightarrow> list_all point_ok g \<and> int (length g) \<le> n"
  using wkt_loop_ok [of "[]"] by (fastforce simp: parseDGISGeometryPart_def Let_def split: if_splits)

definition part_ok :: "normalizedDGISPart \<Rightarrow> bool" where
  "part_ok p \<longleftrightarrow> list_all point_ok (np_geometry p) \<and> 2 \<le> length (np_geometry p) \<and> length (np_geometry p) \<le> 4096
     \<and> finitePositive (np_weight p) \<and> frange 0 1 (Score (np_confidence p))"

definition dscan_ok :: "dgis_scan \<Rightarrow> bool" where
  "dscan_ok s \<longleftrightarrow> list_all point_ok (dn_geometry s) \<and> length (dn_geometry s) \<le> dn_totalPoints s \<and> dn_totalPoints s \<le> 4096
     \<and> list_all part_ok (dn_parts s) \<and> sum_list (map (length \<circ> np_geometry) (dn_parts s)) \<le> dn_totalPoints s"

lemma color_score: "normalizeDGISTrafficColor traffic color = (class, conf, source) \<Longrightarrow> frange 0 1 (Score conf)"
  by (auto simp: normalizeDGISTrafficColor_def score_literals split: if_splits)

lemma dgis_part_ok:
  assumes "dgis_part lm traffic s part = Inr s'" "dscan_ok s"
  shows "dscan_ok s'"
proof -
  obtain g where g: "parseDGISGeometryPart (dg_Selection part) (4096 - int (dn_totalPoints s)) = Inr g"
    using assms(1) by (auto simp: dgis_part_def adapter_limits split: sum.splits)
  note p = parseDGISGeometryPart_ok [OF g]
  have len: "length (appendDistinct (dn_geometry s) g) \<le> dn_totalPoints s + length g"
    using length_appendDistinct [of "dn_geometry s" g] assms(2) by (simp add: dscan_ok_def)
  show ?thesis using assms(1) assms(2) g p len
    by (auto simp: dgis_part_def adapter_limits Let_def dscan_ok_def part_ok_def appendDistinct_points color_score split: if_splits prod.splits)
qed

lemma dgis_part_loop_ok: "dgis_part_loop lm traffic s parts = Inr s' \<Longrightarrow> dscan_ok s \<Longrightarrow> dscan_ok s'"
  by (induction lm traffic s parts rule: dgis_part_loop.induct) (auto split: sum.splits dest: dgis_part_ok)

lemma dgis_maneuver_loop_ok: "dgis_maneuver_loop lm traffic s ms = Inr s' \<Longrightarrow> dscan_ok s \<Longrightarrow> dscan_ok s'"
proof (induction lm traffic s ms rule: dgis_maneuver_loop.induct)
  case (2 lm traffic s m ms)
  show ?case
  proof (cases "dm_OutcomingPath m")
    case (Some path)
    define t where "t = s\<lparr>dn_totalParts := dn_totalParts s + length (dh_Geometry path)\<rparr>"
    obtain u where u: "dgis_part_loop lm traffic t (dh_Geometry path) = Inr u" "dgis_maneuver_loop lm traffic u ms = Inr s'"
      using "2.prems"(1) Some by (auto simp: t_def Let_def split: if_splits sum.splits)
    have "dscan_ok t" using "2.prems"(2) by (simp add: t_def dscan_ok_def)
    then have "dscan_ok u" using dgis_part_loop_ok [OF u(1)] by blast
    then show ?thesis using "2.IH"(2) [OF Some _ refl _ _ ] u 2 Some by (auto simp: t_def Let_def split: if_splits sum.splits)
  qed (use 2 in simp)
qed simp

lemma dgis_segment_ids:
  assumes "r < 1000" "n \<le> 2048"
  shows "distinct (map (dgis_segment_id r) [0..<n]) \<and> list_all (\<lambda>i. trim_space i \<noteq> [] \<and> length i \<le> 256) (map (dgis_segment_id r) [0..<n])"
proof -
  have "inj (dgis_segment_id r)" by (auto simp: inj_on_def dgis_segment_id_def dest!: show_nat_inj)
  then have "distinct (map (dgis_segment_id r) [0..<n])" by (auto simp: distinct_map intro: inj_on_subset)
  moreover have "trim_space (dgis_segment_id r k) \<noteq> [] \<and> length (dgis_segment_id r k) \<le> 256" if "k < n" for k
    using that assms show_nat_length [of "r + 1" 4] show_nat_length [of "k + 1" 4] by (simp add: dgis_segment_id_def trim_space_Cons is_space_def)
  ultimately show ?thesis by (simp add: list_all_iff)
qed

lemma rounded_in64: "in64 (rounded x)"
  by (auto simp: rounded_def to_i64_def in64_def split: f64.split)

lemma parts_few:
  assumes "dscan_ok s"
  shows "length (dn_parts s) \<le> 2048"
proof -
  have "2 * length ps \<le> sum_list (map (length \<circ> np_geometry) ps)" if "list_all part_ok ps" for ps
    using that by (induction ps) (auto simp: part_ok_def)
  then show ?thesis using assms unfolding dscan_ok_def by fastforce
qed

text \<open>The segments of an assembled candidate.\<close>

definition dgis_segments :: "TrafficDataType \<Rightarrow> nat \<Rightarrow> int64 list \<Rightarrow> int64 list \<Rightarrow> normalizedDGISPart list \<Rightarrow> RouteSegment list" where
  "dgis_segments dataType r ds du parts = map (\<lambda>(index, part). dgis_segment dataType r ds du index part) (enumerate 0 parts)"

lemma dgis_segments_maps:
  assumes "length ds = length parts" "length du = length parts"
  shows "length (dgis_segments dt r ds du parts) = length parts"
    "map seg_SegmentID (dgis_segments dt r ds du parts) = map (dgis_segment_id r) [0..<length parts]"
    "map seg_DistanceMeters (dgis_segments dt r ds du parts) = ds"
    "map seg_LiveDurationSeconds (dgis_segments dt r ds du parts) = (if dt = TrafficDataBaseline then replicate (length parts) 0 else du)"
    "map seg_BaselineDurationSeconds (dgis_segments dt r ds du parts) = (if dt = TrafficDataBaseline then du else replicate (length parts) 0)"
    "map (length \<circ> seg_Geometry) (dgis_segments dt r ds du parts) = map (length \<circ> np_geometry) parts"
  using assms by (auto intro!: nth_equalityI simp: dgis_segments_def dgis_segment_def nth_enumerate_eq)

lemma dgis_segments_ok:
  assumes "list_all part_ok parts" "length ds = length parts" "length du = length parts" "list_all (\<lambda>x. 1 \<le> x) ds" "list_all (\<lambda>x. 1 \<le> x) du"
    "r < 1000" "length parts \<le> 2048"
  shows "list_all provider_segment_ok (dgis_segments dt r ds du parts)"
proof -
  note ids = dgis_segment_ids [OF assms(6,7)]
  have "provider_segment_ok (dgis_segment dt r ds du k (parts ! k))" if k: "k < length parts" for k
  proof -
    have "part_ok (parts ! k)" "1 \<le> ds ! k" "1 \<le> du ! k" using assms(1-5) k by (auto simp: list_all_length)
    moreover have "trim_space (dgis_segment_id r k) \<noteq> []" "length (dgis_segment_id r k) \<le> 256" using ids k by (auto simp: list_all_iff)
    ultimately show ?thesis by (auto simp: provider_segment_ok_def dgis_segment_def part_ok_def zero_f64_def one_f64_def)
  qed
  then show ?thesis by (auto simp: dgis_segments_def list_all_length nth_enumerate_eq)
qed

lemma normalizeDGISRoute_form:
  assumes "normalizeDGISRoute lm sha256 request now r route = Inr c"
  obtains s ds du where "dscan_ok s" "2 \<le> length (dn_geometry s)" "dn_parts s \<noteq> []" "length (dr_RouteID route) \<le> 128"
    "0 < rounded (dr_TotalDistance route)" "0 < rounded (dr_TotalDuration route)"
    "length ds = length (dn_parts s)" "sum_list ds = rounded (dr_TotalDistance route)" "list_all (\<lambda>x. 1 \<le> x) ds"
    "length du = length (dn_parts s)" "sum_list du = rounded (dr_TotalDuration route)" "list_all (\<lambda>x. 1 \<le> x) du"
    "c = dgis_candidate sha256 request now r route (dn_geometry s) (rounded (dr_TotalDistance route)) (rounded (dr_TotalDuration route))
       (dgis_segments (dgisTrafficDataType request now) r ds du (dn_parts s))"
proof -
  obtain s where s: "dgis_maneuver_loop lm (pr_Traffic request) \<lparr> dn_geometry = [], dn_parts = [], dn_totalParts = 0, dn_totalPoints = 0 \<rparr>
      (dr_Maneuvers route) = Inr s" "dgis_assemble lm sha256 request now r route s = Inr c" "length (dr_RouteID route) \<le> 128"
      "0 < rounded (dr_TotalDistance route)" "0 < rounded (dr_TotalDuration route)"
    using assms by (auto simp: normalizeDGISRoute_def split: if_splits sum.splits)
  have ok: "dscan_ok s" by (rule dgis_maneuver_loop_ok [OF s(1)]) (simp add: dscan_ok_def)
  obtain ds du where a: "allocateDGISMeasurements (rounded (dr_TotalDistance route)) (map np_weight (dn_parts s)) = Some ds"
      "allocateDGISMeasurements (rounded (dr_TotalDuration route)) (map np_weight (dn_parts s)) = Some du"
      "2 \<le> length (dn_geometry s)" "dn_parts s \<noteq> []"
      "c = dgis_candidate sha256 request now r route (dn_geometry s) (rounded (dr_TotalDistance route)) (rounded (dr_TotalDuration route))
       (dgis_segments (dgisTrafficDataType request now) r ds du (dn_parts s))"
    using s(2) by (auto simp: dgis_assemble_def dgis_segments_def Let_def split: if_splits option.splits)
  show ?thesis using that [OF ok a(3,4) s(3-5) _ _ _ _ _ _ a(5)] allocate_ok [OF a(1) rounded_in64] allocate_ok [OF a(2) rounded_in64] by simp
qed

subsection \<open>Segments and parts\<close>

text \<open>The geometry parts of a route in their order, and the geometry and color of a part that can be measured.\<close>

definition route_parts :: "dgisRoute \<Rightarrow> dgisGeometryPart list" where
  "route_parts route = concat (map (\<lambda>m. case dm_OutcomingPath m of None \<Rightarrow> [] | Some path \<Rightarrow> dh_Geometry path) (dr_Maneuvers route))"

definition measured :: "libm \<Rightarrow> dgisGeometryPart \<Rightarrow> (GeoPoint list \<times> string) option" where
  "measured lm part = (case parseDGISGeometryPart (dg_Selection part) 4096 of
     Inl e \<Rightarrow> None
   | Inr g \<Rightarrow>
       if 2 \<le> length g \<and> finitePositive (if finitePositive (dg_Length part) then dg_Length part else PolylineLength lm g) then Some (g, dg_Color part)
       else None)"

definition shown_parts :: "libm \<Rightarrow> bool \<Rightarrow> dgisGeometryPart list \<Rightarrow> (GeoPoint list \<times> CongestionClass) list" where
  "shown_parts lm traffic parts = map (\<lambda>(g, color). (g, fst (normalizeDGISTrafficColor traffic color))) (List.map_filter (measured lm) parts)"

definition scanned :: "dgis_scan \<Rightarrow> (GeoPoint list \<times> CongestionClass) list" where
  "scanned s = map (\<lambda>p. (np_geometry p, np_class p)) (dn_parts s)"

lemma shown_append: "shown_parts lm traffic (xs @ ys) = shown_parts lm traffic xs @ shown_parts lm traffic ys"
  by (simp add: shown_parts_def map_filter_def)

lemma parse_more_points: "parseDGISGeometryPart value n = Inr g \<Longrightarrow> n \<le> m \<Longrightarrow> parseDGISGeometryPart value m = Inr g"
  by (auto simp: parseDGISGeometryPart_def Let_def split: if_splits)

lemma dgis_part_scans:
  assumes "dgis_part lm traffic s part = Inr s'"
  shows "scanned s' = scanned s @ shown_parts lm traffic [part]"
proof -
  obtain g where g: "parseDGISGeometryPart (dg_Selection part) (4096 - int (dn_totalPoints s)) = Inr g"
    using assms by (auto simp: dgis_part_def adapter_limits split: sum.splits)
  have "parseDGISGeometryPart (dg_Selection part) 4096 = Inr g" by (rule parse_more_points [OF g]) simp
  then show ?thesis using assms g
    by (auto simp: dgis_part_def adapter_limits Let_def scanned_def shown_parts_def measured_def map_filter_simps not_le split: if_splits prod.splits)
qed

lemma dgis_part_loop_scans: "dgis_part_loop lm traffic s parts = Inr s' \<Longrightarrow> scanned s' = scanned s @ shown_parts lm traffic parts"
proof (induction parts arbitrary: s)
  case (Cons part parts)
  then obtain t where t: "dgis_part lm traffic s part = Inr t" "dgis_part_loop lm traffic t parts = Inr s'" by (auto split: sum.splits)
  show ?case using Cons.IH [OF t(2)] dgis_part_scans [OF t(1)] shown_append [of lm traffic "[part]" parts] by simp
qed (simp add: shown_parts_def map_filter_simps)

lemma dgis_maneuver_loop_scans:
  "dgis_maneuver_loop lm traffic s ms = Inr s' \<Longrightarrow>
    scanned s' = scanned s @ shown_parts lm traffic (concat (map (\<lambda>m. case dm_OutcomingPath m of None \<Rightarrow> [] | Some path \<Rightarrow> dh_Geometry path) ms))"
proof (induction ms arbitrary: s)
  case (Cons m ms)
  show ?case
  proof (cases "dm_OutcomingPath m")
    case (Some path)
    then obtain u where u: "dgis_part_loop lm traffic (s\<lparr>dn_totalParts := dn_totalParts s + length (dh_Geometry path)\<rparr>) (dh_Geometry path) = Inr u"
        "dgis_maneuver_loop lm traffic u ms = Inr s'"
      using Cons.prems by (auto simp: Let_def split: if_splits sum.splits)
    show ?thesis using Cons.IH [OF u(2)] dgis_part_loop_scans [OF u(1)] by (simp add: Some shown_append scanned_def)
  qed (use Cons in simp)
qed (simp add: shown_parts_def map_filter_simps)

lemma segments_show:
  "map (\<lambda>seg. (seg_Geometry seg, seg_CongestionClass seg)) (dgis_segments dt r ds du parts) = map (\<lambda>p. (np_geometry p, np_class p)) parts"
  by (auto intro!: nth_equalityI simp: dgis_segments_def dgis_segment_def nth_enumerate_eq)

lemma normalizeDGISRoute_shows:
  assumes "normalizeDGISRoute lm sha256 request now r route = Inr c"
  shows "map (\<lambda>seg. (seg_Geometry seg, seg_CongestionClass seg)) (rc_Segments c) = shown_parts lm (pr_Traffic request) (route_parts route)"
proof -
  obtain s where s: "dgis_maneuver_loop lm (pr_Traffic request) \<lparr> dn_geometry = [], dn_parts = [], dn_totalParts = 0, dn_totalPoints = 0 \<rparr>
      (dr_Maneuvers route) = Inr s" "dgis_assemble lm sha256 request now r route s = Inr c"
    using assms by (auto simp: normalizeDGISRoute_def split: if_splits sum.splits)
  obtain ds du meters seconds where "c = dgis_candidate sha256 request now r route (dn_geometry s) meters seconds
      (dgis_segments (dgisTrafficDataType request now) r ds du (dn_parts s))"
    using s(2) by (auto simp: dgis_assemble_def dgis_segments_def Let_def split: if_splits option.splits)
  then have "rc_Segments c = dgis_segments (dgisTrafficDataType request now) r ds du (dn_parts s)" by (simp add: dgis_candidate_def Let_def)
  then show ?thesis using dgis_maneuver_loop_scans [OF s(1)] by (simp add: segments_show route_parts_def scanned_def)
qed

text \<open>C22: The segments of a normalized 2GIS route account for the whole route. They are its geometry parts that can be measured, in order and with their geometry, and
  with traffic each has the class of the part's color (fast and free are green, normal is yellow, fluid is orange, slow and slow-jams are red, anything else
  is unknown), without traffic none has a class. The distances of the segments add up to the provider's total distance and their durations to its
  total duration, both rounded, which are the distance and the duration of the route: the live one with traffic, the baseline one without. Every segment
  has at least one metre and one second, and there are between one and 2048 of them.\<close>

theorem dgis_route_accounts_for_all:
  assumes "normalizeDGISRoute lm sha256 request now r route = Inr c"
  shows "map (\<lambda>seg. (seg_Geometry seg, seg_CongestionClass seg)) (rc_Segments c) =
      map (\<lambda>(g, color). (g, let color = to_lower (trim_space color) in
          if \<not> pr_Traffic request then CongestionUnknown else if color \<in> {''fast'', ''free''} then CongestionGreen
          else if color = ''normal'' then CongestionYellow else if color = ''fluid'' then CongestionOrange
          else if color \<in> {''slow'', ''slow-jams''} then CongestionRed else CongestionUnknown))
        (List.map_filter (measured lm) (route_parts route))
    \<and> rc_DistanceMeters c = rounded (dr_TotalDistance route)
    \<and> sum_list (map seg_DistanceMeters (rc_Segments c)) = rounded (dr_TotalDistance route)
    \<and> rc_LiveDurationSeconds c = (if pr_Traffic request then rounded (dr_TotalDuration route) else 0)
    \<and> sum_list (map seg_LiveDurationSeconds (rc_Segments c)) = (if pr_Traffic request then rounded (dr_TotalDuration route) else 0)
    \<and> rc_BaselineDurationSeconds c = (if pr_Traffic request then 0 else rounded (dr_TotalDuration route))
    \<and> sum_list (map seg_BaselineDurationSeconds (rc_Segments c)) = (if pr_Traffic request then 0 else rounded (dr_TotalDuration route))
    \<and> list_all (\<lambda>seg. 1 \<le> seg_DistanceMeters seg \<and> 1 \<le> seg_LiveDurationSeconds seg + seg_BaselineDurationSeconds seg) (rc_Segments c)
    \<and> rc_Segments c \<noteq> [] \<and> length (rc_Segments c) \<le> 2048"
proof -
  obtain s ds du where f: "dscan_ok s" "dn_parts s \<noteq> []"
    "length ds = length (dn_parts s)" "sum_list ds = rounded (dr_TotalDistance route)" "list_all (\<lambda>x. 1 \<le> x) ds"
    "length du = length (dn_parts s)" "sum_list du = rounded (dr_TotalDuration route)" "list_all (\<lambda>x. 1 \<le> x) du"
    and c: "c = dgis_candidate sha256 request now r route (dn_geometry s) (rounded (dr_TotalDistance route)) (rounded (dr_TotalDuration route))
       (dgis_segments (dgisTrafficDataType request now) r ds du (dn_parts s))"
    using normalizeDGISRoute_form [OF assms] by metis
  let ?dt = "dgisTrafficDataType request now"
  have dt: "?dt = TrafficDataBaseline \<longleftrightarrow> \<not> pr_Traffic request" by (simp add: dgisTrafficDataType_def)
  note m = dgis_segments_maps [OF f(3,6), of ?dt r]
  have "1 \<le> seg_DistanceMeters seg \<and> 1 \<le> seg_LiveDurationSeconds seg + seg_BaselineDurationSeconds seg"
    if "seg \<in> set (dgis_segments ?dt r ds du (dn_parts s))" for seg
    using that f(3,5,6,8) by (auto simp: dgis_segments_def dgis_segment_def list_all_length in_set_enumerate_eq)
  then have sums: "rc_DistanceMeters c = rounded (dr_TotalDistance route)
    \<and> sum_list (map seg_DistanceMeters (rc_Segments c)) = rounded (dr_TotalDistance route)
    \<and> rc_LiveDurationSeconds c = (if pr_Traffic request then rounded (dr_TotalDuration route) else 0)
    \<and> sum_list (map seg_LiveDurationSeconds (rc_Segments c)) = (if pr_Traffic request then rounded (dr_TotalDuration route) else 0)
    \<and> rc_BaselineDurationSeconds c = (if pr_Traffic request then 0 else rounded (dr_TotalDuration route))
    \<and> sum_list (map seg_BaselineDurationSeconds (rc_Segments c)) = (if pr_Traffic request then 0 else rounded (dr_TotalDuration route))
    \<and> list_all (\<lambda>seg. 1 \<le> seg_DistanceMeters seg \<and> 1 \<le> seg_LiveDurationSeconds seg + seg_BaselineDurationSeconds seg) (rc_Segments c)
    \<and> rc_Segments c \<noteq> [] \<and> length (rc_Segments c) \<le> 2048"
    unfolding c dgis_candidate_def Let_def using m f parts_few [OF f(1)] dt by (auto simp: list_all_iff sum_list_replicate)
  have coloring: "fst (normalizeDGISTrafficColor (pr_Traffic request) color) = (let color = to_lower (trim_space color) in
      if \<not> pr_Traffic request then CongestionUnknown else if color \<in> {''fast'', ''free''} then CongestionGreen
      else if color = ''normal'' then CongestionYellow else if color = ''fluid'' then CongestionOrange
      else if color \<in> {''slow'', ''slow-jams''} then CongestionRed else CongestionUnknown)" for color
    by (auto simp: normalizeDGISTrafficColor_def color_class_def Let_def)
  show ?thesis using sums normalizeDGISRoute_shows [OF assms] unfolding shown_parts_def coloring by simp
qed

section \<open>What the orchestrator accepts\<close>

lemma dgis_candidate_accepted:
  assumes "normalizeDGISRoute lm sha256 request now r route = Inr c" "r < 1000" "0 \<le> used"
  shows "provider_candidate_ok used (rc_ProviderRequestCount_update (\<lambda>_. used) c) \<longleftrightarrow> length (rc_Segments c) \<le> 2000"
proof -
  let ?dt = "dgisTrafficDataType request now"
  obtain s ds du where f: "dscan_ok s" "2 \<le> length (dn_geometry s)" "length (dr_RouteID route) \<le> 128"
    "0 < rounded (dr_TotalDistance route)" "0 < rounded (dr_TotalDuration route)"
    "length ds = length (dn_parts s)" "list_all (\<lambda>x. 1 \<le> x) ds" "length du = length (dn_parts s)" "list_all (\<lambda>x. 1 \<le> x) du"
    and c: "c = dgis_candidate sha256 request now r route (dn_geometry s) (rounded (dr_TotalDistance route)) (rounded (dr_TotalDuration route))
       (dgis_segments ?dt r ds du (dn_parts s))"
    using normalizeDGISRoute_form [OF assms(1)] by metis
  note few = parts_few [OF f(1)] and m = dgis_segments_maps [OF f(6,8), of ?dt r]
  have segs: "list_all provider_segment_ok (dgis_segments ?dt r ds du (dn_parts s))"
    using f few assms(2) by (intro dgis_segments_ok) (auto simp: dscan_ok_def)
  have ids: "distinct (map seg_SegmentID (dgis_segments ?dt r ds du (dn_parts s)))" unfolding m(2) using dgis_segment_ids [OF assms(2) few] by blast
  have points: "sum_list (map (length \<circ> seg_Geometry) (dgis_segments ?dt r ds du (dn_parts s))) \<le> 8192"
    unfolding m(6) using f(1) by (auto simp: dscan_ok_def)
  have reference: "length (trim_space (dr_RouteID route)) \<le> 256" using trim_space_length [of "dr_RouteID route"] f(3) by linarith
  show ?thesis unfolding c dgis_candidate_def Let_def provider_candidate_ok_def
    using segs ids points reference f(1,2,4,5) assms(3)
    by (auto simp: dscan_ok_def candidateID_bounds trim_space_Cons is_space_def zero_metrics_ok score_literals zero_f64_def)
qed

text \<open>The contract of the orchestrator's client, for a response of the adapter with a consistent budget.\<close>

lemma dgis_normal_accepted:
  assumes normal: "normalizeDGISRoutes lm sha256 request nows wire = Inr response"
    and budget: "1 \<le> rb_used b" "0 \<le> rb_remaining b" "rb_used b + rb_remaining b = pr_RequestBudget request" "pr_RequestBudget request \<le> 20"
    and ids: "distinct (map rc_CandidateID (ps_Candidates response))"
  shows "validateProviderRouteResponse (dgis_success b response) request = None
    \<longleftrightarrow> list_all (\<lambda>c. length (rc_Segments c) \<le> 2000) (ps_Candidates response)"
proof -
  let ?u = "rc_ProviderRequestCount_update (\<lambda>_. rb_used b)" and ?cs = "ps_Candidates response"
  have n: "dw_Result wire \<noteq> []" "length (dw_Result wire) \<le> 3" "map_result (\<lambda>i. normalizeDGISRoute lm sha256 request (nows i) i) 0 (dw_Result wire) = Inr ?cs"
      "ps_Warnings response = dgis_warnings (pr_Traffic request)"
    using normal by (auto simp: normalizeDGISRoutes_def maxProviderRoutes_def split: if_splits sum.splits)
  note cs = map_result_Inr [OF n(3)]
  have one: "provider_candidate_ok (rb_used b) (?u (?cs ! k)) \<longleftrightarrow> length (rc_Segments (?cs ! k)) \<le> 2000" if "k < length ?cs" for k
    using dgis_candidate_accepted [of lm sha256 request "nows k" k "dw_Result wire ! k" "?cs ! k" "rb_used b"] cs that n(2) budget(1) by simp
  have "response_contract request (dgis_success b response) \<longleftrightarrow> list_all (provider_candidate_ok (rb_used b)) (map ?u ?cs)"
    using n(1,2,4) cs budget ids by (auto simp: response_contract_def dgis_success_def comp_def Suc_le_eq dgis_warnings_def)
  also have "\<dots> \<longleftrightarrow> list_all (\<lambda>c. length (rc_Segments c) \<le> 2000) ?cs" using one by (auto simp: list_all_length)
  finally show ?thesis by (simp add: validateProviderRouteResponse_None)
qed

definition ex_dgis_route :: dgisRoute where
  "ex_dgis_route = \<lparr> dr_ID = [], dr_RouteID = ''r1'', dr_Algorithm = [], dr_TotalDistance = Fin 100, dr_TotalDuration = Fin 9, dr_Reliability = None,
     dr_BeginPedestrianPath = [], dr_EndPedestrianPath = [],
     dr_Maneuvers = [\<lparr> dm_ID = [], dm_OutcomingPath = Some \<lparr> dh_Distance = Fin 100, dh_Duration = Fin 9, dh_Geometry =
       [\<lparr> dg_Selection = ''LINESTRING(0 0,0 1)'', dg_Color = ''normal'', dg_Length = Fin 100, dg_Style = [], dg_PublicTransportLane = False \<rparr>] \<rparr>,
       dm_ManeuverType = [], dm_ManeuverIcon = [], dm_ManeuverRemark = [] \<rparr>], dr_TotalPayments = ''null'' \<rparr>"

definition ex_dgis_wire :: dgisRouteResponse where
  "ex_dgis_wire = \<lparr> dw_Status = ''OK'', dw_Type = ''result'', dw_Message = [], dw_Result = [ex_dgis_route] \<rparr>"

lemma ex_selection: "parseDGISGeometryPart ''LINESTRING(0 0,0 1)'' 4096 = Inr [ex_point 0 0, ex_point 1 0]"
proof -
  have "trim_space ''LINESTRING(0 0,0 1)'' = ''LINESTRING(0 0,0 1)''" "trim_space ''(0 0,0 1)'' = ''(0 0,0 1)''"
    "EqualFold ''LINESTRING'' ''LINESTRING''" "Split (CHR '','') ''0 0,0 1'' = [''0 0'', ''0 1'']"
    "parse_wkt_point ''0 0'' = Inr (ex_point 0 0)" "parse_wkt_point ''0 1'' = Inr (ex_point 1 0)"
    by code_simp+
  then show ?thesis by (simp add: parseDGISGeometryPart_def maxDGISWKTBytes_def Let_def ex_point_def point_eq_def feq_def)
qed

lemma ex_rounded: "rounded (Fin 100) = 100" "rounded (Fin 9) = 9"
  by (simp_all add: rounded_Fin floor_eq_iff)

lemma ex_dgis_normal:
  "\<exists>c. normalizeDGISRoute ex_flat (\<lambda>_. []) ex_provider_request 0 0 ex_dgis_route = Inr c \<and> length (rc_Segments c) = 1"
proof -
  have "allocateDGISMeasurements 100 [Fin 100] = Some [100]" "allocateDGISMeasurements 9 [Fin 100] = Some [9]"
    by (simp_all add: allocateDGISMeasurements_def finitePositive_Fin)
  then show ?thesis using ex_selection ex_polyline(3) ex_sums [of 100] ex_rounded
    by (auto simp: normalizeDGISRoute_def ex_dgis_route_def ex_provider_request_def dgis_limits adapter_limits finitePositive_Fin nonNegativeFinite_def
        is_nan_def is_inf_def zero_f64_def reliability_invalid_def dgis_part_def dgis_assemble_def dgis_candidate_def normalizeDGISTrafficColor_def
        Let_def ex_point_def point_eq_def feq_def)
qed

theorem dgis_route_accounts_for_all_witness:
  "case normalizeDGISRoute ex_flat (\<lambda>_. []) ex_provider_request 0 0 ex_dgis_route of Inl _ \<Rightarrow> False
   | Inr c \<Rightarrow> map seg_CongestionClass (rc_Segments c) = [if pr_Traffic ex_provider_request then CongestionYellow else CongestionUnknown]
       \<and> sum_list (map seg_DistanceMeters (rc_Segments c)) = 100"
proof -
  obtain c where c: "normalizeDGISRoute ex_flat (\<lambda>_. []) ex_provider_request 0 0 ex_dgis_route = Inr c" using ex_dgis_normal by blast
  have parts: "List.map_filter (measured ex_flat) (route_parts ex_dgis_route) = [([ex_point 0 0, ex_point 1 0], ''normal'')]"
    by (simp add: route_parts_def ex_dgis_route_def map_filter_simps measured_def ex_selection finitePositive_Fin)
  have color: "to_lower (trim_space ''normal'') = ''normal''" by code_simp
  note all = dgis_route_accounts_for_all [OF c, unfolded parts]
  have "map seg_CongestionClass (rc_Segments c) = map snd (map (\<lambda>seg. (seg_Geometry seg, seg_CongestionClass seg)) (rc_Segments c))" by simp
  also have "\<dots> = [if pr_Traffic ex_provider_request then CongestionYellow else CongestionUnknown]" using all color by (simp add: Let_def)
  finally show ?thesis using all c ex_rounded by (simp add: ex_dgis_route_def)
qed

lemma ex_dgis_response:
  "\<exists>response c. normalizeDGISRoutes ex_flat (\<lambda>_. []) ex_provider_request (\<lambda>_. 0) ex_dgis_wire = Inr response
     \<and> ps_Candidates response = [c] \<and> length (rc_Segments c) = 1"
  using ex_dgis_normal by (auto simp: normalizeDGISRoutes_def ex_dgis_wire_def maxProviderRoutes_def ex_provider_request_def)

end
