(* ===== verification/Adapter_Routes.thy ===== *)
theory Adapter_Routes
  imports Dgis_Routes
begin

text \<open>
  A routing request through an adapter of the provider service: \<open>Routes\<close> and \<open>doRoute\<close> of \<open>yandex.go\<close> and \<open>dgis.go\<close>. The two retry loops
  differ in the quota gate, the codes of credential faults and the billing of a success; the record \<open>adapter_kind\<close> holds the
  differences (a Yandex adapter has no gate). All that a loop cannot decide comes from one \<open>attempt_env\<close> for each attempt: readings of the clock, the
  random source, results of sleeping, the HTTP outcome, and what other requests do to the shared state meanwhile. Metrics and
  logs are left out. The trace records the actions that matter to the provider and to other requests.
\<close>

section \<open>State and environment\<close>

text \<open>The mutable fields of \<open>dgisAdapter\<close> and \<open>yandexAdapter\<close> that routing uses.\<close>

record adapter_state =
  ad_breaker :: circuitBreaker
  ad_bulkhead :: bulkhead
  ad_cooldown :: sharedCooldown
  ad_rateGate :: "slidingWindowGate option"
  ad_credentialFault :: credentialFaultLatch

definition newDGISAdapter :: "Config \<Rightarrow> adapter_state" where
  "newDGISAdapter cfg = \<lparr> ad_breaker = newCircuitBreaker (cf_CircuitBreakerThreshold cfg) (cf_CircuitBreakerOpenDuration cfg),
     ad_bulkhead = newBulkhead (cf_MaxConcurrency cfg) (cf_BulkheadWaitTimeout cfg), ad_cooldown = \<lparr> sc_until = 0 \<rparr>,
     ad_rateGate = Some (newSlidingWindowGate (cf_DGISRateLimitPerMinute cfg) minute), ad_credentialFault = \<lparr> cl_faults = 0 \<rparr> \<rparr>"

definition newYandexAdapter :: "Config \<Rightarrow> adapter_state" where
  "newYandexAdapter cfg = \<lparr> ad_breaker = newCircuitBreaker (cf_CircuitBreakerThreshold cfg) (cf_CircuitBreakerOpenDuration cfg),
     ad_bulkhead = newBulkhead (cf_MaxConcurrency cfg) (cf_BulkheadWaitTimeout cfg), ad_cooldown = \<lparr> sc_until = 0 \<rparr>,
     ad_rateGate = None, ad_credentialFault = \<lparr> cl_faults = 0 \<rparr> \<rparr>"

text \<open>The outcome of the HTTP exchange: the request was not answered (with the error of the caller's context, if it has ended), the body was
  too large, or an answer with its \<open>Retry-After\<close> header and the decoded body.\<close>

datatype 'w http_outcome = SendFailed "go_error option" | TooLarge | Answer int string "'w option"

record 'w attempt_env =
  at_now :: "nat \<Rightarrow> time"
  at_jitter :: "duration \<Rightarrow> duration"
  at_rand :: "int64 \<Rightarrow> int64"
  at_cooldown_sleep :: "go_error option"
  at_slot :: bulkhead_event
  at_context :: go_error
  at_outcome :: "'w http_outcome"
  at_retry_sleep :: "go_error option"
  at_others :: "nat \<Rightarrow> adapter_state \<Rightarrow> adapter_state"

datatype action = Admitted | SlotTaken | SlotReleased | Called

record routes_state =
  rs_adapter :: adapter_state
  rs_budget :: requestBudget
  rs_trace :: "action list"

record 'w adapter_kind =
  ak_do :: "'w attempt_env \<Rightarrow> go_error + ProviderRouteResponse"
  ak_credential :: "string \<Rightarrow> bool"
  ak_success :: "requestBudget \<Rightarrow> ProviderRouteResponse \<Rightarrow> ProviderRouteResponse"

section \<open>One exchange (doRoute)\<close>

definition exchange :: "(int \<Rightarrow> string \<Rightarrow> go_error) \<Rightarrow> ('w \<Rightarrow> go_error + ProviderRouteResponse) \<Rightarrow> 'w http_outcome \<Rightarrow> go_error + ProviderRouteResponse" where
  "exchange map_status accept outcome = (case outcome of
     SendFailed (Some ctxErr) \<Rightarrow> Inl (callerContextError ctxErr)
   | SendFailed None \<Rightarrow> Inl (serviceError ''PROVIDER_NETWORK_ERROR'' ''provider connection failed'' 502 True (Some (OtherError ''send'')))
   | TooLarge \<Rightarrow> Inl (serviceError ''PROVIDER_RESPONSE_INVALID'' ''provider response exceeded the safe size limit'' 502 False
       (Some (OtherError ''response too large'')))
   | Answer status retryAfter body \<Rightarrow>
       if status \<noteq> 200 then Inl (map_status status retryAfter)
       else (case body of
           None \<Rightarrow> Inl (serviceError ''PROVIDER_RESPONSE_INVALID'' ''provider returned an invalid response'' 502 False (Some (OtherError ''json'')))
         | Some wire \<Rightarrow> accept wire))"

text \<open>\<open>at_now\<close> 5 is read for a rejected status, 6 for the request, 7 and later for the routes.\<close>

definition dgis_doRoute :: "libm \<Rightarrow> (string \<Rightarrow> 8 word list) \<Rightarrow> (string \<Rightarrow> time option) \<Rightarrow> Config \<Rightarrow> ProviderRouteRequest
    \<Rightarrow> dgisRouteResponse attempt_env \<Rightarrow> go_error + ProviderRouteResponse" where
  "dgis_doRoute lm sha256 parse_time cfg request e = (case buildDGISRouteRequest cfg request (at_now e 6) of
     None \<Rightarrow> Inl (serviceError ''PROVIDER_REQUEST_INVALID'' ''provider request could not be constructed'' 400 False (Some (OtherError ''points'')))
   | Some _ \<Rightarrow> exchange (\<lambda>status retryAfter. mapDGISStatus parse_time status retryAfter (at_now e 5))
       (normalizeDGISRoutes lm sha256 request (\<lambda>i. at_now e (7 + i))) (at_outcome e))"

definition yandex_doRoute :: "libm \<Rightarrow> (string \<Rightarrow> 8 word list) \<Rightarrow> (string \<Rightarrow> time option) \<Rightarrow> ProviderRouteRequest
    \<Rightarrow> yandexRouteResponse attempt_env \<Rightarrow> go_error + ProviderRouteResponse" where
  "yandex_doRoute lm sha256 parse_time request e =
     exchange (\<lambda>status retryAfter. mapYandexStatus parse_time status retryAfter (at_now e 5)) (normalizeYandexRoutes lm sha256 request) (at_outcome e)"

section \<open>The retry loop (Routes)\<close>

definition budget_exhausted :: go_error where
  "budget_exhausted = serviceError ''PROVIDER_BUDGET_EXHAUSTED'' ''provider request budget exhausted before a retry could complete'' 429 False
     (Some errBudgetExhausted)"

definition others :: "'w attempt_env \<Rightarrow> nat \<Rightarrow> routes_state \<Rightarrow> routes_state" where
  "others e k s = s\<lparr>rs_adapter := at_others e k (rs_adapter s)\<rparr>"

definition act :: "action \<Rightarrow> (adapter_state \<Rightarrow> adapter_state) \<Rightarrow> routes_state \<Rightarrow> routes_state" where
  "act a f s = s\<lparr>rs_adapter := f (rs_adapter s), rs_trace := rs_trace s @ [a]\<rparr>"

definition release :: "routes_state \<Rightarrow> routes_state" where
  "release s = act SlotReleased (\<lambda>a. a\<lparr>ad_bulkhead := bulkhead_Release (ad_bulkhead a)\<rparr>) s"

text \<open>The gate and the budget, with the slot held.\<close>

definition pass_gate :: "'w attempt_env \<Rightarrow> routes_state \<Rightarrow> go_error option \<times> routes_state" where
  "pass_gate e s = (case slidingWindowGate_Try (at_now e 2) (ad_rateGate (rs_adapter s)) of
     ((allowed, retryAfter), gate) \<Rightarrow>
       let s = s\<lparr>rs_adapter := (rs_adapter s)\<lparr>ad_rateGate := gate\<rparr>\<rparr> in
       if \<not> allowed then (Some (rate_limited ''configured provider quota gate is temporarily full'' retryAfter), release s)
       else case requestBudget_Consume (rs_budget s) of (consumed, budget) \<Rightarrow>
         if \<not> consumed then (Some errBudgetExhausted, release s) else (None, s\<lparr>rs_budget := budget\<rparr>))"

definition take_slot :: "'w attempt_env \<Rightarrow> routes_state \<Rightarrow> go_error option \<times> routes_state" where
  "take_slot e s = (case bulkhead_Acquire (at_slot e) (ad_bulkhead (rs_adapter s)) of
     (Some BulkheadFull, _) \<Rightarrow> (Some errBulkheadFull, s)
   | (Some BulkheadCancelled, _) \<Rightarrow> (Some (at_context e), s)
   | (None, bulkhead) \<Rightarrow> pass_gate e (act SlotTaken (\<lambda>a. a\<lparr>ad_bulkhead := bulkhead\<rparr>) s))"

definition ask_breaker :: "'w attempt_env \<Rightarrow> routes_state \<Rightarrow> go_error option \<times> routes_state" where
  "ask_breaker e s = (case circuitBreaker_Allow (at_now e 1) (ad_breaker (rs_adapter s)) of
     (allowed, breaker) \<Rightarrow>
       if \<not> allowed then (Some errCircuitOpen, s)
       else take_slot e (others e 1 (act Admitted (\<lambda>a. a\<lparr>ad_breaker := breaker\<rparr>) s)))"

text \<open>Everything before the call: the budget, the cool-down, the breaker, the bulkhead, the gate.\<close>

definition before_call :: "'w attempt_env \<Rightarrow> routes_state \<Rightarrow> go_error option \<times> routes_state" where
  "before_call e s =
     (let delay = sharedCooldown_WaitDuration (at_now e 0) (Some (at_jitter e)) (ad_cooldown (rs_adapter s)) in
      if rb_remaining (rs_budget s) = 0 then (Some budget_exhausted, s)
      else if delay > 0 \<and> at_cooldown_sleep e \<noteq> None then (at_cooldown_sleep e, s)
      else ask_breaker e (others e 0 s))"

definition note_success :: "adapter_state \<Rightarrow> adapter_state" where
  "note_success a = a\<lparr>ad_credentialFault := credentialFaultLatch_Success credentialRouter (ad_credentialFault a),
     ad_breaker := circuitBreaker_Success (ad_breaker a)\<rparr>"

definition note_failure :: "'w adapter_kind \<Rightarrow> Config \<Rightarrow> 'w attempt_env \<Rightarrow> nat \<Rightarrow> go_error \<Rightarrow> adapter_state \<Rightarrow> adapter_state" where
  "note_failure kind cfg e attempt providerErr a =
     (if pe_Code providerErr = ''PROVIDER_RATE_LIMITED'' then
        a\<lparr>ad_cooldown := sharedCooldown_Extend (at_now e 3)
          (providerCooldownDelay (int attempt) (cf_RetryBaseDelay cfg) (cf_RetryMaxDelay cfg) (pe_RetryAfter providerErr)) (ad_cooldown a)\<rparr>
      else if ak_credential kind (pe_Code providerErr) then
        a\<lparr>ad_credentialFault := credentialFaultLatch_Fail credentialRouter (ad_credentialFault a)\<rparr>
      else if pe_Retryable providerErr then a\<lparr>ad_breaker := circuitBreaker_Failure (at_now e 4) (ad_breaker a)\<rparr>
      else a)"

text \<open>What follows a call: \<^term>\<open>Some\<close> is a return of \<open>Routes\<close>, \<^term>\<open>None\<close> the next attempt.\<close>

definition after_call :: "'w adapter_kind \<Rightarrow> Config \<Rightarrow> 'w attempt_env \<Rightarrow> nat \<Rightarrow> routes_state
    \<Rightarrow> (go_error + ProviderRouteResponse) option \<times> go_error option \<times> routes_state" where
  "after_call kind cfg e attempt s =
     (let s = release (others e 2 (act Called id s)) in
      case ak_do kind e of
        Inr response \<Rightarrow> (Some (Inr (ak_success kind (rs_budget s) response)), None, s\<lparr>rs_adapter := note_success (rs_adapter s)\<rparr>)
      | Inl err \<Rightarrow>
          let providerErr = normalizeProviderError err;
              s = s\<lparr>rs_adapter := note_failure kind cfg e attempt providerErr (rs_adapter s)\<rparr>
          in if \<not> pe_Retryable providerErr \<or> int attempt = cf_MaxRetries cfg then (Some (Inl err), Some err, s)
             else if rb_remaining (rs_budget s) = 0 then (Some (Inl budget_exhausted), Some err, s)
             else if pe_Code providerErr = ''PROVIDER_RATE_LIMITED'' then (None, Some err, s)
             else (case at_retry_sleep e of
                 Some ctxErr \<Rightarrow> (Some (Inl ctxErr), Some err, s)
               | None \<Rightarrow> (None, Some err, others e 3 s)))"

definition empty_response :: ProviderRouteResponse where
  "empty_response = \<lparr> ps_Candidates = [], ps_RequestsUsed = 0, ps_EstimatedBillableUnits = 0, ps_BudgetRemaining = 0, ps_Warnings = [], ps_Degraded = False \<rparr>"

text \<open>The attempts that are left, the number of this one and the last error.\<close>

fun routes_loop :: "'w adapter_kind \<Rightarrow> Config \<Rightarrow> (nat \<Rightarrow> 'w attempt_env) \<Rightarrow> nat \<Rightarrow> nat \<Rightarrow> go_error option \<Rightarrow> routes_state
    \<Rightarrow> (go_error + ProviderRouteResponse) \<times> routes_state" where
  "routes_loop kind cfg env 0 attempt lastErr s = (case lastErr of None \<Rightarrow> (Inr empty_response, s) | Some err \<Rightarrow> (Inl err, s))"
| "routes_loop kind cfg env (Suc left) attempt lastErr s =
     (case before_call (env attempt) s of
        (Some err, s) \<Rightarrow> (Inl err, s)
      | (None, s) \<Rightarrow> (case after_call kind cfg (env attempt) attempt s of
            (Some result, _, s) \<Rightarrow> (result, s)
          | (None, lastErr, s) \<Rightarrow> routes_loop kind cfg env left (Suc attempt) lastErr s))"

definition adapter_Routes :: "'w adapter_kind \<Rightarrow> Config \<Rightarrow> (nat \<Rightarrow> 'w attempt_env) \<Rightarrow> ProviderRouteRequest \<Rightarrow> adapter_state
    \<Rightarrow> (go_error + ProviderRouteResponse) \<times> routes_state" where
  "adapter_Routes kind cfg env request a =
     routes_loop kind cfg env (nat (cf_MaxRetries cfg + 1)) 0 None
       \<lparr> rs_adapter = a, rs_budget = newRequestBudget (pr_RequestBudget request), rs_trace = [] \<rparr>"

definition dgis_kind :: "libm \<Rightarrow> (string \<Rightarrow> 8 word list) \<Rightarrow> (string \<Rightarrow> time option) \<Rightarrow> Config \<Rightarrow> ProviderRouteRequest \<Rightarrow> dgisRouteResponse adapter_kind" where
  "dgis_kind lm sha256 parse_time cfg request = \<lparr> ak_do = dgis_doRoute lm sha256 parse_time cfg request,
     ak_credential = isDGISCredentialAccessError, ak_success = dgis_success \<rparr>"

definition yandex_kind :: "libm \<Rightarrow> (string \<Rightarrow> 8 word list) \<Rightarrow> (string \<Rightarrow> time option) \<Rightarrow> ProviderRouteRequest \<Rightarrow> yandexRouteResponse adapter_kind" where
  "yandex_kind lm sha256 parse_time request = \<lparr> ak_do = yandex_doRoute lm sha256 parse_time request,
     ak_credential = (\<lambda>code. code = ''PROVIDER_AUTHENTICATION_FAILED''), ak_success = yandex_success \<rparr>"

definition dgis_Routes :: "libm \<Rightarrow> (string \<Rightarrow> 8 word list) \<Rightarrow> (string \<Rightarrow> time option) \<Rightarrow> Config \<Rightarrow> (nat \<Rightarrow> dgisRouteResponse attempt_env)
    \<Rightarrow> ProviderRouteRequest \<Rightarrow> adapter_state \<Rightarrow> (go_error + ProviderRouteResponse) \<times> routes_state" where
  "dgis_Routes lm sha256 parse_time cfg env request a = adapter_Routes (dgis_kind lm sha256 parse_time cfg request) cfg env request a"

definition yandex_Routes :: "libm \<Rightarrow> (string \<Rightarrow> 8 word list) \<Rightarrow> (string \<Rightarrow> time option) \<Rightarrow> Config \<Rightarrow> (nat \<Rightarrow> yandexRouteResponse attempt_env)
    \<Rightarrow> ProviderRouteRequest \<Rightarrow> adapter_state \<Rightarrow> (go_error + ProviderRouteResponse) \<times> routes_state" where
  "yandex_Routes lm sha256 parse_time cfg env request a = adapter_Routes (yandex_kind lm sha256 parse_time request) cfg env request a"

section \<open>The discipline of a request\<close>

text \<open>The trace of \<open>n\<close> complete calls, and how a trace may end after them.\<close>

definition full_calls :: "nat \<Rightarrow> action list" where
  "full_calls n = concat (replicate n [Admitted, SlotTaken, Called, SlotReleased])"

definition trace_tail :: "action list \<Rightarrow> bool" where
  "trace_tail t \<longleftrightarrow> t \<in> {[], [Admitted], [Admitted, SlotTaken, SlotReleased]}"

lemma full_calls_Suc: "full_calls n @ [Admitted, SlotTaken, Called, SlotReleased] = full_calls (Suc n)"
  by (induction n) (simp_all add: full_calls_def)

lemma count_full_calls: "count_list (full_calls n) Called = n"
  by (induction n) (simp_all add: full_calls_def)

lemma pass_gate_cases:
  assumes "pass_gate e s = (r, s')"
  shows "(r = None \<and> rs_trace s' = rs_trace s \<and> 0 < rb_remaining (rs_budget s) \<and>
      rs_budget s' = \<lparr> rb_remaining = rb_remaining (rs_budget s) - 1, rb_used = rb_used (rs_budget s) + 1 \<rparr>)
    \<or> (r \<noteq> None \<and> rs_trace s' = rs_trace s @ [SlotReleased] \<and> rs_budget s' = rs_budget s)"
  using assms by (cases "rs_budget s") (auto simp: pass_gate_def Let_def requestBudget_Consume_def release_def act_def split: prod.splits if_splits)

lemma take_slot_cases:
  assumes "take_slot e s = (r, s')"
  shows "(r = None \<and> rs_trace s' = rs_trace s @ [SlotTaken] \<and> 0 < rb_remaining (rs_budget s) \<and>
      rs_budget s' = \<lparr> rb_remaining = rb_remaining (rs_budget s) - 1, rb_used = rb_used (rs_budget s) + 1 \<rparr>)
    \<or> (r \<noteq> None \<and> (rs_trace s' = rs_trace s \<or> rs_trace s' = rs_trace s @ [SlotTaken, SlotReleased]) \<and> rs_budget s' = rs_budget s)"
  using assms
  by (auto simp: take_slot_def act_def split: prod.splits option.splits bulkhead_error.splits dest!: pass_gate_cases)

lemma ask_breaker_cases:
  assumes "ask_breaker e s = (r, s')"
  shows "(r = None \<and> rs_trace s' = rs_trace s @ [Admitted, SlotTaken] \<and> 0 < rb_remaining (rs_budget s) \<and>
      rs_budget s' = \<lparr> rb_remaining = rb_remaining (rs_budget s) - 1, rb_used = rb_used (rs_budget s) + 1 \<rparr>)
    \<or> (r \<noteq> None \<and> (\<exists>t. trace_tail t \<and> rs_trace s' = rs_trace s @ t) \<and> rs_budget s' = rs_budget s)"
proof -
  obtain allowed b where a: "circuitBreaker_Allow (at_now e 1) (ad_breaker (rs_adapter s)) = (allowed, b)" by fastforce
  define s1 where "s1 = others e 1 (act Admitted (\<lambda>a. a\<lparr>ad_breaker := b\<rparr>) s)"
  have s1: "rs_trace s1 = rs_trace s @ [Admitted]" "rs_budget s1 = rs_budget s" by (simp_all add: s1_def others_def act_def)
  show ?thesis
  proof (cases allowed)
    case True
    then have "take_slot e s1 = (r, s')" using assms a by (simp add: ask_breaker_def s1_def)
    from take_slot_cases [OF this] s1 show ?thesis by (auto simp: trace_tail_def)
  next
    case False
    then show ?thesis using assms a by (auto simp: ask_breaker_def trace_tail_def)
  qed
qed

lemma before_call_cases:
  assumes "before_call e s = (r, s')"
  shows "(r = None \<and> rs_trace s' = rs_trace s @ [Admitted, SlotTaken] \<and> 0 < rb_remaining (rs_budget s) \<and>
      rs_budget s' = \<lparr> rb_remaining = rb_remaining (rs_budget s) - 1, rb_used = rb_used (rs_budget s) + 1 \<rparr>)
    \<or> (r \<noteq> None \<and> (\<exists>t. trace_tail t \<and> rs_trace s' = rs_trace s @ t) \<and> rs_budget s' = rs_budget s)"
proof -
  have stay: "\<exists>t. trace_tail t \<and> rs_trace s = rs_trace s @ t" by (simp add: trace_tail_def)
  have "r \<noteq> None \<and> s' = s \<or> ask_breaker e (others e 0 s) = (r, s')"
    using assms unfolding before_call_def Let_def by (simp split: if_splits) (metis option.distinct(1))+
  then show ?thesis
  proof
    assume "ask_breaker e (others e 0 s) = (r, s')"
    from ask_breaker_cases [OF this] show ?thesis by (simp add: others_def)
  qed (use stay in simp)
qed

lemma after_call_cases:
  assumes "after_call kind cfg e attempt s = (r, lastErr, s')"
  shows "rs_trace s' = rs_trace s @ [Called, SlotReleased]" "rs_budget s' = rs_budget s" "r = None \<Longrightarrow> lastErr \<noteq> None"
    "r = Some (Inr response) \<Longrightarrow> \<exists>r0. ak_do kind e = Inr r0 \<and> response = ak_success kind (rs_budget s) r0"
proof -
  define s1 where "s1 = release (others e 2 (act Called id s))"
  have s1: "rs_trace s1 = rs_trace s @ [Called, SlotReleased]" "rs_budget s1 = rs_budget s"
    by (simp_all add: s1_def release_def others_def act_def)
  have "(rs_trace s' = rs_trace s1 \<and> rs_budget s' = rs_budget s1) \<and> (r = None \<longrightarrow> lastErr \<noteq> None)
    \<and> (r = Some (Inr response) \<longrightarrow> (\<exists>r0. ak_do kind e = Inr r0 \<and> response = ak_success kind (rs_budget s1) r0))"
  proof (cases "ak_do kind e")
    case (Inl err)
    then show ?thesis using assms unfolding after_call_def s1_def [symmetric] Let_def
      by (simp add: others_def split: if_splits option.splits) (auto simp: others_def)
  next
    case (Inr r0)
    then show ?thesis using assms unfolding after_call_def s1_def [symmetric] Let_def by auto
  qed
  with s1 show "rs_trace s' = rs_trace s @ [Called, SlotReleased]" "rs_budget s' = rs_budget s" "r = None \<Longrightarrow> lastErr \<noteq> None"
    "r = Some (Inr response) \<Longrightarrow> \<exists>r0. ak_do kind e = Inr r0 \<and> response = ak_success kind (rs_budget s) r0" by auto
qed

text \<open>The state of a request after \<open>n\<close> calls with a budget of \<open>limit\<close>.\<close>

definition after_calls :: "int \<Rightarrow> nat \<Rightarrow> action list \<Rightarrow> routes_state \<Rightarrow> bool" where
  "after_calls limit n t s \<longleftrightarrow> rs_trace s = full_calls n @ t \<and> rb_used (rs_budget s) = int n \<and> rb_remaining (rs_budget s) = limit - int n"

lemma routes_loop_calls:
  assumes "routes_loop kind cfg env left attempt lastErr s = (result, s')" "after_calls limit n [] s" "0 \<le> limit - int n"
    "lastErr \<noteq> None \<or> 0 < left"
  shows "\<exists>m t. n \<le> m \<and> m \<le> n + left \<and> int m \<le> limit \<and> trace_tail t \<and> after_calls limit m t s'
    \<and> (\<forall>response. result = Inr response \<longrightarrow> n < m \<and> t = [] \<and> (\<exists>k r0. ak_do kind (env k) = Inr r0 \<and> response = ak_success kind (rs_budget s') r0))"
  using assms
proof (induction left arbitrary: attempt lastErr s n)
  case 0
  then show ?case by (intro exI [of _ n] exI [of _ "[]"]) (auto simp: trace_tail_def)
next
  case (Suc left)
  obtain r1 s1 where b: "before_call (env attempt) s = (r1, s1)" by fastforce
  show ?case
  proof (cases r1)
    case (Some err)
    then have "result = Inl err" "s' = s1" using Suc.prems(1) b by auto
    then show ?thesis using before_call_cases [OF b] Some Suc.prems(2,3) by (auto simp: after_calls_def intro!: exI [of _ n])
  next
    case None
    obtain r2 l2 s2 where a: "after_call kind cfg (env attempt) attempt s1 = (r2, l2, s2)" by (metis prod_cases3)
    have bc: "rs_trace s1 = rs_trace s @ [Admitted, SlotTaken]" "0 < rb_remaining (rs_budget s)"
      "rs_budget s1 = \<lparr> rb_remaining = rb_remaining (rs_budget s) - 1, rb_used = rb_used (rs_budget s) + 1 \<rparr>"
      using before_call_cases [OF b] None by auto
    note ac = after_call_cases [OF a]
    have s2: "after_calls limit (Suc n) [] s2" using bc ac(1,2) Suc.prems(2) full_calls_Suc [of n] by (simp add: after_calls_def)
    have le: "0 \<le> limit - int (Suc n)" using bc(2) Suc.prems(2) by (simp add: after_calls_def)
    show ?thesis
    proof (cases r2)
      case None
      have "routes_loop kind cfg env left (Suc attempt) l2 s2 = (result, s')" using Suc.prems(1) b a \<open>r1 = None\<close> None by simp
      from Suc.IH [OF this s2 le] ac(3) None obtain m t where
        "Suc n \<le> m" "m \<le> Suc n + left" "int m \<le> limit" "trace_tail t" "after_calls limit m t s'"
        "\<forall>response. result = Inr response \<longrightarrow> Suc n < m \<and> t = [] \<and> (\<exists>k r0. ak_do kind (env k) = Inr r0 \<and> response = ak_success kind (rs_budget s') r0)" by blast
      then show ?thesis by (intro exI [of _ m] exI [of _ t]) simp
    next
      case (Some res)
      then have "result = res" "s' = s2" using Suc.prems(1) b a \<open>r1 = None\<close> by auto
      moreover have "\<exists>k r0. ak_do kind (env k) = Inr r0 \<and> response = ak_success kind (rs_budget s2) r0" if "res = Inr response" for response
        using ac(4) [of response] ac(2) Some that by auto
      ultimately show ?thesis using s2 le by (intro exI [of _ "Suc n"] exI [of _ "[]"]) (simp add: trace_tail_def)
    qed
  qed
qed

lemma adapter_calls:
  assumes "adapter_Routes kind cfg env request a = (result, s)" "0 \<le> pr_RequestBudget request" "0 \<le> cf_MaxRetries cfg"
  obtains m t where "rs_trace s = full_calls m @ t" "trace_tail t" "int m \<le> pr_RequestBudget request" "int m \<le> cf_MaxRetries cfg + 1"
    "rs_budget s = \<lparr> rb_remaining = pr_RequestBudget request - int m, rb_used = int m \<rparr>"
    "\<And>response. result = Inr response \<Longrightarrow> 0 < m \<and> t = [] \<and> (\<exists>k r0. ak_do kind (env k) = Inr r0 \<and> response = ak_success kind (rs_budget s) r0)"
proof -
  have start: "after_calls (pr_RequestBudget request) 0 [] \<lparr> rs_adapter = a, rs_budget = newRequestBudget (pr_RequestBudget request), rs_trace = [] \<rparr>"
    by (simp add: after_calls_def full_calls_def newRequestBudget_def)
  from routes_loop_calls [OF assms(1) [unfolded adapter_Routes_def] start] assms(2,3) obtain m t where
    mt: "m \<le> nat (cf_MaxRetries cfg + 1)" "int m \<le> pr_RequestBudget request" "trace_tail t" "after_calls (pr_RequestBudget request) m t s"
    "\<forall>response. result = Inr response \<longrightarrow> 0 < m \<and> t = [] \<and> (\<exists>k r0. ak_do kind (env k) = Inr r0 \<and> response = ak_success kind (rs_budget s) r0)"
    by auto
  show ?thesis using that [of m t] mt assms(3) by (cases "rs_budget s") (auto simp: after_calls_def)
qed

text \<open>A run of an adapter that keeps to its limits and says what it did. \<open>billed\<close> are the units of a list of routes, \<open>answers\<close> the decoded
  answers of the provider.\<close>

definition keeps_account ::
    "ProviderRouteRequest \<Rightarrow> Config \<Rightarrow> (RouteCandidate list \<Rightarrow> int) \<Rightarrow> (ProviderRouteResponse \<Rightarrow> bool) \<Rightarrow> (go_error + ProviderRouteResponse) \<times> routes_state \<Rightarrow> bool" where
  "keeps_account request cfg billed answers run \<longleftrightarrow> (case run of (result, s) \<Rightarrow> \<exists>calls t. rs_trace s = full_calls calls @ t \<and> trace_tail t
     \<and> int calls \<le> pr_RequestBudget request \<and> int calls \<le> cf_MaxRetries cfg + 1
     \<and> rs_budget s = \<lparr> rb_remaining = pr_RequestBudget request - int calls, rb_used = int calls \<rparr>
     \<and> (\<forall>response. result = Inr response \<longrightarrow> 0 < calls \<and> t = []
         \<and> ps_RequestsUsed response = int calls \<and> ps_BudgetRemaining response = pr_RequestBudget request - int calls
         \<and> ps_EstimatedBillableUnits response = billed (ps_Candidates response)
         \<and> (\<exists>r0. answers r0 \<and> ps_Candidates response = map (rc_ProviderRequestCount_update (\<lambda>_. int calls)) (ps_Candidates r0)
             \<and> ps_Warnings response = ps_Warnings r0)))"

text \<open>C18: A routing request through the 2GIS or the Yandex adapter sends at most as many requests to the provider as its budget and its retry limit allow,
  whatever the provider, the clock and other requests do: the actions are complete calls, each admitted by the breaker, with a bulkhead slot taken
  before and returned after it, and possibly one attempt that ends before its call without keeping a slot. A success carries the routes and warnings of a decoded
  answer of the provider and reports the accounting truthfully: the requests used are the calls that were made, also on each route, the rest of the
  budget is what they left, and the billed units are one for 2GIS and one for each route for Yandex.\<close>

theorem adapter_within_budget:
  assumes "0 \<le> pr_RequestBudget request" "0 \<le> cf_MaxRetries cfg"
  shows "keeps_account request cfg (\<lambda>routes. 1) (\<lambda>r0. \<exists>k. dgis_doRoute lm sha256 parse_time cfg request (env k) = Inr r0)
      (dgis_Routes lm sha256 parse_time cfg env request a)
    \<and> keeps_account request cfg (\<lambda>routes. int (length routes)) (\<lambda>r0. \<exists>k. yandex_doRoute lm sha256 parse_time request (env' k) = Inr r0)
      (yandex_Routes lm sha256 parse_time cfg env' request a)"
proof
  obtain result s where run: "adapter_Routes (dgis_kind lm sha256 parse_time cfg request) cfg env request a = (result, s)" by fastforce
  show "keeps_account request cfg (\<lambda>routes. 1) (\<lambda>r0. \<exists>k. dgis_doRoute lm sha256 parse_time cfg request (env k) = Inr r0)
      (dgis_Routes lm sha256 parse_time cfg env request a)"
    unfolding dgis_Routes_def run keeps_account_def prod.case
    by (rule adapter_calls [OF run assms], intro exI conjI) (assumption | fastforce simp: dgis_kind_def dgis_success_def)+
next
  obtain result s where run: "adapter_Routes (yandex_kind lm sha256 parse_time request) cfg env' request a = (result, s)" by fastforce
  show "keeps_account request cfg (\<lambda>routes. int (length routes)) (\<lambda>r0. \<exists>k. yandex_doRoute lm sha256 parse_time request (env' k) = Inr r0)
      (yandex_Routes lm sha256 parse_time cfg env' request a)"
    unfolding yandex_Routes_def run keeps_account_def prod.case
    by (rule adapter_calls [OF run assms], intro exI conjI) (assumption | fastforce simp: yandex_kind_def yandex_success_def)+
qed

section \<open>From the adapter to the orchestrator\<close>

lemma validated_budget: "validateRouteRequest request m now = None \<Longrightarrow> 1 \<le> pr_RequestBudget request \<and> pr_RequestBudget request \<le> 20"
  by (auto simp: validateRouteRequest_def)

lemma exchange_success: "exchange f g out = Inr r \<Longrightarrow> \<exists>retryAfter wire. out = Answer 200 retryAfter (Some wire) \<and> g wire = Inr r"
  by (auto simp: exchange_def split: http_outcome.splits option.splits if_splits)

lemma dgis_do_success:
  assumes "dgis_doRoute lm sha256 parse_time cfg request e = Inr r"
  obtains nows wire where "normalizeDGISRoutes lm sha256 request nows wire = Inr r"
  using assms by (auto simp: dgis_doRoute_def split: option.splits dest!: exchange_success)

text \<open>End to end between the services: whatever 2GIS answers, when the adapter returns a response to a request that the provider service has validated,
  the contract check of the orchestrator's client accepts it exactly when no route has more than 2000 segments (given no
  collision of the hashed route ids): measurements, geometry, identifiers, scores, billing and request counts always fit. The adapter itself
  admits up to 2048 segments.\<close>

theorem dgis_service_accepted:
  assumes run: "dgis_Routes lm sha256 parse_time cfg env request a = (Inr response, s)"
    and valid: "validateRouteRequest request maxAlternatives now = None" "Config_Validate cfg = None"
    and ids: "distinct (map rc_CandidateID (ps_Candidates response))"
  shows "validateProviderRouteResponse response request = None \<longleftrightarrow> list_all (\<lambda>c. length (rc_Segments c) \<le> 2000) (ps_Candidates response)"
proof -
  have retries: "0 \<le> cf_MaxRetries cfg" using valid(2) by (simp add: Config_Validate_def)
  note budget = validated_budget [OF valid(1)]
  obtain m t where f: "rs_budget s = \<lparr> rb_remaining = pr_RequestBudget request - int m, rb_used = int m \<rparr>" "int m \<le> pr_RequestBudget request"
      "0 < m \<and> t = [] \<and> (\<exists>k r0. ak_do (dgis_kind lm sha256 parse_time cfg request) (env k) = Inr r0
        \<and> response = ak_success (dgis_kind lm sha256 parse_time cfg request) (rs_budget s) r0)"
    using adapter_calls [OF run [unfolded dgis_Routes_def]] budget retries by (metis order.trans zero_le_one)
  then obtain k r0 where r0: "dgis_doRoute lm sha256 parse_time cfg request (env k) = Inr r0" "response = dgis_success (rs_budget s) r0"
    by (auto simp: dgis_kind_def)
  obtain nows wire where normal: "normalizeDGISRoutes lm sha256 request nows wire = Inr r0" using dgis_do_success [OF r0(1)] .
  have same: "map rc_CandidateID (ps_Candidates response) = map rc_CandidateID (ps_Candidates r0)"
      "list_all (\<lambda>c. length (rc_Segments c) \<le> 2000) (ps_Candidates response) = list_all (\<lambda>c. length (rc_Segments c) \<le> 2000) (ps_Candidates r0)"
    by (simp_all add: r0(2) dgis_success_def comp_def list_all_iff)
  have "validateProviderRouteResponse (dgis_success (rs_budget s) r0) request = None
      \<longleftrightarrow> list_all (\<lambda>c. length (rc_Segments c) \<le> 2000) (ps_Candidates r0)"
    using f(1,2) conjunct1 [OF f(3)] budget ids by (intro dgis_normal_accepted [OF normal]) (auto simp: same(1) [symmetric])
  then show ?thesis unfolding same(2) by (simp only: r0(2))
qed

section \<open>An undecided trial jams the breaker\<close>

text \<open>Nothing else happens during a request.\<close>

definition quiet :: "(nat \<Rightarrow> 'w attempt_env) \<Rightarrow> bool" where
  "quiet env \<longleftrightarrow> (\<forall>k j. at_others (env k) j = (\<lambda>a. a))"

lemma before_call_jammed:
  assumes "cb_state (ad_breaker (rs_adapter s)) = breakerHalfOpen" "quiet env"
  shows "\<exists>err. before_call (env k) s = (Some err, s)"
  using assms by (auto simp: before_call_def ask_breaker_def Let_def circuitBreaker_Allow_def others_def quiet_def)

lemma routes_jammed:
  assumes "cb_state (ad_breaker a) = breakerHalfOpen" "quiet env" "0 \<le> cf_MaxRetries cfg"
  shows "\<exists>err. adapter_Routes kind cfg env request a = (Inl err, \<lparr> rs_adapter = a, rs_budget = newRequestBudget (pr_RequestBudget request), rs_trace = [] \<rparr>)"
proof -
  let ?s = "\<lparr> rs_adapter = a, rs_budget = newRequestBudget (pr_RequestBudget request), rs_trace = [] \<rparr>"
  obtain left where left: "nat (cf_MaxRetries cfg + 1) = Suc left" using assms(3) by (cases "nat (cf_MaxRetries cfg + 1)") auto
  show ?thesis using before_call_jammed [of ?s env 0] assms(1,2) by (auto simp: adapter_Routes_def left)
qed

text \<open>Requests one after the other, and the actions of all of them.\<close>

fun serve :: "Config \<Rightarrow> adapter_state \<Rightarrow> ('w adapter_kind \<times> (nat \<Rightarrow> 'w attempt_env) \<times> ProviderRouteRequest) list \<Rightarrow> adapter_state \<times> action list" where
  "serve cfg a [] = (a, [])"
| "serve cfg a ((kind, env, request) # later) = (case adapter_Routes kind cfg env request a of (_, s) \<Rightarrow>
     case serve cfg (rs_adapter s) later of (a', trace) \<Rightarrow> (a', rs_trace s @ trace))"

lemma serve_jammed:
  assumes "cb_state (ad_breaker a) = breakerHalfOpen" "0 \<le> cf_MaxRetries cfg" "list_all (\<lambda>(kind, env, request). quiet env) later"
  shows "serve cfg a later = (a, [])"
  using assms
proof (induction later)
  case (Cons r later)
  obtain kind env request where r: "r = (kind, env, request)" by (cases r)
  then show ?case using routes_jammed [of a env cfg kind request] Cons by auto
qed simp

lemma pass_gate_breaker: "pass_gate e s = (r, s') \<Longrightarrow> ad_breaker (rs_adapter s') = ad_breaker (rs_adapter s)"
  by (auto simp: pass_gate_def Let_def release_def act_def split: prod.splits if_splits)

lemma take_slot_breaker: "take_slot e s = (r, s') \<Longrightarrow> ad_breaker (rs_adapter s') = ad_breaker (rs_adapter s)"
  by (auto simp: take_slot_def act_def split: prod.splits option.splits bulkhead_error.splits dest!: pass_gate_breaker)

lemma trial_before_call:
  assumes "cb_state (ad_breaker (rs_adapter s)) = breakerOpen" "cb_openDuration (ad_breaker (rs_adapter s)) \<le> at_now (env k) 1 - cb_openedAt (ad_breaker (rs_adapter s))"
    "quiet env" "rb_remaining (rs_budget s) \<noteq> 0" "at_cooldown_sleep (env k) = None" "before_call (env k) s = (r, s')"
  shows "cb_state (ad_breaker (rs_adapter s')) = breakerHalfOpen"
proof -
  have "take_slot (env k) (act Admitted (\<lambda>a. a\<lparr>ad_breaker := (ad_breaker (rs_adapter s))\<lparr>cb_state := breakerHalfOpen\<rparr>\<rparr>) s) = (r, s')"
    using assms by (simp add: before_call_def ask_breaker_def Let_def circuitBreaker_Allow_def others_def quiet_def)
  from take_slot_breaker [OF this] show ?thesis by (simp add: act_def)
qed

lemma undecided_after_call:
  assumes "ak_do kind (env k) = Inl err" "quiet env"
    "\<not> pe_Retryable (normalizeProviderError err) \<or> pe_Code (normalizeProviderError err) = ''PROVIDER_RATE_LIMITED''"
    "after_call kind cfg (env k) k s = (r, lastErr, s')"
  shows "ad_breaker (rs_adapter s') = ad_breaker (rs_adapter s)"
  using assms by (auto simp: after_call_def Let_def note_failure_def release_def act_def others_def quiet_def split: if_splits option.splits)

text \<open>C21: A trial that ends neither in a success nor in a failure that the breaker counts jams the breaker. Let the breaker be open with its waiting time
  passed, and let the one admitted request be answered with a rate limit or with any error that is not retryable (a rejected key, no route, a
  malformed answer): without other requests in flight, no later request ever reaches the provider again, however many
  follow and whatever time passes.\<close>

theorem undecided_trial_jams:
  assumes open_state: "cb_state (ad_breaker a) = breakerOpen" "cb_openDuration (ad_breaker a) \<le> at_now (env 0) 1 - cb_openedAt (ad_breaker a)"
    and trial: "ak_do kind (env 0) = Inl err"
      "\<not> pe_Retryable (normalizeProviderError err) \<or> pe_Code (normalizeProviderError err) = ''PROVIDER_RATE_LIMITED''"
      "at_cooldown_sleep (env 0) = None" "0 < pr_RequestBudget request" "0 \<le> cf_MaxRetries cfg" "quiet env"
    and run: "adapter_Routes kind cfg env request a = (result, s)"
    and later: "list_all (\<lambda>(kind, env, request). quiet env) later"
  shows "serve cfg (rs_adapter s) later = (rs_adapter s, [])"
proof -
  let ?s = "\<lparr> rs_adapter = a, rs_budget = newRequestBudget (pr_RequestBudget request), rs_trace = [] \<rparr>"
  obtain left where left: "nat (cf_MaxRetries cfg + 1) = Suc left" using trial(5) by (cases "nat (cf_MaxRetries cfg + 1)") auto
  obtain r1 s1 where b: "before_call (env 0) ?s = (r1, s1)" by fastforce
  have half: "cb_state (ad_breaker (rs_adapter s1)) = breakerHalfOpen"
    by (rule trial_before_call [OF _ _ trial(6) _ trial(3) b]) (use open_state trial(4) in \<open>simp_all add: newRequestBudget_def\<close>)
  have "cb_state (ad_breaker (rs_adapter s)) = breakerHalfOpen"
  proof (cases r1)
    case (Some e)
    then show ?thesis using run b left half by (simp add: adapter_Routes_def)
  next
    case None
    obtain r2 l2 s2 where a: "after_call kind cfg (env 0) 0 s1 = (r2, l2, s2)" by (metis prod_cases3)
    have half2: "cb_state (ad_breaker (rs_adapter s2)) = breakerHalfOpen"
      using undecided_after_call [OF trial(1,6,2) a] half by simp
    have next_attempt: "routes_loop kind cfg env left 1 l2 s2 = (result, s) \<or> s = s2"
      using run b a left None by (cases r2) (auto simp: adapter_Routes_def)
    moreover have "s = s2" if "routes_loop kind cfg env left 1 l2 s2 = (result, s)"
    proof (cases left)
      case 0
      then show ?thesis using that by (cases l2) auto
    next
      case (Suc n)
      then show ?thesis using that before_call_jammed [OF half2 trial(6), of 1] by auto
    qed
    ultimately show ?thesis using half2 by auto
  qed
  then show ?thesis using serve_jammed later trial(5) by blast
qed

section \<open>Examples\<close>

definition ex_config :: Config where
  "ex_config = \<lparr> cf_Environment = ''test'', cf_HTTPAddr = [], cf_InternalAPIToken = [], cf_ProviderMode = ''2gis'', cf_AddressProviderMode = ''2gis'',
     cf_YandexAPIKey = [], cf_YandexRouterBaseURL = ''https://api.routing.yandex.net'', cf_YandexGeocoderAPIKey = [],
     cf_YandexGeocoderBaseURL = ''https://geocode-maps.yandex.ru'', cf_YandexMaxResults = 3, cf_DGISAPIKey = ''key'',
     cf_DGISRoutingBaseURL = ''https://routing.api.2gis.com'', cf_DGISMaxResults = 3, cf_DGISRateLimitPerMinute = 12, cf_DGISMonthlyLimit = 1000,
     cf_DGISGeocoderRatePerMinute = 600, cf_DGISGeocoderLocationBias = ''0,0'', cf_ConnectTimeout = 1, cf_RequestTimeout = 1,
     cf_ResponseHeaderTimeout = 1, cf_BulkheadWaitTimeout = 0, cf_MaxRetries = 2, cf_RetryBaseDelay = 1, cf_RetryMaxDelay = 1,
     cf_MaxConcurrency = 4, cf_CircuitBreakerThreshold = 1, cf_CircuitBreakerOpenDuration = 10, cf_ShutdownTimeout = 1,
     cf_MaxRequestBodyBytes = 1024, cf_MaxProviderResponseBytes = 1024, cf_ProviderCostPerBillableUnit = 0, cf_ProviderDataStorageAllowed = False,
     cf_ProviderDataModificationOK = False, cf_ExperimentalSourcesRequested = False, cf_StubScenario = ''normal'', cf_StubDelay = 0 \<rparr>"

definition ex_env :: "time \<Rightarrow> 'w http_outcome \<Rightarrow> nat \<Rightarrow> 'w attempt_env" where
  "ex_env now out k = \<lparr> at_now = (\<lambda>_. now), at_jitter = (\<lambda>_. 0), at_rand = (\<lambda>_. 0), at_cooldown_sleep = None, at_slot = SlotFreed,
     at_context = Canceled, at_outcome = out, at_retry_sleep = None, at_others = (\<lambda>_ a. a) \<rparr>"

abbreviation ex_run :: "time \<Rightarrow> dgisRouteResponse http_outcome \<Rightarrow> adapter_state \<Rightarrow> (go_error + ProviderRouteResponse) \<times> routes_state" where
  "ex_run now out \<equiv> dgis_Routes ex_flat (\<lambda>_. []) (\<lambda>_. None) ex_config (ex_env now out) ex_provider_request"

lemma ex_config_valid: "Config_Validate ex_config = None"
proof -
  have "normalizeDGISLocationBias ''0,0'' = None" by code_simp
  then show ?thesis by (simp add: Config_Validate_def ex_config_def mode_names is_nan_def is_inf_def zero_f64_def)
qed

lemma ex_request_validated: "validateRouteRequest ex_provider_request 2 0 = None"
proof -
  have "requestIDPattern ''r''" by code_simp
  then show ?thesis
    by (simp add: validateRouteRequest_def ex_provider_request_def GeoPoint_Validate_None point_ok_def ex_point_def point_eq_def feq_def)
qed

lemma ex_env_simps [simp]:
  "at_now (ex_env now out k) j = now" "at_outcome (ex_env now out k) = out" "at_cooldown_sleep (ex_env now out k) = None"
  "at_slot (ex_env now out k) = SlotFreed" "at_others (ex_env now out k) j = (\<lambda>a. a)"
  by (simp_all add: ex_env_def)

lemma ex_limits: "cf_MaxRetries ex_config = 2" "cf_BulkheadWaitTimeout ex_config = 0" "cf_MaxConcurrency ex_config = 4"
  "cf_CircuitBreakerThreshold ex_config = 1" "cf_CircuitBreakerOpenDuration ex_config = 10" "cf_DGISRateLimitPerMinute ex_config = 12"
  by (simp_all add: ex_config_def)

lemma ex_budget: "pr_RequestBudget ex_provider_request = 2"
  by (simp add: ex_provider_request_def)

lemma ex_do:
  "dgis_doRoute ex_flat (\<lambda>_. []) (\<lambda>_. None) ex_config ex_provider_request (ex_env now out k) =
     exchange (\<lambda>status retryAfter. mapDGISStatus (\<lambda>_. None) status retryAfter now)
       (normalizeDGISRoutes ex_flat (\<lambda>_. []) ex_provider_request (\<lambda>_. now)) out"
proof -
  have "buildDGISRouteRequest ex_config ex_provider_request now \<noteq> None"
    by (simp add: buildDGISRouteRequest_def ex_provider_request_def maxDGISRoutePoints_def Let_def)
  then show ?thesis by (auto simp: dgis_doRoute_def)
qed

theorem adapter_within_budget_witness:
  "count_list (rs_trace (snd (ex_run 0 (Answer 500 [] None) (newDGISAdapter ex_config)))) Called \<le> 2"
proof -
  have "0 \<le> pr_RequestBudget ex_provider_request" "0 \<le> cf_MaxRetries ex_config" by (simp_all add: ex_budget ex_limits)
  from adapter_within_budget [OF this, THEN conjunct1, of ex_flat "\<lambda>_. []" "\<lambda>_. None" "ex_env 0 (Answer 500 [] None)" "newDGISAdapter ex_config"]
  show ?thesis
    by (auto simp: keeps_account_def ex_budget ex_limits count_full_calls trace_tail_def split: prod.splits)
qed

theorem dgis_service_accepted_witness:
  "case ex_run 0 (Answer 200 [] (Some ex_dgis_wire)) (newDGISAdapter ex_config) of (result, s) \<Rightarrow>
     \<exists>response. result = Inr response \<and> validateProviderRouteResponse response ex_provider_request = None"
proof -
  obtain response c where r: "normalizeDGISRoutes ex_flat (\<lambda>_. []) ex_provider_request (\<lambda>_. 0) ex_dgis_wire = Inr response"
      "ps_Candidates response = [c]" "length (rc_Segments c) = 1" using ex_dgis_response by blast
  have "dgis_doRoute ex_flat (\<lambda>_. []) (\<lambda>_. None) ex_config ex_provider_request (ex_env 0 (Answer 200 [] (Some ex_dgis_wire)) 0) = Inr response"
    using r(1) by (simp add: ex_do exchange_def)
  then have "\<exists>s. ex_run 0 (Answer 200 [] (Some ex_dgis_wire)) (newDGISAdapter ex_config) = (Inr (dgis_success \<lparr> rb_remaining = 1, rb_used = 1 \<rparr> response), s)"
    by (simp add: dgis_Routes_def adapter_Routes_def ex_limits newDGISAdapter_def numeral_2_eq_2 numeral_3_eq_3 before_call_def ask_breaker_def
        take_slot_def pass_gate_def after_call_def dgis_kind_def others_def act_def release_def newRequestBudget_def requestBudget_Consume_def
        ex_budget sharedCooldown_WaitDuration_def circuitBreaker_Allow_def newCircuitBreaker_def bulkhead_Acquire_def newBulkhead_def
        slidingWindowGate_Try_def newSlidingWindowGate_def minute_def Let_def)
  then obtain s where run: "ex_run 0 (Answer 200 [] (Some ex_dgis_wire)) (newDGISAdapter ex_config)
      = (Inr (dgis_success \<lparr> rb_remaining = 1, rb_used = 1 \<rparr> response), s)" by blast
  show ?thesis using dgis_service_accepted [OF run ex_request_validated ex_config_valid] r(2,3) by (simp add: run dgis_success_def)
qed

text \<open>An open breaker, and the trial answered with the status of a rejected key.\<close>

theorem undecided_trial_jams_witness:
  "let a = (newDGISAdapter ex_config)\<lparr>ad_breaker := circuitBreaker_Failure 0 (newCircuitBreaker 1 10)\<rparr>;
       s = snd (ex_run 20 (Answer 401 [] None) a)
   in serve ex_config (rs_adapter s) [(dgis_kind ex_flat (\<lambda>_. []) (\<lambda>_. None) ex_config ex_provider_request, ex_env (10 ^ 20) (Answer 200 [] (Some ex_dgis_wire)),
        ex_provider_request)] = (rs_adapter s, [])"
proof -
  define a where "a = (newDGISAdapter ex_config)\<lparr>ad_breaker := circuitBreaker_Failure 0 (newCircuitBreaker 1 10)\<rparr>"
  obtain result s where run: "ex_run 20 (Answer 401 [] None) a = (result, s)" by fastforce
  have reply: "ak_do (dgis_kind ex_flat (\<lambda>_. []) (\<lambda>_. None) ex_config ex_provider_request) (ex_env 20 (Answer 401 [] None) 0)
      = Inl (serviceError ''PROVIDER_AUTHENTICATION_FAILED'' ''2GIS rejected the API key'' 503 False None)"
    by (simp add: dgis_kind_def ex_do exchange_def mapDGISStatus_def)
  have breaker: "cb_state (ad_breaker a) = breakerOpen" "cb_openDuration (ad_breaker a) = 10" "cb_openedAt (ad_breaker a) = 0"
    by (simp_all add: a_def circuitBreaker_Failure_def newCircuitBreaker_def circuitBreaker_open_def add64_def wrap64_def)
  have "quiet (ex_env now out)" for now and out :: "dgisRouteResponse http_outcome" by (simp add: quiet_def ex_env_def)
  then have "serve ex_config (rs_adapter s) [(dgis_kind ex_flat (\<lambda>_. []) (\<lambda>_. None) ex_config ex_provider_request,
      ex_env (10 ^ 20) (Answer 200 [] (Some ex_dgis_wire)), ex_provider_request)] = (rs_adapter s, [])"
    by (intro undecided_trial_jams [OF _ _ reply _ _ _ _ _ run [unfolded dgis_Routes_def]])
      (simp_all add: breaker serviceError_def normalizeProviderError_def ex_budget ex_limits)
  then show ?thesis using run by (simp add: a_def [symmetric] Let_def)
qed

end
