(* ===== verification/Capability_Documents.thy ===== *)
theory Capability_Documents
  imports Dgis_Routes
begin

text \<open>
  What the adapters of the provider service declare of themselves (\<open>Capabilities\<close> of \<open>yandex.go\<close>, \<open>dgis.go\<close> and \<open>stub.go\<close>), and how the 2GIS adapter
  chooses its geocoders (\<open>newDGISAdapter\<close>). The document has the fields that the orchestrator decodes; texts outside ASCII are written as
  hexadecimal UTF-8.
\<close>

section \<open>Names\<close>

definition yandexRouterAPIVersion :: string where "yandexRouterAPIVersion = ''v2''"
definition yandexRouterEndpoint :: string where "yandexRouterEndpoint = ''https://api.routing.yandex.net/'' @ yandexRouterAPIVersion @ ''/route''"
definition yandexGeocoderAPIVersion :: string where "yandexGeocoderAPIVersion = ''v1''"
definition yandexGeocoderEndpoint :: string where
  "yandexGeocoderEndpoint = ''https://geocode-maps.yandex.ru/'' @ yandexGeocoderAPIVersion @ ''/''"
definition yandexGeocoderDocumentation :: "string list" where
  "yandexGeocoderDocumentation = [''https://yandex.com/maps-api/docs/geocoder-api/request.html'', ''https://yandex.com/maps-api/docs/geocoder-api/response.html'']"
definition dgisRoutingAPIVersion :: string where "dgisRoutingAPIVersion = ''7.0.0''"
definition dgisRoutingEndpoint :: string where
  "dgisRoutingEndpoint = ''https://routing.api.2gis.com/routing/'' @ dgisRoutingAPIVersion @ ''/global''"
definition dgisGeocoderAPIVersion :: string where "dgisGeocoderAPIVersion = ''3.0''"
definition dgisGeocoderEndpoint :: string where
  "dgisGeocoderEndpoint = ''https://catalog.api.2gis.com/'' @ dgisGeocoderAPIVersion @ ''/items/geocode''"
definition dgisGeocoderDocumentation :: string where
  "dgisGeocoderDocumentation = ''https://docs.2gis.com/api/search/geocoder/reference/3.0/items/geocode''"

lemmas api_names = yandexRouterAPIVersion_def yandexRouterEndpoint_def yandexGeocoderAPIVersion_def yandexGeocoderEndpoint_def
  dgisRoutingAPIVersion_def dgisRoutingEndpoint_def dgisGeocoderAPIVersion_def dgisGeocoderEndpoint_def

section \<open>The geocoders of the 2GIS adapter\<close>

definition resolveAddressProvider :: "Config \<Rightarrow> string" where
  "resolveAddressProvider cfg =
     (if cf_AddressProviderMode cfg \<noteq> addressProviderAuto then cf_AddressProviderMode cfg
      else if cf_ProviderMode cfg = providerModeDGIS \<and> cf_YandexGeocoderAPIKey cfg \<noteq> [] then addressProviderYandex
      else addressProviderDGIS)"

text \<open>The fields of \<open>dgisAdapter\<close> that describe the geocoders; without a fallback its provider is empty.\<close>

record address_wiring =
  aw_addressProvider :: string
  aw_addressEndpoint :: string
  aw_addressDocs :: "string list"
  aw_addressFallbackProvider :: string
  aw_addressFallbackDocs :: "string list"

definition address_wiring_of :: "Config \<Rightarrow> address_wiring" where
  "address_wiring_of cfg =
     (if resolveAddressProvider cfg = addressProviderYandex then
        let fallback = (cf_AddressProviderMode cfg = addressProviderAuto) in
        \<lparr> aw_addressProvider = addressProviderYandex, aw_addressEndpoint = yandexGeocoderEndpoint, aw_addressDocs = yandexGeocoderDocumentation,
          aw_addressFallbackProvider = (if fallback then addressProviderDGIS else []),
          aw_addressFallbackDocs = (if fallback then [dgisGeocoderDocumentation] else []) \<rparr>
      else
        \<lparr> aw_addressProvider = addressProviderDGIS, aw_addressEndpoint = dgisGeocoderEndpoint, aw_addressDocs = [dgisGeocoderDocumentation],
          aw_addressFallbackProvider = [], aw_addressFallbackDocs = [] \<rparr>)"

section \<open>The documents\<close>

definition integration :: "string \<Rightarrow> string \<Rightarrow> string \<Rightarrow> string \<Rightarrow> string \<Rightarrow> string \<Rightarrow> string \<Rightarrow> APIIntegration" where
  "integration i provider product version capability role state = \<lparr> api_ID = i, api_Provider = provider, api_Product = product, api_APIVersion = version,
     api_Capability = capability, api_Role = role, api_State = state \<rparr>"

definition addressAPIIntegration :: "string \<Rightarrow> string \<Rightarrow> string \<Rightarrow> APIIntegration" where
  "addressAPIIntegration provider role state =
     (if provider = addressProviderYandex
      then integration ''yandex-http-geocoder'' ''yandex'' ''HTTP Geocoder API'' yandexGeocoderAPIVersion ''address-search'' role state
      else integration ''2gis-geocoder'' ''2gis'' ''Geocoder API'' dgisGeocoderAPIVersion ''address-search'' role state)"

definition official_coverage :: "string list" where
  "official_coverage = map unhex [''d0a0d0bed181d181d0b8d18f'', ''d090d0b1d185d0b0d0b7d0b8d18f'', ''d0a2d183d180d186d0b8d18f'',
     ''d090d0b7d0b5d180d0b1d0b0d0b9d0b4d0b6d0b0d0bd'', ''d090d180d0bcd0b5d0bdd0b8d18f'', ''d09ad0b0d0b7d0b0d185d181d182d0b0d0bd'',
     ''d09ad18bd180d0b3d18bd0b7d181d182d0b0d0bd'', ''d0a2d0b0d0b4d0b6d0b8d0bad0b8d181d182d0b0d0bd'', ''d091d0b5d0bbd0b0d180d183d181d18c'',
     ''d093d180d183d0b7d0b8d18f'', ''d0a3d0b7d0b1d0b5d0bad0b8d181d182d0b0d0bd'', ''d09cd0bed0bbd0b4d0bed0b2d0b0'']"

definition officialCapabilities :: "Config \<Rightarrow> string \<Rightarrow> providerCapabilitiesDocument" where
  "officialCapabilities cfg mode = \<lparr>
     pd_ProviderCapabilities = \<lparr> pc_ContractVersion = InternalContractVersion, pc_Provider = ''yandex'', pc_Mode = mode,
       pc_APIIntegrations = [
         integration ''yandex-route-details'' ''yandex'' ''Route Details API'' yandexRouterAPIVersion ''routing'' ''primary'' ''active'',
         integration ''yandex-http-geocoder'' ''yandex'' ''HTTP Geocoder API'' yandexGeocoderAPIVersion ''address-search'' ''primary'' ''active''],
       pc_MaxAlternatives = cf_YandexMaxResults cfg - 1, pc_MaxWaypoints = 50, pc_RealtimeTraffic = True, pc_TrafficDisabledBaseline = True,
       pc_DepartureTime = True, pc_AvoidZones = True, pc_Geosuggest = True, pc_Coverage = official_coverage, pc_ExperimentalSources = False,
       pc_DataStorageAllowed = cf_ProviderDataStorageAllowed cfg, pc_RawResponseCacheTTLSecond = 0 \<rparr>,
     pd_VerifiedAt = ''2026-08-05'',
     pd_OfficialDocumentation = [''https://yandex.ru/maps-api/docs/router-api/request.html'', ''https://yandex.ru/maps-api/docs/router-api/response.html'',
       ''https://yandex.ru/dev/tariffs/doc/ru/router/terms/'', ''https://yandex.ru/dev/tariffs/doc/ru/router/prices/''] @ yandexGeocoderDocumentation,
     pd_OfficialEndpoint = yandexRouterEndpoint, pd_AddressSearchProvider = addressProviderYandex, pd_AddressSearchEndpoint = yandexGeocoderEndpoint,
     pd_MaxRoutesPerRequest = cf_YandexMaxResults cfg, pd_RequestsPerSecond = 50, pd_RequestsPerMinute = 0, pd_DailyRequestLimit = None,
     pd_MonthlyRequestLimit = None, pd_DailyLimitContractDependent = True, pd_AvoidTolls = True, pd_AvoidUnpaved = ''paid-plan capability'',
     pd_Billing = \<lparr> pb_Unit = ''provider response'', pb_MultipleRoutesCount = ''each response is billed when one request returns multiple responses'' \<rparr>,
     pd_Storage = \<lparr> pst_Standard = ''cache up to 30 days solely to improve the licensed resource performance'',
       pst_Extended = ''store during the offer/license term; exact contract controls'' \<rparr>,
     pd_DataModificationAllowed = cf_ProviderDataModificationOK cfg,
     pd_Licenses = \<lparr> pl_BasicName = unhex ''d0a1d182d0b0d0bdd0b4d0b0d180d182d0bdd0b0d18f'' @ '' (official current name; Basic is not used in current Russian terms)'',
       pl_AdvancedName = unhex ''d0a0d0b0d181d188d0b8d180d0b5d0bdd0bdd0b0d18f'',
       pl_FreeTier = ''not available for Route Details API; 7-day trial may be available under published terms'' \<rparr>,
     pd_Limitations = [''No official per-segment congestion class or jam score in the documented response.'',
       ''Live and traffic-disabled baseline durations require separate requests and geometry matching.'',
       ''The documented API does not expose a stable provider route reference.'',
       ''Address search uses the separately licensed HTTP Geocoder rather than Geosuggest because the neutral contract requires coordinates.'',
       ''Geocoder key entitlement is contract-dependent; a dedicated YANDEX_GEOCODER_API_KEY is preferred.'',
       ''The documented Router limit of 50 requests per second does not establish a Geocoder rate limit; Geocoder quota and rate are contract-dependent.'',
       ''Avoid-zone polygon count and point-count maxima are not documented (UNKNOWN).''],
     pd_ExperimentalRequested = cf_ExperimentalSourcesRequested cfg \<rparr>"

definition yandex_Capabilities :: "Config \<Rightarrow> providerCapabilitiesDocument" where
  "yandex_Capabilities cfg = officialCapabilities cfg providerModeYandex"

text \<open>The 2GIS document before its geocoders; \<open>geosuggest\<close> tells whether there is one.\<close>

definition dgis_routing_document :: "Config \<Rightarrow> bool \<Rightarrow> providerCapabilitiesDocument" where
  "dgis_routing_document cfg geosuggest = \<lparr>
     pd_ProviderCapabilities = \<lparr> pc_ContractVersion = InternalContractVersion, pc_Provider = ''2gis'', pc_Mode = providerModeDGIS,
       pc_APIIntegrations = [integration ''2gis-routing'' ''2gis'' ''Routing API'' dgisRoutingAPIVersion ''routing'' ''primary'' ''active''],
       pc_MaxAlternatives = cf_DGISMaxResults cfg - 1, pc_MaxWaypoints = int maxDGISRoutePoints, pc_RealtimeTraffic = True,
       pc_TrafficDisabledBaseline = True, pc_DepartureTime = True, pc_AvoidZones = True, pc_Geosuggest = geosuggest,
       pc_Coverage = [''2GIS Routing API subscription coverage''], pc_ExperimentalSources = False,
       pc_DataStorageAllowed = cf_ProviderDataStorageAllowed cfg, pc_RawResponseCacheTTLSecond = 0 \<rparr>,
     pd_VerifiedAt = ''2026-08-05'',
     pd_OfficialDocumentation = [''https://docs.2gis.com/en/api/navigation/routing/overview'', ''https://docs.2gis.com/en/api/navigation/routing/start'',
       ''https://docs.2gis.com/en/api/navigation/routing/reference/routing'', ''https://docs.2gis.com/en/api/navigation/routing/examples/routing''],
     pd_OfficialEndpoint = dgisRoutingEndpoint, pd_AddressSearchProvider = [], pd_AddressSearchEndpoint = [],
     pd_MaxRoutesPerRequest = cf_DGISMaxResults cfg, pd_RequestsPerSecond = 0, pd_RequestsPerMinute = cf_DGISRateLimitPerMinute cfg,
     pd_DailyRequestLimit = None, pd_MonthlyRequestLimit = Some (cf_DGISMonthlyLimit cfg), pd_DailyLimitContractDependent = True,
     pd_AvoidTolls = True, pd_AvoidUnpaved = ''supported by documented dirt_road filter'',
     pd_Billing = \<lparr> pb_Unit = ''route for one point set'', pb_MultipleRoutesCount = ''alternatives in the same request are not billed additionally'' \<rparr>,
     pd_Storage = \<lparr> pst_Standard = ''disabled by this adapter unless the active 2GIS contract is reviewed and configuration is enabled'',
       pst_Extended = ''active 2GIS subscription terms are authoritative'' \<rparr>,
     pd_DataModificationAllowed = cf_ProviderDataModificationOK cfg,
     pd_Licenses = \<lparr> pl_BasicName = ''2GIS API subscription'', pl_AdvancedName = [],
       pl_FreeTier = ''demo access is time-limited; Platform Manager limits are authoritative'' \<rparr>,
     pd_Limitations = [''The documented Routing API does not expose an official per-segment congestion level or jam score.'',
       ''Traffic-disabled comparison uses shortest-distance mode; geometry similarity must be checked before scoring.'',
       ''Road filters may be relaxed by the provider when a fully filtered route is too long or impossible; detected toll payment data is preserved.'',
       ''Per-minute and monthly limits are subscription-specific and must be configured in 2GIS Platform Manager; provider 429 responses trigger an adapter-wide cooldown.''],
     pd_ExperimentalRequested = False \<rparr>"

definition add_integration :: "APIIntegration \<Rightarrow> string list \<Rightarrow> string \<Rightarrow> providerCapabilitiesDocument \<Rightarrow> providerCapabilitiesDocument" where
  "add_integration i docs limitation d = d\<lparr>
     pd_ProviderCapabilities := (pd_ProviderCapabilities d)\<lparr>pc_APIIntegrations := pc_APIIntegrations (pd_ProviderCapabilities d) @ [i]\<rparr>,
     pd_OfficialDocumentation := pd_OfficialDocumentation d @ docs, pd_Limitations := pd_Limitations d @ [limitation]\<rparr>"

definition dgis_Capabilities :: "Config \<Rightarrow> address_wiring option \<Rightarrow> providerCapabilitiesDocument" where
  "dgis_Capabilities cfg wiring = (case wiring of
     None \<Rightarrow> dgis_routing_document cfg False
   | Some a \<Rightarrow>
       let document = (dgis_routing_document cfg True)\<lparr>pd_AddressSearchProvider := aw_addressProvider a, pd_AddressSearchEndpoint := aw_addressEndpoint a\<rparr>;
           document = add_integration (addressAPIIntegration (aw_addressProvider a) ''primary'' ''active'') (aw_addressDocs a)
             (''Point-bearing address lookup is served by the configured '' @ aw_addressProvider a @ '' geocoder; routing remains 2GIS.'') document
       in if aw_addressFallbackProvider a = [] then document
          else add_integration (addressAPIIntegration (aw_addressFallbackProvider a) ''fallback'' ''standby'') (aw_addressFallbackDocs a)
             ''When the primary Yandex geocoder returns an error or no matches, the adapter fails over to the documented 2GIS Geocoder API.'' document)"

definition stub_Capabilities :: "Config \<Rightarrow> providerCapabilitiesDocument" where
  "stub_Capabilities cfg =
     (let document = officialCapabilities cfg providerModeStub;
          c = (pd_ProviderCapabilities document)\<lparr>pc_Provider := ''stub'', pc_Geosuggest := True, pc_APIIntegrations := []\<rparr>;
          c = (if cf_StubScenario cfg \<noteq> ''normal'' then c\<lparr>pc_Mode := ''stub:'' @ cf_StubScenario cfg\<rparr> else c)
      in document\<lparr>pd_ProviderCapabilities := c, pd_OfficialEndpoint := [], pd_AddressSearchProvider := [], pd_AddressSearchEndpoint := [],
           pd_OfficialDocumentation := [],
           pd_Limitations := pd_Limitations document @ [''Stub output is synthetic and must not be described as Yandex traffic data.'']\<rparr>)"

text \<open>The document of the provider that \<open>main\<close> starts; other modes do not start.\<close>

definition started_Capabilities :: "Config \<Rightarrow> providerCapabilitiesDocument option" where
  "started_Capabilities cfg =
     (if cf_ProviderMode cfg = providerModeStub then Some (stub_Capabilities cfg)
      else if cf_ProviderMode cfg = providerModeYandex then Some (yandex_Capabilities cfg)
      else if cf_ProviderMode cfg = providerModeDGIS then Some (dgis_Capabilities cfg (Some (address_wiring_of cfg)))
      else None)"

end
