(* ===== verification/Geocoder.thy ===== *)
theory Geocoder
  imports Adapter_Routes Capability_Documents
begin

text \<open>
  Address search in the provider service (\<open>geocoder.go\<close>, \<open>dgis_geocoder.go\<close> and the fallback resolver of \<open>dgis.go\<close>): the two geocoders' answers turned into
  suggestions, and the retry loop that they share in front of the provider. As for routes, everything a loop cannot decide comes from one
  \<open>attempt_env\<close> for each attempt; \<open>ad_breaker\<close> and \<open>ad_rateGate\<close> are here the breaker and the gate of the geocoder, the other fields are shared with routing.
  Metrics are left out, and of the request its URL encoding.
\<close>

section \<open>Yandex: from objects to suggestions\<close>

text \<open>The fields of \<open>yandexGeoObject\<close> that are read, without their nesting.\<close>

record yandexGeoObject =
  yo_Text :: string
  yo_Formatted :: string
  yo_Name :: string
  yo_Description :: string
  yo_URI :: string
  yo_Position :: string

definition parseGeocoderPoint :: "string \<Rightarrow> GeoPoint option" where
  "parseGeocoderPoint position = (case Fields position of
     [lon, lat] \<Rightarrow> (case ParseFloat lon of
         None \<Rightarrow> None
       | Some longitude \<Rightarrow> (case ParseFloat lat of
           None \<Rightarrow> None
         | Some latitude \<Rightarrow>
             let point = \<lparr> Latitude = latitude, Longitude = longitude \<rparr> in
             if GeoPoint_Validate point \<noteq> None then None else Some point))
   | _ \<Rightarrow> None)"

fun firstText :: "string list \<Rightarrow> string" where
  "firstText [] = []"
| "firstText (value # values) = (let trimmed = trim_space value in if trimmed \<noteq> [] then trimmed else firstText values)"

definition geocoderSuggestionID :: "(string \<Rightarrow> 8 word list) \<Rightarrow> string \<Rightarrow> GeoPoint \<Rightarrow> string" where
  "geocoderSuggestionID sha256 label point = ''yandex-geo-''
     @ hex_encode (take 12 (sha256 (label @ ''|'' @ format7 (Latitude point) @ ''|'' @ format7 (Longitude point))))"

text \<open>The suggestion of one object; \<^term>\<open>None\<close> counts as invalid.\<close>

definition yandex_suggestion :: "(string \<Rightarrow> 8 word list) \<Rightarrow> yandexGeoObject \<Rightarrow> GeoSuggestion option" where
  "yandex_suggestion sha256 object = (case parseGeocoderPoint (yo_Position object) of
     None \<Rightarrow> None
   | Some point \<Rightarrow>
       let label = firstText [yo_Name object, yo_Formatted object, yo_Text object];
           description = trim_space (yo_Description object);
           formatted = trim_space (yo_Formatted object);
           subtitle = (if description = [] then (if formatted \<noteq> label then formatted else []) else description);
           uri = trim_space (yo_URI object)
       in if label = [] then None
          else Some \<lparr> gs_ID = (if uri = [] then geocoderSuggestionID sha256 label point else uri), gs_Label = label, gs_Subtitle = subtitle,
            gs_Point = point \<rparr>)"

text \<open>The loop: the ids seen so far; the suggestions and the number of invalid objects.\<close>

fun yandex_scan :: "(string \<Rightarrow> 8 word list) \<Rightarrow> string list \<Rightarrow> yandexGeoObject list \<Rightarrow> GeoSuggestion list \<times> int" where
  "yandex_scan sha256 seen [] = ([], 0)"
| "yandex_scan sha256 seen (object # objects) = (case yandex_suggestion sha256 object of
     None \<Rightarrow> (case yandex_scan sha256 seen objects of (suggestions, invalid) \<Rightarrow> (suggestions, invalid + 1))
   | Some suggestion \<Rightarrow>
       if gs_ID suggestion \<in> set seen then yandex_scan sha256 seen objects
       else (case yandex_scan sha256 (gs_ID suggestion # seen) objects of (suggestions, invalid) \<Rightarrow> (suggestion # suggestions, invalid)))"

definition normalizeGeocoderResponse :: "(string \<Rightarrow> 8 word list) \<Rightarrow> yandexGeoObject list \<Rightarrow> go_error + GeoSuggestion list" where
  "normalizeGeocoderResponse sha256 members = (case yandex_scan sha256 [] members of (suggestions, invalidObjects) \<Rightarrow>
     if members \<noteq> [] \<and> suggestions = [] \<and> invalidObjects > 0
     then Inl (response_invalid ''address provider returned no valid point-bearing objects'')
     else Inr suggestions)"

section \<open>2GIS: from items to suggestions\<close>

definition maxDGISGeocoderTextBytes :: nat where "maxDGISGeocoderTextBytes = 2048"
definition maxDGISGeocoderIDBytes :: nat where "maxDGISGeocoderIDBytes = 512"

record dgisGeoPoint =
  dg_Lat :: f64
  dg_Lon :: f64

record dgisGeocoderItem =
  di_ID :: string
  di_Name :: string
  di_FullName :: string
  di_AddressName :: string
  di_FullAddressName :: string
  di_PurposeName :: string
  di_Point :: "dgisGeoPoint option"

record dgisGeocoderResponse =
  dr_Code :: int
  dr_Items :: "dgisGeocoderItem list"

definition validDGISGeocoderStrings :: "dgisGeocoderItem \<Rightarrow> bool" where
  "validDGISGeocoderStrings item \<longleftrightarrow> length (di_ID item) \<le> maxDGISGeocoderIDBytes
     \<and> list_all (\<lambda>value. length value \<le> maxDGISGeocoderTextBytes)
         [di_Name item, di_FullName item, di_AddressName item, di_FullAddressName item, di_PurposeName item]"

text \<open>\<open>firstNonEmptyText\<close> is \<^const>\<open>firstText\<close>.\<close>

fun firstDistinctText :: "string \<Rightarrow> string list \<Rightarrow> string" where
  "firstDistinctText label [] = []"
| "firstDistinctText label (value # values) =
     (let value = trim_space value in if value \<noteq> [] \<and> \<not> EqualFold value label then value else firstDistinctText label values)"

definition dgis_suggestion :: "dgisGeocoderItem \<Rightarrow> GeoSuggestion option" where
  "dgis_suggestion item = (case di_Point item of
     None \<Rightarrow> None
   | Some p \<Rightarrow>
       let itemID = trim_space (di_ID item);
           label = firstText [di_FullAddressName item, di_AddressName item, di_FullName item, di_Name item];
           point = \<lparr> Latitude = dg_Lat p, Longitude = dg_Lon p \<rparr>
       in if \<not> validDGISGeocoderStrings item \<or> itemID = [] \<or> label = [] \<or> GeoPoint_Validate point \<noteq> None then None
          else Some \<lparr> gs_ID = itemID, gs_Label = label,
            gs_Subtitle = firstDistinctText label [di_Name item, di_PurposeName item, di_FullName item, di_AddressName item], gs_Point = point \<rparr>)"

text \<open>The loop; an item whose id was seen is skipped whether or not it is valid otherwise.\<close>

fun dgis_scan :: "string list \<Rightarrow> dgisGeocoderItem list \<Rightarrow> GeoSuggestion list" where
  "dgis_scan seen [] = []"
| "dgis_scan seen (item # items) = (case dgis_suggestion item of
     None \<Rightarrow> dgis_scan seen items
   | Some suggestion \<Rightarrow>
       if gs_ID suggestion \<in> set seen then dgis_scan seen items else suggestion # dgis_scan (gs_ID suggestion # seen) items)"

definition normalizeDGISGeocoder :: "dgisGeocoderResponse \<Rightarrow> int \<Rightarrow> go_error + GeoSuggestion list" where
  "normalizeDGISGeocoder response limit =
     (if dr_Code response = 404 then Inr []
      else if dr_Code response \<noteq> 200 then Inl (response_invalid ''geocoder returned an invalid result code'')
      else if int (length (dr_Items response)) > limit then Inl (response_invalid ''geocoder returned too many results'')
      else Inr (dgis_scan [] (dr_Items response)))"

definition dgisLocale :: "string \<Rightarrow> string" where
  "dgisLocale language = (if prefix ''en'' (to_lower (trim_space language)) then ''en_RU'' else ''ru_RU'')"

definition mapDGISGeocoderStatus :: "(string \<Rightarrow> time option) \<Rightarrow> int \<Rightarrow> string \<Rightarrow> time \<Rightarrow> go_error option" where
  "mapDGISGeocoderStatus parse_time status retryAfter now =
     (if status = 400 then Some (serviceError ''PROVIDER_REJECTED_REQUEST'' ''geocoder rejected the normalized request'' 502 False None)
      else if status = 401 then Some (serviceError ''PROVIDER_AUTHENTICATION_FAILED'' ''2GIS rejected the geocoder API key'' 503 False None)
      else if status = 402 then
        Some (serviceError ''PROVIDER_SUBSCRIPTION_REQUIRED'' ''2GIS Geocoder API subscription or paid quota access is required'' 503 False None)
      else if status = 403 then
        Some (serviceError ''PROVIDER_ACCESS_FORBIDDEN'' ''2GIS Geocoder API access is forbidden by key service access or restrictions'' 503 False None)
      else if status = 404 then None
      else if status = 408 then Some (serviceError ''PROVIDER_TIMEOUT'' ''geocoder request timed out'' 504 True None)
      else if status = 429 then Some (rate_limited ''geocoder rate limit reached'' (parseRetryAfter parse_time retryAfter now))
      else if status \<in> {500, 502, 503, 504} then Some (serviceError ''PROVIDER_UNAVAILABLE'' ''geocoder is temporarily unavailable'' 502 True None)
      else if status \<ge> 500 \<and> status \<le> 599 then Some (serviceError ''PROVIDER_UNAVAILABLE'' ''geocoder is temporarily unavailable'' 502 True None)
      else Some (serviceError ''PROVIDER_UNEXPECTED_STATUS'' ''geocoder returned an unexpected status'' 502 False None))"

section \<open>One exchange (doGeocode)\<close>

text \<open>The errors of the exchange itself; \<open>who\<close> is the name that their messages use, \<open>answered\<close> what follows an answer.\<close>

definition geocode_exchange ::
    "string \<Rightarrow> (int \<Rightarrow> string \<Rightarrow> 'w option \<Rightarrow> go_error + GeoSuggestion list) \<Rightarrow> 'w http_outcome \<Rightarrow> go_error + GeoSuggestion list" where
  "geocode_exchange who answered outcome = (case outcome of
     SendFailed (Some ctxErr) \<Rightarrow> Inl (callerContextError ctxErr)
   | SendFailed None \<Rightarrow> Inl (serviceError ''PROVIDER_NETWORK_ERROR'' (who @ '' connection failed'') 502 True (Some (OtherError ''send'')))
   | TooLarge \<Rightarrow> Inl (serviceError ''PROVIDER_RESPONSE_INVALID'' (who @ '' response exceeded the safe size limit'') 502 False
       (Some (OtherError ''response too large'')))
   | Answer status retryAfter body \<Rightarrow> answered status retryAfter body)"

definition not_json :: "string \<Rightarrow> go_error" where
  "not_json who = serviceError ''PROVIDER_RESPONSE_INVALID'' (who @ '' returned an invalid response'') 502 False (Some (OtherError ''json''))"

definition yandex_doGeocode :: "(string \<Rightarrow> 8 word list) \<Rightarrow> (string \<Rightarrow> time option) \<Rightarrow> int \<Rightarrow> yandexGeoObject list attempt_env \<Rightarrow> go_error + GeoSuggestion list" where
  "yandex_doGeocode sha256 parse_time limit e = geocode_exchange ''address provider'' (\<lambda>status retryAfter body.
     if status \<noteq> 200 then Inl (mapYandexStatus parse_time status retryAfter (at_now e 5))
     else (case body of
         None \<Rightarrow> Inl (not_json ''address provider'')
       | Some members \<Rightarrow> (case normalizeGeocoderResponse sha256 members of
           Inl err \<Rightarrow> Inl err
         | Inr suggestions \<Rightarrow> Inr (if int (length suggestions) > limit then take (nat limit) suggestions else suggestions)))) (at_outcome e)"

text \<open>The request of the 2GIS geocoder needs a valid location bias.\<close>

definition dgis_doGeocode :: "(string \<Rightarrow> time option) \<Rightarrow> Config \<Rightarrow> int \<Rightarrow> dgisGeocoderResponse attempt_env \<Rightarrow> go_error + GeoSuggestion list" where
  "dgis_doGeocode parse_time cfg limit e = (case normalizeDGISLocationBias (cf_DGISGeocoderLocationBias cfg) of
     Some _ \<Rightarrow> Inl (serviceError ''PROVIDER_REQUEST_INVALID'' ''geocoder request could not be constructed'' 400 False (Some (OtherError ''location'')))
   | None \<Rightarrow> geocode_exchange ''geocoder'' (\<lambda>status retryAfter body.
       if status = 404 then Inr []
       else if status \<noteq> 200 then (case mapDGISGeocoderStatus parse_time status retryAfter (at_now e 5) of Some err \<Rightarrow> Inl err | None \<Rightarrow> Inr [])
       else (case body of None \<Rightarrow> Inl (not_json ''geocoder'') | Some wire \<Rightarrow> normalizeDGISGeocoder wire limit)) (at_outcome e))"

section \<open>The retry loop (Suggest)\<close>

record suggest_state =
  ss_adapter :: adapter_state
  ss_trace :: "action list"

text \<open>One exchange, and the codes that count as a fault of the credential.\<close>

record 'w geocoder_kind =
  gk_do :: "'w attempt_env \<Rightarrow> go_error + GeoSuggestion list"
  gk_credential :: "string \<Rightarrow> bool"

definition s_others :: "'w attempt_env \<Rightarrow> nat \<Rightarrow> suggest_state \<Rightarrow> suggest_state" where
  "s_others e k s = s\<lparr>ss_adapter := at_others e k (ss_adapter s)\<rparr>"

definition s_act :: "action \<Rightarrow> (adapter_state \<Rightarrow> adapter_state) \<Rightarrow> suggest_state \<Rightarrow> suggest_state" where
  "s_act a f s = s\<lparr>ss_adapter := f (ss_adapter s), ss_trace := ss_trace s @ [a]\<rparr>"

definition s_release :: "suggest_state \<Rightarrow> suggest_state" where
  "s_release s = s_act SlotReleased (\<lambda>a. a\<lparr>ad_bulkhead := bulkhead_Release (ad_bulkhead a)\<rparr>) s"

text \<open>The gate of the 2GIS geocoder, with the slot held; Yandex has none.\<close>

definition suggest_gate :: "'w attempt_env \<Rightarrow> suggest_state \<Rightarrow> go_error option \<times> suggest_state" where
  "suggest_gate e s = (case slidingWindowGate_Try (at_now e 2) (ad_rateGate (ss_adapter s)) of
     ((allowed, retryAfter), gate) \<Rightarrow>
       let s = s\<lparr>ss_adapter := (ss_adapter s)\<lparr>ad_rateGate := gate\<rparr>\<rparr> in
       if \<not> allowed then (Some (rate_limited ''configured geocoder quota gate is temporarily full'' retryAfter), s_release s) else (None, s))"

definition suggest_slot :: "'w attempt_env \<Rightarrow> suggest_state \<Rightarrow> go_error option \<times> suggest_state" where
  "suggest_slot e s = (case bulkhead_Acquire (at_slot e) (ad_bulkhead (ss_adapter s)) of
     (Some BulkheadFull, _) \<Rightarrow> (Some errBulkheadFull, s)
   | (Some BulkheadCancelled, _) \<Rightarrow> (Some (at_context e), s)
   | (None, bulkhead) \<Rightarrow> suggest_gate e (s_act SlotTaken (\<lambda>a. a\<lparr>ad_bulkhead := bulkhead\<rparr>) s))"

definition suggest_before :: "'w attempt_env \<Rightarrow> suggest_state \<Rightarrow> go_error option \<times> suggest_state" where
  "suggest_before e s =
     (let delay = sharedCooldown_WaitDuration (at_now e 0) (Some (at_jitter e)) (ad_cooldown (ss_adapter s)) in
      if delay > 0 \<and> at_cooldown_sleep e \<noteq> None then (at_cooldown_sleep e, s)
      else let s = s_others e 0 s in
        case circuitBreaker_Allow (at_now e 1) (ad_breaker (ss_adapter s)) of (allowed, breaker) \<Rightarrow>
          if \<not> allowed then (Some errCircuitOpen, s)
          else suggest_slot e (s_others e 1 (s_act Admitted (\<lambda>a. a\<lparr>ad_breaker := breaker\<rparr>) s)))"

definition suggest_success :: "adapter_state \<Rightarrow> adapter_state" where
  "suggest_success a = a\<lparr>ad_credentialFault := credentialFaultLatch_Success credentialGeocoder (ad_credentialFault a),
     ad_breaker := circuitBreaker_Success (ad_breaker a)\<rparr>"

definition suggest_failure :: "'w geocoder_kind \<Rightarrow> Config \<Rightarrow> 'w attempt_env \<Rightarrow> nat \<Rightarrow> go_error \<Rightarrow> adapter_state \<Rightarrow> adapter_state" where
  "suggest_failure kind cfg e attempt providerErr a =
     (if pe_Code providerErr = ''PROVIDER_RATE_LIMITED'' then
        a\<lparr>ad_cooldown := sharedCooldown_Extend (at_now e 3)
          (providerCooldownDelay (int attempt) (cf_RetryBaseDelay cfg) (cf_RetryMaxDelay cfg) (pe_RetryAfter providerErr)) (ad_cooldown a)\<rparr>
      else if gk_credential kind (pe_Code providerErr) then
        a\<lparr>ad_credentialFault := credentialFaultLatch_Fail credentialGeocoder (ad_credentialFault a)\<rparr>
      else if pe_Retryable providerErr then a\<lparr>ad_breaker := circuitBreaker_Failure (at_now e 4) (ad_breaker a)\<rparr>
      else a)"

text \<open>\<^term>\<open>Inl\<close> is a return of \<open>Suggest\<close>, \<^term>\<open>Inr\<close> the next attempt with its last error.\<close>

definition suggest_after :: "'w geocoder_kind \<Rightarrow> Config \<Rightarrow> 'w attempt_env \<Rightarrow> nat \<Rightarrow> suggest_state
    \<Rightarrow> ((go_error + GeoSuggestion list) + go_error) \<times> suggest_state" where
  "suggest_after kind cfg e attempt s =
     (let s = s_release (s_others e 2 (s_act Called id s)) in
      case gk_do kind e of
        Inr response \<Rightarrow> (Inl (Inr response), s\<lparr>ss_adapter := suggest_success (ss_adapter s)\<rparr>)
      | Inl err \<Rightarrow>
          let providerErr = normalizeProviderError err;
              s = s\<lparr>ss_adapter := suggest_failure kind cfg e attempt providerErr (ss_adapter s)\<rparr>
          in if \<not> pe_Retryable providerErr \<or> int attempt = cf_MaxRetries cfg then (Inl (Inl err), s)
             else if pe_Code providerErr = ''PROVIDER_RATE_LIMITED'' then (Inr err, s)
             else (case at_retry_sleep e of Some ctxErr \<Rightarrow> (Inl (Inl ctxErr), s) | None \<Rightarrow> (Inr err, s_others e 3 s)))"

fun suggest_loop :: "'w geocoder_kind \<Rightarrow> Config \<Rightarrow> (nat \<Rightarrow> 'w attempt_env) \<Rightarrow> nat \<Rightarrow> nat \<Rightarrow> go_error option \<Rightarrow> suggest_state
    \<Rightarrow> (go_error + GeoSuggestion list) \<times> suggest_state" where
  "suggest_loop kind cfg env 0 attempt lastErr s = (case lastErr of None \<Rightarrow> (Inr [], s) | Some err \<Rightarrow> (Inl err, s))"
| "suggest_loop kind cfg env (Suc left) attempt lastErr s =
     (case suggest_before (env attempt) s of
        (Some err, s) \<Rightarrow> (Inl err, s)
      | (None, s) \<Rightarrow> (case suggest_after kind cfg (env attempt) attempt s of
            (Inl result, s) \<Rightarrow> (result, s)
          | (Inr err, s) \<Rightarrow> suggest_loop kind cfg env left (Suc attempt) (Some err) s))"

definition geocoder_Suggest :: "'w geocoder_kind \<Rightarrow> Config \<Rightarrow> (nat \<Rightarrow> 'w attempt_env) \<Rightarrow> adapter_state \<Rightarrow> (go_error + GeoSuggestion list) \<times> suggest_state" where
  "geocoder_Suggest kind cfg env a = suggest_loop kind cfg env (nat (cf_MaxRetries cfg + 1)) 0 None \<lparr> ss_adapter = a, ss_trace = [] \<rparr>"

definition yandex_geocoder :: "(string \<Rightarrow> 8 word list) \<Rightarrow> (string \<Rightarrow> time option) \<Rightarrow> int \<Rightarrow> yandexGeoObject list geocoder_kind" where
  "yandex_geocoder sha256 parse_time limit = \<lparr> gk_do = yandex_doGeocode sha256 parse_time limit, gk_credential = (\<lambda>code. code = ''PROVIDER_AUTHENTICATION_FAILED'') \<rparr>"

definition dgis_geocoder :: "(string \<Rightarrow> time option) \<Rightarrow> Config \<Rightarrow> int \<Rightarrow> dgisGeocoderResponse geocoder_kind" where
  "dgis_geocoder parse_time cfg limit = \<lparr> gk_do = dgis_doGeocode parse_time cfg limit, gk_credential = isDGISCredentialAccessError \<rparr>"

text \<open>\<open>Suggest\<close> of the two adapters.\<close>

definition yandex_Suggest :: "(string \<Rightarrow> 8 word list) \<Rightarrow> (string \<Rightarrow> time option) \<Rightarrow> Config \<Rightarrow> (nat \<Rightarrow> yandexGeoObject list attempt_env) \<Rightarrow> int
    \<Rightarrow> adapter_state \<Rightarrow> (go_error + GeoSuggestion list) \<times> suggest_state" where
  "yandex_Suggest sha256 parse_time cfg env limit a =
     (if cf_YandexGeocoderAPIKey cfg = [] then (Inl errUnsupported, \<lparr> ss_adapter = a, ss_trace = [] \<rparr>)
      else geocoder_Suggest (yandex_geocoder sha256 parse_time limit) cfg env a)"

definition dgis_geocoder_Suggest :: "(string \<Rightarrow> time option) \<Rightarrow> Config \<Rightarrow> (nat \<Rightarrow> dgisGeocoderResponse attempt_env) \<Rightarrow> int
    \<Rightarrow> adapter_state \<Rightarrow> (go_error + GeoSuggestion list) \<times> suggest_state" where
  "dgis_geocoder_Suggest parse_time cfg env limit a = geocoder_Suggest (dgis_geocoder parse_time cfg limit) cfg env a"

text \<open>The state of a new geocoder beside the adapter it shares with.\<close>

definition newDGISGeocoder :: "Config \<Rightarrow> adapter_state \<Rightarrow> adapter_state" where
  "newDGISGeocoder cfg a = a\<lparr>ad_breaker := newCircuitBreaker (cf_CircuitBreakerThreshold cfg) (cf_CircuitBreakerOpenDuration cfg),
     ad_rateGate := Some (newSlidingWindowGate (cf_DGISGeocoderRatePerMinute cfg) minute)\<rparr>"

section \<open>Readiness and fallback\<close>

definition resilience_Ready :: "time \<Rightarrow> adapter_state \<Rightarrow> go_error option" where
  "resilience_Ready now a =
     (if credentialFaultLatch_Failed (ad_credentialFault a) then Some errCredentialFault
      else if circuitBreaker_State now (ad_breaker a) = breakerOpen then Some errCircuitOpen else None)"

definition yandex_geocoder_Ready :: "Config \<Rightarrow> time \<Rightarrow> adapter_state \<Rightarrow> go_error option" where
  "yandex_geocoder_Ready cfg now a =
     (if cf_YandexGeocoderAPIKey cfg = [] then Some (OtherError ''credentials for the Yandex geocoder are not configured'') else resilience_Ready now a)"

definition dgis_geocoder_Ready :: "Config \<Rightarrow> time \<Rightarrow> adapter_state \<Rightarrow> go_error option" where
  "dgis_geocoder_Ready cfg now a =
     (if cf_DGISAPIKey cfg = [] then Some (OtherError ''2GIS geocoder credentials are not configured'') else resilience_Ready now a)"

text \<open>\<open>fallbackAddressResolver\<close>: \<open>ctxErr\<close> is the error of the context after the primary geocoder, \<open>Inl\<close> an error. The second component tells
  whether the primary and the fallback were asked.\<close>

definition fallback_Suggest ::
    "go_error option \<Rightarrow> (go_error + GeoSuggestion list) \<Rightarrow> go_error option \<Rightarrow> (go_error + GeoSuggestion list) \<Rightarrow> (go_error + GeoSuggestion list) \<times> bool \<times> bool" where
  "fallback_Suggest primary_ready primary ctxErr fallback =
     (let result = (case primary_ready of None \<Rightarrow> primary | Some e \<Rightarrow> Inl e); asked = (primary_ready = None) in
      case result of
        Inr (suggestion # rest) \<Rightarrow> (result, asked, False)
      | _ \<Rightarrow> (case ctxErr of
          Some e \<Rightarrow> (Inl e, asked, False)
        | None \<Rightarrow> (case fallback of
            Inr suggestions \<Rightarrow> (Inr suggestions, asked, True)
          | Inl e \<Rightarrow> (case result of Inr _ \<Rightarrow> (result, asked, True) | Inl _ \<Rightarrow> (Inl e, asked, True)))))"

definition fallback_Ready :: "go_error option \<Rightarrow> go_error option \<Rightarrow> go_error option" where
  "fallback_Ready primary fallback = (if primary = None then None
     else if fallback \<noteq> None then Some (OtherError ''primary and fallback address resolvers are unavailable'') else None)"

text \<open>\<open>Ready\<close> of the adapters; \<open>address\<close> is the readiness of the geocoder of the 2GIS adapter.\<close>

definition yandex_Ready :: "Config \<Rightarrow> time \<Rightarrow> adapter_state \<Rightarrow> go_error option" where
  "yandex_Ready cfg now a =
     (if cf_YandexAPIKey cfg = [] then Some (OtherError ''provider credentials are not configured'') else resilience_Ready now a)"

definition dgis_Ready :: "Config \<Rightarrow> time \<Rightarrow> adapter_state \<Rightarrow> go_error option \<Rightarrow> go_error option" where
  "dgis_Ready cfg now a address =
     (if cf_DGISAPIKey cfg = [] then Some (OtherError ''provider credentials are not configured'')
      else (case resilience_Ready now a of
          Some e \<Rightarrow> Some e
        | None \<Rightarrow> (case address of Some _ \<Rightarrow> Some (OtherError ''address resolver is not ready'') | None \<Rightarrow> None)))"

definition stub_Ready :: "Config \<Rightarrow> go_error option" where
  "stub_Ready cfg = (if cf_StubScenario cfg = ''outage'' then Some errCircuitOpen else None)"

section \<open>The discipline of an address search\<close>

lemma suggest_gate_cases:
  assumes "suggest_gate e s = (r, s')"
  shows "(r = None \<and> ss_trace s' = ss_trace s) \<or> (r \<noteq> None \<and> ss_trace s' = ss_trace s @ [SlotReleased])"
  using assms by (auto simp: suggest_gate_def Let_def s_release_def s_act_def split: prod.splits if_splits)

lemma suggest_slot_cases:
  assumes "suggest_slot e s = (r, s')"
  shows "(r = None \<and> ss_trace s' = ss_trace s @ [SlotTaken])
    \<or> (r \<noteq> None \<and> (ss_trace s' = ss_trace s \<or> ss_trace s' = ss_trace s @ [SlotTaken, SlotReleased]))"
  using assms by (auto simp: suggest_slot_def s_act_def split: prod.splits option.splits bulkhead_error.splits dest!: suggest_gate_cases)

lemma suggest_before_cases:
  assumes "suggest_before e s = (r, s')"
  shows "(r = None \<and> ss_trace s' = ss_trace s @ [Admitted, SlotTaken]) \<or> (r \<noteq> None \<and> (\<exists>t. trace_tail t \<and> ss_trace s' = ss_trace s @ t))"
proof (cases "sharedCooldown_WaitDuration (at_now e 0) (Some (at_jitter e)) (ad_cooldown (ss_adapter s)) > 0 \<and> at_cooldown_sleep e \<noteq> None")
  case True
  then show ?thesis using assms by (auto simp: suggest_before_def trace_tail_def)
next
  case False
  define s1 where "s1 = s_others e 0 s"
  obtain allowed b where a: "circuitBreaker_Allow (at_now e 1) (ad_breaker (ss_adapter s1)) = (allowed, b)" by fastforce
  define s2 where "s2 = s_others e 1 (s_act Admitted (\<lambda>a. a\<lparr>ad_breaker := b\<rparr>) s1)"
  have trace: "ss_trace s1 = ss_trace s" "ss_trace s2 = ss_trace s @ [Admitted]" by (simp_all add: s1_def s2_def s_others_def s_act_def)
  have "(r, s') = (if allowed then suggest_slot e s2 else (Some errCircuitOpen, s1))"
    using assms False a unfolding suggest_before_def Let_def s1_def [symmetric] by (auto simp: s2_def)
  then show ?thesis
    using suggest_slot_cases [of e s2 r s'] trace by (cases allowed) (auto simp: trace_tail_def)
qed

lemma suggest_after_cases:
  assumes "suggest_after kind cfg e attempt s = (r, s')"
  shows "ss_trace s' = ss_trace s @ [Called, SlotReleased]" "r = Inl (Inr response) \<Longrightarrow> gk_do kind e = Inr response"
proof -
  have "ss_trace (s_release (s_others e 2 (s_act Called id s))) = ss_trace s @ [Called, SlotReleased]"
    by (simp add: s_release_def s_others_def s_act_def)
  then have "ss_trace s' = ss_trace s @ [Called, SlotReleased] \<and> (r = Inl (Inr response) \<longrightarrow> gk_do kind e = Inr response)"
    using assms by (auto simp: suggest_after_def s_others_def Let_def split: sum.splits if_splits option.splits)
  then show "ss_trace s' = ss_trace s @ [Called, SlotReleased]" "r = Inl (Inr response) \<Longrightarrow> gk_do kind e = Inr response" by blast+
qed

lemma suggest_loop_calls:
  assumes "suggest_loop kind cfg env left attempt lastErr s = (result, s')" "ss_trace s = full_calls n" "lastErr \<noteq> None \<or> 0 < left"
  shows "\<exists>m t. n \<le> m \<and> m \<le> n + left \<and> trace_tail t \<and> ss_trace s' = full_calls m @ t
    \<and> (\<forall>response. result = Inr response \<longrightarrow> n < m \<and> t = [] \<and> (\<exists>k. gk_do kind (env k) = Inr response))"
  using assms
proof (induction left arbitrary: attempt lastErr s n)
  case 0
  then show ?case by (intro exI [of _ n] exI [of _ "[]"]) (auto simp: trace_tail_def)
next
  case (Suc left)
  obtain r1 s1 where b: "suggest_before (env attempt) s = (r1, s1)" by fastforce
  show ?case
  proof (cases r1)
    case (Some err)
    then have "result = Inl err" "s' = s1" using Suc.prems(1) b by auto
    moreover obtain t where "trace_tail t" "ss_trace s1 = full_calls n @ t" using suggest_before_cases [OF b] Some Suc.prems(2) by auto
    ultimately show ?thesis by (intro exI [of _ n] exI [of _ t]) simp
  next
    case None
    obtain r2 s2 where a: "suggest_after kind cfg (env attempt) attempt s1 = (r2, s2)" by fastforce
    have s2: "ss_trace s2 = full_calls (Suc n)"
      using suggest_before_cases [OF b] None suggest_after_cases(1) [OF a] Suc.prems(2) full_calls_Suc [of n] by simp
    show ?thesis
    proof (cases r2)
      case (Inr err)
      have "suggest_loop kind cfg env left (Suc attempt) (Some err) s2 = (result, s')" using Suc.prems(1) b a None Inr by simp
      from Suc.IH [OF this s2 disjI1 [OF option.distinct(2)]] obtain m t where mt: "Suc n \<le> m" "m \<le> Suc n + left" "trace_tail t" "ss_trace s' = full_calls m @ t"
        "\<forall>response. result = Inr response \<longrightarrow> Suc n < m \<and> t = [] \<and> (\<exists>k. gk_do kind (env k) = Inr response)" by blast
      moreover from mt(1,2) have "n \<le> m" "m \<le> n + Suc left" "Suc n < m \<Longrightarrow> n < m" by simp_all
      ultimately show ?thesis by blast
    next
      case (Inl res)
      then have "result = res" "s' = s2" using Suc.prems(1) b a None by auto
      moreover have "\<exists>k. gk_do kind (env k) = Inr response" if "res = Inr response" for response
        using suggest_after_cases(2) [OF a, of response] Inl that by auto
      ultimately show ?thesis using s2 by (intro exI [of _ "Suc n"] exI [of _ "[]"]) (simp add: trace_tail_def)
    qed
  qed
qed

text \<open>An address search through a geocoder sends at most one request for each attempt that the retry limit allows, whatever the provider, the clock
  and the requests that share the bulkhead do: the actions are complete calls, each admitted by the breaker with a slot taken before and returned
  after it, and possibly one attempt that ends before its call without keeping a slot; and a success is an answer of the provider.\<close>

theorem geocoder_within_retries:
  assumes "geocoder_Suggest kind cfg env a = (result, s)" "0 \<le> cf_MaxRetries cfg"
  shows "\<exists>calls t. ss_trace s = full_calls calls @ t \<and> trace_tail t \<and> int calls \<le> cf_MaxRetries cfg + 1
    \<and> (\<forall>response. result = Inr response \<longrightarrow> 0 < calls \<and> t = [] \<and> (\<exists>k. gk_do kind (env k) = Inr response))"
proof -
  have "ss_trace \<lparr> ss_adapter = a, ss_trace = [] \<rparr> = full_calls 0" by (simp add: full_calls_def)
  from suggest_loop_calls [OF assms(1) [unfolded geocoder_Suggest_def] this] assms(2) obtain m t where
    "m \<le> nat (cf_MaxRetries cfg + 1)" "trace_tail t" "ss_trace s = full_calls m @ t"
    "\<forall>response. result = Inr response \<longrightarrow> 0 < m \<and> t = [] \<and> (\<exists>k. gk_do kind (env k) = Inr response)" by auto
  with assms(2) show ?thesis by (intro exI [of _ m] exI [of _ t]) (simp add: nat_le_iff)
qed

text \<open>A 2GIS geocoder with an unreachable provider.\<close>

theorem geocoder_within_retries_witness:
  "\<exists>result s calls t. geocoder_Suggest (dgis_geocoder (\<lambda>_. None) ex_config 5) ex_config (ex_env 0 (SendFailed None)) (newDGISGeocoder ex_config (newDGISAdapter ex_config)) = (result, s)
    \<and> ss_trace s = full_calls calls @ t \<and> int calls \<le> cf_MaxRetries ex_config + 1"
proof -
  have retries: "0 \<le> cf_MaxRetries ex_config" using ex_config_valid by (simp add: Config_Validate_def)
  obtain result s where run: "geocoder_Suggest (dgis_geocoder (\<lambda>_. None) ex_config 5) ex_config (ex_env 0 (SendFailed None))
      (newDGISGeocoder ex_config (newDGISAdapter ex_config)) = (result, s)" by fastforce
  from geocoder_within_retries [OF run retries] run show ?thesis by blast
qed

section \<open>What the suggestions are like\<close>

definition suggestion_ok :: "GeoSuggestion \<Rightarrow> bool" where
  "suggestion_ok g \<longleftrightarrow> gs_ID g \<noteq> [] \<and> gs_Label g \<noteq> [] \<and> GeoPoint_Validate (gs_Point g) = None"

lemma parsed_point: "parseGeocoderPoint s = Some p \<Longrightarrow> GeoPoint_Validate p = None"
  by (auto simp: parseGeocoderPoint_def Let_def split: list.splits option.splits if_splits)

lemma yandex_suggestion_ok: "yandex_suggestion sha256 object = Some g \<Longrightarrow> suggestion_ok g"
  by (auto simp: yandex_suggestion_def suggestion_ok_def geocoderSuggestionID_def Let_def parsed_point split: option.splits if_splits)

lemma dgis_suggestion_ok: "dgis_suggestion item = Some g \<Longrightarrow> suggestion_ok g"
  by (auto simp: dgis_suggestion_def suggestion_ok_def Let_def split: option.splits if_splits)

lemma yandex_scan_facts:
  "yandex_scan sha256 seen objects = (gs, n) \<Longrightarrow> distinct (map gs_ID gs) \<and> gs_ID ` set gs \<inter> set seen = {} \<and> list_all suggestion_ok gs"
proof (induction sha256 seen objects arbitrary: gs n rule: yandex_scan.induct)
  case (2 sha256 seen object objects)
  show ?case
  proof (cases "yandex_suggestion sha256 object")
    case None
    then show ?thesis using 2 by (auto split: prod.splits)
  next
    case (Some g)
    show ?thesis
    proof (cases "gs_ID g \<in> set seen")
      case True
      then show ?thesis using 2 Some by simp
    next
      case False
      obtain gs' n' where rest: "yandex_scan sha256 (gs_ID g # seen) objects = (gs', n')" by fastforce
      have gs: "gs = g # gs'" using 2(4) Some False rest by simp
      have ih: "distinct (map gs_ID gs')" "gs_ID ` set gs' \<inter> set (gs_ID g # seen) = {}" "list_all suggestion_ok gs'"
        using 2(3) [OF Some False rest] by blast+
      show ?thesis using ih False yandex_suggestion_ok [OF Some] unfolding gs by auto
    qed
  qed
qed simp

lemma dgis_scan_facts:
  "distinct (map gs_ID (dgis_scan seen items)) \<and> gs_ID ` set (dgis_scan seen items) \<inter> set seen = {} \<and> list_all suggestion_ok (dgis_scan seen items)
    \<and> length (dgis_scan seen items) \<le> length items"
proof (induction seen items rule: dgis_scan.induct)
  case (2 seen item items)
  show ?case
  proof (cases "dgis_suggestion item")
    case None
    then show ?thesis using 2(1) by auto
  next
    case (Some g)
    show ?thesis
    proof (cases "gs_ID g \<in> set seen")
      case True
      then show ?thesis using 2(2) [OF Some True] Some by auto
    next
      case False
      then show ?thesis using 2(3) [OF Some False] Some dgis_suggestion_ok [OF Some] by auto
    qed
  qed
qed simp

definition suggestions_ok :: "int \<Rightarrow> GeoSuggestion list \<Rightarrow> bool" where
  "suggestions_ok limit gs \<longleftrightarrow> int (length gs) \<le> limit \<and> distinct (map gs_ID gs) \<and> list_all suggestion_ok gs"

lemma suggestions_ok_Nil: "0 \<le> limit \<Longrightarrow> suggestions_ok limit []"
  by (simp add: suggestions_ok_def)

lemma geocode_exchange_answered:
  "geocode_exchange who f outcome = Inr gs \<Longrightarrow> \<exists>status retryAfter body. f status retryAfter body = Inr gs"
  by (auto simp: geocode_exchange_def split: http_outcome.splits option.splits)

lemma yandex_geocode_ok:
  assumes "yandex_doGeocode sha256 parse_time limit e = Inr gs" "0 \<le> limit"
  shows "suggestions_ok limit gs"
proof -
  obtain members all where n: "normalizeGeocoderResponse sha256 members = Inr all"
      and gs: "gs = (if int (length all) > limit then take (nat limit) all else all)"
    using geocode_exchange_answered [OF assms(1) [unfolded yandex_doGeocode_def]] by (auto split: if_splits option.splits sum.splits)
  obtain n where "yandex_scan sha256 [] members = (all, n)" using n by (auto simp: normalizeGeocoderResponse_def split: prod.splits if_splits)
  from yandex_scan_facts [OF this] have "distinct (map gs_ID all)" "list_all suggestion_ok all" by simp_all
  then show ?thesis using gs assms(2) by (auto simp: suggestions_ok_def list_all_iff take_map [symmetric] dest: in_set_takeD)
qed

lemma dgis_geocode_ok:
  assumes "dgis_doGeocode parse_time cfg limit e = Inr gs" "0 \<le> limit"
  shows "suggestions_ok limit gs"
proof -
  have "gs = [] \<or> (\<exists>wire. normalizeDGISGeocoder wire limit = Inr gs)"
    using assms(1) by (auto simp: dgis_doGeocode_def split: option.splits if_splits dest!: geocode_exchange_answered)
  moreover have "suggestions_ok limit gs" if "normalizeDGISGeocoder wire limit = Inr gs" for wire
    using that assms(2) dgis_scan_facts [of "[]" "dr_Items wire"]
    by (auto simp: normalizeDGISGeocoder_def suggestions_ok_def split: if_splits)
  ultimately show ?thesis using suggestions_ok_Nil [OF assms(2)] by auto
qed

lemma geocoder_success:
  assumes "geocoder_Suggest kind cfg env a = (Inr gs, s)"
  shows "gs = [] \<or> (\<exists>k. gk_do kind (env k) = Inr gs)"
proof (cases "0 \<le> cf_MaxRetries cfg")
  case True
  have "ss_trace \<lparr> ss_adapter = a, ss_trace = [] \<rparr> = full_calls 0" by (simp add: full_calls_def)
  from suggest_loop_calls [OF assms [unfolded geocoder_Suggest_def] this] True show ?thesis by auto
next
  case False
  then show ?thesis using assms by (simp add: geocoder_Suggest_def)
qed

section \<open>Sources of suggestions\<close>

text \<open>What the service and the edge rely on of an address search: \<open>search\<close> takes what happens during the search, and the limit.\<close>

locale address_source =
  fixes search :: "'i \<Rightarrow> int \<Rightarrow> go_error + GeoSuggestion list"
  assumes answers: "0 \<le> limit \<Longrightarrow> search i limit = Inr gs \<Longrightarrow> suggestions_ok limit gs"
begin

lemma few: "0 \<le> limit \<Longrightarrow> search i limit = Inr gs \<Longrightarrow> int (length gs) \<le> limit"
  using answers by (simp add: suggestions_ok_def)

lemma well_formed: "0 \<le> limit \<Longrightarrow> search i limit = Inr gs \<Longrightarrow> list_all suggestion_ok gs"
  using answers by (simp add: suggestions_ok_def)

end

text \<open>A source behind another one is a source.\<close>

locale address_sources = first_source: address_source search + second_source: address_source search'
  for search :: "'i \<Rightarrow> int \<Rightarrow> go_error + GeoSuggestion list" and search' :: "'j \<Rightarrow> int \<Rightarrow> go_error + GeoSuggestion list"
begin

lemma fallback_answers:
  assumes "0 \<le> limit" "fst (fallback_Suggest ready (search i limit) ctxErr (search' j limit)) = Inr gs"
  shows "suggestions_ok limit gs"
proof -
  have "gs = [] \<or> search i limit = Inr gs \<or> search' j limit = Inr gs"
    using assms(2) by (auto simp: fallback_Suggest_def Let_def split: sum.splits option.splits list.splits)
  then show ?thesis using suggestions_ok_Nil first_source.answers second_source.answers assms(1) by blast
qed

end

definition yandex_search where
  "yandex_search = (\<lambda>(sha256, parse_time, cfg, env, a) limit. fst (yandex_Suggest sha256 parse_time cfg env limit a))"

definition dgis_search where
  "dgis_search = (\<lambda>(parse_time, cfg, env, a) limit. fst (dgis_geocoder_Suggest parse_time cfg env limit a))"

interpretation yandex_addresses: address_source yandex_search
proof
  fix limit i gs
  assume "0 \<le> (limit :: int)" "yandex_search i limit = Inr gs"
  obtain sha256 parse_time cfg env a where i: "i = (sha256, parse_time, cfg, env, a)" by (metis prod_cases5)
  obtain result s where run: "yandex_Suggest sha256 parse_time cfg env limit a = (result, s)" by fastforce
  have "result = Inr gs" using \<open>yandex_search i limit = Inr gs\<close> by (simp add: yandex_search_def i run)
  with run have "geocoder_Suggest (yandex_geocoder sha256 parse_time limit) cfg env a = (Inr gs, s)" by (simp add: yandex_Suggest_def split: if_splits)
  from geocoder_success [OF this] show "suggestions_ok limit gs"
    using yandex_geocode_ok suggestions_ok_Nil \<open>0 \<le> limit\<close> by (auto simp: yandex_geocoder_def)
qed

interpretation dgis_addresses: address_source dgis_search
proof
  fix limit i gs
  assume "0 \<le> (limit :: int)" "dgis_search i limit = Inr gs"
  obtain parse_time cfg env a where i: "i = (parse_time, cfg, env, a)" by (metis prod_cases4)
  obtain result s where run: "dgis_geocoder_Suggest parse_time cfg env limit a = (result, s)" by fastforce
  have "result = Inr gs" using \<open>dgis_search i limit = Inr gs\<close> by (simp add: dgis_search_def i run)
  with run have "geocoder_Suggest (dgis_geocoder parse_time cfg limit) cfg env a = (Inr gs, s)" by (simp add: dgis_geocoder_Suggest_def)
  from geocoder_success [OF this] show "suggestions_ok limit gs"
    using dgis_geocode_ok suggestions_ok_Nil \<open>0 \<le> limit\<close> by (auto simp: dgis_geocoder_def)
qed

interpretation both_addresses: address_sources yandex_search dgis_search ..

end
