(* ===== verification/ProviderConfig.thy ===== *)
theory ProviderConfig
  imports ProviderService Environment
begin

text \<open>
  The environment of the provider service (\<open>services/provider-yandex/config.go\<close>): its readers, which turn what they cannot read into values that the
  checks must refuse, \<open>LoadConfig\<close> with all its defaults, and what an accepted configuration guarantees. The parser of durations is an argument.
\<close>

section \<open>Readers\<close>

text \<open>\<open>envString\<close> is \<^const>\<open>env\<close>, and \<open>envBool\<close> is \<^const>\<open>envBool\<close>.\<close>

fun firstNonEmptySecret :: "(string \<Rightarrow> string) \<Rightarrow> string list \<Rightarrow> string" where
  "firstNonEmptySecret getenv [] = []"
| "firstNonEmptySecret getenv (name # names) =
     (let value = trim_space (getenv name) in if value \<noteq> [] then value else firstNonEmptySecret getenv names)"

text \<open>The common body of \<open>envDuration\<close>, \<open>envInt\<close>, \<open>envInt64\<close> and \<open>envFloat\<close>: the value for a text that is not a number.\<close>

definition env_or :: "'a \<Rightarrow> (string \<Rightarrow> 'a option) \<Rightarrow> (string \<Rightarrow> string) \<Rightarrow> string \<Rightarrow> 'a \<Rightarrow> 'a" where
  "env_or unreadable parse getenv name fallback =
     (let value = trim_space (getenv name) in
      if value = [] then fallback else (case parse value of None \<Rightarrow> unreadable | Some parsed \<Rightarrow> parsed))"

definition provider_envDuration :: "(string \<Rightarrow> duration option) \<Rightarrow> (string \<Rightarrow> string) \<Rightarrow> string \<Rightarrow> duration \<Rightarrow> duration" where
  "provider_envDuration = env_or (- 1)"

definition provider_envInt :: "(string \<Rightarrow> string) \<Rightarrow> string \<Rightarrow> int \<Rightarrow> int" where
  "provider_envInt = env_or (- 1) ParseInt"

definition provider_envInt64 :: "(string \<Rightarrow> string) \<Rightarrow> string \<Rightarrow> int \<Rightarrow> int" where
  "provider_envInt64 = env_or (- 1) ParseInt"

definition provider_envFloat :: "(string \<Rightarrow> string) \<Rightarrow> string \<Rightarrow> f64 \<Rightarrow> f64" where
  "provider_envFloat = env_or NaN ParseFloat"

section \<open>LoadConfig\<close>

definition defaultDGISGeocoderLocationBias :: string where
  "defaultDGISGeocoderLocationBias = ''37.617635,55.755814''"

text \<open>The composite literal; the three flags are read after it.\<close>

definition provider_literal :: "(string \<Rightarrow> duration option) \<Rightarrow> (string \<Rightarrow> string) \<Rightarrow> string \<Rightarrow> Config" where
  "provider_literal parse_duration getenv environment =
     (let number = provider_envInt getenv; interval = provider_envDuration parse_duration getenv; milli = 10 ^ 6; word = (\<lambda>name d. to_lower (env getenv name d)) in \<lparr>
        cf_Environment = environment, cf_HTTPAddr = env getenv ''PROVIDER_ADDR'' (env getenv ''HTTP_ADDR'' '':8082''),
        cf_InternalAPIToken = trim_space (getenv ''INTERNAL_API_TOKEN''), cf_ProviderMode = word ''PROVIDER_MODE'' providerModeYandex,
        cf_AddressProviderMode = word ''ADDRESS_PROVIDER_MODE'' addressProviderAuto,
        cf_YandexAPIKey = firstNonEmptySecret getenv [''YANDEX_ROUTER_API_KEY'', ''YANDEX_API_KEY''],
        cf_YandexRouterBaseURL = env getenv ''YANDEX_ROUTER_BASE_URL'' ''https://api.routing.yandex.net'',
        cf_YandexGeocoderAPIKey = firstNonEmptySecret getenv [''YANDEX_GEOCODER_API_KEY'', ''YANDEX_ROUTER_API_KEY'', ''YANDEX_API_KEY''],
        cf_YandexGeocoderBaseURL = env getenv ''YANDEX_GEOCODER_BASE_URL'' ''https://geocode-maps.yandex.ru'',
        cf_YandexMaxResults = number ''YANDEX_MAX_RESULTS'' 3,
        cf_DGISAPIKey = firstNonEmptySecret getenv [''DGIS_API_KEY''],
        cf_DGISRoutingBaseURL = env getenv ''DGIS_ROUTING_BASE_URL'' ''https://routing.api.2gis.com'',
        cf_DGISMaxResults = number ''DGIS_MAX_RESULTS'' 3,
        cf_DGISRateLimitPerMinute = number ''DGIS_RATE_LIMIT_PER_MINUTE'' 12,
        cf_DGISMonthlyLimit = number ''DGIS_MONTHLY_LIMIT'' 1000,
        cf_DGISGeocoderRatePerMinute = number ''DGIS_GEOCODER_RATE_LIMIT_PER_MINUTE'' 600,
        cf_DGISGeocoderLocationBias = env getenv ''DGIS_GEOCODER_LOCATION_BIAS'' defaultDGISGeocoderLocationBias,
        cf_ConnectTimeout = interval ''PROVIDER_CONNECT_TIMEOUT'' (500 * milli),
        cf_RequestTimeout = interval ''PROVIDER_REQUEST_TIMEOUT'' (2500 * milli),
        cf_ResponseHeaderTimeout = interval ''PROVIDER_RESPONSE_HEADER_TIMEOUT'' (seconds 2),
        cf_BulkheadWaitTimeout = interval ''PROVIDER_BULKHEAD_WAIT_TIMEOUT'' (100 * milli),
        cf_MaxRetries = number ''PROVIDER_MAX_RETRIES'' 2,
        cf_RetryBaseDelay = interval ''PROVIDER_RETRY_BASE_DELAY'' (100 * milli),
        cf_RetryMaxDelay = interval ''PROVIDER_RETRY_MAX_DELAY'' (seconds 1),
        cf_MaxConcurrency = number ''PROVIDER_MAX_CONCURRENCY'' 32,
        cf_CircuitBreakerThreshold = number ''PROVIDER_CB_FAILURE_THRESHOLD'' 5,
        cf_CircuitBreakerOpenDuration = interval ''PROVIDER_CB_OPEN_DURATION'' (seconds 30),
        cf_ShutdownTimeout = interval ''PROVIDER_SHUTDOWN_TIMEOUT'' (seconds 10),
        cf_MaxRequestBodyBytes = provider_envInt64 getenv ''PROVIDER_MAX_REQUEST_BODY_BYTES'' (128 * 1024),
        cf_MaxProviderResponseBytes = provider_envInt64 getenv ''PROVIDER_MAX_RESPONSE_BYTES'' (4 * 1048576),
        cf_ProviderCostPerBillableUnit = provider_envFloat getenv ''PROVIDER_COST_PER_BILLABLE_UNIT'' 0,
        cf_ProviderDataStorageAllowed = False, cf_ProviderDataModificationOK = False, cf_ExperimentalSourcesRequested = False,
        cf_StubScenario = word ''PROVIDER_STUB_SCENARIO'' ''normal'', cf_StubDelay = interval ''PROVIDER_STUB_DELAY'' (seconds 4) \<rparr>)"

datatype load_error = EnvironmentUnknown | FlagUnreadable string | ConfigInvalid config_error

definition provider_LoadConfig :: "(string \<Rightarrow> duration option) \<Rightarrow> (string \<Rightarrow> string) \<Rightarrow> load_error + Config" where
  "provider_LoadConfig parse_duration getenv = (case parseProviderEnvironment (getenv ''APP_ENV'') of
     None \<Rightarrow> Inl EnvironmentUnknown
   | Some environment \<Rightarrow>
      let cfg = provider_literal parse_duration getenv environment in
      (case envBool getenv ''PROVIDER_DATA_STORAGE_ALLOWED'' False of Inl e \<Rightarrow> Inl (FlagUnreadable e) | Inr storage \<Rightarrow>
      (case envBool getenv ''PROVIDER_DATA_MODIFICATION_ALLOWED'' False of Inl e \<Rightarrow> Inl (FlagUnreadable e) | Inr modification \<Rightarrow>
      (case envBool getenv ''ALLOW_EXPERIMENTAL_PROVIDER_SOURCES'' False of Inl e \<Rightarrow> Inl (FlagUnreadable e) | Inr experimental \<Rightarrow>
        let cfg = cfg\<lparr>cf_ProviderDataStorageAllowed := storage, cf_ProviderDataModificationOK := modification,
          cf_ExperimentalSourcesRequested := experimental\<rparr>
        in (case Config_Validate cfg of Some e \<Rightarrow> Inl (ConfigInvalid e) | None \<Rightarrow> Inr cfg)))))"

section \<open>What an accepted configuration guarantees\<close>

definition readable :: "(string \<Rightarrow> 'a option) \<Rightarrow> (string \<Rightarrow> string) \<Rightarrow> string \<Rightarrow> bool" where
  "readable parse getenv name \<longleftrightarrow> trim_space (getenv name) = [] \<or> parse (trim_space (getenv name)) \<noteq> None"

lemma unreadable_value: "\<not> readable parse getenv name \<Longrightarrow> env_or unreadable parse getenv name fallback = unreadable"
  by (auto simp: readable_def env_or_def Let_def split: option.splits)

definition provider_numbers :: "string list" where
  "provider_numbers = [''YANDEX_MAX_RESULTS'', ''DGIS_MAX_RESULTS'', ''DGIS_RATE_LIMIT_PER_MINUTE'', ''DGIS_MONTHLY_LIMIT'',
     ''DGIS_GEOCODER_RATE_LIMIT_PER_MINUTE'', ''PROVIDER_MAX_RETRIES'', ''PROVIDER_MAX_CONCURRENCY'', ''PROVIDER_CB_FAILURE_THRESHOLD'',
     ''PROVIDER_MAX_REQUEST_BODY_BYTES'', ''PROVIDER_MAX_RESPONSE_BYTES'']"

definition provider_intervals :: "string list" where
  "provider_intervals = [''PROVIDER_CONNECT_TIMEOUT'', ''PROVIDER_REQUEST_TIMEOUT'', ''PROVIDER_RESPONSE_HEADER_TIMEOUT'', ''PROVIDER_BULKHEAD_WAIT_TIMEOUT'',
     ''PROVIDER_RETRY_BASE_DELAY'', ''PROVIDER_RETRY_MAX_DELAY'', ''PROVIDER_CB_OPEN_DURATION'', ''PROVIDER_SHUTDOWN_TIMEOUT'', ''PROVIDER_STUB_DELAY'']"

lemma loaded:
  assumes "provider_LoadConfig parse_duration getenv = Inr cfg"
  obtains environment storage modification experimental where
    "cfg = (provider_literal parse_duration getenv environment)\<lparr>cf_ProviderDataStorageAllowed := storage, cf_ProviderDataModificationOK := modification,
       cf_ExperimentalSourcesRequested := experimental\<rparr>"
    "Config_Validate cfg = None" "parseProviderEnvironment (getenv ''APP_ENV'') = Some environment"
  using assms by (auto simp: provider_LoadConfig_def Let_def split: option.splits sum.splits)

text \<open>The value that stands for an unreadable text fails the checks, field by field.\<close>

lemma valid_numbers:
  assumes "Config_Validate cfg = None"
  shows "cf_YandexMaxResults cfg \<noteq> - 1" "cf_DGISMaxResults cfg \<noteq> - 1" "cf_DGISRateLimitPerMinute cfg \<noteq> - 1" "cf_DGISMonthlyLimit cfg \<noteq> - 1"
    "cf_DGISGeocoderRatePerMinute cfg \<noteq> - 1" "cf_MaxRetries cfg \<noteq> - 1" "cf_MaxConcurrency cfg \<noteq> - 1" "cf_CircuitBreakerThreshold cfg \<noteq> - 1"
    "cf_MaxRequestBodyBytes cfg \<noteq> - 1" "cf_MaxProviderResponseBytes cfg \<noteq> - 1"
  using assms by (auto simp: Config_Validate_def)

lemma valid_intervals:
  assumes "Config_Validate cfg = None"
  shows "cf_ConnectTimeout cfg \<noteq> - 1" "cf_RequestTimeout cfg \<noteq> - 1" "cf_ResponseHeaderTimeout cfg \<noteq> - 1" "cf_BulkheadWaitTimeout cfg \<noteq> - 1"
    "cf_RetryBaseDelay cfg \<noteq> - 1" "cf_RetryMaxDelay cfg \<noteq> - 1" "cf_CircuitBreakerOpenDuration cfg \<noteq> - 1" "cf_ShutdownTimeout cfg \<noteq> - 1"
    "cf_StubDelay cfg \<noteq> - 1" "\<not> is_nan (cf_ProviderCostPerBillableUnit cfg)"
  using assms by (auto simp: Config_Validate_def)

lemma unreadable_fields:
  fixes parse_duration getenv environment
  defines "c \<equiv> provider_literal parse_duration getenv environment"
  shows "\<not> readable ParseInt getenv ''YANDEX_MAX_RESULTS'' \<Longrightarrow> cf_YandexMaxResults c = - 1"
    "\<not> readable ParseInt getenv ''DGIS_MAX_RESULTS'' \<Longrightarrow> cf_DGISMaxResults c = - 1"
    "\<not> readable ParseInt getenv ''DGIS_RATE_LIMIT_PER_MINUTE'' \<Longrightarrow> cf_DGISRateLimitPerMinute c = - 1"
    "\<not> readable ParseInt getenv ''DGIS_MONTHLY_LIMIT'' \<Longrightarrow> cf_DGISMonthlyLimit c = - 1"
    "\<not> readable ParseInt getenv ''DGIS_GEOCODER_RATE_LIMIT_PER_MINUTE'' \<Longrightarrow> cf_DGISGeocoderRatePerMinute c = - 1"
    "\<not> readable ParseInt getenv ''PROVIDER_MAX_RETRIES'' \<Longrightarrow> cf_MaxRetries c = - 1"
    "\<not> readable ParseInt getenv ''PROVIDER_MAX_CONCURRENCY'' \<Longrightarrow> cf_MaxConcurrency c = - 1"
    "\<not> readable ParseInt getenv ''PROVIDER_CB_FAILURE_THRESHOLD'' \<Longrightarrow> cf_CircuitBreakerThreshold c = - 1"
    "\<not> readable ParseInt getenv ''PROVIDER_MAX_REQUEST_BODY_BYTES'' \<Longrightarrow> cf_MaxRequestBodyBytes c = - 1"
    "\<not> readable ParseInt getenv ''PROVIDER_MAX_RESPONSE_BYTES'' \<Longrightarrow> cf_MaxProviderResponseBytes c = - 1"
    "\<not> readable parse_duration getenv ''PROVIDER_CONNECT_TIMEOUT'' \<Longrightarrow> cf_ConnectTimeout c = - 1"
    "\<not> readable parse_duration getenv ''PROVIDER_REQUEST_TIMEOUT'' \<Longrightarrow> cf_RequestTimeout c = - 1"
    "\<not> readable parse_duration getenv ''PROVIDER_RESPONSE_HEADER_TIMEOUT'' \<Longrightarrow> cf_ResponseHeaderTimeout c = - 1"
    "\<not> readable parse_duration getenv ''PROVIDER_BULKHEAD_WAIT_TIMEOUT'' \<Longrightarrow> cf_BulkheadWaitTimeout c = - 1"
    "\<not> readable parse_duration getenv ''PROVIDER_RETRY_BASE_DELAY'' \<Longrightarrow> cf_RetryBaseDelay c = - 1"
    "\<not> readable parse_duration getenv ''PROVIDER_RETRY_MAX_DELAY'' \<Longrightarrow> cf_RetryMaxDelay c = - 1"
    "\<not> readable parse_duration getenv ''PROVIDER_CB_OPEN_DURATION'' \<Longrightarrow> cf_CircuitBreakerOpenDuration c = - 1"
    "\<not> readable parse_duration getenv ''PROVIDER_SHUTDOWN_TIMEOUT'' \<Longrightarrow> cf_ShutdownTimeout c = - 1"
    "\<not> readable parse_duration getenv ''PROVIDER_STUB_DELAY'' \<Longrightarrow> cf_StubDelay c = - 1"
    "\<not> readable ParseFloat getenv ''PROVIDER_COST_PER_BILLABLE_UNIT'' \<Longrightarrow> cf_ProviderCostPerBillableUnit c = NaN"
  unfolding c_def provider_literal_def Let_def
  by (simp_all add: unreadable_value provider_envInt_def provider_envInt64_def provider_envDuration_def provider_envFloat_def)

text \<open>What the checks fix: the hosts, and in production the credential and the mode.\<close>

lemma valid_hosts:
  assumes "Config_Validate cfg = None"
  shows "cf_YandexRouterBaseURL cfg = ''https://api.routing.yandex.net''" "cf_YandexGeocoderBaseURL cfg = ''https://geocode-maps.yandex.ru''"
    "cf_DGISRoutingBaseURL cfg \<in> {[], ''https://routing.api.2gis.com''}"
  using assms by (auto simp: Config_Validate_def)

lemma valid_production:
  assumes "Config_Validate cfg = None" "cf_Environment cfg = ''production''"
  shows "32 \<le> length (cf_InternalAPIToken cfg)" "cf_ProviderMode cfg \<noteq> providerModeStub"
  using assms by (auto simp: Config_Validate_def)

text \<open>C39: A configuration that the provider service accepts passes all its checks, and no variable that it could not read has slipped through: although
  the readers turn such a variable into a number or a duration of -1, or into NaN, instead of reporting it, each field's check excludes that
  value. The hosts are the fixed ones, and in production the credential has at least 32 bytes and the stub is off.\<close>

theorem provider_config_safe:
  assumes "provider_LoadConfig parse_duration getenv = Inr cfg"
  shows "Config_Validate cfg = None
    \<and> list_all (readable ParseInt getenv) provider_numbers \<and> list_all (readable parse_duration getenv) provider_intervals
    \<and> readable ParseFloat getenv ''PROVIDER_COST_PER_BILLABLE_UNIT''
    \<and> cf_YandexRouterBaseURL cfg = ''https://api.routing.yandex.net'' \<and> cf_YandexGeocoderBaseURL cfg = ''https://geocode-maps.yandex.ru''
    \<and> cf_DGISRoutingBaseURL cfg \<in> {[], ''https://routing.api.2gis.com''}
    \<and> (parseProviderEnvironment (getenv ''APP_ENV'') = Some ''production'' \<longrightarrow> 32 \<le> length (cf_InternalAPIToken cfg) \<and> cf_ProviderMode cfg \<noteq> providerModeStub)"
proof -
  obtain environment storage modification experimental where cfg: "cfg = (provider_literal parse_duration getenv environment)
      \<lparr>cf_ProviderDataStorageAllowed := storage, cf_ProviderDataModificationOK := modification, cf_ExperimentalSourcesRequested := experimental\<rparr>"
    and valid: "Config_Validate cfg = None" and environment: "parseProviderEnvironment (getenv ''APP_ENV'') = Some environment"
    by (rule loaded [OF assms])
  let ?c = "provider_literal parse_duration getenv environment"
  have numbers: "cf_YandexMaxResults cfg = cf_YandexMaxResults ?c" "cf_DGISMaxResults cfg = cf_DGISMaxResults ?c" "cf_DGISRateLimitPerMinute cfg = cf_DGISRateLimitPerMinute ?c"
      "cf_DGISMonthlyLimit cfg = cf_DGISMonthlyLimit ?c" "cf_DGISGeocoderRatePerMinute cfg = cf_DGISGeocoderRatePerMinute ?c" "cf_MaxRetries cfg = cf_MaxRetries ?c"
      "cf_MaxConcurrency cfg = cf_MaxConcurrency ?c" "cf_CircuitBreakerThreshold cfg = cf_CircuitBreakerThreshold ?c" "cf_MaxRequestBodyBytes cfg = cf_MaxRequestBodyBytes ?c"
      "cf_MaxProviderResponseBytes cfg = cf_MaxProviderResponseBytes ?c"
    by (simp_all add: cfg)
  have counts: "list_all (readable ParseInt getenv) provider_numbers"
    unfolding provider_numbers_def list.pred_inject
    using valid_numbers [OF valid, unfolded numbers] unreadable_fields(1-10) [of getenv parse_duration environment] by (blast intro: list.pred_inject(1))
  have intervals: "cf_ConnectTimeout cfg = cf_ConnectTimeout ?c" "cf_RequestTimeout cfg = cf_RequestTimeout ?c" "cf_ResponseHeaderTimeout cfg = cf_ResponseHeaderTimeout ?c"
      "cf_BulkheadWaitTimeout cfg = cf_BulkheadWaitTimeout ?c" "cf_RetryBaseDelay cfg = cf_RetryBaseDelay ?c" "cf_RetryMaxDelay cfg = cf_RetryMaxDelay ?c"
      "cf_CircuitBreakerOpenDuration cfg = cf_CircuitBreakerOpenDuration ?c" "cf_ShutdownTimeout cfg = cf_ShutdownTimeout ?c" "cf_StubDelay cfg = cf_StubDelay ?c"
      "cf_ProviderCostPerBillableUnit cfg = cf_ProviderCostPerBillableUnit ?c"
    by (simp_all add: cfg)
  have waits: "list_all (readable parse_duration getenv) provider_intervals"
    unfolding provider_intervals_def list.pred_inject
    using valid_intervals(1-9) [OF valid, unfolded intervals] unreadable_fields(11-19) [of parse_duration getenv environment] by (blast intro: list.pred_inject(1))
  have cost: "readable ParseFloat getenv ''PROVIDER_COST_PER_BILLABLE_UNIT''"
    using valid_intervals(10) [OF valid, unfolded intervals] unreadable_fields(20) [of getenv parse_duration environment] by (auto simp: is_nan_def)
  have "cf_Environment cfg = environment" by (simp add: cfg provider_literal_def Let_def)
  then show ?thesis using valid waits counts cost valid_hosts [OF valid] valid_production [OF valid] environment by simp
qed

text \<open>An environment for 2GIS in production.\<close>

definition ex_getenv :: "string \<Rightarrow> string" where
  "ex_getenv name = (if name = ''APP_ENV'' then ''production'' else if name = ''INTERNAL_API_TOKEN'' then ''0123456789abcdef0123456789abcdef''
     else if name = ''PROVIDER_MODE'' then ''2GIS'' else if name = ''DGIS_API_KEY'' then ''key'' else if name = ''DGIS_MAX_RESULTS'' then ''2'' else [])"

theorem provider_config_safe_witness:
  "\<exists>cfg. provider_LoadConfig (\<lambda>_. None) ex_getenv = Inr cfg \<and> 32 \<le> length (cf_InternalAPIToken cfg) \<and> cf_DGISMaxResults cfg = 2"
proof -
  have texts: "trim_space [] = []" "trim_space ''0123456789abcdef0123456789abcdef'' = ''0123456789abcdef0123456789abcdef''" "trim_space ''2GIS'' = ''2GIS''"
    "trim_space ''key'' = ''key''" "trim_space ''2'' = ''2''" by code_simp+
  have parsed: "to_lower ''2GIS'' = ''2gis''" "to_lower ''normal'' = ''normal''" "to_lower ''auto'' = ''auto''" "ParseInt ''2'' = Some 2"
    "parseProviderEnvironment ''production'' = Some ''production''" "normalizeDGISLocationBias defaultDGISGeocoderLocationBias = None" by code_simp+
  note readers = env_def env_or_def envBool_def env_parsed_def provider_envInt_def provider_envInt64_def provider_envDuration_def provider_envFloat_def
  let ?c = "provider_literal (\<lambda>_. None) ex_getenv ''production''"
  let ?d = "?c\<lparr>cf_ProviderDataStorageAllowed := False, cf_ProviderDataModificationOK := False, cf_ExperimentalSourcesRequested := False\<rparr>"
  have fields: "cf_Environment ?c = ''production''" "cf_InternalAPIToken ?c = ''0123456789abcdef0123456789abcdef''" "cf_ProviderMode ?c = ''2gis''"
    "cf_AddressProviderMode ?c = ''auto''" "cf_YandexRouterBaseURL ?c = ''https://api.routing.yandex.net''" "cf_DGISAPIKey ?c = ''key''"
    "cf_YandexGeocoderBaseURL ?c = ''https://geocode-maps.yandex.ru''" "cf_DGISRoutingBaseURL ?c = ''https://routing.api.2gis.com''"
    "cf_DGISGeocoderLocationBias ?c = defaultDGISGeocoderLocationBias" "cf_StubScenario ?c = ''normal''"
    by (simp_all add: provider_literal_def ex_getenv_def env_def Let_def texts parsed mode_names)
  have amounts: "cf_YandexMaxResults ?c = 3" "cf_DGISMaxResults ?c = 2" "cf_DGISRateLimitPerMinute ?c = 12" "cf_DGISMonthlyLimit ?c = 1000"
    "cf_DGISGeocoderRatePerMinute ?c = 600" "cf_ConnectTimeout ?c = 500000000" "cf_RequestTimeout ?c = 2500000000" "cf_ResponseHeaderTimeout ?c = 2000000000"
    "cf_BulkheadWaitTimeout ?c = 100000000" "cf_MaxRetries ?c = 2" "cf_RetryBaseDelay ?c = 100000000" "cf_RetryMaxDelay ?c = 1000000000"
    "cf_MaxConcurrency ?c = 32" "cf_CircuitBreakerThreshold ?c = 5" "cf_CircuitBreakerOpenDuration ?c = 30000000000" "cf_ShutdownTimeout ?c = 10000000000"
    "cf_MaxRequestBodyBytes ?c = 131072" "cf_MaxProviderResponseBytes ?c = 4194304" "cf_ProviderCostPerBillableUnit ?c = 0" "cf_StubDelay ?c = 4000000000"
    by (simp_all add: provider_literal_def ex_getenv_def readers Let_def texts parsed seconds_def)
  have valid: "Config_Validate ?d = None"
    by (simp add: Config_Validate_def fields amounts parsed mode_names is_nan_def is_inf_def zero_f64_def)
  have flags: "envBool ex_getenv ''PROVIDER_DATA_STORAGE_ALLOWED'' False = Inr False" "envBool ex_getenv ''PROVIDER_DATA_MODIFICATION_ALLOWED'' False = Inr False"
    "envBool ex_getenv ''ALLOW_EXPERIMENTAL_PROVIDER_SOURCES'' False = Inr False" "ex_getenv ''APP_ENV'' = ''production''"
    by (simp_all add: ex_getenv_def readers Let_def texts)
  have "provider_LoadConfig (\<lambda>_. None) ex_getenv = Inr ?d"
    by (simp add: provider_LoadConfig_def Let_def flags parsed valid)
  moreover have "cf_DGISMaxResults ?d = 2" by (simp add: amounts)
  ultimately obtain cfg where cfg: "provider_LoadConfig (\<lambda>_. None) ex_getenv = Inr cfg" "cf_DGISMaxResults cfg = 2" by blast
  have "parseProviderEnvironment (ex_getenv ''APP_ENV'') = Some ''production''" by code_simp
  with provider_config_safe [OF cfg(1)] cfg show ?thesis by simp
qed

end
