(* ===== verification/ProviderServer.thy ===== *)
theory ProviderServer
  imports Geocoder ProviderConfig Httpx
begin

text \<open>
  The HTTP handlers of the provider service (\<open>services/provider-yandex/server.go\<close>) in front of any provider: the internal credential, readiness,
  capabilities, routes and address search. The provider, with its state, and the JSON decoder are arguments; metrics, logs and the recovery from
  panics are left out.
\<close>

section \<open>Answers\<close>

datatype provider_body = ErrorBody string string string bool | MethodBody | StatusBody string | MetricsBody
  | NotFoundBody
  | CapabilitiesBody providerCapabilitiesDocument | RoutesBody ProviderRouteResponse | SuggestBody "GeoSuggestion list"

record provider_reply =
  vs_Status :: int
  vs_Headers :: "(string \<times> string) list"
  vs_Body :: provider_body

definition provider_writeJSON :: "(string \<times> string) list \<Rightarrow> int \<Rightarrow> provider_body \<Rightarrow> provider_reply" where
  "provider_writeJSON headers status body =
     \<lparr> vs_Status = status, vs_Headers = headers @ [(''Content-Type'', ''application/json; charset=utf-8'')], vs_Body = body \<rparr>"

text \<open>\<open>time.Duration.Seconds\<close>.\<close>

definition Duration_Seconds :: "duration \<Rightarrow> f64" where
  "Duration_Seconds d = of_i64 (quot64 d (10 ^ 9)) + of_i64 (d - quot64 d (10 ^ 9) * 10 ^ 9) / of_i64 (10 ^ 9)"

text \<open>\<open>writeError\<close> of a \<open>providerError\<close>, with the headers set before.\<close>

definition provider_writeError :: "(string \<times> string) list \<Rightarrow> string \<Rightarrow> go_error \<Rightarrow> provider_reply" where
  "provider_writeError headers requestID err =
     (let status = (if pe_HTTPStatus err = 0 then 500 else pe_HTTPStatus err);
          seconds = (if pe_RetryAfter err > 0 then to_i64 (fceil (Duration_Seconds (pe_RetryAfter err))) else 0);
          retry = (if seconds > 0 then [(''Retry-After'', show_int seconds)] else [])
      in provider_writeJSON (headers @ retry) status (ErrorBody requestID (pe_Code err) (pe_Message err) (pe_Retryable err)))"

definition refusal :: "string \<Rightarrow> string \<Rightarrow> int \<Rightarrow> go_error" where
  "refusal code message status = serviceError code message status False None"

section \<open>The internal credential\<close>

definition authorized :: "Config \<Rightarrow> http_request \<Rightarrow> bool" where
  "authorized cfg r \<longleftrightarrow> cf_InternalAPIToken cfg = [] \<or> hr_Header r ''Authorization'' = ''Bearer '' @ cf_InternalAPIToken cfg"

text \<open>\<open>newRequestID\<close> from twelve bytes of the random source.\<close>

definition newRequestID :: "8 word list \<Rightarrow> string" where
  "newRequestID bytes = ''req-'' @ hex_encode bytes"

definition incoming_id :: "8 word list \<Rightarrow> http_request \<Rightarrow> string" where
  "incoming_id rand r = (let requestID = trim_space (hr_Header r ''X-Request-ID'') in
     if requestIDPattern requestID then requestID else newRequestID rand)"

definition common_headers :: "string \<Rightarrow> (string \<times> string) list" where
  "common_headers requestID = [(''X-Request-ID'', requestID), (''X-Content-Type-Options'', ''nosniff''), (''Cache-Control'', ''no-store''),
     (''Referrer-Policy'', ''no-referrer'')]"

text \<open>\<open>middleware\<close>: \<open>next\<close> gets the headers and the request id.\<close>

definition provider_middleware ::
    "Config \<Rightarrow> 8 word list \<Rightarrow> http_request \<Rightarrow> ((string \<times> string) list \<Rightarrow> string \<Rightarrow> 's \<Rightarrow> provider_reply \<times> 's) \<Rightarrow> 's \<Rightarrow> provider_reply \<times> 's" where
  "provider_middleware cfg rand r handler s =
     (let requestID = incoming_id rand r; headers = common_headers requestID in
      if prefix ''/internal/'' (hr_Path r) \<and> \<not> authorized cfg r
      then (provider_writeError (headers @ [(''WWW-Authenticate'', ''Bearer'')]) requestID
             (refusal ''UNAUTHORIZED'' ''valid internal service credentials are required'' 401), s)
      else handler headers requestID s)"

section \<open>Handlers\<close>

text \<open>The interface \<open>Provider\<close>; \<open>'s\<close> is the state of the adapter, with the contexts of its calls.\<close>

record 's Provider =
  pv_Routes :: "ProviderRouteRequest \<Rightarrow> 's \<Rightarrow> (go_error + ProviderRouteResponse) \<times> 's"
  pv_Suggest :: "string \<Rightarrow> string \<Rightarrow> int \<Rightarrow> 's \<Rightarrow> (go_error + GeoSuggestion list) \<times> 's"
  pv_Capabilities :: providerCapabilitiesDocument
  pv_Ready :: "'s \<Rightarrow> go_error option"

definition requireMethod :: "http_request \<Rightarrow> string \<Rightarrow> (string \<times> string) list \<Rightarrow> provider_reply option" where
  "requireMethod r expected headers = (if hr_Method r = expected then None else Some (provider_writeJSON (headers @ [(''Allow'', expected)]) 405 MethodBody))"

definition handleLive :: "http_request \<Rightarrow> (string \<times> string) list \<Rightarrow> provider_reply" where
  "handleLive r headers = (case requireMethod r ''GET'' headers of Some w \<Rightarrow> w | None \<Rightarrow> provider_writeJSON headers 200 (StatusBody ''ok''))"

definition handleReady :: "'s Provider \<Rightarrow> http_request \<Rightarrow> (string \<times> string) list \<Rightarrow> 's \<Rightarrow> provider_reply" where
  "handleReady provider r headers s = (case requireMethod r ''GET'' headers of
     Some w \<Rightarrow> w
   | None \<Rightarrow> (case pv_Ready provider s of
       Some _ \<Rightarrow> provider_writeJSON headers 503 (StatusBody ''not_ready'')
     | None \<Rightarrow> provider_writeJSON headers 200 (StatusBody ''ready'')))"

definition handleMetrics :: "http_request \<Rightarrow> (string \<times> string) list \<Rightarrow> provider_reply" where
  "handleMetrics r headers = (case requireMethod r ''GET'' headers of
     Some w \<Rightarrow> w
   | None \<Rightarrow> \<lparr> vs_Status = 200, vs_Headers = headers @ [(''Content-Type'', ''text/plain; version=0.0.4; charset=utf-8'')], vs_Body = MetricsBody \<rparr>)"

definition handleCapabilities :: "'s Provider \<Rightarrow> http_request \<Rightarrow> (string \<times> string) list \<Rightarrow> provider_reply" where
  "handleCapabilities provider r headers = (case requireMethod r ''GET'' headers of
     Some w \<Rightarrow> w | None \<Rightarrow> provider_writeJSON headers 200 (CapabilitiesBody (pv_Capabilities provider)))"

text \<open>\<open>decodeJSONBody\<close>: the decoder's value, with whether the body ends after it; \<^term>\<open>None\<close> is an error, also of a body that is too long.\<close>

definition decodeJSONBody :: "('a \<times> bool) option \<Rightarrow> 'a option" where
  "decodeJSONBody decoded = (case decoded of None \<Rightarrow> None | Some (value, ends) \<Rightarrow> if ends then Some value else None)"

text \<open>\<open>error_text\<close> and \<open>suggest_text\<close> are the messages of the validation errors.\<close>

definition handleRoutes ::
    "'s Provider \<Rightarrow> (route_request_error \<Rightarrow> string) \<Rightarrow> time \<Rightarrow> http_request \<Rightarrow> (ProviderRouteInput \<times> bool) option
      \<Rightarrow> (string \<times> string) list \<Rightarrow> string \<Rightarrow> 's \<Rightarrow> provider_reply \<times> 's" where
  "handleRoutes provider error_text now r decoded headers requestID s = (case requireMethod r ''POST'' headers of
     Some w \<Rightarrow> (w, s)
   | None \<Rightarrow> (case decodeJSONBody decoded of
       None \<Rightarrow> (provider_writeError headers requestID (refusal ''INVALID_JSON'' ''request body must be one valid JSON object'' 400), s)
     | Some input \<Rightarrow> (case ProviderRouteInput_Request input of
         Inl missing \<Rightarrow> (provider_writeError headers requestID (refusal ''VALIDATION_ERROR'' (''required property '' @ missing @ '' is missing'') 400), s)
       | Inr request \<Rightarrow> (case validateRouteRequest request (pc_MaxAlternatives (pd_ProviderCapabilities (pv_Capabilities provider))) now of
           Some e \<Rightarrow> (provider_writeError headers requestID (refusal ''VALIDATION_ERROR'' (error_text e) 400), s)
         | None \<Rightarrow> (case pv_Routes provider request s of
             (Inl err, s) \<Rightarrow> (provider_writeError headers requestID (normalizeProviderError err), s)
           | (Inr response, s) \<Rightarrow> (provider_writeJSON headers 200 (RoutesBody response), s))))))"

text \<open>\<open>q\<close>, \<open>lang\<close> and \<open>raw_limit\<close> are the query values.\<close>

definition suggest_limit :: "string \<Rightarrow> int option" where
  "suggest_limit raw_limit = (let raw = trim_space raw_limit in if raw \<noteq> [] then ParseInt raw else Some 7)"

definition handleSuggest ::
    "'s Provider \<Rightarrow> (suggest_error \<Rightarrow> string) \<Rightarrow> http_request \<Rightarrow> string \<Rightarrow> string \<Rightarrow> string
      \<Rightarrow> (string \<times> string) list \<Rightarrow> string \<Rightarrow> 's \<Rightarrow> provider_reply \<times> 's" where
  "handleSuggest provider suggest_text r q lang raw_limit headers requestID s = (case requireMethod r ''GET'' headers of
     Some w \<Rightarrow> (w, s)
   | None \<Rightarrow> (case suggest_limit raw_limit of
       None \<Rightarrow> (provider_writeError headers requestID (refusal ''VALIDATION_ERROR'' ''limit must be an integer between 1 and 10'' 400), s)
     | Some limit \<Rightarrow>
         let language = (if lang = [] then ''ru_RU'' else lang) in
         (case validateSuggestQuery q language limit of
            Some e \<Rightarrow> (provider_writeError headers requestID (refusal ''VALIDATION_ERROR'' (suggest_text e) 400), s)
          | None \<Rightarrow> (case pv_Suggest provider q language limit s of
              (Inl err, s) \<Rightarrow> (provider_writeError headers requestID (normalizeProviderError err), s)
            | (Inr suggestions, s) \<Rightarrow> (provider_writeJSON headers 200 (SuggestBody suggestions), s)))))"

section \<open>The service\<close>

text \<open>What reaches the server: the request with its query values and decoded body.\<close>

record incoming =
  in_request :: http_request
  in_rand :: "8 word list"
  in_now :: time
  in_body :: "(ProviderRouteInput \<times> bool) option"
  in_q :: string
  in_lang :: string
  in_limit :: string

text \<open>\<open>newAPIServer\<close>: a path that the mux does not know is not found, after the middleware. The mux's redirect of a path that is not clean is left out.\<close>

definition provider_notFound :: "(string \<times> string) list \<Rightarrow> provider_reply" where
  "provider_notFound headers = \<lparr> vs_Status = 404, vs_Headers = headers @ [(''Content-Type'', ''text/plain; charset=utf-8'')], vs_Body = NotFoundBody \<rparr>"

definition provider_handler ::
    "'s Provider \<Rightarrow> (route_request_error \<Rightarrow> string) \<Rightarrow> (suggest_error \<Rightarrow> string) \<Rightarrow> incoming
      \<Rightarrow> (string \<times> string) list \<Rightarrow> string \<Rightarrow> 's \<Rightarrow> provider_reply \<times> 's" where
  "provider_handler provider error_text suggest_text i headers requestID s =
     (let r = in_request i; path = hr_Path r in
      if path \<in> {''/health/live'', ''/healthz''} then (handleLive r headers, s)
      else if path \<in> {''/health/ready'', ''/readyz''} then (handleReady provider r headers s, s)
      else if path = ''/metrics'' then (handleMetrics r headers, s)
      else if path = ''/internal/v1/capabilities'' then (handleCapabilities provider r headers, s)
      else if path = ''/internal/v1/routes'' then handleRoutes provider error_text (in_now i) r (in_body i) headers requestID s
      else if path = ''/internal/v1/geosuggest'' then handleSuggest provider suggest_text r (in_q i) (in_lang i) (in_limit i) headers requestID s
      else (provider_notFound headers, s))"

definition provider_server ::
    "Config \<Rightarrow> 's Provider \<Rightarrow> (route_request_error \<Rightarrow> string) \<Rightarrow> (suggest_error \<Rightarrow> string) \<Rightarrow> incoming \<Rightarrow> 's \<Rightarrow> provider_reply \<times> 's" where
  "provider_server cfg provider error_text suggest_text i s =
     provider_middleware cfg (in_rand i) (in_request i) (provider_handler provider error_text suggest_text i) s"

lemmas server_steps = provider_server_def provider_handler_def handleLive_def handleReady_def handleMetrics_def handleCapabilities_def requireMethod_def

section \<open>What reaches the provider\<close>

text \<open>The calls that the interface allows, as the predicate on the request with the state that each leaves.\<close>

definition routes_call :: "'s Provider \<Rightarrow> incoming \<Rightarrow> ProviderRouteRequest \<Rightarrow> bool" where
  "routes_call provider i request \<longleftrightarrow>
     hr_Path (in_request i) = ''/internal/v1/routes'' \<and> hr_Method (in_request i) = ''POST'' \<and>
     (\<exists>input. in_body i = Some (input, True) \<and> ProviderRouteInput_Request input = Inr request) \<and>
     validateRouteRequest request (pc_MaxAlternatives (pd_ProviderCapabilities (pv_Capabilities provider))) (in_now i) = None"

definition suggest_call :: "incoming \<Rightarrow> string \<Rightarrow> int \<Rightarrow> bool" where
  "suggest_call i language limit \<longleftrightarrow>
     hr_Path (in_request i) = ''/internal/v1/geosuggest'' \<and> hr_Method (in_request i) = ''GET'' \<and>
     suggest_limit (in_limit i) = Some limit \<and> language = (if in_lang i = [] then ''ru_RU'' else in_lang i) \<and>
     validateSuggestQuery (in_q i) language limit = None"

definition routes_answer :: "'s Provider \<Rightarrow> incoming \<Rightarrow> ProviderRouteRequest \<Rightarrow> 's \<Rightarrow> provider_reply \<Rightarrow> 's \<Rightarrow> bool" where
  "routes_answer provider i request s w s' \<longleftrightarrow> routes_call provider i request \<and> s' = snd (pv_Routes provider request s) \<and>
     (case fst (pv_Routes provider request s) of Inr response \<Rightarrow> vs_Status w = 200 \<and> vs_Body w = RoutesBody response
      | Inl err \<Rightarrow> (\<exists>requestID. vs_Body w = ErrorBody requestID (pe_Code (normalizeProviderError err)) (pe_Message (normalizeProviderError err))
          (pe_Retryable (normalizeProviderError err))))"

definition suggest_answer :: "'s Provider \<Rightarrow> incoming \<Rightarrow> string \<Rightarrow> int \<Rightarrow> 's \<Rightarrow> provider_reply \<Rightarrow> 's \<Rightarrow> bool" where
  "suggest_answer provider i language limit s w s' \<longleftrightarrow> suggest_call i language limit \<and> s' = snd (pv_Suggest provider (in_q i) language limit s) \<and>
     (case fst (pv_Suggest provider (in_q i) language limit s) of Inr suggestions \<Rightarrow> vs_Status w = 200 \<and> vs_Body w = SuggestBody suggestions
      | Inl err \<Rightarrow> (\<exists>requestID. vs_Body w = ErrorBody requestID (pe_Code (normalizeProviderError err)) (pe_Message (normalizeProviderError err))
          (pe_Retryable (normalizeProviderError err))))"

text \<open>An answer without the provider.\<close>

definition own_answer :: "provider_reply \<Rightarrow> bool" where
  "own_answer w \<longleftrightarrow> (case vs_Body w of RoutesBody _ \<Rightarrow> False | SuggestBody _ \<Rightarrow> False | _ \<Rightarrow> True)"

lemma own_error [simp]: "own_answer (provider_writeError headers requestID err)"
  by (simp add: own_answer_def provider_writeError_def provider_writeJSON_def Let_def)

lemma own_JSON [simp]: "own_answer (provider_writeJSON headers status body) \<longleftrightarrow> (case body of RoutesBody _ \<Rightarrow> False | SuggestBody _ \<Rightarrow> False | _ \<Rightarrow> True)"
  by (simp add: own_answer_def provider_writeJSON_def)

lemma writeJSON_fields [simp]: "vs_Status (provider_writeJSON headers status body) = status" "vs_Body (provider_writeJSON headers status body) = body"
  by (simp_all add: provider_writeJSON_def)

lemma writeError_body [simp]: "vs_Body (provider_writeError headers requestID err) = ErrorBody requestID (pe_Code err) (pe_Message err) (pe_Retryable err)"
  by (simp add: provider_writeError_def Let_def)

lemma handleRoutes_answers:
  assumes "handleRoutes provider et (in_now i) (in_request i) (in_body i) headers rid s = (w, s')" "hr_Path (in_request i) = ''/internal/v1/routes''"
  shows "(s' = s \<and> own_answer w) \<or> (\<exists>request. routes_answer provider i request s w s')"
  using assms by (auto simp: handleRoutes_def requireMethod_def decodeJSONBody_def routes_answer_def routes_call_def
      split: if_splits option.splits sum.splits prod.splits)

lemma handleSuggest_answers:
  assumes "handleSuggest provider st (in_request i) (in_q i) (in_lang i) (in_limit i) headers rid s = (w, s')"
    "hr_Path (in_request i) = ''/internal/v1/geosuggest''"
  shows "(s' = s \<and> own_answer w) \<or> (\<exists>language limit. suggest_answer provider i language limit s w s')"
  using assms by (auto simp: handleSuggest_def requireMethod_def suggest_answer_def suggest_call_def Let_def
      split: if_splits option.splits sum.splits prod.splits)

lemma other_answers: "own_answer (handleLive r headers)" "own_answer (handleReady provider r headers s)" "own_answer (handleMetrics r headers)"
  "own_answer (handleCapabilities provider r headers)" "own_answer (provider_notFound headers)"
  by (auto simp: handleLive_def handleReady_def handleMetrics_def handleCapabilities_def provider_notFound_def requireMethod_def own_answer_def
      provider_writeJSON_def split: option.splits)

lemma provider_handler_answers:
  assumes "provider_handler provider et st i headers rid s = (w, s')"
  shows "(s' = s \<and> own_answer w) \<or> (\<exists>request. routes_answer provider i request s w s') \<or> (\<exists>language limit. suggest_answer provider i language limit s w s')"
  using assms handleRoutes_answers [of provider et i headers rid s w s'] handleSuggest_answers [of provider st i headers rid s w s']
  by (auto simp: provider_handler_def Let_def other_answers split: if_splits)

lemma called_internal: "routes_answer provider i request s w s' \<Longrightarrow> prefix ''/internal/'' (hr_Path (in_request i))"
  "suggest_answer provider i language limit s w s' \<Longrightarrow> prefix ''/internal/'' (hr_Path (in_request i))"
  by (simp_all add: routes_answer_def routes_call_def suggest_answer_def suggest_call_def)

text \<open>C20: The provider is asked, and its state changes, only for a request that carries the internal credential and is a routes request that passed the
  validation against the provider's own limits, or a valid address query; its answer or its error is then what the client gets. In production,
  under a configuration that passed its checks, the credential is a token of at least 32 bytes.\<close>

theorem provider_calls_validated:
  assumes "provider_server cfg provider et st i s = (w, s')" "Config_Validate cfg = None"
  shows "(s' = s \<and> own_answer w)
    \<or> authorized cfg (in_request i)
      \<and> (cf_Environment cfg = ''production'' \<longrightarrow> (\<exists>token. 32 \<le> length token \<and> hr_Header (in_request i) ''Authorization'' = ''Bearer '' @ token))
      \<and> ((\<exists>request. routes_answer provider i request s w s') \<or> (\<exists>language limit. suggest_answer provider i language limit s w s'))"
proof (cases "prefix ''/internal/'' (hr_Path (in_request i)) \<and> \<not> authorized cfg (in_request i)")
  case True
  then show ?thesis using assms(1) by (auto simp: provider_server_def provider_middleware_def Let_def)
next
  case False
  then have "provider_handler provider et st i (common_headers (incoming_id (in_rand i) (in_request i))) (incoming_id (in_rand i) (in_request i)) s = (w, s')"
    using assms(1) by (simp add: provider_server_def provider_middleware_def Let_def if_not_P)
  note handled = this
  from provider_handler_answers [OF handled] have cases: "(s' = s \<and> own_answer w) \<or> (\<exists>request. routes_answer provider i request s w s')
    \<or> (\<exists>language limit. suggest_answer provider i language limit s w s')" .
  then have called: "(s' = s \<and> own_answer w) \<or> authorized cfg (in_request i)"
    using False called_internal(1) [of provider i _ s w s'] called_internal(2) [of provider i _ _ s w s'] by (elim disjE exE) simp_all
  have "\<exists>token. 32 \<le> length token \<and> hr_Header (in_request i) ''Authorization'' = ''Bearer '' @ token"
    if "cf_Environment cfg = ''production''" "authorized cfg (in_request i)"
    using that valid_production(1) [OF assms(2)] by (auto simp: authorized_def)
  with cases called show ?thesis by blast
qed

text \<open>An address query to a provider that counts its calls.\<close>

definition ex_counting :: "nat Provider" where
  "ex_counting = \<lparr> pv_Routes = (\<lambda>_ s. (Inl errUnsupported, s + 1)), pv_Suggest = (\<lambda>_ _ _ s. (Inr [], s + 1)),
     pv_Capabilities = stub_Capabilities ex_config, pv_Ready = (\<lambda>_. None) \<rparr>"

definition ex_incoming :: incoming where
  "ex_incoming = \<lparr> in_request = \<lparr> hr_Method = ''GET'', hr_Path = ''/internal/v1/geosuggest'', hr_Header = (\<lambda>_. []), hr_RemoteAddr = [] \<rparr>,
     in_rand = [], in_now = 0, in_body = None, in_q = ''Arbat'', in_lang = [], in_limit = ''5'' \<rparr>"

theorem provider_calls_validated_witness:
  "\<exists>w. provider_server ex_config ex_counting (\<lambda>_. []) (\<lambda>_. []) ex_incoming 0 = (w, 1)
    \<and> (\<exists>language limit. suggest_answer ex_counting ex_incoming language limit 0 w 1)"
proof -
  have query: "suggest_limit ''5'' = Some 5" "validateSuggestQuery ''Arbat'' ''ru_RU'' 5 = None" by code_simp+
  have open_token: "authorized ex_config r" for r by (simp add: authorized_def ex_config_def)
  obtain w s' where run: "provider_server ex_config ex_counting (\<lambda>_. []) (\<lambda>_. []) ex_incoming 0 = (w, s')" by fastforce
  have called: "s' = 1"
    using run by (auto simp: provider_server_def provider_middleware_def open_token provider_handler_def ex_incoming_def Let_def handleSuggest_def requireMethod_def query
        ex_counting_def)
  have other: "\<not> routes_answer ex_counting ex_incoming request 0 w s'" for request by (simp add: routes_answer_def routes_call_def ex_incoming_def)
  from provider_calls_validated [OF run ex_config_valid] called other show ?thesis using run by auto
qed

end
