(* ===== verification/ProviderRoutes.thy ===== *)
theory ProviderRoutes
  imports ProviderServer
begin

text \<open>
  Routes from the orchestrator's client to 2GIS and back: the provider service in front of the 2GIS adapter, and what \<open>providerClient.routes\<close> makes of its
  answer. The transport hands over what the service writes; the strict JSON decoder of the client reads route responses and nothing else.
\<close>

definition decoded_routes :: "provider_reply \<Rightarrow> ProviderRouteResponse option" where
  "decoded_routes w = (case vs_Body w of RoutesBody response \<Rightarrow> Some response | _ \<Rightarrow> None)"

text \<open>What the client makes of an error of the service.\<close>

definition client_error :: "go_error \<Rightarrow> provider_error" where
  "client_error err =
     (let status = pe_HTTPStatus (normalizeProviderError err) in
      if status = 429 then errProviderRateLimited else if status \<in> {200, 400, 422} then errProviderContract else errProviderUnavailable)"

lemma error_received: "routes (Reply (vs_Status (provider_writeError headers rid (normalizeProviderError err)))
    (decoded_routes (provider_writeError headers rid (normalizeProviderError err)))) request = Inl (client_error err)"
  by (simp add: provider_writeError_def provider_writeJSON_def decoded_routes_def routes_def client_error_def Let_def)

lemma refusal_received: "routes (Reply (vs_Status (provider_writeError headers rid (refusal code message 400)))
    (decoded_routes (provider_writeError headers rid (refusal code message 400)))) request = Inl errProviderContract"
  by (simp add: provider_writeError_def provider_writeJSON_def decoded_routes_def routes_def refusal_def serviceError_def Let_def)

lemma response_received: "routes (Reply (vs_Status (provider_writeJSON headers 200 (RoutesBody response)))
    (decoded_routes (provider_writeJSON headers 200 (RoutesBody response)))) request =
      (if validateProviderRouteResponse response request = None then Inr response else Inl errProviderContract)"
  by (auto simp: provider_writeJSON_def decoded_routes_def routes_def split: option.splits)

text \<open>A request of the client at the service.\<close>

definition routes_post :: "Config \<Rightarrow> incoming \<Rightarrow> ProviderRouteRequest \<Rightarrow> bool" where
  "routes_post cfg i request \<longleftrightarrow> hr_Method (in_request i) = ''POST'' \<and> hr_Path (in_request i) = ''/internal/v1/routes'' \<and> authorized cfg (in_request i)
     \<and> (\<exists>input. in_body i = Some (input, True) \<and> ProviderRouteInput_Request input = Inr request)"

lemma routes_posted:
  assumes "routes_post cfg i request"
  obtains headers rid where "provider_server cfg provider et st i s =
    (case validateRouteRequest request (pc_MaxAlternatives (pd_ProviderCapabilities (pv_Capabilities provider))) (in_now i) of
       Some e \<Rightarrow> (provider_writeError headers rid (refusal ''VALIDATION_ERROR'' (et e) 400), s)
     | None \<Rightarrow> (case pv_Routes provider request s of
         (Inl err, s) \<Rightarrow> (provider_writeError headers rid (normalizeProviderError err), s)
       | (Inr response, s) \<Rightarrow> (provider_writeJSON headers 200 (RoutesBody response), s)))"
proof -
  let ?rid = "incoming_id (in_rand i) (in_request i)"
  from assms have "provider_server cfg provider et st i s = handleRoutes provider et (in_now i) (in_request i) (in_body i) (common_headers ?rid) ?rid s"
    by (auto simp: routes_post_def provider_server_def provider_middleware_def provider_handler_def Let_def)
  also have "\<dots> = (case validateRouteRequest request (pc_MaxAlternatives (pd_ProviderCapabilities (pv_Capabilities provider))) (in_now i) of
       Some e \<Rightarrow> (provider_writeError (common_headers ?rid) ?rid (refusal ''VALIDATION_ERROR'' (et e) 400), s)
     | None \<Rightarrow> (case pv_Routes provider request s of
         (Inl err, s) \<Rightarrow> (provider_writeError (common_headers ?rid) ?rid (normalizeProviderError err), s)
       | (Inr response, s) \<Rightarrow> (provider_writeJSON (common_headers ?rid) 200 (RoutesBody response), s)))"
    using assms by (auto simp: routes_post_def handleRoutes_def requireMethod_def decodeJSONBody_def)
  finally show thesis by (rule that)
qed

text \<open>C19: A route request from end to end in 2GIS mode: if the checks of the service refuse it, the client reports a contract error and 2GIS is not asked.
  Otherwise an error of the adapter reaches the client as the rate limit, a contract error or the provider being unavailable, by its status alone; and
  a response of the adapter, whatever 2GIS answered, reaches it unchanged exactly when no route has more than 2000 segments (given no collision of
  the hashed route ids), and as a contract error otherwise. The adapter has then been asked exactly once.\<close>

theorem routes_end_to_end:
  assumes post: "routes_post cfg i request" and valid: "Config_Validate cfg = None"
    and adapter: "pv_Routes provider = (\<lambda>request s. (fst (dgis_Routes lm sha256 parse_time cfg (during request s) request (state s)), after request s))"
    and run: "provider_server cfg provider et st i s = (w, s')"
  shows "case validateRouteRequest request (pc_MaxAlternatives (pd_ProviderCapabilities (pv_Capabilities provider))) (in_now i) of
      Some e \<Rightarrow> s' = s \<and> routes (Reply (vs_Status w) (decoded_routes w)) request = Inl errProviderContract
    | None \<Rightarrow> s' = after request s
      \<and> (case fst (dgis_Routes lm sha256 parse_time cfg (during request s) request (state s)) of
          Inl err \<Rightarrow> routes (Reply (vs_Status w) (decoded_routes w)) request = Inl (client_error err)
        | Inr response \<Rightarrow> distinct (map rc_CandidateID (ps_Candidates response)) \<longrightarrow> routes (Reply (vs_Status w) (decoded_routes w)) request =
            (if list_all (\<lambda>c. length (rc_Segments c) \<le> 2000) (ps_Candidates response) then Inr response else Inl errProviderContract))"
proof (cases "validateRouteRequest request (pc_MaxAlternatives (pd_ProviderCapabilities (pv_Capabilities provider))) (in_now i)")
  case (Some e)
  obtain headers rid where "provider_server cfg provider et st i s = (provider_writeError headers rid (refusal ''VALIDATION_ERROR'' (et e) 400), s)"
    by (rule routes_posted [OF post, of provider et st s]) (simp add: Some)
  then show ?thesis using run refusal_received by (auto simp: Some)
next
  case None
  let ?result = "fst (dgis_Routes lm sha256 parse_time cfg (during request s) request (state s))"
  obtain headers rid where answer: "provider_server cfg provider et st i s = (case ?result of
      Inl err \<Rightarrow> (provider_writeError headers rid (normalizeProviderError err), after request s)
    | Inr response \<Rightarrow> (provider_writeJSON headers 200 (RoutesBody response), after request s))"
    by (rule routes_posted [OF post, of provider et st s]) (simp add: None adapter split: sum.splits)
  show ?thesis
  proof (cases ?result)
    case (Inl err)
    then show ?thesis using answer run error_received by (auto simp: None)
  next
    case (Inr response)
    then obtain final where "dgis_Routes lm sha256 parse_time cfg (during request s) request (state s) = (Inr response, final)" by (metis prod.collapse)
    from dgis_service_accepted [OF this None valid] answer run response_received show ?thesis by (auto simp: None Inr)
  qed
qed

text \<open>A request to a service that counts its calls and whose provider knows one route.\<close>

abbreviation ex_result :: "(go_error + ProviderRouteResponse) \<times> routes_state" where
  "ex_result \<equiv> ex_run 0 (Answer 200 [] (Some ex_dgis_wire)) (newDGISAdapter ex_config)"

definition ex_router :: "nat Provider" where
  "ex_router = ex_counting\<lparr>pv_Routes := (\<lambda>request s. (fst (dgis_Routes ex_flat (\<lambda>_. []) (\<lambda>_. None) ex_config (ex_env 0 (Answer 200 [] (Some ex_dgis_wire)))
     request (newDGISAdapter ex_config)), s + 1))\<rparr>"

definition ex_input :: ProviderRouteInput where
  "ex_input = (let r = ex_provider_request in \<lparr> pi_RequestID = Some (pr_RequestID r), pi_Origin = Some (pr_Origin r), pi_Destination = Some (pr_Destination r),
     pi_Waypoints = pr_Waypoints r, pi_Traffic = Some (pr_Traffic r), pi_Alternatives = Some (pr_Alternatives r), pi_AvoidTolls = Some (pr_AvoidTolls r),
     pi_AvoidUnpaved = Some (pr_AvoidUnpaved r), pi_DepartureUnix = pr_DepartureUnix r, pi_AvoidZones = pr_AvoidZones r,
     pi_RequestBudget = Some (pr_RequestBudget r), pi_DeadlineMS = Some (pr_DeadlineMS r) \<rparr>)"

definition ex_routes_incoming :: incoming where
  "ex_routes_incoming = ex_incoming\<lparr>in_request := (in_request ex_incoming)\<lparr>hr_Method := ''POST'', hr_Path := ''/internal/v1/routes''\<rparr>, in_body := Some (ex_input, True)\<rparr>"

theorem routes_end_to_end_witness:
  "\<exists>w response. provider_server ex_config ex_router (\<lambda>_. []) (\<lambda>_. []) ex_routes_incoming 0 = (w, 1) \<and> fst ex_result = Inr response
    \<and> (distinct (map rc_CandidateID (ps_Candidates response)) \<longrightarrow> routes (Reply (vs_Status w) (decoded_routes w)) ex_provider_request =
        (if list_all (\<lambda>c. length (rc_Segments c) \<le> 2000) (ps_Candidates response) then Inr response else Inl errProviderContract))"
proof -
  have post: "routes_post ex_config ex_routes_incoming ex_provider_request"
    by (simp add: routes_post_def ex_routes_incoming_def ex_incoming_def authorized_def ex_config_def ex_input_def ProviderRouteInput_Request_def Let_def)
  obtain w s' where run: "provider_server ex_config ex_router (\<lambda>_. []) (\<lambda>_. []) ex_routes_incoming 0 = (w, s')" by fastforce
  have adapter: "pv_Routes ex_router = (\<lambda>request s. (fst (dgis_Routes ex_flat (\<lambda>_. []) (\<lambda>_. None) ex_config
      (ex_env 0 (Answer 200 [] (Some ex_dgis_wire))) request (newDGISAdapter ex_config)), s + 1))" by (simp add: ex_router_def)
  have limit: "pc_MaxAlternatives (pd_ProviderCapabilities (pv_Capabilities ex_router)) = 2" "in_now ex_routes_incoming = 0"
    by (simp_all add: ex_router_def ex_counting_def stub_Capabilities_def officialCapabilities_def ex_config_def ex_routes_incoming_def ex_incoming_def Let_def)
  obtain response where response: "fst ex_result = Inr response" using dgis_service_accepted_witness by (auto split: prod.splits)
  from routes_end_to_end [OF post ex_config_valid adapter run] have "s' = 1"
      "distinct (map rc_CandidateID (ps_Candidates response)) \<longrightarrow> routes (Reply (vs_Status w) (decoded_routes w)) ex_provider_request =
        (if list_all (\<lambda>c. length (rc_Segments c) \<le> 2000) (ps_Candidates response) then Inr response else Inl errProviderContract)"
    unfolding limit ex_request_validated by (simp_all add: response)
  then show ?thesis using run response by blast
qed

end
