(* ===== verification/ProviderDiscovery.thy ===== *)
theory ProviderDiscovery
  imports ProviderServer Engine
begin

text \<open>
  The discovery of the provider's capabilities: what the provider service answers under a valid configuration against the checks of the
  orchestrator's client (\<open>provider_client.go\<close>) and of its engine (\<open>engine.go\<close>).
\<close>

text \<open>The three ways to wire the geocoders.\<close>

lemma wirings:
  "\<exists>docs fdocs. address_wiring_of cfg \<in> {
     \<lparr> aw_addressProvider = ''2gis'', aw_addressEndpoint = dgisGeocoderEndpoint, aw_addressDocs = docs, aw_addressFallbackProvider = [], aw_addressFallbackDocs = fdocs \<rparr>,
     \<lparr> aw_addressProvider = ''yandex'', aw_addressEndpoint = yandexGeocoderEndpoint, aw_addressDocs = docs, aw_addressFallbackProvider = [], aw_addressFallbackDocs = fdocs \<rparr>,
     \<lparr> aw_addressProvider = ''yandex'', aw_addressEndpoint = yandexGeocoderEndpoint, aw_addressDocs = docs, aw_addressFallbackProvider = ''2gis'',
       aw_addressFallbackDocs = fdocs \<rparr>}"
  unfolding address_wiring_of_def by (simp add: mode_names Let_def)

lemma integrations_valid:
  "validateAPIIntegrations [integration ''yandex-route-details'' ''yandex'' ''Route Details API'' yandexRouterAPIVersion ''routing'' ''primary'' ''active'',
     integration ''yandex-http-geocoder'' ''yandex'' ''HTTP Geocoder API'' yandexGeocoderAPIVersion ''address-search'' ''primary'' ''active''] = None" "validateAPIIntegrations [] = None"
  "validateAPIIntegrations [integration ''2gis-routing'' ''2gis'' ''Routing API'' dgisRoutingAPIVersion ''routing'' ''primary'' ''active'',
     addressAPIIntegration ''2gis'' ''primary'' ''active''] = None"
  "validateAPIIntegrations [integration ''2gis-routing'' ''2gis'' ''Routing API'' dgisRoutingAPIVersion ''routing'' ''primary'' ''active'',
     addressAPIIntegration ''yandex'' ''primary'' ''active''] = None"
  "validateAPIIntegrations [integration ''2gis-routing'' ''2gis'' ''Routing API'' dgisRoutingAPIVersion ''routing'' ''primary'' ''active'',
     addressAPIIntegration ''yandex'' ''primary'' ''active'', addressAPIIntegration ''2gis'' ''fallback'' ''standby''] = None"
  by code_simp+

lemma endpoint_texts: "trim_space yandexGeocoderEndpoint \<noteq> []" "trim_space dgisGeocoderEndpoint \<noteq> []"
  by code_simp+

lemma names_kept: "trim_space ''yandex'' = ''yandex''" "trim_space ''2gis'' = ''2gis''" "trim_space ''stub'' = ''stub''"
  "trim_space ''stub:slow'' \<noteq> []" "trim_space ''stub:rate_limit'' \<noteq> []" "trim_space ''stub:outage'' \<noteq> []"
  by code_simp+

text \<open>What the engine checks of a document, after the client.\<close>

definition usable_document :: "providerCapabilitiesDocument \<Rightarrow> bool" where
  "usable_document doc \<longleftrightarrow> validateProviderCapabilitiesDocument doc = None \<and> 2 \<le> pc_MaxWaypoints (pd_ProviderCapabilities doc)
     \<and> pc_RealtimeTraffic (pd_ProviderCapabilities doc) \<and> pc_TrafficDisabledBaseline (pd_ProviderCapabilities doc)"

lemma usable_discovered:
  assumes "usable_document doc"
  shows "discoverCapabilities (Reply 200 (Some doc)) e = (None, e\<lparr>en_capabilities := pd_ProviderCapabilities doc, en_capabilityOK := True\<rparr>)"
proof -
  let ?c = "pd_ProviderCapabilities doc"
  have "validateProviderCapabilitiesDocument doc = None" using assms by (simp add: usable_document_def)
  then have "pc_ContractVersion ?c = InternalContractVersion" "trim_space (pc_Provider ?c) \<noteq> []" "trim_space (pc_Mode ?c) \<noteq> []"
    "0 \<le> pc_MaxAlternatives ?c" "pc_MaxAlternatives ?c \<le> 2" "pc_MaxWaypoints ?c \<le> 50" "capabilities (Reply 200 (Some doc)) = Inr ?c"
    by (simp_all add: capabilities_def) (simp_all add: validateProviderCapabilitiesDocument_def Let_def)
  then show ?thesis using assms by (simp add: usable_document_def discoverCapabilities_def)
qed

lemma valid_limits:
  assumes "Config_Validate cfg = None"
  shows "1 \<le> cf_YandexMaxResults cfg" "cf_YandexMaxResults cfg \<le> 3" "1 \<le> cf_DGISMaxResults cfg" "cf_DGISMaxResults cfg \<le> 3"
    "1 \<le> cf_DGISRateLimitPerMinute cfg" "cf_DGISRateLimitPerMinute cfg \<le> 100000" "1 \<le> cf_DGISMonthlyLimit cfg" "cf_DGISMonthlyLimit cfg \<le> 100000000"
    "cf_StubScenario cfg \<in> {''normal'', ''slow'', ''rate_limit'', ''outage''}"
    "cf_ProviderMode cfg \<in> {providerModeYandex, providerModeDGIS, providerModeStub}"
  using assms by (auto simp: Config_Validate_def)

lemma yandex_usable: "Config_Validate cfg = None \<Longrightarrow> usable_document (yandex_Capabilities cfg)"
  using valid_limits(1,2) [of cfg] names_kept integrations_valid endpoint_texts
  by (simp add: usable_document_def validateProviderCapabilitiesDocument_def yandex_Capabilities_def officialCapabilities_def Let_def mode_names)

lemma stub_usable: "Config_Validate cfg = None \<Longrightarrow> usable_document (stub_Capabilities cfg)"
  using valid_limits(1,2,9) [of cfg] names_kept integrations_valid
  by (auto simp: usable_document_def validateProviderCapabilitiesDocument_def stub_Capabilities_def officialCapabilities_def Let_def mode_names)

lemma dgis_usable: "Config_Validate cfg = None \<Longrightarrow> usable_document (dgis_Capabilities cfg (Some (address_wiring_of cfg)))"
  using wirings [of cfg] valid_limits(3-8) [of cfg] names_kept integrations_valid endpoint_texts
  by (elim exE insertE emptyE)
     (simp_all add: usable_document_def validateProviderCapabilitiesDocument_def dgis_Capabilities_def dgis_routing_document_def add_integration_def
       Let_def mode_names maxDGISRoutePoints_def)

text \<open>C38: Under every configuration that passes its checks, in every mode, the service starts with an adapter whose capabilities, as the service sends
  them to a request with the internal credential, pass both the client and the engine of the orchestrator: the engine is ready with exactly what
  the adapter declared, and no state of the provider changes.\<close>

theorem capabilities_discovered:
  assumes "Config_Validate cfg = None"
    and "hr_Method (in_request i) = ''GET''" "hr_Path (in_request i) = ''/internal/v1/capabilities''" "authorized cfg (in_request i)"
  shows "\<exists>doc. started_Capabilities cfg = Some doc \<and> (pv_Capabilities provider = doc \<longrightarrow>
    (case provider_server cfg provider et st i s of (w, s') \<Rightarrow> s' = s \<and> vs_Status w = 200 \<and> vs_Body w = CapabilitiesBody doc
      \<and> discoverCapabilities (Reply (vs_Status w) (Some doc)) e =
          (None, e\<lparr>en_capabilities := pd_ProviderCapabilities doc, en_capabilityOK := True\<rparr>)))"
proof -
  have "\<exists>doc. started_Capabilities cfg = Some doc \<and> usable_document doc"
    using valid_limits(10) [OF assms(1)] yandex_usable [OF assms(1)] dgis_usable [OF assms(1)] stub_usable [OF assms(1)]
    by (auto simp: started_Capabilities_def mode_names)
  then obtain doc where "started_Capabilities cfg = Some doc" "usable_document doc" by blast
  moreover have "provider_server cfg provider et st i s =
      (provider_writeJSON (common_headers (incoming_id (in_rand i) (in_request i))) 200 (CapabilitiesBody (pv_Capabilities provider)), s)"
    using assms(2-4) by (simp add: provider_server_def provider_middleware_def provider_handler_def handleCapabilities_def requireMethod_def Let_def)
  ultimately show ?thesis using usable_discovered [of doc e] by simp
qed

theorem capabilities_discovered_witness:
  "\<exists>w. provider_server Adapter_Routes.ex_config (ex_counting\<lparr>pv_Capabilities := dgis_Capabilities Adapter_Routes.ex_config (Some (address_wiring_of Adapter_Routes.ex_config))\<rparr>)
      (\<lambda>_. []) (\<lambda>_. []) (ex_incoming\<lparr>in_request := (in_request ex_incoming)\<lparr>hr_Path := ''/internal/v1/capabilities''\<rparr>\<rparr>) 0 = (w, 0) \<and> vs_Status w = 200"
proof -
  let ?cfg = "Adapter_Routes.ex_config"
  let ?provider = "ex_counting\<lparr>pv_Capabilities := dgis_Capabilities ?cfg (Some (address_wiring_of ?cfg))\<rparr>"
  let ?i = "ex_incoming\<lparr>in_request := (in_request ex_incoming)\<lparr>hr_Path := ''/internal/v1/capabilities''\<rparr>\<rparr>"
  have started: "started_Capabilities ?cfg = Some (pv_Capabilities ?provider)"
    by (simp add: started_Capabilities_def Adapter_Routes.ex_config_def mode_names)
  have "hr_Method (in_request ?i) = ''GET''" "hr_Path (in_request ?i) = ''/internal/v1/capabilities''" "authorized ?cfg (in_request ?i)"
    by (simp_all add: ex_incoming_def authorized_def Adapter_Routes.ex_config_def)
  from capabilities_discovered [OF Adapter_Routes.ex_config_valid this, where provider = ?provider and et = "\<lambda>_. []" and st = "\<lambda>_. []" and s = 0] started
  have "case provider_server ?cfg ?provider (\<lambda>_. []) (\<lambda>_. []) ?i 0 of (w, s') \<Rightarrow> s' = 0 \<and> vs_Status w = 200" by (auto split: prod.splits)
  then show ?thesis by (auto split: prod.splits)
qed

end
