(* ===== verification/Urls.thy ===== *)
theory Urls
  imports GoText "HOL-Library.List_Lexorder" "HOL-Library.Char_ord"
begin

text \<open>
  The query of a URL, as Go's \<open>net/url\<close> writes and reads it: \<open>QueryEscape\<close>, \<open>Values.Encode\<close>, \<open>ParseQuery\<close> and \<open>Values.Get\<close>. Bytes are characters. A query
  that was encoded is read back as it was, whatever bytes its values have, so no value can add or change a parameter.
\<close>

section \<open>Escaping\<close>

definition unreserved :: "char \<Rightarrow> bool" where
  "unreserved c \<longleftrightarrow> is_digit c \<or> (let n = of_char (to_lower_char c) :: nat in 97 \<le> n \<and> n \<le> 122) \<or> c \<in> set ''-_.~''"

definition upper_hex :: "nat \<Rightarrow> char" where
  "upper_hex n = ''0123456789ABCDEF'' ! n"

definition escape_char :: "char \<Rightarrow> string" where
  "escape_char c = (if unreserved c then [c] else if c = CHR '' '' then ''+''
     else let n = of_char c :: nat in [CHR ''%'', upper_hex (n div 16), upper_hex (n mod 16)])"

definition QueryEscape :: "string \<Rightarrow> string" where
  "QueryEscape s = concat (map escape_char s)"

definition hex_value :: "char \<Rightarrow> nat option" where
  "hex_value c = (if is_digit c \<or> is_hex_letter c then Some (nat (digit_value c)) else None)"

fun QueryUnescape :: "string \<Rightarrow> string option" where
  "QueryUnescape [] = Some []"
| "QueryUnescape (c # s) =
     (if c = CHR ''%'' then
        (case s of
           h # l # rest \<Rightarrow> (case (hex_value h, hex_value l) of
               (Some m, Some n) \<Rightarrow> map_option ((#) (char_of (16 * m + n))) (QueryUnescape rest)
             | _ \<Rightarrow> None)
         | _ \<Rightarrow> None)
      else map_option ((#) (if c = CHR ''+'' then CHR '' '' else c)) (QueryUnescape s))"

section \<open>Values\<close>

text \<open>A map from keys to their values, each key once.\<close>

type_synonym url_values = "(string \<times> string list) list"

text \<open>\<open>Values.Set\<close> and \<open>Values.Add\<close>.\<close>

definition Values_Set :: "string \<Rightarrow> string \<Rightarrow> url_values \<Rightarrow> url_values" where
  "Values_Set key value vs = filter (\<lambda>(k, _). k \<noteq> key) vs @ [(key, [value])]"

definition Values_Add :: "string \<Rightarrow> string \<Rightarrow> url_values \<Rightarrow> url_values" where
  "Values_Add key value vs = (case map_of vs key of None \<Rightarrow> vs @ [(key, [value])]
     | Some xs \<Rightarrow> map (\<lambda>(k, ys). if k = key then (k, ys @ [value]) else (k, ys)) vs)"

text \<open>The pairs in the order in which they are written: by key, and each key's values in order.\<close>

definition url_pairs :: "url_values \<Rightarrow> (string \<times> string) list" where
  "url_pairs vs = concat (map (\<lambda>(k, xs). map (Pair k) xs) (sort_key fst vs))"

fun join :: "string \<Rightarrow> string list \<Rightarrow> string" where
  "join sep [] = []"
| "join sep [s] = s"
| "join sep (s # t # ts) = s @ sep @ join sep (t # ts)"

definition Values_Encode :: "url_values \<Rightarrow> string" where
  "Values_Encode vs = join ''&'' (map (\<lambda>(k, v). QueryEscape k @ ''='' @ QueryEscape v) (url_pairs vs))"

text \<open>One part of a query: none when it is empty, has a semicolon or is not escaped as it must be; those are errors that \<open>URL.Query\<close> passes over.\<close>

definition parse_part :: "string \<Rightarrow> (string \<times> string) option" where
  "parse_part part =
     (if CHR '';'' \<in> set part \<or> part = [] then None
      else case (QueryUnescape (takeWhile (\<lambda>c. c \<noteq> CHR ''='') part), QueryUnescape (tl (dropWhile (\<lambda>c. c \<noteq> CHR ''='') part))) of
        (Some k, Some v) \<Rightarrow> Some (k, v) | _ \<Rightarrow> None)"

definition ParseQuery :: "string \<Rightarrow> (string \<times> string) list" where
  "ParseQuery query = List.map_filter parse_part (Split (CHR ''&'') query)"

definition Query_Get :: "(string \<times> string) list \<Rightarrow> string \<Rightarrow> string" where
  "Query_Get pairs key = (case map_of pairs key of None \<Rightarrow> [] | Some v \<Rightarrow> v)"

section \<open>Texts that keep clear of the separators\<close>

text \<open>What joining and splitting rely on of an encoding.\<close>

locale separated_code =
  fixes code :: "string \<Rightarrow> string" and decode :: "string \<Rightarrow> string option" and separators :: "char set"
  assumes decodes: "decode (code s) = Some s"
    and clear: "set (code s) \<inter> separators = {}"
begin

lemma code_inj: "code s = code t \<Longrightarrow> s = t"
  using decodes by (metis option.inject)

lemma not_separator: "c \<in> separators \<Longrightarrow> c \<notin> set (code s)"
  using clear by blast

lemma cut_key:
  assumes "c \<in> separators"
  shows "takeWhile (\<lambda>x. x \<noteq> c) (code k @ c # rest) = code k" "dropWhile (\<lambda>x. x \<noteq> c) (code k @ c # rest) = c # rest"
proof -
  have "x \<noteq> c" if "x \<in> set (code k)" for x using that not_separator [OF assms] by blast
  then show "takeWhile (\<lambda>x. x \<noteq> c) (code k @ c # rest) = code k" "dropWhile (\<lambda>x. x \<noteq> c) (code k @ c # rest) = c # rest"
    by (simp_all add: takeWhile_append dropWhile_append)
qed

end

lemma Split_clear: "sep \<notin> set s \<Longrightarrow> Split sep s = [s]"
  by (induction s) auto

lemma Split_first: "sep \<notin> set s \<Longrightarrow> Split sep (s @ sep # t) = s # Split sep t"
  by (induction s) auto

lemma Split_join:
  assumes "list_all (\<lambda>s. sep \<notin> set s) parts" "parts \<noteq> []"
  shows "Split sep (join [sep] parts) = parts"
  using assms by (induction "[sep]" parts rule: join.induct) (auto simp: Split_clear Split_first)

section \<open>Reading back\<close>

lemma upper_hex_value: "n < 16 \<Longrightarrow> hex_value (upper_hex n) = Some n"
proof -
  assume "n < 16"
  then have "n \<in> set [0..<16]" by simp
  moreover have "list_all (\<lambda>n. hex_value (upper_hex n) = Some n) [0..<16]" by code_simp
  ultimately show ?thesis by (simp only: list_all_iff)
qed

lemma upper_hex_clear: "n < 16 \<Longrightarrow> upper_hex n \<notin> {CHR ''&'', CHR ''='', CHR '';''}"
proof -
  assume "n < 16"
  then have "n \<in> set [0..<16]" by simp
  moreover have "list_all (\<lambda>n. upper_hex n \<notin> {CHR ''&'', CHR ''='', CHR '';''}) [0..<16]" by code_simp
  ultimately show "upper_hex n \<notin> {CHR ''&'', CHR ''='', CHR '';''}" unfolding list_all_iff by blast
qed

lemma nibbles_small: "of_char c div 16 < (16 :: nat)" "of_char c mod 16 < (16 :: nat)"
proof -
  have "m div 16 < 16" if "m < 256" for m :: nat using that by simp
  then show "of_char c div 16 < (16 :: nat)" using nat_of_char_less_256 by blast
qed simp

lemma separators_reserved: "\<not> unreserved (CHR ''%'')" "\<not> unreserved (CHR ''+'')" "\<not> unreserved (CHR ''&'')" "\<not> unreserved (CHR ''='')" "\<not> unreserved (CHR '';'')"
  by code_simp+

lemma escape_char_read: "QueryUnescape (escape_char c @ rest) = map_option ((#) c) (QueryUnescape rest)"
proof (cases "unreserved c \<or> c = CHR '' ''")
  case True
  then show ?thesis using separators_reserved by (auto simp: escape_char_def)
next
  case False
  let ?n = "of_char c :: nat"
  note nibbles_small [of c]
  moreover have "char_of (16 * (?n div 16) + ?n mod 16) = c" by simp
  ultimately show ?thesis using False by (simp add: escape_char_def Let_def upper_hex_value)
qed

lemma escape_char_clear: "set (escape_char c) \<inter> {CHR ''&'', CHR ''='', CHR '';''} = {}"
proof (cases "unreserved c \<or> c = CHR '' ''")
  case True
  then show ?thesis using separators_reserved by (auto simp: escape_char_def)
next
  case False
  from nibbles_small [of c, THEN upper_hex_clear] show ?thesis using False by (auto simp: escape_char_def Let_def)
qed

interpretation query: separated_code QueryEscape QueryUnescape "{CHR ''&'', CHR ''='', CHR '';''}"
proof
  show "QueryUnescape (QueryEscape s) = Some s" for s
    by (induction s) (simp_all add: QueryEscape_def escape_char_read)
  show "set (QueryEscape s) \<inter> {CHR ''&'', CHR ''='', CHR '';''} = {}" for s
    using escape_char_clear by (induction s) (auto simp: QueryEscape_def)
qed

lemma parse_written: "parse_part (QueryEscape k @ ''='' @ QueryEscape v) = Some (k, v)"
proof -
  have "CHR '';'' \<notin> set (QueryEscape k @ ''='' @ QueryEscape v)" using query.not_separator [of "CHR '';''"] by simp
  then show ?thesis using query.cut_key [of "CHR ''=''"] by (simp add: parse_part_def query.decodes)
qed

lemma ParseQuery_Encode: "ParseQuery (Values_Encode vs) = url_pairs vs"
proof (cases "url_pairs vs = []")
  case True
  then show ?thesis by (simp add: Values_Encode_def ParseQuery_def parse_part_def map_filter_def)
next
  case False
  let ?parts = "map (\<lambda>(k, v). QueryEscape k @ ''='' @ QueryEscape v) (url_pairs vs)"
  have "list_all (\<lambda>s. CHR ''&'' \<notin> set s) ?parts" using query.not_separator [of "CHR ''&''"] by (auto simp: list_all_iff)
  then have "Split (CHR ''&'') (Values_Encode vs) = ?parts" using Split_join False by (simp add: Values_Encode_def)
  moreover have "List.map_filter parse_part (map (\<lambda>(k, v). QueryEscape k @ ''='' @ QueryEscape v) ps) = ps" for ps
    using parse_written by (induction ps) (auto simp: map_filter_simps)
  ultimately show ?thesis by (simp add: ParseQuery_def)
qed

section \<open>The values of a key\<close>

definition values_at :: "url_values \<Rightarrow> string \<Rightarrow> string list" where
  "values_at vs key = (case map_of vs key of None \<Rightarrow> [] | Some xs \<Rightarrow> xs)"

definition Query_All :: "(string \<times> string) list \<Rightarrow> string \<Rightarrow> string list" where
  "Query_All pairs key = map snd (filter (\<lambda>p. fst p = key) pairs)"

lemma Query_Get_All: "Query_Get pairs key = (case Query_All pairs key of [] \<Rightarrow> [] | v # _ \<Rightarrow> v)"
  by (induction pairs) (auto simp: Query_Get_def Query_All_def)

lemma Set_keys: "distinct (map fst vs) \<Longrightarrow> distinct (map fst (Values_Set key value vs))"
  by (induction vs) (auto simp: Values_Set_def)

lemma Add_keys: "distinct (map fst vs) \<Longrightarrow> distinct (map fst (Values_Add key value vs))"
  by (auto simp: Values_Add_def map_of_eq_None_iff comp_def case_prod_unfold if_distrib cong: if_cong split: option.splits)

lemma at_Set [simp]: "values_at (Values_Set k v vs) key = (if key = k then [v] else values_at vs key)"
  by (induction vs) (auto simp: Values_Set_def values_at_def map_add_def split: option.splits)

lemma at_Nil [simp]: "values_at [] key = []"
  by (simp add: values_at_def)

lemma map_of_extend: "map_of (map (\<lambda>(k, ys). if k = key then (k, f ys) else (k, ys)) vs) x = (if x = key then map_option f (map_of vs x) else map_of vs x)"
  by (induction vs) auto

lemma at_Add [simp]: "values_at (Values_Add k v vs) key = (if key = k then values_at vs k @ [v] else values_at vs key)"
  by (auto simp: Values_Add_def values_at_def map_of_extend map_add_def split: option.splits)

lemma at_fold_Add: "values_at (fold (\<lambda>x. Values_Add k (f x)) xs vs) key = (if key = k then values_at vs k @ map f xs else values_at vs key)"
  by (induction xs arbitrary: vs) auto

lemma fold_Add_keys: "distinct (map fst vs) \<Longrightarrow> distinct (map fst (fold (\<lambda>x. Values_Add k (f x)) xs vs))"
  by (induction xs arbitrary: vs) (auto intro: Add_keys)

lemma Query_All_pairs:
  assumes "distinct (map fst vs)"
  shows "Query_All (url_pairs vs) key = values_at vs key"
proof -
  have all: "Query_All (concat (map (\<lambda>(k, xs). map (Pair k) xs) ws)) key = values_at ws key" if "distinct (map fst ws)" for ws
    using that
  proof (induction ws)
    case (Cons w ws)
    obtain k xs where w: "w = (k, xs)" by fastforce
    have "filter (\<lambda>p. fst p = key) (map (Pair k) xs) = (if k = key then map (Pair k) xs else [])" by (induction xs) auto
    moreover have "k = key \<Longrightarrow> values_at ws key = []" using Cons.prems map_of_eq_None_iff [of ws key] by (simp add: w values_at_def)
    ultimately show ?case using Cons by (auto simp: w Query_All_def values_at_def comp_def)
  qed (simp add: Query_All_def)
  have "map_of (sort_key fst vs) = map_of vs" using assms by (intro map_of_inject_set [THEN iffD2]) (auto simp: distinct_map)
  moreover have "distinct (map fst (sort_key fst vs))" using assms by (simp add: distinct_map)
  ultimately show ?thesis using all [of "sort_key fst vs"] by (simp add: url_pairs_def values_at_def)
qed

lemma Query_All_Encode: "distinct (map fst vs) \<Longrightarrow> Query_All (ParseQuery (Values_Encode vs)) key = values_at vs key"
  by (simp add: ParseQuery_Encode Query_All_pairs)

text \<open>The part of a URL after its question mark.\<close>

definition url_path :: "string \<Rightarrow> string" where
  "url_path url = takeWhile (\<lambda>c. c \<noteq> CHR ''?'') url"

definition url_query :: "string \<Rightarrow> string" where
  "url_query url = tl (dropWhile (\<lambda>c. c \<noteq> CHR ''?'') url)"

lemma url_parts: "CHR ''?'' \<notin> set path \<Longrightarrow> url_path (path @ ''?'' @ query) = path \<and> url_query (path @ ''?'' @ query) = query"
proof -
  assume "CHR ''?'' \<notin> set path"
  then have "x \<noteq> CHR ''?''" if "x \<in> set path" for x using that by blast
  then show ?thesis by (simp add: url_path_def url_query_def takeWhile_append dropWhile_append)
qed

end
