(* ===== verification/ProviderRequests.thy ===== *)
theory ProviderRequests
  imports Urls Geocoder
begin

text \<open>
  The URLs of the requests to the providers (\<open>buildYandexRouteURL\<close>, \<open>buildYandexGeocoderURL\<close>, \<open>buildDGISRouteRequest\<close>, \<open>buildDGISGeocoderURL\<close>) and of the
  edge's address search (\<open>service_client.go\<close>). The endpoints are constants of the code that \<open>url.Parse\<close> and \<open>URL.String\<close> leave as they are, and that
  pass the checks on them. \<open>shortest\<close> is \<open>strconv.FormatFloat\<close> with the fewest digits.
\<close>

section \<open>Routes\<close>

definition url_point :: "GeoPoint \<Rightarrow> string" where
  "url_point point = format7 (Latitude point) @ '','' @ format7 (Longitude point)"

definition url_line :: "GeoPoint list \<Rightarrow> string" where
  "url_line points = join ''|'' (map url_point points)"

definition yandex_results :: "Config \<Rightarrow> ProviderRouteRequest \<Rightarrow> int" where
  "yandex_results cfg request =
     (let results = pr_Alternatives request + 1; results = (if results < 1 then 1 else results) in
      if results > cf_YandexMaxResults cfg then cf_YandexMaxResults cfg else results)"

definition Set_if :: "bool \<Rightarrow> string \<Rightarrow> string \<Rightarrow> url_values \<Rightarrow> url_values" where
  "Set_if b key value vs = (if b then Values_Set key value vs else vs)"

definition yandex_route_values :: "Config \<Rightarrow> ProviderRouteRequest \<Rightarrow> url_values" where
  "yandex_route_values cfg request =
     (let points = [pr_Origin request] @ pr_Waypoints request @ [pr_Destination request];
          query = Values_Set ''apikey'' (cf_YandexAPIKey cfg) [];
          query = Values_Set ''waypoints'' (url_line points) query;
          query = Values_Set ''mode'' ''driving'' query;
          query = Values_Set ''results'' (show_int (yandex_results cfg request)) query;
          query = Set_if (\<not> pr_Traffic request) ''traffic'' ''disabled'' query;
          query = Set_if (pr_DepartureUnix request > 0 \<and> pr_Traffic request) ''departure_time'' (show_int (pr_DepartureUnix request)) query;
          query = Set_if (pr_AvoidTolls request) ''avoid_tolls'' ''true'' query;
          query = Set_if (pr_AvoidUnpaved request) ''avoid_unpaved'' ''true'' query
      in fold (\<lambda>zone. Values_Add ''avoid_zones'' (url_line (az_Points zone))) (pr_AvoidZones request) query)"

definition buildYandexRouteURL :: "Config \<Rightarrow> ProviderRouteRequest \<Rightarrow> string" where
  "buildYandexRouteURL cfg request = yandexRouterEndpoint @ ''?'' @ Values_Encode (yandex_route_values cfg request)"

definition dgis_route_URL :: "Config \<Rightarrow> string" where
  "dgis_route_URL cfg = dgisRoutingEndpoint @ ''?'' @ Values_Encode (Values_Set ''key'' (cf_DGISAPIKey cfg) [])"

section \<open>Address search\<close>

definition yandex_geocoder_values :: "Config \<Rightarrow> string \<Rightarrow> string \<Rightarrow> int \<Rightarrow> url_values" where
  "yandex_geocoder_values cfg query language limit =
     Values_Set ''format'' ''json'' (Values_Set ''results'' (show_int limit) (Values_Set ''lang'' language
       (Values_Set ''geocode'' query (Values_Set ''apikey'' (cf_YandexGeocoderAPIKey cfg) []))))"

definition buildYandexGeocoderURL :: "Config \<Rightarrow> string \<Rightarrow> string \<Rightarrow> int \<Rightarrow> string" where
  "buildYandexGeocoderURL cfg query language limit = yandexGeocoderEndpoint @ ''?'' @ Values_Encode (yandex_geocoder_values cfg query language limit)"

text \<open>The canonical text of a location that passed its checks.\<close>

definition location_text :: "(f64 \<Rightarrow> string) \<Rightarrow> string \<Rightarrow> string" where
  "location_text shortest value =
     (let parts = Split (CHR '','') (trim_space value); coordinate = (\<lambda>i. shortest (the (ParseFloat (trim_space (parts ! i)))))
      in coordinate 0 @ '','' @ coordinate 1)"

definition dgis_geocoder_values :: "(f64 \<Rightarrow> string) \<Rightarrow> Config \<Rightarrow> string \<Rightarrow> string \<Rightarrow> int \<Rightarrow> url_values" where
  "dgis_geocoder_values shortest cfg query language limit =
     Values_Set ''location'' (location_text shortest (cf_DGISGeocoderLocationBias cfg)) (Values_Set ''sort'' ''relevance''
       (Values_Set ''page_size'' (show_int limit) (Values_Set ''page'' ''1'' (Values_Set ''locale'' (dgisLocale language)
       (Values_Set ''fields'' ''items.point,items.full_address_name'' (Values_Set ''q'' (trim_space query) (Values_Set ''key'' (cf_DGISAPIKey cfg) [])))))))"

definition buildDGISGeocoderURL :: "(f64 \<Rightarrow> string) \<Rightarrow> Config \<Rightarrow> string \<Rightarrow> string \<Rightarrow> int \<Rightarrow> bias_error + string" where
  "buildDGISGeocoderURL shortest cfg query language limit = (case normalizeDGISLocationBias (cf_DGISGeocoderLocationBias cfg) of
     Some e \<Rightarrow> Inl e
   | None \<Rightarrow> Inr (dgisGeocoderEndpoint @ ''?'' @ Values_Encode (dgis_geocoder_values shortest cfg query language limit)))"

text \<open>The path of the edge's client; the base URL has no path of its own.\<close>

definition geosuggest_path :: "string \<Rightarrow> string \<Rightarrow> int \<Rightarrow> string" where
  "geosuggest_path query language limit =
     ''/internal/v1/geosuggest?'' @ Values_Encode [(''q'', [query]), (''lang'', [language]), (''limit'', [show_int limit])]"

section \<open>What a request says\<close>

lemma Set_if_keys: "distinct (map fst vs) \<Longrightarrow> distinct (map fst (Set_if b key value vs))"
  by (simp add: Set_if_def Set_keys)

lemma at_Set_if [simp]: "values_at (Set_if b k v vs) key = (if b \<and> key = k then [v] else values_at vs key)"
  by (simp add: Set_if_def)

lemma keys_distinct: "distinct (map fst (yandex_route_values cfg request))" "distinct (map fst (yandex_geocoder_values cfg query language limit))"
  "distinct (map fst (dgis_geocoder_values shortest cfg query language limit))"
  unfolding yandex_route_values_def yandex_geocoder_values_def dgis_geocoder_values_def Let_def
  by (intro fold_Add_keys Set_if_keys Set_keys; simp)+

lemma endpoints_plain: "CHR ''?'' \<notin> set yandexRouterEndpoint" "CHR ''?'' \<notin> set yandexGeocoderEndpoint" "CHR ''?'' \<notin> set dgisRoutingEndpoint"
  "CHR ''?'' \<notin> set dgisGeocoderEndpoint" "CHR ''?'' \<notin> set ''/internal/v1/geosuggest''"
  by code_simp+

text \<open>A URL says what a table of parameters says, at an endpoint, and nothing else.\<close>

definition says :: "string \<Rightarrow> string \<Rightarrow> (string \<Rightarrow> string list) \<Rightarrow> bool" where
  "says url endpoint table \<longleftrightarrow> url_path url = endpoint \<and> (\<forall>key. Query_All (ParseQuery (url_query url)) key = table key)"

lemma says_Encode:
  assumes "CHR ''?'' \<notin> set endpoint" "distinct (map fst vs)"
  shows "says (endpoint @ ''?'' @ Values_Encode vs) endpoint (values_at vs)"
  using url_parts [OF assms(1)] Query_All_Encode [OF assms(2)] by (simp add: says_def)

lemma tables:
  "values_at (yandex_geocoder_values cfg query language limit) =
     (\<lambda>key. if key = ''apikey'' then [cf_YandexGeocoderAPIKey cfg] else if key = ''geocode'' then [query] else if key = ''lang'' then [language]
        else if key = ''results'' then [show_int limit] else if key = ''format'' then [''json''] else [])"
  "values_at (dgis_geocoder_values shortest cfg query language limit) =
     (\<lambda>key. if key = ''key'' then [cf_DGISAPIKey cfg] else if key = ''q'' then [trim_space query]
        else if key = ''fields'' then [''items.point,items.full_address_name''] else if key = ''locale'' then [dgisLocale language]
        else if key = ''page'' then [''1''] else if key = ''page_size'' then [show_int limit] else if key = ''sort'' then [''relevance'']
        else if key = ''location'' then [location_text shortest (cf_DGISGeocoderLocationBias cfg)] else [])"
  "values_at (Values_Set ''key'' key []) = (\<lambda>k. if k = ''key'' then [key] else [])"
  "values_at [(''q'', [query]), (''lang'', [language]), (''limit'', [show_int limit])] =
     (\<lambda>key. if key = ''q'' then [query] else if key = ''lang'' then [language] else if key = ''limit'' then [show_int limit] else [])"
  by (intro ext; simp add: yandex_geocoder_values_def dgis_geocoder_values_def; simp add: values_at_def)+

lemma route_table: "values_at (yandex_route_values cfg request) =
     (\<lambda>key. if key = ''apikey'' then [cf_YandexAPIKey cfg]
        else if key = ''waypoints'' then [url_line ([pr_Origin request] @ pr_Waypoints request @ [pr_Destination request])]
        else if key = ''mode'' then [''driving''] else if key = ''results'' then [show_int (yandex_results cfg request)]
        else if key = ''traffic'' then (if pr_Traffic request then [] else [''disabled''])
        else if key = ''departure_time'' then (if pr_DepartureUnix request > 0 \<and> pr_Traffic request then [show_int (pr_DepartureUnix request)] else [])
        else if key = ''avoid_tolls'' then (if pr_AvoidTolls request then [''true''] else [])
        else if key = ''avoid_unpaved'' then (if pr_AvoidUnpaved request then [''true''] else [])
        else if key = ''avoid_zones'' then map (\<lambda>zone. url_line (az_Points zone)) (pr_AvoidZones request) else [])"
  by (intro ext; simp add: yandex_route_values_def Let_def at_fold_Add)

lemma geosuggest_says: "says (geosuggest_path query language limit) ''/internal/v1/geosuggest''
     (\<lambda>key. if key = ''q'' then [query] else if key = ''lang'' then [language] else if key = ''limit'' then [show_int limit] else [])"
proof -
  have "geosuggest_path query language limit = ''/internal/v1/geosuggest'' @ ''?'' @ Values_Encode [(''q'', [query]), (''lang'', [language]), (''limit'', [show_int limit])]"
    by (simp add: geosuggest_path_def)
  then show ?thesis using says_Encode [OF endpoints_plain(5), of "[(''q'', [query]), (''lang'', [language]), (''limit'', [show_int limit])]"] by (simp only: tables(4)) simp
qed

text \<open>C37: A request to a provider says exactly what the code puts into it, at the fixed endpoint, whatever bytes the query of a user, the language and the
  configured keys have: reading the query of the URL as Go does gives, for every key, the values that were set for it, and none for any other key. So a
  user's text neither changes the host, the credential or another parameter nor adds one, and the same holds of the search that the edge passes on.\<close>

theorem requests_say_exactly:
  "says (buildYandexGeocoderURL cfg query language limit) yandexGeocoderEndpoint
     (\<lambda>key. if key = ''apikey'' then [cf_YandexGeocoderAPIKey cfg] else if key = ''geocode'' then [query] else if key = ''lang'' then [language]
        else if key = ''results'' then [show_int limit] else if key = ''format'' then [''json''] else [])
   \<and> (case buildDGISGeocoderURL shortest cfg query language limit of Inl e \<Rightarrow> normalizeDGISLocationBias (cf_DGISGeocoderLocationBias cfg) = Some e | Inr url \<Rightarrow>
       says url dgisGeocoderEndpoint (\<lambda>key. if key = ''key'' then [cf_DGISAPIKey cfg] else if key = ''q'' then [trim_space query]
        else if key = ''fields'' then [''items.point,items.full_address_name''] else if key = ''locale'' then [dgisLocale language]
        else if key = ''page'' then [''1''] else if key = ''page_size'' then [show_int limit] else if key = ''sort'' then [''relevance'']
        else if key = ''location'' then [location_text shortest (cf_DGISGeocoderLocationBias cfg)] else []))
   \<and> says (buildYandexRouteURL cfg request) yandexRouterEndpoint
     (\<lambda>key. if key = ''apikey'' then [cf_YandexAPIKey cfg]
        else if key = ''waypoints'' then [url_line ([pr_Origin request] @ pr_Waypoints request @ [pr_Destination request])]
        else if key = ''mode'' then [''driving''] else if key = ''results'' then [show_int (yandex_results cfg request)]
        else if key = ''traffic'' then (if pr_Traffic request then [] else [''disabled''])
        else if key = ''departure_time'' then (if pr_DepartureUnix request > 0 \<and> pr_Traffic request then [show_int (pr_DepartureUnix request)] else [])
        else if key = ''avoid_tolls'' then (if pr_AvoidTolls request then [''true''] else [])
        else if key = ''avoid_unpaved'' then (if pr_AvoidUnpaved request then [''true''] else [])
        else if key = ''avoid_zones'' then map (\<lambda>zone. url_line (az_Points zone)) (pr_AvoidZones request) else [])
   \<and> says (dgis_route_URL cfg) dgisRoutingEndpoint (\<lambda>key. if key = ''key'' then [cf_DGISAPIKey cfg] else [])
   \<and> says (geosuggest_path query language limit) ''/internal/v1/geosuggest''
     (\<lambda>key. if key = ''q'' then [query] else if key = ''lang'' then [language] else if key = ''limit'' then [show_int limit] else [])"
  using says_Encode [OF endpoints_plain(2) keys_distinct(2), of cfg query language limit, unfolded tables]
    says_Encode [OF endpoints_plain(4) keys_distinct(3), of shortest cfg query language limit, unfolded tables]
    says_Encode [OF endpoints_plain(1) keys_distinct(1), of cfg request, unfolded route_table]
    says_Encode [OF endpoints_plain(3) Set_keys [of "[]" "''key''" "cf_DGISAPIKey cfg"], unfolded tables] geosuggest_says [of query language limit]
  by (auto simp only: buildYandexGeocoderURL_def buildYandexRouteURL_def buildDGISGeocoderURL_def dgis_route_URL_def option.case sum.case list.map distinct.simps
      split: option.splits)

end
