(* ===== verification/StubAdapter.thy ===== *)
theory StubAdapter
  imports Yandex_Routes
begin

text \<open>
  The stub provider (\<open>services/provider-yandex/stub.go\<close>): synthetic routes and suggestions for tests and demonstrations. The arc sine of the mathematical
  library, SHA-256 and \<open>strings.ToLower\<close> on UTF-8 are arguments, and so are the state of the context and the end of a sleep.
\<close>

section \<open>Geometry\<close>

definition stub_haversineMeters :: "libm \<Rightarrow> (f64 \<Rightarrow> f64) \<Rightarrow> GeoPoint \<Rightarrow> GeoPoint \<Rightarrow> f64" where
  "stub_haversineMeters lm asin a b =
     (let lat1 = radians (Latitude a); lat2 = radians (Latitude b);
          deltaLat = radians (Latitude b - Latitude a); deltaLon = radians (Longitude b - Longitude a);
          h = m_sin lm (deltaLat / flit 2) * m_sin lm (deltaLat / flit 2)
              + m_cos lm lat1 * m_cos lm lat2 * m_sin lm (deltaLon / flit 2) * m_sin lm (deltaLon / flit 2)
      in flit 12742000 * asin (m_sqrt lm h))"

definition clamp :: "f64 \<Rightarrow> f64 \<Rightarrow> f64 \<Rightarrow> f64" where
  "clamp value minimum maximum = fmax minimum (fmin maximum value)"

text \<open>The loops of \<open>wrapLongitude\<close>, with a number of rounds that is more than enough for a longitude with an offset.\<close>

fun wrap_down :: "nat \<Rightarrow> f64 \<Rightarrow> f64" where
  "wrap_down 0 value = value"
| "wrap_down (Suc n) value = (if value > flit 180 then wrap_down n (value - flit 360) else value)"

fun wrap_up :: "nat \<Rightarrow> f64 \<Rightarrow> f64" where
  "wrap_up 0 value = value"
| "wrap_up (Suc n) value = (if value < flit (- 180) then wrap_up n (value + flit 360) else value)"

definition wrapLongitude :: "f64 \<Rightarrow> f64" where
  "wrapLongitude value = wrap_up 2 (wrap_down 2 value)"

definition syntheticMidpoint :: "GeoPoint \<Rightarrow> GeoPoint \<Rightarrow> int \<Rightarrow> nat \<Rightarrow> GeoPoint" where
  "syntheticMidpoint start finish alternative segment =
     (let middle = \<lparr> Latitude = (Latitude start + Latitude finish) / flit 2, Longitude = (Longitude start + Longitude finish) / flit 2 \<rparr> in
      if alternative = 0 then middle
      else
        let offset = flit 0.008 * of_i64 alternative; offset = (if segment mod 2 = 1 then fneg offset else offset) in
        \<lparr> Latitude = clamp (Latitude middle + offset) (flit (- 89.999999)) (flit 89.999999), Longitude = wrapLongitude (Longitude middle - offset) \<rparr>)"

section \<open>Routes\<close>

definition maxInt64 :: "int64 \<Rightarrow> int64 \<Rightarrow> int64" where
  "maxInt64 a b = (if a > b then a else b)"

definition trafficMultiplier :: "int \<Rightarrow> nat \<Rightarrow> f64" where
  "trafficMultiplier alternative i =
     (let m = flit 1.35 - of_i64 alternative * flit 0.12 + of_i64 (int (i mod 2)) * flit 0.08 in if m < flit 1.05 then flit 1.05 else m)"

definition stub_class :: "bool \<Rightarrow> int \<Rightarrow> nat \<Rightarrow> CongestionClass" where
  "stub_class traffic alternative i =
     (if \<not> traffic then CongestionUnknown else if trafficMultiplier alternative i \<ge> flit 1.4 then CongestionOrange else CongestionYellow)"

definition stub_confidence :: Confidence where
  "stub_confidence = \<lparr> Level = ConfidenceHigh, Score = 1, Reasons = [''DETERMINISTIC_SYNTHETIC_FIXTURE''] \<rparr>"

text \<open>The segment between two anchors.\<close>

definition stub_segment :: "libm \<Rightarrow> (f64 \<Rightarrow> f64) \<Rightarrow> bool \<Rightarrow> int \<Rightarrow> nat \<Rightarrow> GeoPoint \<Rightarrow> GeoPoint \<Rightarrow> RouteSegment" where
  "stub_segment lm asin traffic alternative i start finish =
     (let mid = syntheticMidpoint start finish alternative i;
          baseDistance = stub_haversineMeters lm asin start mid + stub_haversineMeters lm asin mid finish;
          baseline = to_i64 (fmax 1 (fround (baseDistance / flit 15)))
      in \<lparr> seg_SegmentID = ''stub-'' @ show_int (alternative + 1) @ ''-'' @ show_int (int i + 1), seg_Geometry = [start, mid, finish],
           seg_DistanceMeters = to_i64 (fround baseDistance),
           seg_LiveDurationSeconds = (if traffic then to_i64 (fround (of_i64 baseline * trafficMultiplier alternative i)) else 0),
           seg_BaselineDurationSeconds = baseline, seg_TrafficRatio = trafficMultiplier alternative i,
           seg_CongestionClass = stub_class traffic alternative i, seg_Confidence = stub_confidence, seg_GeometrySimilarity = 1,
           seg_Source = ''SYNTHETIC_STUB'' \<rparr>)"

fun stub_segments :: "libm \<Rightarrow> (f64 \<Rightarrow> f64) \<Rightarrow> bool \<Rightarrow> int \<Rightarrow> nat \<Rightarrow> GeoPoint list \<Rightarrow> RouteSegment list" where
  "stub_segments lm asin traffic alternative i (start # finish # anchors) =
     stub_segment lm asin traffic alternative i start finish # stub_segments lm asin traffic alternative (Suc i) (finish # anchors)"
| "stub_segments lm asin traffic alternative i _ = []"

definition stub_explanation :: string where
  "stub_explanation = unhex (
     ''d094d0b5d182d0b5d180d0bcd0b8d0bdd0b8d180d0bed0b2d0b0d0bdd0bdd18bd0b920d181d0b8d0bdd182d0b5d182d0b8d187d0b5d181d0bad0b8d0b920d0bcd0b0'' @
     ''d180d188d180d183d1822070726f766964657220737475623b20d18dd182d0be20d0bdd0b520d0b4d0b0d0bdd0bdd18bd0b520d0afd0bdd0b4d0b5d0bad181d0b02e'')"

definition syntheticCandidate :: "libm \<Rightarrow> (f64 \<Rightarrow> f64) \<Rightarrow> (string \<Rightarrow> 8 word list) \<Rightarrow> ProviderRouteRequest \<Rightarrow> int \<Rightarrow> RouteCandidate" where
  "syntheticCandidate lm asin sha256 request alternative =
     (let segments = stub_segments lm asin (pr_Traffic request) alternative 0 ([pr_Origin request] @ pr_Waypoints request @ [pr_Destination request]);
          geometry = foldl (\<lambda>geometry s. appendDistinct geometry (seg_Geometry s)) [] segments;
          total = (\<lambda>f. foldl (\<lambda>sum s. add64 sum (f s)) 0 segments);
          distanceMeters = total seg_DistanceMeters; baselineSeconds = total seg_BaselineDurationSeconds;
          liveSeconds = (if pr_Traffic request then total seg_LiveDurationSeconds else 0)
      in \<lparr> rc_CandidateID = candidateID sha256 ''stub'' alternative geometry distanceMeters (maxInt64 liveSeconds baselineSeconds),
           rc_Provider = ''stub'', rc_ProviderRouteReference = [],
           rc_TrafficDataType = (if pr_Traffic request then TrafficDataSynthetic else TrafficDataBaseline), rc_Geometry = geometry,
           rc_DistanceMeters = distanceMeters, rc_LiveDurationSeconds = liveSeconds, rc_BaselineDurationSeconds = baselineSeconds,
           rc_TrafficDelaySeconds = maxInt64 0 (sub64 liveSeconds baselineSeconds), rc_Segments = segments, rc_Blocked = False, rc_Tolls = False,
           rc_Unpaved = False, rc_Confidence = stub_confidence, rc_Score = 0,
           rc_ReasonCodes = [''SYNTHETIC_STUB'', ''NOT_PROVIDER_OBSERVED''] @ (if pr_Traffic request then [] else [''TRAFFIC_DISABLED_BASELINE'']),
           rc_Explanation = stub_explanation, rc_GeneratedBy = ''SYNTHETIC_STUB'', rc_ProviderRequestCount = 1, rc_Metrics = zero_metrics \<rparr>)"

text \<open>What a scenario does before any data: \<open>ctxErr\<close> is the error of the context, \<open>slept\<close> the error of a sleep.\<close>

definition stub_scenario :: "Config \<Rightarrow> go_error option \<Rightarrow> go_error option \<Rightarrow> go_error option" where
  "stub_scenario cfg ctxErr slept =
     (if ctxErr \<noteq> None then ctxErr
      else if cf_StubScenario cfg = ''slow'' then slept
      else if cf_StubScenario cfg = ''rate_limit'' then Some (rate_limited ''provider rate limit reached'' second)
      else if cf_StubScenario cfg = ''outage'' then Some (serviceError ''PROVIDER_UNAVAILABLE'' ''provider is temporarily unavailable'' 503 True None)
      else None)"

definition stub_count :: "Config \<Rightarrow> ProviderRouteRequest \<Rightarrow> int" where
  "stub_count cfg request =
     (let count = pr_Alternatives request + 1; count = (if count < 1 then 1 else count) in
      if count > cf_YandexMaxResults cfg then cf_YandexMaxResults cfg else count)"

definition stub_Routes ::
    "libm \<Rightarrow> (f64 \<Rightarrow> f64) \<Rightarrow> (string \<Rightarrow> 8 word list) \<Rightarrow> Config \<Rightarrow> go_error option \<Rightarrow> go_error option \<Rightarrow> ProviderRouteRequest \<Rightarrow> go_error + ProviderRouteResponse" where
  "stub_Routes lm asin sha256 cfg ctxErr slept request = (case stub_scenario cfg ctxErr slept of
     Some err \<Rightarrow> Inl err
   | None \<Rightarrow>
       if pr_RequestBudget request < 1 then Inl errBudgetExhausted
       else Inr \<lparr> ps_Candidates = map (\<lambda>index. syntheticCandidate lm asin sha256 request (int index)) [0..<nat (stub_count cfg request)],
         ps_RequestsUsed = 1, ps_EstimatedBillableUnits = 0, ps_BudgetRemaining = pr_RequestBudget request - 1,
         ps_Warnings = [''SYNTHETIC_PROVIDER_DATA: deterministic test data; never present it as official Yandex traffic.''], ps_Degraded = False \<rparr>)"

section \<open>Suggestions\<close>

text \<open>\<open>int32(binary.BigEndian.Uint32(bytes)) % 10_000\<close> as a number of millionths.\<close>

definition stub_offset :: "8 word list \<Rightarrow> f64" where
  "stub_offset bytes =
     (let n = foldl (\<lambda>n b. 256 * n + uint b) 0 bytes; n = (if n \<ge> 2 ^ 31 then n - 2 ^ 32 else n)
      in of_i64 (n - quot64 n 10000 * 10000) / flit 1000000)"

definition stub_label :: string where
  "stub_label = unhex ''20e2809420d182d0b5d181d182d0bed0b2d18bd0b920d0b2d0b0d180d0b8d0b0d0bdd18220''"

definition stub_subtitle :: string where
  "stub_subtitle = unhex ''d0a1d0b8d0bdd182d0b5d182d0b8d187d0b5d181d0bad0b8d0b520d0b4d0b0d0bdd0bdd18bd0b52070726f76696465722073747562''"

definition stub_suggestion :: "8 word list \<Rightarrow> string \<Rightarrow> nat \<Rightarrow> GeoSuggestion" where
  "stub_suggestion digest normalized i =
     \<lparr> gs_ID = ''stub-suggestion-'' @ hex_encode (take 6 digest) @ ''-'' @ show_int (int i + 1),
       gs_Label = normalized @ stub_label @ show_int (int i + 1), gs_Subtitle = stub_subtitle,
       gs_Point = \<lparr> Latitude = flit 55.751244 + stub_offset (slice 0 4 digest) + of_i64 (int i) * flit 0.003,
         Longitude = flit 37.618423 + stub_offset (slice 4 8 digest) - of_i64 (int i) * flit 0.003 \<rparr> \<rparr>"

definition stub_Suggest ::
    "(string \<Rightarrow> 8 word list) \<Rightarrow> (string \<Rightarrow> string) \<Rightarrow> Config \<Rightarrow> go_error option \<Rightarrow> go_error option \<Rightarrow> string \<Rightarrow> int \<Rightarrow> go_error + GeoSuggestion list" where
  "stub_Suggest sha256 lower cfg ctxErr slept query limit = (case stub_scenario cfg ctxErr slept of
     Some err \<Rightarrow> Inl err
   | None \<Rightarrow>
       let normalized = trim_space query; digest = sha256 (lower normalized); limit = (if limit > 3 then 3 else limit)
       in Inr (map (stub_suggestion digest normalized) [0..<nat limit]))"

section \<open>What the stub never says\<close>

text \<open>With traffic every segment is yellow or orange, so no synthetic route is ever strictly green; without, none is classified.\<close>

lemma stub_segments_classes:
  "list_all (\<lambda>s. if traffic then seg_CongestionClass s \<in> {CongestionYellow, CongestionOrange}
      else seg_CongestionClass s = CongestionUnknown \<and> seg_LiveDurationSeconds s = 0)
     (stub_segments lm asin traffic alternative i anchors)"
  by (induction lm asin traffic alternative i anchors rule: stub_segments.induct) (auto simp: stub_segment_def stub_class_def Let_def)

lemma stub_segments_length: "length (stub_segments lm asin traffic alternative i (a # anchors)) = length anchors"
  by (induction anchors arbitrary: i a) simp_all

lemma stub_response:
  assumes "stub_Routes lm asin sha256 cfg ctxErr slept request = Inr response" "1 \<le> cf_YandexMaxResults cfg"
  shows "int (length (ps_Candidates response)) = max 1 (min (pr_Alternatives request + 1) (cf_YandexMaxResults cfg))"
    "ps_RequestsUsed response + ps_BudgetRemaining response = pr_RequestBudget request" "0 \<le> ps_BudgetRemaining response"
    "c \<in> set (ps_Candidates response) \<Longrightarrow> length (rc_Segments c) = length (pr_Waypoints request) + 1"
  using assms by (auto simp: stub_Routes_def stub_count_def syntheticCandidate_def Let_def stub_segments_length split: option.splits if_splits)

text \<open>The suggestions of the stub are near the centre of Moscow.\<close>

lemma of_i64_small: "\<bar>k\<bar> \<le> 2 ^ 53 \<Longrightarrow> of_i64 k = Fin (of_int k)"
  unfolding of_i64_def by (rule mk_int)

lemma bytes_value: "0 \<le> foldl (\<lambda>n b. 256 * n + uint b) 0 (bytes :: 8 word list) \<and> foldl (\<lambda>n b. 256 * n + uint b) 0 bytes < 256 ^ length bytes"
proof (induction bytes rule: rev_induct)
  case (snoc b bytes)
  have "uint b < 256" "0 \<le> uint b" using uint_bounded [of b] by simp_all
  with snoc show ?case by simp
qed simp

lemma remainder_small:
  assumes "\<bar>s\<bar> < 2 ^ 62"
  shows "\<bar>s - quot64 s 10000 * 10000\<bar> \<le> 9999"
proof -
  define q where "q = \<bar>s\<bar> div 10000"
  have q: "0 \<le> q" "q < 2 ^ 62" "10000 * q \<le> \<bar>s\<bar>" "\<bar>s\<bar> < 10000 * q + 10000" using assms unfolding q_def by linarith+
  then have "in64 (sgn s * q)" by (auto simp: in64_def sgn_if)
  then have "quot64 s 10000 = sgn s * q" by (simp add: quot64_def wrap64_id q_def)
  then show ?thesis using q by (auto simp: sgn_if abs_if split: if_splits)
qed

lemma stub_offset_range:
  assumes "length bytes \<le> 4"
  shows "frange (- 1) 1 (stub_offset bytes)"
proof -
  define n where "n = foldl (\<lambda>n b. 256 * n + uint b) 0 bytes"
  define s where "s = (if n \<ge> 2 ^ 31 then n - 2 ^ 32 else n)"
  define k where "k = s - quot64 s 10000 * 10000"
  have "(256 :: int) ^ length bytes \<le> 256 ^ 4" using assms by (intro power_increasing) simp_all
  then have "0 \<le> n" "n < 2 ^ 32" using bytes_value [of bytes] by (simp_all add: n_def)
  then have "\<bar>s\<bar> < 2 ^ 62" by (simp add: s_def)
  then have k: "\<bar>k\<bar> \<le> 9999" unfolding k_def by (rule remainder_small)
  then have "of_i64 k = Fin (of_int k)" by (intro of_i64_small) simp
  moreover have "flit 1000000 = Fin 1000000" unfolding flit_def by (rule mk_numeral) simp
  moreover have "- 1 \<le> of_int k / (1000000 :: rat)" "of_int k / 1000000 \<le> (1 :: rat)" using k by (auto simp: field_simps abs_le_iff)
  ultimately have "frange (- 1) 1 (of_i64 k / flit 1000000)" by (auto intro!: mk_range simp: rep_neg)
  then show ?thesis unfolding stub_offset_def Let_def n_def [symmetric] s_def [symmetric] k_def [symmetric] .
qed

lemma stub_point_ok:
  assumes "i < 3"
  shows "point_ok (gs_Point (stub_suggestion digest normalized i))"
proof -
  have reps: "rep 54" "rep 56" "rep 57" "rep 58" "rep 59" "rep 36" "rep 38" "rep 39" "rep 34" "rep 37" "rep 55" "rep 2" by (rule rep_numeral; simp)+
  have bases: "frange 55 56 (flit 55.751244)" "frange 37 38 (flit 37.618423)" unfolding flit_def using reps by (auto intro!: mk_range)
  have offsets: "frange (- 1) 1 (stub_offset (slice 0 4 digest))" "frange (- 1) 1 (stub_offset (slice 4 8 digest))"
    by (rule stub_offset_range; simp add: slice_def)+
  have "of_i64 (int i) = Fin (of_int (int i))" using assms by (intro of_i64_small) simp
  then have step: "frange 0 2 (of_i64 (int i) * flit 0.003)"
    using frange_mult [of 2 "of_i64 (int i)" 1 "flit 0.003"] assms score_literals [of "0.003"] reps by simp
  have lat: "frange (55 + - 1 + 0) (56 + 1 + 2) (flit 55.751244 + stub_offset (slice 0 4 digest) + of_i64 (int i) * flit 0.003)"
    by (intro frange_add bases offsets step) (simp_all add: reps)
  have lon: "frange (37 + - 1 - 2) (38 + 1 - 0) (flit 37.618423 + stub_offset (slice 4 8 digest) - of_i64 (int i) * flit 0.003)"
    by (intro frange_add frange_sub bases offsets step) (simp_all add: reps)
  show ?thesis using frange_weaken [OF lat, of "- 90" 90] frange_weaken [OF lon, of "- 180" 180] by (simp add: point_ok_def stub_suggestion_def)
qed

text \<open>Two rounds are enough for a longitude that is at most one turn too far, and then the loops of the code have ended.\<close>

lemma wrap_down_range: "frange (- 180) 540 v \<Longrightarrow> frange (- 180) 180 (wrap_down 2 v)"
  and wrap_up_range: "frange (- 540) 180 v \<Longrightarrow> frange (- 180) 180 (wrap_up 2 v)"
proof -
  have lits: "flit 180 = Fin 180" "flit (- 180) = Fin (- 180)" "flit 360 = Fin 360"
    using mk_int [of "- 180"] by (simp_all add: flit_def mk_numeral)
  have reps: "rep 180" "rep (- 180)" by (simp_all add: rep_numeral rep_neg)
  show "frange (- 180) 180 (wrap_down 2 v)" if v: "frange (- 180) 540 v"
  proof -
    obtain r where r: "v = Fin r" "- 180 \<le> r" "r \<le> 540" using v by (rule frangeE)
    have "frange (- 180) 180 (mk (r - 360))" if "180 < r" using r that reps by (intro mk_range) simp_all
    then show ?thesis using r by (auto simp: numeral_2_eq_2 lits elim!: frangeE)
  qed
  show "frange (- 180) 180 (wrap_up 2 v)" if v: "frange (- 540) 180 v"
  proof -
    obtain r where r: "v = Fin r" "- 540 \<le> r" "r \<le> 180" using v by (rule frangeE)
    have "frange (- 180) 180 (mk (r + 360))" if "r < - 180" using r that reps by (intro mk_range) simp_all
    then show ?thesis using r by (auto simp: numeral_2_eq_2 lits elim!: frangeE)
  qed
qed

lemma stub_ids: "inj (\<lambda>i. gs_ID (stub_suggestion digest normalized i))"
  by (auto simp: inj_on_def stub_suggestion_def show_int_def dest!: show_nat_inj)

end
