(* ===== verification/AddressSearch.thy ===== *)
theory AddressSearch
  imports ProviderServer ProviderRequests StubAdapter EdgeSearch
begin

text \<open>
  Address search from the edge to the geocoders: the resolver that the configured adapter uses (\<open>dgis.go\<close>, \<open>main.go\<close>), the request of the edge's client
  (\<open>service_client.go\<close>) and the composition of the two HTTP services. The transport hands over the bytes that the provider service writes; the JSON
  encoder and decoder are arguments.
\<close>

section \<open>Errors that the service can send\<close>

text \<open>The status of the answer to an error.\<close>

definition error_status :: "go_error \<Rightarrow> int" where
  "error_status err = pe_HTTPStatus (normalizeProviderError err)"

definition refuses :: "go_error \<Rightarrow> bool" where
  "refuses err \<longleftrightarrow> error_status err \<in> {429, 499, 501, 502, 503, 504}"

lemma refuses_service [simp]: "refuses (serviceError code message status retryable cause) \<longleftrightarrow> status \<in> {429, 499, 501, 502, 503, 504}"
  by (simp add: refuses_def error_status_def serviceError_def normalizeProviderError_def)

lemma refuses_named [simp]: "refuses errCircuitOpen" "refuses errBulkheadFull" "refuses errCredentialFault" "refuses errUnsupported"
  "refuses DeadlineExceeded" "refuses Canceled" "refuses (OtherError e)" "refuses (rate_limited message wait)"
  by (simp_all add: refuses_def error_status_def normalizeProviderError_def serviceError_def rate_limited_def)

text \<open>A context ends with one of two errors.\<close>

definition context_error :: "go_error option \<Rightarrow> bool" where
  "context_error e \<longleftrightarrow> e \<in> {None, Some DeadlineExceeded, Some Canceled}"

definition sound_attempt :: "'w attempt_env \<Rightarrow> bool" where
  "sound_attempt e \<longleftrightarrow> context_error (at_cooldown_sleep e) \<and> context_error (Some (at_context e)) \<and> context_error (at_retry_sleep e)
     \<and> (case at_outcome e of SendFailed ctxErr \<Rightarrow> context_error ctxErr | _ \<Rightarrow> True)"

lemma context_refuses: "context_error (Some e) \<Longrightarrow> refuses e"
  by (auto simp: context_error_def)

lemma exchange_refuses:
  assumes "geocode_exchange who f (at_outcome e) = Inl err" "sound_attempt e" "\<And>status ra body err. f status ra body = Inl err \<Longrightarrow> refuses err"
  shows "refuses err"
proof (cases "at_outcome e")
  case (SendFailed c)
  then show ?thesis using assms(1,2)
    by (cases c) (auto simp: geocode_exchange_def sound_attempt_def context_error_def callerContextError_def split: if_splits)
next
  case TooLarge
  then show ?thesis using assms(1) by (auto simp: geocode_exchange_def)
next
  case (Answer status ra body)
  then show ?thesis using assms(1,3) by (auto simp: geocode_exchange_def)
qed

lemma mapYandexStatus_refuses: "refuses (mapYandexStatus parse_time status ra now)"
  by (simp add: mapYandexStatus_def)

lemma response_invalid_refuses [simp]: "refuses (response_invalid message)" "refuses (not_json who)"
  by (simp_all add: response_invalid_def not_json_def)

lemma yandex_refuses:
  assumes "yandex_doGeocode sha256 parse_time limit e = Inl err" "sound_attempt e"
  shows "refuses err"
  by (rule exchange_refuses [OF assms(1) [unfolded yandex_doGeocode_def] assms(2)])
     (auto simp: mapYandexStatus_refuses normalizeGeocoderResponse_def split: if_splits option.splits sum.splits prod.splits)

lemma dgis_status_refuses: "mapDGISGeocoderStatus parse_time status ra now = Some err \<Longrightarrow> refuses err"
  by (auto simp: mapDGISGeocoderStatus_def split: if_splits)

lemma dgis_refuses:
  assumes "dgis_doGeocode parse_time cfg limit e = Inl err" "sound_attempt e" "normalizeDGISLocationBias (cf_DGISGeocoderLocationBias cfg) = None"
  shows "refuses err"
proof (rule exchange_refuses [OF _ assms(2)])
  show "geocode_exchange ''geocoder'' (\<lambda>status retryAfter body.
       if status = 404 then Inr []
       else if status \<noteq> 200 then (case mapDGISGeocoderStatus parse_time status retryAfter (at_now e 5) of Some err \<Rightarrow> Inl err | None \<Rightarrow> Inr [])
       else (case body of None \<Rightarrow> Inl (not_json ''geocoder'') | Some wire \<Rightarrow> normalizeDGISGeocoder wire limit)) (at_outcome e) = Inl err"
    using assms(1,3) by (simp add: dgis_doGeocode_def)
qed (auto simp: normalizeDGISGeocoder_def dest: dgis_status_refuses split: if_splits option.splits)

section \<open>The retry loop keeps to such errors\<close>

lemma suggest_before_refuses:
  assumes "suggest_before e s = (Some err, s')" "sound_attempt e"
  shows "refuses err"
  using assms by (auto simp: suggest_before_def suggest_slot_def suggest_gate_def sound_attempt_def Let_def dest: context_refuses
      split: if_splits prod.splits option.splits bulkhead_error.splits)

lemma suggest_after_refuses:
  assumes "suggest_after kind cfg e attempt s = (r, s')" "sound_attempt e" "\<And>err. gk_do kind e = Inl err \<Longrightarrow> refuses err"
  shows "r = Inl (Inl err) \<Longrightarrow> refuses err" "r = Inr err \<Longrightarrow> refuses err"
  using assms by (auto simp: suggest_after_def sound_attempt_def Let_def context_refuses split: if_splits sum.splits option.splits)

lemma suggest_loop_refuses:
  assumes "suggest_loop kind cfg ev left attempt lastErr s = (Inl err, s')" "\<And>k. sound_attempt (ev k)"
    "\<And>k err. gk_do kind (ev k) = Inl err \<Longrightarrow> refuses err" "\<And>e. lastErr = Some e \<Longrightarrow> refuses e"
  shows "refuses err"
  using assms(1,4)
proof (induction left arbitrary: attempt lastErr s)
  case 0
  then show ?case by (auto split: option.splits)
next
  case (Suc left)
  obtain r1 s1 where b: "suggest_before (ev attempt) s = (r1, s1)" by fastforce
  show ?case
  proof (cases r1)
    case (Some e)
    then show ?thesis using Suc.prems(1) b suggest_before_refuses [of "ev attempt" s e s1] assms(2) by simp
  next
    case None
    obtain r2 s2 where a: "suggest_after kind cfg (ev attempt) attempt s1 = (r2, s2)" by fastforce
    have after: "r2 = Inl (Inl e) \<Longrightarrow> refuses e" "r2 = Inr e \<Longrightarrow> refuses e" for e
      using suggest_after_refuses [OF a assms(2)] assms(3) by blast+
    show ?thesis
    proof (cases r2)
      case (Inl result)
      then show ?thesis using Suc.prems(1) b a None after(1) by simp
    next
      case (Inr e)
      then have "suggest_loop kind cfg ev left (Suc attempt) (Some e) s2 = (Inl err, s')" using Suc.prems(1) b a None by simp
      from Suc.IH [OF this] show ?thesis using after(2) Inr by blast
    qed
  qed
qed

lemma geocoder_refuses:
  assumes "geocoder_Suggest kind cfg ev a = (Inl err, s')" "\<And>k. sound_attempt (ev k)" "\<And>k err. gk_do kind (ev k) = Inl err \<Longrightarrow> refuses err"
  shows "refuses err"
  using suggest_loop_refuses [OF assms(1) [unfolded geocoder_Suggest_def] assms(2,3)] by simp

section \<open>Sources that fail soundly\<close>

text \<open>An address source whose errors the service can send, for what the environment \<open>sound\<close>ly does.\<close>

locale address_service = address_source search
  for search :: "'i \<Rightarrow> int \<Rightarrow> go_error + GeoSuggestion list" +
  fixes sound :: "'i \<Rightarrow> bool"
  assumes errors: "sound i \<Longrightarrow> search i limit = Inl err \<Longrightarrow> refuses err"
begin

lemma answer_cases:
  assumes "sound i" "0 \<le> limit"
  shows "case search i limit of Inr gs \<Rightarrow> suggestions_ok limit gs | Inl err \<Rightarrow> refuses err"
  using assms errors answers by (auto split: sum.splits)

end

definition yandex_sound where
  "yandex_sound = (\<lambda>(sha256 :: string \<Rightarrow> 8 word list, parse_time :: string \<Rightarrow> time option, cfg :: Config, ev :: nat \<Rightarrow> yandexGeoObject list attempt_env, a :: adapter_state).
     \<forall>k. sound_attempt (ev k))"

definition dgis_sound where
  "dgis_sound = (\<lambda>(parse_time :: string \<Rightarrow> time option, cfg, ev :: nat \<Rightarrow> dgisGeocoderResponse attempt_env, a :: adapter_state).
     normalizeDGISLocationBias (cf_DGISGeocoderLocationBias cfg) = None \<and> (\<forall>k. sound_attempt (ev k)))"

interpretation yandex_service: address_service yandex_search yandex_sound
proof
  fix i limit err
  assume sound: "yandex_sound i" and failed: "yandex_search i limit = Inl err"
  obtain sha256 parse_time cfg ev a where i: "i = (sha256, parse_time, cfg, ev, a)" by (metis prod_cases5)
  obtain result s where run: "yandex_Suggest sha256 parse_time cfg ev limit a = (result, s)" by fastforce
  have result: "result = Inl err" using failed by (simp add: yandex_search_def i run)
  show "refuses err"
  proof (cases "cf_YandexGeocoderAPIKey cfg = []")
    case True
    then show ?thesis using run result by (simp add: yandex_Suggest_def)
  next
    case False
    then have "geocoder_Suggest (yandex_geocoder sha256 parse_time limit) cfg ev a = (Inl err, s)" using run result by (simp add: yandex_Suggest_def)
    then show ?thesis
    proof (rule geocoder_refuses)
      show attempts: "sound_attempt (ev k)" for k using sound by (simp add: yandex_sound_def i)
      show "refuses e" if "gk_do (yandex_geocoder sha256 parse_time limit) (ev k) = Inl e" for k e
        using that yandex_refuses [OF _ attempts] by (simp add: yandex_geocoder_def)
    qed
  qed
qed

interpretation dgis_service: address_service dgis_search dgis_sound
proof
  fix i limit err
  assume sound: "dgis_sound i" and failed: "dgis_search i limit = Inl err"
  obtain parse_time cfg ev a where i: "i = (parse_time, cfg, ev, a)" by (metis prod_cases4)
  obtain result s where run: "dgis_geocoder_Suggest parse_time cfg ev limit a = (result, s)" by fastforce
  have "result = Inl err" using failed by (simp add: dgis_search_def i run)
  then have "geocoder_Suggest (dgis_geocoder parse_time cfg limit) cfg ev a = (Inl err, s)" using run by (simp add: dgis_geocoder_Suggest_def)
  then show "refuses err"
  proof (rule geocoder_refuses)
    show attempts: "sound_attempt (ev k)" for k using sound by (simp add: dgis_sound_def i)
    show "refuses e" if "gk_do (dgis_geocoder parse_time cfg limit) (ev k) = Inl e" for k e
      using that dgis_refuses [OF _ attempts] sound by (simp add: dgis_geocoder_def dgis_sound_def i)
  qed
qed

section \<open>The resolver of the started adapter\<close>

text \<open>What one query meets: the Yandex geocoder with its readiness, the context between two geocoders, the 2GIS geocoder, and the stub.\<close>

record search_world =
  sw_sha256 :: "string \<Rightarrow> 8 word list"
  sw_parse_time :: "string \<Rightarrow> time option"
  sw_yandex :: "nat \<Rightarrow> yandexGeoObject list attempt_env"
  sw_yandex_state :: adapter_state
  sw_ready_at :: time
  sw_between :: "go_error option"
  sw_dgis :: "nat \<Rightarrow> dgisGeocoderResponse attempt_env"
  sw_dgis_state :: adapter_state
  sw_lower :: "string \<Rightarrow> string"
  sw_stub_context :: "go_error option"
  sw_stub_slept :: "go_error option"

definition ask_yandex :: "Config \<Rightarrow> search_world \<Rightarrow> int \<Rightarrow> go_error + GeoSuggestion list" where
  "ask_yandex cfg w limit = yandex_search (sw_sha256 w, sw_parse_time w, cfg, sw_yandex w, sw_yandex_state w) limit"

definition ask_dgis :: "Config \<Rightarrow> search_world \<Rightarrow> int \<Rightarrow> go_error + GeoSuggestion list" where
  "ask_dgis cfg w limit = dgis_search (sw_parse_time w, cfg, sw_dgis w, sw_dgis_state w) limit"

text \<open>\<open>dgisAdapter.Suggest\<close> with the resolver that \<open>newDGISAdapter\<close> makes.\<close>

definition dgis_adapter_Suggest :: "Config \<Rightarrow> search_world \<Rightarrow> int \<Rightarrow> go_error + GeoSuggestion list" where
  "dgis_adapter_Suggest cfg w limit =
     (if resolveAddressProvider cfg = addressProviderYandex then
        if cf_AddressProviderMode cfg = addressProviderAuto
        then fst (fallback_Suggest (yandex_geocoder_Ready cfg (sw_ready_at w) (sw_yandex_state w)) (ask_yandex cfg w limit) (sw_between w) (ask_dgis cfg w limit))
        else ask_yandex cfg w limit
      else ask_dgis cfg w limit)"

definition ask_stub :: "Config \<Rightarrow> search_world \<Rightarrow> string \<Rightarrow> int \<Rightarrow> go_error + GeoSuggestion list" where
  "ask_stub cfg w query limit = stub_Suggest (sw_sha256 w) (sw_lower w) cfg (sw_stub_context w) (sw_stub_slept w) query limit"

text \<open>The adapter that \<open>main\<close> starts; what 2GIS and Yandex make of the query is in their answers.\<close>

definition started_Suggest :: "Config \<Rightarrow> search_world \<Rightarrow> string \<Rightarrow> int \<Rightarrow> go_error + GeoSuggestion list" where
  "started_Suggest cfg w query limit =
     (if cf_ProviderMode cfg = providerModeStub then ask_stub cfg w query limit
      else if cf_ProviderMode cfg = providerModeYandex then ask_yandex cfg w limit
      else dgis_adapter_Suggest cfg w limit)"

definition sound_world :: "search_world \<Rightarrow> bool" where
  "sound_world w \<longleftrightarrow> context_error (sw_between w) \<and> context_error (sw_stub_context w) \<and> context_error (sw_stub_slept w)
     \<and> (\<forall>k. sound_attempt (sw_yandex w k)) \<and> (\<forall>k. sound_attempt (sw_dgis w k))"

lemma stub_label_nonempty: "stub_label \<noteq> []"
  by (simp add: stub_label_def)

lemma stub_answers:
  assumes "0 \<le> limit" "ask_stub cfg w query limit = Inr gs"
  shows "suggestions_ok limit gs"
proof -
  obtain digest where gs: "gs = map (stub_suggestion digest (trim_space query)) [0..<nat (min limit 3)]"
    using assms(2) by (auto simp: ask_stub_def stub_Suggest_def Let_def min_def split: option.splits if_splits)
  have "distinct (map gs_ID gs)" using stub_ids [of digest "trim_space query"] by (simp add: gs comp_def distinct_map inj_on_def)
  moreover have "suggestion_ok (stub_suggestion digest (trim_space query) i)" if "i < 3" for i
    using stub_point_ok [OF that] by (simp add: suggestion_ok_def GeoPoint_Validate_None) (simp add: stub_suggestion_def stub_label_nonempty)
  ultimately show ?thesis using assms(1) by (auto simp: suggestions_ok_def gs list_all_iff)
qed

lemma stub_errors: "ask_stub cfg w query limit = Inl err \<Longrightarrow> sound_world w \<Longrightarrow> refuses err"
  by (auto simp: ask_stub_def stub_Suggest_def stub_scenario_def sound_world_def Let_def context_refuses split: option.splits if_splits)

lemma fallback_refuses:
  assumes "fst (fallback_Suggest ready primary between fallback) = Inl err" "context_error between" "\<And>e. fallback = Inl e \<Longrightarrow> refuses e"
  shows "refuses err"
  using assms by (auto simp: fallback_Suggest_def Let_def context_refuses split: sum.splits option.splits list.splits)

definition started_search where
  "started_search = (\<lambda>(cfg, w, query) limit. started_Suggest cfg w query limit)"

definition started_sound where
  "started_sound = (\<lambda>(cfg, w, query :: string). Config_Validate cfg = None \<and> sound_world w)"

lemma valid_bias: "Config_Validate cfg = None \<Longrightarrow> normalizeDGISLocationBias (cf_DGISGeocoderLocationBias cfg) = None"
  by (simp add: Config_Validate_def)

interpretation started: address_service started_search started_sound
proof
  fix limit i gs
  assume limit: "0 \<le> (limit :: int)" and found: "started_search i limit = Inr gs"
  obtain cfg w query where i: "i = (cfg, w, query)" by (metis prod_cases3)
  note facts = stub_answers [OF limit] yandex_addresses.answers [OF limit] dgis_addresses.answers [OF limit] both_addresses.fallback_answers [OF limit]
  show "suggestions_ok limit gs"
    using found facts by (auto simp: i started_search_def started_Suggest_def dgis_adapter_Suggest_def ask_yandex_def ask_dgis_def split: if_splits)
next
  fix i limit err
  assume sound: "started_sound i" and failed: "started_search i limit = Inl err"
  obtain cfg w query where i: "i = (cfg, w, query)" by (metis prod_cases3)
  have y: "ask_yandex cfg w limit = Inl e \<Longrightarrow> refuses e" for e
    using sound yandex_service.errors [of "(sw_sha256 w, sw_parse_time w, cfg, sw_yandex w, sw_yandex_state w)" limit e]
    by (simp add: i ask_yandex_def yandex_sound_def started_sound_def sound_world_def)
  have d: "ask_dgis cfg w limit = Inl e \<Longrightarrow> refuses e" for e
    using sound dgis_service.errors [of "(sw_parse_time w, cfg, sw_dgis w, sw_dgis_state w)" limit e] valid_bias
    by (simp add: i ask_dgis_def dgis_sound_def started_sound_def sound_world_def)
  have between: "context_error (sw_between w)" using sound by (simp add: i started_sound_def sound_world_def)
  show "refuses err"
    using failed y d fallback_refuses [OF _ between d] stub_errors [of cfg w query limit err] sound
    by (auto simp: i started_search_def started_Suggest_def dgis_adapter_Suggest_def started_sound_def split: if_splits)
qed

section \<open>From the edge to the provider service\<close>

text \<open>The request of \<open>serviceClient.geosuggest\<close>, as the provider service reads it: \<open>token\<close> is the internal token of the edge, \<open>rand\<close> and \<open>now\<close> are what
  the service reads itself.\<close>

definition geosuggest_headers :: "string \<Rightarrow> string \<Rightarrow> string \<Rightarrow> string" where
  "geosuggest_headers token rid name =
     (if name = ''Accept'' then ''application/json''
      else if name = ''X-Request-ID'' then rid
      else if name = ''Authorization'' \<and> token \<noteq> [] then ''Bearer '' @ token
      else [])"

definition geosuggest_incoming :: "string \<Rightarrow> string \<Rightarrow> 8 word list \<Rightarrow> time \<Rightarrow> string \<Rightarrow> string \<Rightarrow> string \<Rightarrow> int \<Rightarrow> incoming" where
  "geosuggest_incoming token rid rand now remote query language limit =
     (let url = geosuggest_path query language limit; parameters = ParseQuery (url_query url) in
     \<lparr> in_request = \<lparr> hr_Method = ''GET'', hr_Path = url_path url, hr_Header = geosuggest_headers token rid, hr_RemoteAddr = remote \<rparr>,
       in_rand = rand, in_now = now, in_body = None, in_q = Query_Get parameters ''q'', in_lang = Query_Get parameters ''lang'',
       in_limit = Query_Get parameters ''limit'' \<rparr>)"

lemma geosuggest_read: "url_path (geosuggest_path query language limit) = ''/internal/v1/geosuggest''"
  "Query_Get (ParseQuery (url_query (geosuggest_path query language limit))) ''q'' = query"
  "Query_Get (ParseQuery (url_query (geosuggest_path query language limit))) ''lang'' = language"
  "Query_Get (ParseQuery (url_query (geosuggest_path query language limit))) ''limit'' = show_int limit"
  using geosuggest_says [of query language limit] by (simp_all add: says_def Query_Get_All)

text \<open>What the edge's client makes of the answer.\<close>

definition delivered :: "(provider_body \<Rightarrow> string) \<Rightarrow> (string \<Rightarrow> GeoSuggestion list option) \<Rightarrow> provider_reply \<Rightarrow> GeoSuggestion list upstream" where
  "delivered encode decode w = Replied (vs_Status w) (encode (vs_Body w)) (decode (encode (vs_Body w)))"

text \<open>A query at the edge: the call that it leads to, the run of the service, and the edge's answer. What the service keeps is its last component.\<close>

definition address_search ::
    "string \<Rightarrow> Config \<Rightarrow> 's Provider \<Rightarrow> (route_request_error \<Rightarrow> string) \<Rightarrow> (suggest_error \<Rightarrow> string) \<Rightarrow> (provider_body \<Rightarrow> string)
      \<Rightarrow> (string \<Rightarrow> GeoSuggestion list option) \<Rightarrow> 8 word list \<Rightarrow> time \<Rightarrow> string \<Rightarrow> http_request \<Rightarrow> string \<Rightarrow> string \<Rightarrow> string \<Rightarrow> 's \<Rightarrow> response \<times> 's" where
  "address_search token cfg provider et st encode decode rand now remote r q lang limit s =
     (case snd (edge_geosuggest r q lang limit Unreachable) of
        [Suggest query language n] \<Rightarrow>
          (case provider_server cfg provider et st (geosuggest_incoming token (requestID r) rand now remote query language n) s of
             (w, s) \<Rightarrow> (fst (edge_geosuggest r q lang limit (delivered encode decode w)), s))
      | _ \<Rightarrow> (fst (edge_geosuggest r q lang limit Unreachable), s))"

lemma dropWhile_idem: "dropWhile P (dropWhile P xs) = dropWhile P xs"
  by (induction xs) simp_all

lemma dropWhile_Nil_or_hd: "dropWhile P xs = [] \<or> \<not> P (hd (dropWhile P xs))"
  by (induction xs) auto

lemma dropWhile_rev_keeps_hd:
  assumes "xs = [] \<or> \<not> P (hd xs)"
  shows "dropWhile P (rev (dropWhile P (rev xs))) = rev (dropWhile P (rev xs))"
proof (cases "rev (dropWhile P (rev xs))")
  case (Cons y ys)
  obtain zs where "rev xs = zs @ dropWhile P (rev xs)" by (metis takeWhile_dropWhile_id)
  then have "xs = rev (dropWhile P (rev xs)) @ rev zs" by (metis rev_append rev_rev_ident)
  then have "hd xs = y" "xs \<noteq> []" using Cons by auto
  then show ?thesis using assms Cons by simp
next
  case Nil
  then show ?thesis by (simp only: dropWhile.simps)
qed

lemma trim_idem: "trim_space (trim_space s) = trim_space s"
  using dropWhile_rev_keeps_hd [of "dropWhile is_space s" is_space] dropWhile_Nil_or_hd [of is_space s]
  by (simp add: trim_space_def dropWhile_idem)

lemma limit_text: "1 \<le> n \<Longrightarrow> n \<le> 10 \<Longrightarrow> suggest_limit (show_int n) = Some n"
proof -
  assume "1 \<le> n" "n \<le> (10 :: int)"
  then have "n \<in> {1, 2, 3, 4, 5, 6, 7, 8, 9, 10}" by (simp only: insert_iff empty_iff) presburger
  moreover have "list_all (\<lambda>n. suggest_limit (show_int n) = Some n) [1, 2, 3, 4, 5, 6, 7, 8, 9, 10]" by code_simp
  ultimately show ?thesis by auto
qed

lemma accepted_query:
  assumes "snd (edge_geosuggest r q lang limit answer) = [Suggest query language n]"
  shows "1 \<le> n" "n \<le> 10" "validateSuggestQuery query language n = None" "language \<noteq> []"
    "fst (edge_geosuggest r q lang limit (Replied status body decoded)) =
      (if status \<ge> 500 then reject r [] 503 ''Address search unavailable'' ''Address search is temporarily unavailable.''
       else if status \<noteq> 200 then writeNormalizedUpstreamProblem r status
       else if \<not> decodeGeosuggestResponse decoded then reject r [] 502 ''Invalid geosuggest response'' ''Address provider returned an invalid contract.''
       else writeRawJSON [] 200 body)"
proof -
  have parts: "2 \<le> rune_count query \<and> rune_count query \<le> 200 \<and> query = trim_space q \<and> (language = ''ru_RU'' \<or> language = ''en_US'') \<and> 1 \<le> n \<and> n \<le> 10
    \<and> language = (if lang = [] then ''ru_RU'' else lang) \<and> (if limit = [] then Some 5 else ParseInt limit) = Some n"
    using assms by (auto simp: edge_geosuggest_def Let_def split: if_splits option.splits)
  then have "trim_space query = query" "query \<noteq> []" by (auto simp: trim_idem rune_count_def)
  with parts show "1 \<le> n" "n \<le> 10" "validateSuggestQuery query language n = None" "language \<noteq> []" by (auto simp: validateSuggestQuery_def)
  show "fst (edge_geosuggest r q lang limit (Replied status body decoded)) =
      (if status \<ge> 500 then reject r [] 503 ''Address search unavailable'' ''Address search is temporarily unavailable.''
       else if status \<noteq> 200 then writeNormalizedUpstreamProblem r status
       else if \<not> decodeGeosuggestResponse decoded then reject r [] 502 ''Invalid geosuggest response'' ''Address provider returned an invalid contract.''
       else writeRawJSON [] 200 body)"
    using parts by (auto simp: edge_geosuggest_def Let_def split: if_splits)
qed

lemma refused_query:
  "snd (edge_geosuggest r q lang limit Unreachable) = [] \<Longrightarrow> ws_Status (fst (edge_geosuggest r q lang limit Unreachable)) = 400"
  "snd (edge_geosuggest r q lang limit Unreachable) = [] \<or> (\<exists>query language n. snd (edge_geosuggest r q lang limit Unreachable) = [Suggest query language n])"
  by (auto simp: edge_geosuggest_def Let_def reject_def problem_def WriteProblem_def split: if_splits option.splits)

text \<open>The service passes the call of the edge on.\<close>

lemma served_query:
  assumes "validateSuggestQuery query language n = None" "1 \<le> n" "n \<le> 10" "language \<noteq> []"
  shows "\<exists>headers rid. provider_server cfg provider et st (geosuggest_incoming (cf_InternalAPIToken cfg) rid0 rand now remote query language n) s =
    (case pv_Suggest provider query language n s of
       (Inl err, s) \<Rightarrow> (provider_writeError headers rid (normalizeProviderError err), s)
     | (Inr suggestions, s) \<Rightarrow> (provider_writeJSON headers 200 (SuggestBody suggestions), s))"
proof -
  define i where "i = geosuggest_incoming (cf_InternalAPIToken cfg) rid0 rand now remote query language n"
  define rid where "rid = incoming_id rand (in_request i)"
  have request: "hr_Method (in_request i) = ''GET''" "hr_Path (in_request i) = ''/internal/v1/geosuggest''" "in_q i = query" "in_lang i = language"
    "in_limit i = show_int n" "in_rand i = rand" by (simp_all add: i_def geosuggest_incoming_def Let_def geosuggest_read)
  have "authorized cfg (in_request i)" by (auto simp: i_def authorized_def geosuggest_incoming_def geosuggest_headers_def Let_def)
  then have "provider_server cfg provider et st i s = provider_handler provider et st i (common_headers rid) rid s"
    by (simp add: provider_server_def provider_middleware_def Let_def request(6) rid_def)
  also have "\<dots> = (case pv_Suggest provider query language n s of
       (Inl err, s) \<Rightarrow> (provider_writeError (common_headers rid) rid (normalizeProviderError err), s)
     | (Inr suggestions, s) \<Rightarrow> (provider_writeJSON (common_headers rid) 200 (SuggestBody suggestions), s))"
    using assms limit_text [of n] by (simp add: provider_handler_def request handleSuggest_def requireMethod_def Let_def)
  finally show ?thesis unfolding i_def by blast
qed

lemma writeError_status: "pe_HTTPStatus err \<noteq> 0 \<Longrightarrow> vs_Status (provider_writeError headers rid err) = pe_HTTPStatus err"
  by (simp add: provider_writeError_def Let_def)

text \<open>The edge's answer to an error of the service and to suggestions.\<close>

lemma answer_to_error:
  assumes "snd (edge_geosuggest r q lang limit answer) = [Suggest query language n]" "refuses err"
  shows "ws_Status (fst (edge_geosuggest r q lang limit (delivered encode decode (provider_writeError headers rid (normalizeProviderError err))))) = 503"
proof -
  have "pe_HTTPStatus (normalizeProviderError err) \<in> {429, 499, 501, 502, 503, 504}" using assms(2) by (simp add: refuses_def error_status_def)
  moreover from this have "vs_Status (provider_writeError headers rid (normalizeProviderError err)) = pe_HTTPStatus (normalizeProviderError err)"
    by (intro writeError_status) auto
  ultimately show ?thesis
    unfolding delivered_def accepted_query(5) [OF assms(1)]
    by (auto simp: reject_def problem_def WriteProblem_def writeNormalizedUpstreamProblem_def service_unavailable_def)
qed

lemma answer_to_suggestions:
  assumes "snd (edge_geosuggest r q lang limit answer) = [Suggest query language n]" "suggestions_ok n gs"
    and "decode (encode (SuggestBody gs)) = Some gs"
  shows "fst (edge_geosuggest r q lang limit (delivered encode decode (provider_writeJSON headers 200 (SuggestBody gs)))) = writeRawJSON [] 200 (encode (SuggestBody gs))"
proof -
  have "decodeGeosuggestResponse (Some gs)" using assms(2) by (simp add: decodeGeosuggestResponse_def suggestions_ok_def suggestion_ok_def list_all_iff)
  then show ?thesis unfolding delivered_def accepted_query(5) [OF assms(1)] by (simp add: assms(3))
qed

text \<open>C36: Address search from end to end: a query that the edge refuses gets 400 and reaches no provider; any other reaches the started geocoders with the
  query, the language and the limit that the edge read. When they answer, the client gets exactly the bytes that the service wrote, for at most as
  many suggestions as asked for, all well formed and with distinct ids; when they fail, in whatever way, the client gets 503. So the two services
  never disagree about a query (the edge never sees a validation error or a missing credential) nor about an answer (the edge never sends 502),
  in every mode and for every configuration that passes its checks. The contexts end with the two errors that Go documents, and
  the decoder reads what the encoder wrote of the suggestions found.\<close>

theorem address_search_end_to_end:
  assumes "Config_Validate cfg = None"
    and adapter: "pv_Suggest provider = (\<lambda>query language n s. (started_Suggest cfg (world query language n s) query n, after query language n s))"
    and contexts: "\<And>query language n s. sound_world (world query language n s)"
    and json: "\<And>query language n s gs. started_Suggest cfg (world query language n s) query n = Inr gs \<Longrightarrow> decode (encode (SuggestBody gs)) = Some gs"
    and run: "address_search (cf_InternalAPIToken cfg) cfg provider et st encode decode rand now remote r q lang limit s = (w, s')"
  shows "(snd (edge_geosuggest r q lang limit Unreachable) = [] \<and> ws_Status w = 400 \<and> s' = s)
    \<or> (\<exists>query language n. snd (edge_geosuggest r q lang limit Unreachable) = [Suggest query language n] \<and> s' = after query language n s
      \<and> (case started_Suggest cfg (world query language n s) query n of
          Inr gs \<Rightarrow> suggestions_ok n gs \<and> w = writeRawJSON [] 200 (encode (SuggestBody gs))
        | Inl err \<Rightarrow> ws_Status w = 503))"
proof (cases "snd (edge_geosuggest r q lang limit Unreachable) = []")
  case True
  then show ?thesis using run refused_query(1) [OF True] by (auto simp: address_search_def)
next
  case False
  then obtain query language n where call: "snd (edge_geosuggest r q lang limit Unreachable) = [Suggest query language n]" using refused_query(2) by blast
  note query = accepted_query(1-4) [OF call]
  obtain headers rid where served: "provider_server cfg provider et st (geosuggest_incoming (cf_InternalAPIToken cfg) (requestID r) rand now remote query language n) s =
    (case pv_Suggest provider query language n s of
       (Inl err, s) \<Rightarrow> (provider_writeError headers rid (normalizeProviderError err), s)
     | (Inr suggestions, s) \<Rightarrow> (provider_writeJSON headers 200 (SuggestBody suggestions), s))"
    using served_query [OF query(3,1,2,4), of cfg provider et st "requestID r" rand now remote s] by (elim exE) (rule that)
  have source: "case started_Suggest cfg (world query language n s) query n of Inr gs \<Rightarrow> suggestions_ok n gs | Inl err \<Rightarrow> refuses err"
    using started.answer_cases [of "(cfg, world query language n s, query)" n] query(1) assms(1) contexts by (simp add: started_sound_def started_search_def)
  show ?thesis
  proof (cases "started_Suggest cfg (world query language n s) query n")
    case (Inl err)
    then have "s' = after query language n s" "ws_Status w = 503"
      using run served call adapter source answer_to_error [OF call, of err encode decode headers rid] by (auto simp: address_search_def)
    then show ?thesis using call Inl by auto
  next
    case (Inr gs)
    then have "s' = after query language n s" "w = writeRawJSON [] 200 (encode (SuggestBody gs))" "suggestions_ok n gs"
      using run served call adapter source answer_to_suggestions [OF call, of gs decode encode headers] json [OF Inr] by (auto simp: address_search_def)
    then show ?thesis using call Inr by auto
  qed
qed

text \<open>A query at an edge whose provider service asks 2GIS, which knows one address.\<close>

definition ex_item :: dgisGeocoderItem where
  "ex_item = \<lparr> di_ID = ''1'', di_Name = ''Arbat'', di_FullName = [], di_AddressName = [], di_FullAddressName = [], di_PurposeName = [],
     di_Point = Some \<lparr> dg_Lat = 0, dg_Lon = 0 \<rparr> \<rparr>"

definition ex_search_world :: search_world where
  "ex_search_world = \<lparr> sw_sha256 = (\<lambda>_. []), sw_parse_time = (\<lambda>_. None), sw_yandex = ex_env 0 (SendFailed None), sw_yandex_state = newDGISAdapter ex_config,
     sw_ready_at = 0, sw_between = None, sw_dgis = ex_env 0 (Answer 200 [] (Some \<lparr> dr_Code = 200, dr_Items = [ex_item] \<rparr>)),
     sw_dgis_state = newDGISGeocoder ex_config (newDGISAdapter ex_config),
     sw_lower = (\<lambda>s. s), sw_stub_context = None, sw_stub_slept = None \<rparr>"

definition ex_provider :: "nat Provider" where
  "ex_provider = ex_counting\<lparr>pv_Suggest := (\<lambda>query _ n s. (started_Suggest ex_config ex_search_world query n, s + 1))\<rparr>"

definition ex_encode :: "provider_body \<Rightarrow> string" where
  "ex_encode body = (if body = SuggestBody [] then ''[]'' else ''[arbat]'')"

definition ex_decode :: "string \<Rightarrow> GeoSuggestion list option" where
  "ex_decode text = (if text = ''[]'' then Some [] else Some (dgis_scan [] [ex_item]))"

lemma ex_found: "started_Suggest ex_config ex_search_world query n = Inr gs \<Longrightarrow> gs = [] \<or> gs = dgis_scan [] [ex_item]"
proof -
  assume found: "started_Suggest ex_config ex_search_world query n = Inr gs"
  have "ask_dgis ex_config ex_search_world n = Inr gs"
    using found by (simp add: started_Suggest_def dgis_adapter_Suggest_def resolveAddressProvider_def ex_config_def mode_names)
  then have "fst (geocoder_Suggest (dgis_geocoder (\<lambda>_. None) ex_config n) ex_config (sw_dgis ex_search_world) (sw_dgis_state ex_search_world)) = Inr gs"
    by (simp add: ask_dgis_def dgis_search_def dgis_geocoder_Suggest_def ex_search_world_def)
  then obtain s where "geocoder_Suggest (dgis_geocoder (\<lambda>_. None) ex_config n) ex_config (sw_dgis ex_search_world) (sw_dgis_state ex_search_world) = (Inr gs, s)"
    by (metis prod.collapse)
  from geocoder_success [OF this] show ?thesis
    by (auto simp: dgis_geocoder_def dgis_doGeocode_def valid_bias [OF ex_config_valid] ex_search_world_def geocode_exchange_def normalizeDGISGeocoder_def
        split: if_splits)
qed

theorem address_search_end_to_end_witness:
  "\<exists>w. address_search (cf_InternalAPIToken ex_config) ex_config ex_provider (\<lambda>_. []) (\<lambda>_. []) ex_encode ex_decode [] 0 [] (in_request ex_incoming) ''Arbat'' [] ''5'' 0 = (w, 1)
    \<and> (ws_Status w = 200 \<or> ws_Status w = 503)"
proof -
  let ?r = "in_request ex_incoming"
  obtain w s' where run: "address_search (cf_InternalAPIToken ex_config) ex_config ex_provider (\<lambda>_. []) (\<lambda>_. []) ex_encode ex_decode [] 0 [] ?r ''Arbat'' [] ''5'' 0 = (w, s')"
    by fastforce
  have "ParseInt ''5'' = Some 5" "rune_count (trim_space ''Arbat'') = 5" by code_simp+
  then have call: "snd (edge_geosuggest ?r ''Arbat'' [] ''5'' Unreachable) \<noteq> []" by (simp add: edge_geosuggest_def Let_def)
  have provider: "pv_Suggest ex_provider = (\<lambda>query _ n s. (started_Suggest ex_config ex_search_world query n, s + 1))" by (simp add: ex_provider_def)
  have world: "sound_world ex_search_world" by (simp add: sound_world_def ex_search_world_def sound_attempt_def context_error_def ex_env_def)
  have json: "started_Suggest ex_config ex_search_world query n = Inr gs \<Longrightarrow> ex_decode (ex_encode (SuggestBody gs)) = Some gs" for query n gs
    using ex_found [of query n gs] by (auto simp: ex_decode_def ex_encode_def)
  have "(snd (edge_geosuggest ?r ''Arbat'' [] ''5'' Unreachable) = [] \<and> ws_Status w = 400 \<and> s' = 0)
    \<or> (\<exists>query language n. snd (edge_geosuggest ?r ''Arbat'' [] ''5'' Unreachable) = [Suggest query language n] \<and> s' = 0 + 1
      \<and> (case started_Suggest ex_config ex_search_world query n of
          Inr gs \<Rightarrow> suggestions_ok n gs \<and> w = writeRawJSON [] 200 (ex_encode (SuggestBody gs)) | Inl err \<Rightarrow> ws_Status w = 503))"
    by (rule address_search_end_to_end [where world = "\<lambda>_ _ _ _. ex_search_world", OF ex_config_valid provider world _ run]) (rule json)
  with call obtain query n where "s' = 1" "case started_Suggest ex_config ex_search_world query n of
      Inr gs \<Rightarrow> suggestions_ok n gs \<and> w = writeRawJSON [] 200 (ex_encode (SuggestBody gs)) | Inl err \<Rightarrow> ws_Status w = 503" by auto
  then have "s' = 1 \<and> (ws_Status w = 200 \<or> ws_Status w = 503)"
    by (cases "started_Suggest ex_config ex_search_world query n") (simp_all add: writeRawJSON_def)
  then show ?thesis using run by auto
qed

end
