(* ===== verification/SearchJson.thy ===== *)
theory SearchJson
  imports SearchStore GoText "HOL-Library.Monad_Syntax"
begin

text \<open>
  Results and events as JSON documents (the tags of \<open>domain/types.go\<close>), as \<open>json.Marshal\<close> writes and \<open>json.Unmarshal\<close> reads them. The documents of routes,
  constraints and usage and the text of a time are arguments, and so is the step from documents to text. The scripts of the Redis
  stores pass a document through the Lua library \<open>cjson\<close>; the locale \<open>cjson\<close> states what its manual says.
\<close>

section \<open>Documents\<close>

datatype json = JNull | JBool bool | JNumber string | JString string | JArray "json list" | JObject "(string \<times> json) list"

text \<open>The parts that are arguments, each with its reader.\<close>

record parts =
  jp_candidate :: "RouteCandidate \<Rightarrow> json"
  jp_read_candidate :: "json \<Rightarrow> RouteCandidate option"
  jp_constraints :: "AppliedConstraints \<Rightarrow> json"
  jp_read_constraints :: "json \<Rightarrow> AppliedConstraints option"
  jp_usage :: "ProviderUsage \<Rightarrow> json"
  jp_read_usage :: "json \<Rightarrow> ProviderUsage option"
  jp_metadata :: "(string \<times> meta_value) list \<Rightarrow> json"
  jp_read_metadata :: "json \<Rightarrow> (string \<times> meta_value) list option"
  jp_time :: "time \<Rightarrow> string"
  jp_read_time :: "string \<Rightarrow> time option"

text \<open>Texts and documents: Go's encoder and decoder, and those of \<open>cjson\<close> in the scripts, whose tables are documents here.\<close>

record 'x texts =
  jt_print :: "json \<Rightarrow> 'x"
  jt_parse :: "'x \<Rightarrow> json option"
  jt_lua_decode :: "'x \<Rightarrow> json option"
  jt_lua_encode :: "json \<Rightarrow> 'x"

section \<open>Writing\<close>

fun status_text :: "SearchStatus \<Rightarrow> string" where
  "status_text SearchAccepted = ''ACCEPTED''" | "status_text SearchSearching = ''SEARCHING''" | "status_text SearchCompleted = ''COMPLETED''"
| "status_text SearchDegraded = ''DEGRADED''" | "status_text SearchFailed = ''FAILED''" | "status_text SearchCancelled = ''CANCELLED''"
| "status_text (SearchOther s) = s"

fun event_text :: "EventType \<Rightarrow> string" where
  "event_text EventSearchAccepted = ''SEARCH_ACCEPTED''" | "event_text EventProviderRequestStarted = ''PROVIDER_REQUEST_STARTED''"
| "event_text EventInitialCandidatesReady = ''INITIAL_CANDIDATES_READY''" | "event_text EventCandidateEvaluated = ''CANDIDATE_EVALUATED''"
| "event_text EventDetourSearchStarted = ''DETOUR_SEARCH_STARTED''" | "event_text EventBetterRouteFound = ''BETTER_ROUTE_FOUND''"
| "event_text EventSearchCompleted = ''SEARCH_COMPLETED''" | "event_text EventSearchDegraded = ''SEARCH_DEGRADED''"
| "event_text EventSearchFailed = ''SEARCH_FAILED''" | "event_text (EventOther s) = s"

text \<open>A pointer or an empty value with \<open>omitempty\<close>, and a slice, which is \<open>null\<close> when nil.\<close>

definition omitted :: "string \<Rightarrow> ('a \<Rightarrow> json) \<Rightarrow> 'a option \<Rightarrow> (string \<times> json) list" where
  "omitted name write v = (case v of None \<Rightarrow> [] | Some x \<Rightarrow> [(name, write x)])"

definition write_slice :: "('a \<Rightarrow> json) \<Rightarrow> 'a list option \<Rightarrow> json" where
  "write_slice write v = (case v of None \<Rightarrow> JNull | Some xs \<Rightarrow> JArray (map write xs))"

definition json_result :: "parts \<Rightarrow> RouteSearchResult \<Rightarrow> json" where
  "json_result P r = JObject (
     [(''searchId'', JString (rr_SearchID r)), (''requestId'', JString (rr_RequestID r)), (''status'', JString (status_text (rr_Status r)))]
     @ omitted ''selectedRoute'' (jp_candidate P) (rr_SelectedRoute r)
     @ [(''alternatives'', write_slice (jp_candidate P) (rr_Alternatives r)), (''bestEffortRoutes'', write_slice (jp_candidate P) (rr_BestEffortRoutes r)),
        (''greenTopRoutes'', write_slice (jp_candidate P) (rr_GreenTopRoutes r))]
     @ omitted ''fastestReferenceRoute'' (jp_candidate P) (rr_FastestReferenceRoute r)
     @ [(''constraints'', jp_constraints P (rr_Constraints r)), (''providerUsage'', jp_usage P (rr_ProviderUsage r)),
        (''warnings'', write_slice JString (Some (rr_Warnings r))), (''scoringPolicyVersion'', JString (rr_ScoringPolicyVersion r)),
        (''generatedAt'', JString (jp_time P (rr_GeneratedAt r))), (''expiresAt'', JString (jp_time P (rr_ExpiresAt r)))])"

definition nonempty :: "'a list \<Rightarrow> 'a list option" where
  "nonempty xs = (if xs = [] then None else Some xs)"

definition json_event :: "parts \<Rightarrow> SearchEvent \<Rightarrow> (string \<times> json) list" where
  "json_event P e =
     [(''eventId'', JNumber (show_int (ev_EventID e))), (''searchId'', JString (ev_SearchID e)), (''type'', JString (event_text (ev_Type e))),
      (''timestamp'', JString (jp_time P (ev_Timestamp e)))]
     @ omitted ''message'' JString (nonempty (ev_Message e)) @ omitted ''candidate'' (jp_candidate P) (ev_Candidate e)
     @ omitted ''result'' (json_result P) (ev_Result e) @ omitted ''metadata'' (jp_metadata P) (nonempty (ev_Metadata e))"

text \<open>\<open>json.Marshal\<close>, which refuses numbers that are not finite.\<close>

definition Marshal_result :: "parts \<Rightarrow> 'x texts \<Rightarrow> RouteSearchResult \<Rightarrow> 'x option" where
  "Marshal_result P T r = (if result_json_ok r then Some (jt_print T (json_result P r)) else None)"

definition Marshal_event :: "parts \<Rightarrow> 'x texts \<Rightarrow> SearchEvent \<Rightarrow> 'x option" where
  "Marshal_event P T e = (if event_json_ok e then Some (jt_print T (JObject (json_event P e))) else None)"

section \<open>Reading\<close>

text \<open>A field that is missing or \<open>null\<close> leaves its zero value.\<close>

definition read_field :: "(string \<times> json) list \<Rightarrow> string \<Rightarrow> 'a \<Rightarrow> (json \<Rightarrow> 'a option) \<Rightarrow> 'a option" where
  "read_field fs name zero read = (case map_of fs name of None \<Rightarrow> Some zero | Some j \<Rightarrow> if j = JNull then Some zero else read j)"

fun read_string :: "json \<Rightarrow> string option" where
  "read_string (JString s) = Some s"
| "read_string _ = None"

text \<open>An integer field takes the text of an integer.\<close>

fun read_integer :: "json \<Rightarrow> int64 option" where
  "read_integer (JNumber s) = ParseInt s"
| "read_integer _ = None"

fun read_all :: "(json \<Rightarrow> 'a option) \<Rightarrow> json list \<Rightarrow> 'a list option" where
  "read_all read [] = Some []"
| "read_all read (j # js) = (case read j of None \<Rightarrow> None | Some x \<Rightarrow> map_option ((#) x) (read_all read js))"

text \<open>A slice takes an array; an object is an error.\<close>

fun read_slice :: "(json \<Rightarrow> 'a option) \<Rightarrow> json \<Rightarrow> 'a list option" where
  "read_slice read (JArray js) = read_all read js"
| "read_slice read _ = None"

definition some_of :: "(json \<Rightarrow> 'a option) \<Rightarrow> json \<Rightarrow> 'a option option" where
  "some_of read j = map_option Some (read j)"

definition read_status :: "json \<Rightarrow> SearchStatus option" where
  "read_status j = map_option (\<lambda>s. case find (\<lambda>st. status_text st = s) [SearchAccepted, SearchSearching, SearchCompleted, SearchDegraded, SearchFailed, SearchCancelled] of
     None \<Rightarrow> SearchOther s | Some st \<Rightarrow> st) (read_string j)"

definition read_type :: "json \<Rightarrow> EventType option" where
  "read_type j = map_option (\<lambda>s. case find (\<lambda>ty. event_text ty = s) [EventSearchAccepted, EventProviderRequestStarted, EventInitialCandidatesReady,
       EventCandidateEvaluated, EventDetourSearchStarted, EventBetterRouteFound, EventSearchCompleted, EventSearchDegraded, EventSearchFailed] of
     None \<Rightarrow> EventOther s | Some ty \<Rightarrow> ty) (read_string j)"

definition read_time :: "parts \<Rightarrow> json \<Rightarrow> time option" where
  "read_time P j = Option.bind (read_string j) (jp_read_time P)"

fun read_result :: "parts \<Rightarrow> json \<Rightarrow> RouteSearchResult option" where
  "read_result P (JObject fs) = do {
     searchID \<leftarrow> read_field fs ''searchId'' [] read_string;
     requestID \<leftarrow> read_field fs ''requestId'' [] read_string;
     status \<leftarrow> read_field fs ''status'' (SearchOther []) read_status;
     selected \<leftarrow> read_field fs ''selectedRoute'' None (some_of (jp_read_candidate P));
     alternatives \<leftarrow> read_field fs ''alternatives'' None (some_of (read_slice (jp_read_candidate P)));
     bestEffort \<leftarrow> read_field fs ''bestEffortRoutes'' None (some_of (read_slice (jp_read_candidate P)));
     greenTop \<leftarrow> read_field fs ''greenTopRoutes'' None (some_of (read_slice (jp_read_candidate P)));
     fastest \<leftarrow> read_field fs ''fastestReferenceRoute'' None (some_of (jp_read_candidate P));
     constraints \<leftarrow> read_field fs ''constraints'' (rr_Constraints zero_result) (jp_read_constraints P);
     usage \<leftarrow> read_field fs ''providerUsage'' (rr_ProviderUsage zero_result) (jp_read_usage P);
     warnings \<leftarrow> read_field fs ''warnings'' [] (read_slice read_string);
     version \<leftarrow> read_field fs ''scoringPolicyVersion'' [] read_string;
     generatedAt \<leftarrow> read_field fs ''generatedAt'' 0 (read_time P);
     expiresAt \<leftarrow> read_field fs ''expiresAt'' 0 (read_time P);
     Some \<lparr> rr_SearchID = searchID, rr_RequestID = requestID, rr_Status = status, rr_SelectedRoute = selected, rr_Alternatives = alternatives,
       rr_BestEffortRoutes = bestEffort, rr_GreenTopRoutes = greenTop, rr_FastestReferenceRoute = fastest, rr_Constraints = constraints,
       rr_ProviderUsage = usage, rr_Warnings = warnings, rr_ScoringPolicyVersion = version, rr_GeneratedAt = generatedAt, rr_ExpiresAt = expiresAt \<rparr> }"
| "read_result P _ = None"

fun read_event :: "parts \<Rightarrow> json \<Rightarrow> SearchEvent option" where
  "read_event P (JObject fs) = do {
     eventID \<leftarrow> read_field fs ''eventId'' 0 read_integer;
     searchID \<leftarrow> read_field fs ''searchId'' [] read_string;
     ty \<leftarrow> read_field fs ''type'' (EventOther []) read_type;
     timestamp \<leftarrow> read_field fs ''timestamp'' 0 (read_time P);
     message \<leftarrow> read_field fs ''message'' [] read_string;
     candidate \<leftarrow> read_field fs ''candidate'' None (some_of (jp_read_candidate P));
     result \<leftarrow> read_field fs ''result'' None (some_of (read_result P));
     metadata \<leftarrow> read_field fs ''metadata'' [] (jp_read_metadata P);
     Some \<lparr> ev_EventID = eventID, ev_SearchID = searchID, ev_Type = ty, ev_Timestamp = timestamp, ev_Message = message, ev_Candidate = candidate,
       ev_Result = result, ev_Metadata = metadata \<rparr> }"
| "read_event P _ = None"

definition Unmarshal_result :: "parts \<Rightarrow> 'x texts \<Rightarrow> 'x \<Rightarrow> RouteSearchResult option" where
  "Unmarshal_result P T x = Option.bind (jt_parse T x) (read_result P)"

definition Unmarshal_event :: "parts \<Rightarrow> 'x texts \<Rightarrow> 'x \<Rightarrow> SearchEvent option" where
  "Unmarshal_event P T x = Option.bind (jt_parse T x) (read_event P)"

section \<open>Documents that pass through the scripts\<close>

text \<open>\<open>cjson.decode\<close> makes a Lua table of an array and of an object. \<open>cjson.encode\<close> writes a table as an array when its keys are 1, 2, \<dots>, and an
  empty table as an object; the fields of an object come in any order. A number is written with 14 significant digits, \<open>num\<close>.\<close>

inductive written :: "(string \<Rightarrow> string) \<Rightarrow> json \<Rightarrow> json \<Rightarrow> bool" for num where
  "written num JNull JNull"
| "written num (JBool b) (JBool b)"
| "written num (JNumber s) (JNumber (num s))"
| "written num (JString s) (JString s)"
| "written num (JArray []) (JObject [])"
| "js \<noteq> [] \<Longrightarrow> list_all2 (written num) js js' \<Longrightarrow> written num (JArray js) (JArray js')"
| "(\<And>k. rel_option (written num) (map_of fs k) (map_of gs k)) \<Longrightarrow> written num (JObject fs) (JObject gs)"

inductive_cases written_arrayE: "written num (JArray js) u"
inductive_cases written_objectE: "written num (JObject fs) u"
inductive_simps written_leaf: "written num JNull u" "written num (JBool b) u" "written num (JNumber s) u" "written num (JString s) u"

text \<open>\<open>event["eventId"] = sequence\<close> on the table of an object.\<close>

definition set_number :: "string \<Rightarrow> int64 \<Rightarrow> json \<Rightarrow> json" where
  "set_number name n j = (case j of JObject fs \<Rightarrow> JObject ((name, JNumber (show_int n)) # filter (\<lambda>(k, _). k \<noteq> name) fs) | _ \<Rightarrow> j)"

locale cjson =
  fixes T :: "'x texts" and num :: "string \<Rightarrow> string"
  assumes parse_print: "jt_parse T (jt_print T j) = Some j"
    and lua_parses: "jt_parse T x = Some j \<Longrightarrow> jt_lua_decode T x = Some j"
    and lua_encode: "\<exists>u. jt_parse T (jt_lua_encode T j) = Some u \<and> written num j u"
    and num_integer: "\<bar>n\<bar> < 10 ^ 14 \<Longrightarrow> num (show_int n) = show_int n"

text \<open>An event as the list in Redis holds it, and whether Go reads it back as it was.\<close>

definition stored_event :: "parts \<Rightarrow> 'x texts \<Rightarrow> SearchEvent \<Rightarrow> int64 \<Rightarrow> 'x" where
  "stored_event P T e n = jt_lua_encode T (set_number ''eventId'' n (JObject (json_event P e)))"

definition survives :: "parts \<Rightarrow> 'x texts \<Rightarrow> SearchEvent \<Rightarrow> bool" where
  "survives P T e \<longleftrightarrow> event_json_ok e \<and> (\<forall>n. 1 \<le> n \<longrightarrow> n < 10 ^ 14 \<longrightarrow> Unmarshal_event P T (stored_event P T e n) = Some (e\<lparr>ev_EventID := n\<rparr>))"

definition has_empty_list :: "RouteSearchResult \<Rightarrow> bool" where
  "has_empty_list r \<longleftrightarrow> rr_Alternatives r = Some [] \<or> rr_BestEffortRoutes r = Some [] \<or> rr_GreenTopRoutes r = Some [] \<or> rr_Warnings r = []"

text \<open>An event of progress, whose type is one of the code's.\<close>

definition plain_event :: "parts \<Rightarrow> SearchEvent \<Rightarrow> bool" where
  "plain_event P e \<longleftrightarrow> ev_Candidate e = None \<and> ev_Result e = None \<and> ev_Metadata e = [] \<and> read_type (JString (event_text (ev_Type e))) = Some (ev_Type e)
     \<and> jp_read_time P (jp_time P (ev_Timestamp e)) = Some (ev_Timestamp e)"

subsection \<open>Integers are read back\<close>

lemma digit_char_value: "d < 10 \<Longrightarrow> is_digit (digit_char d) \<and> digit_value (digit_char d) = int d"
proof -
  assume "d < 10"
  then have "d \<in> set [0..<10]" by simp
  moreover have "list_all (\<lambda>d. is_digit (digit_char d) \<and> digit_value (digit_char d) = int d) [0..<10]" by code_simp
  ultimately show ?thesis by (simp only: list_all_iff)
qed

lemma show_nat_value: "list_all is_digit (show_nat n) \<and> foldl (\<lambda>n c. 10 * n + digit_value c) 0 (show_nat n) = int n"
proof (induction n rule: less_induct)
  case (less n)
  have step: "10 * int (n div 10) + int (n mod 10) = int n" by (metis mult_div_mod_eq of_nat_add of_nat_mult of_nat_numeral)
  show ?case
  proof (cases "n < 10")
    case True
    then show ?thesis using digit_char_value [of n] by (subst (1 2) show_nat.simps) simp
  next
    case False
    then have "n div 10 < n" by simp
    from less.IH [OF this] show ?thesis using False digit_char_value [of "n mod 10"] step by (subst (1 2) show_nat.simps) simp
  qed
qed

lemma digit_not_sign: "is_digit c \<Longrightarrow> c \<noteq> CHR ''-'' \<and> c \<noteq> CHR ''+''"
  by (auto simp: is_digit_def less_eq_char_def)

lemma ParseInt_show_int:
  assumes "in64 n"
  shows "ParseInt (show_int n) = Some n"
proof -
  have digits: "show_nat m \<noteq> []" "hd (show_nat m) \<noteq> CHR ''-''" "hd (show_nat m) \<noteq> CHR ''+''" for m
    using show_nat_value [of m] digit_not_sign by (auto simp: list_all_iff)
  show ?thesis using assms digits show_nat_value [of "nat n"] show_nat_value [of "nat (- n)"]
    by (auto simp: ParseInt_def show_int_def Let_def)
qed

subsection \<open>What survives\<close>

lemma map_of_without_key: "k \<noteq> name \<Longrightarrow> map_of (filter (\<lambda>(k, _). k \<noteq> name) fs) k = map_of fs k"
  by (induction fs) auto

lemma map_of_set_number: "set_number name n (JObject fs) = JObject gs \<Longrightarrow> map_of gs k = (if k = name then Some (JNumber (show_int n)) else map_of fs k)"
  by (auto simp: set_number_def map_of_without_key)

context cjson
begin

lemma lua_decode: "jt_lua_decode T (jt_print T j) = Some j"
  by (rule lua_parses) (rule parse_print)

text \<open>The fields of the document that is read back.\<close>

lemma stored_fields:
  "\<exists>gs. jt_parse T (stored_event P T e n) = Some (JObject gs) \<and>
    (\<forall>k. rel_option (written num) (if k = ''eventId'' then Some (JNumber (show_int n)) else map_of (json_event P e) k) (map_of gs k))"
proof -
  obtain fs where fs: "set_number ''eventId'' n (JObject (json_event P e)) = JObject fs" by (simp add: set_number_def)
  obtain u where u: "jt_parse T (stored_event P T e n) = Some u" "written num (JObject fs) u"
    using lua_encode [of "JObject fs"] by (auto simp: stored_event_def fs)
  from u(2) obtain gs where "u = JObject gs" "\<forall>k. rel_option (written num) (map_of fs k) (map_of gs k)" by (auto elim: written_objectE)
  then show ?thesis using u(1) unfolding map_of_set_number [OF fs] by blast
qed

text \<open>An event with a result that has an empty list never survives: the list comes back as an object.\<close>

lemma written_empty [simp]: "written num (JArray []) u \<longleftrightarrow> u = JObject []"
  by (auto elim: written_arrayE intro: written.intros)

lemma written_objectD: "written num (JObject fs) u \<Longrightarrow> \<exists>gs. u = JObject gs \<and> (\<forall>k. rel_option (written num) (map_of fs k) (map_of gs k))"
  by (auto elim: written_objectE)

lemma result_field:
  assumes "map_of (case json_result P r of JObject fs \<Rightarrow> fs | _ \<Rightarrow> []) name = Some (JArray [])" "written num (json_result P r) u"
  obtains gs where "u = JObject gs" "map_of gs name = Some (JObject [])"
proof -
  obtain fs where fs: "json_result P r = JObject fs" by (simp add: json_result_def)
  with assms(2) obtain gs where gs: "u = JObject gs" "rel_option (written num) (map_of fs name) (map_of gs name)"
    using written_objectD [of fs u] by auto
  then have "map_of gs name = Some (JObject [])" using assms(1) fs by (cases "map_of gs name") auto
  with gs(1) that show ?thesis by blast
qed

lemma unreadable_result:
  assumes "has_empty_list r" "written num (json_result P r) u"
  shows "read_result P u = None"
proof -
  have "\<exists>name \<in> {''alternatives'', ''bestEffortRoutes'', ''greenTopRoutes'', ''warnings''}.
      map_of (case json_result P r of JObject fs \<Rightarrow> fs | _ \<Rightarrow> []) name = Some (JArray [])"
    using assms(1) by (auto simp: has_empty_list_def json_result_def omitted_def write_slice_def split: option.splits list.splits)
  then obtain name where name: "name \<in> {''alternatives'', ''bestEffortRoutes'', ''greenTopRoutes'', ''warnings''}"
    "map_of (case json_result P r of JObject fs \<Rightarrow> fs | _ \<Rightarrow> []) name = Some (JArray [])" by blast
  obtain gs where gs: "u = JObject gs" "map_of gs name = Some (JObject [])" using result_field [OF name(2) assms(2)] .
  then have "read_field gs name None (some_of (read_slice (jp_read_candidate P))) = None" "read_field gs name [] (read_slice read_string) = None"
    by (simp_all add: read_field_def some_of_def)
  then show ?thesis using name(1) by (auto simp: gs(1) Option.bind_rzero)
qed

lemma empty_list_unreadable:
  assumes "ev_Result e = Some r" "has_empty_list r"
  shows "Unmarshal_event P T (stored_event P T e n) = None"
proof -
  obtain gs where gs: "jt_parse T (stored_event P T e n) = Some (JObject gs)"
    "\<And>k. rel_option (written num) (if k = ''eventId'' then Some (JNumber (show_int n)) else map_of (json_event P e) k) (map_of gs k)"
    using stored_fields [of P e n] by blast
  have "map_of (json_event P e) ''result'' = Some (json_result P r)" by (simp add: json_event_def omitted_def assms(1) split: option.split)
  then obtain u where u: "map_of gs ''result'' = Some u" "written num (json_result P r) u"
    using gs(2) [of "''result''"] by (auto simp: option_rel_Some1)
  have "u \<noteq> JNull" using u(2) by (auto simp: json_result_def elim: written_objectE)
  then have "read_field gs ''result'' None (some_of (read_result P)) = None"
    using u(1) unreadable_result [OF assms(2) u(2)] by (simp add: read_field_def some_of_def)
  then show ?thesis by (simp add: Unmarshal_event_def gs(1) Option.bind_rzero)
qed

text \<open>An event of progress always does.\<close>

lemma read_stored:
  assumes "\<And>k. rel_option (written num) (f k) (map_of gs k)"
  shows "f name = None \<Longrightarrow> read_field gs name zero read = Some zero"
    and "f name = Some (JString v) \<Longrightarrow> read_field gs name zero read = read (JString v)"
    and "f name = Some (JNumber v) \<Longrightarrow> read_field gs name zero read = read (JNumber (num v))"
  using assms [of name] by (auto simp: read_field_def option_rel_Some1 written_leaf split: option.splits)

lemma plain_survives:
  assumes "plain_event P e"
  shows "survives P T e"
proof -
  have "Unmarshal_event P T (stored_event P T e n) = Some (e\<lparr>ev_EventID := n\<rparr>)" if n: "1 \<le> n" "n < 10 ^ 14" for n
  proof -
    obtain gs where gs: "jt_parse T (stored_event P T e n) = Some (JObject gs)"
      "\<And>k. rel_option (written num) (if k = ''eventId'' then Some (JNumber (show_int n)) else map_of (json_event P e) k) (map_of gs k)"
      using stored_fields [of P e n] by blast
    note read = read_stored [of "\<lambda>k. if k = ''eventId'' then Some (JNumber (show_int n)) else map_of (json_event P e) k", OF gs(2)]
    have "in64 n" using n by (simp add: in64_def)
    moreover have "num (show_int n) = show_int n" using n by (intro num_integer) simp
    moreover have "read_field gs ''eventId'' 0 read_integer = read_integer (JNumber (num (show_int n)))" by (rule read(3)) simp
    ultimately have id: "read_field gs ''eventId'' 0 read_integer = Some n" using ParseInt_show_int [of n] by simp
    have texts: "map_of (json_event P e) ''searchId'' = Some (JString (ev_SearchID e))" "map_of (json_event P e) ''type'' = Some (JString (event_text (ev_Type e)))"
      "map_of (json_event P e) ''timestamp'' = Some (JString (jp_time P (ev_Timestamp e)))" by (simp_all add: json_event_def)
    have fields: "read_field gs ''searchId'' [] read_string = Some (ev_SearchID e)" "read_field gs ''type'' (EventOther []) read_type = Some (ev_Type e)"
      "read_field gs ''timestamp'' 0 (read_time P) = Some (ev_Timestamp e)"
      using assms trans [OF read(2) [of "''searchId''" "ev_SearchID e" "[]" read_string]]
        trans [OF read(2) [of "''type''" "event_text (ev_Type e)" "EventOther []" read_type]]
        trans [OF read(2) [of "''timestamp''" "jp_time P (ev_Timestamp e)" 0 "read_time P"]]
      by (simp_all add: texts plain_event_def read_time_def)
    have message: "read_field gs ''message'' [] read_string = Some (ev_Message e)"
    proof (cases "ev_Message e = []")
      case True
      then show ?thesis using assms by (intro read(1) [THEN trans]) (simp_all add: json_event_def plain_event_def omitted_def nonempty_def)
    next
      case False
      then show ?thesis using assms by (intro read(2) [THEN trans]) (simp_all add: json_event_def plain_event_def omitted_def nonempty_def)
    qed
    have none: "read_field gs name zero read' = Some zero" if "name \<in> {''candidate'', ''result'', ''metadata''}" for name zero and read' :: "json \<Rightarrow> 'b option"
      using assms that by (intro read(1) [THEN trans]) (auto simp: json_event_def plain_event_def omitted_def nonempty_def)
    have "e\<lparr>ev_EventID := n\<rparr> = \<lparr> ev_EventID = n, ev_SearchID = ev_SearchID e, ev_Type = ev_Type e, ev_Timestamp = ev_Timestamp e,
        ev_Message = ev_Message e, ev_Candidate = None, ev_Result = None, ev_Metadata = [] \<rparr>"
      using assms by (cases e) (simp add: plain_event_def)
    then show ?thesis by (simp add: Unmarshal_event_def gs(1) id fields message none)
  qed
  then show ?thesis using assms by (simp add: survives_def plain_event_def event_json_ok_def)
qed

end

section \<open>Texts that are documents\<close>

text \<open>The laws can be met: texts are the documents themselves, and an empty array becomes an object.\<close>

primrec tabled :: "json \<Rightarrow> json" where
  "tabled JNull = JNull"
| "tabled (JBool b) = JBool b"
| "tabled (JNumber s) = JNumber s"
| "tabled (JString s) = JString s"
| "tabled (JArray js) = (if js = [] then JObject [] else JArray (map tabled js))"
| "tabled (JObject fs) = JObject (map (map_prod id tabled) fs)"

definition document_texts :: "json texts" where
  "document_texts = \<lparr> jt_print = id, jt_parse = Some, jt_lua_decode = Some, jt_lua_encode = tabled \<rparr>"

lemma map_of_map_prod: "map_of (map (map_prod id f) fs) k = map_option f (map_of fs k)"
  by (induction fs) auto

lemma written_tabled: "written (\<lambda>s. s) j (tabled j)"
proof (induction j)
  case (JNumber s)
  show ?case using written.intros(3) [of "\<lambda>s. s" s] by simp
next
  case (JArray js)
  then show ?case by (auto simp: list_all2_conv_all_nth intro!: written.intros)
next
  case (JObject fs)
  have "rel_option (written (\<lambda>s. s)) (map_of fs k) (map_of (map (map_prod id tabled) fs) k)" for k
    using JObject by (cases "map_of fs k") (auto simp: map_of_map_prod dest: map_of_SomeD)
  then show ?case by (simp add: written.intros)
qed (simp_all add: written.intros)

interpretation documents: cjson document_texts "\<lambda>s. s"
  by unfold_locales (simp_all add: document_texts_def written_tabled)

end
