(* ===== verification/RedisServer.thy ===== *)
theory RedisServer
  imports Prelude
begin

text \<open>
  The commands of a Redis server that the stores of the two services send. The server is not part of the program: it is a record of functions over an
  arbitrary state, and the locale \<open>redis_server\<close> states what its documentation says of each command. A script runs at one reading of
  the server's clock, without other commands in between.
\<close>

section \<open>Commands\<close>

text \<open>Texts are of any type: what a client stores as a text is not looked into by the server.\<close>

datatype 'x redis_value = RText 'x | RCount int | RList "'x list" | RScores "(string \<times> int) list"

record ('x, 'r) redis =
  rd_EXISTS :: "time \<Rightarrow> string \<Rightarrow> 'r \<Rightarrow> bool"
  rd_GET :: "time \<Rightarrow> string \<Rightarrow> 'r \<Rightarrow> 'x option"
  rd_MGET :: "time \<Rightarrow> string list \<Rightarrow> 'r \<Rightarrow> 'x option list"
  rd_SET :: "time \<Rightarrow> string \<Rightarrow> 'x \<Rightarrow> duration \<Rightarrow> 'r \<Rightarrow> 'r"
  rd_SETXX :: "time \<Rightarrow> string \<Rightarrow> 'x \<Rightarrow> duration \<Rightarrow> 'r \<Rightarrow> bool \<times> 'r"
  rd_SETNX :: "time \<Rightarrow> string \<Rightarrow> 'x \<Rightarrow> duration \<Rightarrow> 'r \<Rightarrow> bool \<times> 'r"
  rd_INCR :: "time \<Rightarrow> string \<Rightarrow> 'r \<Rightarrow> int64 \<times> 'r"
  rd_PEXPIRE :: "time \<Rightarrow> string \<Rightarrow> duration \<Rightarrow> 'r \<Rightarrow> 'r"
  rd_DEL :: "time \<Rightarrow> string list \<Rightarrow> 'r \<Rightarrow> 'r"
  rd_RPUSH :: "time \<Rightarrow> string \<Rightarrow> 'x \<Rightarrow> 'r \<Rightarrow> 'r"
  rd_LRANGE :: "time \<Rightarrow> string \<Rightarrow> int64 \<Rightarrow> int64 \<Rightarrow> 'r \<Rightarrow> 'x list"
  rd_ZADD :: "time \<Rightarrow> string \<Rightarrow> int \<Rightarrow> string \<Rightarrow> 'r \<Rightarrow> 'r"
  rd_ZREM :: "time \<Rightarrow> string \<Rightarrow> string list \<Rightarrow> 'r \<Rightarrow> 'r"
  rd_ZRANGEBYSCORE :: "time \<Rightarrow> string \<Rightarrow> int \<Rightarrow> int64 \<Rightarrow> 'r \<Rightarrow> string list"

text \<open>The result of a command sent over the network: it may not arrive, or its answer may be lost.\<close>

datatype redis_fault = NoFault | NotSent string | NoReply string

fun call :: "redis_fault \<Rightarrow> ('r \<Rightarrow> 'a \<times> 'r) \<Rightarrow> 'r \<Rightarrow> (string + 'a) \<times> 'r" where
  "call NoFault f s = (case f s of (a, s) \<Rightarrow> (Inr a, s))"
| "call (NotSent err) f s = (Inl err, s)"
| "call (NoReply err) f s = (Inl err, snd (f s))"

lemma call_cases:
  assumes "call fault f s = (r, s')"
  shows "(\<exists>err. r = Inl err \<and> s' = s) \<or> (\<exists>err. r = Inl err \<and> s' = snd (f s)) \<or> r = Inr (fst (f s)) \<and> s' = snd (f s)"
  using assms by (cases fault) (auto split: prod.splits)

lemma call_keeps: "P s \<Longrightarrow> P (snd (f s)) \<Longrightarrow> P (snd (call fault f s))"
  by (cases fault) (auto split: prod.split)

section \<open>What the documentation says\<close>

text \<open>\<open>db s t key\<close> is what a read of \<open>key\<close> at \<open>t\<close> would find, if nothing else happened; \<open>expired deadline t\<close> tells when a deadline has passed.\<close>

definition scores :: "'x redis_value option \<Rightarrow> string \<rightharpoonup> int" where
  "scores v = (case v of Some (RScores z) \<Rightarrow> map_of z | _ \<Rightarrow> Map.empty)"

locale redis_server =
  fixes R :: "('x, 'r) redis" and db :: "'r \<Rightarrow> time \<Rightarrow> string \<Rightarrow> 'x redis_value option" and expired :: "time \<Rightarrow> time \<Rightarrow> bool"
  assumes not_yet: "t < deadline \<Longrightarrow> \<not> expired deadline t"
    and stays_expired: "expired deadline t \<Longrightarrow> t \<le> t' \<Longrightarrow> expired deadline t'"
    and remains: "db s t' k = Some v \<Longrightarrow> t \<le> t' \<Longrightarrow> db s t k = Some v"
    and EXISTS: "rd_EXISTS R now k s \<longleftrightarrow> db s now k \<noteq> None"
    and GET_text: "db s now k = Some (RText x) \<Longrightarrow> rd_GET R now k s = Some x"
    and GET_none: "db s now k = None \<Longrightarrow> rd_GET R now k s = None"
    and MGET: "rd_MGET R now ks s = map (\<lambda>k. case db s now k of Some (RText x) \<Rightarrow> Some x | _ \<Rightarrow> None) ks"
    and SET: "db (rd_SET R now k x ttl s) t k' = (if k' = k then if expired (now + ttl) t then None else Some (RText x) else db s t k')"
    and SETXX: "rd_SETXX R now k x ttl s = (if db s now k = None then (False, s) else (True, rd_SET R now k x ttl s))"
    and SETNX: "rd_SETNX R now k x ttl s = (if db s now k = None then (True, rd_SET R now k x ttl s) else (False, s))"
    and INCR_new: "db s now k = None \<Longrightarrow> fst (rd_INCR R now k s) = 1 \<and> db (snd (rd_INCR R now k s)) t k = Some (RCount 1)"
    and INCR: "db s now k = Some (RCount n) \<Longrightarrow> n < 2 ^ 63 - 1 \<Longrightarrow> fst (rd_INCR R now k s) = n + 1
      \<and> db (snd (rd_INCR R now k s)) t k = (if db s t k = None then None else Some (RCount (n + 1)))"
    and INCR_other: "k' \<noteq> k \<Longrightarrow> db (snd (rd_INCR R now k s)) t k' = db s t k'"
    and PEXPIRE: "db (rd_PEXPIRE R now k ttl s) t k' = (if k' = k then if expired (now + ttl) t then None else db s now k else db s t k')"
    and DEL: "db (rd_DEL R now ks s) t k = (if k \<in> set ks then None else db s t k)"
    and RPUSH_new: "db s now k = None \<Longrightarrow> db (rd_RPUSH R now k x s) t k = Some (RList [x])"
    and RPUSH: "db s now k = Some (RList xs) \<Longrightarrow> db (rd_RPUSH R now k x s) t k = (if db s t k = None then None else Some (RList (xs @ [x])))"
    and RPUSH_other: "k' \<noteq> k \<Longrightarrow> db (rd_RPUSH R now k x s) t k' = db s t k'"
    and LRANGE_none: "db s now k = None \<Longrightarrow> rd_LRANGE R now k from last_index s = []"
    and LRANGE: "db s now k = Some (RList xs) \<Longrightarrow> 0 \<le> from \<Longrightarrow> from \<le> last_index \<Longrightarrow>
      rd_LRANGE R now k from last_index s = take (nat (last_index - from + 1)) (drop (nat from) xs)"
    and ZADD: "scores (db (rd_ZADD R now k score member s) now k) = (scores (db s now k))(member \<mapsto> score)"
    and ZADD_other: "k' \<noteq> k \<Longrightarrow> db (rd_ZADD R now k score member s) t k' = db s t k'"
    and ZREM: "scores (db (rd_ZREM R now k members s) t k) = scores (db s t k) |` (- set members)"
    and ZREM_other: "k' \<noteq> k \<Longrightarrow> db (rd_ZREM R now k members s) t k' = db s t k'"
    and ZRANGEBYSCORE: "\<exists>members. distinct members \<and> set members = {m. \<exists>score. scores (db s now k) m = Some score \<and> score \<le> limit}
      \<and> rd_ZRANGEBYSCORE R now k limit number s = take (nat number) members"
begin

lemma live_now: "0 < ttl \<Longrightarrow> \<not> expired (now + ttl) now"
  by (simp add: not_yet)

lemma SETXX_db: "db (snd (rd_SETXX R now k x ttl s)) t k' =
    (if k' = k \<and> db s now k \<noteq> None then if expired (now + ttl) t then None else Some (RText x) else db s t k')"
  by (auto simp: SETXX SET)

lemma SETNX_db: "db (snd (rd_SETNX R now k x ttl s)) t k' =
    (if k' = k \<and> db s now k = None then if expired (now + ttl) t then None else Some (RText x) else db s t k')"
  by (auto simp: SETNX SET)

end

section \<open>A server with one map\<close>

text \<open>The documentation can be met: a map from keys to values with an optional deadline.\<close>

type_synonym 'x small_state = "string \<rightharpoonup> 'x redis_value \<times> time option"

definition small_db :: "'x small_state \<Rightarrow> time \<Rightarrow> string \<Rightarrow> 'x redis_value option" where
  "small_db s t k = (case s k of None \<Rightarrow> None | Some (v, deadline) \<Rightarrow>
     (case deadline of None \<Rightarrow> Some v | Some d \<Rightarrow> if t < d then Some v else None))"

definition small_text :: "'x redis_value option \<Rightarrow> 'x option" where
  "small_text v = (case v of Some (RText x) \<Rightarrow> Some x | _ \<Rightarrow> None)"

text \<open>Put a value under a key, keeping its deadline while it lives.\<close>

definition small_put :: "time \<Rightarrow> string \<Rightarrow> 'x redis_value \<Rightarrow> 'x small_state \<Rightarrow> 'x small_state" where
  "small_put now k v s = s(k \<mapsto> (v, if small_db s now k = None then None else (case s k of None \<Rightarrow> None | Some (_, d) \<Rightarrow> d)))"

definition small_count :: "'x redis_value option \<Rightarrow> int64" where
  "small_count v = (case v of Some (RCount n) \<Rightarrow> n | _ \<Rightarrow> 0)"

definition small_list :: "'x redis_value option \<Rightarrow> 'x list" where
  "small_list v = (case v of Some (RList xs) \<Rightarrow> xs | _ \<Rightarrow> [])"

definition small_scores :: "'x redis_value option \<Rightarrow> (string \<times> int) list" where
  "small_scores v = (case v of Some (RScores z) \<Rightarrow> z | _ \<Rightarrow> [])"

definition small_SET :: "time \<Rightarrow> string \<Rightarrow> 'x \<Rightarrow> duration \<Rightarrow> 'x small_state \<Rightarrow> 'x small_state" where
  "small_SET now k x ttl s = s(k \<mapsto> (RText x, Some (now + ttl)))"

definition small_redis :: "('x, 'x small_state) redis" where
  "small_redis =
    \<lparr> rd_EXISTS = (\<lambda>now k s. small_db s now k \<noteq> None),
      rd_GET = (\<lambda>now k s. small_text (small_db s now k)),
      rd_MGET = (\<lambda>now ks s. map (\<lambda>k. small_text (small_db s now k)) ks),
      rd_SET = small_SET,
      rd_SETXX = (\<lambda>now k x ttl s. if small_db s now k = None then (False, s) else (True, small_SET now k x ttl s)),
      rd_SETNX = (\<lambda>now k x ttl s. if small_db s now k = None then (True, small_SET now k x ttl s) else (False, s)),
      rd_INCR = (\<lambda>now k s. let n = small_count (small_db s now k) + 1 in (n, small_put now k (RCount n) s)),
      rd_PEXPIRE = (\<lambda>now k ttl s. s(k := map_option (\<lambda>v. (v, Some (now + ttl))) (small_db s now k))),
      rd_DEL = (\<lambda>now ks s. s |` (- set ks)),
      rd_RPUSH = (\<lambda>now k x s. small_put now k (RList (small_list (small_db s now k) @ [x])) s),
      rd_LRANGE = (\<lambda>now k from last_index s. take (nat (last_index - from + 1)) (drop (nat from) (small_list (small_db s now k)))),
      rd_ZADD = (\<lambda>now k score member s. small_put now k (RScores ((member, score) # small_scores (small_db s now k))) s),
      rd_ZREM = (\<lambda>now k members s. case s k of
        Some (RScores z, d) \<Rightarrow> s(k \<mapsto> (RScores (filter (\<lambda>(m, _). m \<notin> set members) z), d)) | _ \<Rightarrow> s),
      rd_ZRANGEBYSCORE = (\<lambda>now k limit number s.
        let z = small_scores (small_db s now k)
        in take (nat number) (filter (\<lambda>m. case map_of z m of None \<Rightarrow> False | Some score \<Rightarrow> score \<le> limit) (remdups (map fst z)))) \<rparr>"

lemma map_of_without: "map_of (filter (\<lambda>(m, _). m \<notin> A) z) = map_of z |` (- A)"
  by (induction z) (auto simp: restrict_map_def fun_eq_iff)

lemma small_put_db: "small_db (small_put now k v s) t k' =
    (if k' = k then if small_db s now k \<noteq> None \<and> small_db s t k = None then None else Some v else small_db s t k')"
  by (auto simp: small_put_def small_db_def split: option.splits if_splits)

lemma small_scores_eq: "scores v = map_of (small_scores v)"
  by (auto simp: scores_def small_scores_def split: option.split redis_value.split)

lemma small_SET_db: "small_db (small_SET now k x ttl s) t k' = (if k' = k then if now + ttl \<le> t then None else Some (RText x) else small_db s t k')"
  by (auto simp: small_SET_def small_db_def)

lemma small_other: "k' \<noteq> k \<Longrightarrow> small_db (s(k := v)) t k' = small_db s t k'"
  by (simp add: small_db_def)

lemma small_PEXPIRE_db: "small_db (s(k := map_option (\<lambda>v. (v, Some (now + ttl))) (small_db s now k))) t k' =
    (if k' = k then if now + ttl \<le> t then None else small_db s now k else small_db s t k')"
  by (auto simp: small_db_def split: option.split)

lemma small_DEL_db: "small_db (s |` (- A)) t k = (if k \<in> A then None else small_db s t k)"
  by (simp add: small_db_def restrict_map_def)

lemma small_remains: "small_db s t' k = Some v \<Longrightarrow> t \<le> t' \<Longrightarrow> small_db s t k = Some v"
  by (auto simp: small_db_def split: option.splits if_splits)

interpretation small: redis_server small_redis small_db "\<lambda>deadline t. deadline \<le> t"
proof
  fix now k limit and number :: int64 and s :: "'x small_state"
  let ?z = "small_scores (small_db s now k)"
  have "set (filter (\<lambda>m. case map_of ?z m of None \<Rightarrow> False | Some score \<Rightarrow> score \<le> limit) (remdups (map fst ?z))) =
      {m. \<exists>score. scores (small_db s now k) m = Some score \<and> score \<le> limit}"
    by (force simp: small_scores_eq split: option.splits dest: map_of_SomeD)
  then show "\<exists>members. distinct members \<and> set members = {m. \<exists>score. scores (small_db s now k) m = Some score \<and> score \<le> limit}
      \<and> rd_ZRANGEBYSCORE small_redis now k limit number s = take (nat number) members"
    by (intro exI [of _ "filter (\<lambda>m. case map_of ?z m of None \<Rightarrow> False | Some score \<Rightarrow> score \<le> limit) (remdups (map fst ?z))"])
       (simp add: small_redis_def Let_def)
next
  fix now t k and members :: "string list" and s :: "'x small_state"
  show "scores (small_db (rd_ZREM small_redis now k members s) t k) = scores (small_db s t k) |` (- set members)"
    by (auto simp: small_redis_def small_db_def scores_def map_of_without split: option.splits redis_value.splits prod.splits)
next
  show "small_db s t' k = Some v \<Longrightarrow> t \<le> t' \<Longrightarrow> small_db s t k = Some v" for s :: "'x small_state" and t t' k v by (rule small_remains)
next
  fix now k k' and members :: "string list" and s :: "'x small_state" and t
  show "k' \<noteq> k \<Longrightarrow> small_db (rd_ZREM small_redis now k members s) t k' = small_db s t k'"
    by (auto simp: small_redis_def small_other split: option.split redis_value.split)
qed (simp_all add: small_redis_def small_put_db small_SET_db small_PEXPIRE_db small_DEL_db small_scores_eq small_text_def small_count_def small_list_def
    small_scores_def Let_def cong: option.case_cong, auto?)

end
