(* ===== verification/RedisStore.thy ===== *)
theory RedisStore
  imports SearchJson RedisServer
begin

text \<open>
  The search store in Redis (\<open>internal/searchstore/store.go\<close>): the scripts and the commands around them, over any server, codec and network. An operation
  sends its commands one after the other; each may fail, and other clients may act between two commands.
\<close>

section \<open>The store\<close>

datatype redis_error = StoreError store_error | Unreachable string | EncodingFailed | DecodingFailed | ScriptFailed

record ('x, 'r) Redis =
  rs_client :: "('x, 'r) redis"
  rs_prefix :: string

definition NewRedis :: "('x, 'r) redis \<Rightarrow> string \<Rightarrow> ('x, 'r) Redis" where
  "NewRedis client name = \<lparr> rs_client = client, rs_prefix = (if name = [] then ''greenroute'' else name) \<rparr>"

definition resultKey :: "('x, 'r) Redis \<Rightarrow> string \<Rightarrow> string" where
  "resultKey S sid = rs_prefix S @ '':search:'' @ sid @ '':result''"

definition eventKey :: "('x, 'r) Redis \<Rightarrow> string \<Rightarrow> string" where
  "eventKey S sid = rs_prefix S @ '':search:'' @ sid @ '':events''"

definition seqKey :: "('x, 'r) Redis \<Rightarrow> string \<Rightarrow> string" where
  "seqKey S sid = rs_prefix S @ '':search:'' @ sid @ '':seq''"

definition activeKey :: "('x, 'r) Redis \<Rightarrow> string" where
  "activeKey S = rs_prefix S @ '':searches:active''"

text \<open>The network during one operation: the server's clock and the fate of each command, and what others do after it.\<close>

record 'r network =
  nw_now :: "nat \<Rightarrow> time"
  nw_fault :: "nat \<Rightarrow> redis_fault"
  nw_other :: "nat \<Rightarrow> 'r \<Rightarrow> 'r"

definition redis_send :: "'r network \<Rightarrow> nat \<Rightarrow> (time \<Rightarrow> 'r \<Rightarrow> 'a \<times> 'r) \<Rightarrow> 'r \<Rightarrow> (redis_error + 'a) \<times> 'r" where
  "redis_send N i f s = (case call (nw_fault N i) (f (nw_now N i)) s of
     (Inl err, s) \<Rightarrow> (Inl (Unreachable err), nw_other N i s)
   | (Inr a, s) \<Rightarrow> (Inr a, nw_other N i s))"

definition ttlMilliseconds :: "duration \<Rightarrow> int64" where
  "ttlMilliseconds ttl = (let ms = quot64 ttl 1000000 in if ms < 1 then 1 else ms)"

definition ms :: "int64 \<Rightarrow> duration" where
  "ms n = n * 1000000"

section \<open>Scripts\<close>

text \<open>The answer of a script; \<^term>\<open>None\<close> is an error in it.\<close>

definition createSearchScript :: "('x, 'r) redis \<Rightarrow> string \<Rightarrow> string \<Rightarrow> 'x \<Rightarrow> int64 \<Rightarrow> int64 \<Rightarrow> string \<Rightarrow> time \<Rightarrow> 'r \<Rightarrow> int64 option \<times> 'r" where
  "createSearchScript R result active payload ttl score member now s =
     (if rd_EXISTS R now result s then (Some 0, s)
      else (Some 1, rd_ZADD R now active score member (rd_SET R now result payload (ms ttl) s)))"

definition push :: "'x texts \<Rightarrow> ('x, 'r) redis \<Rightarrow> string \<Rightarrow> 'x \<Rightarrow> int64 \<Rightarrow> time \<Rightarrow> 'r \<Rightarrow> 'r option" where
  "push T R events payload sequence now s = (case jt_lua_decode T payload of
     None \<Rightarrow> None
   | Some event \<Rightarrow> Some (rd_RPUSH R now events (jt_lua_encode T (set_number ''eventId'' sequence event)) s))"

definition appendEventScript :: "'x texts \<Rightarrow> ('x, 'r) redis \<Rightarrow> string \<Rightarrow> string \<Rightarrow> string \<Rightarrow> 'x \<Rightarrow> int64 \<Rightarrow> time \<Rightarrow> 'r \<Rightarrow> int64 option \<times> 'r" where
  "appendEventScript T R result events seq payload ttl now s =
     (if \<not> rd_EXISTS R now result s then (Some (- 1), s)
      else case rd_INCR R now seq s of (sequence, s) \<Rightarrow>
        (case push T R events payload sequence now s of
           None \<Rightarrow> (None, s)
         | Some s \<Rightarrow> (Some sequence, rd_PEXPIRE R now seq (ms ttl) (rd_PEXPIRE R now events (ms ttl) (rd_PEXPIRE R now result (ms ttl) s)))))"

definition lua_field :: "string \<Rightarrow> json \<Rightarrow> json option" where
  "lua_field name j = (case j of JObject fs \<Rightarrow> map_of fs name | _ \<Rightarrow> None)"

definition finalizeScript ::
    "'x texts \<Rightarrow> ('x, 'r) redis \<Rightarrow> string \<Rightarrow> string \<Rightarrow> string \<Rightarrow> string \<Rightarrow> 'x \<Rightarrow> 'x \<Rightarrow> int64 \<Rightarrow> string \<Rightarrow> time \<Rightarrow> 'r \<Rightarrow> int64 option \<times> 'r" where
  "finalizeScript T R result events seq active resultPayload eventPayload ttl member now s = (case rd_GET R now result s of
     None \<Rightarrow> (Some (- 1), rd_ZREM R now active [member] s)
   | Some currentPayload \<Rightarrow> (case jt_lua_decode T currentPayload of
       None \<Rightarrow> (None, s)
     | Some current \<Rightarrow>
         if lua_field ''status'' current \<notin> {Some (JString ''ACCEPTED''), Some (JString ''SEARCHING'')} then (Some 0, rd_ZREM R now active [member] s)
         else case rd_INCR R now seq s of (sequence, s) \<Rightarrow>
           (case push T R events eventPayload sequence now s of
              None \<Rightarrow> (None, s)
            | Some s \<Rightarrow> (Some sequence, rd_ZREM R now active [member]
                (rd_PEXPIRE R now seq (ms ttl) (rd_PEXPIRE R now events (ms ttl) (rd_SET R now result resultPayload (ms ttl) s)))))))"

definition deleteSearchScript :: "('x, 'r) redis \<Rightarrow> string \<Rightarrow> string \<Rightarrow> string \<Rightarrow> string \<Rightarrow> string \<Rightarrow> time \<Rightarrow> 'r \<Rightarrow> int64 option \<times> 'r" where
  "deleteSearchScript R result events seq active member now s =
     (Some (if rd_EXISTS R now result s then 1 else 0), rd_ZREM R now active [member] (rd_DEL R now [result, events, seq] s))"

text \<open>What the client makes of a script's answer.\<close>

definition run_script :: "'r network \<Rightarrow> (time \<Rightarrow> 'r \<Rightarrow> int64 option \<times> 'r) \<Rightarrow> 'r \<Rightarrow> (redis_error + int64) \<times> 'r" where
  "run_script N f s = (case redis_send N 0 f s of
     (Inl err, s) \<Rightarrow> (Inl err, s)
   | (Inr None, s) \<Rightarrow> (Inl ScriptFailed, s)
   | (Inr (Some n), s) \<Rightarrow> (Inr n, s))"

section \<open>Operations\<close>

definition Redis_Create ::
    "parts \<Rightarrow> 'x texts \<Rightarrow> ('x, 'r) Redis \<Rightarrow> 'r network \<Rightarrow> RouteSearchResult \<Rightarrow> duration \<Rightarrow> 'r \<Rightarrow> redis_error option \<times> 'r" where
  "Redis_Create P T S N result ttl s = (case Marshal_result P T result of
     None \<Rightarrow> (Some EncodingFailed, s)
   | Some payload \<Rightarrow>
       (case run_script N (createSearchScript (rs_client S) (resultKey S (rr_SearchID result)) (activeKey S) payload (ttlMilliseconds ttl)
              (rr_GeneratedAt result div 1000000) (rr_SearchID result)) s of
          (Inl err, s) \<Rightarrow> (Some err, s)
        | (Inr ok, s) \<Rightarrow> (if ok = 0 then Some (StoreError (ErrAlreadyExists (rr_SearchID result))) else None, s)))"

definition Redis_Get :: "parts \<Rightarrow> 'x texts \<Rightarrow> ('x, 'r) Redis \<Rightarrow> 'r network \<Rightarrow> string \<Rightarrow> 'r \<Rightarrow> (redis_error + RouteSearchResult) \<times> 'r" where
  "Redis_Get P T S N sid s = (case redis_send N 0 (\<lambda>now s. (rd_GET (rs_client S) now (resultKey S sid) s, s)) s of
     (Inl err, s) \<Rightarrow> (Inl err, s)
   | (Inr None, s) \<Rightarrow> (Inl (StoreError ErrNotFound), s)
   | (Inr (Some payload), s) \<Rightarrow> (case Unmarshal_result P T payload of None \<Rightarrow> (Inl DecodingFailed, s) | Some result \<Rightarrow> (Inr result, s)))"

definition Redis_Update ::
    "parts \<Rightarrow> 'x texts \<Rightarrow> ('x, 'r) Redis \<Rightarrow> 'r network \<Rightarrow> RouteSearchResult \<Rightarrow> duration \<Rightarrow> 'r \<Rightarrow> redis_error option \<times> 'r" where
  "Redis_Update P T S N result ttl s = (case Marshal_result P T result of
     None \<Rightarrow> (Some EncodingFailed, s)
   | Some payload \<Rightarrow>
       (case redis_send N 0 (\<lambda>now. rd_SETXX (rs_client S) now (resultKey S (rr_SearchID result)) payload ttl) s of
          (Inl err, s) \<Rightarrow> (Some err, s)
        | (Inr ok, s) \<Rightarrow> (if ok then None else Some (StoreError ErrNotFound), s)))"

definition Redis_Delete :: "('x, 'r) Redis \<Rightarrow> 'r network \<Rightarrow> string \<Rightarrow> 'r \<Rightarrow> redis_error option \<times> 'r" where
  "Redis_Delete S N sid s =
     (case run_script N (deleteSearchScript (rs_client S) (resultKey S sid) (eventKey S sid) (seqKey S sid) (activeKey S) sid) s of
        (Inl err, s) \<Rightarrow> (Some err, s)
      | (Inr removed, s) \<Rightarrow> (if removed = 0 then Some (StoreError ErrNotFound) else None, s))"

definition Redis_AppendEvent ::
    "parts \<Rightarrow> 'x texts \<Rightarrow> ('x, 'r) Redis \<Rightarrow> 'r network \<Rightarrow> SearchEvent \<Rightarrow> duration \<Rightarrow> 'r \<Rightarrow> (redis_error + SearchEvent) \<times> 'r" where
  "Redis_AppendEvent P T S N event ttl s = (case Marshal_event P T event of
     None \<Rightarrow> (Inl EncodingFailed, s)
   | Some payload \<Rightarrow>
       (case run_script N (appendEventScript T (rs_client S) (resultKey S (ev_SearchID event)) (eventKey S (ev_SearchID event))
              (seqKey S (ev_SearchID event)) payload (ttlMilliseconds ttl)) s of
          (Inl err, s) \<Rightarrow> (Inl err, s)
        | (Inr sequence, s) \<Rightarrow>
            if sequence < 0 then (Inl (StoreError ErrNotFound), s) else (Inr (event\<lparr>ev_EventID := sequence\<rparr>), s)))"

definition Redis_Finalize ::
    "parts \<Rightarrow> 'x texts \<Rightarrow> ('x, 'r) Redis \<Rightarrow> 'r network \<Rightarrow> RouteSearchResult \<Rightarrow> SearchEvent \<Rightarrow> duration \<Rightarrow> 'r \<Rightarrow> redis_error option \<times> 'r" where
  "Redis_Finalize P T S N result event ttl s = (case (Marshal_result P T result, Marshal_event P T event) of
     (Some resultPayload, Some eventPayload) \<Rightarrow>
       (case run_script N (finalizeScript T (rs_client S) (resultKey S (rr_SearchID result)) (eventKey S (rr_SearchID result)) (seqKey S (rr_SearchID result))
              (activeKey S) resultPayload eventPayload (ttlMilliseconds ttl) (rr_SearchID result)) s of
          (Inl err, s) \<Rightarrow> (Some err, s)
        | (Inr sequence, s) \<Rightarrow> (if sequence < 0 then Some (StoreError ErrNotFound) else None, s))
   | _ \<Rightarrow> (Some EncodingFailed, s))"

text \<open>The loop of \<open>EventsAfter\<close> over the texts.\<close>

fun events_scan :: "parts \<Rightarrow> 'x texts \<Rightarrow> int64 \<Rightarrow> 'x list \<Rightarrow> SearchEvent list \<Rightarrow> redis_error + SearchEvent list" where
  "events_scan P T after [] result = Inr result"
| "events_scan P T after (payload # payloads) result = (case Unmarshal_event P T payload of
     None \<Rightarrow> Inl DecodingFailed
   | Some event \<Rightarrow> events_scan P T after payloads (if ev_EventID event > after then result @ [event] else result))"

definition Redis_EventsAfter ::
    "parts \<Rightarrow> 'x texts \<Rightarrow> ('x, 'r) Redis \<Rightarrow> 'r network \<Rightarrow> string \<Rightarrow> int64 \<Rightarrow> 'r \<Rightarrow> (redis_error + SearchEvent list) \<times> 'r" where
  "Redis_EventsAfter P T S N sid after s = (case redis_send N 0 (\<lambda>now s. (rd_EXISTS (rs_client S) now (resultKey S sid) s, s)) s of
     (Inl err, s) \<Rightarrow> (Inl err, s)
   | (Inr False, s) \<Rightarrow> (Inl (StoreError ErrNotFound), s)
   | (Inr True, s) \<Rightarrow>
       let after = (if after < 0 then 0 else after);
           end_index = sub64 (add64 after maximumEventReplayBatch) 1;
           end_index = (if end_index < after then after else end_index)
       in (case redis_send N 1 (\<lambda>now s. (rd_LRANGE (rs_client S) now (eventKey S sid) after end_index s, s)) s of
             (Inl err, s) \<Rightarrow> (Inl err, s)
           | (Inr payloads, s) \<Rightarrow> (events_scan P T after payloads [], s)))"

text \<open>The loop of \<open>ActiveBefore\<close>: the results, and the ids to remove from the index.\<close>

fun active_scan ::
    "parts \<Rightarrow> 'x texts \<Rightarrow> (string \<times> 'x option) list \<Rightarrow> RouteSearchResult list \<Rightarrow> string list \<Rightarrow> redis_error + (RouteSearchResult list \<times> string list)" where
  "active_scan P T [] results remove = Inr (results, remove)"
| "active_scan P T ((sid, None) # rest) results remove = active_scan P T rest results (remove @ [sid])"
| "active_scan P T ((sid, Some payload) # rest) results remove = (case Unmarshal_result P T payload of
     None \<Rightarrow> Inl DecodingFailed
   | Some result \<Rightarrow>
       if terminalStatus (rr_Status result) then active_scan P T rest results (remove @ [sid])
       else active_scan P T rest (results @ [result]) remove)"

definition Redis_ActiveBefore ::
    "parts \<Rightarrow> 'x texts \<Rightarrow> ('x, 'r) Redis \<Rightarrow> 'r network \<Rightarrow> time \<Rightarrow> int \<Rightarrow> 'r \<Rightarrow> (redis_error + RouteSearchResult list) \<times> 'r" where
  "Redis_ActiveBefore P T S N before limit s =
     (if limit < 1 then (Inr [], s)
      else
        let limit = (if limit > 1000 then 1000 else limit) in
        case redis_send N 0 (\<lambda>now s. (rd_ZRANGEBYSCORE (rs_client S) now (activeKey S) (before div 1000000) limit s, s)) s of
          (Inl err, s) \<Rightarrow> (Inl err, s)
        | (Inr ids, s) \<Rightarrow>
            if ids = [] then (Inr [], s)
            else case redis_send N 1 (\<lambda>now s. (rd_MGET (rs_client S) now (map (resultKey S) ids) s, s)) s of
              (Inl err, s) \<Rightarrow> (Inl err, s)
            | (Inr values, s) \<Rightarrow> (case active_scan P T (zip ids values) [] [] of
                Inl err \<Rightarrow> (Inl err, s)
              | Inr (results, remove) \<Rightarrow>
                  if remove = [] then (Inr results, s)
                  else case redis_send N 2 (\<lambda>now s. ((), rd_ZREM (rs_client S) now (activeKey S) remove s)) s of
                    (Inl err, s) \<Rightarrow> (Inl err, s)
                  | (Inr _, s) \<Rightarrow> (Inr results, s)))"

end
