(* ===== verification/RedisLog.thy ===== *)
theory RedisLog
  imports RedisStore
begin

text \<open>
  What the search store in Redis keeps: the numbered log of each search, as the in-memory store does, for the events that survive the passage through
  the scripts; and what becomes of the events that do not.
\<close>

section \<open>Keys\<close>

lemma keys_differ [simp]:
  "resultKey S a \<noteq> eventKey S b" "resultKey S a \<noteq> seqKey S b" "eventKey S a \<noteq> seqKey S b" "activeKey S \<noteq> resultKey S a" "activeKey S \<noteq> eventKey S a"
  "activeKey S \<noteq> seqKey S a" "eventKey S a \<noteq> resultKey S b" "seqKey S a \<noteq> resultKey S b" "seqKey S a \<noteq> eventKey S b" "resultKey S a \<noteq> activeKey S"
  "eventKey S a \<noteq> activeKey S" "seqKey S a \<noteq> activeKey S"
proof -
  have last: "last (resultKey S a) = CHR ''t''" "last (eventKey S a) = CHR ''s''" "last (seqKey S a) = CHR ''q''" "last (activeKey S) = CHR ''e''" for a
    by (simp_all add: resultKey_def eventKey_def seqKey_def activeKey_def)
  have ne: "x \<noteq> y" if "last x \<noteq> last y" for x y :: string using that by blast
  show "resultKey S a \<noteq> eventKey S b" "resultKey S a \<noteq> seqKey S b" "eventKey S a \<noteq> seqKey S b" "activeKey S \<noteq> resultKey S a"
    "activeKey S \<noteq> eventKey S a" "activeKey S \<noteq> seqKey S a" "eventKey S a \<noteq> resultKey S b" "seqKey S a \<noteq> resultKey S b" "seqKey S a \<noteq> eventKey S b"
    "resultKey S a \<noteq> activeKey S" "eventKey S a \<noteq> activeKey S" "seqKey S a \<noteq> activeKey S" by (rule ne, simp add: last)+
qed

lemma keys_inject [simp]: "resultKey S a = resultKey S b \<longleftrightarrow> a = b" "eventKey S a = eventKey S b \<longleftrightarrow> a = b" "seqKey S a = seqKey S b \<longleftrightarrow> a = b"
  by (simp_all add: resultKey_def eventKey_def seqKey_def)

section \<open>The invariant\<close>

text \<open>The texts of a log, and the log of a search that the store has.\<close>

definition log_texts :: "('x, 'r) Redis \<Rightarrow> ('r \<Rightarrow> time \<Rightarrow> string \<Rightarrow> 'x redis_value option) \<Rightarrow> time \<Rightarrow> string \<Rightarrow> 'r \<Rightarrow> 'x list" where
  "log_texts S db t sid s = (case db s t (eventKey S sid) of Some (RList xs) \<Rightarrow> xs | _ \<Rightarrow> [])"

definition redis_view ::
    "parts \<Rightarrow> 'x texts \<Rightarrow> ('x, 'r) Redis \<Rightarrow> ('r \<Rightarrow> time \<Rightarrow> string \<Rightarrow> 'x redis_value option) \<Rightarrow> time \<Rightarrow> string \<Rightarrow> 'r \<Rightarrow> SearchEvent list option" where
  "redis_view P T S db t sid s =
     (if db s t (resultKey S sid) = None then None else Some (map (\<lambda>x. the (Unmarshal_event P T x)) (log_texts S db t sid s)))"

definition numbered_texts :: "parts \<Rightarrow> 'x texts \<Rightarrow> 'x list \<Rightarrow> bool" where
  "numbered_texts P T xs \<longleftrightarrow> (\<forall>i < length xs. \<exists>e. Unmarshal_event P T (xs ! i) = Some e \<and> ev_EventID e = int i + 1)"

text \<open>The counter is the length of the list, both live equally long, and every text is an event with its number.\<close>

definition log_ok :: "parts \<Rightarrow> 'x texts \<Rightarrow> nat \<Rightarrow> 'x redis_value option \<Rightarrow> 'x redis_value option \<Rightarrow> bool" where
  "log_ok P T bound events seq \<longleftrightarrow> events = None \<and> seq = None
     \<or> (\<exists>xs. events = Some (RList xs) \<and> seq = Some (RCount (int (length xs))) \<and> length xs \<le> bound \<and> numbered_texts P T xs)"

definition redis_wf ::
    "parts \<Rightarrow> 'x texts \<Rightarrow> ('x, 'r) Redis \<Rightarrow> ('r \<Rightarrow> time \<Rightarrow> string \<Rightarrow> 'x redis_value option) \<Rightarrow> nat \<Rightarrow> 'r \<Rightarrow> bool" where
  "redis_wf P T S db bound s \<longleftrightarrow> (\<forall>t sid. (db s t (resultKey S sid) = None \<or> (\<exists>x. db s t (resultKey S sid) = Some (RText x)))
     \<and> log_ok P T bound (db s t (eventKey S sid)) (db s t (seqKey S sid)))"

definition quiet_network :: "time \<Rightarrow> 'r network" where
  "quiet_network now = \<lparr> nw_now = (\<lambda>_. now), nw_fault = (\<lambda>_. NoFault), nw_other = (\<lambda>_ s. s) \<rparr>"

lemma send_quiet [simp]: "redis_send (quiet_network now) i f s = (Inr (fst (f now s)), snd (f now s))"
  by (simp add: redis_send_def quiet_network_def split: prod.split)

lemma numbered_append:
  assumes "numbered_texts P T xs" "Unmarshal_event P T x = Some e" "ev_EventID e = int (length xs) + 1"
  shows "numbered_texts P T (xs @ [x])"
  using assms by (auto simp: numbered_texts_def nth_append less_Suc_eq)

lemma log_ok_mono: "log_ok P T a events seq \<Longrightarrow> a \<le> b \<Longrightarrow> log_ok P T b events seq"
  by (auto simp: log_ok_def)

text \<open>What a script leaves that sets the three keys of a search to one deadline.\<close>

definition log_set ::
    "('x, 'r) Redis \<Rightarrow> ('r \<Rightarrow> time \<Rightarrow> string \<Rightarrow> 'x redis_value option) \<Rightarrow> (time \<Rightarrow> bool) \<Rightarrow> string \<Rightarrow> 'x \<Rightarrow> 'x list \<Rightarrow> 'r \<Rightarrow> 'r \<Rightarrow> bool" where
  "log_set S db gone sid result events s s' \<longleftrightarrow> (\<forall>t. db s' t (resultKey S sid) = (if gone t then None else Some (RText result))
     \<and> db s' t (eventKey S sid) = (if gone t then None else Some (RList events))
     \<and> db s' t (seqKey S sid) = (if gone t then None else Some (RCount (int (length events))))
     \<and> (\<forall>k. k \<notin> {resultKey S sid, eventKey S sid, seqKey S sid, activeKey S} \<longrightarrow> db s' t k = db s t k))"

text \<open>Only the keys of one search change.\<close>

lemma redis_wf_change:
  assumes "redis_wf P T S db bound s" "bound \<le> bound'"
    "\<And>t sid'. sid' \<noteq> sid \<Longrightarrow> db s' t (resultKey S sid') = db s t (resultKey S sid') \<and> db s' t (eventKey S sid') = db s t (eventKey S sid')
      \<and> db s' t (seqKey S sid') = db s t (seqKey S sid')"
    "\<And>t. db s' t (resultKey S sid) = None \<or> (\<exists>x. db s' t (resultKey S sid) = Some (RText x))"
    "\<And>t. log_ok P T bound' (db s' t (eventKey S sid)) (db s' t (seqKey S sid))"
  shows "redis_wf P T S db bound' s'"
  unfolding redis_wf_def
proof (intro allI conjI)
  fix t sid'
  show "db s' t (resultKey S sid') = None \<or> (\<exists>x. db s' t (resultKey S sid') = Some (RText x))"
    using assms(1,3,4) by (cases "sid' = sid") (auto simp: redis_wf_def)
  show "log_ok P T bound' (db s' t (eventKey S sid')) (db s' t (seqKey S sid'))"
    using assms(1,3,5) log_ok_mono [of P T bound "db s t (eventKey S sid')" "db s t (seqKey S sid')", OF _ assms(2)]
    by (cases "sid' = sid") (simp_all add: redis_wf_def)
qed

section \<open>The contract of the log\<close>

locale redis_store = redis_server R db expired + cjson T num
  for R :: "('x, 'r) redis" and db :: "'r \<Rightarrow> time \<Rightarrow> string \<Rightarrow> 'x redis_value option" and expired and T :: "'x texts" and num +
  fixes P :: parts and S :: "('x, 'r) Redis"
  assumes client: "rs_client S = R"
begin

lemma wf_result: "redis_wf P T S db bound s \<Longrightarrow> db s t (resultKey S sid) = None \<or> (\<exists>x. db s t (resultKey S sid) = Some (RText x))"
  by (simp add: redis_wf_def)

lemma wf_log: "redis_wf P T S db bound s \<Longrightarrow> log_ok P T bound (db s t (eventKey S sid)) (db s t (seqKey S sid))"
  by (simp add: redis_wf_def)

lemma ms_positive: "0 < ms (ttlMilliseconds ttl)"
  by (simp add: ms_def ttlMilliseconds_def Let_def)

text \<open>A log grows by the event that a script pushes: \<open>INCR\<close>, then \<open>RPUSH\<close>.\<close>

lemma push_db:
  assumes wf: "redis_wf P T S db bound s" and small: "length (log_texts S db now sid s) < 10 ^ 14 - 1"
    and incr: "rd_INCR R now (seqKey S sid) s = (sequence, s1)" and pushed: "push T R (eventKey S sid) (jt_print T (JObject (json_event P e))) sequence now s1 = Some s2"
  shows "sequence = int (length (log_texts S db now sid s)) + 1"
    "db s2 now (eventKey S sid) = Some (RList (log_texts S db now sid s @ [stored_event P T e sequence]))" "db s2 now (seqKey S sid) = Some (RCount sequence)"
    "k \<noteq> eventKey S sid \<Longrightarrow> k \<noteq> seqKey S sid \<Longrightarrow> db s2 t k = db s t k"
proof -
  have s2: "s2 = rd_RPUSH R now (eventKey S sid) (stored_event P T e sequence) s1" using pushed by (simp add: push_def lua_decode stored_event_def)
  have parts: "sequence = fst (rd_INCR R now (seqKey S sid) s)" "s1 = snd (rd_INCR R now (seqKey S sid) s)" by (simp_all add: incr)
  show "db s2 t k = db s t k" if "k \<noteq> eventKey S sid" "k \<noteq> seqKey S sid"
    using that by (simp add: s2 parts RPUSH_other INCR_other)
  consider "db s now (eventKey S sid) = None" "db s now (seqKey S sid) = None"
    | xs where "db s now (eventKey S sid) = Some (RList xs)" "db s now (seqKey S sid) = Some (RCount (int (length xs)))"
    using wf_log [OF wf, of now sid] by (auto simp: log_ok_def)
  then have "sequence = int (length (log_texts S db now sid s)) + 1
    \<and> db s2 now (eventKey S sid) = Some (RList (log_texts S db now sid s @ [stored_event P T e sequence])) \<and> db s2 now (seqKey S sid) = Some (RCount sequence)"
  proof cases
    case 1
    then show ?thesis using INCR_new [OF 1(2), of now] by (simp add: log_texts_def s2 parts RPUSH_new INCR_other RPUSH_other)
  next
    case 2
    then have "int (length xs) < 2 ^ 63 - 1" using small by (simp add: log_texts_def)
    with 2 show ?thesis using INCR [OF 2(2), of now] RPUSH [of _ now "eventKey S sid" xs] by (simp add: log_texts_def s2 parts INCR_other RPUSH_other)
  qed
  then show "sequence = int (length (log_texts S db now sid s)) + 1"
    "db s2 now (eventKey S sid) = Some (RList (log_texts S db now sid s @ [stored_event P T e sequence]))" "db s2 now (seqKey S sid) = Some (RCount sequence)" by blast+
qed

lemma push_runs: "\<exists>s2. push T R events (jt_print T (JObject fs)) sequence now s1 = Some s2"
  by (simp add: push_def lua_decode)

text \<open>The state after a script that pushed an event and set the three keys to one deadline.\<close>

lemma grown:
  assumes wf: "redis_wf P T S db bound s" and small: "length (log_texts S db now sid s) < 10 ^ 14 - 1" and e: "survives P T e"
    and n: "n = int (length (log_texts S db now sid s)) + 1"
    and keys: "log_set S db (expired deadline) sid x (log_texts S db now sid s @ [stored_event P T e n]) s s'"
  shows "redis_wf P T S db (Suc bound) s'"
    and "\<not> expired deadline now \<Longrightarrow> redis_view P T S db now sid s' =
      Some (map (\<lambda>x. the (Unmarshal_event P T x)) (log_texts S db now sid s) @ [e\<lparr>ev_EventID := n\<rparr>])"
proof -
  have read: "Unmarshal_event P T (stored_event P T e n) = Some (e\<lparr>ev_EventID := n\<rparr>)" using e n small by (simp add: survives_def)
  have old: "numbered_texts P T (log_texts S db now sid s)" "length (log_texts S db now sid s) \<le> bound"
    using wf_log [OF wf, of now sid] by (auto simp: log_ok_def log_texts_def numbered_texts_def)
  then have "numbered_texts P T (log_texts S db now sid s @ [stored_event P T e n])" using read n by (intro numbered_append) auto
  then have "log_ok P T (Suc bound) (db s' t (eventKey S sid)) (db s' t (seqKey S sid))" for t
    using old(2) keys by (auto simp: log_ok_def log_set_def)
  then show "redis_wf P T S db (Suc bound) s'"
    by (intro redis_wf_change [OF wf, of _ sid]) (use keys in \<open>auto simp: log_set_def\<close>)
  show "redis_view P T S db now sid s' = Some (map (\<lambda>x. the (Unmarshal_event P T x)) (log_texts S db now sid s) @ [e\<lparr>ev_EventID := n\<rparr>])"
    if "\<not> expired deadline now" using that keys by (simp add: redis_view_def log_texts_def [of S db now sid s'] log_set_def read)
qed

lemma append_runs:
  assumes wf: "redis_wf P T S db bound s" and small: "length (log_texts S db now sid s) < 10 ^ 14 - 1" and e: "survives P T e"
    and there: "db s now (resultKey S sid) \<noteq> None"
  obtains s' where "appendEventScript T R (resultKey S sid) (eventKey S sid) (seqKey S sid) (jt_print T (JObject (json_event P e))) ttl now s =
      (Some (int (length (log_texts S db now sid s)) + 1), s')"
    "0 < ms ttl \<Longrightarrow> redis_view P T S db now sid s' =
      Some (map (\<lambda>x. the (Unmarshal_event P T x)) (log_texts S db now sid s) @ [e\<lparr>ev_EventID := int (length (log_texts S db now sid s)) + 1\<rparr>])"
    "redis_wf P T S db (Suc bound) s'"
proof -
  let ?xs = "log_texts S db now sid s"
  obtain sequence s1 where incr: "rd_INCR R now (seqKey S sid) s = (sequence, s1)" by fastforce
  obtain s2 where pushed: "push T R (eventKey S sid) (jt_print T (JObject (json_event P e))) sequence now s1 = Some s2" using push_runs by blast
  note effect = push_db [OF wf small incr pushed]
  obtain x where x: "db s now (resultKey S sid) = Some (RText x)" using wf_result [OF wf, of now sid] there by blast
  define s' where "s' = rd_PEXPIRE R now (seqKey S sid) (ms ttl) (rd_PEXPIRE R now (eventKey S sid) (ms ttl) (rd_PEXPIRE R now (resultKey S sid) (ms ttl) s2))"
  have run: "appendEventScript T R (resultKey S sid) (eventKey S sid) (seqKey S sid) (jt_print T (JObject (json_event P e))) ttl now s = (Some sequence, s')"
    using there by (simp add: appendEventScript_def EXISTS incr pushed s'_def)
  have state: "log_set S db (expired (now + ms ttl)) sid x (?xs @ [stored_event P T e sequence]) s s'"
    using effect by (auto simp: log_set_def s'_def PEXPIRE x)
  note g = grown [OF wf small e effect(1) state]
  show ?thesis
  proof (rule that [of s'])
    show "0 < ms ttl \<Longrightarrow> redis_view P T S db now sid s' =
      Some (map (\<lambda>x. the (Unmarshal_event P T x)) ?xs @ [e\<lparr>ev_EventID := int (length ?xs) + 1\<rparr>])"
      using g(2) live_now [of "ms ttl" now] by (simp add: effect(1))
  qed (simp_all add: run effect(1), rule g(1))
qed

text \<open>\<open>finalizeScript\<close> on a search that is still open.\<close>

definition open_text :: "'x \<Rightarrow> bool" where
  "open_text x \<longleftrightarrow> (case jt_lua_decode T x of None \<Rightarrow> False | Some current \<Rightarrow> lua_field ''status'' current \<in> {Some (JString ''ACCEPTED''), Some (JString ''SEARCHING'')})"

lemma finalize_open:
  assumes wf: "redis_wf P T S db bound s" and small: "length (log_texts S db now sid s) < 10 ^ 14 - 1"
    and current: "db s now (resultKey S sid) = Some (RText x)" "open_text x"
  shows "\<exists>s'. finalizeScript T R (resultKey S sid) (eventKey S sid) (seqKey S sid) (activeKey S) payload (jt_print T (JObject (json_event P e))) ttl sid now s =
      (Some (int (length (log_texts S db now sid s)) + 1), s')
    \<and> log_set S db (expired (now + ms ttl)) sid payload (log_texts S db now sid s @ [stored_event P T e (int (length (log_texts S db now sid s)) + 1)]) s s'"
proof -
  obtain sequence s1 where incr: "rd_INCR R now (seqKey S sid) s = (sequence, s1)" by fastforce
  obtain s2 where pushed: "push T R (eventKey S sid) (jt_print T (JObject (json_event P e))) sequence now s1 = Some s2" using push_runs by blast
  note effect = push_db [OF wf small incr pushed]
  define s' where "s' = rd_ZREM R now (activeKey S) [sid] (rd_PEXPIRE R now (seqKey S sid) (ms ttl) (rd_PEXPIRE R now (eventKey S sid) (ms ttl)
    (rd_SET R now (resultKey S sid) payload (ms ttl) s2)))"
  have "finalizeScript T R (resultKey S sid) (eventKey S sid) (seqKey S sid) (activeKey S) payload (jt_print T (JObject (json_event P e))) ttl sid now s = (Some sequence, s')"
    using current(2) by (auto simp: finalizeScript_def GET_text [OF current(1)] open_text_def incr pushed s'_def split: option.splits)
  moreover have "log_set S db (expired (now + ms ttl)) sid payload (log_texts S db now sid s @ [stored_event P T e sequence]) s s'"
    using effect by (auto simp: log_set_def s'_def ZREM_other PEXPIRE SET)
  ultimately show ?thesis using effect(1) by auto
qed

subsection \<open>Operations keep the invariant\<close>

lemma wf_ZREM: "redis_wf P T S db bound s \<Longrightarrow> redis_wf P T S db bound (rd_ZREM R now (activeKey S) members s)"
  by (simp add: redis_wf_def ZREM_other)

lemma wf_Suc: "redis_wf P T S db bound s \<Longrightarrow> redis_wf P T S db (Suc bound) s"
  unfolding redis_wf_def by (meson le_SucI log_ok_mono order_refl)

lemma wf_result_only:
  assumes "redis_wf P T S db bound s" "\<And>t k. k \<notin> {resultKey S sid, activeKey S} \<Longrightarrow> db s' t k = db s t k"
    "\<And>t. db s' t (resultKey S sid) = None \<or> (\<exists>x. db s' t (resultKey S sid) = Some (RText x))"
  shows "redis_wf P T S db bound s'"
  using assms(2,3) wf_log [OF assms(1)] by (intro redis_wf_change [OF assms(1), of _ sid]) auto

lemma wf_create: "redis_wf P T S db bound s \<Longrightarrow> redis_wf P T S db bound (snd (createSearchScript R (resultKey S sid) (activeKey S) payload ttl score member now s))"
  by (rule wf_result_only [of bound s sid]) (auto simp: createSearchScript_def ZADD_other SET dest: wf_result)

lemma wf_update: "redis_wf P T S db bound s \<Longrightarrow> redis_wf P T S db bound (snd (rd_SETXX R now (resultKey S sid) payload ttl s))"
  by (rule wf_result_only [of bound s sid]) (auto simp: SETXX_db dest: wf_result)

lemma wf_delete: "redis_wf P T S db bound s \<Longrightarrow> redis_wf P T S db bound (snd (deleteSearchScript R (resultKey S sid) (eventKey S sid) (seqKey S sid) (activeKey S) member now s))"
  by (rule redis_wf_change [of _ _ _ _ bound s bound sid]) (auto simp: deleteSearchScript_def ZREM_other DEL log_ok_def)

lemma log_bound: "redis_wf P T S db bound s \<Longrightarrow> bound < 10 ^ 14 - 1 \<Longrightarrow> length (log_texts S db now sid s) < 10 ^ 14 - 1"
  using wf_log [of bound s now sid] by (auto simp: log_ok_def log_texts_def)

lemma wf_append:
  assumes "redis_wf P T S db bound s" "bound < 10 ^ 14 - 1" "survives P T e"
  shows "redis_wf P T S db (Suc bound) (snd (appendEventScript T R (resultKey S sid) (eventKey S sid) (seqKey S sid) (jt_print T (JObject (json_event P e))) ttl now s))"
proof (cases "db s now (resultKey S sid) = None")
  case True
  then show ?thesis using wf_Suc [OF assms(1)] by (simp add: appendEventScript_def EXISTS)
next
  case False
  show ?thesis by (rule append_runs [OF assms(1) log_bound [OF assms(1,2)] assms(3) False, of ttl]) simp
qed

lemma wf_finalize:
  assumes "redis_wf P T S db bound s" "bound < 10 ^ 14 - 1" "survives P T e"
  shows "redis_wf P T S db (Suc bound) (snd (finalizeScript T R (resultKey S sid) (eventKey S sid) (seqKey S sid) (activeKey S) payload (jt_print T (JObject (json_event P e))) ttl sid now s))"
proof (cases "\<exists>x. db s now (resultKey S sid) = Some (RText x) \<and> open_text x")
  case True
  then obtain x where x: "db s now (resultKey S sid) = Some (RText x)" "open_text x" by blast
  show ?thesis using finalize_open [OF assms(1) log_bound [OF assms(1,2)] x, of payload e ttl]
      grown(1) [OF assms(1) log_bound [OF assms(1,2)] assms(3) refl] by fastforce
next
  case False
  note kept = wf_Suc [OF assms(1)] wf_Suc [OF wf_ZREM [OF assms(1)]]
  show ?thesis
  proof (cases "db s now (resultKey S sid)")
    case None
    then show ?thesis using kept by (simp add: finalizeScript_def GET_none)
  next
    case (Some v)
    then obtain x where x: "db s now (resultKey S sid) = Some (RText x)" using wf_result [OF assms(1), of now sid] by auto
    then have "\<not> open_text x" using False by blast
    then show ?thesis using kept by (auto simp: finalizeScript_def GET_text [OF x] open_text_def split: option.split)
  qed
qed

lemma events_scan_reads:
  assumes "\<And>x. x \<in> set xs \<Longrightarrow> \<exists>e. Unmarshal_event P T x = Some e \<and> ev_EventID e > after"
  shows "events_scan P T after xs result = Inr (result @ map (\<lambda>x. the (Unmarshal_event P T x)) xs)"
  using assms
proof (induction xs arbitrary: result)
  case (Cons x xs)
  then obtain e where "Unmarshal_event P T x = Some e" "ev_EventID e > after" by force
  with Cons show ?case by simp
qed simp

lemma events_after_reads:
  assumes wf: "redis_wf P T S db bound s" and there: "db s now (resultKey S sid) \<noteq> None" and small: "length (log_texts S db now sid s) < 10 ^ 14 - 1"
    and cursor: "0 \<le> cursor"
  shows "fst (Redis_EventsAfter P T S (quiet_network now) sid cursor s) =
    Inr (take 128 (drop (nat cursor) (map (\<lambda>x. the (Unmarshal_event P T x)) (log_texts S db now sid s))))"
proof -
  let ?xs = "log_texts S db now sid s"
  define end_index where "end_index = (let e = sub64 (add64 cursor maximumEventReplayBatch) 1 in if e < cursor then cursor else e)"
  have range: "rd_LRANGE R now (eventKey S sid) cursor end_index s = take (nat (end_index - cursor + 1)) (drop (nat cursor) ?xs)" "cursor \<le> end_index"
  proof -
    show le: "cursor \<le> end_index" by (simp add: end_index_def Let_def)
    show "rd_LRANGE R now (eventKey S sid) cursor end_index s = take (nat (end_index - cursor + 1)) (drop (nat cursor) ?xs)"
      using wf_log [OF wf, of now sid] LRANGE [of s now "eventKey S sid" _ cursor end_index] LRANGE_none [of s now "eventKey S sid" cursor end_index] cursor le
      by (auto simp: log_ok_def log_texts_def)
  qed
  have batch: "take (nat (end_index - cursor + 1)) (drop (nat cursor) ?xs) = take 128 (drop (nat cursor) ?xs)"
  proof (cases "cursor < 10 ^ 14")
    case True
    then have "add64 cursor maximumEventReplayBatch = cursor + 128" using cursor by (simp add: maximumEventReplayBatch_def add64_id in64_def)
    then have "end_index = cursor + 127" using True cursor by (simp add: end_index_def sub64_id in64_def)
    then show ?thesis by simp
  next
    case False
    then have "drop (nat cursor) ?xs = []" using small by simp
    then show ?thesis by simp
  qed
  have numbered: "numbered_texts P T ?xs" using wf_log [OF wf, of now sid] by (auto simp: log_ok_def log_texts_def numbered_texts_def)
  have "\<exists>e. Unmarshal_event P T x = Some e \<and> ev_EventID e > cursor" if x: "x \<in> set (take 128 (drop (nat cursor) ?xs))" for x
  proof -
    obtain i where "i < length (take 128 (drop (nat cursor) ?xs))" "take 128 (drop (nat cursor) ?xs) ! i = x" using x unfolding in_set_conv_nth by (elim exE conjE)
    then have "nat cursor + i < length ?xs" "x = ?xs ! (nat cursor + i)" by auto
    moreover from this numbered obtain e where "Unmarshal_event P T (?xs ! (nat cursor + i)) = Some e" "ev_EventID e = int (nat cursor + i) + 1"
      unfolding numbered_texts_def by blast
    ultimately show ?thesis using cursor by auto
  qed
  then have "events_scan P T cursor (take 128 (drop (nat cursor) ?xs)) [] = Inr (map (\<lambda>x. the (Unmarshal_event P T x)) (take 128 (drop (nat cursor) ?xs)))"
    using events_scan_reads [of "take 128 (drop (nat cursor) ?xs)" cursor "[]"] by simp
  then show ?thesis using there cursor
    by (simp add: Redis_EventsAfter_def client EXISTS end_index_def [unfolded Let_def, symmetric] range(1) batch take_map drop_map)
qed

end

sublocale redis_store \<subseteq> log: event_log "\<lambda>s. \<exists>bound. redis_wf P T S db bound s" "redis_view P T S db" "survives P T" "\<lambda>now. now" "\<lambda>now. now"
  "StoreError ErrNotFound" "10 ^ 14 - 1" "\<lambda>now. Redis_AppendEvent P T S (quiet_network now)" "\<lambda>now sid cursor s. fst (Redis_EventsAfter P T S (quiet_network now) sid cursor s)"
proof
  fix s now e es and ttl :: duration
  assume a: "\<exists>bound. redis_wf P T S db bound s" "redis_view P T S db now (ev_SearchID e) s = Some es" "length es < 10 ^ 14 - 1" "survives P T e"
  then obtain bound where wf: "redis_wf P T S db bound s" by blast
  have es: "db s now (resultKey S (ev_SearchID e)) \<noteq> None" "es = map (\<lambda>x. the (Unmarshal_event P T x)) (log_texts S db now (ev_SearchID e) s)"
    using a(2) by (auto simp: redis_view_def split: if_splits)
  have small: "length (log_texts S db now (ev_SearchID e) s) < 10 ^ 14 - 1" using a(3) es(2) by simp
  obtain s' where s': "appendEventScript T R (resultKey S (ev_SearchID e)) (eventKey S (ev_SearchID e)) (seqKey S (ev_SearchID e)) (jt_print T (JObject (json_event P e)))
      (ttlMilliseconds ttl) now s = (Some (int (length (log_texts S db now (ev_SearchID e) s)) + 1), s')"
    "redis_view P T S db now (ev_SearchID e) s' = Some (es @ [e\<lparr>ev_EventID := int (length es) + 1\<rparr>])" "redis_wf P T S db (Suc bound) s'"
    using append_runs [OF wf small a(4) es(1), of "ttlMilliseconds ttl"] ms_positive [of ttl] es(2) by (metis length_map)
  have "Marshal_event P T e = Some (jt_print T (JObject (json_event P e)))" using a(4) by (simp add: Marshal_event_def survives_def)
  then have "Redis_AppendEvent P T S (quiet_network now) e ttl s = (Inr (e\<lparr>ev_EventID := int (length es) + 1\<rparr>), s')"
    using s'(1) es(2) by (simp add: Redis_AppendEvent_def run_script_def client)
  then show "\<exists>s'. Redis_AppendEvent P T S (quiet_network now) e ttl s = (Inr (e\<lparr>ev_EventID := int (length es) + 1\<rparr>), s') \<and> (\<exists>bound. redis_wf P T S db bound s')
      \<and> redis_view P T S db now (ev_SearchID e) s' = Some (es @ [e\<lparr>ev_EventID := int (length es) + 1\<rparr>])" using s'(2,3) by blast
next
  fix s now sid es and cursor :: int64
  assume a: "\<exists>bound. redis_wf P T S db bound s" "redis_view P T S db now sid s = Some es" "length es < 10 ^ 14 - 1" "0 \<le> cursor"
  then obtain bound where wf: "redis_wf P T S db bound s" by blast
  show "fst (Redis_EventsAfter P T S (quiet_network now) sid cursor s) = Inr (take 128 (drop (nat cursor) es))"
    using a(2-4) events_after_reads [OF wf, of now sid cursor] by (auto simp: redis_view_def split: if_splits)
next
  fix s now sid es i
  assume a: "\<exists>bound. redis_wf P T S db bound s" "redis_view P T S db now sid s = Some es" "i < length es"
  then obtain bound where wf: "redis_wf P T S db bound s" by blast
  have "numbered_texts P T (log_texts S db now sid s)" using wf_log [OF wf, of now sid] by (auto simp: log_ok_def log_texts_def numbered_texts_def)
  then show "ev_EventID (es ! i) = int i + 1" using a(2,3) by (auto simp: redis_view_def numbered_texts_def split: if_splits)
next
  show "redis_view P T S db now (ev_SearchID e) s = None \<Longrightarrow> survives P T e \<Longrightarrow> Redis_AppendEvent P T S (quiet_network now) e ttl s = (Inl (StoreError ErrNotFound), s)"
    for now e s ttl
    by (simp add: redis_view_def Redis_AppendEvent_def Marshal_event_def survives_def run_script_def client appendEventScript_def EXISTS split: if_splits)
qed

section \<open>Sequences of operations\<close>

text \<open>An operation changes the database in one command (\<open>ActiveBefore\<close> in its last one), so the operations of any number of clients are a sequence; each has
  its readings of the server's clock and the fate of its commands.\<close>

datatype redis_op =
    RCreate RouteSearchResult duration
  | RUpdate RouteSearchResult duration
  | RDelete string
  | RAppend SearchEvent duration
  | RFinalize RouteSearchResult SearchEvent duration
  | RActive time int

fun redis_apply :: "parts \<Rightarrow> 'x texts \<Rightarrow> ('x, 'r) Redis \<Rightarrow> 'r \<Rightarrow> 'r network \<times> redis_op \<Rightarrow> 'r" where
  "redis_apply P T S s (N, RCreate r ttl) = snd (Redis_Create P T S N r ttl s)"
| "redis_apply P T S s (N, RUpdate r ttl) = snd (Redis_Update P T S N r ttl s)"
| "redis_apply P T S s (N, RDelete sid) = snd (Redis_Delete S N sid s)"
| "redis_apply P T S s (N, RAppend e ttl) = snd (Redis_AppendEvent P T S N e ttl s)"
| "redis_apply P T S s (N, RFinalize r e ttl) = snd (Redis_Finalize P T S N r e ttl s)"
| "redis_apply P T S s (N, RActive before limit) = snd (Redis_ActiveBefore P T S N before limit s)"

text \<open>Nobody else in the middle of an operation, and events that survive.\<close>

fun redis_op_ok :: "parts \<Rightarrow> 'x texts \<Rightarrow> 'r network \<times> redis_op \<Rightarrow> bool" where
  "redis_op_ok P T (N, RAppend e ttl) = (nw_other N = (\<lambda>_ s. s) \<and> survives P T e)"
| "redis_op_ok P T (N, RFinalize r e ttl) = (nw_other N = (\<lambda>_ s. s) \<and> survives P T e)"
| "redis_op_ok P T (N, _) = (nw_other N = (\<lambda>_ s. s))"

lemma redis_send_state:
  assumes "nw_other N = (\<lambda>_ s. s)" "redis_send N i f s = (r, s')" "Q s" "Q (snd (f (nw_now N i) s))"
  shows "Q s'"
  using assms call_cases [of "nw_fault N i" "f (nw_now N i)" s] by (auto simp: redis_send_def split: prod.splits sum.splits)

lemma redis_send_asks: "nw_other N = (\<lambda>_ s. s) \<Longrightarrow> \<exists>r. redis_send N i (\<lambda>now s. (f now s, s)) s = (r, s)"
  by (cases "nw_fault N i") (auto simp: redis_send_def)

lemma run_script_state:
  assumes "nw_other N = (\<lambda>_ s. s)" "run_script N f s = (r, s')" "Q s" "Q (snd (f (nw_now N 0) s))"
  shows "Q s'"
proof -
  obtain r1 s1 where r1: "redis_send N 0 f s = (r1, s1)" by fastforce
  then have "s' = s1" using assms(2) by (auto simp: run_script_def split: sum.splits option.splits)
  then show ?thesis using redis_send_state [OF assms(1) r1, of Q] assms(3,4) by simp
qed

context redis_store
begin

lemma wf_apply:
  assumes wf: "redis_wf P T S db bound s" and small: "bound < 10 ^ 14 - 1" and ok: "redis_op_ok P T (N, op)"
  shows "redis_wf P T S db (Suc bound) (redis_apply P T S s (N, op))"
proof -
  have other: "nw_other N = (\<lambda>_ s. s)" using ok by (cases op) simp_all
  note up = wf_Suc [OF wf]
  have scripts: "run_script N f s = (r, s') \<Longrightarrow> redis_wf P T S db (Suc bound) (snd (f (nw_now N 0) s)) \<Longrightarrow> redis_wf P T S db (Suc bound) s'" for f r s'
    by (rule run_script_state [where Q = "redis_wf P T S db (Suc bound)", OF other _ up])
  have create: "run_script N (createSearchScript R (resultKey S sid) (activeKey S) payload ttl score member) s = (r, s') \<Longrightarrow> redis_wf P T S db (Suc bound) s'"
    for sid payload ttl score member r s' by (erule scripts) (rule wf_create [OF up])
  have delete: "run_script N (deleteSearchScript R (resultKey S sid) (eventKey S sid) (seqKey S sid) (activeKey S) member) s = (r, s') \<Longrightarrow> redis_wf P T S db (Suc bound) s'"
    for sid member r s' by (erule scripts) (rule wf_delete [OF up])
  have append: "run_script N (appendEventScript T R (resultKey S sid) (eventKey S sid) (seqKey S sid) (jt_print T (JObject (json_event P e))) ttl) s = (r, s') \<Longrightarrow>
    survives P T e \<Longrightarrow> redis_wf P T S db (Suc bound) s'" for sid e ttl r s' by (erule scripts) (rule wf_append [OF wf small])
  have finalize: "run_script N (finalizeScript T R (resultKey S sid) (eventKey S sid) (seqKey S sid) (activeKey S) payload (jt_print T (JObject (json_event P e))) ttl sid) s = (r, s') \<Longrightarrow>
    survives P T e \<Longrightarrow> redis_wf P T S db (Suc bound) s'" for sid payload e ttl r s' by (erule scripts) (rule wf_finalize [OF wf small])
  have update: "redis_send N 0 (\<lambda>now. rd_SETXX R now (resultKey S sid) payload ttl) s = (r, s') \<Longrightarrow> redis_wf P T S db (Suc bound) s'" for sid payload ttl r s'
    by (erule redis_send_state [where Q = "redis_wf P T S db (Suc bound)", OF other _ up]) (rule wf_update [OF up])
  show ?thesis
  proof (cases op)
    case (RCreate r ttl)
    show ?thesis using up create unfolding RCreate
      by (auto simp: Redis_Create_def client split: option.split prod.split sum.split)
  next
    case (RUpdate r ttl)
    show ?thesis using up update unfolding RUpdate
      by (auto simp: Redis_Update_def client split: option.split prod.split sum.split)
  next
    case (RDelete sid)
    show ?thesis using delete unfolding RDelete
      by (auto simp: Redis_Delete_def client split: prod.split sum.split)
  next
    case (RAppend e ttl)
    then have e: "survives P T e" "Marshal_event P T e = Some (jt_print T (JObject (json_event P e)))" using ok by (simp_all add: Marshal_event_def survives_def)
    show ?thesis using append [OF _ e(1)] unfolding RAppend
      by (auto simp: Redis_AppendEvent_def client e(2) split: prod.split sum.split)
  next
    case (RFinalize r e ttl)
    then have e: "survives P T e" "Marshal_event P T e = Some (jt_print T (JObject (json_event P e)))" using ok by (simp_all add: Marshal_event_def survives_def)
    show ?thesis using up finalize [OF _ e(1)] unfolding RFinalize
      by (auto simp: Redis_Finalize_def client e(2) split: option.split prod.split sum.split)
  next
    case (RActive before limit)
    have removed: "redis_wf P T S db (Suc bound) s'" if "redis_send N 2 (\<lambda>now s. ((), rd_ZREM R now (activeKey S) members s)) s = (r, s')" for members r s'
      by (rule redis_send_state [where Q = "redis_wf P T S db (Suc bound)", OF other that up]) (simp add: wf_ZREM [OF up])
    obtain r0 where r0: "redis_send N 0 (\<lambda>now s. (rd_ZRANGEBYSCORE R now (activeKey S) (before div 1000000) (if limit > 1000 then 1000 else limit) s, s)) s = (r0, s)"
      using redis_send_asks [OF other, of 0 "\<lambda>now. rd_ZRANGEBYSCORE R now (activeKey S) (before div 1000000) (if limit > 1000 then 1000 else limit)" s] by (elim exE)
    show ?thesis
    proof (cases "limit < 1 \<or> (\<exists>err. r0 = Inl err) \<or> r0 = Inr []")
      case True
      then show ?thesis using up unfolding RActive by (auto simp: Redis_ActiveBefore_def client r0)
    next
      case False
      then obtain ids where ids: "r0 = Inr ids" "ids \<noteq> []" "\<not> limit < 1" by (cases r0) auto
      obtain r1 where r1: "redis_send N 1 (\<lambda>now s. (rd_MGET R now (map (resultKey S) ids) s, s)) s = (r1, s)"
        using redis_send_asks [OF other, of 1 "\<lambda>now. rd_MGET R now (map (resultKey S) ids)" s] by (elim exE)
      show ?thesis using up ids removed unfolding RActive
        by (auto simp: Redis_ActiveBefore_def client r0 r1 simp del: One_nat_def split: sum.split prod.split)
    qed
  qed
qed

lemma wf_run:
  assumes "redis_wf P T S db bound s" "list_all (redis_op_ok P T) ops" "bound + length ops < 10 ^ 14 - 1"
  shows "redis_wf P T S db (bound + length ops) (foldl (redis_apply P T S) s ops)"
  using assms
proof (induction ops arbitrary: bound s)
  case (Cons op ops)
  obtain N o' where op: "op = (N, o')" by fastforce
  have "redis_wf P T S db (Suc bound) (redis_apply P T S s op)" using Cons.prems wf_apply [of bound s N o'] by (simp add: op)
  from Cons.IH [OF this] Cons.prems show ?case by simp
qed simp

lemma contract:
  assumes "redis_wf P T S db bound s" "bound < 10 ^ 14 - 1" "redis_view P T S db now sid s = Some es"
  shows "poll (length es) (\<lambda>cursor. fst (Redis_EventsAfter P T S (quiet_network now) sid cursor s)) 0 = es
    \<and> map ev_EventID es = map (\<lambda>i. int i + 1) [0..<length es]
    \<and> (\<forall>e ttl. ev_SearchID e = sid \<longrightarrow> survives P T e \<longrightarrow> 0 \<le> ttl \<longrightarrow>
        (\<exists>s'. Redis_AppendEvent P T S (quiet_network now) e ttl s = (Inr (e\<lparr>ev_EventID := int (length es) + 1\<rparr>), s')
          \<and> redis_view P T S db now sid s' = Some (es @ [e\<lparr>ev_EventID := int (length es) + 1\<rparr>])))"
proof (intro conjI allI impI)
  have known: "\<exists>bound. redis_wf P T S db bound s" using assms(1) by blast
  have small: "length es < 10 ^ 14 - 1" using log_bound [OF assms(1,2), of now sid] assms(3) by (auto simp: redis_view_def split: if_splits)
  show "poll (length es) (\<lambda>cursor. fst (Redis_EventsAfter P T S (quiet_network now) sid cursor s)) 0 = es"
    by (rule log.poll_complete [OF known assms(3) small]) simp
  show "map ev_EventID es = map (\<lambda>i. int i + 1) [0..<length es]"
    by (rule nth_equalityI) (simp_all add: log.numbered [OF known assms(3) small])
  show "\<exists>s'. Redis_AppendEvent P T S (quiet_network now) e ttl s = (Inr (e\<lparr>ev_EventID := int (length es) + 1\<rparr>), s')
      \<and> redis_view P T S db now sid s' = Some (es @ [e\<lparr>ev_EventID := int (length es) + 1\<rparr>])"
    if "ev_SearchID e = sid" "survives P T e" "0 \<le> ttl" for e ttl
    using log.append_live [OF known, of now e es ttl] that assms(3) small by auto
qed

lemma wf_empty: "(\<And>t k. db s t k = None) \<Longrightarrow> redis_wf P T S db 0 s"
  by (simp add: redis_wf_def log_ok_def)

end

section \<open>A store on one map\<close>

interpretation small_store: redis_store small_redis small_db "\<lambda>deadline t. deadline \<le> t" document_texts "\<lambda>s. s" P "NewRedis small_redis name"
  for P name
  by unfold_locales (simp add: NewRedis_def)

section \<open>Properties\<close>

text \<open>C12: The search store in Redis keeps the contract of the in-memory store, whatever the server and the network do within their documentation. Start with an
  empty database and let any number of clients run operations, whose commands may fail or lose their answer, with events that survive the
  passage through the scripts (all events of progress do). Then a reader who polls with the number of the last event it saw receives every event of a live
  search exactly once and in order, the events are numbered 1, 2, 3, \<dots> without gaps, and the next event gets the next number.\<close>

theorem redis_replay_complete:
  assumes server: "redis_server R db expired" and texts: "cjson T num" and S: "S = NewRedis R name"
    and start: "\<And>t k. db s0 t k = None"
    and ops: "list_all (redis_op_ok P T) ops" "length ops < 10 ^ 14 - 1" "s = foldl (redis_apply P T S) s0 ops"
    and live: "redis_view P T S db now sid s = Some es"
  shows "poll (length es) (\<lambda>cursor. fst (Redis_EventsAfter P T S (quiet_network now) sid cursor s)) 0 = es
    \<and> map ev_EventID es = map (\<lambda>i. int i + 1) [0..<length es]
    \<and> (\<forall>e ttl. ev_SearchID e = sid \<longrightarrow> survives P T e \<longrightarrow> 0 \<le> ttl \<longrightarrow>
        (\<exists>s'. Redis_AppendEvent P T S (quiet_network now) e ttl s = (Inr (e\<lparr>ev_EventID := int (length es) + 1\<rparr>), s')
          \<and> redis_view P T S db now sid s' = Some (es @ [e\<lparr>ev_EventID := int (length es) + 1\<rparr>])))
    \<and> (\<forall>e. plain_event P e \<longrightarrow> survives P T e)"
proof -
  have store: "redis_store R db expired T num S"
    by (intro redis_store.intro server texts redis_store_axioms.intro) (simp add: S NewRedis_def)
  have wf: "redis_wf P T S db (length ops) s"
    using redis_store.wf_run [OF store redis_store.wf_empty [OF store start] ops(1)] ops(2,3) by simp
  then show ?thesis using redis_store.contract [OF store wf ops(2) live] cjson.plain_survives [OF texts] by blast
qed

text \<open>A search and its first event in a store on one map.\<close>

definition ex_parts :: parts where
  "ex_parts = \<lparr> jp_candidate = (\<lambda>_. JNull), jp_read_candidate = (\<lambda>_. None), jp_constraints = (\<lambda>_. JNull), jp_read_constraints = (\<lambda>_. None),
     jp_usage = (\<lambda>_. JNull), jp_read_usage = (\<lambda>_. None), jp_metadata = (\<lambda>_. JNull), jp_read_metadata = (\<lambda>_. None),
     jp_time = (\<lambda>_. []), jp_read_time = (\<lambda>_. Some 0) \<rparr>"

definition ex_store :: "(json, json small_state) Redis" where
  "ex_store = NewRedis small_redis []"

definition ex_created :: "json small_state" where
  "ex_created = redis_apply ex_parts document_texts ex_store Map.empty (quiet_network 0, RCreate (ex_result SearchSearching) 1000000000)"

lemma ex_created_eq: "ex_created = [resultKey ex_store ''s'' \<mapsto> (RText (json_result ex_parts (ex_result SearchSearching)), Some 1000000000),
    activeKey ex_store \<mapsto> (RScores [(''s'', 0)], None)]"
  by (simp add: ex_created_def Redis_Create_def Marshal_result_def ex_result_def zero_result_def result_json_ok_def fin64_def is_nan_def is_inf_def zero_f64_def
      run_script_def createSearchScript_def ex_store_def NewRedis_def small_redis_def small_db_def small_SET_def small_put_def small_scores_def document_texts_def
      ttlMilliseconds_def quot64_def ms_def wrap64_def resultKey_def activeKey_def Let_def)

lemma ex_created_view: "redis_view ex_parts document_texts ex_store small_db 1 ''s'' ex_created = Some []"
  by (simp add: ex_created_eq redis_view_def log_texts_def small_db_def)

lemma ex_event_survives: "survives ex_parts document_texts ex_event"
  by (rule documents.plain_survives) (simp add: plain_event_def ex_event_def zero_event_def ex_parts_def read_type_def)

theorem redis_replay_complete_witness:
  "\<exists>es. redis_view ex_parts document_texts ex_store small_db 1 ''s''
       (foldl (redis_apply ex_parts document_texts ex_store) Map.empty
         [(quiet_network 0, RCreate (ex_result SearchSearching) 1000000000), (quiet_network 1, RAppend ex_event 1000000000)]) = Some es
     \<and> length es = 1
     \<and> poll 1 (\<lambda>cursor. fst (Redis_EventsAfter ex_parts document_texts ex_store (quiet_network 1) ''s'' cursor
       (foldl (redis_apply ex_parts document_texts ex_store) Map.empty
         [(quiet_network 0, RCreate (ex_result SearchSearching) 1000000000), (quiet_network 1, RAppend ex_event 1000000000)]))) 0 = es"
proof -
  note rule = redis_replay_complete [OF small.redis_server_axioms documents.cjson_axioms ex_store_def, where ?s0.0 = Map.empty and now = 1 and sid = "''s''" and P = ex_parts]
  have empty: "small_db Map.empty t k = None" for t k by (simp add: small_db_def)
  have quiet: "nw_other (quiet_network t) = (\<lambda>_ s. s)" for t by (simp add: quiet_network_def)
  let ?create = "(quiet_network 0, RCreate (ex_result SearchSearching) 1000000000) :: json small_state network \<times> redis_op"
  let ?append = "(quiet_network 1, RAppend ex_event 1000000000) :: json small_state network \<times> redis_op"
  have ok: "list_all (redis_op_ok ex_parts document_texts) [?create]" "length [?create] < 10 ^ 14 - 1" by (simp_all add: quiet)
  have created: "ex_created = foldl (redis_apply ex_parts document_texts ex_store) Map.empty [?create]" by (simp add: ex_created_def)
  have all: "\<forall>e ttl. ev_SearchID e = ''s'' \<longrightarrow> survives ex_parts document_texts e \<longrightarrow> 0 \<le> ttl \<longrightarrow>
      (\<exists>s'. Redis_AppendEvent ex_parts document_texts ex_store (quiet_network 1) e ttl ex_created = (Inr (e\<lparr>ev_EventID := int (length ([] :: SearchEvent list)) + 1\<rparr>), s')
        \<and> redis_view ex_parts document_texts ex_store small_db 1 ''s'' s' = Some (([] :: SearchEvent list) @ [e\<lparr>ev_EventID := int (length ([] :: SearchEvent list)) + 1\<rparr>]))"
    using rule [OF empty ok created ex_created_view] by (elim conjE)
  obtain s' where s': "Redis_AppendEvent ex_parts document_texts ex_store (quiet_network 1) ex_event 1000000000 ex_created = (Inr (ex_event\<lparr>ev_EventID := 1\<rparr>), s')"
    "redis_view ex_parts document_texts ex_store small_db 1 ''s'' s' = Some [ex_event\<lparr>ev_EventID := 1\<rparr>]"
    using all [rule_format, of ex_event 1000000000] ex_event_survives by (auto simp: ex_event_def)
  have view: "redis_view ex_parts document_texts ex_store small_db 1 ''s''
      (foldl (redis_apply ex_parts document_texts ex_store) Map.empty [?create, ?append]) = Some [ex_event\<lparr>ev_EventID := 1\<rparr>]"
    using s' by (simp add: ex_created_def)
  then show ?thesis using rule [where ops = "[?create, ?append]", OF empty _ _ refl view] ex_event_survives
    by (intro exI [of _ "[ex_event\<lparr>ev_EventID := 1\<rparr>]"]) (simp add: quiet)
qed

end
