(* ===== verification/RedisEngine.thy ===== *)
theory RedisEngine
  imports RedisLog Engine_Properties
begin

text \<open>
  Searches of the engine whose store is in Redis: the event that opens a search carries the accepted result, whose lists are empty, and no reader of the
  log gets past it.
\<close>

section \<open>Events that are lost\<close>


text \<open>What \<open>launch\<close> appends.\<close>

lemma launch_appends:
  "\<exists>now now' stamp ttl. en_store (w_engine (snd (run_state (launch env sid request result) w))) = snd (Memory_AppendEvent now now'
     \<lparr> ev_EventID = 0, ev_SearchID = sid, ev_Type = EventSearchAccepted, ev_Timestamp = stamp, ev_Message = ''Search accepted'', ev_Candidate = None,
       ev_Result = copyResult (Some result), ev_Metadata = [] \<rparr> ttl (en_store (w_engine w)))"
proof -
  have "wp (launch env sid request result) (\<lambda>_ w'. \<exists>now now' stamp ttl. en_store (w_engine w') = snd (Memory_AppendEvent now now'
     \<lparr> ev_EventID = 0, ev_SearchID = sid, ev_Type = EventSearchAccepted, ev_Timestamp = stamp, ev_Message = ''Search accepted'', ev_Candidate = None,
       ev_Result = copyResult (Some result), ev_Metadata = [] \<rparr> ttl (en_store (w_engine w)))) w"
    by (auto simp: launch_def appendEvent_def clock_def reading_def the_engine_def on_store_def on_engine_def wp_rules split: prod.split)
      (metis snd_conv)?
  then show ?thesis by (simp add: wp_def split: prod.splits)
qed

section \<open>The first text of a log\<close>




section \<open>Every search\<close>





end
