(* ===== verification/RedisState.thy ===== *)
theory RedisState
  imports EdgeSearch RedisStore
begin

text \<open>
  The state of the edge service in Redis (\<open>redisState\<close> in \<open>services/edge-api/state.go\<close>), which the replicas of the service share. An operation sends its
  commands one after the other; any command may fail, and other replicas act between two of them. The server and its clock are those of the theory
  \<open>RedisServer\<close>; the readings of a replica's own clock and the random bytes of a token are arguments, as in \<open>EdgeState\<close>.
\<close>

section \<open>Records as documents\<close>

text \<open>What the server stores: JSON documents and plain strings, both as texts.\<close>

record 'x state_codec =
  cd_json :: "'x texts"
  cd_parts :: parts
  cd_raw :: "string \<Rightarrow> 'x"
  cd_text :: "'x \<Rightarrow> string"

definition json_record :: "parts \<Rightarrow> idempotencyRecord \<Rightarrow> json" where
  "json_record P r = JObject (
     [(''bodyHash'', JString (ir_BodyHash r))] @ omitted ''claimToken'' JString (nonempty (ir_ClaimToken r)) @ [(''pending'', JBool (ir_Pending r))]
     @ omitted ''searchId'' JString (nonempty (ir_SearchID r)) @ [(''expiresAt'', JString (jp_time P (ir_ExpiresAt r)))])"

fun read_bool :: "json \<Rightarrow> bool option" where
  "read_bool (JBool b) = Some b"
| "read_bool _ = None"

fun read_record :: "parts \<Rightarrow> json \<Rightarrow> idempotencyRecord option" where
  "read_record P (JObject fs) = do {
     bodyHash \<leftarrow> read_field fs ''bodyHash'' [] read_string;
     claimToken \<leftarrow> read_field fs ''claimToken'' [] read_string;
     pending \<leftarrow> read_field fs ''pending'' False read_bool;
     searchID \<leftarrow> read_field fs ''searchId'' [] read_string;
     expiresAt \<leftarrow> read_field fs ''expiresAt'' 0 (read_time P);
     Some \<lparr> ir_BodyHash = bodyHash, ir_ClaimToken = claimToken, ir_Pending = pending, ir_SearchID = searchID, ir_ExpiresAt = expiresAt \<rparr> }"
| "read_record P _ = None"

text \<open>An assignment to a field of a Lua table; \<open>nil\<close> removes the field.\<close>

definition lua_assign :: "string \<Rightarrow> json option \<Rightarrow> json \<Rightarrow> json" where
  "lua_assign name v j = (case j of
     JObject fs \<Rightarrow> JObject ((case v of None \<Rightarrow> [] | Some x \<Rightarrow> [(name, x)]) @ filter (\<lambda>(k, _). k \<noteq> name) fs)
   | _ \<Rightarrow> j)"

section \<open>The state\<close>

record ('x, 'r) redisState =
  rx_client :: "('x, 'r) redis"

definition newRedisState :: "('x, 'r) redis \<Rightarrow> ('x, 'r) redisState" where
  "newRedisState client = \<lparr> rx_client = client \<rparr>"

definition idempotencyRedisKeys :: "string \<Rightarrow> string \<times> string" where
  "idempotencyRedisKeys key =
     (let hashTag = ''{'' @ key @ ''}''
      in (''greenroute:idem:'' @ hashTag @ '':record'', ''greenroute:idem:'' @ hashTag @ '':fingerprint''))"

abbreviation record_key :: "string \<Rightarrow> string" where
  "record_key key \<equiv> fst (idempotencyRedisKeys key)"

abbreviation fingerprint_key :: "string \<Rightarrow> string" where
  "fingerprint_key key \<equiv> snd (idempotencyRedisKeys key)"

definition owner_key :: "string \<Rightarrow> string" where
  "owner_key searchID = ''greenroute:owner:'' @ searchID"

definition rate_key :: "string \<Rightarrow> string" where
  "rate_key key = ''greenroute:rate:'' @ key"

definition durationMilliseconds :: "duration \<Rightarrow> int64" where
  "durationMilliseconds value = (let milliseconds = quot64 value 1000000 in if milliseconds > 0 then milliseconds else 1)"

section \<open>Scripts\<close>

definition completeIdempotencyScript ::
    "'x state_codec \<Rightarrow> ('x, 'r) redis \<Rightarrow> string \<Rightarrow> string \<Rightarrow> string \<Rightarrow> string \<Rightarrow> string \<Rightarrow> string \<Rightarrow> int64 \<Rightarrow> time \<Rightarrow> 'r \<Rightarrow> int64 option \<times> 'r" where
  "completeIdempotencyScript C R recordKey fingerprintKey bodyHash claimToken searchID expiresAt ttl now s =
     (case rd_GET R now recordKey s of
        None \<Rightarrow> (Some (- 1), s)
      | Some payload \<Rightarrow> (case jt_lua_decode (cd_json C) payload of
          None \<Rightarrow> (None, s)
        | Some document \<Rightarrow>
            if lua_field ''bodyHash'' document \<noteq> Some (JString bodyHash) \<or> lua_field ''claimToken'' document \<noteq> Some (JString claimToken)
              \<or> lua_field ''pending'' document \<noteq> Some (JBool True) then (Some (- 2), s)
            else
              let document = lua_assign ''pending'' (Some (JBool False)) document;
                  document = lua_assign ''claimToken'' None document;
                  document = lua_assign ''searchId'' (Some (JString searchID)) document;
                  document = lua_assign ''expiresAt'' (Some (JString expiresAt)) document
              in (Some 1, rd_SET R now fingerprintKey (cd_raw C bodyHash) (ms ttl)
                    (rd_SET R now recordKey (jt_lua_encode (cd_json C) document) (ms ttl) s))))"

definition forgetIdempotencyScript :: "'x state_codec \<Rightarrow> ('x, 'r) redis \<Rightarrow> string \<Rightarrow> string \<Rightarrow> string \<Rightarrow> time \<Rightarrow> 'r \<Rightarrow> int64 option \<times> 'r" where
  "forgetIdempotencyScript C R recordKey fingerprintKey claimToken now s =
     (case rd_GET R now recordKey s of
        None \<Rightarrow> (Some (- 1), s)
      | Some payload \<Rightarrow> (case jt_lua_decode (cd_json C) payload of
          None \<Rightarrow> (None, s)
        | Some document \<Rightarrow>
            if lua_field ''claimToken'' document \<noteq> Some (JString claimToken) \<or> lua_field ''pending'' document \<noteq> Some (JBool True) then (Some (- 2), s)
            else (Some 1, rd_DEL R now [fingerprintKey] (rd_DEL R now [recordKey] s))))"

definition rateLimitScript :: "('x, 'r) redis \<Rightarrow> string \<Rightarrow> int64 \<Rightarrow> time \<Rightarrow> 'r \<Rightarrow> int64 option \<times> 'r" where
  "rateLimitScript R key window now s = (case rd_INCR R now key s of
     (current, s) \<Rightarrow> (Some current, if current = 1 then rd_PEXPIRE R now key (ms window) s else s))"

section \<open>Operations\<close>

text \<open>\<open>i\<close> is the number of commands that were sent before; the operations return the number after them.\<close>

definition state_script :: "'r network \<Rightarrow> nat \<Rightarrow> (time \<Rightarrow> 'r \<Rightarrow> int64 option \<times> 'r) \<Rightarrow> 'r \<Rightarrow> int64 option \<times> nat \<times> 'r" where
  "state_script N i f s = (case redis_send N i f s of
     (Inl _, s) \<Rightarrow> (None, Suc i, s)
   | (Inr answer, s) \<Rightarrow> (answer, Suc i, s))"

definition existingIdempotency :: "'x state_codec \<Rightarrow> 'x \<Rightarrow> string \<Rightarrow> begin_answer" where
  "existingIdempotency C payload bodyHash = (case Option.bind (jt_parse (cd_json C) payload) (read_record (cd_parts C)) of
     None \<Rightarrow> (None, [], Some StateUnavailable)
   | Some existing \<Rightarrow>
       if ir_BodyHash existing \<noteq> bodyHash then (None, [], Some errStateConflict)
       else if ir_Pending existing then (None, ir_ClaimToken existing, Some errStateInProgress)
       else (Some existing, [], None))"

text \<open>One pass through \<open>BeginIdempotency\<close> either answers or calls the function again.\<close>

datatype begin_round = BeginDone begin_answer | BeginAgain

definition begin_failed :: begin_round where
  "begin_failed = BeginDone (None, [], Some StateUnavailable)"

definition get :: "('x, 'r) redisState \<Rightarrow> 'r network \<Rightarrow> nat \<Rightarrow> string \<Rightarrow> 'r \<Rightarrow> (redis_error + 'x option) \<times> 'r" where
  "get S N i key s = redis_send N i (\<lambda>t s. (rd_GET (rx_client S) t key s, s)) s"

definition set_nx :: "('x, 'r) redisState \<Rightarrow> 'r network \<Rightarrow> nat \<Rightarrow> string \<Rightarrow> 'x \<Rightarrow> duration \<Rightarrow> 'r \<Rightarrow> (redis_error + bool) \<times> 'r" where
  "set_nx S N i key x ttl s = redis_send N i (\<lambda>t. rd_SETNX (rx_client S) t key x ttl) s"

text \<open>The part from the new token on.\<close>

definition begin_claim ::
    "'x state_codec \<Rightarrow> ('x, 'r) redisState \<Rightarrow> 'r network \<Rightarrow> 8 word list \<Rightarrow> time \<Rightarrow> string \<Rightarrow> string \<Rightarrow> duration \<Rightarrow> nat \<Rightarrow> 'r \<Rightarrow> begin_round \<times> nat \<times> 'r" where
  "begin_claim C S N rand now key bodyHash claimTTL i s =
     (let (recordKey, _) = idempotencyRedisKeys key;
          claimToken = New rand;
          record = \<lparr> ir_BodyHash = bodyHash, ir_ClaimToken = claimToken, ir_Pending = True, ir_SearchID = [], ir_ExpiresAt = now + claimTTL \<rparr>;
          payload = jt_print (cd_json C) (json_record (cd_parts C) record)
      in case set_nx S N i recordKey payload claimTTL s of
           (Inl _, s) \<Rightarrow> (begin_failed, Suc i, s)
         | (Inr True, s) \<Rightarrow> (BeginDone (None, claimToken, None), Suc i, s)
         | (Inr False, s) \<Rightarrow> (case get S N (Suc i) recordKey s of
               (Inl _, s) \<Rightarrow> (begin_failed, Suc (Suc i), s)
             | (Inr None, s) \<Rightarrow> (BeginAgain, Suc (Suc i), s)
             | (Inr (Some existingPayload), s) \<Rightarrow> (BeginDone (existingIdempotency C existingPayload bodyHash), Suc (Suc i), s)))"

text \<open>The part without a record: the fingerprint of an earlier body still counts.\<close>

definition begin_fingerprint ::
    "'x state_codec \<Rightarrow> ('x, 'r) redisState \<Rightarrow> 'r network \<Rightarrow> 8 word list \<Rightarrow> time \<Rightarrow> string \<Rightarrow> string \<Rightarrow> duration \<Rightarrow> duration \<Rightarrow> nat \<Rightarrow> 'r \<Rightarrow> begin_round \<times> nat \<times> 'r" where
  "begin_fingerprint C S N rand now key bodyHash recordTTL claimTTL i s =
     (let (_, fingerprintKey) = idempotencyRedisKeys key
      in case set_nx S N i fingerprintKey (cd_raw C bodyHash) recordTTL s of
           (Inl _, s) \<Rightarrow> (begin_failed, Suc i, s)
         | (Inr True, s) \<Rightarrow> begin_claim C S N rand now key bodyHash claimTTL (Suc i) s
         | (Inr False, s) \<Rightarrow> (case get S N (Suc i) fingerprintKey s of
               (Inl _, s) \<Rightarrow> (begin_failed, Suc (Suc i), s)
             | (Inr None, s) \<Rightarrow> (BeginAgain, Suc (Suc i), s)
             | (Inr (Some existingHash), s) \<Rightarrow>
                 if cd_text C existingHash \<noteq> bodyHash then (BeginDone (None, [], Some errStateConflict), Suc (Suc i), s)
                 else begin_claim C S N rand now key bodyHash claimTTL (Suc (Suc i)) s))"

definition begin_pass ::
    "'x state_codec \<Rightarrow> ('x, 'r) redisState \<Rightarrow> 'r network \<Rightarrow> 8 word list \<Rightarrow> time \<Rightarrow> string \<Rightarrow> string \<Rightarrow> duration \<Rightarrow> duration \<Rightarrow> nat \<Rightarrow> 'r \<Rightarrow> begin_round \<times> nat \<times> 'r" where
  "begin_pass C S N rand now key bodyHash recordTTL claimTTL i s =
     (let (recordKey, fingerprintKey) = idempotencyRedisKeys key
      in case get S N i recordKey s of
           (Inl _, s) \<Rightarrow> (begin_failed, Suc i, s)
         | (Inr (Some existingPayload), s) \<Rightarrow>
             (let answer = existingIdempotency C existingPayload bodyHash; stateErr = snd (snd answer)
              in if stateErr = None \<or> stateErr = Some errStateInProgress
                 then (case set_nx S N (Suc i) fingerprintKey (cd_raw C bodyHash) recordTTL s of
                         (Inl _, s) \<Rightarrow> (begin_failed, Suc (Suc i), s)
                       | (Inr _, s) \<Rightarrow> (BeginDone answer, Suc (Suc i), s))
                 else (BeginDone answer, Suc i, s))
         | (Inr None, s) \<Rightarrow> begin_fingerprint C S N rand now key bodyHash recordTTL claimTTL (Suc i) s)"

text \<open>The function calls itself when a key went away between two of its commands; \<^term>\<open>None\<close> is a call that never ends. The token of a pass that is
  repeated was not stored, so one reading of the clock and of the random source stands for those of every pass.\<close>

partial_function (option) redis_BeginIdempotency ::
    "'x state_codec \<Rightarrow> ('x, 'r) redisState \<Rightarrow> 'r network \<Rightarrow> 8 word list \<Rightarrow> time \<Rightarrow> string \<Rightarrow> string \<Rightarrow> duration \<Rightarrow> duration \<Rightarrow> nat \<Rightarrow> 'r \<Rightarrow> (begin_answer \<times> nat \<times> 'r) option" where
  "redis_BeginIdempotency C S N rand now key bodyHash recordTTL claimTTL i s =
     (case begin_pass C S N rand now key bodyHash recordTTL claimTTL i s of
        (BeginDone answer, j, s) \<Rightarrow> Some (answer, j, s)
      | (BeginAgain, j, s) \<Rightarrow> redis_BeginIdempotency C S N rand now key bodyHash recordTTL claimTTL j s)"

text \<open>The error that a script's answer stands for.\<close>

definition script_error :: "int64 option \<Rightarrow> state_error option" where
  "script_error answer = (case answer of
     None \<Rightarrow> Some StateUnavailable
   | Some result \<Rightarrow> if result = - 1 then Some errStateNotFound else if result = - 2 then Some errStateConflict else None)"

definition redis_CompleteIdempotency ::
    "'x state_codec \<Rightarrow> ('x, 'r) redisState \<Rightarrow> 'r network \<Rightarrow> time \<Rightarrow> string \<Rightarrow> string \<Rightarrow> string \<Rightarrow> string \<Rightarrow> duration \<Rightarrow> nat \<Rightarrow> 'r \<Rightarrow> state_error option \<times> nat \<times> 'r" where
  "redis_CompleteIdempotency C S N now key bodyHash claimToken searchID ttl i s =
     (let expiresAt = now + ttl; (recordKey, fingerprintKey) = idempotencyRedisKeys key
      in case state_script N i (completeIdempotencyScript C (rx_client S) recordKey fingerprintKey bodyHash claimToken searchID
             (jp_time (cd_parts C) expiresAt) (durationMilliseconds ttl)) s of
           (answer, rest) \<Rightarrow> (script_error answer, rest))"

definition redis_ForgetIdempotency ::
    "'x state_codec \<Rightarrow> ('x, 'r) redisState \<Rightarrow> 'r network \<Rightarrow> string \<Rightarrow> string \<Rightarrow> nat \<Rightarrow> 'r \<Rightarrow> state_error option \<times> nat \<times> 'r" where
  "redis_ForgetIdempotency C S N key claimToken i s =
     (let (recordKey, fingerprintKey) = idempotencyRedisKeys key
      in case state_script N i (forgetIdempotencyScript C (rx_client S) recordKey fingerprintKey claimToken) s of
           (answer, rest) \<Rightarrow> (script_error answer, rest))"

definition redis_SetOwner :: "'x state_codec \<Rightarrow> ('x, 'r) redisState \<Rightarrow> 'r network \<Rightarrow> string \<Rightarrow> string \<Rightarrow> duration \<Rightarrow> nat \<Rightarrow> 'r \<Rightarrow> state_error option \<times> nat \<times> 'r" where
  "redis_SetOwner C S N searchID owner ttl i s =
     (case redis_send N i (\<lambda>t s. ((), rd_SET (rx_client S) t (owner_key searchID) (cd_raw C owner) ttl s)) s of
        (Inl _, s) \<Rightarrow> (Some StateUnavailable, Suc i, s)
      | (Inr _, s) \<Rightarrow> (None, Suc i, s))"

definition redis_Owns :: "'x state_codec \<Rightarrow> ('x, 'r) redisState \<Rightarrow> 'r network \<Rightarrow> string \<Rightarrow> string \<Rightarrow> nat \<Rightarrow> 'r \<Rightarrow> (bool \<times> state_error option) \<times> nat \<times> 'r" where
  "redis_Owns C S N searchID owner i s =
     (case get S N i (owner_key searchID) s of
        (Inl _, s) \<Rightarrow> ((owner = [], Some StateUnavailable), Suc i, s)
      | (Inr None, s) \<Rightarrow> ((False, None), Suc i, s)
      | (Inr (Some value), s) \<Rightarrow> ((cd_text C value = owner, None), Suc i, s))"

definition redis_DeleteOwner :: "('x, 'r) redisState \<Rightarrow> 'r network \<Rightarrow> string \<Rightarrow> nat \<Rightarrow> 'r \<Rightarrow> state_error option \<times> nat \<times> 'r" where
  "redis_DeleteOwner S N searchID i s =
     (case redis_send N i (\<lambda>t s. ((), rd_DEL (rx_client S) t [owner_key searchID] s)) s of
        (Inl _, s) \<Rightarrow> (Some StateUnavailable, Suc i, s)
      | (Inr _, s) \<Rightarrow> (None, Suc i, s))"

text \<open>A script that fails answers zero.\<close>

definition redis_Allow :: "('x, 'r) redisState \<Rightarrow> 'r network \<Rightarrow> string \<Rightarrow> int \<Rightarrow> duration \<Rightarrow> nat \<Rightarrow> 'r \<Rightarrow> (bool \<times> state_error option) \<times> nat \<times> 'r" where
  "redis_Allow S N key limit window i s =
     (case state_script N i (rateLimitScript (rx_client S) (rate_key key) (quot64 window 1000000)) s of
        (None, rest) \<Rightarrow> ((0 \<le> limit, Some StateUnavailable), rest)
      | (Some number, rest) \<Rightarrow> ((number \<le> limit, None), rest))"

section \<open>Commands of other replicas\<close>

text \<open>The commands with an effect that operations send, each with the server's time.\<close>

datatype 'x edge_command =
    CmdFingerprint time string 'x duration
  | CmdClaim time string 'x duration
  | CmdComplete time string string string string string int64
  | CmdForget time string string
  | CmdSetOwner time string 'x duration
  | CmdDeleteOwner time string
  | CmdAllow time string int64

fun command_time :: "'x edge_command \<Rightarrow> time" where
  "command_time (CmdFingerprint t k x ttl) = t"
| "command_time (CmdClaim t k x ttl) = t"
| "command_time (CmdComplete t k body token sid expires ttl) = t"
| "command_time (CmdForget t k token) = t"
| "command_time (CmdSetOwner t sid x ttl) = t"
| "command_time (CmdDeleteOwner t sid) = t"
| "command_time (CmdAllow t k window) = t"

fun command_step :: "'x state_codec \<Rightarrow> ('x, 'r) redis \<Rightarrow> 'r \<Rightarrow> 'x edge_command \<Rightarrow> 'r" where
  "command_step C R s (CmdFingerprint t k x ttl) = snd (rd_SETNX R t (fingerprint_key k) x ttl s)"
| "command_step C R s (CmdClaim t k x ttl) = snd (rd_SETNX R t (record_key k) x ttl s)"
| "command_step C R s (CmdComplete t k body token sid expires ttl) =
     snd (completeIdempotencyScript C R (record_key k) (fingerprint_key k) body token sid expires ttl t s)"
| "command_step C R s (CmdForget t k token) = snd (forgetIdempotencyScript C R (record_key k) (fingerprint_key k) token t s)"
| "command_step C R s (CmdSetOwner t sid x ttl) = rd_SET R t (owner_key sid) x ttl s"
| "command_step C R s (CmdDeleteOwner t sid) = rd_DEL R t [owner_key sid] s"
| "command_step C R s (CmdAllow t k window) = snd (rateLimitScript R (rate_key k) window t s)"

text \<open>A command that does not present the claim \<open>token\<close> of \<open>key\<close>.\<close>

fun not_holder :: "string \<Rightarrow> string \<Rightarrow> 'x edge_command \<Rightarrow> bool" where
  "not_holder key token (CmdComplete t k body token' sid expires ttl) = (k \<noteq> key \<or> token' \<noteq> token)"
| "not_holder key token (CmdForget t k token') = (k \<noteq> key \<or> token' \<noteq> token)"
| "not_holder key token _ = True"

text \<open>A network on which the commands \<open>others i\<close> run after command \<open>i\<close>.\<close>

definition shared_network :: "'x state_codec \<Rightarrow> ('x, 'r) redis \<Rightarrow> (nat \<Rightarrow> time) \<Rightarrow> (nat \<Rightarrow> redis_fault) \<Rightarrow> (nat \<Rightarrow> 'x edge_command list) \<Rightarrow> 'r network" where
  "shared_network C R clock fault others = \<lparr> nw_now = clock, nw_fault = fault, nw_other = (\<lambda>i s. foldl (command_step C R) s (others i)) \<rparr>"

section \<open>Keys\<close>

lemma edge_keys_differ [simp]:
  "record_key k \<noteq> fingerprint_key k'" "fingerprint_key k \<noteq> record_key k'" "record_key k \<noteq> owner_key sid" "owner_key sid \<noteq> record_key k"
  "record_key k \<noteq> rate_key k'" "rate_key k' \<noteq> record_key k" "rate_key k \<noteq> fingerprint_key k'" "fingerprint_key k' \<noteq> rate_key k"
  "rate_key k \<noteq> owner_key sid" "owner_key sid \<noteq> rate_key k"
  "owner_key sid \<noteq> fingerprint_key k" "fingerprint_key k \<noteq> owner_key sid"
proof -
  have last_char: "last (record_key k) = CHR ''d''" "last (fingerprint_key k) = CHR ''t''" for k by (simp_all add: idempotencyRedisKeys_def Let_def)
  have "last (record_key k) \<noteq> last (fingerprint_key k')" for k k' by (simp add: last_char)
  then show "record_key k \<noteq> fingerprint_key k'" "fingerprint_key k \<noteq> record_key k'" by metis+
qed (simp_all add: idempotencyRedisKeys_def owner_key_def rate_key_def Let_def)

lemma keys_injective [simp]:
  "record_key k = record_key k' \<longleftrightarrow> k = k'" "fingerprint_key k = fingerprint_key k' \<longleftrightarrow> k = k'" "owner_key k = owner_key k' \<longleftrightarrow> k = k'"
  "rate_key k = rate_key k' \<longleftrightarrow> k = k'"
  by (simp_all add: idempotencyRedisKeys_def owner_key_def rate_key_def Let_def)

lemma New_nonempty [simp]: "New rand \<noteq> []"
  by (simp add: New_def formatV4_def Let_def)

section \<open>Documents of records\<close>

text \<open>The fields of a pending and of a completed document.\<close>

definition pending_document :: "parts \<Rightarrow> string \<Rightarrow> string \<Rightarrow> time \<Rightarrow> json \<Rightarrow> bool" where
  "pending_document P body token expiry j \<longleftrightarrow> (\<exists>fs. j = JObject fs \<and> map_of fs ''bodyHash'' = Some (JString body)
     \<and> map_of fs ''claimToken'' = Some (JString token) \<and> map_of fs ''pending'' = Some (JBool True) \<and> map_of fs ''searchId'' = None
     \<and> map_of fs ''expiresAt'' = Some (JString (jp_time P expiry)))"

definition completed_document :: "parts \<Rightarrow> string \<Rightarrow> string \<Rightarrow> time \<Rightarrow> json \<Rightarrow> bool" where
  "completed_document P body sid expiry j \<longleftrightarrow> (\<exists>fs. j = JObject fs \<and> map_of fs ''bodyHash'' = Some (JString body)
     \<and> map_of fs ''claimToken'' = None \<and> map_of fs ''pending'' = Some (JBool False) \<and> map_of fs ''searchId'' = Some (JString sid)
     \<and> map_of fs ''expiresAt'' = Some (JString (jp_time P expiry)))"

definition time_ok :: "'x state_codec \<Rightarrow> time \<Rightarrow> bool" where
  "time_ok C t \<longleftrightarrow> jp_read_time (cd_parts C) (jp_time (cd_parts C) t) = Some t"

lemma json_record_pending:
  "token \<noteq> [] \<Longrightarrow> pending_document P body token expiry
     (json_record P \<lparr> ir_BodyHash = body, ir_ClaimToken = token, ir_Pending = True, ir_SearchID = [], ir_ExpiresAt = expiry \<rparr>)"
  by (simp add: pending_document_def json_record_def omitted_def nonempty_def)

lemma lua_assign_field: "lua_assign name v (JObject fs) = JObject gs \<Longrightarrow> map_of gs k = (if k = name then v else map_of fs k)"
  by (cases v; cases "k = name") (auto simp: lua_assign_def map_of_without_key map_of_eq_None_iff)

lemma lua_assign_object: "\<exists>gs. lua_assign name v (JObject fs) = JObject gs"
  by (simp add: lua_assign_def)

lemma read_present: "map_of fs name = Some j \<Longrightarrow> j \<noteq> JNull \<Longrightarrow> read_field fs name zero read = read j"
  and read_absent: "map_of fs name = None \<Longrightarrow> read_field fs name zero read = Some zero"
  by (simp_all add: read_field_def)

lemma read_pending:
  "pending_document P body token expiry j \<Longrightarrow> jp_read_time P (jp_time P expiry) = Some expiry \<Longrightarrow>
    read_record P j = Some \<lparr> ir_BodyHash = body, ir_ClaimToken = token, ir_Pending = True, ir_SearchID = [], ir_ExpiresAt = expiry \<rparr>"
  by (auto simp: pending_document_def read_present read_absent read_time_def)

lemma read_completed:
  "completed_document P body sid expiry j \<Longrightarrow> jp_read_time P (jp_time P expiry) = Some expiry \<Longrightarrow>
    read_record P j = Some \<lparr> ir_BodyHash = body, ir_ClaimToken = [], ir_Pending = False, ir_SearchID = sid, ir_ExpiresAt = expiry \<rparr>"
  by (auto simp: completed_document_def read_present read_absent read_time_def)

text \<open>What the script makes of a pending document, before and after its encoding.\<close>

definition completion :: "string \<Rightarrow> string \<Rightarrow> json \<Rightarrow> json" where
  "completion sid expires document = lua_assign ''expiresAt'' (Some (JString expires)) (lua_assign ''searchId'' (Some (JString sid))
     (lua_assign ''claimToken'' None (lua_assign ''pending'' (Some (JBool False)) document)))"

lemma completion_document:
  assumes "pending_document P body token expiry j"
  shows "completed_document P body sid expiry' (completion sid (jp_time P expiry') j)"
proof -
  obtain fs where fs: "j = JObject fs" "map_of fs ''bodyHash'' = Some (JString body)" using assms by (auto simp: pending_document_def)
  obtain f1 where f1: "lua_assign ''pending'' (Some (JBool False)) (JObject fs) = JObject f1" using lua_assign_object by blast
  obtain f2 where f2: "lua_assign ''claimToken'' None (JObject f1) = JObject f2" using lua_assign_object by blast
  obtain f3 where f3: "lua_assign ''searchId'' (Some (JString sid)) (JObject f2) = JObject f3" using lua_assign_object by blast
  obtain f4 where f4: "lua_assign ''expiresAt'' (Some (JString (jp_time P expiry'))) (JObject f3) = JObject f4" using lua_assign_object by blast
  note fields = lua_assign_field [OF f1] lua_assign_field [OF f2] lua_assign_field [OF f3] lua_assign_field [OF f4]
  show ?thesis by (simp add: completed_document_def completion_def fs f1 f2 f3 f4 fields)
qed

lemma completed_written:
  assumes "completed_document P body sid expiry j" "written num j u"
  shows "completed_document P body sid expiry u"
proof -
  obtain fs where fs: "j = JObject fs" and fields: "map_of fs ''bodyHash'' = Some (JString body)" "map_of fs ''claimToken'' = None"
    "map_of fs ''pending'' = Some (JBool False)" "map_of fs ''searchId'' = Some (JString sid)" "map_of fs ''expiresAt'' = Some (JString (jp_time P expiry))"
    using assms(1) by (auto simp: completed_document_def)
  from assms(2) fs obtain gs where gs: "u = JObject gs" "\<And>k. rel_option (written num) (map_of fs k) (map_of gs k)" by (auto elim: written_objectE)
  show ?thesis
    using gs(2) [of "''bodyHash''"] gs(2) [of "''claimToken''"] gs(2) [of "''pending''"] gs(2) [of "''searchId''"] gs(2) [of "''expiresAt''"]
    by (simp add: completed_document_def gs(1) fields option_rel_Some1 written_leaf)
qed

end
