(* ===== verification/RedisEdge.thy ===== *)
theory RedisEdge
  imports RedisState
begin

text \<open>
  What the edge's state in Redis guarantees to all replicas, over any server and network that keep to their documentation: a claim is exclusive and a
  completion final, although the commands of different replicas interleave; a call ends when the request has a deadline; and the requests
  of a rate are counted for all replicas together.
\<close>

section \<open>A record outlives the commands of others\<close>

definition kept :: "('r \<Rightarrow> time \<Rightarrow> string \<Rightarrow> 'x redis_value option) \<Rightarrow> 'x \<Rightarrow> time \<Rightarrow> string \<Rightarrow> 'r \<Rightarrow> bool" where
  "kept db x until key s \<longleftrightarrow> (\<forall>t < until. db s t (record_key key) = Some (RText x))"

text \<open>A text that the scripts leave alone, unless they are called with \<open>token\<close>.\<close>

definition locked :: "'x state_codec \<Rightarrow> string \<Rightarrow> 'x \<Rightarrow> bool" where
  "locked C token x \<longleftrightarrow> (\<exists>j. jt_parse (cd_json C) x = Some j
     \<and> ((\<exists>body expiry. pending_document (cd_parts C) body token expiry j) \<or> (\<exists>body sid expiry. completed_document (cd_parts C) body sid expiry j)))"

definition completed_text :: "'x state_codec \<Rightarrow> 'x \<Rightarrow> bool" where
  "completed_text C x \<longleftrightarrow> (\<exists>j body sid expiry. jt_parse (cd_json C) x = Some j \<and> completed_document (cd_parts C) body sid expiry j)"

locale redis_edge = redis_server R db expired + cjson "cd_json C" num
  for R :: "('x, 'r) redis" and db :: "'r \<Rightarrow> time \<Rightarrow> string \<Rightarrow> 'x redis_value option" and expired and C :: "'x state_codec" and num +
  assumes read_back: "cd_text C (cd_raw C v) = v"
begin

lemma GET_kept: "kept db x until key s \<Longrightarrow> t < until \<Longrightarrow> rd_GET R t (record_key key) s = Some x"
  by (simp add: kept_def GET_text)

lemma complete_frame:
  "k \<noteq> recordKey \<Longrightarrow> k \<noteq> fingerprintKey \<Longrightarrow> db (snd (completeIdempotencyScript C R recordKey fingerprintKey body token sid expires ttl now s)) t k = db s t k"
  by (simp add: completeIdempotencyScript_def SET Let_def split: option.split)

lemma forget_frame:
  "k \<noteq> recordKey \<Longrightarrow> k \<noteq> fingerprintKey \<Longrightarrow> db (snd (forgetIdempotencyScript C R recordKey fingerprintKey token now s)) t k = db s t k"
  by (simp add: forgetIdempotencyScript_def DEL split: option.split)

lemma rate_frame: "k \<noteq> key \<Longrightarrow> db (snd (rateLimitScript R key window now s)) t k = db s t k"
  using INCR_other [of k key now s t] by (cases "rd_INCR R now key s") (simp add: rateLimitScript_def PEXPIRE)

lemma scripts_refuse:
  assumes "rd_GET R now recordKey s = Some x"
    and "locked C token x" "token' \<noteq> token \<or> completed_text C x"
  shows "completeIdempotencyScript C R recordKey fingerprintKey body token' sid expires ttl now s = (Some (- 2), s)"
    and "forgetIdempotencyScript C R recordKey fingerprintKey token' now s = (Some (- 2), s)"
proof -
  obtain j where j: "jt_parse (cd_json C) x = Some j" "lua_field ''claimToken'' j \<noteq> Some (JString token')"
    using assms(2,3) by (fastforce simp: locked_def completed_text_def pending_document_def completed_document_def lua_field_def)
  then show "completeIdempotencyScript C R recordKey fingerprintKey body token' sid expires ttl now s = (Some (- 2), s)"
    and "forgetIdempotencyScript C R recordKey fingerprintKey token' now s = (Some (- 2), s)"
    using assms(1) lua_parses [OF j(1)] by (simp_all add: completeIdempotencyScript_def forgetIdempotencyScript_def)
qed

lemma step_keeps:
  assumes kept: "kept db x until key s" and time: "command_time c < until" and locked: "locked C token x"
    and others: "not_holder key token c \<or> completed_text C x"
  shows "kept db x until key (command_step C R s c)"
proof (cases c)
  case (CmdClaim t k y ttl)
  then show ?thesis using kept time by (auto simp: kept_def SETNX_db)
next
  case (CmdComplete t k body token' sid expires ttl)
  show ?thesis
  proof (cases "k = key")
    case True
    then show ?thesis using kept others scripts_refuse(1) [OF GET_kept [OF kept] locked] time CmdComplete by auto
  qed (use kept CmdComplete in \<open>simp add: kept_def complete_frame\<close>)
next
  case (CmdForget t k token')
  show ?thesis
  proof (cases "k = key")
    case True
    then show ?thesis using kept others scripts_refuse(2) [OF GET_kept [OF kept] locked] time CmdForget by auto
  qed (use kept CmdForget in \<open>simp add: kept_def forget_frame\<close>)
qed (use kept in \<open>simp_all add: kept_def SETNX_db SET DEL rate_frame\<close>)

lemma run_keeps:
  "kept db x until key s \<Longrightarrow> locked C token x \<Longrightarrow> list_all (\<lambda>c. command_time c < until) cs \<Longrightarrow>
    list_all (not_holder key token) cs \<or> completed_text C x \<Longrightarrow>
    kept db x until key (foldl (command_step C R) s cs)"
proof (induction cs arbitrary: s)
  case (Cons c cs)
  have "kept db x until key (command_step C R s c)" using Cons.prems by (intro step_keeps [OF Cons.prems(1) _ Cons.prems(2)]) auto
  then show ?case using Cons by auto
qed simp

section \<open>What the operations answer\<close>

text \<open>While a record is kept, \<open>BeginIdempotency\<close> ends in its first pass with what the record says.\<close>

lemma begin_kept:
  assumes kept: "kept db x until key s" and S: "rx_client S = R" and time: "nw_now N i < until"
  shows "\<exists>answer j s'. redis_BeginIdempotency C S N rand now key body recordTTL claimTTL i s = Some (answer, j, s')
    \<and> (answer = existingIdempotency C x body \<or> answer = (None, [], Some StateUnavailable) \<and> (\<exists>k. nw_fault N k \<noteq> NoFault))"
proof -
  obtain r s1 where got: "get S N i (record_key key) s = (r, s1)" by fastforce
  then have r: "r = Inr (Some x) \<or> nw_fault N i \<noteq> NoFault \<and> (\<exists>err. r = Inl err)"
    using GET_kept [OF kept time] S by (cases "nw_fault N i") (auto simp: get_def redis_send_def)
  obtain q s2 where nx: "set_nx S N (Suc i) (fingerprint_key key) (cd_raw C body) recordTTL s1 = (q, s2)" by fastforce
  then have "(\<exists>b. q = Inr b) \<or> nw_fault N (Suc i) \<noteq> NoFault \<and> (\<exists>err. q = Inl err)"
    by (cases "nw_fault N (Suc i)") (auto simp: set_nx_def redis_send_def split: prod.splits)
  with r consider err where "r = Inl err" "nw_fault N i \<noteq> NoFault"
    | b where "r = Inr (Some x)" "q = Inr b" | err where "r = Inr (Some x)" "q = Inl err" "nw_fault N (Suc i) \<noteq> NoFault" by blast
  moreover obtain found token err where answer: "existingIdempotency C x body = (found, token, err)" by (metis prod_cases3)
  ultimately show ?thesis
  proof cases
    case 1
    then show ?thesis using got by (subst redis_BeginIdempotency.simps) (auto simp: begin_pass_def begin_failed_def split_beta)
  next
    case 2
    then show ?thesis using got nx answer by (subst redis_BeginIdempotency.simps) (auto simp: begin_pass_def begin_failed_def split_beta Let_def)
  next
    case 3
    then show ?thesis using got nx answer by (subst redis_BeginIdempotency.simps) (auto simp: begin_pass_def begin_failed_def split_beta Let_def)
  qed
qed

text \<open>A call that ends has a last pass.\<close>

lemma begin_last:
  "redis_BeginIdempotency C' S N rand now key body recordTTL claimTTL i s = Some r \<Longrightarrow>
    \<exists>i0 s0. begin_pass C' S N rand now key body recordTTL claimTTL i0 s0 = (BeginDone (fst r), snd r)"
proof (induction rule: redis_BeginIdempotency.raw_induct [rotated, consumes 1, case_names pass])
  case (pass f C' S N rand now key body recordTTL claimTTL i s r)
  obtain q j s1 where round: "begin_pass C' S N rand now key body recordTTL claimTTL i s = (q, j, s1)" by (metis prod_cases3)
  show ?case
  proof (cases q)
    case (BeginDone answer)
    then show ?thesis using pass(2) round by (intro exI [of _ i] exI [of _ s]) auto
  next
    case BeginAgain
    then show ?thesis using pass(1) [of C' S N rand now key body recordTTL claimTTL j s1 r] pass(2) round by simp
  qed
qed

lemma existing_not_granted: "existingIdempotency C' x body \<noteq> (None, token, None)"
  by (auto simp: existingIdempotency_def split: option.split)

text \<open>A granted claim was stored by the last command.\<close>

lemma claim_stored:
  assumes "begin_claim C S N rand now key body claimTTL i s = (BeginDone (None, token, None), j, s')" "rx_client S = R"
  shows "token = New rand \<and> j = Suc i \<and> (\<exists>s0. s' = nw_other N i s0
    \<and> kept db (jt_print (cd_json C) (json_record (cd_parts C) \<lparr> ir_BodyHash = body, ir_ClaimToken = New rand, ir_Pending = True, ir_SearchID = [],
        ir_ExpiresAt = now + claimTTL \<rparr>)) (nw_now N i + claimTTL) key s0)"
proof -
  let ?x = "jt_print (cd_json C) (json_record (cd_parts C) \<lparr> ir_BodyHash = body, ir_ClaimToken = New rand, ir_Pending = True, ir_SearchID = [],
        ir_ExpiresAt = now + claimTTL \<rparr>)"
  obtain q s1 where nx: "set_nx S N i (record_key key) ?x claimTTL s = (q, s1)" by fastforce
  then have "token = New rand \<and> j = Suc i \<and> set_nx S N i (record_key key) ?x claimTTL s = (Inr True, s')"
    using assms(1) by (auto simp: begin_claim_def begin_failed_def split_beta Let_def existing_not_granted
      split: sum.splits bool.splits option.splits if_splits prod.splits)
  then have stored: "token = New rand" "j = Suc i" "fst (rd_SETNX R (nw_now N i) (record_key key) ?x claimTTL s)"
    "s' = nw_other N i (snd (rd_SETNX R (nw_now N i) (record_key key) ?x claimTTL s))"
    by (cases "nw_fault N i"; auto simp: set_nx_def redis_send_def assms(2) split: prod.splits)+
  then have "db s (nw_now N i) (record_key key) = None" by (simp add: SETNX split: if_splits)
  then have "kept db ?x (nw_now N i + claimTTL) key (snd (rd_SETNX R (nw_now N i) (record_key key) ?x claimTTL s))"
    by (simp add: kept_def SETNX_db not_yet)
  with stored show ?thesis by blast
qed

lemma pass_granted:
  assumes "begin_pass C S N rand now key body recordTTL claimTTL i s = (BeginDone (None, token, None), j, s')"
  shows "\<exists>i0 s0. begin_claim C S N rand now key body claimTTL i0 s0 = (BeginDone (None, token, None), j, s')"
  using assms
  by (auto simp: begin_pass_def begin_fingerprint_def begin_failed_def existing_not_granted Let_def
      split: sum.splits bool.splits option.splits if_splits prod.splits)

lemma granted_kept:
  assumes "redis_BeginIdempotency C S N rand now key body recordTTL claimTTL i s = Some ((None, token, None), j, s')" "rx_client S = R"
  shows "token = New rand \<and> (\<exists>s0. s' = nw_other N (j - 1) s0
    \<and> kept db (jt_print (cd_json C) (json_record (cd_parts C) \<lparr> ir_BodyHash = body, ir_ClaimToken = token, ir_Pending = True, ir_SearchID = [],
        ir_ExpiresAt = now + claimTTL \<rparr>)) (nw_now N (j - 1) + claimTTL) key s0)"
proof -
  obtain i0 s0 where "begin_claim C S N rand now key body claimTTL i0 s0 = (BeginDone (None, token, None), j, s')"
    using begin_last [OF assms(1)] pass_granted by fastforce
  from claim_stored [OF this assms(2)] show ?thesis by auto
qed

lemma existing_pending:
  assumes "jt_parse (cd_json C) x = Some j" "pending_document (cd_parts C) body token expiry j" "time_ok C expiry"
  shows "existingIdempotency C x body' = (if body' = body then (None, token, Some errStateInProgress) else (None, [], Some errStateConflict))"
  using assms read_pending by (simp add: existingIdempotency_def time_ok_def)

lemma existing_completed:
  assumes "jt_parse (cd_json C) x = Some j" "completed_document (cd_parts C) body sid expiry j" "time_ok C expiry"
  shows "existingIdempotency C x body' = (if body' = body
    then (Some \<lparr> ir_BodyHash = body, ir_ClaimToken = [], ir_Pending = False, ir_SearchID = sid, ir_ExpiresAt = expiry \<rparr>, [], None)
    else (None, [], Some errStateConflict))"
  using assms read_completed by (simp add: existingIdempotency_def time_ok_def)

text \<open>The holder completes a kept claim.\<close>

lemma complete_kept:
  assumes kept: "kept db x until key s" and x: "jt_parse (cd_json C) x = Some j" "pending_document (cd_parts C) body token expiry j"
    and S: "rx_client S = R" and sent: "nw_now N i < until" "nw_fault N i = NoFault"
  obtains y j' s' where "redis_CompleteIdempotency C S N now key body token sid ttl i s = (None, Suc i, nw_other N i s')"
    "kept db y (nw_now N i + ms (durationMilliseconds ttl)) key s'" "jt_parse (cd_json C) y = Some j'"
    "completed_document (cd_parts C) body sid (now + ttl) j'"
proof -
  let ?doc = "completion sid (jp_time (cd_parts C) (now + ttl)) j"
  let ?ttl = "ms (durationMilliseconds ttl)"
  obtain j' where j': "jt_parse (cd_json C) (jt_lua_encode (cd_json C) ?doc) = Some j'" "written num ?doc j'" using lua_encode by blast
  have fields: "lua_field ''bodyHash'' j = Some (JString body)" "lua_field ''claimToken'' j = Some (JString token)" "lua_field ''pending'' j = Some (JBool True)"
    using x(2) by (auto simp: pending_document_def lua_field_def)
  let ?s' = "rd_SET R (nw_now N i) (fingerprint_key key) (cd_raw C body) ?ttl (rd_SET R (nw_now N i) (record_key key) (jt_lua_encode (cd_json C) ?doc) ?ttl s)"
  have "completeIdempotencyScript C R (record_key key) (fingerprint_key key) body token sid (jp_time (cd_parts C) (now + ttl)) (durationMilliseconds ttl) (nw_now N i) s
      = (Some 1, ?s')"
    using GET_kept [OF kept sent(1)] lua_parses [OF x(1)] by (simp add: completeIdempotencyScript_def fields completion_def Let_def)
  then have "redis_CompleteIdempotency C S N now key body token sid ttl i s = (None, Suc i, nw_other N i ?s')"
    using sent(2) by (simp add: redis_CompleteIdempotency_def state_script_def redis_send_def script_error_def split_beta S Let_def)
  moreover have "kept db (jt_lua_encode (cd_json C) ?doc) (nw_now N i + ?ttl) key ?s'" by (simp add: kept_def SET not_yet)
  ultimately show ?thesis using j' completed_written [OF completion_document [OF x(2)] j'(2)] by (intro that)
qed

text \<open>With a deadline for the request every call ends: from some command on, none is sent.\<close>

lemma deadline_stops:
  assumes "\<exists>err. nw_fault N i = NotSent err"
  shows "\<exists>j s'. begin_pass C S N rand now key body recordTTL claimTTL i s = (begin_failed, j, s')"
  using assms by (auto simp: begin_pass_def get_def redis_send_def begin_failed_def split_beta)

lemma pass_advances: "begin_pass C S N rand now key body recordTTL claimTTL i s = (q, j, s') \<Longrightarrow> i < j"
  by (auto simp: begin_pass_def begin_fingerprint_def begin_claim_def begin_failed_def Let_def
      split: sum.splits bool.splits option.splits if_splits prod.splits)

lemma begin_ends:
  assumes "\<And>i. n \<le> i \<Longrightarrow> \<exists>err. nw_fault N i = NotSent err"
  shows "\<exists>r. redis_BeginIdempotency C S N rand now key body recordTTL claimTTL i s = Some r"
proof (induction "n - i" arbitrary: i s rule: less_induct)
  case less
  obtain q j s' where pass: "begin_pass C S N rand now key body recordTTL claimTTL i s = (q, j, s')" by (metis prod_cases3)
  show ?case
  proof (cases q)
    case (BeginDone answer)
    then show ?thesis using pass by (subst redis_BeginIdempotency.simps) (cases answer, simp)
  next
    case BeginAgain
    have "i < n"
    proof (rule ccontr)
      assume "\<not> i < n"
      then have "\<exists>err. nw_fault N i = NotSent err" using assms by simp
      from deadline_stops [OF this, of S rand now key body recordTTL claimTTL s] show False using pass BeginAgain by (simp add: begin_failed_def)
    qed
    then have "n - j < n - i" using pass_advances [OF pass] by simp
    from less [OF this, of s'] show ?thesis using pass BeginAgain by (subst redis_BeginIdempotency.simps) simp
  qed
qed

section \<open>One limit for all replicas\<close>

lemma rate_first:
  assumes "db s t (rate_key key) = None" "0 < w"
  shows "fst (rateLimitScript R (rate_key key) w t s) = Some 1"
    and "t' < t + ms w \<Longrightarrow> db (snd (rateLimitScript R (rate_key key) w t s)) t' (rate_key key) = Some (RCount 1)"
  using INCR_new [OF assms(1)] assms(2)
  by (cases "rd_INCR R t (rate_key key) s"; simp add: rateLimitScript_def PEXPIRE not_yet)+

lemma rate_next:
  assumes "\<And>t'. t' < until \<Longrightarrow> db s t' (rate_key key) = Some (RCount n)" "t < until" "1 \<le> n" "n < 2 ^ 63 - 1"
  shows "fst (rateLimitScript R (rate_key key) w t s) = Some (n + 1)"
    and "t' < until \<Longrightarrow> db (snd (rateLimitScript R (rate_key key) w t s)) t' (rate_key key) = Some (RCount (n + 1))"
  using INCR [OF assms(1) [OF assms(2)] assms(4)] assms
  by (cases "rd_INCR R t (rate_key key) s"; simp add: rateLimitScript_def)+

lemma rate_untouched:
  assumes "\<And>t w. c \<noteq> CmdAllow t key w"
  shows "db (command_step C R s c) t (rate_key key) = db s t (rate_key key)"
proof (cases c)
  case (CmdAllow t k w)
  then show ?thesis using assms [of t w] by (simp add: rate_frame)
qed (simp_all add: SETNX_db SET DEL complete_frame forget_frame)

end

section \<open>Properties\<close>

interpretation small_edge: redis_edge small_redis small_db "\<lambda>deadline t. deadline \<le> t"
    "\<lparr> cd_json = document_texts, cd_parts = P, cd_raw = JString, cd_text = (\<lambda>j. the (read_string j)) \<rparr>" "\<lambda>s. s"
  for P
  by (intro redis_edge.intro small.redis_server_axioms redis_edge_axioms.intro) (simp_all add: documents.cjson_axioms)

text \<open>Claims are exclusive and completions final, across all replicas. Once \<open>BeginIdempotency\<close> grants a claim, then whatever commands of other
  replicas run before the claim expires, in between its own commands too, and whatever fails: every other call for the key ends, and it is told that the
  request is in progress (with the same body) or that it conflicts, or that the state is unavailable, which takes a failure of the network. The holder
  can complete the claim; and from then on, until the completed record expires, every call with the same body gets the recorded search and every other
  one a conflict, whatever commands run, even with the old token.\<close>

theorem redis_claim_exclusive:
  assumes server: "redis_server R db expired" and texts: "cjson (cd_json C) num" "\<And>v. cd_text C (cd_raw C v) = v" and S: "S = newRedisState R"
    and granted: "redis_BeginIdempotency C S (shared_network C R clock fault others) rand now key body recordTTL claimTTL i s = Some ((None, token, None), j, s1)"
    and times: "until = clock (j - 1) + claimTTL" "time_ok C (now + claimTTL)" "time_ok C (now' + ttl)"
    and between: "list_all (\<lambda>c. command_time c < until \<and> not_holder key token c) (others (j - 1) @ cs)" "s2 = foldl (command_step C R) s1 cs"
    and completed: "redis_CompleteIdempotency C S (shared_network C R clock' fault' others') now' key body token sid ttl i' s2 = (err, j', s3)"
      "clock' i' < until" "fault' i' = NoFault" "expiry = clock' i' + ms (durationMilliseconds ttl)"
    and later: "list_all (\<lambda>c. command_time c < expiry) (others' i' @ cs')" "s4 = foldl (command_step C R) s3 cs'"
  shows "(\<forall>N rand' t body' r c k. nw_now N k < until \<longrightarrow>
      (\<exists>answer n s'. redis_BeginIdempotency C S N rand' t key body' r c k s2 = Some (answer, n, s')
        \<and> (answer = (if body' = body then (None, token, Some errStateInProgress) else (None, [], Some errStateConflict))
          \<or> answer = (None, [], Some StateUnavailable) \<and> (\<exists>m. nw_fault N m \<noteq> NoFault))))
    \<and> err = None
    \<and> (\<forall>N rand' t body' r c k. nw_now N k < expiry \<longrightarrow>
      (\<exists>answer n s'. redis_BeginIdempotency C S N rand' t key body' r c k s4 = Some (answer, n, s')
        \<and> (answer = (if body' = body
              then (Some \<lparr> ir_BodyHash = body, ir_ClaimToken = [], ir_Pending = False, ir_SearchID = sid, ir_ExpiresAt = now' + ttl \<rparr>, [], None)
              else (None, [], Some errStateConflict))
          \<or> answer = (None, [], Some StateUnavailable) \<and> (\<exists>m. nw_fault N m \<noteq> NoFault))))"
proof -
  have edge: "redis_edge R db expired C num" by (intro redis_edge.intro server texts redis_edge_axioms.intro)
  note kept_run = redis_edge.run_keeps [OF edge] and begins = redis_edge.begin_kept [OF edge]
  have client: "rx_client S = R" by (simp add: S newRedisState_def)
  have network: "nw_now (shared_network C R c f a) = c" "nw_fault (shared_network C R c f a) = f"
    "nw_other (shared_network C R c f a) = (\<lambda>i s. foldl (command_step C R) s (a i))" for c f a by (simp_all add: shared_network_def)
  let ?claim = "json_record (cd_parts C) \<lparr> ir_BodyHash = body, ir_ClaimToken = token, ir_Pending = True, ir_SearchID = [], ir_ExpiresAt = now + claimTTL \<rparr>"
  let ?x = "jt_print (cd_json C) ?claim"
  obtain s0 where s0: "token = New rand" "s1 = foldl (command_step C R) s0 (others (j - 1))" "kept db ?x until key s0"
    using redis_edge.granted_kept [OF edge granted client] unfolding network times(1) by blast
  have x: "jt_parse (cd_json C) ?x = Some ?claim" by (rule cjson.parse_print [OF texts(1)])
  have pending: "pending_document (cd_parts C) body token (now + claimTTL) ?claim" by (rule json_record_pending) (simp add: s0(1))
  then have locked: "locked C token ?x" using x by (auto simp: locked_def)
  have "s2 = foldl (command_step C R) s0 (others (j - 1) @ cs)" by (simp add: between(2) s0(2))
  then have held: "kept db ?x until key s2" using kept_run [OF s0(3) locked, of "others (j - 1) @ cs"] between(1) by (simp add: list_all_iff)
  obtain y doc s' where y: "(err, j', s3) = (None, Suc i', foldl (command_step C R) s' (others' i'))" "kept db y expiry key s'"
      "jt_parse (cd_json C) y = Some doc" "completed_document (cd_parts C) body sid (now' + ttl) doc"
    using redis_edge.complete_kept [OF edge held x pending client, of "shared_network C R clock' fault' others'" i' now' sid ttl] completed
    unfolding network by metis
  then have final: "locked C token y" "completed_text C y" by (auto simp: locked_def completed_text_def)
  have "s4 = foldl (command_step C R) s' (others' i' @ cs')" using y(1) by (simp add: later(2))
  then have recorded: "kept db y expiry key s4" using kept_run [OF y(2) final(1), of "others' i' @ cs'"] later(1) final(2) by simp
  show ?thesis
    using begins [OF held client] begins [OF recorded client] y(1) redis_edge.existing_pending [OF edge x pending times(2)]
      redis_edge.existing_completed [OF edge y(3,4) times(3)] by simp
qed

end
