(* ===== verification/Spec2Isabelle.thy ===== *)
theory Spec2Isabelle
  imports EngineProvider EdgeOrchestrator OrchestratorProperties ProviderRoutes ProviderDiscovery AddressSearch RedisEngine RedisEdge
begin

text \<open>
  A verification library for GreenRoute, a service that searches car routes with as little congestion as possible.
  A client sends a route search to the edge; the routing orchestrator (\<open>services/routing-orchestrator\<close>) validates it, creates a
  record in the search store, and runs a worker. The worker asks the provider service for routes within a request
  budget, checks and deduplicates them, evaluates the congestion of each (with a second, traffic-free request where the
  provider gives no classes), ranks them under the hard constraints of the request, and in the green modes probes detours
  around the congested clusters. Each step appends an event to the record; the last one finalizes it. The provider service
  (\<open>services/provider-yandex\<close>) turns a request into calls of Yandex or 2GIS behind a breaker, a bulkhead and quotas, and their answers into
  routes. The library models this path from the domain types to the service loops and proves what it guarantees.

  \<^bold>\<open>Theories and sources\<close> (names of definitions are those of the Go code; a suffix marks the part of a function they model).
  \<^item> \<open>Prelude\<close>: 64-bit wrap-around integers, lists and stable sorting, lexicographic comparison, ASCII strings; the locale
    \<open>three_way\<close> of lawful comparison functions, with the facts on sorting and least elements that every ordering of the program uses.
  \<^item> \<open>Float64\<close>: IEEE double arithmetic on exact rationals with rounding to nearest even, NaN and infinities. Signed zeros
    are merged and products and sums are rounded separately.
  \<^item> \<open>Domain\<close> (\<open>internal/domain\<close>): the data model and the validation of points, requests and routes.
  \<^item> \<open>Scoring\<close>, \<open>Scoring_Evaluate\<close>, \<open>Scoring_Rank\<close> (\<open>internal/scoring\<close>): evaluation of a route from evidence, hard constraints, comparison
    and ranking. Evaluation conserves distance and duration over the classes, fails closed without data, is idempotent and keeps every
    score in range; ranking selects a best admissible route, does not depend on the order of candidates, and is strict in STRICT_GREEN mode.
  \<^item> \<open>Geometry\<close> (\<open>internal/geometry\<close>): distances, densification, similarity, simplification and deduplication. The
    trigonometric functions of the platform are the fields of the record \<open>libm\<close>, and no theorem assumes anything of them.
  \<^item> \<open>Ids\<close> (\<open>internal/ids\<close>), \<open>Contracts\<close> (\<open>internal/contracts\<close>): identifiers and the messages between the services.
  \<^item> \<open>SearchStore\<close> (\<open>internal/searchstore/store.go\<close>): the in-memory store with its event log, as operations on a finite map; times are
    arguments. Replay is complete and in order, terminal results are final, and a created record is read back.
  \<^item> \<open>RedisServer\<close>, \<open>SearchJson\<close>, \<open>RedisStore\<close> (\<open>store.go\<close>): the store in Redis. The commands of the server and the texts of JSON documents are records of
    functions; the locales \<open>redis_server\<close> and \<open>cjson\<close> state what the manuals of Redis and of the Lua library \<open>cjson\<close> say of them, and have a map and the documents
    themselves as interpretations. The scripts and operations are over any of them and any behaviour of the network.
  \<^item> \<open>RedisLog\<close>: the store in Redis keeps the contract \<open>event_log\<close> of the in-memory store for the events that survive the passage through \<open>cjson\<close>;
    \<open>RedisEngine\<close>: the event that opens a search does not, because the accepted result has empty lists, and no reader gets past it.
  \<^item> \<open>Budget\<close> (\<open>budget.go\<close>): the request budget with its leases. Every operation holds the mutex, so concurrency is interleaving; the step
    relation \<open>budget_step\<close> has every order.
  \<^item> \<open>GreenSearch\<close> (\<open>greensearch.go\<close>): congestion clusters, exclusion zones, anchors and the ladder of detour plans.
  \<^item> \<open>ProviderClient\<close> (\<open>provider_client.go\<close>): the contract checks on every provider answer; the HTTP exchange is a parameter.
  \<^item> \<open>GoText\<close>: the functions of Go's \<open>strings\<close> and \<open>strconv\<close> that the provider service uses: splitting, case folding, reading integers
    and floating-point numbers, printing seven decimals.
  \<^item> \<open>Resilience\<close> (\<open>provider-yandex/resilience.go\<close>): the quota window, the cool-down, retry delays, the credential latch, the breaker and the bulkhead, each
    as a state with its operations.
  \<^item> \<open>ProviderService\<close> (\<open>config.go\<close>, \<open>provider.go\<close>, \<open>validation.go\<close>, helpers of \<open>yandex.go\<close>): configuration, errors, the attempt budget and the checks on a request.
  \<^item> \<open>Yandex_Routes\<close>, \<open>Dgis_Routes\<close> (\<open>yandex.go\<close>, \<open>dgis.go\<close>): the decoded answers of the two providers and their normalization into candidates, compared
    with the contract that the orchestrator checks.
  \<^item> \<open>Adapter_Routes\<close> (\<open>Routes\<close> and \<open>doRoute\<close> of both adapters): the retry loop around the guards, with other requests in between. The
    adapters share the loop and differ in a record \<open>adapter_kind\<close>. Its theorems bound the calls of a request and follow an answer from the provider to
    the orchestrator.
  \<^item> \<open>ProviderConfig\<close> (\<open>provider-yandex/config.go\<close>): the variables of the provider service, whose unreadable values must fail the checks.
  \<^item> \<open>Capability_Documents\<close> (\<open>Capabilities\<close> of the three adapters): what they declare of themselves, and how the 2GIS adapter chooses its geocoders.
  \<^item> \<open>Geocoder\<close> (\<open>geocoder.go\<close>, \<open>dgis_geocoder.go\<close>): answers turned into suggestions, and the retry loop that the two geocoders share, as for routes. The
    locale \<open>address_source\<close> states what a source of suggestions promises; both geocoders and the fallback between them are its interpretations.
  \<^item> \<open>Urls\<close>, \<open>ProviderRequests\<close>: the query encoding of Go's \<open>net/url\<close> with its round trip, and the URLs of the requests to the providers. The locale
    \<open>separated_code\<close> states when texts put together with separators are read back; the escaping of queries is its interpretation.
  \<^item> \<open>StubAdapter\<close> (\<open>stub.go\<close>): synthetic routes and suggestions.
  \<^item> \<open>ProviderServer\<close> (\<open>provider-yandex/server.go\<close>): the credential and the handlers over any provider.
  \<^item> \<open>ProviderRoutes\<close>, \<open>ProviderDiscovery\<close>, \<open>AddressSearch\<close>: what the clients in the orchestrator and the edge receive of routes, capabilities and suggestions.
    The locale \<open>address_service\<close> adds to a source the errors that a service can pass on; its interpretation \<open>started\<close> is the configured adapter.
  \<^item> \<open>Environment\<close>, \<open>Httpx\<close>: what the services share: the readers of environment variables, requests, problem documents and JSON bodies
    (\<open>internal/httpx/httpx.go\<close>).
  \<^item> \<open>EdgeState\<close> (\<open>edge-api/state.go\<close>): idempotency claims, owners and rate counters of the edge, as operations on finite maps.
  \<^item> \<open>RedisState\<close> (\<open>redisState\<close> in \<open>edge-api/state.go\<close>): the same state in Redis, command by command; \<open>None\<close> is a call of \<open>BeginIdempotency\<close> that calls
    itself for ever. \<open>RedisEdge\<close>: what it guarantees to replicas that act between the commands of each other; the locale \<open>redis_edge\<close> joins the laws of the server
    and of the texts, and a map is its interpretation. With a deadline on its requests a call ends, claims are exclusive and completions final.
  \<^item> \<open>EdgeConfig\<close> (\<open>edge-api/config.go\<close>): the environment variables, their defaults and the checks that an accepted configuration has passed.
  \<^item> \<open>EdgeGateway\<close> (\<open>auth.go\<close> and the middleware of \<open>server.go\<close>): CORS, the bulkhead, the client's address behind proxies, rate limits, authentication and
    the slots of event streams. \<open>enter\<close> is the middleware up to the handler, \<open>leave\<close> its deferred release; \<open>edge_reach\<close> has every order of requests and streams.
  \<^item> \<open>EdgeSearch\<close> (handlers of \<open>server.go\<close>, \<open>service_client.go\<close>): the contract check of results, and the handlers over any store behind \<open>edgeState\<close>; the
    locale \<open>owner_store\<close> states what they need of a store, and the in-memory store is its interpretation.
  \<^item> \<open>EdgeIdempotency\<close>: each branch of \<open>startSearch\<close> and the claim it leaves; one idempotency key starts one search.
  \<^item> \<open>EdgeContract\<close>: what a search of the engine ends with passes the contract check of the edge.
  \<^item> \<open>Candidates\<close> (\<open>engine.go\<close>, the pure functions): sanitizing of provider routes, control points, the green ranking, event hysteresis and clones.
  \<^item> \<open>GoState\<close>: weakest preconditions for the state monad, in which the engine is written.
  \<^item> \<open>Engine\<close> (\<open>engine.go\<close>): the engine and its operations over a world of engine, store, budget, requests sent and readings of
    the environment.
  \<^item> \<open>OrchestratorConfig\<close> (\<open>routing-orchestrator/config.go\<close>), \<open>OrchestratorServer\<close> (\<open>server.go\<close>): \<open>loadConfig\<close>, the internal credential, and the handlers over the engine
    and its in-memory store; a round of the event stream has the store at its two readings.
  \<^item> \<open>EventStream\<close>: what a client receives while searches run between the readings. \<open>EdgeOrchestrator\<close>: starting and recovering a search across the two
    services. \<open>OrchestratorProperties\<close>: what an accepted configuration means for the running service.
  \<^item> \<open>Engine_Search\<close>, \<open>Engine_Run\<close>: the specifications of the engine's operations, up to the whole worker.
  \<^item> \<open>Engine_Properties\<close>, \<open>Engine_Service\<close>: the guarantees of a search and of the running service.
  \<^item> \<open>EngineProvider\<close>: which requests of a search pass the checks of the provider service, and what a departure in the recent past leads to.
  \<^item> \<open>Examples\<close>: concrete routes and requests for the witnesses.

  \<^bold>\<open>State, environment and concurrency.\<close> A struct is a record with the fields of the source; errors are values; a function that changes shared state
  returns the state or is a program of the state monad. Readings of the clock, cancellation of a context, provider replies and choices of
  the scheduler come from \<open>environment\<close>, an arbitrary function of the number of the reading, so every theorem about
  \<open>run\<close> holds for every behaviour of the provider, the clock and the scheduler. The goroutines of \<open>evaluateAll\<close> are a list of workers stepped in any order; a
  provider call is two steps, so that calls overlap. The invariant \<open>winv\<close> of the world (with the open leases) is carried through all operations; the
  postcondition \<open>outcome\<close> of \<open>run\<close> gives the properties of a search. Over the life of the service the step relation \<open>serving\<close> takes
  starts, ends, cancellations, refreshes and recoveries in any order; workers appear there as one step each.

  \<^bold>\<open>Bounds and fuel.\<close> \<open>run_workers\<close> has three decisions per candidate, because each worker takes at most three steps and a blocked choice runs another one:
  this is proved to be enough. \<open>enhance_loop\<close> recurs on the configured number of iterations and \<open>finalize_loop\<close> on the three attempts, as the loops of the
  code count. \<open>simplify_loop\<close> and the other loops recur on their data. \<open>redis_BeginIdempotency\<close> has no bound in the code and is a partial function; all others
  are total.

  \<^bold>\<open>Simplifications.\<close> Slices are values: sharing of backing arrays is not modelled. Copying through JSON is the identity on values that JSON can hold and
  gives the zero value otherwise, as in the code. The order of iteration over the store's map is an argument. The recovery from a panic in \<open>run\<close> is left out,
  because no operation of the model is partial on the values it meets; the panic that \<open>evaluateAll\<close> isolates, a route without points, is a result.
  White space and the case of letters are those of ASCII. At the edge the checks of a request up to its handler (\<open>enter\<close>), the taking of a stream slot
  (\<open>acquireSSE\<close>) and a run of \<open>startSearch\<close> are one step each.

  \<^bold>\<open>Not modelled.\<close> Process start, the overview handlers and health of the orchestrator and the edge,
  reading of files, metrics and logs, and the audit database of the edge. HTTP exchanges, JSON, SHA-256, HMAC, token verification, parsing of addresses, URLs and durations, the
  mathematical library and the random source are parameters.
\<close>

end
